(* ===== verification/Prelude.thy ===== *)
theory Prelude
  imports Main "HOL-Library.Char_ord" "HOL-Library.List_Lexorder" "HOL-Library.Multiset"
begin

text \<open>
  Shared vocabulary of the development: the exceptions of the server as values, the
  result type with its sequencing operators, the JavaScript list operations the code uses,
  and the ORM collections as data.
\<close>

section \<open>Exceptions and results\<close>

text \<open>
  One constructor per exception class that the modelled code throws (the HTTP exceptions of
  NestJS, the repository's own error classes, plain \<^verbatim>\<open>Error\<close>, and the \<^verbatim>\<open>RangeError\<close> of an exhausted
  call stack); \<open>ForbiddenBecause\<close> is a \<^verbatim>\<open>ForbiddenException\<close> with a message.
  \<open>External\<close> stands for an error raised by code outside the repository (database, storage).
\<close>

datatype exn =
    PlainError string
  | RangeError
  | TypeError
  | BadRequestException string
  | UnauthorizedException string
  | ForbiddenException
  | ForbiddenBecause string
  | ForbiddenCausedBy exn
  | NotFoundException string
  | NotAcceptableException string
  | ConflictException string
  | UnprocessableEntityException string
  | InternalServerErrorException string
  | InternalCausedBy exn string
  | NotImplementedException string
  | ValidationError string
  | EntityNotFoundError string
  | AuthorizationError string
  | ForbiddenOperationError string
  | OAuthMigrationError string string
  | OAuthSSOError string string
  | BruteForcePrevention string int
  | BruteForceError int string
  | LdapConnectionError
  | LdapAlreadyPersistedException string
  | MissingSchoolNumberException string
  | MigrationAlreadyActivatedException string
  | UserAlreadyAssignedToImportUserError
  | External string

type_synonym 'a result = "exn + 'a"

named_theorems result_simps \<open>sequencing of results, unfolded\<close>
named_theorems result_dests \<open>what a successful sequence says about its parts\<close>

definition bindR :: "'a result \<Rightarrow> ('a \<Rightarrow> 'b result) \<Rightarrow> 'b result" where
  "bindR m f = (case m of Inl e \<Rightarrow> Inl e | Inr x \<Rightarrow> f x)"

definition mapR :: "('a \<Rightarrow> 'b) \<Rightarrow> 'a result \<Rightarrow> 'b result" where
  "mapR f m = bindR m (\<lambda>x. Inr (f x))"

text \<open>The short-circuit operators of JavaScript on conditions that may throw.\<close>

definition andR :: "bool result \<Rightarrow> bool result \<Rightarrow> bool result" where
  "andR m n = bindR m (\<lambda>b. if b then n else Inr False)"

definition orR :: "bool result \<Rightarrow> bool result \<Rightarrow> bool result" where
  "orR m n = bindR m (\<lambda>b. if b then Inr True else n)"

definition guardR :: "bool \<Rightarrow> exn \<Rightarrow> unit result" where
  "guardR b e = (if b then Inr () else Inl e)"

primrec mapMR :: "('a \<Rightarrow> 'b result) \<Rightarrow> 'a list \<Rightarrow> 'b list result" where
  "mapMR f [] = Inr []"
| "mapMR f (x # xs) = bindR (f x) (\<lambda>y. bindR (mapMR f xs) (\<lambda>ys. Inr (y # ys)))"

text \<open>\<^verbatim>\<open>xs.some(f)\<close> with a test that may throw.\<close>

primrec someR :: "('a \<Rightarrow> bool result) \<Rightarrow> 'a list \<Rightarrow> bool result" where
  "someR f [] = Inr False"
| "someR f (x # xs) = orR (f x) (someR f xs)"

text \<open>\<^verbatim>\<open>xs.every(f)\<close> with a test that may throw.\<close>

primrec everyR :: "('a \<Rightarrow> bool result) \<Rightarrow> 'a list \<Rightarrow> bool result" where
  "everyR f [] = Inr True"
| "everyR f (x # xs) = andR (f x) (everyR f xs)"

lemma bindR_simps [simp, result_simps]:
  "bindR (Inl e) f = Inl e"
  "bindR (Inr x) f = f x"
  by (simp_all add: bindR_def)

lemma mapR_simps [simp, result_simps]:
  "mapR f (Inl e) = Inl e"
  "mapR f (Inr x) = Inr (f x)"
  by (simp_all add: mapR_def)

lemma andR_simps [simp, result_simps]:
  "andR (Inl e) n = Inl e"
  "andR (Inr True) n = n"
  "andR (Inr False) n = Inr False"
  by (simp_all add: andR_def)

lemma orR_simps [simp, result_simps]:
  "orR (Inl e) n = Inl e"
  "orR (Inr True) n = Inr True"
  "orR (Inr False) n = n"
  by (simp_all add: orR_def)

lemma guardR_simps [simp, result_simps]:
  "guardR True e = Inr ()"
  "guardR False e = Inl e"
  by (simp_all add: guardR_def)

lemma bindR_eq_Inr: "bindR m f = Inr y \<longleftrightarrow> (\<exists>x. m = Inr x \<and> f x = Inr y)"
  by (cases m) auto

lemma bindR_eq_Inl: "bindR m f = Inl e \<longleftrightarrow> m = Inl e \<or> (\<exists>x. m = Inr x \<and> f x = Inl e)"
  by (cases m) auto

lemma mapR_eq_Inr: "mapR f m = Inr y \<longleftrightarrow> (\<exists>x. m = Inr x \<and> y = f x)"
  by (cases m) auto

lemma mapR_eq_Inl: "mapR f m = Inl e \<longleftrightarrow> m = Inl e"
  by (cases m) auto

lemma andR_eq_True [result_dests]: "andR m n = Inr True \<longleftrightarrow> m = Inr True \<and> n = Inr True"
  by (cases m) (auto simp: andR_def)

lemma orR_eq_False [result_dests]: "orR m n = Inr False \<longleftrightarrow> m = Inr False \<and> n = Inr False"
  by (cases m) (auto simp: orR_def)

lemma orR_eq_True [result_dests]:
  "orR m n = Inr True \<longleftrightarrow> m = Inr True \<or> (m = Inr False \<and> n = Inr True)"
  by (cases m) (auto simp: orR_def)

lemma guardR_eq_Inr: "guardR b e = Inr u \<longleftrightarrow> b"
  by (auto simp: guardR_def)

lemma bindR_cong [fundef_cong]:
  "m = m' \<Longrightarrow> (\<And>x. m' = Inr x \<Longrightarrow> f x = f' x) \<Longrightarrow> bindR m f = bindR m' f'"
  by (cases m') auto

lemma mapMR_cong [fundef_cong]:
  "xs = ys \<Longrightarrow> (\<And>x. x \<in> set ys \<Longrightarrow> f x = g x) \<Longrightarrow> mapMR f xs = mapMR g ys"
  by (induction ys arbitrary: xs) auto

lemma mapMR_total: "(\<And>x. x \<in> set xs \<Longrightarrow> f x = Inr (g x)) \<Longrightarrow> mapMR f xs = Inr (map g xs)"
  by (induction xs) auto

lemma mapMR_eq_Inr: "mapMR f xs = Inr ys \<longleftrightarrow> list_all2 (\<lambda>x y. f x = Inr y) xs ys"
  by (induction xs arbitrary: ys) (auto simp: bindR_eq_Inr list_all2_Cons1)

lemma mapMR_each: "mapMR f xs = Inr ys \<Longrightarrow> x \<in> set xs \<Longrightarrow> \<exists>y. f x = Inr y"
  by (induction xs arbitrary: ys) (auto simp: bindR_eq_Inr)

lemma someR_total: "(\<And>x. x \<in> set xs \<Longrightarrow> f x = Inr (g x)) \<Longrightarrow> someR f xs = Inr (list_ex g xs)"
  by (induction xs) (auto simp: orR_def)

lemma someR_True: "someR f xs = Inr True \<Longrightarrow> \<exists>x \<in> set xs. f x = Inr True"
  by (induction xs) (auto simp: orR_eq_True)

lemma someR_False: "someR f xs = Inr False \<Longrightarrow> x \<in> set xs \<Longrightarrow> f x = Inr False"
  by (induction xs) (auto simp: orR_eq_False)

section \<open>JavaScript lists\<close>

text \<open>\<^verbatim>\<open>[...new Set(xs)]\<close>: the first occurrence of each value, in order.\<close>

primrec uniq :: "'a list \<Rightarrow> 'a list" where
  "uniq [] = []"
| "uniq (x # xs) = x # filter (\<lambda>y. y \<noteq> x) (uniq xs)"

lemma set_uniq [simp]: "set (uniq xs) = set xs"
  by (induction xs) auto

lemma distinct_uniq [simp]: "distinct (uniq xs)"
  by (induction xs) auto

lemma length_uniq: "length (uniq xs) = card (set xs)"
  by (metis distinct_card distinct_uniq set_uniq)

lemma uniq_distinct_id: "distinct xs \<Longrightarrow> uniq xs = xs"
  by (induction xs) (auto simp: filter_id_conv)

text \<open>\<^verbatim>\<open>xs.find(p)\<close> is the library's \<^const>\<open>List.find\<close>; its usual consequences.\<close>

lemma find_eq_Some: "List.find P xs = Some x \<Longrightarrow> x \<in> set xs \<and> P x"
  by (induction xs) (auto split: if_splits)

lemma find_eq_None: "List.find P xs = None \<longleftrightarrow> (\<forall>x \<in> set xs. \<not> P x)"
  by (induction xs) auto

lemma find_is_Some: "x \<in> set xs \<Longrightarrow> P x \<Longrightarrow> \<exists>y. List.find P xs = Some y"
  by (induction xs) auto

text \<open>\<^verbatim>\<open>xs.indexOf(x)\<close> with \<open>None\<close> for \<open>-1\<close>, and \<^verbatim>\<open>xs.splice(i, 1)\<close> for \<open>i \<ge> 0\<close>.\<close>

primrec indexOf :: "'a list \<Rightarrow> 'a \<Rightarrow> nat option" where
  "indexOf [] x = None"
| "indexOf (y # ys) x = (if y = x then Some 0 else map_option Suc (indexOf ys x))"

definition removeAt :: "nat \<Rightarrow> 'a list \<Rightarrow> 'a list" where
  "removeAt i xs = take i xs @ drop (Suc i) xs"

lemma indexOf_None: "indexOf xs x = None \<longleftrightarrow> x \<notin> set xs"
  by (induction xs) auto

lemma indexOf_removeAt: "indexOf xs x = Some i \<Longrightarrow> removeAt i xs = remove1 x xs"
  by (induction xs arbitrary: i) (auto simp: removeAt_def split: if_splits)

lemma removeAt_out [simp]: "length xs \<le> i \<Longrightarrow> removeAt i xs = xs"
  by (simp add: removeAt_def)

lemma mset_removeAt: "i < length xs \<Longrightarrow> add_mset (xs ! i) (mset (removeAt i xs)) = mset xs"
  unfolding removeAt_def by (subst (4) id_take_nth_drop) auto

lemma length_removeAt: "i < length xs \<Longrightarrow> length (removeAt i xs) = length xs - 1"
  by (simp add: removeAt_def)

lemma set_removeAt_subset: "set (removeAt i xs) \<subseteq> set xs"
  unfolding removeAt_def using set_take_subset set_drop_subset by fastforce

text \<open>Truthiness of an optional string: \<^verbatim>\<open>undefined\<close> and the empty string are falsy.\<close>

definition truthy :: "string option \<Rightarrow> bool" where
  "truthy s \<longleftrightarrow> s \<noteq> None \<and> s \<noteq> Some []"

text \<open>\<^verbatim>\<open>s || d\<close> on an optional string.\<close>

definition or_default :: "string option \<Rightarrow> string \<Rightarrow> string" where
  "or_default s d = (case s of None \<Rightarrow> d | Some t \<Rightarrow> if t = [] then d else t)"

text \<open>\<^verbatim>\<open>a ?? b\<close>.\<close>

definition nullish :: "'a option \<Rightarrow> 'a \<Rightarrow> 'a" where
  "nullish a b = (case a of None \<Rightarrow> b | Some x \<Rightarrow> x)"

lemma nullish_simps [simp]: "nullish None b = b" "nullish (Some x) b = x"
  by (simp_all add: nullish_def)

text \<open>\<^verbatim>\<open>s.split(sep)\<close> for a separator of one character.\<close>

fun js_split :: "char \<Rightarrow> string \<Rightarrow> string list" where
  "js_split c [] = [[]]"
| "js_split c (x # xs) =
     (if x = c then [] # js_split c xs
      else case js_split c xs of [] \<Rightarrow> [[x]] | y # ys \<Rightarrow> (x # y) # ys)"

lemma js_split_nonempty [simp]: "js_split c xs \<noteq> []"
  by (induction xs) (auto split: list.splits)

lemma js_split_plain: "c \<notin> set xs \<Longrightarrow> js_split c xs = [xs]"
  by (induction xs) auto

lemma js_split_append: "js_split c (xs @ c # ys) = js_split c xs @ js_split c ys"
  by (induction xs) (auto split: list.splits)

section \<open>Objects and collections\<close>

text \<open>
  Every entity has an object identity \<open>oid\<close> (what \<^verbatim>\<open>===\<close> compares) and the database id
  \<open>eid\<close> of \<^verbatim>\<open>BaseEntity\<close>, the empty string standing for an id the database has not assigned yet. A Collection of the ORM is the container it is documented to be:
  the answer of \<^verbatim>\<open>isInitialized(true)\<close> and its items in order, without repetition of an object.
\<close>

type_synonym ref = nat
type_synonym EntityId = string
type_synonym date = int

record entity =
  oid :: ref
  eid :: EntityId

text \<open>\<^verbatim>\<open>BaseEntityWithTimestamps\<close>. The database rewrites \<open>ent_updatedAt\<close> when it saves a changed entity.\<close>

record timestamped = entity +
  ent_createdAt :: date
  ent_updatedAt :: date

definition same_object :: "'a entity_scheme \<Rightarrow> 'b entity_scheme \<Rightarrow> bool" where
  "same_object x y \<longleftrightarrow> oid x = oid y"

record 'a collection =
  coll_initialized :: bool
  coll_items :: "'a list"

definition coll_of :: "'a list \<Rightarrow> 'a collection" where
  "coll_of xs = \<lparr>coll_initialized = True, coll_items = xs\<rparr>"

lemma coll_of_sel [simp]: "coll_initialized (coll_of xs)" "coll_items (coll_of xs) = xs"
  by (simp_all add: coll_of_def)

end
