(* ===== verification/Users.thy ===== *)
theory Users
  imports Prelude
begin

text \<open>
  The user side of the domain model: the enum of permissions, roles (which nest), schools,
  users and teams, with the constructors of their entity classes
  (\<^verbatim>\<open>shared/domain/entity/{school,role,user,team}.entity.ts\<close>).
\<close>

section \<open>Permissions and role names\<close>

text \<open>
  The string enum \<^verbatim>\<open>Permission\<close> as the list of its members with their values. Required
  permissions are compared as strings, so the model works with the values.
\<close>

definition Permission :: "(string \<times> string) list" where
  "Permission = [
    (''ACCOUNT_CREATE'', ''ACCOUNT_CREATE''),
    (''ACCOUNT_EDIT'', ''ACCOUNT_EDIT''),
    (''ADD_SCHOOL_MEMBERS'', ''ADD_SCHOOL_MEMBERS''),
    (''ADMIN_EDIT'', ''ADMIN_EDIT''),
    (''ADMIN_VIEW'', ''ADMIN_VIEW''),
    (''BASE_VIEW'', ''BASE_VIEW''),
    (''CALENDAR_CREATE'', ''CALENDAR_CREATE''),
    (''CALENDAR_EDIT'', ''CALENDAR_EDIT''),
    (''CALENDAR_VIEW'', ''CALENDAR_VIEW''),
    (''CHANGE_TEAM_ROLES'', ''CHANGE_TEAM_ROLES''),
    (''CLASS_CREATE'', ''CLASS_CREATE''),
    (''CLASS_EDIT'', ''CLASS_EDIT''),
    (''CLASS_FULL_ADMIN'', ''CLASS_FULL_ADMIN''),
    (''CLASS_LIST'', ''CLASS_LIST''),
    (''CLASS_REMOVE'', ''CLASS_REMOVE''),
    (''CLASS_VIEW'', ''CLASS_VIEW''),
    (''COMMENTS_CREATE'', ''COMMENTS_CREATE''),
    (''COMMENTS_EDIT'', ''COMMENTS_EDIT''),
    (''COMMENTS_VIEW'', ''COMMENTS_VIEW''),
    (''CONTENT_NON_OER_VIEW'', ''CONTENT_NON_OER_VIEW''),
    (''CONTENT_VIEW'', ''CONTENT_VIEW''),
    (''COURSEGROUP_CREATE'', ''COURSEGROUP_CREATE''),
    (''COURSEGROUP_EDIT'', ''COURSEGROUP_EDIT''),
    (''COURSE_CREATE'', ''COURSE_CREATE''),
    (''COURSE_DELETE'', ''COURSE_DELETE''),
    (''COURSE_EDIT'', ''COURSE_EDIT''),
    (''COURSE_REMOVE'', ''COURSE_REMOVE''),
    (''COURSE_VIEW'', ''COURSE_VIEW''),
    (''CREATE_SUPPORT_JWT'', ''CREATE_SUPPORT_JWT''),
    (''CREATE_TOPICS_AND_TASKS'', ''CREATE_TOPICS_AND_TASKS''),
    (''DASHBOARD_VIEW'', ''DASHBOARD_VIEW''),
    (''DATASOURCES_CREATE'', ''DATASOURCES_CREATE''),
    (''DATASOURCES_DELETE'', ''DATASOURCES_DELETE''),
    (''DATASOURCES_EDIT'', ''DATASOURCES_EDIT''),
    (''DATASOURCES_RUN'', ''DATASOURCES_RUN''),
    (''DATASOURCES_RUN_VIEW'', ''DATASOURCES_RUN_VIEW''),
    (''DATASOURCES_VIEW'', ''DATASOURCES_VIEW''),
    (''DEFAULT_FILE_PERMISSIONS'', ''DEFAULT_FILE_PERMISSIONS''),
    (''DELETE_TEAM'', ''DELETE_TEAM''),
    (''EDIT_ALL_FILES'', ''EDIT_ALL_FILES''),
    (''ENTERTHECLOUD_START'', ''ENTERTHECLOUD_START''),
    (''FEDERALSTATE_CREATE'', ''FEDERALSTATE_CREATE''),
    (''FEDERALSTATE_EDIT'', ''FEDERALSTATE_EDIT''),
    (''FEDERALSTATE_VIEW'', ''FEDERALSTATE_VIEW''),
    (''FILESTORAGE_CREATE'', ''FILESTORAGE_CREATE''),
    (''FILESTORAGE_EDIT'', ''FILESTORAGE_EDIT''),
    (''FILESTORAGE_REMOVE'', ''FILESTORAGE_REMOVE''),
    (''FILESTORAGE_VIEW'', ''FILESTORAGE_VIEW''),
    (''FILE_CREATE'', ''FILE_CREATE''),
    (''FILE_DELETE'', ''FILE_DELETE''),
    (''FILE_MOVE'', ''FILE_MOVE''),
    (''FOLDER_CREATE'', ''FOLDER_CREATE''),
    (''FOLDER_DELETE'', ''FOLDER_DELETE''),
    (''HELPDESK_CREATE'', ''HELPDESK_CREATE''),
    (''HELPDESK_EDIT'', ''HELPDESK_EDIT''),
    (''HELPDESK_VIEW'', ''HELPDESK_VIEW''),
    (''HOMEWORK_CREATE'', ''HOMEWORK_CREATE''),
    (''HOMEWORK_EDIT'', ''HOMEWORK_EDIT''),
    (''HOMEWORK_VIEW'', ''HOMEWORK_VIEW''),
    (''INVITE_ADMINISTRATORS'', ''INVITE_ADMINISTRATORS''),
    (''INVITE_EXPERTS'', ''INVITE_EXPERTS''),
    (''JOIN_MEETING'', ''JOIN_MEETING''),
    (''LEAVE_TEAM'', ''LEAVE_TEAM''),
    (''LERNSTORE_VIEW'', ''LERNSTORE_VIEW''),
    (''LESSONS_CREATE'', ''LESSONS_CREATE''),
    (''LESSONS_VIEW'', ''LESSONS_VIEW''),
    (''LINK_CREATE'', ''LINK_CREATE''),
    (''MESSENGER_ROOM_CREATE'', ''MESSENGER_ROOM_CREATE''),
    (''MESSENGER_SYNC'', ''MESSENGER_SYNC''),
    (''NEWS_CREATE'', ''NEWS_CREATE''),
    (''NEWS_EDIT'', ''NEWS_EDIT''),
    (''NEWS_VIEW'', ''NEWS_VIEW''),
    (''NEXTCLOUD_USER'', ''NEXTCLOUD_USER''),
    (''NOTIFICATION_CREATE'', ''NOTIFICATION_CREATE''),
    (''NOTIFICATION_EDIT'', ''NOTIFICATION_EDIT''),
    (''NOTIFICATION_VIEW'', ''NOTIFICATION_VIEW''),
    (''OAUTH_CLIENT_EDIT'', ''OAUTH_CLIENT_EDIT''),
    (''OAUTH_CLIENT_VIEW'', ''OAUTH_CLIENT_VIEW''),
    (''PASSWORD_EDIT'', ''PASSWORD_EDIT''),
    (''PWRECOVERY_CREATE'', ''PWRECOVERY_CREATE''),
    (''PWRECOVERY_EDIT'', ''PWRECOVERY_EDIT''),
    (''PWRECOVERY_VIEW'', ''PWRECOVERY_VIEW''),
    (''RELEASES_CREATE'', ''RELEASES_CREATE''),
    (''RELEASES_EDIT'', ''RELEASES_EDIT''),
    (''RELEASES_VIEW'', ''RELEASES_VIEW''),
    (''REMOVE_MEMBERS'', ''REMOVE_MEMBERS''),
    (''RENAME_TEAM'', ''RENAME_TEAM''),
    (''REQUEST_CONSENTS'', ''REQUEST_CONSENTS''),
    (''ROLE_CREATE'', ''ROLE_CREATE''),
    (''ROLE_EDIT'', ''ROLE_EDIT''),
    (''ROLE_VIEW'', ''ROLE_VIEW''),
    (''SCHOOL_CHAT_MANAGE'', ''SCHOOL_CHAT_MANAGE''),
    (''SCHOOL_CREATE'', ''SCHOOL_CREATE''),
    (''SCHOOL_EDIT'', ''SCHOOL_EDIT''),
    (''SCHOOL_LOGO_MANAGE'', ''SCHOOL_LOGO_MANAGE''),
    (''SCHOOL_NEWS_EDIT'', ''SCHOOL_NEWS_EDIT''),
    (''SCHOOL_IMPORT_USERS_MIGRATE'', ''IMPORT_USER_MIGRATE''),
    (''SCHOOL_IMPORT_USERS_UPDATE'', ''IMPORT_USER_UPDATE''),
    (''SCHOOL_IMPORT_USERS_VIEW'', ''IMPORT_USER_VIEW''),
    (''SCHOOL_PERMISSION_CHANGE'', ''SCHOOL_PERMISSION_CHANGE''),
    (''SCHOOL_PERMISSION_VIEW'', ''SCHOOL_PERMISSION_VIEW''),
    (''SCHOOL_STUDENT_TEAM_MANAGE'', ''SCHOOL_STUDENT_TEAM_MANAGE''),
    (''SCHOOL_TOOL_ADMIN'', ''SCHOOL_TOOL_ADMIN''),
    (''SCOPE_PERMISSIONS_VIEW'', ''SCOPE_PERMISSIONS_VIEW''),
    (''START_MEETING'', ''START_MEETING''),
    (''STUDENT_CREATE'', ''STUDENT_CREATE''),
    (''STUDENT_DELETE'', ''STUDENT_DELETE''),
    (''STUDENT_EDIT'', ''STUDENT_EDIT''),
    (''STUDENT_LIST'', ''STUDENT_LIST''),
    (''STUDENT_SKIP_REGISTRATION'', ''STUDENT_SKIP_REGISTRATION''),
    (''SUBMISSIONS_CREATE'', ''SUBMISSIONS_CREATE''),
    (''SUBMISSIONS_EDIT'', ''SUBMISSIONS_EDIT''),
    (''SUBMISSIONS_SCHOOL_VIEW'', ''SUBMISSIONS_SCHOOL_VIEW''),
    (''SUBMISSIONS_VIEW'', ''SUBMISSIONS_VIEW''),
    (''SYNC_START'', ''SYNC_START''),
    (''SYSTEM_CREATE'', ''SYSTEM_CREATE''),
    (''SYSTEM_EDIT'', ''SYSTEM_EDIT''),
    (''SYSTEM_VIEW'', ''SYSTEM_VIEW''),
    (''TASK_DASHBOARD_TEACHER_VIEW_V3'', ''TASK_DASHBOARD_TEACHER_VIEW_V3''),
    (''TASK_DASHBOARD_VIEW_V3'', ''TASK_DASHBOARD_VIEW_V3''),
    (''TASK_CARD_VIEW'', ''TASK_CARD_VIEW''),
    (''TASK_CARD_EDIT'', ''TASK_CARD_EDIT''),
    (''TEACHER_CREATE'', ''TEACHER_CREATE''),
    (''TEACHER_DELETE'', ''TEACHER_DELETE''),
    (''TEACHER_EDIT'', ''TEACHER_EDIT''),
    (''TEACHER_LIST'', ''TEACHER_LIST''),
    (''TEACHER_SKIP_REGISTRATION'', ''TEACHER_SKIP_REGISTRATION''),
    (''TEAM_CREATE'', ''TEAM_CREATE''),
    (''TOOL_CREATE_ETHERPAD'', ''TOOL_CREATE_ETHERPAD''),
    (''TEAM_EDIT'', ''TEAM_EDIT''),
    (''TEAM_INVITE_EXTERNAL'', ''TEAM_INVITE_EXTERNAL''),
    (''TEAM_VIEW'', ''TEAM_VIEW''),
    (''TOOL_ADMIN'', ''TOOL_ADMIN''),
    (''TOOL_CREATE'', ''TOOL_CREATE''),
    (''TOOL_EDIT'', ''TOOL_EDIT''),
    (''TOOL_NEW_VIEW'', ''TOOL_NEW_VIEW''),
    (''TOOL_VIEW'', ''TOOL_VIEW''),
    (''TOPIC_CREATE'', ''TOPIC_CREATE''),
    (''TOPIC_EDIT'', ''TOPIC_EDIT''),
    (''TOPIC_VIEW'', ''TOPIC_VIEW''),
    (''UPLOAD_FILES'', ''UPLOAD_FILES''),
    (''USERGROUP_CREATE'', ''USERGROUP_CREATE''),
    (''USERGROUP_EDIT'', ''USERGROUP_EDIT''),
    (''USERGROUP_VIEW'', ''USERGROUP_VIEW''),
    (''USER_CREATE'', ''USER_CREATE''),
    (''USE_LIBREOFFICE'', ''USE_LIBREOFFICE''),
    (''USE_ROCKETCHAT'', ''USE_ROCKETCHAT''),
    (''YEARS_EDIT'', ''YEARS_EDIT'')]"

definition HOMEWORK_VIEW :: string where
  "HOMEWORK_VIEW = ''HOMEWORK_VIEW''"

definition HOMEWORK_EDIT :: string where
  "HOMEWORK_EDIT = ''HOMEWORK_EDIT''"

datatype RoleName =
    ADMINISTRATOR | COURSEADMINISTRATOR | COURSESTUDENT | COURSESUBSTITUTIONTEACHER
  | COURSETEACHER | DEMO | DEMOSTUDENT | DEMOTEACHER | EXPERT | HELPDESK | STUDENT
  | SUPERHERO | TEACHER | TEAMADMINISTRATOR | TEAMEXPERT | TEAMLEADER | TEAMMEMBER
  | TEAMOWNER | USER

section \<open>Roles\<close>

text \<open>
  Roles refer to roles, and the database does not rule out cycles, so roles live in a heap:
  a total map from object identities to role objects, where an object that was not loaded
  has an uninitialised collection of nested roles.
\<close>

record role = timestamped +
  role_name :: RoleName
  role_permissions :: "string list"
  role_roles :: "ref collection"

type_synonym role_heap = "ref \<Rightarrow> role"

record IRoleProperties =
  rp_permissions :: "string list option"
  rp_roles :: "ref list option"
  rp_name :: RoleName

definition new_Role :: "date \<Rightarrow> ref \<Rightarrow> IRoleProperties \<Rightarrow> role" where
  "new_Role now r props =
     \<lparr>oid = r, eid = [], ent_createdAt = now, ent_updatedAt = now, role_name = rp_name props,
      role_permissions = nullish (rp_permissions props) [],
      role_roles = coll_of (nullish (rp_roles props) [])\<rparr>"

section \<open>Schools\<close>

record ISchoolYearProperties =
  syp_name :: string
  syp_startDate :: date
  syp_endDate :: date

record SchoolYear = entity +
  sy_name :: string
  sy_startDate :: date
  sy_endDate :: date

definition new_SchoolYear :: "ref \<Rightarrow> ISchoolYearProperties \<Rightarrow> SchoolYear" where
  "new_SchoolYear r props =
     \<lparr>oid = r, eid = [], sy_name = syp_name props, sy_startDate = syp_startDate props,
      sy_endDate = syp_endDate props\<rparr>"

datatype SchoolFeatures =
    ROCKET_CHAT | VIDEOCONFERENCE | NEXTCLOUD | MESSENGER | STUDENTVISIBILITY
  | MESSENGER_SCHOOL_ROOM | MESSENGER_STUDENT_ROOM_CREATE | LDAP_UNIVENTION_MIGRATION

record SchoolRolePermission =
  srp_STUDENT_LIST :: "bool option"
  srp_LERNSTORE_VIEW :: "bool option"

record SchoolRoles =
  sr_student :: "SchoolRolePermission option"
  sr_teacher :: "SchoolRolePermission option"

record ISchoolProperties =
  sp_externalId :: "string option"
  sp_inMaintenanceSince :: "date option"
  sp_inUserMigration :: "bool option"
  sp_oauthMigrationPossible :: "date option"
  sp_oauthMigrationMandatory :: "date option"
  sp_oauthMigrationFinished :: "date option"
  sp_previousExternalId :: "string option"
  sp_name :: string
  sp_officialSchoolNumber :: "string option"
  sp_systems :: "ref list option"
  sp_features :: "SchoolFeatures list option"
  sp_schoolYear :: "SchoolYear option"

record school = entity +
  sch_features :: "SchoolFeatures list option"
  sch_inMaintenanceSince :: "date option"
  sch_inUserMigration :: "bool option"
  sch_oauthMigrationPossible :: "date option"
  sch_oauthMigrationMandatory :: "date option"
  sch_oauthMigrationFinished :: "date option"
  sch_externalId :: "string option"
  sch_previousExternalId :: "string option"
  sch_name :: string
  sch_officialSchoolNumber :: "string option"
  sch_systems :: "ref collection"
  sch_permissions :: "SchoolRoles option"
  sch_schoolYear :: "SchoolYear option"

text \<open>A field that the constructor only assigns when the string is truthy.\<close>

definition if_truthy :: "string option \<Rightarrow> string option" where
  "if_truthy s = (if truthy s then s else None)"

definition new_School :: "ref \<Rightarrow> ISchoolProperties \<Rightarrow> school" where
  "new_School r props =
     \<lparr>oid = r, eid = [],
      sch_features = sp_features props,
      sch_inMaintenanceSince = sp_inMaintenanceSince props,
      sch_inUserMigration = sp_inUserMigration props,
      sch_oauthMigrationPossible = sp_oauthMigrationPossible props,
      sch_oauthMigrationMandatory = sp_oauthMigrationMandatory props,
      sch_oauthMigrationFinished = sp_oauthMigrationFinished props,
      sch_externalId = if_truthy (sp_externalId props),
      sch_previousExternalId = if_truthy (sp_previousExternalId props),
      sch_name = sp_name props,
      sch_officialSchoolNumber = if_truthy (sp_officialSchoolNumber props),
      sch_systems = coll_of (nullish (sp_systems props) []),
      sch_permissions = None,
      sch_schoolYear = sp_schoolYear props\<rparr>"

text \<open>The domain object of a school (\<^verbatim>\<open>SchoolDO\<close>) and its copying constructor.\<close>

record SchoolDO =
  sdo_id :: "EntityId option"
  sdo_externalId :: "string option"
  sdo_inMaintenanceSince :: "date option"
  sdo_inUserMigration :: "bool option"
  sdo_oauthMigrationPossible :: "date option"
  sdo_oauthMigrationMandatory :: "date option"
  sdo_oauthMigrationFinished :: "date option"
  sdo_previousExternalId :: "string option"
  sdo_name :: string
  sdo_officialSchoolNumber :: "string option"
  sdo_systems :: "EntityId list option"
  sdo_features :: "SchoolFeatures list option"
  sdo_schoolYear :: "SchoolYear option"

definition new_SchoolDO :: "SchoolDO \<Rightarrow> SchoolDO" where
  "new_SchoolDO params =
     \<lparr>sdo_id = sdo_id params,
      sdo_externalId = sdo_externalId params,
      sdo_inMaintenanceSince = sdo_inMaintenanceSince params,
      sdo_inUserMigration = sdo_inUserMigration params,
      sdo_oauthMigrationPossible = sdo_oauthMigrationPossible params,
      sdo_oauthMigrationMandatory = sdo_oauthMigrationMandatory params,
      sdo_oauthMigrationFinished = sdo_oauthMigrationFinished params,
      sdo_previousExternalId = sdo_previousExternalId params,
      sdo_name = sdo_name params,
      sdo_officialSchoolNumber = sdo_officialSchoolNumber params,
      sdo_systems = sdo_systems params,
      sdo_features = sdo_features params,
      sdo_schoolYear = sdo_schoolYear params\<rparr>"

lemma new_SchoolDO_id: "new_SchoolDO params = params"
  by (simp add: new_SchoolDO_def)

section \<open>Users\<close>

datatype LanguageType = DE | EN | ES | UA

record IUserProperties =
  up_email :: string
  up_firstName :: string
  up_lastName :: string
  up_school :: school
  up_roles :: "ref list"
  up_ldapDn :: "string option"
  up_externalId :: "string option"
  up_language :: "LanguageType option"
  up_forcePasswordChange :: "bool option"
  up_preferences :: "(string \<times> string) list option"
  up_deletedAt :: "date option"
  up_lastLoginSystemChange :: "date option"
  up_outdatedSince :: "date option"
  up_previousExternalId :: "string option"

record user = timestamped +
  usr_email :: string
  usr_firstName :: string
  usr_lastName :: string
  usr_roles :: "ref collection"
  usr_school :: school
  usr_ldapDn :: "string option"
  usr_externalId :: "string option"
  usr_previousExternalId :: "string option"
  usr_importHash :: "string option"
  usr_firstNameSearchValues :: "string list option"
  usr_lastNameSearchValues :: "string list option"
  usr_emailSearchValues :: "string list option"
  usr_language :: "LanguageType option"
  usr_forcePasswordChange :: "bool option"
  usr_preferences :: "(string \<times> string) list option"
  usr_deletedAt :: "date option"
  usr_lastLoginSystemChange :: "date option"
  usr_outdatedSince :: "date option"

definition new_User :: "date \<Rightarrow> ref \<Rightarrow> IUserProperties \<Rightarrow> user" where
  "new_User now r props =
     \<lparr>oid = r, eid = [], ent_createdAt = now, ent_updatedAt = now,
      usr_email = up_email props,
      usr_firstName = up_firstName props,
      usr_lastName = up_lastName props,
      usr_roles = coll_of (up_roles props),
      usr_school = up_school props,
      usr_ldapDn = up_ldapDn props,
      usr_externalId = up_externalId props,
      usr_previousExternalId = up_previousExternalId props,
      usr_importHash = None,
      usr_firstNameSearchValues = None,
      usr_lastNameSearchValues = None,
      usr_emailSearchValues = None,
      usr_language = up_language props,
      usr_forcePasswordChange = up_forcePasswordChange props,
      usr_preferences = Some (nullish (up_preferences props) []),
      usr_deletedAt = up_deletedAt props,
      usr_lastLoginSystemChange = up_lastLoginSystemChange props,
      usr_outdatedSince = up_outdatedSince props\<rparr>"

section \<open>Teams\<close>

record TeamUser =
  tu_userId :: user
  tu_role :: ref
  tu_schoolId :: school

definition TeamUser_user :: "TeamUser \<Rightarrow> user" where
  "TeamUser_user tu = tu_userId tu"

definition TeamUser_school :: "TeamUser \<Rightarrow> school" where
  "TeamUser_school tu = tu_schoolId tu"

definition new_TeamUser :: "user \<Rightarrow> ref \<Rightarrow> school \<Rightarrow> TeamUser" where
  "new_TeamUser u r s = \<lparr>tu_userId = u, tu_role = r, tu_schoolId = s\<rparr>"

record team = timestamped +
  team_name :: string
  team_userIds :: "TeamUser list"

definition teamUsers :: "'a team_scheme \<Rightarrow> TeamUser list" where
  "teamUsers t = team_userIds t"

definition new_Team :: "date \<Rightarrow> ref \<Rightarrow> string \<Rightarrow> TeamUser list option \<Rightarrow> team" where
  "new_Team now r name users =
     \<lparr>oid = r, eid = [], ent_createdAt = now, ent_updatedAt = now, team_name = name,
      team_userIds =
        map (\<lambda>tu. new_TeamUser (TeamUser_user tu) (tu_role tu) (TeamUser_school tu))
          (nullish users [])\<rparr>"

section \<open>First facts\<close>

text \<open>Re-wrapping the members of a team changes nothing.\<close>

lemma new_TeamUser_same: "new_TeamUser (TeamUser_user tu) (tu_role tu) (TeamUser_school tu) = tu"
  by (simp add: new_TeamUser_def TeamUser_user_def TeamUser_school_def)

lemma teamUsers_new_Team: "teamUsers (new_Team now r name (Some us)) = us"
  by (simp add: teamUsers_def new_Team_def new_TeamUser_same)

lemma if_truthy_Some: "if_truthy s = Some t \<longleftrightarrow> s = Some t \<and> t \<noteq> []"
  by (auto simp: if_truthy_def truthy_def)

end
