(* ===== verification/Permissions.thy ===== *)
theory Permissions
  imports Users
begin

text \<open>
  Resolving the permissions of a user (\<^verbatim>\<open>shared/domain/rules/authorisation.utils.ts\<close>) and the
  older duplicate of the same code (\<^verbatim>\<open>shared/domain/service/permission.service.ts\<close>).

  The recursion over nested roles has no cycle check in the source. Its call depth is therefore
  bounded by a parameter, the depth of the engine's call stack: exhausting it is the
  \<^verbatim>\<open>RangeError\<close> that JavaScript throws. The lemmas say how much depth is enough (one more than
  the height of the role hierarchy) and that no depth is enough on a cycle.
\<close>

section \<open>Resolving nested roles\<close>

record auth_env =
  env_roles :: role_heap
  env_stack :: nat

definition not_loaded :: exn where
  "not_loaded = PlainError ''Roles items are not loaded.''"

text \<open>The loop over the roles of one call; \<open>sub\<close> is the recursive call.\<close>

primrec collect_permissions ::
  "(ref list \<Rightarrow> string list result) \<Rightarrow> role_heap \<Rightarrow> ref list \<Rightarrow> string list \<Rightarrow> string list result" where
  "collect_permissions sub h [] permissions = Inr permissions"
| "collect_permissions sub h (r # rs) permissions =
     (if \<not> coll_initialized (role_roles (h r)) then Inl not_loaded
      else
        let innerRoles = coll_items (role_roles (h r));
            permissions' = permissions @ role_permissions (h r)
        in if length innerRoles > 0
           then bindR (sub innerRoles)
                  (\<lambda>subPermissions. collect_permissions sub h rs (permissions' @ subPermissions))
           else collect_permissions sub h rs permissions')"

primrec resolvePermissionsByRoles :: "nat \<Rightarrow> role_heap \<Rightarrow> ref list \<Rightarrow> string list result" where
  "resolvePermissionsByRoles 0 h inputRoles = Inl RangeError"
| "resolvePermissionsByRoles (Suc d) h inputRoles =
     mapR uniq (collect_permissions (resolvePermissionsByRoles d h) h inputRoles [])"

definition resolvePermissions :: "auth_env \<Rightarrow> user \<Rightarrow> string list result" where
  "resolvePermissions env u =
     (if \<not> coll_initialized (usr_roles u) then Inl not_loaded
      else resolvePermissionsByRoles (env_stack env) (env_roles env) (coll_items (usr_roles u)))"

definition hasEveryPermission :: "string list \<Rightarrow> string list \<Rightarrow> bool" where
  "hasEveryPermission required ps = list_all (\<lambda>p. p \<in> set ps) required"

definition hasAllPermissions :: "auth_env \<Rightarrow> user \<Rightarrow> string list \<Rightarrow> bool result" where
  "hasAllPermissions env u required =
     (if length required = 0 then Inr True
      else bindR (resolvePermissions env u) (\<lambda>ps. Inr (hasEveryPermission required ps)))"

definition hasAllPermissionsByRole :: "auth_env \<Rightarrow> ref \<Rightarrow> string list \<Rightarrow> bool result" where
  "hasAllPermissionsByRole env r required =
     bindR (resolvePermissionsByRoles (env_stack env) (env_roles env) [r])
       (\<lambda>ps. Inr (hasEveryPermission required ps))"

definition checkAllPermissions :: "auth_env \<Rightarrow> user \<Rightarrow> string list \<Rightarrow> unit result" where
  "checkAllPermissions env u required =
     bindR (hasAllPermissions env u required) (\<lambda>b. guardR b (UnauthorizedException []))"

definition hasOneOfPermissions :: "auth_env \<Rightarrow> user \<Rightarrow> string list \<Rightarrow> bool result" where
  "hasOneOfPermissions env u required =
     (if length required = 0 then Inr False
      else bindR (resolvePermissions env u)
             (\<lambda>ps. Inr (list_ex (\<lambda>p. p \<in> set ps) required)))"

definition checkOneOfPermissions :: "auth_env \<Rightarrow> user \<Rightarrow> string list \<Rightarrow> unit result" where
  "checkOneOfPermissions env u required =
     bindR (hasOneOfPermissions env u required) (\<lambda>b. guardR b (UnauthorizedException []))"

section \<open>Access by reference properties\<close>

text \<open>
  What a property of an entity may hold: a collection of users, a user, an id or \<^verbatim>\<open>undefined\<close>
  (which no user id equals).
\<close>

datatype user_ref = RefCollection "user collection" | RefUser user | RefId EntityId | RefUndefined

definition coll_contains :: "'a entity_scheme collection \<Rightarrow> 'b entity_scheme \<Rightarrow> bool" where
  "coll_contains c x = list_ex (\<lambda>y. same_object y x) (coll_items c)"

fun reference_matches :: "user \<Rightarrow> user_ref \<Rightarrow> bool" where
  "reference_matches u (RefCollection c) = coll_contains c u"
| "reference_matches u (RefUser v) = same_object v u"
| "reference_matches u (RefId i) = (i = eid u)"
| "reference_matches u RefUndefined = False"

definition hasAccessToEntity :: "user \<Rightarrow> (string \<Rightarrow> user_ref) \<Rightarrow> string list \<Rightarrow> bool" where
  "hasAccessToEntity u entity userRefProps =
     list_ex (\<lambda>prop. reference_matches u (entity prop)) userRefProps"

definition isSameSchool :: "user \<Rightarrow> school \<Rightarrow> bool" where
  "isSameSchool u entity_school = same_object (usr_school u) entity_school"

definition checkSameSchool :: "user \<Rightarrow> school \<Rightarrow> unit result" where
  "checkSameSchool u entity_school =
     guardR (isSameSchool u entity_school) (UnauthorizedException [])"

definition hasRole :: "auth_env \<Rightarrow> user \<Rightarrow> RoleName \<Rightarrow> bool result" where
  "hasRole env u name =
     (if \<not> coll_initialized (usr_roles u) then Inl not_loaded
      else Inr (list_ex (\<lambda>r. role_name (env_roles env r) = name) (coll_items (usr_roles u))))"

section \<open>The older PermissionService\<close>

primrec ps_collect ::
  "(ref list \<Rightarrow> string list result) \<Rightarrow> role_heap \<Rightarrow> ref list \<Rightarrow> string list \<Rightarrow> string list result" where
  "ps_collect sub h [] permissions = Inr permissions"
| "ps_collect sub h (r # rs) permissions =
     (if \<not> coll_initialized (role_roles (h r)) then Inl not_loaded
      else
        let innerRoles = coll_items (role_roles (h r));
            permissions' = permissions @ role_permissions (h r)
        in if length innerRoles > 0
           then bindR (sub innerRoles)
                  (\<lambda>subPermissions. ps_collect sub h rs (permissions' @ subPermissions))
           else ps_collect sub h rs permissions')"

primrec ps_resolvePermissionsByRoles :: "nat \<Rightarrow> role_heap \<Rightarrow> ref list \<Rightarrow> string list result" where
  "ps_resolvePermissionsByRoles 0 h inputRoles = Inl RangeError"
| "ps_resolvePermissionsByRoles (Suc d) h inputRoles =
     mapR uniq (ps_collect (ps_resolvePermissionsByRoles d h) h inputRoles [])"

definition ps_resolvePermissions :: "auth_env \<Rightarrow> user \<Rightarrow> string list result" where
  "ps_resolvePermissions env u =
     (if \<not> coll_initialized (usr_roles u) then Inl not_loaded
      else ps_resolvePermissionsByRoles (env_stack env) (env_roles env) (coll_items (usr_roles u)))"

definition hasUserAllSchoolPermissions :: "auth_env \<Rightarrow> user \<Rightarrow> string list \<Rightarrow> bool result" where
  "hasUserAllSchoolPermissions env u required =
     (if length required = 0 then Inr False
      else bindR (ps_resolvePermissions env u)
             (\<lambda>ps. Inr (list_all (\<lambda>p. p \<in> set ps) required)))"

definition checkUserHasAllSchoolPermissions :: "auth_env \<Rightarrow> user \<Rightarrow> string list \<Rightarrow> unit result" where
  "checkUserHasAllSchoolPermissions env u required =
     bindR (hasUserAllSchoolPermissions env u required) (\<lambda>b. guardR b (UnauthorizedException []))"

section \<open>Reachable roles\<close>

abbreviation inner_roles :: "role_heap \<Rightarrow> ref \<Rightarrow> ref list" where
  "inner_roles h r \<equiv> coll_items (role_roles (h r))"

inductive role_reach :: "role_heap \<Rightarrow> ref \<Rightarrow> ref \<Rightarrow> bool" for h where
  here: "role_reach h r r"
| inner: "r' \<in> set (inner_roles h r) \<Longrightarrow> role_reach h r' q \<Longrightarrow> role_reach h r q"

inductive_simps role_reach_unfold: "role_reach h r q"

text \<open>The specification: what the reachable roles grant.\<close>

definition granted :: "role_heap \<Rightarrow> ref list \<Rightarrow> string set" where
  "granted h rs = {p. \<exists>r \<in> set rs. \<exists>q. role_reach h r q \<and> p \<in> set (role_permissions (h q))}"

lemma granted_Nil [simp]: "granted h [] = {}"
  by (simp add: granted_def)

lemma granted_Cons:
  "granted h (r # rs) =
     set (role_permissions (h r)) \<union> granted h (inner_roles h r) \<union> granted h rs"
  unfolding granted_def by (auto simp: role_reach_unfold [of h r])

lemma collect_permissions_granted:
  assumes sub: "\<And>is ps. sub is = Inr ps \<Longrightarrow> set ps = granted h is"
    and ret: "collect_permissions sub h rs acc = Inr ps"
  shows "set ps = set acc \<union> granted h rs"
  using ret
proof (induction rs arbitrary: acc)
  case Nil
  then show ?case by simp
next
  case (Cons r rs)
  show ?case
  proof (cases "inner_roles h r = []")
    case True
    with Cons show ?thesis
      by (auto simp: granted_Cons Let_def split: if_splits)
  next
    case False
    with Cons.prems obtain qs where qs: "sub (inner_roles h r) = Inr qs"
      and rest: "collect_permissions sub h rs (acc @ role_permissions (h r) @ qs) = Inr ps"
      by (auto simp: Let_def bindR_eq_Inr split: if_splits)
    from sub [OF qs] Cons.IH [OF rest] show ?thesis
      by (auto simp: granted_Cons)
  qed
qed

lemma resolvePermissionsByRoles_granted:
  "resolvePermissionsByRoles d h rs = Inr ps \<Longrightarrow> set ps = granted h rs \<and> distinct ps"
proof (induction d arbitrary: rs ps)
  case 0
  then show ?case by simp
next
  case (Suc d)
  then obtain qs where qs: "collect_permissions (resolvePermissionsByRoles d h) h rs [] = Inr qs"
    and ps: "ps = uniq qs"
    by (auto simp: mapR_eq_Inr)
  have "set qs = set [] \<union> granted h rs"
    by (rule collect_permissions_granted [OF _ qs]) (use Suc.IH in blast)
  with ps show ?case by simp
qed

text \<open>Roles whose nested roles are all loaded and decrease a rank.\<close>

definition ranked_roles :: "role_heap \<Rightarrow> (ref \<Rightarrow> nat) \<Rightarrow> bool" where
  "ranked_roles h rank \<longleftrightarrow>
     (\<forall>r. coll_initialized (role_roles (h r)) \<and> (\<forall>r' \<in> set (inner_roles h r). rank r' < rank r))"

lemma collect_permissions_total:
  assumes loaded: "\<And>r. coll_initialized (role_roles (h r))"
    and sub: "\<And>r. r \<in> set rs \<Longrightarrow> inner_roles h r \<noteq> [] \<Longrightarrow> \<exists>qs. sub (inner_roles h r) = Inr qs"
  shows "\<exists>ps. collect_permissions sub h rs acc = Inr ps"
  using sub
proof (induction rs arbitrary: acc)
  case Nil
  then show ?case by simp
next
  case (Cons r rs)
  then show ?case
    by (cases "inner_roles h r = []") (auto simp: loaded Let_def bindR_eq_Inr, force)
qed

lemma resolvePermissionsByRoles_total:
  assumes "ranked_roles h rank" and "\<forall>r \<in> set rs. rank r < d"
  shows "\<exists>ps. resolvePermissionsByRoles (Suc d) h rs = Inr ps"
  using assms(2)
proof (induction d arbitrary: rs)
  case 0
  then show ?case by simp
next
  case (Suc d)
  have "\<exists>ps. collect_permissions (resolvePermissionsByRoles (Suc d) h) h rs [] = Inr ps"
  proof (rule collect_permissions_total)
    fix r assume r: "r \<in> set rs"
    then have "\<forall>r' \<in> set (inner_roles h r). rank r' < d"
      using assms(1) Suc.prems by (fastforce simp: ranked_roles_def)
    then show "\<exists>qs. resolvePermissionsByRoles (Suc d) h (inner_roles h r) = Inr qs"
      by (rule Suc.IH)
  qed (use assms(1) in \<open>simp add: ranked_roles_def\<close>)
  then show ?case by (subst resolvePermissionsByRoles.simps) (auto simp: mapR_eq_Inr)
qed

text \<open>Every call the loop makes must have returned.\<close>

lemma collect_permissions_sub:
  "collect_permissions sub h rs acc = Inr ps \<Longrightarrow> r \<in> set rs \<Longrightarrow> inner_roles h r \<noteq> [] \<Longrightarrow>
   \<exists>qs. sub (inner_roles h r) = Inr qs"
  by (induction rs arbitrary: acc) (auto simp: Let_def bindR_eq_Inr split: if_splits)

text \<open>A role on a cycle has a nested role that leads back to it.\<close>

definition on_cycle :: "role_heap \<Rightarrow> ref \<Rightarrow> bool" where
  "on_cycle h r \<longleftrightarrow> (\<exists>r' \<in> set (inner_roles h r). role_reach h r' r)"

lemma reach_cycle_next:
  "role_reach h x r \<Longrightarrow> on_cycle h r \<Longrightarrow> \<exists>x' \<in> set (inner_roles h x). role_reach h x' r"
  by (induction rule: role_reach.induct) (auto simp: on_cycle_def)

lemma resolvePermissionsByRoles_cycle:
  assumes "on_cycle h r"
  shows "x \<in> set rs \<Longrightarrow> role_reach h x r \<Longrightarrow> resolvePermissionsByRoles d h rs \<noteq> Inr ps"
proof (induction d arbitrary: rs x ps)
  case 0
  then show ?case by simp
next
  case (Suc d)
  from reach_cycle_next [OF Suc.prems(2) assms] obtain x' where
    x': "x' \<in> set (inner_roles h x)" "role_reach h x' r" by blast
  then have "\<nexists>qs. resolvePermissionsByRoles d h (inner_roles h x) = Inr qs"
    using Suc.IH by blast
  moreover have "inner_roles h x \<noteq> []" using x' by auto
  ultimately show ?case
    using collect_permissions_sub [OF _ Suc.prems(1)] by (auto simp: mapR_eq_Inr) blast
qed

text \<open>More stack never changes an answer.\<close>

lemma collect_permissions_mono:
  assumes sub: "\<And>is ps. sub is = Inr ps \<Longrightarrow> sub' is = Inr ps"
  shows "collect_permissions sub h rs acc = Inr ps \<Longrightarrow> collect_permissions sub' h rs acc = Inr ps"
proof (induction rs arbitrary: acc)
  case (Cons r rs)
  then show ?case
    by (cases "inner_roles h r = []") (auto simp: Let_def bindR_eq_Inr dest: sub split: if_splits)
qed simp

lemma resolvePermissionsByRoles_mono:
  "resolvePermissionsByRoles d h rs = Inr ps \<Longrightarrow> resolvePermissionsByRoles (Suc d) h rs = Inr ps"
proof (induction d arbitrary: rs ps)
  case (Suc d)
  then obtain qs where "collect_permissions (resolvePermissionsByRoles d h) h rs [] = Inr qs"
    and ps: "ps = uniq qs"
    by (auto simp: mapR_eq_Inr)
  then have "collect_permissions (resolvePermissionsByRoles (Suc d) h) h rs [] = Inr qs"
    using Suc.IH by (blast intro: collect_permissions_mono)
  with ps show ?case by (subst resolvePermissionsByRoles.simps) simp
qed simp

section \<open>Facts for the rules\<close>

lemma hasAllPermissions_Nil [simp]: "hasAllPermissions env u [] = Inr True"
  by (simp add: hasAllPermissions_def)

lemma hasAllPermissions_True:
  assumes "hasAllPermissions env u required = Inr True" and "required \<noteq> []"
  shows "set required \<subseteq> granted (env_roles env) (coll_items (usr_roles u))"
proof -
  from assms obtain ps where "resolvePermissions env u = Inr ps" "hasEveryPermission required ps"
    by (auto simp: hasAllPermissions_def bindR_eq_Inr split: if_splits)
  then show ?thesis
    using resolvePermissionsByRoles_granted
    by (fastforce simp: resolvePermissions_def hasEveryPermission_def list_all_iff split: if_splits)
qed

lemma hasAllPermissions_mono:
  assumes "hasAllPermissions env u required = Inr True" and "set required' \<subseteq> set required"
  shows "hasAllPermissions env u required' = Inr True"
  using assms
  by (cases "required' = []")
    (auto simp: hasAllPermissions_def bindR_eq_Inr hasEveryPermission_def list_all_iff split: if_splits)

lemma reference_matches_oid:
  "oid u = oid v \<Longrightarrow> eid u = eid v \<Longrightarrow> reference_matches u r = reference_matches v r"
  by (cases r) (auto simp: coll_contains_def same_object_def)

lemma ps_collect_eq: "ps_collect sub h rs acc = collect_permissions sub h rs acc"
  by (induction rs arbitrary: acc) (simp_all add: Let_def)

lemma ps_resolvePermissionsByRoles_eq:
  "ps_resolvePermissionsByRoles d h rs = resolvePermissionsByRoles d h rs"
proof (induction d arbitrary: rs)
  case (Suc d)
  then have "ps_resolvePermissionsByRoles d h = resolvePermissionsByRoles d h" by blast
  then show ?case by (simp add: ps_collect_eq)
qed simp

lemma ps_resolvePermissions_eq: "ps_resolvePermissions = resolvePermissions"
  by (simp add: fun_eq_iff ps_resolvePermissions_def resolvePermissions_def
        ps_resolvePermissionsByRoles_eq)

end
