(* ===== verification/Learnroom.thy ===== *)
theory Learnroom
  imports Permissions
begin

text \<open>
  The entities of a learnroom: courses, course groups, lessons with their contents, tasks and
  submissions (\<^verbatim>\<open>shared/domain/entity/{course,coursegroup,lesson,materials,submission,task}.entity.ts\<close>).

  The object graph is cyclic (a lesson has tasks, a task has a lesson; a task has submissions, a
  submission has a task). Each class is therefore split into a record with its own columns and
  a record that extends it with the inverse side: \<open>lesson_entity\<close> adds the tasks of a lesson,
  \<open>submission_entity\<close> the task of a submission, \<open>course_entity\<close> the groups of a course.
  \<^verbatim>\<open>new Date()\<close> is the argument \<open>now\<close>.
\<close>

section \<open>Courses\<close>

record ICourseProperties =
  cp_name :: "string option"
  cp_description :: "string option"
  cp_school :: school
  cp_students :: "user list option"
  cp_teachers :: "user list option"
  cp_substitutionTeachers :: "user list option"
  cp_color :: "string option"
  cp_startDate :: "date option"
  cp_untilDate :: "date option"
  cp_copyingSince :: "date option"

record course = timestamped +
  crs_name :: string
  crs_description :: string
  crs_school :: school
  crs_students :: "user collection option"
  crs_teachers :: "user collection"
  crs_substitutionTeachers :: "user collection"
  crs_color :: string
  crs_startDate :: "date option"
  crs_untilDate :: "date option"
  crs_copyingSince :: "date option"
  crs_shareToken :: "string option"

definition DEFAULT_color :: string where "DEFAULT_color = ''#ACACAC''"

definition DEFAULT_name :: string where "DEFAULT_name = ''Kurse''"

definition DEFAULT_description :: string where "DEFAULT_description = ''''"

definition new_Course :: "date \<Rightarrow> ref \<Rightarrow> ICourseProperties \<Rightarrow> course" where
  "new_Course now r props =
     \<lparr>oid = r, eid = [], ent_createdAt = now, ent_updatedAt = now,
      crs_name = or_default (cp_name props) DEFAULT_name,
      crs_description = or_default (cp_description props) DEFAULT_description,
      crs_school = cp_school props,
      crs_students = Some (coll_of (nullish (cp_students props) [])),
      crs_teachers = coll_of (nullish (cp_teachers props) []),
      crs_substitutionTeachers = coll_of (nullish (cp_substitutionTeachers props) []),
      crs_color = or_default (cp_color props) DEFAULT_color,
      crs_startDate = cp_startDate props,
      crs_untilDate = cp_untilDate props,
      crs_copyingSince = cp_copyingSince props,
      crs_shareToken = None\<rparr>"

definition coll_ids :: "'a entity_scheme collection \<Rightarrow> EntityId list" where
  "coll_ids c = map eid (coll_items c)"

definition Course_getStudentIds :: "'a course_scheme \<Rightarrow> EntityId list result" where
  "Course_getStudentIds c =
     (case crs_students c of
        None \<Rightarrow> Inl (InternalServerErrorException
                  ''Course.students is undefined. The course need to be populated.'')
      | Some students \<Rightarrow> Inr (coll_ids students))"

definition isUserSubstitutionTeacher :: "'a course_scheme \<Rightarrow> user \<Rightarrow> bool" where
  "isUserSubstitutionTeacher c u = coll_contains (crs_substitutionTeachers c) u"

text \<open>
  \<^verbatim>\<open>getShortTitle\<close>: \<open>pictographic\<close> is the engine's \<^verbatim>\<open>\p{Extended_Pictographic}\<close> test on the first
  character. For an empty name both characters are \<^verbatim>\<open>undefined\<close> and their sum is \<^verbatim>\<open>NaN\<close>: \<open>None\<close>.
  A name whose only character needs two code units has a first character and no second one;
  names are lists of characters here, so that case is the pictographic one of length one.
\<close>

definition getShortTitle :: "(char \<Rightarrow> bool) \<Rightarrow> 'a course_scheme \<Rightarrow> string option" where
  "getShortTitle pictographic c =
     (case crs_name c of
        [] \<Rightarrow> None
      | [x] \<Rightarrow> Some [x]
      | x # y # _ \<Rightarrow> if pictographic x then Some [x] else Some [x, y])"

datatype LearnroomTypes = LearnroomType_Course

record LearnroomMetadata =
  lm_id :: EntityId
  lm_type :: LearnroomTypes
  lm_title :: string
  lm_shortTitle :: "string option"
  lm_displayColor :: string
  lm_startDate :: "date option"
  lm_untilDate :: "date option"
  lm_copyingSince :: "date option"

definition getMetadata :: "(char \<Rightarrow> bool) \<Rightarrow> 'a course_scheme \<Rightarrow> LearnroomMetadata" where
  "getMetadata pictographic c =
     \<lparr>lm_id = eid c, lm_type = LearnroomType_Course, lm_title = crs_name c,
      lm_shortTitle = getShortTitle pictographic c, lm_displayColor = crs_color c,
      lm_startDate = crs_startDate c, lm_untilDate = crs_untilDate c,
      lm_copyingSince = crs_copyingSince c\<rparr>"

definition Course_isFinished :: "date \<Rightarrow> 'a course_scheme \<Rightarrow> bool" where
  "Course_isFinished now c =
     (case crs_untilDate c of None \<Rightarrow> False | Some untilDate \<Rightarrow> untilDate < now)"

section \<open>Course groups\<close>

record courseGroup = timestamped +
  cg_name :: string
  cg_students :: "user collection option"
  cg_course :: course
  cg_school :: school

definition new_CourseGroup :: "date \<Rightarrow> ref \<Rightarrow> string \<Rightarrow> course \<Rightarrow> user list option \<Rightarrow> courseGroup" where
  "new_CourseGroup now r name c students =
     \<lparr>oid = r, eid = [], ent_createdAt = now, ent_updatedAt = now, cg_name = name,
      cg_students = Some (coll_of (nullish students [])),
      cg_course = c, cg_school = crs_school c\<rparr>"

definition CourseGroup_getStudentIds :: "courseGroup \<Rightarrow> EntityId list" where
  "CourseGroup_getStudentIds g =
     (case cg_students g of None \<Rightarrow> [] | Some students \<Rightarrow> coll_ids students)"

record course_entity = course +
  crs_courseGroups :: "courseGroup collection"

definition getCourseGroupItems :: "course_entity \<Rightarrow> courseGroup list result" where
  "getCourseGroupItems c =
     (if coll_initialized (crs_courseGroups c) then Inr (coll_items (crs_courseGroups c))
      else Inl (InternalServerErrorException
             ''Courses trying to access their course groups that are not loaded.''))"

section \<open>Lessons\<close>

record IRelatedResourceProperties =
  irr_originId :: "string option"
  irr_relationType :: "string option"

record ITargetGroupProperties =
  itg_state :: "string option"
  itg_schoolType :: "string option"
  itg_grade :: "string option"

record IMaterialProperties =
  imp_client :: string
  imp_description :: "string option"
  imp_license :: "string list"
  imp_merlinReference :: "string option"
  imp_relatedResources :: "IRelatedResourceProperties list"
  imp_subjects :: "string list"
  imp_tags :: "string list"
  imp_targetGroups :: "ITargetGroupProperties list"
  imp_title :: string
  imp_url :: string

record Material = timestamped +
  mat_client :: string
  mat_description :: "string option"
  mat_license :: "string list"
  mat_merlinReference :: "string option"
  mat_relatedResources :: "IRelatedResourceProperties list"
  mat_subjects :: "string list"
  mat_tags :: "string list"
  mat_targetGroups :: "ITargetGroupProperties list"
  mat_title :: string
  mat_url :: string

definition new_Material :: "date \<Rightarrow> ref \<Rightarrow> IMaterialProperties \<Rightarrow> Material" where
  "new_Material now r props =
     \<lparr>oid = r, eid = [], ent_createdAt = now, ent_updatedAt = now,
      mat_client = imp_client props,
      mat_description = Some (or_default (imp_description props) []),
      mat_license = imp_license props,
      mat_merlinReference = Some (or_default (imp_merlinReference props) []),
      mat_relatedResources = imp_relatedResources props,
      mat_subjects = imp_subjects props,
      mat_tags = imp_tags props,
      mat_targetGroups = imp_targetGroups props,
      mat_title = imp_title props,
      mat_url = imp_url props\<rparr>"

datatype ComponentType = ETHERPAD | GEOGEBRA | INTERNAL | LERNSTORE | TEXT | NEXBOARD

record ILernstoreResource =
  res_client :: string
  res_description :: string
  res_merlinReference :: "string option"
  res_title :: string
  res_url :: string

text \<open>The content of a component: one constructor per alternative of the union type.\<close>

datatype ComponentContent =
    ComponentText (cc_text: string)
  | ComponentGeogebra (cc_materialId: string)
  | ComponentLernstore (cc_resources: "ILernstoreResource list")
  | ComponentEtherpad (cc_description: string) (cc_title: string) (cc_url: string)
  | ComponentNexboard (cc_board: string) (cc_nexdescription: string) (cc_nextitle: string)
      (cc_nexurl: string)
  | ComponentInternal (cc_internalUrl: string)

record IComponentProperties =
  com_id :: "string option"
  com_title :: "string option"
  com_hidden :: bool
  com_component :: ComponentType
  com_user :: "user option"
  com_content :: "ComponentContent option"

record ILessonProperties =
  lp_name :: string
  lp_hidden :: "bool option"
  lp_course :: "course option"
  lp_courseGroup :: "courseGroup option"
  lp_position :: "int option"
  lp_contents :: "IComponentProperties list"
  lp_materials :: "Material list option"

record lesson = timestamped +
  les_name :: string
  les_hidden :: bool
  les_course :: "course option"
  les_courseGroup :: "courseGroup option"
  les_position :: int
  les_contents :: "IComponentProperties list"
  les_materials :: "Material collection"

definition new_Lesson :: "date \<Rightarrow> ref \<Rightarrow> ILessonProperties \<Rightarrow> lesson" where
  "new_Lesson now r props =
     \<lparr>oid = r, eid = [], ent_createdAt = now, ent_updatedAt = now,
      les_name = lp_name props,
      les_hidden = nullish (lp_hidden props) False,
      les_course = lp_course props,
      les_courseGroup = lp_courseGroup props,
      les_position = nullish (lp_position props) 0,
      les_contents = lp_contents props,
      les_materials = coll_of (nullish (lp_materials props) [])\<rparr>"

text \<open>The parent is the course group or else the course; a lesson with neither throws.\<close>

definition Lesson_getStudentIds :: "'a lesson_scheme \<Rightarrow> EntityId list result" where
  "Lesson_getStudentIds l =
     (case les_courseGroup l of
        Some g \<Rightarrow> Inr (CourseGroup_getStudentIds g)
      | None \<Rightarrow> (case les_course l of
                  Some c \<Rightarrow> Course_getStudentIds c
                | None \<Rightarrow> Inl TypeError))"

definition Lesson_getSchoolId :: "'a lesson_scheme \<Rightarrow> EntityId result" where
  "Lesson_getSchoolId l =
     (case les_courseGroup l of
        None \<Rightarrow> (case les_course l of
                   Some c \<Rightarrow> Inr (eid (crs_school c))
                 | None \<Rightarrow> Inl TypeError)
      | Some g \<Rightarrow> Inr (eid (cg_school g)))"

definition getLessonComponents :: "'a lesson_scheme \<Rightarrow> IComponentProperties list" where
  "getLessonComponents l = les_contents l"

definition getLessonMaterials :: "'a lesson_scheme \<Rightarrow> Material list result" where
  "getLessonMaterials l =
     (if coll_initialized (les_materials l) then Inr (coll_items (les_materials l))
      else Inl (InternalServerErrorException
             ''Lessons trying to access their materials that are not loaded.''))"

definition Lesson_publish :: "'a lesson_scheme \<Rightarrow> 'a lesson_scheme" where
  "Lesson_publish l = l\<lparr>les_hidden := False\<rparr>"

definition Lesson_unpublish :: "'a lesson_scheme \<Rightarrow> 'a lesson_scheme" where
  "Lesson_unpublish l = l\<lparr>les_hidden := True\<rparr>"

section \<open>Submissions\<close>

record submission = timestamped +
  sub_school :: school
  sub_student :: user
  sub_courseGroup :: "courseGroup option"
  sub_teamMembers :: "user collection option"
  sub_comment :: "string option"
  sub_submitted :: bool
  sub_graded :: bool
  sub_grade :: "int option"
  sub_gradeComment :: "string option"

record ISubmissionProperties =
  isp_school :: school
  isp_student :: user
  isp_courseGroup :: "courseGroup option"
  isp_teamMembers :: "user list option"
  isp_comment :: string
  isp_submitted :: "bool option"
  isp_graded :: "bool option"
  isp_grade :: "int option"
  isp_gradeComment :: "string option"

definition new_Submission :: "date \<Rightarrow> ref \<Rightarrow> ISubmissionProperties \<Rightarrow> submission" where
  "new_Submission now r props =
     \<lparr>oid = r, eid = [], ent_createdAt = now, ent_updatedAt = now,
      sub_school = isp_school props,
      sub_student = isp_student props,
      sub_courseGroup = isp_courseGroup props,
      sub_teamMembers = Some (coll_of (nullish (isp_teamMembers props) [])),
      sub_comment = Some (isp_comment props),
      sub_submitted = nullish (isp_submitted props) False,
      sub_graded = nullish (isp_graded props) False,
      sub_grade = isp_grade props,
      sub_gradeComment = isp_gradeComment props\<rparr>"

definition getCourseGroupStudentIds :: "'a submission_scheme \<Rightarrow> EntityId list" where
  "getCourseGroupStudentIds s =
     (case sub_courseGroup s of None \<Rightarrow> [] | Some g \<Rightarrow> CourseGroup_getStudentIds g)"

definition getTeamMemberIds :: "'a submission_scheme \<Rightarrow> EntityId list result" where
  "getTeamMemberIds s =
     (case sub_teamMembers s of
        None \<Rightarrow> Inl (InternalServerErrorException
                  ''Submission.teamMembers is undefined. The submission need to be populated.'')
      | Some teamMembers \<Rightarrow> Inr (coll_ids teamMembers))"

definition isSubmitted :: "'a submission_scheme \<Rightarrow> bool" where
  "isSubmitted s = sub_submitted s"

definition getSubmitterIds :: "'a submission_scheme \<Rightarrow> EntityId list result" where
  "getSubmitterIds s =
     bindR (getTeamMemberIds s)
       (\<lambda>teamMemberIds. Inr (uniq (eid (sub_student s) # teamMemberIds @ getCourseGroupStudentIds s)))"

definition isUserSubmitter :: "'a submission_scheme \<Rightarrow> user \<Rightarrow> bool result" where
  "isUserSubmitter s u =
     bindR (getSubmitterIds s) (\<lambda>memberIds. Inr (list_ex (\<lambda>i. i = eid u) memberIds))"

definition isSubmittedForUser :: "'a submission_scheme \<Rightarrow> user \<Rightarrow> bool result" where
  "isSubmittedForUser s u =
     bindR (isUserSubmitter s u) (\<lambda>isMember. Inr (isMember \<and> isSubmitted s))"

definition isGraded :: "'a submission_scheme \<Rightarrow> bool" where
  "isGraded s = sub_graded s"

definition isGradedForUser :: "'a submission_scheme \<Rightarrow> user \<Rightarrow> bool result" where
  "isGradedForUser s u =
     bindR (isUserSubmitter s u) (\<lambda>isMember. Inr (isMember \<and> isGraded s))"

end
