(* ===== verification/Tasks.thy ===== *)
theory Tasks
  imports Learnroom
begin

text \<open>
  Tasks (\<^verbatim>\<open>shared/domain/entity/task.entity.ts\<close>): their three-way visibility, the status a
  teacher and a student see, and the operations that change them; with them the classes that
  refer to tasks: \<open>lesson_entity\<close>, \<open>submission_entity\<close> and the task card.
\<close>

section \<open>The entity\<close>

datatype InputFormat =
    PLAIN_TEXT | RICH_TEXT | RICHTEXT_SIMPLE | RICH_TEXT_CK4 | RICH_TEXT_CK5 | RICH_TEXT_CK5_SIMPLE

record ITaskProperties =
  tp_name :: string
  tp_description :: "string option"
  tp_descriptionInputFormat :: "InputFormat option"
  tp_availableDate :: "date option"
  tp_dueDate :: "date option"
  tp_taskCard :: "string option"
  tp_course :: "course option"
  tp_lesson :: "lesson option"
  tp_creator :: user
  tp_school :: school
  tp_finished :: "user list option"
  tp_private :: "bool option"
  tp_submissions :: "submission list option"
  tp_publicSubmissions :: "bool option"
  tp_teamSubmissions :: "bool option"

record task = timestamped +
  tsk_name :: string
  tsk_description :: string
  tsk_descriptionInputFormat :: InputFormat
  tsk_availableDate :: "date option"
  tsk_dueDate :: "date option"
  tsk_private :: "bool option"
  tsk_publicSubmissions :: "bool option"
  tsk_teamSubmissions :: "bool option"
  tsk_taskCard :: "string option"
  tsk_creator :: user
  tsk_course :: "course option"
  tsk_school :: school
  tsk_lesson :: "lesson option"
  tsk_submissions :: "submission collection option"
  tsk_finished :: "user collection option"

definition new_Task :: "date \<Rightarrow> ref \<Rightarrow> ITaskProperties \<Rightarrow> task" where
  "new_Task now r props =
     \<lparr>oid = r, eid = [], ent_createdAt = now, ent_updatedAt = now,
      tsk_name = tp_name props,
      tsk_description = or_default (tp_description props) [],
      tsk_descriptionInputFormat = nullish (tp_descriptionInputFormat props) RICH_TEXT_CK4,
      tsk_availableDate = tp_availableDate props,
      tsk_dueDate = tp_dueDate props,
      tsk_private = (case tp_private props of None \<Rightarrow> Some True | Some b \<Rightarrow> Some b),
      tsk_publicSubmissions = Some (nullish (tp_publicSubmissions props) False),
      tsk_teamSubmissions = Some (nullish (tp_teamSubmissions props) False),
      tsk_taskCard = None,
      tsk_creator = tp_creator props,
      tsk_course = tp_course props,
      tsk_school = tp_school props,
      tsk_lesson = tp_lesson props,
      tsk_submissions = Some (coll_of (nullish (tp_submissions props) [])),
      tsk_finished = Some (coll_of (nullish (tp_finished props) []))\<rparr>"

section \<open>Reading a task\<close>

definition getSubmissionItems :: "'a task_scheme \<Rightarrow> submission list result" where
  "getSubmissionItems t =
     (case tsk_submissions t of
        None \<Rightarrow> Inl (InternalServerErrorException ''Submissions items are not loaded.'')
      | Some c \<Rightarrow> if coll_initialized c then Inr (coll_items c)
                  else Inl (InternalServerErrorException ''Submissions items are not loaded.''))"

definition getFinishedUserIds :: "'a task_scheme \<Rightarrow> EntityId list result" where
  "getFinishedUserIds t =
     (case tsk_finished t of
        None \<Rightarrow> Inl (InternalServerErrorException
                  ''Task.finished is undefined. The task need to be populated.'')
      | Some c \<Rightarrow> Inr (coll_ids c))"

text \<open>\<^verbatim>\<open>this.lesson || this.course || this.creator\<close>, and the number of its students.\<close>

definition getMaxSubmissions :: "'a task_scheme \<Rightarrow> nat result" where
  "getMaxSubmissions t =
     (case tsk_lesson t of
        Some l \<Rightarrow> mapR length (Lesson_getStudentIds l)
      | None \<Rightarrow> (case tsk_course t of
                  Some c \<Rightarrow> mapR length (Course_getStudentIds c)
                | None \<Rightarrow> Inr 1))"

definition isFinishedForUser :: "date \<Rightarrow> 'a task_scheme \<Rightarrow> user \<Rightarrow> bool result" where
  "isFinishedForUser now t u =
     bindR (getFinishedUserIds t)
       (\<lambda>finishedUserIds.
          let isUserInFinishedUser = list_ex (\<lambda>i. i = eid u) finishedUserIds;
              isCourseFinished = (case tsk_course t of None \<Rightarrow> False | Some c \<Rightarrow> Course_isFinished now c)
          in Inr (isUserInFinishedUser \<or> isCourseFinished))"

definition isDraft :: "'a task_scheme \<Rightarrow> bool" where
  "isDraft t = (tsk_private t = Some True)"

definition isPublished :: "date \<Rightarrow> 'a task_scheme \<Rightarrow> bool" where
  "isPublished now t =
     (if isDraft t then False
      else case tsk_availableDate t of
             Some d \<Rightarrow> if d > now then False else True
           | None \<Rightarrow> True)"

definition isPlanned :: "date \<Rightarrow> 'a task_scheme \<Rightarrow> bool" where
  "isPlanned now t =
     (if isDraft t then False
      else case tsk_availableDate t of
             Some d \<Rightarrow> if d > now then True else False
           | None \<Rightarrow> False)"

definition getSubmittedSubmissions :: "'a task_scheme \<Rightarrow> submission list result" where
  "getSubmittedSubmissions t = mapR (filter isSubmitted) (getSubmissionItems t)"

definition areSubmissionsPublic :: "'a task_scheme \<Rightarrow> bool" where
  "areSubmissionsPublic t = (tsk_publicSubmissions t = Some True)"

definition getGradedSubmissions :: "'a task_scheme \<Rightarrow> submission list result" where
  "getGradedSubmissions t = mapR (filter isGraded) (getSubmissionItems t)"

definition Task_isSubmittedForUser :: "'a task_scheme \<Rightarrow> user \<Rightarrow> bool result" where
  "Task_isSubmittedForUser t u =
     bindR (getSubmissionItems t) (\<lambda>submissions. someR (\<lambda>s. isSubmittedForUser s u) submissions)"

definition Task_isGradedForUser :: "'a task_scheme \<Rightarrow> user \<Rightarrow> bool result" where
  "Task_isGradedForUser t u =
     bindR (getSubmissionItems t) (\<lambda>submissions. someR (\<lambda>s. isGradedForUser s u) submissions)"

definition calculateNumberOfSubmitters :: "submission list \<Rightarrow> nat result" where
  "calculateNumberOfSubmitters submissions =
     bindR (mapMR getSubmitterIds submissions) (\<lambda>idss. Inr (length (uniq (concat idss))))"

definition isUserSubstitutionTeacherInCourse :: "'a task_scheme \<Rightarrow> user \<Rightarrow> bool" where
  "isUserSubstitutionTeacherInCourse t u =
     (case tsk_course t of None \<Rightarrow> False | Some c \<Rightarrow> isUserSubstitutionTeacher c u)"

record ITaskStatus =
  st_submitted :: nat
  st_maxSubmissions :: nat
  st_graded :: nat
  st_isDraft :: bool
  st_isSubstitutionTeacher :: bool
  st_isFinished :: bool

definition createTeacherStatusForUser :: "date \<Rightarrow> 'a task_scheme \<Rightarrow> user \<Rightarrow> ITaskStatus result" where
  "createTeacherStatusForUser now t u =
     bindR (getSubmittedSubmissions t) (\<lambda>submittedSubmissions.
     bindR (getGradedSubmissions t) (\<lambda>gradedSubmissions.
     bindR (calculateNumberOfSubmitters submittedSubmissions) (\<lambda>numberOfSubmitters.
     bindR (calculateNumberOfSubmitters gradedSubmissions) (\<lambda>numberOfSubmittersWithGrade.
     bindR (getMaxSubmissions t) (\<lambda>maxSubmissions.
     bindR (isFinishedForUser now t u) (\<lambda>isFinished.
       Inr \<lparr>st_submitted = numberOfSubmitters, st_maxSubmissions = maxSubmissions,
            st_graded = numberOfSubmittersWithGrade, st_isDraft = isDraft t,
            st_isSubstitutionTeacher = isUserSubstitutionTeacherInCourse t u,
            st_isFinished = isFinished\<rparr>))))))"

definition createStudentStatusForUser :: "date \<Rightarrow> 'a task_scheme \<Rightarrow> user \<Rightarrow> ITaskStatus result" where
  "createStudentStatusForUser now t u =
     bindR (Task_isSubmittedForUser t u) (\<lambda>isSubmitted.
     bindR (Task_isGradedForUser t u) (\<lambda>isGraded.
     bindR (isFinishedForUser now t u) (\<lambda>isFinished.
       Inr \<lparr>st_submitted = (if isSubmitted then 1 else 0), st_maxSubmissions = 1,
            st_graded = (if isGraded then 1 else 0), st_isDraft = isDraft t,
            st_isSubstitutionTeacher = False, st_isFinished = isFinished\<rparr>)))"

record TaskParentDescriptions =
  pd_courseName :: string
  pd_courseId :: EntityId
  pd_lessonName :: string
  pd_lessonHidden :: bool
  pd_color :: string

definition getParentData :: "'a task_scheme \<Rightarrow> TaskParentDescriptions" where
  "getParentData t =
     (case tsk_course t of
        Some c \<Rightarrow> \<lparr>pd_courseName = crs_name c, pd_courseId = eid c,
                  pd_lessonName = (case tsk_lesson t of Some l \<Rightarrow> les_name l | None \<Rightarrow> []),
                  pd_lessonHidden = (case tsk_lesson t of Some l \<Rightarrow> les_hidden l | None \<Rightarrow> False),
                  pd_color = crs_color c\<rparr>
      | None \<Rightarrow> \<lparr>pd_courseName = [], pd_courseId = [], pd_lessonName = [],
                pd_lessonHidden = False, pd_color = ''#ACACAC''\<rparr>)"

section \<open>Changing a task\<close>

text \<open>Adding to and removing from a collection of entities, by object identity.\<close>

definition coll_add :: "'a entity_scheme collection \<Rightarrow> 'a entity_scheme \<Rightarrow> 'a entity_scheme collection" where
  "coll_add c x = (if coll_contains c x then c else c\<lparr>coll_items := coll_items c @ [x]\<rparr>)"

definition coll_remove :: "'a entity_scheme collection \<Rightarrow> 'a entity_scheme \<Rightarrow> 'a entity_scheme collection" where
  "coll_remove c x = c\<lparr>coll_items := filter (\<lambda>y. \<not> same_object y x) (coll_items c)\<rparr>"

definition finishForUser :: "'a task_scheme \<Rightarrow> user \<Rightarrow> 'a task_scheme result" where
  "finishForUser t u =
     (case tsk_finished t of
        None \<Rightarrow> Inl TypeError
      | Some c \<Rightarrow> Inr (t\<lparr>tsk_finished := Some (coll_add c u)\<rparr>))"

definition restoreForUser :: "'a task_scheme \<Rightarrow> user \<Rightarrow> 'a task_scheme result" where
  "restoreForUser t u =
     (case tsk_finished t of
        None \<Rightarrow> Inl TypeError
      | Some c \<Rightarrow> Inr (t\<lparr>tsk_finished := Some (coll_remove c u)\<rparr>))"

definition Task_getSchoolId :: "'a task_scheme \<Rightarrow> EntityId" where
  "Task_getSchoolId t = eid (tsk_school t)"

definition Task_publish :: "date \<Rightarrow> 'a task_scheme \<Rightarrow> 'a task_scheme" where
  "Task_publish now t = t\<lparr>tsk_private := Some False, tsk_availableDate := Some now\<rparr>"

definition Task_unpublish :: "'a task_scheme \<Rightarrow> 'a task_scheme" where
  "Task_unpublish t = t\<lparr>tsk_private := Some True\<rparr>"

section \<open>The inverse sides\<close>

record submission_entity = submission +
  sub_task :: task

record lesson_entity = lesson +
  les_tasks :: "task collection"

definition getTasksItems :: "lesson_entity \<Rightarrow> task list result" where
  "getTasksItems l =
     (if coll_initialized (les_tasks l) then Inr (coll_items (les_tasks l))
      else Inl (InternalServerErrorException
             ''Lessons trying to access their tasks that are not loaded.''))"

definition getNumberOfPublishedTasks :: "date \<Rightarrow> lesson_entity \<Rightarrow> nat result" where
  "getNumberOfPublishedTasks now l =
     bindR (getTasksItems l) (\<lambda>tasks. Inr (length (filter (isPublished now) tasks)))"

definition getNumberOfDraftTasks :: "lesson_entity \<Rightarrow> nat result" where
  "getNumberOfDraftTasks l = bindR (getTasksItems l) (\<lambda>tasks. Inr (length (filter isDraft tasks)))"

definition getNumberOfPlannedTasks :: "date \<Rightarrow> lesson_entity \<Rightarrow> nat result" where
  "getNumberOfPlannedTasks now l =
     bindR (getTasksItems l) (\<lambda>tasks. Inr (length (filter (isPlanned now) tasks)))"

definition getLessonLinkedTasks :: "lesson_entity \<Rightarrow> task list result" where
  "getLessonLinkedTasks l = getTasksItems l"

datatype CardType = CardType_Task

datatype CardElement =
    TitleCardElement string
  | RichTextCardElement string InputFormat

record ITaskCardProps =
  tcp_cardElements :: "CardElement list"
  tcp_cardType :: CardType
  tcp_creator :: user
  tcp_draggable :: bool
  tcp_visibleAtDate :: date
  tcp_task :: task
  tcp_dueDate :: date
  tcp_course :: "course option"

record TaskCard = timestamped +
  tc_cardElements :: "CardElement collection"
  tc_cardType :: CardType
  tc_creator :: user
  tc_course :: "course option"
  tc_draggable :: bool
  tc_visibleAtDate :: date
  tc_dueDate :: date
  tc_task :: task

text \<open>\<^verbatim>\<open>props.draggable || true\<close> is \<^verbatim>\<open>true\<close> whatever the property says.\<close>

definition new_TaskCard :: "date \<Rightarrow> ref \<Rightarrow> ITaskCardProps \<Rightarrow> TaskCard" where
  "new_TaskCard now r props =
     \<lparr>oid = r, eid = [], ent_createdAt = now, ent_updatedAt = now,
      tc_cardElements = coll_of (tcp_cardElements props),
      tc_cardType = CardType_Task,
      tc_creator = tcp_creator props,
      tc_course = tcp_course props,
      tc_draggable = (tcp_draggable props \<or> True),
      tc_visibleAtDate = tcp_visibleAtDate props,
      tc_dueDate = tcp_dueDate props,
      tc_task = tcp_task props\<rparr>"

definition getCardElements :: "TaskCard \<Rightarrow> CardElement list" where
  "getCardElements c = coll_items (tc_cardElements c)"

definition isVisibleBeforeDueDate :: "TaskCard \<Rightarrow> bool" where
  "isVisibleBeforeDueDate c \<longleftrightarrow> tc_visibleAtDate c < tc_dueDate c"

section \<open>Visibility\<close>

lemmas visibility_defs = isDraft_def isPublished_def isPlanned_def

lemma visibility_exclusive:
  "isPublished now t \<longleftrightarrow> \<not> isDraft t \<and> \<not> isPlanned now t"
  "isPlanned now t \<Longrightarrow> \<not> isDraft t"
  by (auto simp: visibility_defs split: option.splits)

text \<open>Every task of a list is counted once.\<close>

lemma visibility_partition:
  "length (filter (isPublished now) ts) + length (filter isDraft ts) + length (filter (isPlanned now) ts)
   = length ts"
  by (induction ts) (auto simp: visibility_exclusive)

section \<open>Publishing\<close>

text \<open>A history of an element: at each time it is published or unpublished.\<close>

primrec toggles ::
  "(date \<Rightarrow> 'e \<Rightarrow> 'e) \<Rightarrow> ('e \<Rightarrow> 'e) \<Rightarrow> (date \<times> bool) list \<Rightarrow> 'e \<Rightarrow> 'e" where
  "toggles publish unpublish [] e = e"
| "toggles publish unpublish (x # xs) e =
     toggles publish unpublish xs (if snd x then publish (fst x) e else unpublish e)"

lemma toggles_snoc:
  "toggles publish unpublish (xs @ [x]) e =
     (if snd x then publish (fst x) (toggles publish unpublish xs e)
      else unpublish (toggles publish unpublish xs e))"
  by (induction xs arbitrary: e) auto

text \<open>
  \<^verbatim>\<open>ILearnroomElement\<close>: what a board relies on when it shows or hides an element. \<open>visible now\<close>
  is the element's own notion of being visible at a time.
\<close>

locale learnroom_element =
  fixes publish :: "date \<Rightarrow> 'e \<Rightarrow> 'e"
    and unpublish :: "'e \<Rightarrow> 'e"
    and visible :: "date \<Rightarrow> 'e \<Rightarrow> bool"
  assumes visible_publish: "visible now (publish now e)"
    and hidden_unpublish: "\<not> visible now (unpublish e)"
    and visible_later: "visible now e \<Longrightarrow> now \<le> now' \<Longrightarrow> visible now' e"
begin

lemma last_toggle_decides:
  "t \<le> now \<Longrightarrow> visible now (toggles publish unpublish (xs @ [(t, b)]) e) \<longleftrightarrow> b"
  by (auto simp: toggles_snoc hidden_unpublish intro: visible_later [OF visible_publish])

end

lemma Task_publish_visible: "isPublished now (Task_publish now t)"
  by (simp add: visibility_defs Task_publish_def)

lemma Task_unpublish_hidden: "\<not> isPublished now (Task_unpublish t)"
  by (simp add: visibility_defs Task_unpublish_def)

lemma isPublished_later: "isPublished now t \<Longrightarrow> now \<le> now' \<Longrightarrow> isPublished now' t"
  by (auto simp: isPublished_def split: if_splits option.splits)

interpretation task_element: learnroom_element Task_publish Task_unpublish isPublished
  by unfold_locales (auto intro: Task_publish_visible isPublished_later simp: Task_unpublish_hidden)

interpretation lesson_element:
  learnroom_element "\<lambda>_. Lesson_publish" Lesson_unpublish "\<lambda>_ l. \<not> les_hidden l"
  by unfold_locales (auto simp: Lesson_publish_def Lesson_unpublish_def)

section \<open>Submitters\<close>

text \<open>The people behind a submission: its student, the team and the course group.\<close>

definition submitters :: "'a submission_scheme \<Rightarrow> EntityId set" where
  "submitters s =
     insert (eid (sub_student s))
       ((case sub_teamMembers s of None \<Rightarrow> {} | Some c \<Rightarrow> set (coll_ids c)) \<union>
        set (getCourseGroupStudentIds s))"

definition members_loaded :: "'a submission_scheme \<Rightarrow> bool" where
  "members_loaded s \<longleftrightarrow> sub_teamMembers s \<noteq> None"

lemma getSubmitterIds_Inr:
  "getSubmitterIds s = Inr ids \<longleftrightarrow>
     (\<exists>c. sub_teamMembers s = Some c \<and>
       ids = uniq (eid (sub_student s) # coll_ids c @ getCourseGroupStudentIds s))"
  by (auto simp: getSubmitterIds_def getTeamMemberIds_def bindR_eq_Inr split: option.splits)

lemma getSubmitterIds_set: "getSubmitterIds s = Inr ids \<Longrightarrow> set ids = submitters s"
  by (auto simp: getSubmitterIds_Inr submitters_def)

lemma getSubmitterIds_loaded: "members_loaded s \<Longrightarrow> \<exists>ids. getSubmitterIds s = Inr ids"
  by (auto simp: getSubmitterIds_Inr members_loaded_def)

lemma isUserSubmitter_loaded:
  "members_loaded s \<Longrightarrow> isUserSubmitter s u = Inr (eid u \<in> submitters s)"
  using getSubmitterIds_loaded [of s] getSubmitterIds_set [of s]
  by (auto simp: isUserSubmitter_def list_ex_iff)

lemma ForUser_loaded:
  "members_loaded s \<Longrightarrow> isSubmittedForUser s u = Inr (eid u \<in> submitters s \<and> sub_submitted s)"
  "members_loaded s \<Longrightarrow> isGradedForUser s u = Inr (eid u \<in> submitters s \<and> sub_graded s)"
  by (simp_all add: isSubmittedForUser_def isGradedForUser_def isUserSubmitter_loaded
        isSubmitted_def isGraded_def)

lemma calculateNumberOfSubmitters_loaded:
  assumes "\<forall>s \<in> set ss. members_loaded s"
  shows "calculateNumberOfSubmitters ss = Inr (card (\<Union>s \<in> set ss. submitters s))"
proof -
  define g where "g s = projr (getSubmitterIds s)" for s :: submission
  have g: "getSubmitterIds s = Inr (g s)" if "s \<in> set ss" for s
    using getSubmitterIds_loaded [of s] assms that by (auto simp: g_def)
  have "mapMR getSubmitterIds ss = Inr (map g ss)"
    by (rule mapMR_total) (rule g)
  moreover have "set (concat (map g ss)) = (\<Union>s \<in> set ss. submitters s)"
    using g getSubmitterIds_set by fastforce
  ultimately show ?thesis
    by (simp add: calculateNumberOfSubmitters_def length_uniq del: set_concat)
qed

section \<open>The status of a task\<close>

text \<open>A task with everything its status reads.\<close>

definition status_loaded :: "'a task_scheme \<Rightarrow> submission list \<Rightarrow> user list \<Rightarrow> bool" where
  "status_loaded t ss us \<longleftrightarrow>
     (\<exists>c f. tsk_submissions t = Some c \<and> coll_initialized c \<and> coll_items c = ss \<and>
       tsk_finished t = Some f \<and> coll_items f = us \<and> (\<forall>s \<in> set ss. members_loaded s))"

definition finished_for :: "date \<Rightarrow> 'a task_scheme \<Rightarrow> user list \<Rightarrow> user \<Rightarrow> bool" where
  "finished_for now t us u \<longleftrightarrow>
     eid u \<in> eid ` set us \<or> (case tsk_course t of None \<Rightarrow> False | Some c \<Rightarrow> Course_isFinished now c)"

lemma list_ex_eq: "list_ex (\<lambda>i. i = x) xs \<longleftrightarrow> x \<in> set xs"
  by (induction xs) auto

lemma status_loadedD:
  assumes "status_loaded t ss us"
  shows "getSubmissionItems t = Inr ss" "\<forall>s \<in> set ss. members_loaded s"
    "isFinishedForUser now t u = Inr (finished_for now t us u)"
proof -
  from assms obtain c f where c: "tsk_submissions t = Some c" "coll_initialized c" "coll_items c = ss"
    and f: "tsk_finished t = Some f" "coll_items f = us" and m: "\<forall>s \<in> set ss. members_loaded s"
    unfolding status_loaded_def by blast
  show "getSubmissionItems t = Inr ss" "\<forall>s \<in> set ss. members_loaded s"
    using c m by (simp_all add: getSubmissionItems_def)
  show "isFinishedForUser now t u = Inr (finished_for now t us u)"
    using f by (simp add: isFinishedForUser_def getFinishedUserIds_def coll_ids_def
        finished_for_def list_ex_eq Let_def)
qed

lemma teacher_status_loaded:
  assumes l: "status_loaded t ss us" and m: "getMaxSubmissions t = Inr m"
  shows "createTeacherStatusForUser now t u = Inr
    \<lparr>st_submitted = card (\<Union>s \<in> {s \<in> set ss. sub_submitted s}. submitters s),
     st_maxSubmissions = m,
     st_graded = card (\<Union>s \<in> {s \<in> set ss. sub_graded s}. submitters s),
     st_isDraft = isDraft t,
     st_isSubstitutionTeacher = isUserSubstitutionTeacherInCourse t u,
     st_isFinished = finished_for now t us u\<rparr>"
  using status_loadedD [OF l] m
  by (simp add: createTeacherStatusForUser_def getSubmittedSubmissions_def getGradedSubmissions_def
        calculateNumberOfSubmitters_loaded isSubmitted_def isGraded_def)

lemma student_status_loaded:
  assumes l: "status_loaded t ss us"
  shows "createStudentStatusForUser now t u = Inr
    \<lparr>st_submitted = of_bool (\<exists>s \<in> set ss. sub_submitted s \<and> eid u \<in> submitters s),
     st_maxSubmissions = 1,
     st_graded = of_bool (\<exists>s \<in> set ss. sub_graded s \<and> eid u \<in> submitters s),
     st_isDraft = isDraft t, st_isSubstitutionTeacher = False,
     st_isFinished = finished_for now t us u\<rparr>"
proof -
  note L = status_loadedD [OF l]
  have "someR (\<lambda>s. isSubmittedForUser s u) ss = Inr (list_ex (\<lambda>s. sub_submitted s \<and> eid u \<in> submitters s) ss)"
    "someR (\<lambda>s. isGradedForUser s u) ss = Inr (list_ex (\<lambda>s. sub_graded s \<and> eid u \<in> submitters s) ss)"
    using L(2) by (auto intro!: someR_total simp: ForUser_loaded)
  then have "Task_isSubmittedForUser t u = Inr (\<exists>s \<in> set ss. sub_submitted s \<and> eid u \<in> submitters s)"
    "Task_isGradedForUser t u = Inr (\<exists>s \<in> set ss. sub_graded s \<and> eid u \<in> submitters s)"
    by (simp_all add: Task_isSubmittedForUser_def Task_isGradedForUser_def L(1) list_ex_iff)
  then show ?thesis
    by (simp only: createStudentStatusForUser_def bindR_simps L(3) of_bool_def)
qed

lemma finite_submitters [simp]: "finite (submitters s)"
  by (auto simp: submitters_def split: option.splits)

lemma submitter_counted:
  assumes "s \<in> A" "finite A" "x \<in> submitters s"
  shows "1 \<le> card (\<Union>s \<in> A. submitters s)"
proof -
  have "finite (\<Union>s \<in> A. submitters s)" "(\<Union>s \<in> A. submitters s) \<noteq> {}"
    using assms by auto
  then show ?thesis by (simp add: Suc_le_eq card_gt_0_iff)
qed

section \<open>Finishing and restoring\<close>

lemma coll_contains_iff: "coll_contains c x \<longleftrightarrow> oid x \<in> oid ` set (coll_items c)"
  by (auto simp: coll_contains_def same_object_def list_ex_iff image_iff) metis+

lemma coll_contains_add: "coll_contains (coll_add c x) y \<longleftrightarrow> coll_contains c y \<or> same_object x y"
  by (auto simp: coll_add_def coll_contains_def same_object_def list_ex_iff)

lemma coll_contains_remove: "coll_contains (coll_remove c x) y \<longleftrightarrow> coll_contains c y \<and> \<not> same_object x y"
  by (auto simp: coll_remove_def coll_contains_def same_object_def list_ex_iff)

lemma coll_remove_add: "\<not> coll_contains c x \<Longrightarrow> coll_remove (coll_add c x) x = c"
  by (auto simp: coll_remove_def coll_add_def coll_contains_def same_object_def list_ex_iff
        filter_id_conv intro!: collection.equality)

end
