(* ===== verification/Samples.thy ===== *)
theory Samples
  imports Tasks
begin

text \<open>
  Small concrete entities for the witnesses: a school, users with a role, a course with one
  teacher and one student, and what hangs below it. They are built by the modelled
  constructors and then given a database id.
\<close>

definition ex_school :: "ref \<Rightarrow> string \<Rightarrow> school" where
  "ex_school r i =
     (new_School r \<lparr>sp_externalId = None, sp_inMaintenanceSince = None, sp_inUserMigration = None,
        sp_oauthMigrationPossible = None, sp_oauthMigrationMandatory = None,
        sp_oauthMigrationFinished = None, sp_previousExternalId = None, sp_name = ''S'',
        sp_officialSchoolNumber = None, sp_systems = None, sp_features = None,
        sp_schoolYear = None\<rparr>)\<lparr>eid := i\<rparr>"

definition ex_user :: "ref \<Rightarrow> string \<Rightarrow> ref list \<Rightarrow> user" where
  "ex_user r i rs =
     (new_User 0 r \<lparr>up_email = ''e'', up_firstName = ''f'', up_lastName = ''l'',
        up_school = ex_school 900 ''school'', up_roles = rs, up_ldapDn = None, up_externalId = None,
        up_language = None, up_forcePasswordChange = None, up_preferences = None,
        up_deletedAt = None, up_lastLoginSystemChange = None, up_outdatedSince = None,
        up_previousExternalId = None\<rparr>)\<lparr>eid := i\<rparr>"

lemma ex_school_sel [simp]: "oid (ex_school r i) = r" "eid (ex_school r i) = i"
  by (simp_all add: ex_school_def new_School_def)

lemma ex_user_sel [simp]:
  "oid (ex_user r i rs) = r" "eid (ex_user r i rs) = i"
  "usr_roles (ex_user r i rs) = coll_of rs" "usr_school (ex_user r i rs) = ex_school 900 ''school''"
  by (simp_all add: ex_user_def new_User_def)

text \<open>Role 5 grants \<open>A\<close> and contains role 2, which grants \<open>B\<close>; role 3 contains itself.\<close>

definition ex_roles :: role_heap where
  "ex_roles r =
     (if r = 5 then \<lparr>oid = 5, eid = ''r1'', ent_createdAt = 0, ent_updatedAt = 0, role_name = TEACHER, role_permissions = [''A''],
                     role_roles = coll_of [2]\<rparr>
      else if r = 3 then \<lparr>oid = 3, eid = ''r3'', ent_createdAt = 0, ent_updatedAt = 0, role_name = USER, role_permissions = [''C''],
                     role_roles = coll_of [3]\<rparr>
      else \<lparr>oid = r, eid = ''r2'', ent_createdAt = 0, ent_updatedAt = 0, role_name = STUDENT, role_permissions = [''B''],
            role_roles = coll_of []\<rparr>)"

definition ex_acyclic_roles :: role_heap where
  "ex_acyclic_roles r = (if r = 3 then (ex_roles 2)\<lparr>oid := 3\<rparr> else ex_roles r)"

definition ex_env :: auth_env where
  "ex_env = \<lparr>env_roles = ex_acyclic_roles, env_stack = 3\<rparr>"

abbreviation ex_teacher :: user where "ex_teacher \<equiv> ex_user 4 ''teacher'' [5]"

abbreviation ex_student :: user where "ex_student \<equiv> ex_user 2 ''student'' [2]"

abbreviation ex_stranger :: user where "ex_stranger \<equiv> ex_user 3 ''stranger'' [2]"

definition ex_course :: course where
  "ex_course =
     (new_Course 0 10 \<lparr>cp_name = Some ''Maths'', cp_description = None,
        cp_school = ex_school 900 ''school'', cp_students = Some [ex_student],
        cp_teachers = Some [ex_teacher], cp_substitutionTeachers = None, cp_color = None,
        cp_startDate = None, cp_untilDate = None, cp_copyingSince = None\<rparr>)\<lparr>eid := ''course''\<rparr>"

definition ex_group :: courseGroup where
  "ex_group = (new_CourseGroup 0 11 ''g'' ex_course (Some [ex_student]))\<lparr>eid := ''group''\<rparr>"

definition ex_lesson :: "bool \<Rightarrow> lesson" where
  "ex_lesson hidden =
     (new_Lesson 0 20 \<lparr>lp_name = ''L'', lp_hidden = Some hidden, lp_course = Some ex_course,
        lp_courseGroup = None, lp_position = None, lp_contents = [], lp_materials = None\<rparr>)
       \<lparr>eid := ''lesson''\<rparr>"

definition ex_submission :: "bool \<Rightarrow> submission" where
  "ex_submission submitted =
     (new_Submission 0 40 \<lparr>isp_school = ex_school 900 ''school'', isp_student = ex_student,
        isp_courseGroup = None, isp_teamMembers = None, isp_comment = [],
        isp_submitted = Some submitted, isp_graded = None, isp_grade = None,
        isp_gradeComment = None\<rparr>)\<lparr>eid := ''submission''\<rparr>"

definition ex_task :: "bool \<Rightarrow> submission list \<Rightarrow> task" where
  "ex_task draft ss =
     (new_Task 0 30 \<lparr>tp_name = ''T'', tp_description = None, tp_descriptionInputFormat = None,
        tp_availableDate = None, tp_dueDate = None, tp_taskCard = None,
        tp_course = Some ex_course, tp_lesson = None, tp_creator = ex_teacher,
        tp_school = ex_school 900 ''school'', tp_finished = None, tp_private = Some draft,
        tp_submissions = Some ss, tp_publicSubmissions = None, tp_teamSubmissions = None\<rparr>)
       \<lparr>eid := ''task''\<rparr>"

lemma ex_course_sel [simp]:
  "oid ex_course = 10" "eid ex_course = ''course''"
  "crs_students ex_course = Some (coll_of [ex_student])"
  "crs_teachers ex_course = coll_of [ex_teacher]"
  "crs_substitutionTeachers ex_course = coll_of []"
  "crs_untilDate ex_course = None" "crs_school ex_course = ex_school 900 ''school''"
  "crs_name ex_course = ''Maths''"
  by (simp_all add: ex_course_def new_Course_def or_default_def)

lemma ex_group_sel [simp]:
  "eid ex_group = ''group''" "cg_students ex_group = Some (coll_of [ex_student])"
  "cg_course ex_group = ex_course"
  by (simp_all add: ex_group_def new_CourseGroup_def)

lemma ex_lesson_sel [simp]:
  "les_hidden (ex_lesson h) = h" "les_course (ex_lesson h) = Some ex_course"
  "les_courseGroup (ex_lesson h) = None" "eid (ex_lesson h) = ''lesson''" "oid (ex_lesson h) = 20"
  by (simp_all add: ex_lesson_def new_Lesson_def)

lemma ex_submission_sel [simp]:
  "sub_student (ex_submission b) = ex_student" "sub_submitted (ex_submission b) = b"
  "sub_graded (ex_submission b) = False" "sub_teamMembers (ex_submission b) = Some (coll_of [])"
  "sub_courseGroup (ex_submission b) = None"
  by (simp_all add: ex_submission_def new_Submission_def)

lemma ex_task_sel [simp]:
  "tsk_private (ex_task d ss) = Some d" "tsk_submissions (ex_task d ss) = Some (coll_of ss)"
  "tsk_finished (ex_task d ss) = Some (coll_of [])" "tsk_course (ex_task d ss) = Some ex_course"
  "tsk_lesson (ex_task d ss) = None" "tsk_creator (ex_task d ss) = ex_teacher"
  "tsk_availableDate (ex_task d ss) = None" "oid (ex_task d ss) = 30" "eid (ex_task d ss) = ''task''"
  "tsk_publicSubmissions (ex_task d ss) = Some False"
  by (simp_all add: ex_task_def new_Task_def)

lemma ex_roles_ranked: "ranked_roles ex_acyclic_roles (\<lambda>r. if r = 5 then 1 else 0)"
  by (simp add: ranked_roles_def ex_acyclic_roles_def ex_roles_def)

end
