(* ===== verification/ToolData.thy ===== *)
theory ToolData
  imports Prelude
begin

text \<open>
  External tools: the entities (\<^verbatim>\<open>shared/domain/entity/external-tools\<close>), the domain objects
  (\<^verbatim>\<open>shared/domain/domainobject/external-tool\<close>) and the mapper between them
  (\<^verbatim>\<open>shared/repo/externaltool/external-tool.repo.mapper.ts\<close>). A configuration is a union whose tag is
  its constructor. A tool, a school or a course that an entity refers to is held by its id, which is
  all that is read of it. Versions are whole numbers.
\<close>

section \<open>Parameters\<close>

datatype CustomParameterScope = SCOPE_GLOBAL | SCOPE_SCHOOL | SCOPE_COURSE

datatype CustomParameterLocation = LOCATION_PATH | LOCATION_TOKEN | LOCATION_QUERY

datatype CustomParameterType =
    PT_STRING | PT_NUMBER | PT_BOOLEAN | PT_AUTO_COURSEID | PT_AUTO_COURSENAME | PT_AUTO_SCHOOLID

record CustomParameter =
  cup_name :: string
  cup_default :: "string option"
  cup_regex :: "string option"
  cup_regexComment :: "string option"
  cup_scope :: CustomParameterScope
  cup_location :: CustomParameterLocation
  cup_type :: CustomParameterType
  cup_isOptional :: bool

record CustomParameterDO =
  cpd_name :: string
  cpd_default :: "string option"
  cpd_regex :: "string option"
  cpd_regexComment :: "string option"
  cpd_scope :: CustomParameterScope
  cpd_location :: CustomParameterLocation
  cpd_type :: CustomParameterType
  cpd_isOptional :: bool

record CustomParameterEntry =
  cpe_name :: string
  cpe_value :: "string option"

record CustomParameterEntryDO =
  ped_name :: string
  ped_value :: "string option"

section \<open>Configurations\<close>

datatype LtiMessageType = BASIC_LTI_LAUNCH_REQUEST | LTI_RESOURCE_LINK_REQUEST | LTI_DEEP_LINKING_REQUEST

datatype LtiPrivacyPermission =
    PRIVACY_ANONYMOUS | PRIVACY_EMAIL | PRIVACY_NAME | PRIVACY_PUBLIC | PRIVACY_PSEUDONYMOUS

datatype ToolConfigType = CONFIG_BASIC | CONFIG_OAUTH2 | CONFIG_LTI11

record ExternalToolConfig =
  etc_baseUrl :: string

record Lti11ToolConfig = ExternalToolConfig +
  ltc_key :: string
  ltc_secret :: string
  ltc_resource_link_id :: "string option"
  ltc_lti_message_type :: LtiMessageType
  ltc_privacy_permission :: LtiPrivacyPermission

record Oauth2ToolConfig = ExternalToolConfig +
  otc_clientId :: string
  otc_skipConsent :: bool

datatype AnyToolConfig =
    BasicConfig ExternalToolConfig
  | Lti11Config Lti11ToolConfig
  | Oauth2Config Oauth2ToolConfig

record ExternalToolConfigDO =
  ecd_baseUrl :: string

record Lti11ToolConfigDO = ExternalToolConfigDO +
  lcd_key :: string
  lcd_secret :: string
  lcd_resource_link_id :: "string option"
  lcd_lti_message_type :: LtiMessageType
  lcd_privacy_permission :: LtiPrivacyPermission

record Oauth2ToolConfigDO = ExternalToolConfigDO +
  ocd_clientId :: string
  ocd_clientSecret :: "string option"
  ocd_skipConsent :: bool
  ocd_tokenEndpointAuthMethod :: "string option"
  ocd_frontchannelLogoutUri :: "string option"
  ocd_scope :: "string option"
  ocd_redirectUris :: "string list option"

datatype AnyToolConfigDO =
    BasicConfigDO ExternalToolConfigDO
  | Lti11ConfigDO Lti11ToolConfigDO
  | Oauth2ConfigDO Oauth2ToolConfigDO

fun config_type :: "AnyToolConfigDO \<Rightarrow> ToolConfigType" where
  "config_type (BasicConfigDO _) = CONFIG_BASIC"
| "config_type (Lti11ConfigDO _) = CONFIG_LTI11"
| "config_type (Oauth2ConfigDO _) = CONFIG_OAUTH2"

section \<open>Tools\<close>

record IExternalToolProperties =
  etp_name :: string
  etp_url :: "string option"
  etp_logoUrl :: "string option"
  etp_config :: AnyToolConfig
  etp_parameters :: "CustomParameter list option"
  etp_isHidden :: bool
  etp_openNewTab :: bool
  etp_version :: int

record ExternalTool = timestamped +
  ext_name :: string
  ext_url :: "string option"
  ext_logoUrl :: "string option"
  ext_config :: AnyToolConfig
  ext_parameters :: "CustomParameter list option"
  ext_isHidden :: bool
  ext_openNewTab :: bool
  ext_version :: int

definition new_ExternalTool :: "date \<Rightarrow> ref \<Rightarrow> IExternalToolProperties \<Rightarrow> ExternalTool" where
  "new_ExternalTool now r props =
     \<lparr>oid = r, eid = [], ent_createdAt = now, ent_updatedAt = now,
      ext_name = etp_name props, ext_url = etp_url props, ext_logoUrl = etp_logoUrl props,
      ext_config = etp_config props, ext_parameters = etp_parameters props,
      ext_isHidden = etp_isHidden props, ext_openNewTab = etp_openNewTab props,
      ext_version = etp_version props\<rparr>"

record ExternalToolDO =
  etd_id :: "EntityId option"
  etd_createdAt :: "date option"
  etd_updatedAt :: "date option"
  etd_name :: string
  etd_url :: "string option"
  etd_logoUrl :: "string option"
  etd_config :: AnyToolConfigDO
  etd_parameters :: "CustomParameterDO list option"
  etd_isHidden :: bool
  etd_openNewTab :: bool
  etd_version :: int

datatype SchoolExternalToolStatus = STATUS_LATEST | STATUS_OUTDATED

record ISchoolExternalToolProperties =
  stp_tool :: EntityId
  stp_school :: EntityId
  stp_schoolParameters :: "CustomParameterEntry list option"
  stp_toolVersion :: int

record SchoolExternalTool = timestamped +
  set_tool :: EntityId
  set_school :: EntityId
  set_schoolParameters :: "CustomParameterEntry list"
  set_toolVersion :: int

definition new_SchoolExternalTool :: "date \<Rightarrow> ref \<Rightarrow> ISchoolExternalToolProperties \<Rightarrow> SchoolExternalTool" where
  "new_SchoolExternalTool now r props =
     \<lparr>oid = r, eid = [], ent_createdAt = now, ent_updatedAt = now,
      set_tool = stp_tool props, set_school = stp_school props,
      set_schoolParameters = nullish (stp_schoolParameters props) [],
      set_toolVersion = stp_toolVersion props\<rparr>"

record SchoolExternalToolDO =
  setdo_id :: "EntityId option"
  setdo_name :: "string option"
  setdo_createdAt :: "date option"
  setdo_updatedAt :: "date option"
  setdo_toolId :: EntityId
  setdo_schoolId :: EntityId
  setdo_parameters :: "CustomParameterEntryDO list"
  setdo_toolVersion :: int
  setdo_status :: "SchoolExternalToolStatus option"

record ICourseExternalToolProperties =
  ctp_schoolTool :: EntityId
  ctp_course :: EntityId
  ctp_courseParameters :: "CustomParameterEntry list option"
  ctp_toolVersion :: int

record CourseExternalTool = timestamped +
  cet_schoolTool :: EntityId
  cet_course :: EntityId
  cet_courseParameters :: "CustomParameterEntry list"
  cet_toolVersion :: int

definition new_CourseExternalTool :: "date \<Rightarrow> ref \<Rightarrow> ICourseExternalToolProperties \<Rightarrow> CourseExternalTool" where
  "new_CourseExternalTool now r props =
     \<lparr>oid = r, eid = [], ent_createdAt = now, ent_updatedAt = now,
      cet_schoolTool = ctp_schoolTool props, cet_course = ctp_course props,
      cet_courseParameters = nullish (ctp_courseParameters props) [],
      cet_toolVersion = ctp_toolVersion props\<rparr>"

record CourseExternalToolDO =
  ced_id :: "EntityId option"
  ced_createdAt :: "date option"
  ced_updatedAt :: "date option"
  ced_schoolToolId :: EntityId
  ced_courseId :: EntityId
  ced_parameters :: "CustomParameterEntryDO list"
  ced_toolVersion :: int

section \<open>The mapper\<close>

definition mapCustomParametersToDOs :: "CustomParameter list \<Rightarrow> CustomParameterDO list" where
  "mapCustomParametersToDOs customParameters =
     map (\<lambda>param. \<lparr>cpd_name = cup_name param, cpd_default = cup_default param, cpd_regex = cup_regex param,
       cpd_regexComment = cup_regexComment param, cpd_scope = cup_scope param,
       cpd_location = cup_location param, cpd_type = cup_type param,
       cpd_isOptional = cup_isOptional param\<rparr>) customParameters"

definition mapCustomParameterDOsToEntities :: "CustomParameterDO list \<Rightarrow> CustomParameter list" where
  "mapCustomParameterDOsToEntities customParameters =
     map (\<lambda>param. \<lparr>cup_name = cpd_name param, cup_default = cpd_default param, cup_regex = cpd_regex param,
       cup_regexComment = cpd_regexComment param, cup_scope = cpd_scope param,
       cup_location = cpd_location param, cup_type = cpd_type param,
       cup_isOptional = cpd_isOptional param\<rparr>) customParameters"

definition mapCustomParameterEntryEntitiesToDOs :: "CustomParameterEntry list \<Rightarrow> CustomParameterEntryDO list" where
  "mapCustomParameterEntryEntitiesToDOs entries =
     map (\<lambda>entry. \<lparr>ped_name = cpe_name entry, ped_value = cpe_value entry\<rparr>) entries"

definition mapCustomParameterEntryDOsToEntities :: "CustomParameterEntryDO list \<Rightarrow> CustomParameterEntry list" where
  "mapCustomParameterEntryDOsToEntities entries =
     map (\<lambda>entry. \<lparr>cpe_name = ped_name entry, cpe_value = ped_value entry\<rparr>) entries"

fun mapConfigToDO :: "AnyToolConfig \<Rightarrow> AnyToolConfigDO" where
  "mapConfigToDO (BasicConfig c) = BasicConfigDO \<lparr>ecd_baseUrl = etc_baseUrl c\<rparr>"
| "mapConfigToDO (Oauth2Config c) = Oauth2ConfigDO
     \<lparr>ecd_baseUrl = etc_baseUrl c, ocd_clientId = otc_clientId c, ocd_clientSecret = None,
      ocd_skipConsent = otc_skipConsent c, ocd_tokenEndpointAuthMethod = None,
      ocd_frontchannelLogoutUri = None, ocd_scope = None, ocd_redirectUris = None\<rparr>"
| "mapConfigToDO (Lti11Config c) = Lti11ConfigDO
     \<lparr>ecd_baseUrl = etc_baseUrl c, lcd_key = ltc_key c, lcd_secret = ltc_secret c,
      lcd_resource_link_id = ltc_resource_link_id c, lcd_lti_message_type = ltc_lti_message_type c,
      lcd_privacy_permission = ltc_privacy_permission c\<rparr>"

fun mapConfigDOToEntity :: "AnyToolConfigDO \<Rightarrow> AnyToolConfig" where
  "mapConfigDOToEntity (BasicConfigDO c) = BasicConfig \<lparr>etc_baseUrl = ecd_baseUrl c\<rparr>"
| "mapConfigDOToEntity (Oauth2ConfigDO c) = Oauth2Config
     \<lparr>etc_baseUrl = ecd_baseUrl c, otc_clientId = ocd_clientId c, otc_skipConsent = ocd_skipConsent c\<rparr>"
| "mapConfigDOToEntity (Lti11ConfigDO c) = Lti11Config
     \<lparr>etc_baseUrl = ecd_baseUrl c, ltc_key = lcd_key c, ltc_secret = lcd_secret c,
      ltc_resource_link_id = lcd_resource_link_id c, ltc_lti_message_type = lcd_lti_message_type c,
      ltc_privacy_permission = lcd_privacy_permission c\<rparr>"

definition tool_mapEntityToDO :: "ExternalTool \<Rightarrow> ExternalToolDO" where
  "tool_mapEntityToDO e =
     \<lparr>etd_id = Some (eid e), etd_createdAt = Some (ent_createdAt e), etd_updatedAt = Some (ent_updatedAt e),
      etd_name = ext_name e, etd_url = ext_url e, etd_logoUrl = ext_logoUrl e,
      etd_config = mapConfigToDO (ext_config e),
      etd_parameters = Some (mapCustomParametersToDOs (nullish (ext_parameters e) [])),
      etd_isHidden = ext_isHidden e, etd_openNewTab = ext_openNewTab e, etd_version = ext_version e\<rparr>"

definition tool_mapDOToEntityProperties :: "ExternalToolDO \<Rightarrow> IExternalToolProperties" where
  "tool_mapDOToEntityProperties d =
     \<lparr>etp_name = etd_name d, etp_url = etd_url d, etp_logoUrl = etd_logoUrl d,
      etp_config = mapConfigDOToEntity (etd_config d),
      etp_parameters = Some (mapCustomParameterDOsToEntities (nullish (etd_parameters d) [])),
      etp_isHidden = etd_isHidden d, etp_openNewTab = etd_openNewTab d, etp_version = etd_version d\<rparr>"

definition schoolTool_mapEntityToDO :: "SchoolExternalTool \<Rightarrow> SchoolExternalToolDO" where
  "schoolTool_mapEntityToDO e =
     \<lparr>setdo_id = Some (eid e), setdo_name = None, setdo_createdAt = Some (ent_createdAt e),
      setdo_updatedAt = Some (ent_updatedAt e), setdo_toolId = set_tool e, setdo_schoolId = set_school e,
      setdo_parameters = mapCustomParameterEntryEntitiesToDOs (set_schoolParameters e),
      setdo_toolVersion = set_toolVersion e, setdo_status = None\<rparr>"

definition schoolTool_mapDOToEntityProperties :: "SchoolExternalToolDO \<Rightarrow> ISchoolExternalToolProperties" where
  "schoolTool_mapDOToEntityProperties d =
     \<lparr>stp_tool = setdo_toolId d, stp_school = setdo_schoolId d,
      stp_schoolParameters = Some (mapCustomParameterEntryDOsToEntities (setdo_parameters d)),
      stp_toolVersion = setdo_toolVersion d\<rparr>"

definition courseTool_mapEntityToDO :: "CourseExternalTool \<Rightarrow> CourseExternalToolDO" where
  "courseTool_mapEntityToDO e =
     \<lparr>ced_id = Some (eid e), ced_createdAt = Some (ent_createdAt e), ced_updatedAt = Some (ent_updatedAt e),
      ced_schoolToolId = cet_schoolTool e, ced_courseId = cet_course e,
      ced_parameters = mapCustomParameterEntryEntitiesToDOs (cet_courseParameters e),
      ced_toolVersion = cet_toolVersion e\<rparr>"

definition courseTool_mapDOToEntityProperties :: "CourseExternalToolDO \<Rightarrow> ICourseExternalToolProperties" where
  "courseTool_mapDOToEntityProperties d =
     \<lparr>ctp_schoolTool = ced_schoolToolId d, ctp_course = ced_courseId d,
      ctp_courseParameters = Some (mapCustomParameterEntryDOsToEntities (ced_parameters d)),
      ctp_toolVersion = ced_toolVersion d\<rparr>"

lemma parameters_there_and_back [simp]:
  "mapCustomParametersToDOs (mapCustomParameterDOsToEntities ps) = ps"
  "mapCustomParameterEntryEntitiesToDOs (mapCustomParameterEntryDOsToEntities es) = es"
  by (simp_all add: mapCustomParametersToDOs_def mapCustomParameterDOsToEntities_def
      mapCustomParameterEntryEntitiesToDOs_def mapCustomParameterEntryDOsToEntities_def comp_def map_idI)

end
