(* ===== verification/Rules.thy ===== *)
theory Rules
  imports Samples ToolData
begin

text \<open>
  The permission rules, one per class of entity (\<^verbatim>\<open>shared/domain/rules/*.rule.ts\<close>), and the
  contracts they share. Every rule is a function of the environment (role heap and stack), the
  user, the entity and the permission context; its result may be an exception of the role
  resolution. The specification of a rule is a predicate on the entity alone (\<open>course_access\<close>
  and so on), and each rule is shown to be that predicate guarded by the required permissions.
\<close>

section \<open>Actions and contexts\<close>

datatype Actions = Read | Write

text \<open>\<open>Write\<close> is the stronger action.\<close>

instantiation Actions :: linorder
begin

definition less_eq_Actions :: "Actions \<Rightarrow> Actions \<Rightarrow> bool" where
  "less_eq_Actions a b \<longleftrightarrow> a = Read \<or> b = Write"

definition less_Actions :: "Actions \<Rightarrow> Actions \<Rightarrow> bool" where
  "less_Actions a b \<longleftrightarrow> a = Read \<and> b = Write"

instance
proof
  fix x y z :: Actions
  show "(x < y) = (x \<le> y \<and> \<not> y \<le> x)"
    by (cases x; cases y) (simp_all add: less_eq_Actions_def less_Actions_def)
  show "x \<le> x" "x \<le> y \<or> y \<le> x"
    by (cases x; cases y; simp add: less_eq_Actions_def)+
  show "x \<le> y \<Longrightarrow> y \<le> z \<Longrightarrow> x \<le> z" "x \<le> y \<Longrightarrow> y \<le> x \<Longrightarrow> x = y"
    by (cases x; cases y; cases z; simp add: less_eq_Actions_def)+
qed

end

record IPermissionContext =
  ctx_action :: Actions
  ctx_requiredPermissions :: "string list"

definition PermissionContextBuilder_build :: "string list \<Rightarrow> Actions \<Rightarrow> IPermissionContext" where
  "PermissionContextBuilder_build required a = \<lparr>ctx_action = a, ctx_requiredPermissions = required\<rparr>"

definition PermissionContextBuilder_write :: "string list \<Rightarrow> IPermissionContext" where
  "PermissionContextBuilder_write required = PermissionContextBuilder_build required Write"

definition PermissionContextBuilder_read :: "string list \<Rightarrow> IPermissionContext" where
  "PermissionContextBuilder_read required = PermissionContextBuilder_build required Read"

lemmas context_builder_defs =
  PermissionContextBuilder_build_def PermissionContextBuilder_write_def
  PermissionContextBuilder_read_def

section \<open>The rules\<close>

subsection \<open>Courses\<close>

text \<open>The property access \<^verbatim>\<open>entity[prop]\<close> for the properties that the rules name.\<close>

definition Course_prop :: "'a course_scheme \<Rightarrow> string \<Rightarrow> user_ref" where
  "Course_prop c prop =
     (if prop = ''teachers'' then RefCollection (crs_teachers c)
      else if prop = ''substitutionTeachers'' then RefCollection (crs_substitutionTeachers c)
      else if prop = ''students''
           then (case crs_students c of None \<Rightarrow> RefUndefined | Some s \<Rightarrow> RefCollection s)
      else RefUndefined)"

definition CourseRule_hasPermission ::
  "auth_env \<Rightarrow> user \<Rightarrow> 'a course_scheme \<Rightarrow> IPermissionContext \<Rightarrow> bool result" where
  "CourseRule_hasPermission env u c ctx =
     andR (hasAllPermissions env u (ctx_requiredPermissions ctx))
       (Inr (hasAccessToEntity u (Course_prop c)
          (if ctx_action ctx = Read
           then [''teachers'', ''substitutionTeachers'', ''students'']
           else [''teachers'', ''substitutionTeachers''])))"

subsection \<open>Course groups\<close>

definition CourseGroup_prop :: "courseGroup \<Rightarrow> string \<Rightarrow> user_ref" where
  "CourseGroup_prop g prop =
     (if prop = ''students''
      then (case cg_students g of None \<Rightarrow> RefUndefined | Some s \<Rightarrow> RefCollection s)
      else RefUndefined)"

definition CourseGroupRule_hasPermission ::
  "auth_env \<Rightarrow> user \<Rightarrow> courseGroup \<Rightarrow> IPermissionContext \<Rightarrow> bool result" where
  "CourseGroupRule_hasPermission env u g ctx =
     bindR (hasAllPermissions env u (ctx_requiredPermissions ctx)) (\<lambda>hasAll.
     bindR (orR (Inr (hasAccessToEntity u (CourseGroup_prop g) [''students'']))
              (CourseRule_hasPermission env u (cg_course g)
                 \<lparr>ctx_action = Write, ctx_requiredPermissions = []\<rparr>)) (\<lambda>hasPermission.
       Inr (hasAll \<and> hasPermission)))"

subsection \<open>Lessons\<close>

definition lesson_coursePermission :: "auth_env \<Rightarrow> user \<Rightarrow> course \<Rightarrow> Actions \<Rightarrow> bool result" where
  "lesson_coursePermission env u c a =
     CourseRule_hasPermission env u c \<lparr>ctx_action = a, ctx_requiredPermissions = []\<rparr>"

definition lesson_courseGroupPermission ::
  "auth_env \<Rightarrow> user \<Rightarrow> courseGroup \<Rightarrow> Actions \<Rightarrow> bool result" where
  "lesson_courseGroupPermission env u g a =
     CourseGroupRule_hasPermission env u g \<lparr>ctx_action = a, ctx_requiredPermissions = []\<rparr>"

definition lesson_parentPermission ::
  "auth_env \<Rightarrow> user \<Rightarrow> 'a lesson_scheme \<Rightarrow> Actions \<Rightarrow> bool result" where
  "lesson_parentPermission env u l a =
     (case les_courseGroup l of
        Some g \<Rightarrow> lesson_courseGroupPermission env u g a
      | None \<Rightarrow> (case les_course l of
                  Some c \<Rightarrow> lesson_coursePermission env u c a
                | None \<Rightarrow> Inr False))"

definition lessonReadPermission :: "auth_env \<Rightarrow> user \<Rightarrow> 'a lesson_scheme \<Rightarrow> bool result" where
  "lessonReadPermission env u l =
     (let isVisible = (\<not> les_hidden l)
      in if isVisible then lesson_parentPermission env u l Read
         else lesson_parentPermission env u l Write)"

definition lessonWritePermission :: "auth_env \<Rightarrow> user \<Rightarrow> 'a lesson_scheme \<Rightarrow> bool result" where
  "lessonWritePermission env u l = lesson_parentPermission env u l Write"

definition LessonRule_hasPermission ::
  "auth_env \<Rightarrow> user \<Rightarrow> 'a lesson_scheme \<Rightarrow> IPermissionContext \<Rightarrow> bool result" where
  "LessonRule_hasPermission env u l ctx =
     bindR (case ctx_action ctx of
              Read \<Rightarrow> lessonReadPermission env u l
            | Write \<Rightarrow> lessonWritePermission env u l) (\<lambda>hasLessonPermission.
     bindR (hasAllPermissions env u (ctx_requiredPermissions ctx)) (\<lambda>hasUserPermission.
       Inr (hasUserPermission \<and> hasLessonPermission)))"

subsection \<open>Tasks\<close>

definition Task_prop :: "'a task_scheme \<Rightarrow> string \<Rightarrow> user_ref" where
  "Task_prop t prop = (if prop = ''creator'' then RefUser (tsk_creator t) else RefUndefined)"

definition task_parentPermission ::
  "auth_env \<Rightarrow> user \<Rightarrow> 'a task_scheme \<Rightarrow> Actions \<Rightarrow> bool result" where
  "task_parentPermission env u t a =
     (case tsk_lesson t of
        Some l \<Rightarrow> LessonRule_hasPermission env u l \<lparr>ctx_action = a, ctx_requiredPermissions = []\<rparr>
      | None \<Rightarrow> (case tsk_course t of
                  Some c \<Rightarrow> CourseRule_hasPermission env u c
                              \<lparr>ctx_action = a, ctx_requiredPermissions = []\<rparr>
                | None \<Rightarrow> Inr False))"

definition taskReadPermission :: "auth_env \<Rightarrow> user \<Rightarrow> 'a task_scheme \<Rightarrow> bool result" where
  "taskReadPermission env u t =
     (if isDraft t then task_parentPermission env u t Write
      else task_parentPermission env u t Read)"

definition taskWritePermission :: "auth_env \<Rightarrow> user \<Rightarrow> 'a task_scheme \<Rightarrow> bool result" where
  "taskWritePermission env u t = task_parentPermission env u t Write"

definition TaskRule_hasPermission ::
  "auth_env \<Rightarrow> user \<Rightarrow> 'a task_scheme \<Rightarrow> IPermissionContext \<Rightarrow> bool result" where
  "TaskRule_hasPermission env u t ctx =
     bindR (hasAllPermissions env u (ctx_requiredPermissions ctx)) (\<lambda>hasPermission.
       let isCreator = hasAccessToEntity u (Task_prop t) [''creator'']
       in bindR (case ctx_action ctx of
                   Read \<Rightarrow> taskReadPermission env u t
                 | Write \<Rightarrow> taskWritePermission env u t) (\<lambda>hasTaskPermission.
            Inr (hasPermission \<and> (isCreator \<or> hasTaskPermission))))"

subsection \<open>Task cards\<close>

definition TaskCard_prop :: "TaskCard \<Rightarrow> string \<Rightarrow> user_ref" where
  "TaskCard_prop c prop = (if prop = ''creator'' then RefUser (tc_creator c) else RefUndefined)"

definition TaskCardRule_hasPermission ::
  "auth_env \<Rightarrow> user \<Rightarrow> TaskCard \<Rightarrow> IPermissionContext \<Rightarrow> bool result" where
  "TaskCardRule_hasPermission env u c ctx =
     bindR (hasAllPermissions env u (ctx_requiredPermissions ctx)) (\<lambda>hasPermission.
       let isCreator = hasAccessToEntity u (TaskCard_prop c) [''creator'']
       in bindR (case ctx_action ctx of
                   Read \<Rightarrow> TaskRule_hasPermission env u (tc_task c)
                             \<lparr>ctx_action = Read, ctx_requiredPermissions = [HOMEWORK_VIEW]\<rparr>
                 | Write \<Rightarrow> TaskRule_hasPermission env u (tc_task c)
                             \<lparr>ctx_action = Write, ctx_requiredPermissions = [HOMEWORK_EDIT]\<rparr>)
            (\<lambda>hasTaskPermission. Inr (hasPermission \<and> (isCreator \<or> hasTaskPermission))))"

subsection \<open>Submissions\<close>

definition hasParentTaskWriteAccess :: "auth_env \<Rightarrow> user \<Rightarrow> submission_entity \<Rightarrow> bool result" where
  "hasParentTaskWriteAccess env u s =
     TaskRule_hasPermission env u (sub_task s) \<lparr>ctx_action = Write, ctx_requiredPermissions = []\<rparr>"

definition hasParentTaskReadAccess :: "auth_env \<Rightarrow> user \<Rightarrow> submission_entity \<Rightarrow> bool result" where
  "hasParentTaskReadAccess env u s =
     TaskRule_hasPermission env u (sub_task s) \<lparr>ctx_action = Read, ctx_requiredPermissions = []\<rparr>"

definition submission_hasWriteAccess :: "auth_env \<Rightarrow> user \<Rightarrow> submission_entity \<Rightarrow> bool result" where
  "submission_hasWriteAccess env u s = orR (isUserSubmitter s u) (hasParentTaskWriteAccess env u s)"

definition submission_hasReadAccess :: "auth_env \<Rightarrow> user \<Rightarrow> submission_entity \<Rightarrow> bool result" where
  "submission_hasReadAccess env u s =
     (if isSubmitted s
      then orR (submission_hasWriteAccess env u s)
             (andR (hasParentTaskReadAccess env u s) (Inr (areSubmissionsPublic (sub_task s))))
      else isUserSubmitter s u)"

definition hasAccessToSubmission ::
  "auth_env \<Rightarrow> user \<Rightarrow> submission_entity \<Rightarrow> Actions \<Rightarrow> bool result" where
  "hasAccessToSubmission env u s a =
     (case a of Write \<Rightarrow> submission_hasWriteAccess env u s
              | Read \<Rightarrow> submission_hasReadAccess env u s)"

definition SubmissionRule_hasPermission ::
  "auth_env \<Rightarrow> user \<Rightarrow> submission_entity \<Rightarrow> IPermissionContext \<Rightarrow> bool result" where
  "SubmissionRule_hasPermission env u s ctx =
     andR (hasAllPermissions env u (ctx_requiredPermissions ctx))
       (hasAccessToSubmission env u s (ctx_action ctx))"

subsection \<open>Schools, tools, teams, users\<close>

datatype school_subject = SchoolEntity school | SchoolDomainObject SchoolDO

fun school_subject_id :: "school_subject \<Rightarrow> EntityId option" where
  "school_subject_id (SchoolEntity s) = Some (eid s)"
| "school_subject_id (SchoolDomainObject d) = sdo_id d"

definition SchoolRule_hasPermission ::
  "auth_env \<Rightarrow> user \<Rightarrow> school_subject \<Rightarrow> IPermissionContext \<Rightarrow> bool result" where
  "SchoolRule_hasPermission env u s ctx =
     andR (hasAllPermissions env u (ctx_requiredPermissions ctx))
       (Inr (Some (eid (usr_school u)) = school_subject_id s))"

text \<open>A configured tool of a school, as an entity or as a domain object.\<close>

datatype tool_subject = ToolEntity SchoolExternalTool | ToolDomainObject SchoolExternalToolDO

fun SchoolExternalToolRule_hasPermission ::
  "auth_env \<Rightarrow> user \<Rightarrow> tool_subject \<Rightarrow> IPermissionContext \<Rightarrow> bool result" where
  "SchoolExternalToolRule_hasPermission env u (ToolEntity t) ctx =
     andR (hasAllPermissions env u (ctx_requiredPermissions ctx))
       (Inr (eid (usr_school u) = set_school t))"
| "SchoolExternalToolRule_hasPermission env u (ToolDomainObject d) ctx =
     andR (hasAllPermissions env u (ctx_requiredPermissions ctx))
       (Inr (eid (usr_school u) = setdo_schoolId d))"

definition TeamRule_hasPermission ::
  "auth_env \<Rightarrow> user \<Rightarrow> 'a team_scheme \<Rightarrow> IPermissionContext \<Rightarrow> bool result" where
  "TeamRule_hasPermission env u t ctx =
     (case List.find (\<lambda>teamUser. eid (TeamUser_user teamUser) = eid u) (teamUsers t) of
        Some isTeamUser \<Rightarrow> hasAllPermissionsByRole env (tu_role isTeamUser) (ctx_requiredPermissions ctx)
      | None \<Rightarrow> Inr False)"

definition UserRule_hasPermission ::
  "auth_env \<Rightarrow> user \<Rightarrow> user \<Rightarrow> IPermissionContext \<Rightarrow> bool result" where
  "UserRule_hasPermission env u e ctx =
     bindR (hasAllPermissions env u (ctx_requiredPermissions ctx)) (\<lambda>hasPermission.
       let isOwner = same_object u e in Inr (hasPermission \<or> isOwner))"

end
