(* ===== verification/RuleFacts.thy ===== *)
theory RuleFacts
  imports Rules
begin

section \<open>What the rules decide\<close>

definition teaches :: "user \<Rightarrow> 'a course_scheme \<Rightarrow> bool" where
  "teaches u c \<longleftrightarrow> coll_contains (crs_teachers c) u \<or> coll_contains (crs_substitutionTeachers c) u"

definition attends :: "user \<Rightarrow> 'a course_scheme \<Rightarrow> bool" where
  "attends u c \<longleftrightarrow> (case crs_students c of None \<Rightarrow> False | Some s \<Rightarrow> coll_contains s u)"

definition course_access :: "user \<Rightarrow> 'a course_scheme \<Rightarrow> Actions \<Rightarrow> bool" where
  "course_access u c a \<longleftrightarrow> teaches u c \<or> a = Read \<and> attends u c"

definition group_access :: "user \<Rightarrow> courseGroup \<Rightarrow> Actions \<Rightarrow> bool" where
  "group_access u g a \<longleftrightarrow>
     (case cg_students g of None \<Rightarrow> False | Some s \<Rightarrow> coll_contains s u) \<or> teaches u (cg_course g)"

definition lesson_access :: "user \<Rightarrow> 'a lesson_scheme \<Rightarrow> Actions \<Rightarrow> bool" where
  "lesson_access u l a \<longleftrightarrow>
     (case les_courseGroup l of
        Some g \<Rightarrow> group_access u g a
      | None \<Rightarrow> (case les_course l of
                  Some c \<Rightarrow> course_access u c (if les_hidden l then Write else a)
                | None \<Rightarrow> False))"

definition task_parent_access :: "user \<Rightarrow> 'a task_scheme \<Rightarrow> Actions \<Rightarrow> bool" where
  "task_parent_access u t a \<longleftrightarrow>
     (case tsk_lesson t of
        Some l \<Rightarrow> lesson_access u l a
      | None \<Rightarrow> (case tsk_course t of Some c \<Rightarrow> course_access u c a | None \<Rightarrow> False))"

definition task_access :: "user \<Rightarrow> 'a task_scheme \<Rightarrow> Actions \<Rightarrow> bool" where
  "task_access u t a \<longleftrightarrow>
     same_object (tsk_creator t) u \<or> task_parent_access u t (if isDraft t then Write else a)"

text \<open>The required permissions are always resolved, and then both must hold.\<close>

definition guarded :: "auth_env \<Rightarrow> user \<Rightarrow> IPermissionContext \<Rightarrow> bool \<Rightarrow> bool result" where
  "guarded env u ctx b =
     bindR (hasAllPermissions env u (ctx_requiredPermissions ctx)) (\<lambda>p. Inr (p \<and> b))"

lemma andR_guarded:
  "andR (hasAllPermissions env u (ctx_requiredPermissions ctx)) (Inr b) = guarded env u ctx b"
  by (simp add: guarded_def andR_def bindR_def split: sum.splits)

lemma guarded_Nil: "ctx_requiredPermissions ctx = [] \<Longrightarrow> guarded env u ctx b = Inr b"
  by (simp add: guarded_def)

lemma guarded_True:
  "guarded env u ctx b = Inr True \<longleftrightarrow>
     hasAllPermissions env u (ctx_requiredPermissions ctx) = Inr True \<and> b"
  by (auto simp: guarded_def bindR_eq_Inr)

subsection \<open>The contract of a rule\<close>

text \<open>
  \<^verbatim>\<open>BasePermission\<close>: a rule that is a predicate on user, entity and action, guarded by the
  required permissions.
\<close>

locale guarded_rule =
  fixes rule :: "auth_env \<Rightarrow> user \<Rightarrow> 'e \<Rightarrow> IPermissionContext \<Rightarrow> bool result"
    and access :: "user \<Rightarrow> 'e \<Rightarrow> Actions \<Rightarrow> bool"
  assumes decision: "rule env u e ctx = guarded env u ctx (access u e (ctx_action ctx))"
begin

lemma unconditional: "ctx_requiredPermissions ctx = [] \<Longrightarrow> rule env u e ctx = Inr (access u e (ctx_action ctx))"
  by (simp add: decision guarded_Nil)

lemma permitted_iff:
  "rule env u e ctx = Inr True \<longleftrightarrow>
     hasAllPermissions env u (ctx_requiredPermissions ctx) = Inr True \<and> access u e (ctx_action ctx)"
  by (simp add: decision guarded_True)

lemma permitted_requires:
  "rule env u e ctx = Inr True \<Longrightarrow> ctx_requiredPermissions ctx \<noteq> [] \<Longrightarrow>
   set (ctx_requiredPermissions ctx) \<subseteq> granted (env_roles env) (coll_items (usr_roles u))"
  by (auto simp: permitted_iff dest: hasAllPermissions_True)

end

text \<open>A rule for which the stronger action includes the weaker one.\<close>

locale monotone_rule = guarded_rule +
  assumes access_mono: "a \<le> b \<Longrightarrow> access u e b \<Longrightarrow> access u e a"
begin

lemma weaken:
  assumes "rule env u e ctx = Inr True" and "ctx_action ctx' \<le> ctx_action ctx"
    and "set (ctx_requiredPermissions ctx') \<subseteq> set (ctx_requiredPermissions ctx)"
  shows "rule env u e ctx' = Inr True"
  using assms hasAllPermissions_mono access_mono by (fastforce simp: permitted_iff)

end

subsection \<open>The rules meet it\<close>

lemma course_hasAccess:
  "hasAccessToEntity u (Course_prop c)
     (if a = Read then [''teachers'', ''substitutionTeachers'', ''students'']
      else [''teachers'', ''substitutionTeachers'']) = course_access u c a"
  by (cases a; cases "crs_students c")
    (simp_all add: hasAccessToEntity_def Course_prop_def course_access_def teaches_def attends_def)

lemma course_access_mono: "a \<le> b \<Longrightarrow> course_access u c b \<Longrightarrow> course_access u c a"
  by (cases a; cases b) (auto simp: course_access_def less_eq_Actions_def)

lemma lesson_access_mono: "a \<le> b \<Longrightarrow> lesson_access u l b \<Longrightarrow> lesson_access u l a"
  by (auto simp: lesson_access_def group_access_def split: option.splits if_splits
        intro: course_access_mono)

lemma task_access_mono: "a \<le> b \<Longrightarrow> task_access u t b \<Longrightarrow> task_access u t a"
  by (auto simp: task_access_def task_parent_access_def split: option.splits if_splits
        intro: course_access_mono lesson_access_mono)

interpretation course_rule: monotone_rule CourseRule_hasPermission course_access
  by unfold_locales
    (simp_all only: CourseRule_hasPermission_def course_hasAccess andR_guarded course_access_mono)

lemma group_hasAccess:
  "hasAccessToEntity u (CourseGroup_prop g) [''students''] =
     (case cg_students g of None \<Rightarrow> False | Some s \<Rightarrow> coll_contains s u)"
  by (simp add: hasAccessToEntity_def CourseGroup_prop_def split: option.splits)

interpretation group_rule: monotone_rule CourseGroupRule_hasPermission group_access
  by unfold_locales
    (auto simp: CourseGroupRule_hasPermission_def group_hasAccess course_rule.unconditional
      group_access_def course_access_def guarded_def orR_def)

lemma lesson_parentPermission_eq:
  "lesson_parentPermission env u l a = Inr (case les_courseGroup l of
      Some g \<Rightarrow> group_access u g a
    | None \<Rightarrow> (case les_course l of Some c \<Rightarrow> course_access u c a | None \<Rightarrow> False))"
  by (simp add: lesson_parentPermission_def lesson_courseGroupPermission_def
        lesson_coursePermission_def course_rule.unconditional group_rule.unconditional
        split: option.split)

lemma lesson_permissions_eq:
  "lessonReadPermission env u l = Inr (lesson_access u l Read)"
  "lessonWritePermission env u l = Inr (lesson_access u l Write)"
  by (auto simp: lessonReadPermission_def lessonWritePermission_def lesson_parentPermission_eq
        lesson_access_def group_access_def split: option.split)

interpretation lesson_rule: monotone_rule LessonRule_hasPermission lesson_access
proof
  fix env u l ctx
  show "LessonRule_hasPermission env u l ctx = guarded env u ctx (lesson_access u l (ctx_action ctx))"
    by (cases "ctx_action ctx")
      (simp_all add: LessonRule_hasPermission_def lesson_permissions_eq guarded_def)
qed (rule lesson_access_mono)

lemma task_parentPermission_eq: "task_parentPermission env u t a = Inr (task_parent_access u t a)"
  by (simp add: task_parentPermission_def task_parent_access_def course_rule.unconditional
        lesson_rule.unconditional split: option.split)

lemma task_creator_access: "hasAccessToEntity u (Task_prop t) [''creator''] = same_object (tsk_creator t) u"
  by (simp add: hasAccessToEntity_def Task_prop_def)

interpretation task_rule: monotone_rule TaskRule_hasPermission task_access
proof
  fix env u t ctx
  show "TaskRule_hasPermission env u t ctx = guarded env u ctx (task_access u t (ctx_action ctx))"
    by (cases "ctx_action ctx")
      (simp_all add: TaskRule_hasPermission_def taskReadPermission_def taskWritePermission_def
        task_parentPermission_eq task_creator_access guarded_def task_access_def Let_def)
qed (rule task_access_mono)

interpretation school_rule: monotone_rule SchoolRule_hasPermission
    "\<lambda>u s _. Some (eid (usr_school u)) = school_subject_id s"
  by unfold_locales (simp_all add: SchoolRule_hasPermission_def andR_guarded)

fun tool_subject_school :: "tool_subject \<Rightarrow> EntityId" where
  "tool_subject_school (ToolEntity t) = set_school t"
| "tool_subject_school (ToolDomainObject d) = setdo_schoolId d"

interpretation tool_rule: monotone_rule SchoolExternalToolRule_hasPermission
    "\<lambda>u s _. eid (usr_school u) = tool_subject_school s"
proof
  fix env u s ctx
  show "SchoolExternalToolRule_hasPermission env u s ctx =
      guarded env u ctx (eid (usr_school u) = tool_subject_school s)"
    by (cases s) (simp_all add: andR_guarded)
qed

subsection \<open>Submissions\<close>

definition submission_access :: "user \<Rightarrow> submission_entity \<Rightarrow> Actions \<Rightarrow> bool" where
  "submission_access u s a \<longleftrightarrow>
     eid u \<in> submitters s \<or>
     (case a of
        Write \<Rightarrow> task_access u (sub_task s) Write
      | Read \<Rightarrow> sub_submitted s \<and>
          (task_access u (sub_task s) Write \<or>
           task_access u (sub_task s) Read \<and> areSubmissionsPublic (sub_task s)))"

lemma submission_access_eq:
  assumes "members_loaded s"
  shows "hasAccessToSubmission env u s a = Inr (submission_access u s a)"
  using isUserSubmitter_loaded [OF assms, of u]
  by (cases a) (auto simp: hasAccessToSubmission_def submission_hasReadAccess_def
      submission_hasWriteAccess_def hasParentTaskWriteAccess_def hasParentTaskReadAccess_def
      task_rule.unconditional submission_access_def isSubmitted_def orR_def andR_def)

lemma SubmissionRule_decision:
  "members_loaded s \<Longrightarrow> SubmissionRule_hasPermission env u s ctx =
     guarded env u ctx (submission_access u s (ctx_action ctx))"
  by (simp add: SubmissionRule_hasPermission_def submission_access_eq andR_guarded)

text \<open>What access to an example depends on.\<close>

lemmas ex_access_defs =
  task_access_def task_parent_access_def course_access_def teaches_def attends_def
  coll_contains_def same_object_def visibility_defs

end
