(* ===== verification/Authorization.thy ===== *)
theory Authorization
  imports RuleFacts
begin

text \<open>
  Selecting the rule for an entity (\<^verbatim>\<open>rules/base-permission-manager.ts\<close>,
  \<^verbatim>\<open>rules/select-strategies.ts\<close>), the authorization service with its loader of references
  (\<^verbatim>\<open>modules/authorization/authorization.service.ts\<close>, \<^verbatim>\<open>reference.loader.ts\<close>) and the bridge to the
  older permission service (\<^verbatim>\<open>feathers-auth.provider.ts\<close>, \<^verbatim>\<open>feathers-authorization.service.ts\<close>).
\<close>

section \<open>Rule selection\<close>

text \<open>
  The classes that a rule tests with \<^verbatim>\<open>instanceof\<close>; \<open>SubjOther\<close> is any other entity or domain object.
\<close>

datatype subject =
    SubjCourse course
  | SubjCourseGroup courseGroup
  | SubjLesson lesson_entity
  | SubjTask task
  | SubjTaskCard TaskCard
  | SubjTeam team
  | SubjUser user
  | SubjSchool school_subject
  | SubjSubmission submission_entity
  | SubjTool tool_subject
  | SubjOther

datatype rule =
    CourseRule | CourseGroupRule | LessonRule | TaskRule | TaskCardRule | TeamRule | UserRule
  | SchoolRule | SubmissionRule | SchoolExternalToolRule

definition isApplicable :: "rule \<Rightarrow> user \<Rightarrow> subject \<Rightarrow> bool" where
  "isApplicable permission u e =
     (case permission of
        CourseRule \<Rightarrow> (case e of SubjCourse _ \<Rightarrow> True | _ \<Rightarrow> False)
      | CourseGroupRule \<Rightarrow> (case e of SubjCourseGroup _ \<Rightarrow> True | _ \<Rightarrow> False)
      | LessonRule \<Rightarrow> (case e of SubjLesson _ \<Rightarrow> True | _ \<Rightarrow> False)
      | TaskRule \<Rightarrow> (case e of SubjTask _ \<Rightarrow> True | _ \<Rightarrow> False)
      | TaskCardRule \<Rightarrow> (case e of SubjTaskCard _ \<Rightarrow> True | _ \<Rightarrow> False)
      | TeamRule \<Rightarrow> (case e of SubjTeam _ \<Rightarrow> True | _ \<Rightarrow> False)
      | UserRule \<Rightarrow> (case e of SubjUser _ \<Rightarrow> True | _ \<Rightarrow> False)
      | SchoolRule \<Rightarrow> (case e of SubjSchool _ \<Rightarrow> True | _ \<Rightarrow> False)
      | SubmissionRule \<Rightarrow> (case e of SubjSubmission _ \<Rightarrow> True | _ \<Rightarrow> False)
      | SchoolExternalToolRule \<Rightarrow> (case e of SubjTool _ \<Rightarrow> True | _ \<Rightarrow> False))"

text \<open>
  Calling the method of a rule. A rule is never called on an entity it is not applicable to;
  the model gives such a call a \<open>TypeError\<close>.
\<close>

definition rule_hasPermission ::
  "auth_env \<Rightarrow> rule \<Rightarrow> user \<Rightarrow> subject \<Rightarrow> IPermissionContext \<Rightarrow> bool result" where
  "rule_hasPermission env permission u e ctx =
     (case permission of
        CourseRule \<Rightarrow> (case e of SubjCourse x \<Rightarrow> CourseRule_hasPermission env u x ctx | _ \<Rightarrow> Inl TypeError)
      | CourseGroupRule \<Rightarrow> (case e of SubjCourseGroup x \<Rightarrow> CourseGroupRule_hasPermission env u x ctx | _ \<Rightarrow> Inl TypeError)
      | LessonRule \<Rightarrow> (case e of SubjLesson x \<Rightarrow> LessonRule_hasPermission env u x ctx | _ \<Rightarrow> Inl TypeError)
      | TaskRule \<Rightarrow> (case e of SubjTask x \<Rightarrow> TaskRule_hasPermission env u x ctx | _ \<Rightarrow> Inl TypeError)
      | TaskCardRule \<Rightarrow> (case e of SubjTaskCard x \<Rightarrow> TaskCardRule_hasPermission env u x ctx | _ \<Rightarrow> Inl TypeError)
      | TeamRule \<Rightarrow> (case e of SubjTeam x \<Rightarrow> TeamRule_hasPermission env u x ctx | _ \<Rightarrow> Inl TypeError)
      | UserRule \<Rightarrow> (case e of SubjUser x \<Rightarrow> UserRule_hasPermission env u x ctx | _ \<Rightarrow> Inl TypeError)
      | SchoolRule \<Rightarrow> (case e of SubjSchool x \<Rightarrow> SchoolRule_hasPermission env u x ctx | _ \<Rightarrow> Inl TypeError)
      | SubmissionRule \<Rightarrow> (case e of SubjSubmission x \<Rightarrow> SubmissionRule_hasPermission env u x ctx | _ \<Rightarrow> Inl TypeError)
      | SchoolExternalToolRule \<Rightarrow> (case e of SubjTool x \<Rightarrow> SchoolExternalToolRule_hasPermission env u x ctx | _ \<Rightarrow> Inl TypeError))"

definition selectPermissions :: "rule list \<Rightarrow> user \<Rightarrow> subject \<Rightarrow> rule list" where
  "selectPermissions permissions u e = filter (\<lambda>publisher. isApplicable publisher u e) permissions"

definition registerPermissions :: "rule list \<Rightarrow> rule list \<Rightarrow> rule list" where
  "registerPermissions permissions new = permissions @ new"

definition MULTIPLE_MATCHES_ARE_NOT_ALLOWED :: string where
  "MULTIPLE_MATCHES_ARE_NOT_ALLOWED = ''MULTIPLE_MATCHES_ARE_NOT_ALLOWED''"

definition SingleSelectStrategie_match :: "'a list \<Rightarrow> 'a result" where
  "SingleSelectStrategie_match layers =
     (case layers of
        [] \<Rightarrow> Inl (NotImplementedException [])
      | [x] \<Rightarrow> Inr x
      | _ \<Rightarrow> Inl (InternalServerErrorException MULTIPLE_MATCHES_ARE_NOT_ALLOWED))"

definition manager_hasPermission ::
  "auth_env \<Rightarrow> rule list \<Rightarrow> user \<Rightarrow> subject \<Rightarrow> IPermissionContext \<Rightarrow> bool result" where
  "manager_hasPermission env permissions u e ctx =
     bindR (SingleSelectStrategie_match (selectPermissions permissions u e))
       (\<lambda>permission. rule_hasPermission env permission u e ctx)"

section \<open>The authorization service\<close>

definition AuthorizationService_permissions :: "rule list" where
  "AuthorizationService_permissions =
     registerPermissions []
       [CourseRule, CourseGroupRule, LessonRule, TaskRule, TaskCardRule, TeamRule, UserRule,
        SchoolRule, SubmissionRule, SchoolExternalToolRule]"

definition hasPermission :: "auth_env \<Rightarrow> user \<Rightarrow> subject \<Rightarrow> IPermissionContext \<Rightarrow> bool result" where
  "hasPermission env = manager_hasPermission env AuthorizationService_permissions"

definition checkPermission :: "auth_env \<Rightarrow> user \<Rightarrow> subject \<Rightarrow> IPermissionContext \<Rightarrow> unit result" where
  "checkPermission env u e ctx =
     bindR (hasPermission env u e ctx) (\<lambda>b. guardR b ForbiddenException)"

datatype AllowedAuthorizationEntityType =
    Allowed_User | Allowed_School | Allowed_Course | Allowed_CourseGroup | Allowed_Task
  | Allowed_Lesson | Allowed_Team | Allowed_Submission | Allowed_SchoolExternalTool

datatype RepoType =
    TaskRepo | CourseRepo | UserRepo | SchoolRepo | LessonRepo | TeamsRepo | CourseGroupRepo
  | SubmissionRepo | SchoolExternalToolRepo

record IRepoLoader =
  rl_repo :: RepoType
  rl_populate :: "bool option"

definition ReferenceLoader_repos :: "AllowedAuthorizationEntityType \<Rightarrow> IRepoLoader option" where
  "ReferenceLoader_repos = Map.empty
     (Allowed_Task \<mapsto> \<lparr>rl_repo = TaskRepo, rl_populate = None\<rparr>,
      Allowed_Course \<mapsto> \<lparr>rl_repo = CourseRepo, rl_populate = None\<rparr>,
      Allowed_CourseGroup \<mapsto> \<lparr>rl_repo = CourseGroupRepo, rl_populate = None\<rparr>,
      Allowed_User \<mapsto> \<lparr>rl_repo = UserRepo, rl_populate = Some True\<rparr>,
      Allowed_School \<mapsto> \<lparr>rl_repo = SchoolRepo, rl_populate = None\<rparr>,
      Allowed_Lesson \<mapsto> \<lparr>rl_repo = LessonRepo, rl_populate = None\<rparr>,
      Allowed_Team \<mapsto> \<lparr>rl_repo = TeamsRepo, rl_populate = Some True\<rparr>,
      Allowed_Submission \<mapsto> \<lparr>rl_repo = SubmissionRepo, rl_populate = None\<rparr>,
      Allowed_SchoolExternalTool \<mapsto> \<lparr>rl_repo = SchoolExternalToolRepo, rl_populate = None\<rparr>)"

definition resolveRepo :: "AllowedAuthorizationEntityType \<Rightarrow> IRepoLoader result" where
  "resolveRepo ty =
     (case ReferenceLoader_repos ty of
        Some repo \<Rightarrow> Inr repo
      | None \<Rightarrow> Inl (NotImplementedException ''REPO_NOT_IMPLEMENT''))"

text \<open>
  The repositories are the database: \<open>findById repo id populate\<close> is a parameter, as is the loading
  of the user with its roles (\<open>getUser\<close>). The third argument is \<^verbatim>\<open>true\<close> or left out.
\<close>

type_synonym find_by_id = "RepoType \<Rightarrow> EntityId \<Rightarrow> bool option \<Rightarrow> subject result"
type_synonym get_user = "EntityId \<Rightarrow> user result"

definition loadEntity ::
  "find_by_id \<Rightarrow> AllowedAuthorizationEntityType \<Rightarrow> EntityId \<Rightarrow> subject result" where
  "loadEntity findById entityName entityId =
     bindR (resolveRepo entityName) (\<lambda>repoLoader.
       if rl_populate repoLoader = Some True then findById (rl_repo repoLoader) entityId (Some True)
       else findById (rl_repo repoLoader) entityId None)"

definition getUserWithPermissions :: "get_user \<Rightarrow> EntityId \<Rightarrow> user result" where
  "getUserWithPermissions getUser userId = getUser userId"

text \<open>
  User and entity are loaded together; when both loads fail, which failure is reported as the
  cause depends on timing, and the model reports that of the user.
\<close>

definition hasPermissionByReferences ::
  "get_user \<Rightarrow> find_by_id \<Rightarrow> auth_env \<Rightarrow> EntityId \<Rightarrow> AllowedAuthorizationEntityType \<Rightarrow> EntityId \<Rightarrow>
   IPermissionContext \<Rightarrow> bool result" where
  "hasPermissionByReferences getUser findById env userId entityName entityId ctx =
     (case bindR (getUserWithPermissions getUser userId) (\<lambda>u.
           bindR (loadEntity findById entityName entityId) (\<lambda>e.
             hasPermission env u e ctx)) of
        Inr permission \<Rightarrow> Inr permission
      | Inl err \<Rightarrow> Inl (ForbiddenCausedBy err))"

definition checkPermissionByReferences ::
  "get_user \<Rightarrow> find_by_id \<Rightarrow> auth_env \<Rightarrow> EntityId \<Rightarrow> AllowedAuthorizationEntityType \<Rightarrow> EntityId \<Rightarrow>
   IPermissionContext \<Rightarrow> unit result" where
  "checkPermissionByReferences getUser findById env userId entityName entityId ctx =
     bindR (hasPermissionByReferences getUser findById env userId entityName entityId ctx)
       (\<lambda>b. guardR b ForbiddenException)"

section \<open>The bridge to the older service\<close>

datatype NewsTargetModel = Target_School | Target_Course | Target_Team

text \<open>The plain user object of the older application; \<open>None\<close> permissions are not an array.\<close>

record feathers_user =
  fu_id :: EntityId
  fu_schoolId :: EntityId
  fu_permissions :: "string list option"

text \<open>
  The services of the older application are parameters: \<open>users_get\<close> (\<open>None\<close> for \<^verbatim>\<open>null\<close>),
  \<open>userPermissions_get\<close> and \<open>permitted_find\<close>.
\<close>

record feathers_services =
  users_get :: "EntityId \<Rightarrow> feathers_user option result"
  userPermissions_get :: "NewsTargetModel \<Rightarrow> EntityId \<Rightarrow> EntityId \<Rightarrow> string list result"
  permitted_find :: "NewsTargetModel \<Rightarrow> EntityId \<Rightarrow> string list \<Rightarrow> EntityId list result"

definition provider_getUser :: "feathers_services \<Rightarrow> EntityId \<Rightarrow> feathers_user result" where
  "provider_getUser fs userId =
     bindR (users_get fs userId) (\<lambda>u.
       case u of None \<Rightarrow> Inl (NotFoundException []) | Some v \<Rightarrow> Inr v)"

definition getUserSchoolPermissions :: "feathers_services \<Rightarrow> EntityId \<Rightarrow> EntityId \<Rightarrow> string list result" where
  "getUserSchoolPermissions fs userId schoolId =
     bindR (provider_getUser fs userId) (\<lambda>u.
       let sameSchool = (fu_schoolId u = schoolId)
       in case fu_permissions u of
            Some ps \<Rightarrow> if sameSchool then Inr ps else Inr []
          | None \<Rightarrow> Inr [])"

definition getUserTargetPermissions ::
  "feathers_services \<Rightarrow> EntityId \<Rightarrow> NewsTargetModel \<Rightarrow> EntityId \<Rightarrow> string list result" where
  "getUserTargetPermissions fs userId targetModel targetId =
     userPermissions_get fs targetModel userId targetId"

definition getPermittedTargets ::
  "feathers_services \<Rightarrow> EntityId \<Rightarrow> NewsTargetModel \<Rightarrow> string list \<Rightarrow> EntityId list result" where
  "getPermittedTargets fs userId targetModel permissions = permitted_find fs targetModel userId permissions"

definition getPermittedSchools :: "feathers_services \<Rightarrow> EntityId \<Rightarrow> EntityId list result" where
  "getPermittedSchools fs userId = bindR (provider_getUser fs userId) (\<lambda>u. Inr [fu_schoolId u])"

definition getEntityPermissions ::
  "feathers_services \<Rightarrow> EntityId \<Rightarrow> NewsTargetModel \<Rightarrow> EntityId \<Rightarrow> string list result" where
  "getEntityPermissions fs userId targetModel targetId =
     (if targetModel = Target_School then getUserSchoolPermissions fs userId targetId
      else getUserTargetPermissions fs userId targetModel targetId)"

definition checkEntityPermissions ::
  "feathers_services \<Rightarrow> EntityId \<Rightarrow> NewsTargetModel \<Rightarrow> EntityId \<Rightarrow> string list \<Rightarrow> unit result" where
  "checkEntityPermissions fs userId targetModel targetId permissions =
     (if length permissions = 0
      then Inl (UnauthorizedException ''missing at least one permission to be checked'')
      else bindR (getEntityPermissions fs userId targetModel targetId) (\<lambda>entityPermissions.
             guardR (list_all (\<lambda>p. p \<in> set entityPermissions) permissions)
               (UnauthorizedException ''Insufficient permissions'')))"

definition getPermittedEntities ::
  "feathers_services \<Rightarrow> EntityId \<Rightarrow> NewsTargetModel \<Rightarrow> string list \<Rightarrow> EntityId list result" where
  "getPermittedEntities fs userId targetModel permissions =
     (if targetModel = Target_School then getPermittedSchools fs userId
      else getPermittedTargets fs userId targetModel permissions)"

section \<open>Facts\<close>

lemma selectPermissions_single:
  "selectPermissions AuthorizationService_permissions u e =
     (case e of
        SubjCourse _ \<Rightarrow> [CourseRule] | SubjCourseGroup _ \<Rightarrow> [CourseGroupRule]
      | SubjLesson _ \<Rightarrow> [LessonRule] | SubjTask _ \<Rightarrow> [TaskRule] | SubjTaskCard _ \<Rightarrow> [TaskCardRule]
      | SubjTeam _ \<Rightarrow> [TeamRule] | SubjUser _ \<Rightarrow> [UserRule] | SubjSchool _ \<Rightarrow> [SchoolRule]
      | SubjSubmission _ \<Rightarrow> [SubmissionRule] | SubjTool _ \<Rightarrow> [SchoolExternalToolRule]
      | SubjOther \<Rightarrow> [])"
  by (cases e)
    (simp_all add: selectPermissions_def AuthorizationService_permissions_def
      registerPermissions_def isApplicable_def)

lemma resolveRepo_total: "\<exists>repo. resolveRepo ty = Inr repo"
  by (cases ty) (simp_all add: resolveRepo_def ReferenceLoader_repos_def)

end
