(* ===== verification/AuthProperties.thy ===== *)
theory AuthProperties
  imports Authorization
begin

text \<open>
  The properties of the permission resolution, of the rules and of the authorization service,
  each with an application to the sample users and entities.
\<close>

section \<open>Resolving permissions\<close>

text \<open>C13. For loaded roles whose nesting is acyclic, and a call stack deeper than their nesting,
  a user has all required permissions exactly when every one of them is granted by a role that is
  reachable from the user's roles. The resolution does return.\<close>

theorem hasAllPermissions_decides:
  assumes "ranked_roles (env_roles env) rank" and "env_stack env = Suc d"
    and "coll_initialized (usr_roles u)" and "\<forall>r \<in> set (coll_items (usr_roles u)). rank r < d"
  shows "hasAllPermissions env u required =
    Inr (set required \<subseteq> granted (env_roles env) (coll_items (usr_roles u)))"
proof -
  from resolvePermissionsByRoles_total [OF assms(1,4)] obtain ps where
    ps: "resolvePermissionsByRoles (Suc d) (env_roles env) (coll_items (usr_roles u)) = Inr ps" ..
  from resolvePermissionsByRoles_granted [OF ps] ps show ?thesis using assms(2,3)
    by (auto simp: hasAllPermissions_def resolvePermissions_def hasEveryPermission_def list_all_iff)
qed

lemma ex_env_sel [simp]: "env_roles ex_env = ex_acyclic_roles" "env_stack ex_env = 3"
  by (simp_all add: ex_env_def)

lemma ex_granted [simp]:
  "granted ex_acyclic_roles [5] = {''A'', ''B''}" "granted ex_acyclic_roles [2] = {''B''}"
  by (auto simp: granted_Cons ex_acyclic_roles_def ex_roles_def)

theorem hasAllPermissions_decides_witness:
  "hasAllPermissions ex_env ex_teacher [''B'', ''A''] = Inr True \<and>
   hasAllPermissions ex_env ex_student [''A''] = Inr False"
  using hasAllPermissions_decides [of ex_env "\<lambda>r. if r = 5 then 1 else 0" 2 ex_teacher "[''B'', ''A'']"]
    hasAllPermissions_decides [of ex_env "\<lambda>r. if r = 5 then 1 else 0" 2 ex_student "[''A'']"]
  by (simp add: ex_roles_ranked)

text \<open>C40. The resolution has no guard against nested roles that form a cycle: a user with such a
  role is never granted or denied a permission, whatever the stack size; every check ends in an
  exception.\<close>

theorem cyclic_roles_never_resolve:
  assumes "r \<in> set (coll_items (usr_roles u))" and "role_reach h r q" and "on_cycle h q"
    and "required \<noteq> []"
  shows "hasAllPermissions \<lparr>env_roles = h, env_stack = depth\<rparr> u required \<noteq> Inr b"
  using resolvePermissionsByRoles_cycle [OF assms(3,1,2)] assms(4)
  by (auto simp: hasAllPermissions_def resolvePermissions_def bindR_eq_Inr)

theorem cyclic_roles_never_resolve_witness:
  "hasAllPermissions \<lparr>env_roles = ex_roles, env_stack = 1000\<rparr> (ex_user 1 ''u'' [3]) [''C''] \<noteq> Inr True"
  by (rule cyclic_roles_never_resolve [of 3 _ _ 3])
    (auto simp: on_cycle_def ex_roles_def intro: role_reach.here)

text \<open>The older permission service agrees with the authorization helper on every user,
  except that it denies an empty list of required permissions where the helper grants it.\<close>

theorem school_permissions_agree:
  "hasUserAllSchoolPermissions env u required =
     (if required = [] then Inr False else hasAllPermissions env u required)"
  by (simp add: hasUserAllSchoolPermissions_def hasAllPermissions_def ps_resolvePermissions_eq
        hasEveryPermission_def)

section \<open>The rules\<close>

text \<open>C1. The task rule, with its detours over the lesson, course and course group rules, decides
  exactly the access specification: the required permissions are granted, and the user created the
  task or may access its parent, for writing when the task is a draft.\<close>

theorem TaskRule_decides:
  assumes "ranked_roles (env_roles env) rank" and "env_stack env = Suc d"
    and "coll_initialized (usr_roles u)" and "\<forall>r \<in> set (coll_items (usr_roles u)). rank r < d"
  shows "TaskRule_hasPermission env u t ctx =
    Inr (set (ctx_requiredPermissions ctx) \<subseteq> granted (env_roles env) (coll_items (usr_roles u)) \<and>
         task_access u t (ctx_action ctx))"
proof -
  from resolvePermissionsByRoles_total [OF assms(1,4)] obtain ps where
    ps: "resolvePermissionsByRoles (Suc d) (env_roles env) (coll_items (usr_roles u)) = Inr ps" ..
  from resolvePermissionsByRoles_granted [OF ps] ps show ?thesis using assms(2,3)
    by (auto simp: task_rule.decision guarded_def hasAllPermissions_def resolvePermissions_def
        hasEveryPermission_def list_all_iff)
qed

theorem TaskRule_decides_witness:
  "TaskRule_hasPermission ex_env ex_teacher (ex_task True []) (PermissionContextBuilder_read [''B'']) = Inr True \<and>
   TaskRule_hasPermission ex_env ex_student (ex_task True []) (PermissionContextBuilder_read [''B'']) = Inr False"
  using TaskRule_decides [of ex_env "\<lambda>r. if r = 5 then 1 else 0" 2 ex_teacher "ex_task True []"
      "PermissionContextBuilder_read [''B'']"]
    TaskRule_decides [of ex_env "\<lambda>r. if r = 5 then 1 else 0" 2 ex_student "ex_task True []"
      "PermissionContextBuilder_read [''B'']"]
  by (simp add: ex_roles_ranked ex_access_defs context_builder_defs)

text \<open>Whoever may write a task may read it, also when fewer permissions are required.\<close>

theorem task_write_implies_read:
  assumes "TaskRule_hasPermission env u t (PermissionContextBuilder_write ps) = Inr True"
    and "set qs \<subseteq> set ps"
  shows "TaskRule_hasPermission env u t (PermissionContextBuilder_read qs) = Inr True"
  using task_rule.weaken [OF assms(1)] assms(2)
  by (simp add: context_builder_defs less_eq_Actions_def)

theorem task_write_implies_read_witness:
  "TaskRule_hasPermission ex_env ex_teacher (ex_task False []) (PermissionContextBuilder_read []) = Inr True"
  using task_write_implies_read [of ex_env ex_teacher "ex_task False []" "[]" "[]"]
  by (simp add: task_rule.unconditional ex_access_defs context_builder_defs)

text \<open>A hidden lesson of a course is closed to everybody but the teachers and substitution
  teachers of the course, and so is every task in it that the user did not create.\<close>

theorem hidden_lessons_only_for_teachers:
  assumes "les_hidden l" and "les_courseGroup l = None" and "les_course l = Some c" and "\<not> teaches u c"
  shows "LessonRule_hasPermission env u l ctx \<noteq> Inr True \<and>
    (tsk_lesson t = Some l \<and> \<not> same_object (tsk_creator t) u \<longrightarrow>
       TaskRule_hasPermission env u t ctx \<noteq> Inr True)"
  using assms
  by (simp add: lesson_rule.permitted_iff task_rule.permitted_iff lesson_access_def task_access_def
        task_parent_access_def course_access_def)

theorem hidden_lessons_only_for_teachers_witness:
  "LessonRule_hasPermission ex_env ex_student (ex_lesson True) (PermissionContextBuilder_read []) \<noteq> Inr True"
  by (rule hidden_lessons_only_for_teachers [THEN conjunct1, of _ ex_course])
    (simp_all add: ex_access_defs)

text \<open>Hiding does not apply to the lessons of a course group: its students may read and write
  all of them, hidden or not.\<close>

theorem group_students_write_hidden_lessons:
  assumes "les_courseGroup l = Some g" and "cg_students g = Some members" and "coll_contains members u"
    and "hasAllPermissions env u (ctx_requiredPermissions ctx) = Inr True"
  shows "LessonRule_hasPermission env u l ctx = Inr True"
  using assms by (simp add: lesson_rule.permitted_iff lesson_access_def group_access_def)

theorem group_students_write_hidden_lessons_witness:
  "LessonRule_hasPermission ex_env ex_student ((ex_lesson True)\<lparr>les_courseGroup := Some ex_group\<rparr>)
     (PermissionContextBuilder_write []) = Inr True"
  by (rule group_students_write_hidden_lessons [of _ ex_group "coll_of [ex_student]"])
    (simp_all add: ex_access_defs context_builder_defs)

text \<open>Before it is submitted, a submission is read by its submitters only: not even a user who
  may write it through the task. After that, the readers are its writers, and whoever may read the
  task if the submissions are public.\<close>

theorem submission_readers:
  assumes "members_loaded s"
  shows "SubmissionRule_hasPermission env u s (PermissionContextBuilder_read ps) =
    bindR (hasAllPermissions env u ps) (\<lambda>granted.
      Inr (granted \<and>
        (eid u \<in> submitters s \<or>
         sub_submitted s \<and> (task_access u (sub_task s) Write \<or>
           task_access u (sub_task s) Read \<and> areSubmissionsPublic (sub_task s)))))"
  using assms
  by (simp add: SubmissionRule_decision guarded_def submission_access_def context_builder_defs)

definition ex_submission_entity :: "bool \<Rightarrow> submission_entity" where
  "ex_submission_entity b =
     submission.extend (ex_submission b) \<lparr>sub_task = ex_task False []\<rparr>"

lemma ex_submission_entity_sel [simp]:
  "sub_student (ex_submission_entity b) = ex_student" "sub_submitted (ex_submission_entity b) = b"
  "sub_teamMembers (ex_submission_entity b) = Some (coll_of [])"
  "sub_courseGroup (ex_submission_entity b) = None" "sub_task (ex_submission_entity b) = ex_task False []"
  using ex_submission_sel [of b] unfolding ex_submission_entity_def
  by (simp_all add: submission.defs)

theorem submission_readers_witness:
  "SubmissionRule_hasPermission ex_env ex_teacher (ex_submission_entity False)
     (PermissionContextBuilder_read []) = Inr False \<and>
   SubmissionRule_hasPermission ex_env ex_teacher (ex_submission_entity True)
     (PermissionContextBuilder_read []) = Inr True"
  using submission_readers [of "ex_submission_entity False" ex_env ex_teacher "[]"]
    submission_readers [of "ex_submission_entity True" ex_env ex_teacher "[]"]
  by (simp add: members_loaded_def ex_access_defs submitters_def getCourseGroupStudentIds_def
        coll_ids_def)

text \<open>In a team the permissions come from the role in the team alone: the roles of the user in
  the school do not matter, and a user outside the team has none.\<close>

theorem TeamRule_uses_team_role:
  "TeamRule_hasPermission env u tm ctx =
     (if eid u \<notin> (\<lambda>x. eid (TeamUser_user x)) ` set (teamUsers tm) then Inr False
      else TeamRule_hasPermission env (u\<lparr>usr_roles := roles\<rparr>) tm ctx)"
proof (cases "eid u \<in> (\<lambda>x. eid (TeamUser_user x)) ` set (teamUsers tm)")
  case False
  then have "List.find (\<lambda>x. eid (TeamUser_user x) = eid u) (teamUsers tm) = None"
    by (auto simp: find_None_iff image_iff)
  then show ?thesis using False by (simp add: TeamRule_hasPermission_def)
qed (simp add: TeamRule_hasPermission_def)

section \<open>The service\<close>

text \<open>For every kind of entity exactly one of the registered rules decides; what is no entity
  of the rules is refused as not implemented.\<close>

theorem hasPermission_dispatches:
  "hasPermission env u e ctx =
     (case e of
        SubjCourse c \<Rightarrow> CourseRule_hasPermission env u c ctx
      | SubjCourseGroup g \<Rightarrow> CourseGroupRule_hasPermission env u g ctx
      | SubjLesson l \<Rightarrow> LessonRule_hasPermission env u l ctx
      | SubjTask t \<Rightarrow> TaskRule_hasPermission env u t ctx
      | SubjTaskCard c \<Rightarrow> TaskCardRule_hasPermission env u c ctx
      | SubjTeam tm \<Rightarrow> TeamRule_hasPermission env u tm ctx
      | SubjUser v \<Rightarrow> UserRule_hasPermission env u v ctx
      | SubjSchool s \<Rightarrow> SchoolRule_hasPermission env u s ctx
      | SubjSubmission s \<Rightarrow> SubmissionRule_hasPermission env u s ctx
      | SubjTool x \<Rightarrow> SchoolExternalToolRule_hasPermission env u x ctx
      | SubjOther \<Rightarrow> Inl (NotImplementedException []))"
  by (cases e)
    (simp_all add: hasPermission_def manager_hasPermission_def selectPermissions_single
      SingleSelectStrategie_match_def rule_hasPermission_def)

text \<open>A check by references passes exactly when the user and the entity load and the rule
  grants the permission. Every failure, of a load or of the rule, surfaces as a forbidden error.\<close>

theorem checkPermissionByReferences_cases:
  "checkPermissionByReferences getUser findById env uid ty i ctx =
     (case getUser uid of
        Inl err \<Rightarrow> Inl (ForbiddenCausedBy err)
      | Inr u \<Rightarrow>
          (case findById (rl_repo (the (ReferenceLoader_repos ty))) i
                  (if ty = Allowed_User \<or> ty = Allowed_Team then Some True else None) of
             Inl err \<Rightarrow> Inl (ForbiddenCausedBy err)
           | Inr e \<Rightarrow>
               (case hasPermission env u e ctx of
                  Inl err \<Rightarrow> Inl (ForbiddenCausedBy err)
                | Inr True \<Rightarrow> Inr ()
                | Inr False \<Rightarrow> Inl ForbiddenException)))"
  by (cases ty)
    (simp_all add: checkPermissionByReferences_def hasPermissionByReferences_def
      getUserWithPermissions_def loadEntity_def resolveRepo_def ReferenceLoader_repos_def
      bindR_def guardR_def split: sum.split bool.split)

text \<open>The bridge to the older service grants a news target exactly when at least one
  permission is asked for and all of them are among those of the user there; for a school these
  are the user's own permissions at the own school, and none elsewhere.\<close>

theorem checkEntityPermissions_school:
  assumes "users_get fs uid = Inr (Some v)"
  shows "checkEntityPermissions fs uid Target_School sid ps = Inr () \<longleftrightarrow>
    ps \<noteq> [] \<and> fu_schoolId v = sid \<and> (\<exists>qs. fu_permissions v = Some qs \<and> set ps \<subseteq> set qs)"
  using assms
  by (cases ps)
    (auto simp: checkEntityPermissions_def getEntityPermissions_def getUserSchoolPermissions_def
      provider_getUser_def guardR_def list_all_iff split: option.splits)

theorem checkEntityPermissions_school_witness:
  "checkEntityPermissions
     \<lparr>users_get = (\<lambda>i. Inr (Some \<lparr>fu_id = i, fu_schoolId = ''s'', fu_permissions = Some [''NEWS_VIEW'']\<rparr>)),
      userPermissions_get = (\<lambda>_ _ _. Inr []), permitted_find = (\<lambda>_ _ _. Inr [])\<rparr>
     ''u'' Target_School ''s'' [''NEWS_VIEW''] = Inr ()"
  by (subst checkEntityPermissions_school
      [where v = "\<lparr>fu_id = ''u'', fu_schoolId = ''s'', fu_permissions = Some [''NEWS_VIEW'']\<rparr>"])
    simp_all

end
