(* ===== verification/TaskProperties.thy ===== *)
theory TaskProperties
  imports Samples
begin

text \<open>The properties of tasks: visibility, status, publishing and finishing.\<close>

section \<open>Visibility\<close>

text \<open>The lesson overview counts every task exactly once: its published, draft and planned
  tasks add up to all of them, at any time.\<close>

theorem lesson_task_counts_partition:
  assumes "getLessonLinkedTasks l = Inr ts"
  shows "\<exists>p d q. getNumberOfPublishedTasks now l = Inr p \<and> getNumberOfDraftTasks l = Inr d \<and>
    getNumberOfPlannedTasks now l = Inr q \<and> p + d + q = length ts"
  using assms visibility_partition [of now ts]
  by (simp add: getLessonLinkedTasks_def getNumberOfPublishedTasks_def getNumberOfDraftTasks_def
        getNumberOfPlannedTasks_def)

theorem lesson_task_counts_partition_witness:
  "\<exists>p d q. getNumberOfPublishedTasks 5 (lesson.extend (ex_lesson False)
       \<lparr>les_tasks = coll_of [ex_task True [], ex_task False []]\<rparr>) = Inr p \<and>
     getNumberOfDraftTasks (lesson.extend (ex_lesson False)
       \<lparr>les_tasks = coll_of [ex_task True [], ex_task False []]\<rparr>) = Inr d \<and>
     getNumberOfPlannedTasks 5 (lesson.extend (ex_lesson False)
       \<lparr>les_tasks = coll_of [ex_task True [], ex_task False []]\<rparr>) = Inr q \<and> p + d + q = 2"
  using lesson_task_counts_partition [of "lesson.extend (ex_lesson False)
      \<lparr>les_tasks = coll_of [ex_task True [], ex_task False []]\<rparr>"
      "[ex_task True [], ex_task False []]" 5]
  by (simp add: getLessonLinkedTasks_def getTasksItems_def coll_of_def lesson.defs numeral_2_eq_2)

text \<open>However often a task was published and unpublished, the last of these actions alone
  decides whether it is visible from then on.\<close>

theorem last_publish_action_decides:
  assumes "t \<le> now"
  shows "isPublished now (toggles Task_publish Task_unpublish (xs @ [(t, b)]) e) \<longleftrightarrow> b"
  using assms by (rule task_element.last_toggle_decides)

theorem last_publish_action_decides_witness:
  "isPublished 9 (toggles Task_publish Task_unpublish ([(3, False)] @ [(4, True)]) (ex_task True []))"
  using last_publish_action_decides [of 4 9 "[(3, False)]" True "ex_task True []"] by simp

section \<open>Status\<close>

text \<open>The status of a task for a teacher counts each person once, over all submissions: those
  behind a submitted submission and those behind a graded one.\<close>

theorem teacher_status_counts_submitters:
  assumes "status_loaded t ss us" and "getMaxSubmissions t = Inr m"
  shows "\<exists>st. createTeacherStatusForUser now t u = Inr st \<and>
    st_submitted st = card (\<Union>s \<in> {s \<in> set ss. sub_submitted s}. submitters s) \<and>
    st_graded st = card (\<Union>s \<in> {s \<in> set ss. sub_graded s}. submitters s) \<and>
    st_maxSubmissions st = m \<and> st_isDraft st = isDraft t \<and>
    st_isFinished st = finished_for now t us u"
  using teacher_status_loaded [OF assms] by simp

lemma ex_status_loaded: "status_loaded (ex_task False [ex_submission True]) [ex_submission True] []"
  by (simp add: status_loaded_def coll_of_def members_loaded_def)

theorem teacher_status_counts_submitters_witness:
  "\<exists>st. createTeacherStatusForUser 5 (ex_task False [ex_submission True]) ex_teacher = Inr st \<and>
     st_submitted st = 1 \<and> st_maxSubmissions st = 1"
  using teacher_status_counts_submitters [OF ex_status_loaded, of 1 5 ex_teacher]
  by (auto simp: getMaxSubmissions_def Course_getStudentIds_def coll_of_def submitters_def
      getCourseGroupStudentIds_def coll_ids_def)

text \<open>The two views of a status agree: what a student sees as submitted or graded is counted by
  the teacher, and draft and finished are the same for both.\<close>

theorem status_views_agree:
  assumes "status_loaded t ss us"
    and "createTeacherStatusForUser now t u = Inr st" and "createStudentStatusForUser now t u = Inr st'"
  shows "st_submitted st' \<le> st_submitted st \<and> st_graded st' \<le> st_graded st \<and>
    st_isDraft st' = st_isDraft st \<and> st_isFinished st' = st_isFinished st"
proof -
  from assms(2) obtain m where m: "getMaxSubmissions t = Inr m"
    by (auto simp: createTeacherStatusForUser_def bindR_eq_Inr)
  have sub: "of_bool (\<exists>s \<in> set ss. P s \<and> eid u \<in> submitters s)
      \<le> card (\<Union>s \<in> {s \<in> set ss. P s}. submitters s)" for P
    using submitter_counted [of _ "{s \<in> set ss. P s}" "eid u"] by auto
  show ?thesis
    using assms(2,3) teacher_status_loaded [OF assms(1) m] student_status_loaded [OF assms(1)] sub
    by auto
qed

theorem status_views_agree_witness:
  "\<exists>st st'. createTeacherStatusForUser 5 (ex_task False [ex_submission True]) ex_student = Inr st \<and>
     createStudentStatusForUser 5 (ex_task False [ex_submission True]) ex_student = Inr st' \<and>
     st_submitted st' \<le> st_submitted st \<and> st_isFinished st' = st_isFinished st"
proof -
  have "getMaxSubmissions (ex_task False [ex_submission True]) = Inr 1"
    by (simp add: getMaxSubmissions_def Course_getStudentIds_def coll_of_def coll_ids_def)
  note teacher = teacher_status_loaded [OF ex_status_loaded this, of 5 ex_student]
  note student = student_status_loaded [OF ex_status_loaded, of 5 ex_student]
  show ?thesis
    by (intro exI conjI, rule teacher, rule student)
      (use status_views_agree [OF ex_status_loaded teacher student] in \<open>simp_all only: simp_thms\<close>)
qed

section \<open>Finishing\<close>

text \<open>Finishing a task for a user makes it finished for that user and for nobody else; restoring
  it afterwards gives back the task as it was, unless it was finished before.\<close>

theorem finish_restore:
  assumes "tsk_finished t = Some c" and "\<not> coll_contains c u"
  shows "\<exists>t'. finishForUser t u = Inr t' \<and> isFinishedForUser now t' u = Inr True \<and>
    (\<forall>v. eid v \<noteq> eid u \<longrightarrow> isFinishedForUser now t' v = isFinishedForUser now t v) \<and>
    restoreForUser t' u = Inr t"
proof (intro exI conjI)
  show "finishForUser t u = Inr (t\<lparr>tsk_finished := Some (coll_add c u)\<rparr>)"
    using assms(1) by (simp add: finishForUser_def)
  show "restoreForUser (t\<lparr>tsk_finished := Some (coll_add c u)\<rparr>) u = Inr t"
    using assms by (simp add: restoreForUser_def coll_remove_add)
qed (use assms in \<open>auto simp: isFinishedForUser_def getFinishedUserIds_def coll_ids_def list_ex_eq
      Let_def coll_add_def\<close>)

theorem finish_restore_witness:
  "\<exists>t'. finishForUser (ex_task False []) ex_student = Inr t' \<and>
     isFinishedForUser 5 t' ex_student = Inr True \<and> restoreForUser t' ex_student = Inr (ex_task False [])"
  using finish_restore [of "ex_task False []" "coll_of []" ex_student 5]
  by (auto simp: coll_contains_def coll_of_def)

end
