(* ===== verification/Board.thy ===== *)
theory Board
  imports Samples
begin

text \<open>
  The board of a course: an ordered collection of elements, each a reference to a task or a lesson
  (\<^verbatim>\<open>shared/domain/entity/board.entity.ts\<close>, \<^verbatim>\<open>boardelement.entity.ts\<close>). The targets on a board are
  persisted, so every target has its id.
\<close>

section \<open>Elements\<close>

datatype BoardElementType = BET_Task | BET_Lesson

datatype BoardElementReference = TargetTask task | TargetLesson lesson_entity

fun target_oid :: "BoardElementReference \<Rightarrow> ref" where
  "target_oid (TargetTask t) = oid t"
| "target_oid (TargetLesson l) = oid l"

fun target_id :: "BoardElementReference \<Rightarrow> EntityId" where
  "target_id (TargetTask t) = eid t"
| "target_id (TargetLesson l) = eid l"

record BoardElement = timestamped +
  bel_target :: BoardElementReference
  bel_boardElementType :: BoardElementType

definition new_TaskBoardElement :: "date \<Rightarrow> ref \<Rightarrow> task \<Rightarrow> BoardElement" where
  "new_TaskBoardElement now r t =
     \<lparr>oid = r, eid = [], ent_createdAt = now, ent_updatedAt = now, bel_target = TargetTask t, bel_boardElementType = BET_Task\<rparr>"

definition new_LessonBoardElement :: "date \<Rightarrow> ref \<Rightarrow> lesson_entity \<Rightarrow> BoardElement" where
  "new_LessonBoardElement now r l =
     \<lparr>oid = r, eid = [], ent_createdAt = now, ent_updatedAt = now, bel_target = TargetLesson l, bel_boardElementType = BET_Lesson\<rparr>"

definition FromTask :: "date \<Rightarrow> ref \<Rightarrow> task \<Rightarrow> BoardElement" where
  "FromTask now r t = new_TaskBoardElement now r t"

definition FromLesson :: "date \<Rightarrow> ref \<Rightarrow> lesson_entity \<Rightarrow> BoardElement" where
  "FromLesson now r l = new_LessonBoardElement now r l"

text \<open>\<^verbatim>\<open>ILearnroomElement\<close> on the target of an element.\<close>

fun target_publish :: "date \<Rightarrow> BoardElementReference \<Rightarrow> BoardElementReference" where
  "target_publish now (TargetTask t) = TargetTask (Task_publish now t)"
| "target_publish now (TargetLesson l) = TargetLesson (Lesson_publish l)"

fun target_unpublish :: "BoardElementReference \<Rightarrow> BoardElementReference" where
  "target_unpublish (TargetTask t) = TargetTask (Task_unpublish t)"
| "target_unpublish (TargetLesson l) = TargetLesson (Lesson_unpublish l)"

fun target_visible :: "date \<Rightarrow> BoardElementReference \<Rightarrow> bool" where
  "target_visible now (TargetTask t) = isPublished now t"
| "target_visible now (TargetLesson l) = (\<not> les_hidden l)"

section \<open>The board\<close>

record Board = timestamped +
  brd_course :: course
  brd_references :: "BoardElement collection"

text \<open>Replacing the items of a collection; an object that is given twice is kept once.\<close>

primrec once :: "'a entity_scheme list \<Rightarrow> 'a entity_scheme list" where
  "once [] = []"
| "once (x # xs) = x # filter (\<lambda>y. \<not> same_object x y) (once xs)"

definition coll_set :: "'a entity_scheme collection \<Rightarrow> 'a entity_scheme list \<Rightarrow> 'a entity_scheme collection" where
  "coll_set c xs = c\<lparr>coll_items := once xs\<rparr>"

definition new_Board :: "date \<Rightarrow> ref \<Rightarrow> BoardElement list \<Rightarrow> course \<Rightarrow> Board" where
  "new_Board now r references c =
     \<lparr>oid = r, eid = [], ent_createdAt = now, ent_updatedAt = now, brd_course = c, brd_references = coll_set (coll_of []) references\<rparr>"

definition getElements :: "Board \<Rightarrow> BoardElement list" where
  "getElements b = coll_items (brd_references b)"

definition getElementByTargetId :: "Board \<Rightarrow> EntityId \<Rightarrow> BoardElement result" where
  "getElementByTargetId b i =
     (case List.find (\<lambda>el. target_id (bel_target el) = i) (getElements b) of
        None \<Rightarrow> Inl (NotFoundException ''board does not contain such element'')
      | Some element \<Rightarrow> Inr element)"

definition getByTargetId :: "Board \<Rightarrow> EntityId \<Rightarrow> BoardElementReference result" where
  "getByTargetId b i = mapR bel_target (getElementByTargetId b i)"

subsection \<open>Reordering\<close>

text \<open>The two sorted lists are compared as JSON, which tells different lists of strings apart.\<close>

definition checkListsContainingEqualEntities :: "EntityId list \<Rightarrow> EntityId list \<Rightarrow> bool" where
  "checkListsContainingEqualEntities xs ys =
     (let firstSorted = sort xs; secondSorted = sort ys in firstSorted = secondSorted)"

definition validateReordering :: "Board \<Rightarrow> EntityId list \<Rightarrow> unit result" where
  "validateReordering b reorderedIds =
     (let existingElements = map (\<lambda>el. target_id (bel_target el)) (getElements b);
          listsEqual = checkListsContainingEqualEntities reorderedIds existingElements
      in guardR listsEqual (BadRequestException
           ''elements did not match. please fetch the elements of the board before reordering''))"

definition reorderElements :: "Board \<Rightarrow> EntityId list \<Rightarrow> Board result" where
  "reorderElements b ids =
     bindR (validateReordering b ids) (\<lambda>_.
     bindR (mapMR (getElementByTargetId b) ids) (\<lambda>elements.
       Inr (b\<lparr>brd_references := coll_set (brd_references b) elements\<rparr>)))"

subsection \<open>Synchronising with the course\<close>

text \<open>\<^verbatim>\<open>list.includes(x)\<close> and \<^verbatim>\<open>ref.target === x\<close> compare objects.\<close>

definition js_includes :: "'a entity_scheme list \<Rightarrow> ref \<Rightarrow> bool" where
  "js_includes xs r = list_ex (\<lambda>x. oid x = r) xs"

definition removeTasksNotInList :: "Board \<Rightarrow> task list \<Rightarrow> Board" where
  "removeTasksNotInList b taskList =
     (let taskReferences = filter (\<lambda>r. bel_boardElementType r = BET_Task) (getElements b)
      in b\<lparr>brd_references :=
             fold (\<lambda>reference c. if \<not> js_includes taskList (target_oid (bel_target reference))
                                then coll_remove c reference else c)
               taskReferences (brd_references b)\<rparr>)"

definition removeLessonsNotInList :: "Board \<Rightarrow> lesson_entity list \<Rightarrow> Board" where
  "removeLessonsNotInList b lessonList =
     (let lessonReferences = filter (\<lambda>r. bel_boardElementType r = BET_Lesson) (getElements b)
      in b\<lparr>brd_references :=
             fold (\<lambda>reference c. if \<not> js_includes lessonList (target_oid (bel_target reference))
                                then coll_remove c reference else c)
               lessonReferences (brd_references b)\<rparr>)"

text \<open>The new elements are allocated from \<open>next\<close> on.\<close>

definition addTasksOnList :: "date \<Rightarrow> ref \<Rightarrow> Board \<Rightarrow> task list \<Rightarrow> Board" where
  "addTasksOnList now next b taskList =
     (let current = getElements b;
          tasksToAdd = filter (\<lambda>t. List.find (\<lambda>r. bel_boardElementType r = BET_Task \<and>
                         target_oid (bel_target r) = oid t) current = None) taskList;
          elementsToAdd = map2 (FromTask now) [next..<next + length tasksToAdd] tasksToAdd;
          newList = elementsToAdd @ current
      in b\<lparr>brd_references := coll_set (brd_references b) newList\<rparr>)"

definition addLessonsOnList :: "date \<Rightarrow> ref \<Rightarrow> Board \<Rightarrow> lesson_entity list \<Rightarrow> Board" where
  "addLessonsOnList now next b lessonList =
     (let current = getElements b;
          lessonsToAdd = filter (\<lambda>l. List.find (\<lambda>r. bel_boardElementType r = BET_Lesson \<and>
                         target_oid (bel_target r) = oid l) current = None) lessonList;
          elementsToAdd = map2 (FromLesson now) [next..<next + length lessonsToAdd] lessonsToAdd;
          newList = elementsToAdd @ current
      in b\<lparr>brd_references := coll_set (brd_references b) newList\<rparr>)"

definition syncTasksFromList :: "date \<Rightarrow> ref \<Rightarrow> Board \<Rightarrow> task list \<Rightarrow> Board" where
  "syncTasksFromList now next b taskList = addTasksOnList now next (removeTasksNotInList b taskList) taskList"

definition syncLessonsFromList :: "date \<Rightarrow> ref \<Rightarrow> Board \<Rightarrow> lesson_entity list \<Rightarrow> Board" where
  "syncLessonsFromList now next b lessonList =
     addLessonsOnList now next (removeLessonsNotInList b lessonList) lessonList"

section \<open>Facts about collections\<close>

lemma once_distinct: "distinct (map oid xs) \<Longrightarrow> once xs = xs"
  by (induction xs) (auto simp: filter_id_conv same_object_def)

lemma oids_once [simp]: "oid ` set (once xs) = oid ` set xs"
proof (induction xs)
  case (Cons x xs)
  have "oid ` {y \<in> set (once xs). oid x \<noteq> oid y} = oid ` set (once xs) - {oid x}" by auto
  with Cons show ?case by (auto simp: same_object_def)
qed simp

lemma distinct_once [simp]: "distinct (map oid (once xs))"
  by (induction xs) (auto simp: same_object_def distinct_map intro: inj_on_subset)

lemma fold_coll_remove:
  "coll_items (fold (\<lambda>r c. if P r then coll_remove c r else c) rs c) =
     filter (\<lambda>y. \<not> (\<exists>r \<in> set rs. P r \<and> same_object y r)) (coll_items c)"
  by (induction rs arbitrary: c) (auto simp: coll_remove_def intro: filter_cong)

lemma js_includes_iff [simp]: "js_includes xs r \<longleftrightarrow> r \<in> oid ` set xs"
  by (induction xs) (auto simp: js_includes_def)

section \<open>Well-formed boards\<close>

definition element_ok :: "BoardElement \<Rightarrow> bool" where
  "element_ok e \<longleftrightarrow>
     (case bel_target e of
        TargetTask _ \<Rightarrow> bel_boardElementType e = BET_Task
      | TargetLesson _ \<Rightarrow> bel_boardElementType e = BET_Lesson)"

abbreviation element_key :: "BoardElement \<Rightarrow> BoardElementType \<times> ref" where
  "element_key e \<equiv> (bel_boardElementType e, target_oid (bel_target e))"

text \<open>
  No object occurs twice, no target is referenced twice, and the references below \<open>next\<close> are in
  use.
\<close>

definition board_ok :: "ref \<Rightarrow> Board \<Rightarrow> bool" where
  "board_ok next b \<longleftrightarrow>
     distinct (map oid (getElements b)) \<and> distinct (map element_key (getElements b)) \<and>
     (\<forall>e \<in> set (getElements b). element_ok e \<and> oid e < next)"

lemma board_ok_oid_inj:
  "board_ok next b \<Longrightarrow> x \<in> set (getElements b) \<Longrightarrow> y \<in> set (getElements b) \<Longrightarrow> same_object x y \<Longrightarrow> x = y"
  by (auto simp: board_ok_def same_object_def distinct_map dest: inj_onD)

text \<open>What is added: allocated from \<open>next\<close> on, one element for each missing target.\<close>

lemma map2_oid:
  assumes "\<And>r x. oid (f r x) = r"
  shows "map oid (map2 f [n..<n + length xs] xs) = [n..<n + length xs]"
  using assms by (simp add: comp_def case_prod_unfold map_fst_zip del: upt_Suc)

lemma map2_key:
  assumes "\<And>r x. g (f r x) = h x"
  shows "map g (map2 f [n..<n + length xs] xs) = map h xs"
proof -
  have "map g (map2 f ns xs) = map h xs" if "length ns = length xs" for ns
    using that by (induction ns xs rule: list_induct2) (simp_all add: assms)
  then show ?thesis by simp
qed

lemma FromTask_sel [simp]:
  "oid (FromTask now r t) = r" "bel_boardElementType (FromTask now r t) = BET_Task"
  "target_oid (bel_target (FromTask now r t)) = oid t" "element_ok (FromTask now r t)"
  "bel_target (FromTask now r t) = TargetTask t"
  by (simp_all add: FromTask_def new_TaskBoardElement_def element_ok_def)

lemma FromLesson_sel [simp]:
  "oid (FromLesson now r l) = r" "bel_boardElementType (FromLesson now r l) = BET_Lesson"
  "target_oid (bel_target (FromLesson now r l)) = oid l" "element_ok (FromLesson now r l)"
  "bel_target (FromLesson now r l) = TargetLesson l"
  by (simp_all add: FromLesson_def new_LessonBoardElement_def element_ok_def)

lemma map2_in: "y \<in> set (map2 f [n..<n + length xs] xs) \<Longrightarrow> \<exists>r x. y = f r x \<and> n \<le> r \<and> r < n + length xs"
  by (fastforce dest: set_zip_leftD)

section \<open>Synchronisation, for tasks and for lessons\<close>

text \<open>
  One kind of target: \<open>mk\<close> makes its elements, \<open>remove\<close> drops those of the kind that are not in a
  list, \<open>add\<close> puts the missing ones in front.
\<close>

locale board_sync =
  fixes mk :: "ref \<Rightarrow> 'x entity_scheme \<Rightarrow> BoardElement"
    and ty :: BoardElementType
    and remove :: "Board \<Rightarrow> 'x entity_scheme list \<Rightarrow> Board"
    and add :: "ref \<Rightarrow> Board \<Rightarrow> 'x entity_scheme list \<Rightarrow> Board"
  assumes mk_oid: "oid (mk r x) = r"
    and mk_key: "element_key (mk r x) = (ty, oid x)"
    and mk_ok: "element_ok (mk r x)"
    and remove_elements: "getElements (remove b xs) =
      filter (\<lambda>y. \<not> (\<exists>r \<in> set (getElements b). bel_boardElementType r = ty \<and>
        target_oid (bel_target r) \<notin> oid ` set xs \<and> same_object y r)) (getElements b)"
    and add_elements: "getElements (add next b xs) =
      (let new = filter (\<lambda>x. (ty, oid x) \<notin> element_key ` set (getElements b)) xs
       in once (map2 mk [next..<next + length new] new @ getElements b))"
begin

definition kept :: "Board \<Rightarrow> 'x entity_scheme list \<Rightarrow> BoardElement list" where
  "kept b xs = filter (\<lambda>e. bel_boardElementType e = ty \<longrightarrow> target_oid (bel_target e) \<in> oid ` set xs)
     (getElements b)"

definition missing :: "Board \<Rightarrow> 'x entity_scheme list \<Rightarrow> 'x entity_scheme list" where
  "missing b xs = filter (\<lambda>x. (ty, oid x) \<notin> element_key ` set (getElements b)) xs"

lemma remove_kept:
  assumes "board_ok next b"
  shows "getElements (remove b xs) = kept b xs"
  using board_ok_oid_inj [OF assms]
  by (auto simp: remove_elements kept_def same_object_def intro!: filter_cong)

lemma missing_kept:
  assumes "board_ok next b"
  shows "filter (\<lambda>x. (ty, oid x) \<notin> element_key ` set (kept b xs)) xs = missing b xs"
proof -
  have "(ty, oid x) \<in> element_key ` set (kept b xs) \<longleftrightarrow> (ty, oid x) \<in> element_key ` set (getElements b)"
    if "x \<in> set xs" for x
    using that unfolding kept_def by force
  then show ?thesis unfolding missing_def by (metis (no_types, lifting) filter_cong)
qed

lemma kept_ok:
  "board_ok next b \<Longrightarrow> distinct (map oid (kept b xs)) \<and> distinct (map element_key (kept b xs)) \<and>
     (\<forall>e \<in> set (kept b xs). element_ok e \<and> oid e < next)"
  by (auto simp: board_ok_def kept_def distinct_map_filter)

lemma new_distinct_oids:
  assumes "board_ok next b"
  shows "distinct (map oid (map2 mk [next..<next + length ys] ys @ kept b xs))"
proof -
  have "map oid (map2 mk [next..<next + length ys] ys) = [next..<next + length ys]"
    by (rule map2_oid) (rule mk_oid)
  moreover have "set [next..<next + length ys] \<inter> set (map oid (kept b xs)) = {}"
    using kept_ok [OF assms, of xs] by fastforce
  ultimately show ?thesis using kept_ok [OF assms, of xs]
    by (simp only: map_append distinct_append distinct_upt)
qed

lemma sync_elements:
  assumes "board_ok next b"
  shows "getElements (add next (remove b xs) xs) =
    map2 mk [next..<next + length (missing b xs)] (missing b xs) @ kept b xs"
  by (simp add: add_elements remove_kept [OF assms] missing_kept [OF assms] Let_def
      once_distinct new_distinct_oids [OF assms] del: map_append)

lemma sync_keys:
  assumes "board_ok next b"
  shows "map element_key (getElements (add next (remove b xs) xs)) =
    map (\<lambda>x. (ty, oid x)) (missing b xs) @ map element_key (kept b xs)"
proof -
  have "map element_key (map2 mk [next..<next + length (missing b xs)] (missing b xs)) =
      map (\<lambda>x. (ty, oid x)) (missing b xs)"
    by (rule map2_key) (rule mk_key)
  then show ?thesis by (simp only: sync_elements [OF assms] map_append)
qed

lemma sync_ok:
  assumes "board_ok next b" and "distinct (map oid xs)" and "next + length xs \<le> next'"
  shows "board_ok next' (add next (remove b xs) xs)"
proof -
  have len: "length (missing b xs) \<le> length xs" by (simp add: missing_def)
  have "distinct (map (Pair ty) (map oid (missing b xs)))"
    using assms(2) by (simp only: distinct_map [of "Pair ty"])
      (simp add: missing_def distinct_map_filter inj_on_def)
  moreover have "set (map (\<lambda>x. (ty, oid x)) (missing b xs)) \<inter> set (map element_key (kept b xs)) = {}"
    by (auto simp: missing_def kept_def)
  ultimately have "distinct (map element_key (getElements (add next (remove b xs) xs)))"
    using kept_ok [OF assms(1), of xs] by (simp add: sync_keys [OF assms(1)] comp_def)
  moreover have "element_ok e \<and> oid e < next'"
    if e: "e \<in> set (getElements (add next (remove b xs) xs))" for e
  proof (cases "e \<in> set (kept b xs)")
    case True
    then show ?thesis using kept_ok [OF assms(1), of xs] assms(3) by fastforce
  next
    case False
    then have "e \<in> set (map2 mk [next..<next + length (missing b xs)] (missing b xs))"
      using e by (simp only: sync_elements [OF assms(1)] set_append) blast
    from map2_in [OF this] obtain r x where "e = mk r x" "r < next + length (missing b xs)" by blast
    then show ?thesis using len assms(3) by (simp add: mk_ok mk_oid)
  qed
  ultimately show ?thesis
    unfolding board_ok_def using new_distinct_oids [OF assms(1)]
    by (simp add: sync_elements [OF assms(1)])
qed

text \<open>Afterwards the elements of the kind are those of the list, and the others are untouched.\<close>

lemma sync_kind:
  assumes "board_ok next b"
  shows "{r. (ty, r) \<in> element_key ` set (getElements (add next (remove b xs) xs))} = oid ` set xs"
proof -
  have "element_key ` set (getElements (add next (remove b xs) xs)) =
      (\<lambda>x. (ty, oid x)) ` set (missing b xs) \<union> element_key ` set (kept b xs)"
    using arg_cong [OF sync_keys [OF assms], of set xs] by (simp only: set_map set_append)
  moreover have "(ty, oid x) \<in> (\<lambda>x. (ty, oid x)) ` set (missing b xs) \<union> element_key ` set (kept b xs)"
    if "x \<in> set xs" for x
    using that unfolding missing_def kept_def by force
  moreover have "r \<in> oid ` set xs"
    if "(ty, r) \<in> (\<lambda>x. (ty, oid x)) ` set (missing b xs) \<union> element_key ` set (kept b xs)" for r
    using that by (auto simp: missing_def kept_def)
  ultimately have "(ty, r) \<in> element_key ` set (getElements (add next (remove b xs) xs)) \<longleftrightarrow>
      r \<in> oid ` set xs" for r
    by (metis (no_types, lifting) imageE)
  then show ?thesis by blast
qed

lemma sync_others:
  assumes "board_ok next b"
  shows "filter (\<lambda>e. bel_boardElementType e \<noteq> ty) (getElements (add next (remove b xs) xs)) =
    filter (\<lambda>e. bel_boardElementType e \<noteq> ty) (getElements b)"
proof -
  have "bel_boardElementType e = ty" if "e \<in> set (map2 mk [next..<next + length (missing b xs)] (missing b xs))" for e
    using map2_in [OF that] mk_key by auto
  then have "filter (\<lambda>e. bel_boardElementType e \<noteq> ty)
      (map2 mk [next..<next + length (missing b xs)] (missing b xs)) = []"
    by (simp only: filter_empty_conv) blast
  then show ?thesis
    by (simp only: sync_elements [OF assms] filter_append append_Nil)
      (auto simp: kept_def intro: filter_cong)
qed

end

lemma getElements_set [simp]:
  "getElements (b\<lparr>brd_references := coll_set c xs\<rparr>) = once xs"
  by (simp add: getElements_def coll_set_def)

lemma find_key:
  "List.find (\<lambda>r. bel_boardElementType r = ty \<and> target_oid (bel_target r) = q) es = None \<longleftrightarrow>
     (ty, q) \<notin> element_key ` set es"
  by (auto simp: find_eq_None image_iff)

interpretation tasks_sync: board_sync "FromTask now" BET_Task removeTasksNotInList
  "addTasksOnList now" for now
  by unfold_locales
    (auto simp: removeTasksNotInList_def addTasksOnList_def getElements_def fold_coll_remove
      find_key Let_def coll_set_def intro!: filter_cong)

interpretation lessons_sync: board_sync "FromLesson now" BET_Lesson removeLessonsNotInList
  "addLessonsOnList now" for now
  by unfold_locales
    (auto simp: removeLessonsNotInList_def addLessonsOnList_def getElements_def fold_coll_remove
      find_key Let_def coll_set_def intro!: filter_cong)

section \<open>Reordering\<close>

abbreviation element_ids :: "Board \<Rightarrow> EntityId list" where
  "element_ids b \<equiv> map (\<lambda>e. target_id (bel_target e)) (getElements b)"

lemma checkListsContainingEqualEntities_mset:
  "checkListsContainingEqualEntities xs ys \<longleftrightarrow> mset xs = mset ys"
proof
  assume "checkListsContainingEqualEntities xs ys"
  then have "mset (sort xs) = mset (sort ys)"
    by (simp add: checkListsContainingEqualEntities_def del: mset_sort)
  then show "mset xs = mset ys" by simp
next
  assume "mset xs = mset ys"
  then have "sort xs = sort ys" by (intro properties_for_sort) simp_all
  then show "checkListsContainingEqualEntities xs ys" by (simp add: checkListsContainingEqualEntities_def)
qed

definition element_at :: "Board \<Rightarrow> EntityId \<Rightarrow> BoardElement" where
  "element_at b i = the (List.find (\<lambda>el. target_id (bel_target el) = i) (getElements b))"

lemma element_at:
  assumes "i \<in> set (element_ids b)"
  shows "getElementByTargetId b i = Inr (element_at b i)" "element_at b i \<in> set (getElements b)"
    "target_id (bel_target (element_at b i)) = i"
proof -
  from assms obtain e where e: "List.find (\<lambda>el. target_id (bel_target el) = i) (getElements b) = Some e"
    using find_is_Some [of _ "getElements b" "\<lambda>el. target_id (bel_target el) = i"] by auto
  then show "getElementByTargetId b i = Inr (element_at b i)"
    by (simp add: getElementByTargetId_def element_at_def)
  from find_eq_Some [OF e] e show "element_at b i \<in> set (getElements b)"
    "target_id (bel_target (element_at b i)) = i"
    by (simp_all add: element_at_def)
qed

lemma reorderElements_eq:
  "reorderElements b ids =
     (if mset ids = mset (element_ids b)
      then Inr (b\<lparr>brd_references := coll_set (brd_references b) (map (element_at b) ids)\<rparr>)
      else Inl (BadRequestException
        ''elements did not match. please fetch the elements of the board before reordering''))"
proof (cases "mset ids = mset (element_ids b)")
  case True
  then have "set ids = set (element_ids b)" by (rule mset_eq_setD)
  then have "mapMR (getElementByTargetId b) ids = Inr (map (element_at b) ids)"
    by (intro mapMR_total element_at(1)) blast
  with True show ?thesis
    by (simp add: reorderElements_def validateReordering_def checkListsContainingEqualEntities_mset
        Let_def)
qed (simp add: reorderElements_def validateReordering_def checkListsContainingEqualEntities_mset Let_def)

lemma map_element_at_distinct:
  assumes "mset ids = mset (element_ids b)" and "distinct (map oid (getElements b))"
    and "distinct (element_ids b)"
  shows "distinct (map oid (map (element_at b) ids))"
    and "mset (map (element_at b) ids) = mset (getElements b)"
    and "map (\<lambda>e. target_id (bel_target e)) (map (element_at b) ids) = ids"
proof -
  note ids = mset_eq_setD [OF assms(1)]
  have dist: "distinct ids" using assms(1,3) by (metis mset_eq_imp_distinct_iff)
  show M: "map (\<lambda>e. target_id (bel_target e)) (map (element_at b) ids) = ids"
    using ids element_at(3) by (auto intro!: map_idI)
  have d: "distinct (map (element_at b) ids)"
    using M dist by (metis distinct_map)
  have "set (map (element_at b) ids) \<subseteq> set (getElements b)" using ids element_at(2) by auto
  moreover have "length (map (element_at b) ids) = length (getElements b)"
    using arg_cong [OF assms(1), of size] by simp
  moreover have D: "distinct (getElements b)" using assms(2) by (simp add: distinct_map)
  ultimately have S: "set (map (element_at b) ids) = set (getElements b)"
    using d by (metis card_subset_eq distinct_card finite_set)
  then show "mset (map (element_at b) ids) = mset (getElements b)"
    using d D by (metis set_eq_iff_mset_eq_distinct)
  show "distinct (map oid (map (element_at b) ids))"
    using assms(2) d S by (simp only: distinct_map)
qed

section \<open>Properties\<close>

definition ex_board :: Board where
  "ex_board = (new_Board 0 50 [FromTask 0 51 (ex_task False []),
     FromLesson 0 52 (lesson.extend (ex_lesson False) \<lparr>les_tasks = coll_of []\<rparr>)] ex_course)"

lemma ex_lesson_entity_sel [simp]:
  "oid (lesson.extend (ex_lesson h) \<lparr>les_tasks = c\<rparr>) = 20"
  "eid (lesson.extend (ex_lesson h) \<lparr>les_tasks = c\<rparr>) = ''lesson''"
  "les_hidden (lesson.extend (ex_lesson h) \<lparr>les_tasks = c\<rparr>) = h"
  by (simp_all add: lesson.defs)

lemma ex_board_elements: "getElements ex_board =
    [FromTask 0 51 (ex_task False []), FromLesson 0 52 (lesson.extend (ex_lesson False) \<lparr>les_tasks = coll_of []\<rparr>)]"
  by (simp add: ex_board_def new_Board_def getElements_def coll_set_def same_object_def)

lemma ex_board_ok: "board_ok 60 ex_board"
  by (simp add: board_ok_def ex_board_elements)

text \<open>C34. Reordering a board is accepted exactly when the given ids are those of its targets, each as
  often as it occurs; the board then holds the same elements in the given order, and otherwise the
  request is rejected and nothing is missing from the board.\<close>

theorem reorderElements_permutes:
  assumes "distinct (map oid (getElements b))" and "distinct (element_ids b)"
  shows "if mset ids = mset (element_ids b)
    then \<exists>b'. reorderElements b ids = Inr b' \<and> element_ids b' = ids \<and>
           mset (getElements b') = mset (getElements b) \<and> brd_course b' = brd_course b
    else reorderElements b ids = Inl (BadRequestException
           ''elements did not match. please fetch the elements of the board before reordering'')"
  using map_element_at_distinct [OF _ assms, of ids]
  by (auto simp: reorderElements_eq once_distinct simp del: map_map)

theorem reorderElements_permutes_witness:
  "(\<exists>b'. reorderElements ex_board [''lesson'', ''task''] = Inr b' \<and> element_ids b' = [''lesson'', ''task'']) \<and>
   (\<exists>e. reorderElements ex_board [''task''] = Inl e)"
  using reorderElements_permutes [of ex_board "[''lesson'', ''task'']"]
    reorderElements_permutes [of ex_board "[''task'']"]
  by (auto simp: ex_board_elements)

text \<open>C35. Synchronising a board with the tasks and the lessons of its course leaves exactly these on
  it, each once, with the missing ones in front and the others in the order they had, and keeps the
  board well-formed.\<close>

theorem sync_matches_course:
  fixes t t' :: date
  assumes "board_ok next b" and "distinct (map oid ts)" and "distinct (map oid ls)"
  defines "b' \<equiv> syncLessonsFromList t' (next + length ts) (syncTasksFromList t next b ts) ls"
  shows "board_ok (next + length ts + length ls) b' \<and>
    element_key ` set (getElements b') = Pair BET_Task ` oid ` set ts \<union> Pair BET_Lesson ` oid ` set ls \<and>
    (\<exists>new_tasks new_lessons. getElements b' = new_lessons @
       filter (\<lambda>e. bel_boardElementType e = BET_Lesson \<longrightarrow> target_oid (bel_target e) \<in> oid ` set ls)
         (new_tasks @ filter (\<lambda>e. bel_boardElementType e = BET_Task \<longrightarrow>
            target_oid (bel_target e) \<in> oid ` set ts) (getElements b)))"
proof -
  define c where "c = syncTasksFromList t next b ts"
  have c: "board_ok (next + length ts) c"
    unfolding c_def syncTasksFromList_def by (rule tasks_sync.sync_ok) (use assms in auto)
  have b': "b' = addLessonsOnList t' (next + length ts) (removeLessonsNotInList c ls) ls"
    by (simp add: b'_def c_def syncLessonsFromList_def)
  have "(BET_Task, r) \<in> element_key ` set (getElements b') \<longleftrightarrow>
      (BET_Task, r) \<in> element_key ` set (getElements c)" for r
    using arg_cong [OF lessons_sync.sync_others [OF c, where now = t' and xs = ls], of set]
    by (auto simp: b' set_eq_iff image_iff)
  then have "(BET_Task, r) \<in> element_key ` set (getElements b') \<longleftrightarrow> r \<in> oid ` set ts" for r
    using tasks_sync.sync_kind [OF assms(1), where now = t and xs = ts]
    by (auto simp: c_def syncTasksFromList_def set_eq_iff)
  moreover have "(BET_Lesson, r) \<in> element_key ` set (getElements b') \<longleftrightarrow> r \<in> oid ` set ls" for r
    using lessons_sync.sync_kind [OF c, where now = t' and xs = ls] by (auto simp: b' set_eq_iff)
  ultimately have "(y, r) \<in> element_key ` set (getElements b') \<longleftrightarrow>
      (y, r) \<in> Pair BET_Task ` oid ` set ts \<union> Pair BET_Lesson ` oid ` set ls" for y r
    by (cases y) auto
  then have K: "element_key ` set (getElements b') =
      Pair BET_Task ` oid ` set ts \<union> Pair BET_Lesson ` oid ` set ls"
    unfolding set_eq_iff split_paired_All by blast
  moreover have "board_ok (next + length ts + length ls) b'"
    unfolding b' by (rule lessons_sync.sync_ok [OF c]) (use assms in auto)
  moreover obtain T where T: "getElements c = T @ filter (\<lambda>e. bel_boardElementType e = BET_Task \<longrightarrow>
      target_oid (bel_target e) \<in> oid ` set ts) (getElements b)"
    using tasks_sync.sync_elements [OF assms(1), where now = t and xs = ts]
    unfolding c_def syncTasksFromList_def tasks_sync.kept_def by blast
  moreover obtain L where "getElements b' = L @ filter (\<lambda>e. bel_boardElementType e = BET_Lesson \<longrightarrow>
      target_oid (bel_target e) \<in> oid ` set ls) (getElements c)"
    using lessons_sync.sync_elements [OF c, where now = t' and xs = ls] unfolding b' lessons_sync.kept_def by blast
  ultimately show ?thesis by (simp only: T) blast
qed

theorem sync_matches_course_witness:
  "element_key ` set (getElements (syncLessonsFromList 0 61 (syncTasksFromList 0 60 ex_board
     [(ex_task False [])\<lparr>oid := 31\<rparr>]) [])) = {(BET_Task, 31)}"
  using sync_matches_course [OF ex_board_ok, of "[(ex_task False [])\<lparr>oid := 31\<rparr>]" "[]"] by simp

end
