(* ===== verification/Rooms.thy ===== *)
theory Rooms
  imports Board RuleFacts
begin

text \<open>
  The room view of a course (\<^verbatim>\<open>modules/learnroom/uc/rooms.authorisation.service.ts\<close>,
  \<^verbatim>\<open>room-board-dto.factory.ts\<close>, \<^verbatim>\<open>rooms.uc.ts\<close>, \<^verbatim>\<open>service/rooms.service.ts\<close> and the response
  mapper).
\<close>

section \<open>Authorisation\<close>

definition hasCourseWritePermission :: "user \<Rightarrow> 'a course_scheme \<Rightarrow> bool" where
  "hasCourseWritePermission u c =
     (coll_contains (crs_substitutionTeachers c) u \<or> coll_contains (crs_teachers c) u)"

definition hasCourseReadPermission :: "user \<Rightarrow> 'a course_scheme \<Rightarrow> bool result" where
  "hasCourseReadPermission u c =
     (case crs_students c of
        None \<Rightarrow> Inl TypeError
      | Some students \<Rightarrow> Inr (coll_contains students u \<or> coll_contains (crs_substitutionTeachers c) u \<or>
                            coll_contains (crs_teachers c) u))"

definition hasTaskReadPermission :: "date \<Rightarrow> user \<Rightarrow> 'a task_scheme \<Rightarrow> bool result" where
  "hasTaskReadPermission now u t =
     (let isCreator = same_object (tsk_creator t) u
      in if tsk_lesson t \<noteq> None
         then Inl (NotImplementedException ''rooms currenlty do not support tasks in lessons'')
         else bindR (case tsk_course t of
                       None \<Rightarrow> Inr False
                     | Some c \<Rightarrow> bindR (hasCourseReadPermission u c) (\<lambda>readable.
                                 if \<not> isPublished now t then Inr (hasCourseWritePermission u c)
                                 else Inr readable))
                (\<lambda>hasCoursePermission. Inr (isCreator \<or> hasCoursePermission)))"

definition hasLessonReadPermission :: "user \<Rightarrow> 'a lesson_scheme \<Rightarrow> bool result" where
  "hasLessonReadPermission u l =
     (case les_course l of
        None \<Rightarrow> Inl TypeError
      | Some c \<Rightarrow> bindR (hasCourseReadPermission u c) (\<lambda>readable.
                  if les_hidden l then Inr (hasCourseWritePermission u c) else Inr readable))"

section \<open>The board as a transfer object\<close>

record TaskWithStatusVo =
  tws_task :: task
  tws_status :: ITaskStatus

record LessonMetaData =
  lmd_id :: EntityId
  lmd_name :: string
  lmd_hidden :: bool
  lmd_createdAt :: date
  lmd_updatedAt :: date
  lmd_numberOfPublishedTasks :: nat
  lmd_numberOfDraftTasks :: "nat option"
  lmd_numberOfPlannedTasks :: "nat option"
  lmd_courseName :: string

datatype RoomBoardElementTypes = RBE_TASK | RBE_LESSON

datatype RoomBoardContent = TaskContent TaskWithStatusVo | LessonContent LessonMetaData

record RoomBoardElementDTO =
  rbe_type :: RoomBoardElementTypes
  rbe_content :: RoomBoardContent

record RoomBoardDTO =
  rbd_roomId :: EntityId
  rbd_displayColor :: string
  rbd_title :: string
  rbd_elements :: "RoomBoardElementDTO list"

text \<open>
  The worker \<^verbatim>\<open>DtoCreator\<close>; its fields \<^verbatim>\<open>room\<close>, \<^verbatim>\<open>board\<close> and \<^verbatim>\<open>user\<close> are arguments. A filter
  whose test throws ends with that exception.
\<close>

primrec filterR :: "('a \<Rightarrow> bool result) \<Rightarrow> 'a list \<Rightarrow> 'a list result" where
  "filterR f [] = Inr []"
| "filterR f (x # xs) =
     bindR (f x) (\<lambda>b. mapR (\<lambda>ys. if b then x # ys else ys) (filterR f xs))"

definition element_readable :: "date \<Rightarrow> user \<Rightarrow> BoardElement \<Rightarrow> bool result" where
  "element_readable now u e =
     (case bel_boardElementType e of
        BET_Task \<Rightarrow> (case bel_target e of TargetTask t \<Rightarrow> hasTaskReadPermission now u t
                                      | TargetLesson _ \<Rightarrow> Inl TypeError)
      | BET_Lesson \<Rightarrow> (case bel_target e of TargetLesson l \<Rightarrow> hasLessonReadPermission u l
                                        | TargetTask _ \<Rightarrow> Inl TypeError))"

lemma filterR_eq_Inr:
  "filterR f xs = Inr ys \<longleftrightarrow>
     (\<forall>x \<in> set xs. \<exists>b. f x = Inr b) \<and> ys = filter (\<lambda>x. f x = Inr True) xs"
proof (induction xs arbitrary: ys)
  case (Cons x xs)
  then show ?case by (cases "f x") (auto simp: mapR_eq_Inr)
qed auto

definition filterByPermission :: "date \<Rightarrow> user \<Rightarrow> BoardElement list \<Rightarrow> BoardElement list result" where
  "filterByPermission now u elements = filterR (element_readable now u) elements"

definition isTeacher :: "'a course_scheme \<Rightarrow> user \<Rightarrow> bool" where
  "isTeacher room u =
     (if coll_contains (crs_teachers room) u \<or> coll_contains (crs_substitutionTeachers room) u
      then True else False)"

definition createTaskStatus :: "date \<Rightarrow> course \<Rightarrow> user \<Rightarrow> task \<Rightarrow> ITaskStatus result" where
  "createTaskStatus now room u t =
     (if isTeacher room u then createTeacherStatusForUser now t u else createStudentStatusForUser now t u)"

definition mapTaskElement :: "date \<Rightarrow> course \<Rightarrow> user \<Rightarrow> task \<Rightarrow> RoomBoardElementDTO result" where
  "mapTaskElement now room u t =
     bindR (createTaskStatus now room u t) (\<lambda>status.
       Inr \<lparr>rbe_type = RBE_TASK, rbe_content = TaskContent \<lparr>tws_task = t, tws_status = status\<rparr>\<rparr>)"

definition mapLessonElement :: "date \<Rightarrow> course \<Rightarrow> user \<Rightarrow> lesson_entity \<Rightarrow> RoomBoardElementDTO result" where
  "mapLessonElement now room u l =
     bindR (case les_course l of None \<Rightarrow> Inl TypeError | Some c \<Rightarrow> Inr (crs_name c)) (\<lambda>courseName.
     bindR (getNumberOfPublishedTasks now l) (\<lambda>published.
     let content = \<lparr>lmd_id = eid l, lmd_name = les_name l, lmd_hidden = les_hidden l,
                    lmd_createdAt = ent_createdAt l, lmd_updatedAt = ent_updatedAt l,
                    lmd_numberOfPublishedTasks = published, lmd_numberOfDraftTasks = None,
                    lmd_numberOfPlannedTasks = None, lmd_courseName = courseName\<rparr>
     in mapR (\<lambda>content. \<lparr>rbe_type = RBE_LESSON, rbe_content = LessonContent content\<rparr>)
          (if isTeacher room u
           then bindR (getNumberOfDraftTasks l) (\<lambda>drafts.
                bindR (getNumberOfPlannedTasks now l) (\<lambda>planned.
                  Inr (content\<lparr>lmd_numberOfDraftTasks := Some drafts,
                               lmd_numberOfPlannedTasks := Some planned\<rparr>)))
           else Inr content)))"

definition mapToElementDTOs ::
  "date \<Rightarrow> course \<Rightarrow> user \<Rightarrow> BoardElement list \<Rightarrow> RoomBoardElementDTO list result" where
  "mapToElementDTOs now room u elements =
     mapMR (\<lambda>element. case bel_boardElementType element of
              BET_Task \<Rightarrow> (case bel_target element of TargetTask t \<Rightarrow> mapTaskElement now room u t
                                                  | TargetLesson _ \<Rightarrow> Inl TypeError)
            | BET_Lesson \<Rightarrow> (case bel_target element of TargetLesson l \<Rightarrow> mapLessonElement now room u l
                                                    | TargetTask _ \<Rightarrow> Inl TypeError)) elements"

definition buildDTOWithElements :: "course \<Rightarrow> RoomBoardElementDTO list \<Rightarrow> RoomBoardDTO" where
  "buildDTOWithElements room elements =
     \<lparr>rbd_roomId = eid room, rbd_displayColor = crs_color room, rbd_title = crs_name room,
      rbd_elements = elements\<rparr>"

definition createDTO :: "date \<Rightarrow> course \<Rightarrow> Board \<Rightarrow> user \<Rightarrow> RoomBoardDTO result" where
  "createDTO now room b u =
     bindR (filterByPermission now u (getElements b)) (\<lambda>filtered.
     bindR (mapToElementDTOs now room u filtered) (\<lambda>mappedElements.
       Inr (buildDTOWithElements room mappedElements)))"

section \<open>The use cases\<close>

text \<open>
  The repositories are the database. A use case that saves a board returns the board it saves;
  \<open>next\<close> is the first free object reference.
\<close>

record rooms_repos =
  rr_user_findById :: "EntityId \<Rightarrow> bool option \<Rightarrow> user result"
  rr_course_findOne :: "EntityId \<Rightarrow> EntityId \<Rightarrow> course result"
  rr_board_findByCourseId :: "EntityId \<Rightarrow> Board result"
  rr_lesson_findAllByCourseIds :: "EntityId list \<Rightarrow> lesson_entity list result"
  rr_task_findBySingleParent :: "EntityId \<Rightarrow> EntityId \<Rightarrow> task list result"
  rr_board_save :: "Board \<Rightarrow> unit result"

definition updateBoard ::
  "rooms_repos \<Rightarrow> date \<Rightarrow> ref \<Rightarrow> Board \<Rightarrow> EntityId \<Rightarrow> EntityId \<Rightarrow> Board result" where
  "updateBoard repos now next b roomId userId =
     bindR (rr_lesson_findAllByCourseIds repos [roomId]) (\<lambda>courseLessons.
     bindR (rr_task_findBySingleParent repos userId roomId) (\<lambda>courseTasks.
     let b' = syncTasksFromList now next b courseTasks;
         b'' = syncLessonsFromList now (next + length courseTasks) b' courseLessons
     in bindR (rr_board_save repos b'') (\<lambda>_. Inr b'')))"

definition getBoard ::
  "rooms_repos \<Rightarrow> date \<Rightarrow> ref \<Rightarrow> EntityId \<Rightarrow> EntityId \<Rightarrow> (Board \<times> RoomBoardDTO) result" where
  "getBoard repos now next roomId userId =
     bindR (rr_user_findById repos userId (Some True)) (\<lambda>u.
     bindR (rr_course_findOne repos roomId userId) (\<lambda>c.
     bindR (rr_board_findByCourseId repos (eid c)) (\<lambda>b.
     bindR (updateBoard repos now next b roomId userId) (\<lambda>b'.
     bindR (createDTO now c b' u) (\<lambda>dto. Inr (b', dto))))))"

text \<open>The target found on the board is the object that the elements refer to.\<close>

definition update_target ::
  "(BoardElementReference \<Rightarrow> BoardElementReference) \<Rightarrow> BoardElementReference \<Rightarrow> Board \<Rightarrow> Board" where
  "update_target f x b =
     b\<lparr>brd_references := (brd_references b)\<lparr>coll_items :=
         map (\<lambda>e. if target_oid (bel_target e) = target_oid x
                  then e\<lparr>bel_target := f (bel_target e)\<rparr> else e)
           (getElements b)\<rparr>\<rparr>"

definition updateVisibilityOfBoardElement ::
  "rooms_repos \<Rightarrow> date \<Rightarrow> EntityId \<Rightarrow> EntityId \<Rightarrow> EntityId \<Rightarrow> bool \<Rightarrow> Board result" where
  "updateVisibilityOfBoardElement repos now roomId elementId userId visibility =
     bindR (rr_user_findById repos userId None) (\<lambda>u.
     bindR (rr_course_findOne repos roomId userId) (\<lambda>c.
     if \<not> hasCourseWritePermission u c then Inl ForbiddenException
     else
       bindR (rr_board_findByCourseId repos (eid c)) (\<lambda>b.
       bindR (getByTargetId b elementId) (\<lambda>element.
       let b' = (if visibility then update_target (target_publish now) element b
                 else update_target target_unpublish element b)
       in bindR (rr_board_save repos b') (\<lambda>_. Inr b')))))"

definition reorderBoardElements ::
  "rooms_repos \<Rightarrow> EntityId \<Rightarrow> EntityId \<Rightarrow> EntityId list \<Rightarrow> Board result" where
  "reorderBoardElements repos roomId userId orderedList =
     bindR (rr_user_findById repos userId None) (\<lambda>u.
     bindR (rr_course_findOne repos roomId userId) (\<lambda>c.
     if \<not> hasCourseWritePermission u c then Inl ForbiddenException
     else
       bindR (rr_board_findByCourseId repos (eid c)) (\<lambda>b.
       bindR (reorderElements b orderedList) (\<lambda>b'.
       bindR (rr_board_save repos b') (\<lambda>_. Inr b')))))"

section \<open>The response\<close>

record BoardTaskResponse =
  btr_id :: EntityId
  btr_name :: string
  btr_availableDate :: "date option"
  btr_duedate :: "date option"
  btr_courseName :: "string option"
  btr_description :: "string option"
  btr_displayColor :: "string option"
  btr_createdAt :: date
  btr_updatedAt :: date
  btr_status :: ITaskStatus
  btr_taskCardId :: "string option"

record BoardLessonResponse =
  blr_id :: EntityId
  blr_name :: string
  blr_courseName :: "string option"
  blr_numberOfPublishedTasks :: nat
  blr_numberOfDraftTasks :: "nat option"
  blr_numberOfPlannedTasks :: "nat option"
  blr_createdAt :: date
  blr_updatedAt :: date
  blr_hidden :: bool

datatype BoardElementResponse =
    TaskElementResponse BoardTaskResponse
  | LessonElementResponse BoardLessonResponse

text \<open>The constructors take what is handed to them by name; that of the lesson ignores \<^verbatim>\<open>courseName\<close>.\<close>

definition new_BoardTaskResponse :: "EntityId \<Rightarrow> string \<Rightarrow> date \<Rightarrow> date \<Rightarrow> ITaskStatus \<Rightarrow> BoardTaskResponse" where
  "new_BoardTaskResponse i name createdAt updatedAt status =
     \<lparr>btr_id = i, btr_name = name, btr_availableDate = None, btr_duedate = None,
      btr_courseName = None, btr_description = None, btr_displayColor = None, btr_createdAt = createdAt, btr_updatedAt = updatedAt,
      btr_status = status, btr_taskCardId = None\<rparr>"

definition new_BoardLessonResponse :: "BoardLessonResponse \<Rightarrow> BoardLessonResponse" where
  "new_BoardLessonResponse props =
     \<lparr>blr_id = blr_id props, blr_name = blr_name props, blr_courseName = None,
      blr_numberOfPublishedTasks = blr_numberOfPublishedTasks props,
      blr_numberOfDraftTasks = blr_numberOfDraftTasks props,
      blr_numberOfPlannedTasks = blr_numberOfPlannedTasks props,
      blr_createdAt = blr_createdAt props, blr_updatedAt = blr_updatedAt props,
      blr_hidden = blr_hidden props\<rparr>"

definition response_mapTask :: "TaskWithStatusVo \<Rightarrow> BoardElementResponse result" where
  "response_mapTask taskWithStatus =
     (let boardTask = tws_task taskWithStatus; boardTaskDesc = getParentData boardTask;
          mappedTask = new_BoardTaskResponse (eid boardTask) (tsk_name boardTask) (ent_createdAt boardTask)
            (ent_updatedAt boardTask) (tws_status taskWithStatus);
          mappedTask = (if truthy (tsk_taskCard boardTask)
                        then mappedTask\<lparr>btr_taskCardId := tsk_taskCard boardTask\<rparr> else mappedTask)
      in case tsk_course boardTask of
           None \<Rightarrow> Inl TypeError
         | Some taskCourse \<Rightarrow>
             Inr (TaskElementResponse (mappedTask\<lparr>btr_courseName := Some (crs_name taskCourse),
               btr_availableDate := tsk_availableDate boardTask, btr_duedate := tsk_dueDate boardTask,
               btr_displayColor := Some (pd_color boardTaskDesc),
               btr_description := Some (tsk_description boardTask)\<rparr>)))"

definition response_mapLesson :: "LessonMetaData \<Rightarrow> BoardElementResponse" where
  "response_mapLesson l =
     LessonElementResponse (new_BoardLessonResponse
       \<lparr>blr_id = lmd_id l, blr_name = lmd_name l, blr_courseName = Some (lmd_courseName l),
        blr_numberOfPublishedTasks = lmd_numberOfPublishedTasks l,
        blr_numberOfDraftTasks = lmd_numberOfDraftTasks l,
        blr_numberOfPlannedTasks = lmd_numberOfPlannedTasks l,
        blr_createdAt = lmd_createdAt l, blr_updatedAt = lmd_updatedAt l, blr_hidden = lmd_hidden l\<rparr>)"

record SingleColumnBoardResponse =
  scb_roomId :: EntityId
  scb_title :: string
  scb_displayColor :: string
  scb_elements :: "BoardElementResponse list"

definition mapBoardElements :: "RoomBoardDTO \<Rightarrow> BoardElementResponse list result" where
  "mapBoardElements b =
     mapMR (\<lambda>element. case rbe_content element of
              TaskContent t \<Rightarrow> response_mapTask t
            | LessonContent l \<Rightarrow> Inr (response_mapLesson l)) (rbd_elements b)"

definition board_mapToResponse :: "RoomBoardDTO \<Rightarrow> SingleColumnBoardResponse result" where
  "board_mapToResponse b =
     bindR (mapBoardElements b) (\<lambda>elements.
       Inr \<lparr>scb_roomId = rbd_roomId b, scb_title = rbd_title b, scb_displayColor = rbd_displayColor b,
            scb_elements = elements\<rparr>)"

end
