(* ===== verification/RoomProperties.thy ===== *)
theory RoomProperties
  imports Rooms
begin

text \<open>What the room view shows and to whom, and what its editing operations do to the board.\<close>

section \<open>Filtering\<close>

lemma isTeacher_iff: "isTeacher room u \<longleftrightarrow>
    coll_contains (crs_teachers room) u \<or> coll_contains (crs_substitutionTeachers room) u"
  by (simp add: isTeacher_def)

fun content_id :: "RoomBoardContent \<Rightarrow> EntityId" where
  "content_id (TaskContent t) = eid (tws_task t)"
| "content_id (LessonContent l) = lmd_id l"

fun content_planning :: "RoomBoardContent \<Rightarrow> bool" where
  "content_planning (TaskContent t) = False"
| "content_planning (LessonContent l) =
     (lmd_numberOfDraftTasks l \<noteq> None \<or> lmd_numberOfPlannedTasks l \<noteq> None)"

lemma mapTaskElement_content:
  "mapTaskElement now room u t = Inr d \<Longrightarrow>
     content_id (rbe_content d) = eid t \<and> \<not> content_planning (rbe_content d)"
  by (auto simp: mapTaskElement_def bindR_eq_Inr)

lemma mapLessonElement_content:
  "mapLessonElement now room u l = Inr d \<Longrightarrow>
     content_id (rbe_content d) = eid l \<and> (content_planning (rbe_content d) \<longrightarrow> isTeacher room u)"
  by (auto simp: mapLessonElement_def bindR_eq_Inr mapR_eq_Inr Let_def split: if_splits)

lemma mapToElementDTOs_content:
  assumes "mapToElementDTOs now room u es = Inr ds"
  shows "list_all2 (\<lambda>e d. content_id (rbe_content d) = target_id (bel_target e) \<and>
    (content_planning (rbe_content d) \<longrightarrow> isTeacher room u)) es ds"
  using assms unfolding mapToElementDTOs_def mapMR_eq_Inr
  by (rule list_all2_mono)
    (auto dest: mapTaskElement_content mapLessonElement_content
      split: BoardElementReference.splits BoardElementType.splits)

text \<open>
  Who sees what: the teachers of a course see everything, those who attend it the lessons that are not
  hidden and the tasks that are published, and the creator of a task the task.
\<close>

definition sees_task :: "date \<Rightarrow> user \<Rightarrow> task \<Rightarrow> bool" where
  "sees_task now u t \<longleftrightarrow> oid (tsk_creator t) = oid u \<or>
     (\<exists>c. tsk_course t = Some c \<and>
        (teaches u c \<or> attends u c \<and> tsk_private t \<noteq> Some True \<and> pred_option (\<lambda>d. d \<le> now) (tsk_availableDate t)))"

definition sees_lesson :: "user \<Rightarrow> lesson_entity \<Rightarrow> bool" where
  "sees_lesson u l \<longleftrightarrow> (\<exists>c. les_course l = Some c \<and> (teaches u c \<or> attends u c \<and> \<not> les_hidden l))"

fun sees :: "date \<Rightarrow> user \<Rightarrow> BoardElementReference \<Rightarrow> bool" where
  "sees now u (TargetTask t) = sees_task now u t"
| "sees now u (TargetLesson l) = sees_lesson u l"

lemma course_readable_iff: "hasCourseReadPermission u c = Inr b \<Longrightarrow> b \<longleftrightarrow> attends u c \<or> teaches u c"
  by (auto simp: hasCourseReadPermission_def attends_def teaches_def split: option.splits)

lemma course_writable_iff: "hasCourseWritePermission u c \<longleftrightarrow> teaches u c"
  by (auto simp: hasCourseWritePermission_def teaches_def)

lemma task_readable_iff: "hasTaskReadPermission now u t = Inr b \<Longrightarrow> b \<longleftrightarrow> sees_task now u t"
  by (auto simp: hasTaskReadPermission_def sees_task_def Let_def bindR_eq_Inr same_object_def course_writable_iff
      visibility_defs dest!: course_readable_iff split: option.splits if_splits)

lemma lesson_readable_iff: "hasLessonReadPermission u l = Inr b \<Longrightarrow> b \<longleftrightarrow> sees_lesson u l"
  by (auto simp: hasLessonReadPermission_def sees_lesson_def bindR_eq_Inr course_writable_iff
      dest!: course_readable_iff split: option.splits if_splits)

lemma element_readable_iff: "element_readable now u e = Inr b \<Longrightarrow> b \<longleftrightarrow> sees now u (bel_target e)"
  by (auto simp: element_readable_def task_readable_iff lesson_readable_iff
      split: BoardElementType.splits BoardElementReference.splits)

lemma filtered_elements: "filterByPermission now u els = Inr es \<Longrightarrow> es = filter (\<lambda>e. sees now u (bel_target e)) els"
  unfolding filterByPermission_def filterR_eq_Inr using element_readable_iff
  by (auto intro!: filter_cong)

text \<open>C37. The room view of a board shows, in board order, exactly the elements its user may see: to the
  teachers of a course everything, to those who attend it lessons that are not hidden and tasks that are
  no drafts and available already, and tasks to their creators. The numbers of draft and planned tasks
  of a lesson are given to teachers of the room only.\<close>

theorem createDTO_shows_readable:
  assumes "createDTO now room b u = Inr dto"
  shows "map (\<lambda>d. content_id (rbe_content d)) (rbd_elements dto) =
      map (\<lambda>e. target_id (bel_target e)) (filter (\<lambda>e. sees now u (bel_target e)) (getElements b)) \<and>
    (\<forall>d \<in> set (rbd_elements dto). content_planning (rbe_content d) \<longrightarrow>
      coll_contains (crs_teachers room) u \<or> coll_contains (crs_substitutionTeachers room) u)"
proof -
  from assms obtain es ds where "filterByPermission now u (getElements b) = Inr es"
    and ds: "mapToElementDTOs now room u es = Inr ds" "dto = buildDTOWithElements room ds"
    by (auto simp: createDTO_def bindR_eq_Inr)
  then have es: "es = filter (\<lambda>e. sees now u (bel_target e)) (getElements b)" by (simp add: filtered_elements)
  note r = mapToElementDTOs_content [OF ds(1)]
  then have "map (\<lambda>d. content_id (rbe_content d)) ds = map (\<lambda>e. target_id (bel_target e)) es"
    by (induction rule: list_all2_induct) auto
  moreover from r have "content_planning (rbe_content d) \<longrightarrow> isTeacher room u" if "d \<in> set ds" for d
    using that by (induction rule: list_all2_induct) auto
  ultimately show ?thesis
    using ds(2) es by (simp add: buildDTOWithElements_def isTeacher_iff)
qed

lemma ex_dto: "\<exists>dto. createDTO 5 ex_course ex_board ex_student = Inr dto"
  by (simp add: createDTO_def ex_board_elements filterByPermission_def element_readable_def
        hasTaskReadPermission_def hasLessonReadPermission_def hasCourseReadPermission_def
        FromLesson_def FromTask_def new_LessonBoardElement_def new_TaskBoardElement_def lesson.defs
        mapToElementDTOs_def mapTaskElement_def mapLessonElement_def createTaskStatus_def
        isTeacher_def coll_contains_def same_object_def visibility_defs Let_def
        getNumberOfPublishedTasks_def getTasksItems_def createStudentStatusForUser_def
        Task_isSubmittedForUser_def Task_isGradedForUser_def getSubmissionItems_def
        isFinishedForUser_def getFinishedUserIds_def)

theorem createDTO_shows_readable_witness:
  "\<exists>dto. createDTO 5 ex_course ex_board ex_student = Inr dto \<and>
     map (\<lambda>d. content_id (rbe_content d)) (rbd_elements dto) =
       map (\<lambda>e. target_id (bel_target e)) (filter (\<lambda>e. sees 5 ex_student (bel_target e)) (getElements ex_board))"
  using ex_dto createDTO_shows_readable [of 5 ex_course ex_board ex_student] by blast

section \<open>The room's authorisation and the task rule\<close>

text \<open>C39. For a task directly in a course, the room's own authorisation grants what the task rule
  grants, except that it hides a planned task from the students, which the task rule lets them
  read before its date.\<close>

theorem room_task_permission_within_rule:
  assumes "tsk_lesson t = None" and "tsk_course t = Some c" and "crs_students c \<noteq> None"
  shows "\<exists>b. TaskRule_hasPermission env u t (PermissionContextBuilder_read []) = Inr b \<and>
    hasTaskReadPermission now u t =
      Inr (b \<and> (isPlanned now t \<longrightarrow> same_object (tsk_creator t) u \<or> hasCourseWritePermission u c))"
  using assms
  by (auto simp: task_rule.unconditional context_builder_defs hasTaskReadPermission_def
      hasCourseReadPermission_def hasCourseWritePermission_def task_access_def task_parent_access_def
      course_access_def teaches_def attends_def visibility_exclusive Let_def)

definition ex_planned_task :: task where
  "ex_planned_task = (ex_task False [])\<lparr>tsk_availableDate := Some 9\<rparr>"

theorem room_task_permission_within_rule_witness:
  "TaskRule_hasPermission ex_env ex_student ex_planned_task (PermissionContextBuilder_read []) = Inr True \<and>
   hasTaskReadPermission 5 ex_student ex_planned_task = Inr False"
  using room_task_permission_within_rule [of ex_planned_task ex_course ex_env ex_student 5]
  by (simp add: ex_planned_task_def task_rule.unconditional context_builder_defs task_access_def
      task_parent_access_def course_access_def teaches_def attends_def coll_contains_def
      same_object_def visibility_defs hasCourseWritePermission_def)

section \<open>Visibility\<close>

interpretation board_target: learnroom_element target_publish target_unpublish target_visible
proof
  fix now now' e
  show "target_visible now (target_publish now e)" "\<not> target_visible now (target_unpublish e)"
    by (cases e; simp add: Task_publish_visible Task_unpublish_hidden Lesson_publish_def
        Lesson_unpublish_def)+
  show "target_visible now e \<Longrightarrow> now \<le> now' \<Longrightarrow> target_visible now' e"
    by (cases e) (auto intro: isPublished_later)
qed

lemma target_toggle_id [simp]:
  "target_id (target_publish now e) = target_id e" "target_id (target_unpublish e) = target_id e"
  "target_oid (target_publish now e) = target_oid e" "target_oid (target_unpublish e) = target_oid e"
  by (cases e; simp add: Task_publish_def Task_unpublish_def Lesson_publish_def Lesson_unpublish_def)+

lemma update_target_elements:
  "getElements (update_target f x b) =
     map (\<lambda>e. if target_oid (bel_target e) = target_oid x then e\<lparr>bel_target := f (bel_target e)\<rparr> else e)
       (getElements b)"
  by (simp add: update_target_def getElements_def)

text \<open>Switching the visibility of a board element needs write permission for the course; it makes
  the element with the given id visible or hidden from then on, leaves the targets of all other
  elements as they are, and the order of the board too.\<close>

theorem updateVisibility_switches:
  assumes "updateVisibilityOfBoardElement repos now roomId elementId userId visibility = Inr b'"
    and "now \<le> later"
  shows "\<exists>u c b x. rr_user_findById repos userId None = Inr u \<and>
    rr_course_findOne repos roomId userId = Inr c \<and> hasCourseWritePermission u c \<and>
    rr_board_findByCourseId repos (eid c) = Inr b \<and>
    getByTargetId b elementId = Inr x \<and> target_id x = elementId \<and>
    element_ids b' = element_ids b \<and> map oid (getElements b') = map oid (getElements b) \<and>
    (\<forall>e \<in> set (getElements b'). target_oid (bel_target e) = target_oid x \<longrightarrow>
       target_visible later (bel_target e) = visibility) \<and>
    (\<forall>e \<in> set (getElements b'). target_oid (bel_target e) \<noteq> target_oid x \<longrightarrow> e \<in> set (getElements b))"
proof -
  from assms(1) obtain u c b x where
    u: "rr_user_findById repos userId None = Inr u" and c: "rr_course_findOne repos roomId userId = Inr c"
    and w: "hasCourseWritePermission u c" and b: "rr_board_findByCourseId repos (eid c) = Inr b"
    and x: "getByTargetId b elementId = Inr x"
    and b': "b' = update_target (if visibility then target_publish now else target_unpublish) x b"
    by (auto simp: updateVisibilityOfBoardElement_def bindR_eq_Inr Let_def split: if_splits)
  have "target_id x = elementId"
    using x by (auto simp: getByTargetId_def getElementByTargetId_def mapR_eq_Inr
        dest: find_eq_Some split: option.splits)
  moreover have "target_visible later (if visibility then target_publish now y else target_unpublish y)
      = visibility" for y
    using board_target.visible_later [OF board_target.visible_publish assms(2)]
      board_target.hidden_unpublish by (cases visibility) simp_all
  ultimately show ?thesis
    using u c w b x
    by (intro exI [of _ u] exI [of _ c] exI [of _ b] exI [of _ x])
      (auto simp: b' update_target_elements comp_def if_distrib cong: if_cong)
qed

definition ex_repos :: rooms_repos where
  "ex_repos = \<lparr>rr_user_findById = (\<lambda>i _. if i = ''teacher'' then Inr ex_teacher else Inr ex_student),
     rr_course_findOne = (\<lambda>_ _. Inr ex_course), rr_board_findByCourseId = (\<lambda>_. Inr ex_board),
     rr_lesson_findAllByCourseIds = (\<lambda>_. Inr []), rr_task_findBySingleParent = (\<lambda>_ _. Inr []),
     rr_board_save = (\<lambda>_. Inr ())\<rparr>"

lemma ex_update: "\<exists>b'. updateVisibilityOfBoardElement ex_repos 5 ''room'' ''task'' ''teacher'' False = Inr b'"
  by (simp add: updateVisibilityOfBoardElement_def ex_repos_def hasCourseWritePermission_def
      coll_contains_def same_object_def getByTargetId_def getElementByTargetId_def ex_board_elements Let_def)

theorem updateVisibility_switches_witness:
  "\<exists>b'. updateVisibilityOfBoardElement ex_repos 5 ''room'' ''task'' ''teacher'' False = Inr b' \<and>
     map oid (getElements b') = [51, 52]"
proof -
  from ex_update obtain b' where
    b': "updateVisibilityOfBoardElement ex_repos 5 ''room'' ''task'' ''teacher'' False = Inr b'" ..
  from updateVisibility_switches [OF this order_refl] have "map oid (getElements b') = map oid (getElements ex_board)"
    by (auto simp: ex_repos_def)
  with b' show ?thesis by (simp add: ex_board_elements)
qed

section \<open>A lost field\<close>

text \<open>The course name of a lesson is computed for the board and never reaches the response.\<close>

lemma lesson_response_without_course_name:
  "\<exists>r. response_mapLesson l = LessonElementResponse r \<and> blr_courseName r = None"
  by (simp add: response_mapLesson_def new_BoardLessonResponse_def)

end
