(* ===== verification/JsMap.thy ===== *)
theory JsMap
  imports Prelude
begin

text \<open>
  The JavaScript \<^verbatim>\<open>Map\<close>: a list of entries in insertion order, where setting a present key keeps
  its place. The contract \<open>finite_map\<close> is what its clients rely on.
\<close>

type_synonym ('k, 'v) js_map = "('k \<times> 'v) list"

definition map_get :: "('k, 'v) js_map \<Rightarrow> 'k \<Rightarrow> 'v option" where
  "map_get m k = map_of m k"

primrec map_set :: "('k, 'v) js_map \<Rightarrow> 'k \<Rightarrow> 'v \<Rightarrow> ('k, 'v) js_map" where
  "map_set [] k v = [(k, v)]"
| "map_set (e # m) k v = (if fst e = k then (k, v) # m else e # map_set m k v)"

definition map_delete :: "('k, 'v) js_map \<Rightarrow> 'k \<Rightarrow> ('k, 'v) js_map" where
  "map_delete m k = filter (\<lambda>e. fst e \<noteq> k) m"

definition map_keys :: "('k, 'v) js_map \<Rightarrow> 'k list" where
  "map_keys m = map fst m"

definition map_values :: "('k, 'v) js_map \<Rightarrow> 'v list" where
  "map_values m = map snd m"

locale finite_map =
  fixes get :: "'m \<Rightarrow> 'k \<Rightarrow> 'v option"
    and put :: "'m \<Rightarrow> 'k \<Rightarrow> 'v \<Rightarrow> 'm"
    and del :: "'m \<Rightarrow> 'k \<Rightarrow> 'm"
    and keys :: "'m \<Rightarrow> 'k list"
    and ok :: "'m \<Rightarrow> bool"
  assumes get_put: "get (put m k v) k' = (if k' = k then Some v else get m k')"
    and get_del: "get (del m k) k' = (if k' = k then None else get m k')"
    and in_keys: "k \<in> set (keys m) \<longleftrightarrow> get m k \<noteq> None"
    and put_ok: "ok m \<Longrightarrow> ok (put m k v)"
    and del_ok: "ok m \<Longrightarrow> ok (del m k)"
    and ok_distinct: "ok m \<Longrightarrow> distinct (keys m)"
begin

lemma finite_dom: "finite {k. get m k \<noteq> None}"
proof -
  have "{k. get m k \<noteq> None} = set (keys m)" by (auto simp: in_keys)
  then show ?thesis by simp
qed

lemma get_put_same [simp]: "get (put m k v) k = Some v"
  by (simp add: get_put)

lemma get_del_same [simp]: "get (del m k) k = None"
  by (simp add: get_del)

lemma keys_put: "set (keys (put m k v)) = insert k (set (keys m))"
  by (auto simp: in_keys get_put split: if_splits)

lemma keys_del: "set (keys (del m k)) = set (keys m) - {k}"
  by (auto simp: in_keys get_del split: if_splits)

lemma move_key:
  assumes "get m k = Some v" and "k \<noteq> k'"
  shows "get (del (put m k' v) k) k' = Some v" "get (del (put m k' v) k) k = None"
  using assms by (simp_all add: get_del get_put)

end

abbreviation map_ok :: "('k, 'v) js_map \<Rightarrow> bool" where
  "map_ok m \<equiv> distinct (map fst m)"

lemma map_get_set: "map_get (map_set m k v) k' = (if k' = k then Some v else map_get m k')"
  unfolding map_get_def by (induction m) auto

lemma map_get_delete: "map_get (map_delete m k) k' = (if k' = k then None else map_get m k')"
  unfolding map_get_def map_delete_def by (induction m) auto

lemma map_set_keys: "map fst (map_set m k v) = (if k \<in> fst ` set m then map fst m else map fst m @ [k])"
  by (induction m) auto

interpretation grid_map: finite_map map_get map_set map_delete map_keys map_ok
proof
  fix m :: "('a, 'b) js_map" and k k' v
  show "map_get (map_set m k v) k' = (if k' = k then Some v else map_get m k')"
    "map_get (map_delete m k) k' = (if k' = k then None else map_get m k')"
    by (rule map_get_set map_get_delete)+
  show "k \<in> set (map_keys m) \<longleftrightarrow> map_get m k \<noteq> None"
    by (simp add: map_keys_def map_get_def map_of_eq_None_iff)
  show "map_ok m \<Longrightarrow> map_ok (map_set m k v)" by (auto simp: map_set_keys)
  show "map_ok m \<Longrightarrow> map_ok (map_delete m k)" by (simp add: map_delete_def distinct_map_filter)
  show "map_ok m \<Longrightarrow> distinct (map_keys m)" by (simp add: map_keys_def)
qed

lemma map_get_in: "map_ok m \<Longrightarrow> map_get m k = Some v \<longleftrightarrow> (k, v) \<in> set m"
  by (simp add: map_get_def)

text \<open>The values of a map, as a multiset, through its operations.\<close>

lemma map_values_set_new: "map_get m k = None \<Longrightarrow> map_set m k v = m @ [(k, v)]"
  by (induction m) (auto simp: map_get_def split: if_splits)

lemma mset_map_set:
  "map_get m k = Some w \<Longrightarrow> add_mset w (mset (map_values (map_set m k v))) = add_mset v (mset (map_values m))"
  by (induction m) (auto simp: map_get_def map_values_def split: if_splits)

lemma mset_map_delete:
  "map_ok m \<Longrightarrow> map_get m k = Some v \<Longrightarrow> add_mset v (mset (map_values (map_delete m k))) = mset (map_values m)"
proof (induction m)
  case (Cons e m)
  show ?case
  proof (cases "fst e = k")
    case True
    with Cons.prems(1) have "k \<notin> fst ` set m" by simp
    then have "filter (\<lambda>e. fst e \<noteq> k) m = m" unfolding filter_id_conv by (metis image_eqI)
    with True Cons.prems show ?thesis by (cases e) (simp add: map_delete_def map_values_def map_get_def)
  next
    case False
    with Cons show ?thesis
      by (cases e) (simp add: map_delete_def map_values_def map_get_def add_mset_commute)
  qed
qed (simp add: map_get_def)

end
