(* ===== verification/Dashboard.thy ===== *)
theory Dashboard
  imports JsMap Samples
begin

text \<open>
  The dashboard of a user: a grid of courses and groups of courses
  (\<^verbatim>\<open>shared/domain/entity/dashboard.entity.ts\<close>, \<^verbatim>\<open>modules/learnroom/uc/dashboard.uc.ts\<close>).

  The only learnroom is the course. A reference is \<open>None\<close> where the code reads \<^verbatim>\<open>undefined\<close> from
  beyond the end of a group. Positions are natural numbers (the API validates \<^verbatim>\<open>@Min(0)\<close>).
\<close>

type_synonym ILearnroom = "course option"

text \<open>\<^verbatim>\<open>getMetadata()\<close> fails on \<^verbatim>\<open>undefined\<close>; \<open>pg\<close> is the pictographic test of the short title.\<close>

definition metadata :: "(char \<Rightarrow> bool) \<Rightarrow> ILearnroom \<Rightarrow> LearnroomMetadata result" where
  "metadata pg r = (case r of None \<Rightarrow> Inl TypeError | Some c \<Rightarrow> Inr (getMetadata pg c))"

text \<open>\<^verbatim>\<open>===\<close> on references.\<close>

definition same_ref :: "ILearnroom \<Rightarrow> ILearnroom \<Rightarrow> bool" where
  "same_ref a b \<longleftrightarrow> map_option oid a = map_option oid b"

section \<open>Grid elements\<close>

record GridElement =
  gel_id :: "EntityId option"
  gel_title :: "string option"
  gel_references :: "ILearnroom list"

text \<open>\<^verbatim>\<open>sort\<close> is stable and moves \<^verbatim>\<open>undefined\<close> to the end without comparing it.\<close>

definition sortReferences :: "ILearnroom list \<Rightarrow> ILearnroom list" where
  "sortReferences rs =
     map Some (sort_key crs_name (map the (filter (\<lambda>r. r \<noteq> None) rs))) @ filter (\<lambda>r. r = None) rs"

definition new_GridElement :: "EntityId option \<Rightarrow> string option \<Rightarrow> ILearnroom list \<Rightarrow> GridElement" where
  "new_GridElement i title references =
     \<lparr>gel_id = if_truthy i, gel_title = if_truthy title, gel_references = sortReferences references\<rparr>"

definition FromPersistedReference :: "EntityId \<Rightarrow> ILearnroom \<Rightarrow> GridElement" where
  "FromPersistedReference i reference = new_GridElement (Some i) None [reference]"

definition FromPersistedGroup :: "EntityId \<Rightarrow> string option \<Rightarrow> ILearnroom list \<Rightarrow> GridElement" where
  "FromPersistedGroup i title refs = new_GridElement (Some i) title refs"

definition FromSingleReference :: "ILearnroom \<Rightarrow> GridElement" where
  "FromSingleReference reference = new_GridElement None None [reference]"

definition FromGroup :: "string \<Rightarrow> ILearnroom list \<Rightarrow> GridElement" where
  "FromGroup title references = new_GridElement None (Some title) references"

definition hasId :: "GridElement \<Rightarrow> bool" where
  "hasId e = truthy (gel_id e)"

definition isGroup :: "GridElement \<Rightarrow> bool" where
  "isGroup e \<longleftrightarrow> length (gel_references e) > 1"

definition setGroupName :: "GridElement \<Rightarrow> string \<Rightarrow> GridElement" where
  "setGroupName e newGroupName =
     (if \<not> isGroup e then e else e\<lparr>gel_title := Some newGroupName\<rparr>)"

text \<open>The index of a reference of a group is a natural number here.\<close>

definition removeReferenceByIndex :: "GridElement \<Rightarrow> nat \<Rightarrow> GridElement result" where
  "removeReferenceByIndex e index =
     (if \<not> isGroup e then Inl (BadRequestException ''this element is not a group.'')
      else if index > 0 \<and> length (gel_references e) \<le> index
      then Inl (BadRequestException ''group index out of bounds.'')
      else Inr (e\<lparr>gel_references := removeAt index (gel_references e)\<rparr>))"

primrec indexOfRef :: "ILearnroom list \<Rightarrow> ILearnroom \<Rightarrow> nat option" where
  "indexOfRef [] x = None"
| "indexOfRef (y # ys) x = (if same_ref y x then Some 0 else map_option Suc (indexOfRef ys x))"

definition removeReference :: "GridElement \<Rightarrow> ILearnroom \<Rightarrow> GridElement result" where
  "removeReference e reference =
     (case indexOfRef (gel_references e) reference of
        None \<Rightarrow> Inl (BadRequestException ''reference not found.'')
      | Some index \<Rightarrow> Inr (e\<lparr>gel_references := removeAt index (gel_references e)\<rparr>))"

definition addReferences :: "GridElement \<Rightarrow> ILearnroom list \<Rightarrow> GridElement" where
  "addReferences e anotherReference =
     (let e' = e\<lparr>gel_references := sortReferences (gel_references e @ anotherReference)\<rparr>
      in if \<not> isGroup e then setGroupName e' [] else e')"

record GridElementContent =
  gec_referencedId :: "string option"
  gec_title :: "string option"
  gec_shortTitle :: "string option"
  gec_displayColor :: string
  gec_group :: "LearnroomMetadata list option"
  gec_groupId :: "string option"
  gec_copyingSince :: "date option"

definition getContent :: "(char \<Rightarrow> bool) \<Rightarrow> GridElement \<Rightarrow> GridElementContent result" where
  "getContent pg e =
     (if \<not> isGroup e
      then bindR (case gel_references e of [] \<Rightarrow> Inl TypeError | r # _ \<Rightarrow> metadata pg r) (\<lambda>m.
             Inr \<lparr>gec_referencedId = Some (lm_id m), gec_title = Some (lm_title m),
                  gec_shortTitle = lm_shortTitle m, gec_displayColor = lm_displayColor m,
                  gec_group = None, gec_groupId = None, gec_copyingSince = lm_copyingSince m\<rparr>)
      else bindR (mapMR (metadata pg) (gel_references e)) (\<lambda>groupData.
             let checkShortTitle = (case gel_title e of None \<Rightarrow> [] | Some t \<Rightarrow> take 2 t)
             in Inr \<lparr>gec_referencedId = None, gec_title = gel_title e,
                     gec_shortTitle = Some checkShortTitle, gec_displayColor = ''exampleColor'',
                     gec_group = Some groupData, gec_groupId = gel_id e, gec_copyingSince = None\<rparr>))"

section \<open>The grid\<close>

record GridPosition =
  pos_x :: nat
  pos_y :: nat

record GridPositionWithGroupIndex = GridPosition +
  pos_groupIndex :: "nat option"

record GridElementWithPosition =
  gwp_pos :: GridPosition
  gwp_gridElement :: GridElement

record DashboardEntity =
  dsh_id :: string
  dsh_columns :: nat
  dsh_grid :: "(nat, GridElement) js_map"
  dsh_userId :: EntityId

definition defaultColumns :: nat where
  "defaultColumns = 4"

definition columns_gridIndex :: "nat \<Rightarrow> 'a GridPosition_scheme \<Rightarrow> nat result" where
  "columns_gridIndex columns pos =
     (if pos_x pos > columns
      then Inl (BadRequestException ''dashboard element position is outside the grid.'')
      else Inr (columns * pos_y pos + pos_x pos))"

definition gridIndexFromPosition :: "DashboardEntity \<Rightarrow> 'a GridPosition_scheme \<Rightarrow> nat result" where
  "gridIndexFromPosition d pos = columns_gridIndex (dsh_columns d) pos"

definition positionFromGridIndex :: "DashboardEntity \<Rightarrow> nat \<Rightarrow> GridPosition" where
  "positionFromGridIndex d index =
     (let y = index div dsh_columns d; x = index mod dsh_columns d in \<lparr>pos_x = x, pos_y = y\<rparr>)"

primrec fill_grid ::
  "nat \<Rightarrow> GridElementWithPosition list \<Rightarrow> (nat, GridElement) js_map \<Rightarrow> (nat, GridElement) js_map result" where
  "fill_grid columns [] g = Inr g"
| "fill_grid columns (e # es) g =
     bindR (columns_gridIndex columns (gwp_pos e)) (\<lambda>i.
       fill_grid columns es (map_set g i (gwp_gridElement e)))"

text \<open>\<^verbatim>\<open>props.colums || defaultColumns\<close>.\<close>

definition new_DashboardEntity ::
  "string \<Rightarrow> nat option \<Rightarrow> GridElementWithPosition list \<Rightarrow> EntityId \<Rightarrow> DashboardEntity result" where
  "new_DashboardEntity i colums grid userId =
     (let columns = (case colums of None \<Rightarrow> defaultColumns | Some n \<Rightarrow> if n = 0 then defaultColumns else n)
      in bindR (fill_grid columns grid []) (\<lambda>g.
           Inr \<lparr>dsh_id = i, dsh_columns = columns, dsh_grid = g, dsh_userId = userId\<rparr>))"

definition getGrid :: "DashboardEntity \<Rightarrow> GridElementWithPosition list" where
  "getGrid d =
     map (\<lambda>key. \<lparr>gwp_pos = positionFromGridIndex d key, gwp_gridElement = the (map_get (dsh_grid d) key)\<rparr>)
       (map_keys (dsh_grid d))"

definition getElement :: "DashboardEntity \<Rightarrow> 'a GridPosition_scheme \<Rightarrow> GridElement result" where
  "getElement d position =
     bindR (gridIndexFromPosition d position) (\<lambda>i.
       case map_get (dsh_grid d) i of
         None \<Rightarrow> Inl (NotFoundException ''no element at grid position'')
       | Some element \<Rightarrow> Inr element)"

subsection \<open>Moving an element\<close>

text \<open>\<^verbatim>\<open>references[position.groupIndex]\<close> is \<^verbatim>\<open>undefined\<close> beyond the end.\<close>

definition ref_at :: "ILearnroom list \<Rightarrow> nat \<Rightarrow> ILearnroom" where
  "ref_at rs i = (if i < length rs then rs ! i else None)"

definition getReferencesFromPosition ::
  "DashboardEntity \<Rightarrow> GridPositionWithGroupIndex \<Rightarrow> GridElement result" where
  "getReferencesFromPosition d position =
     bindR (getElement d position) (\<lambda>elementToMove.
       case pos_groupIndex position of
         Some groupIndex \<Rightarrow>
           if isGroup elementToMove
           then Inr (FromSingleReference (ref_at (gel_references elementToMove) groupIndex))
           else Inr elementToMove
       | None \<Rightarrow> Inr elementToMove)"

definition removeFromPosition ::
  "DashboardEntity \<Rightarrow> GridPositionWithGroupIndex \<Rightarrow> DashboardEntity result" where
  "removeFromPosition d position =
     bindR (getElement d position) (\<lambda>element.
     bindR (gridIndexFromPosition d position) (\<lambda>i.
       case pos_groupIndex position of
         Some groupIndex \<Rightarrow>
           bindR (removeReferenceByIndex element groupIndex) (\<lambda>e.
             Inr (d\<lparr>dsh_grid := map_set (dsh_grid d) i e\<rparr>))
       | None \<Rightarrow> Inr (d\<lparr>dsh_grid := map_delete (dsh_grid d) i\<rparr>)))"

definition mergeElementIntoPosition ::
  "DashboardEntity \<Rightarrow> GridElement \<Rightarrow> 'a GridPosition_scheme \<Rightarrow> (DashboardEntity \<times> GridElement) result" where
  "mergeElementIntoPosition d element position =
     bindR (gridIndexFromPosition d position) (\<lambda>i.
       let element' = (case map_get (dsh_grid d) i of
                         Some targetElement \<Rightarrow> addReferences targetElement (gel_references element)
                       | None \<Rightarrow> element)
       in Inr (d\<lparr>dsh_grid := map_set (dsh_grid d) i element'\<rparr>, element'))"

definition checkIfMovedToSubstitute ::
  "(char \<Rightarrow> bool) \<Rightarrow> GridElement \<Rightarrow> course list \<Rightarrow> unit result" where
  "checkIfMovedToSubstitute pg element substituteCourses =
     bindR (mapMR (\<lambda>r. bindR (metadata pg r) (\<lambda>m.
              guardR (\<not> list_ex (\<lambda>substitute. lm_id (getMetadata pg substitute) = lm_id m) substituteCourses)
                (BadRequestException ''substitute courses cannot be arranged'')))
            (gel_references element)) (\<lambda>_. Inr ())"

text \<open>
  The element that is returned is the object in the grid at the target, with what the removal did
  to it; when the removal deleted the target itself it is the object as merged.
\<close>

definition moveElement ::
  "(char \<Rightarrow> bool) \<Rightarrow> DashboardEntity \<Rightarrow> GridPositionWithGroupIndex \<Rightarrow> GridPositionWithGroupIndex \<Rightarrow>
   course list \<Rightarrow> (DashboardEntity \<times> GridElementWithPosition) result" where
  "moveElement pg d fromPos toPos substituteCourses =
     bindR (getReferencesFromPosition d fromPos) (\<lambda>elementToMove.
     bindR (if length substituteCourses > 0
            then bindR (checkIfMovedToSubstitute pg elementToMove substituteCourses) (\<lambda>_.
                 bindR (gridIndexFromPosition d toPos) (\<lambda>i.
                   case map_get (dsh_grid d) i of
                     Some toPosition \<Rightarrow> checkIfMovedToSubstitute pg toPosition substituteCourses
                   | None \<Rightarrow> Inr ()))
            else Inr ()) (\<lambda>_.
     bindR (mergeElementIntoPosition d elementToMove toPos) (\<lambda>(d', resultElement).
     bindR (removeFromPosition d' fromPos) (\<lambda>d''.
     bindR (gridIndexFromPosition d'' toPos) (\<lambda>i.
       Inr (d'', \<lparr>gwp_pos = \<lparr>pos_x = pos_x toPos, pos_y = pos_y toPos\<rparr>,
                  gwp_gridElement = (case map_get (dsh_grid d'') i of
                                       Some e \<Rightarrow> e | None \<Rightarrow> resultElement)\<rparr>))))))"

subsection \<open>Setting the courses\<close>

definition ref_includes :: "course list \<Rightarrow> ILearnroom \<Rightarrow> bool" where
  "ref_includes rooms r = list_ex (\<lambda>c. same_ref (Some c) r) rooms"

text \<open>
  \<^verbatim>\<open>currentRooms.forEach\<close> walks over the array that \<^verbatim>\<open>removeReference\<close> shortens: the index
  \<open>k\<close> moves on after a removal too, so the reference that took the place of the removed one is not
  visited. \<open>n\<close> is what is left of the original length.
\<close>

primrec forEach_remove ::
  "course list \<Rightarrow> nat \<Rightarrow> nat \<Rightarrow> GridElement \<Rightarrow> GridElement result" where
  "forEach_remove roomList 0 k element = Inr element"
| "forEach_remove roomList (Suc n) k element =
     (if k < length (gel_references element)
      then let room = gel_references element ! k
           in if \<not> ref_includes roomList room
              then bindR (removeReference element room) (forEach_remove roomList n (Suc k))
              else forEach_remove roomList n (Suc k) element
      else forEach_remove roomList n (Suc k) element)"

primrec remove_rooms_at ::
  "course list \<Rightarrow> nat list \<Rightarrow> (nat, GridElement) js_map \<Rightarrow> (nat, GridElement) js_map result" where
  "remove_rooms_at roomList [] g = Inr g"
| "remove_rooms_at roomList (key # ks) g =
     (let element = the (map_get g key)
      in bindR (forEach_remove roomList (length (gel_references element)) 0 element) (\<lambda>element'.
           let g' = map_set g key element'
           in remove_rooms_at roomList ks
                (if length (gel_references element') = 0 then map_delete g' key else g')))"

definition removeRoomsNotInList :: "DashboardEntity \<Rightarrow> course list \<Rightarrow> DashboardEntity result" where
  "removeRoomsNotInList d roomList =
     bindR (remove_rooms_at roomList (map_keys (dsh_grid d)) (dsh_grid d)) (\<lambda>g.
       Inr (d\<lparr>dsh_grid := g\<rparr>))"

definition allRooms :: "DashboardEntity \<Rightarrow> ILearnroom list" where
  "allRooms d = concat (map gel_references (map_values (dsh_grid d)))"

definition determineNewRoomsIn :: "DashboardEntity \<Rightarrow> course list \<Rightarrow> course list" where
  "determineNewRoomsIn d rooms =
     (let existingRooms = allRooms d
      in filter (\<lambda>room. \<not> list_ex (same_ref (Some room)) existingRooms) rooms)"

function first_open :: "(nat, 'v) js_map \<Rightarrow> nat \<Rightarrow> nat" where
  "first_open g i = (if map_get g i \<noteq> None then first_open g (i + 1) else i)"
  by pat_completeness auto

termination
proof (relation "measure (\<lambda>(g, i). card {k \<in> set (map_keys g). i \<le> k})")
  fix g :: "(nat, 'v) js_map" and i
  assume "map_get g i \<noteq> None"
  then have "i \<in> set (map_keys g)" by (simp add: grid_map.in_keys)
  then have "i \<in> {k \<in> set (map_keys g). i \<le> k} - {k \<in> set (map_keys g). i + 1 \<le> k}"
    "{k \<in> set (map_keys g). i + 1 \<le> k} \<subseteq> {k \<in> set (map_keys g). i \<le> k}"
    by (simp_all add: Collect_mono)
  then have "{k \<in> set (map_keys g). i + 1 \<le> k} \<subset> {k \<in> set (map_keys g). i \<le> k}" by blast
  then show "((g, i + 1), g, i) \<in> measure (\<lambda>(g, i). card {k \<in> set (map_keys g). i \<le> k})"
    unfolding in_measure prod.case by (intro psubset_card_mono) simp_all
qed (rule wf_measure)

declare first_open.simps [simp del]

definition getFirstOpenIndex :: "DashboardEntity \<Rightarrow> nat" where
  "getFirstOpenIndex d = first_open (dsh_grid d) 0"

definition addRoom :: "DashboardEntity \<Rightarrow> course \<Rightarrow> DashboardEntity" where
  "addRoom d room =
     (let index = getFirstOpenIndex d; newElement = FromSingleReference (Some room)
      in d\<lparr>dsh_grid := map_set (dsh_grid d) index newElement\<rparr>)"

definition setLearnRooms :: "DashboardEntity \<Rightarrow> course list \<Rightarrow> DashboardEntity result" where
  "setLearnRooms d rooms =
     bindR (removeRoomsNotInList d rooms) (\<lambda>d'.
       Inr (fold (\<lambda>room acc. addRoom acc room) (determineNewRoomsIn d' rooms) d'))"

section \<open>The use cases\<close>

text \<open>The repositories are the database; a use case returns the dashboard that it persisted.\<close>

record dashboard_repos =
  dr_getUsersDashboard :: "EntityId \<Rightarrow> DashboardEntity result"
  dr_getDashboardById :: "EntityId \<Rightarrow> DashboardEntity result"
  dr_persistAndFlush :: "DashboardEntity \<Rightarrow> unit result"
  dr_user_findById :: "EntityId \<Rightarrow> bool \<Rightarrow> user result"
  dr_findAllForTeacher :: "EntityId \<Rightarrow> course list result"
  dr_findAllByUserId :: "EntityId \<Rightarrow> course list result"
  dr_findAllForSubstituteTeacher :: "EntityId \<Rightarrow> course list result"

definition getUsersDashboard ::
  "dashboard_repos \<Rightarrow> auth_env \<Rightarrow> EntityId \<Rightarrow> bool option \<Rightarrow> DashboardEntity result" where
  "getUsersDashboard repos env userId showSubstitute =
     bindR (dr_getUsersDashboard repos userId) (\<lambda>dashboard.
     bindR (dr_user_findById repos userId True) (\<lambda>u.
     bindR (hasRole env u TEACHER) (\<lambda>teacher.
     bindR (if teacher \<and> showSubstitute \<noteq> Some True then dr_findAllForTeacher repos userId
            else dr_findAllByUserId repos userId) (\<lambda>courses.
     bindR (setLearnRooms dashboard courses) (\<lambda>dashboard'.
     bindR (dr_persistAndFlush repos dashboard') (\<lambda>_. Inr dashboard'))))))"

definition validateUsersMatch :: "DashboardEntity \<Rightarrow> EntityId \<Rightarrow> unit result" where
  "validateUsersMatch dashboard userId =
     guardR (dsh_userId dashboard = userId) (NotFoundException ''no such dashboard found'')"

definition moveElementOnDashboard ::
  "dashboard_repos \<Rightarrow> (char \<Rightarrow> bool) \<Rightarrow> EntityId \<Rightarrow> GridPositionWithGroupIndex \<Rightarrow>
   GridPositionWithGroupIndex \<Rightarrow> EntityId \<Rightarrow> DashboardEntity result" where
  "moveElementOnDashboard repos pg dashboardId fromPos toPos userId =
     bindR (dr_getDashboardById repos dashboardId) (\<lambda>dashboard.
     bindR (validateUsersMatch dashboard userId) (\<lambda>_.
     bindR (dr_findAllForSubstituteTeacher repos userId) (\<lambda>substituteCourses.
     bindR (moveElement pg dashboard fromPos toPos substituteCourses) (\<lambda>(dashboard', _).
     bindR (dr_persistAndFlush repos dashboard') (\<lambda>_. Inr dashboard')))))"

definition renameGroupOnDashboard ::
  "dashboard_repos \<Rightarrow> EntityId \<Rightarrow> GridPosition \<Rightarrow> string \<Rightarrow> EntityId \<Rightarrow> DashboardEntity result" where
  "renameGroupOnDashboard repos dashboardId position params userId =
     bindR (dr_getDashboardById repos dashboardId) (\<lambda>dashboard.
     bindR (validateUsersMatch dashboard userId) (\<lambda>_.
     bindR (getElement dashboard position) (\<lambda>gridElement.
     bindR (gridIndexFromPosition dashboard position) (\<lambda>i.
     let dashboard' = dashboard\<lparr>dsh_grid := map_set (dsh_grid dashboard) i (setGroupName gridElement params)\<rparr>
     in bindR (dr_persistAndFlush repos dashboard') (\<lambda>_. Inr dashboard')))))"

end
