(* ===== verification/DashboardProperties.thy ===== *)
theory DashboardProperties
  imports Dashboard
begin

text \<open>What the operations of the dashboard do to the courses on it.\<close>

section \<open>The courses of a grid\<close>

definition rooms_of :: "(nat, GridElement) js_map \<Rightarrow> ILearnroom multiset" where
  "rooms_of g = (\<Sum>e \<in># mset (map_values g). mset (gel_references e))"

lemma rooms_of_allRooms: "mset (allRooms d) = rooms_of (dsh_grid d)"
  by (simp add: allRooms_def rooms_of_def mset_concat comp_def sum_mset_sum_list flip: mset_map)

lemma rooms_of_set:
  "map_get g k = Some w \<Longrightarrow>
     rooms_of (map_set g k v) + mset (gel_references w) = rooms_of g + mset (gel_references v)"
  using arg_cong [OF mset_map_set [of g k w v], of "\<lambda>M. \<Sum>e \<in># M. mset (gel_references e)"]
  by (simp add: rooms_of_def ac_simps)

lemma rooms_of_set_new:
  "map_get g k = None \<Longrightarrow> rooms_of (map_set g k v) = rooms_of g + mset (gel_references v)"
  by (simp add: map_values_set_new rooms_of_def map_values_def)

lemma rooms_of_delete:
  "map_ok g \<Longrightarrow> map_get g k = Some v \<Longrightarrow> rooms_of (map_delete g k) + mset (gel_references v) = rooms_of g"
  using arg_cong [OF mset_map_delete [of g k v], of "\<lambda>M. \<Sum>e \<in># M. mset (gel_references e)"]
  by (simp add: rooms_of_def ac_simps)

lemma mset_sortReferences [simp]: "mset (sortReferences rs) = mset rs"
proof -
  have known: "map Some (map the (filter (\<lambda>r. r \<noteq> None) rs)) = filter (\<lambda>r. r \<noteq> None) rs"
    unfolding map_map comp_def by (rule map_idI) auto
  have "mset (map Some (sort_key crs_name (map the (filter (\<lambda>r. r \<noteq> None) rs)))) =
      mset (map Some (map the (filter (\<lambda>r. r \<noteq> None) rs)))"
    by (simp only: mset_map mset_sort)
  then have "mset (map Some (sort_key crs_name (map the (filter (\<lambda>r. r \<noteq> None) rs)))) =
      mset (filter (\<lambda>r. r \<noteq> None) rs)"
    unfolding known .
  then show ?thesis
    using multiset_partition [of "mset rs" "\<lambda>r. r \<noteq> None"] by (simp add: sortReferences_def)
qed

lemma addReferences_refs [simp]:
  "mset (gel_references (addReferences e rs)) = mset (gel_references e) + mset rs"
  by (simp add: addReferences_def setGroupName_def Let_def)

lemma FromSingleReference_refs [simp]: "mset (gel_references (FromSingleReference r)) = {#r#}"
  by (simp add: FromSingleReference_def new_GridElement_def)

section \<open>Positions\<close>

text \<open>A position inside the grid is recovered from its index. The bound check also lets through
  the column just beyond the last, which lands in the first column of the next row.\<close>

theorem position_roundtrip:
  assumes "dsh_columns d > 0"
  shows "if pos_x pos < dsh_columns d
    then \<exists>i. gridIndexFromPosition d pos = Inr i \<and>
           positionFromGridIndex d i = \<lparr>pos_x = pos_x pos, pos_y = pos_y pos\<rparr>
    else if pos_x pos = dsh_columns d
    then \<exists>i. gridIndexFromPosition d pos = Inr i \<and>
           positionFromGridIndex d i = \<lparr>pos_x = 0, pos_y = pos_y pos + 1\<rparr>
    else gridIndexFromPosition d pos =
           Inl (BadRequestException ''dashboard element position is outside the grid.'')"
  using assms
  by (auto simp: gridIndexFromPosition_def columns_gridIndex_def positionFromGridIndex_def Let_def
      div_add1_eq)

definition ex_dashboard :: "(nat, GridElement) js_map \<Rightarrow> DashboardEntity" where
  "ex_dashboard g = \<lparr>dsh_id = ''d'', dsh_columns = 4, dsh_grid = g, dsh_userId = ''u''\<rparr>"

lemma ex_dashboard_sel [simp]:
  "dsh_columns (ex_dashboard g) = 4" "dsh_grid (ex_dashboard g) = g" "dsh_userId (ex_dashboard g) = ''u''"
  by (simp_all add: ex_dashboard_def)

theorem position_roundtrip_witness:
  "\<exists>i. gridIndexFromPosition (ex_dashboard []) \<lparr>pos_x = 4, pos_y = 2\<rparr> = Inr i \<and>
     positionFromGridIndex (ex_dashboard []) i = \<lparr>pos_x = 0, pos_y = 3\<rparr>"
  using position_roundtrip [of "ex_dashboard []" "\<lparr>pos_x = 4, pos_y = 2\<rparr>"] by simp

section \<open>Moving\<close>

lemma mergeElementIntoPosition_rooms:
  assumes "mergeElementIntoPosition d e pos = Inr (d', r)" and "gridIndexFromPosition d pos = Inr j"
  shows "rooms_of (dsh_grid d') = rooms_of (dsh_grid d) + mset (gel_references e) \<and>
    (\<exists>e'. dsh_grid d' = map_set (dsh_grid d) j e') \<and> dsh_columns d' = dsh_columns d"
proof (cases "map_get (dsh_grid d) j")
  case None
  then show ?thesis using assms
    by (auto simp: mergeElementIntoPosition_def Let_def rooms_of_set_new)
next
  case (Some t)
  then have d': "d' = d\<lparr>dsh_grid := map_set (dsh_grid d) j (addReferences t (gel_references e))\<rparr>"
    using assms by (auto simp: mergeElementIntoPosition_def Let_def)
  have "rooms_of (dsh_grid d') + mset (gel_references t) =
      (rooms_of (dsh_grid d) + mset (gel_references e)) + mset (gel_references t)"
    using rooms_of_set [OF Some] by (simp add: d' ac_simps)
  then show ?thesis by (auto simp: d')
qed

lemma removeFromPosition_rooms:
  assumes "removeFromPosition d pos = Inr d'" and "gridIndexFromPosition d pos = Inr i"
    and "map_get (dsh_grid d) i = Some e" and "map_ok (dsh_grid d)"
  shows "rooms_of (dsh_grid d') +
    mset (case pos_groupIndex pos of None \<Rightarrow> gel_references e
          | Some k \<Rightarrow> [ref_at (gel_references e) k]) = rooms_of (dsh_grid d) \<and>
    (\<forall>k. pos_groupIndex pos = Some k \<longrightarrow> isGroup e \<and> k < length (gel_references e))"
proof (cases "pos_groupIndex pos")
  case None
  then show ?thesis using assms rooms_of_delete [OF assms(4,3)]
    by (auto simp: removeFromPosition_def getElement_def)
next
  case (Some k)
  then have k: "isGroup e" "k < length (gel_references e)"
    and d': "d' = d\<lparr>dsh_grid := map_set (dsh_grid d) i
      (e\<lparr>gel_references := removeAt k (gel_references e)\<rparr>)\<rparr>"
    using assms by (auto simp: removeFromPosition_def getElement_def removeReferenceByIndex_def
        isGroup_def split: if_splits)
  have "rooms_of (dsh_grid d') + mset (gel_references e) =
      rooms_of (dsh_grid d) + mset (removeAt k (gel_references e))"
    using rooms_of_set [OF assms(3)] by (simp add: d')
  moreover have "mset (gel_references e) =
      add_mset (ref_at (gel_references e) k) (mset (removeAt k (gel_references e)))"
    using mset_removeAt [OF k(2)] k by (simp add: ref_at_def)
  ultimately show ?thesis using k Some by simp
qed

lemma moveElement_steps:
  assumes "moveElement pg d p q subs = Inr (d'', r)"
  obtains e d' m where "getReferencesFromPosition d p = Inr e" "mergeElementIntoPosition d e q = Inr (d', m)"
    "removeFromPosition d' p = Inr d''"
  using assms by (auto simp: moveElement_def bindR_eq_Inr)

text \<open>C33. Moving an element, or one course out of a group, to another cell neither loses nor
  duplicates a course: afterwards the dashboard shows the same courses, each as often as before.\<close>

theorem moveElement_keeps_rooms:
  assumes "map_ok (dsh_grid d)" and "moveElement pg d p q subs = Inr (d'', r)"
    and "gridIndexFromPosition d p \<noteq> gridIndexFromPosition d q"
  shows "mset (allRooms d'') = mset (allRooms d)"
proof -
  from moveElement_steps [OF assms(2)] obtain e d' m where
    e: "getReferencesFromPosition d p = Inr e" and m: "mergeElementIntoPosition d e q = Inr (d', m)"
    and rem: "removeFromPosition d' p = Inr d''" by blast
  from e obtain i s where i: "gridIndexFromPosition d p = Inr i" "map_get (dsh_grid d) i = Some s"
    by (auto simp: getReferencesFromPosition_def getElement_def bindR_eq_Inr split: option.splits)
  from m obtain j where j: "gridIndexFromPosition d q = Inr j"
    by (auto simp: mergeElementIntoPosition_def bindR_eq_Inr)
  from mergeElementIntoPosition_rooms [OF m j] obtain e' where
    rooms: "rooms_of (dsh_grid d') = rooms_of (dsh_grid d) + mset (gel_references e)"
    and d': "dsh_grid d' = map_set (dsh_grid d) j e'" "dsh_columns d' = dsh_columns d" by blast
  have i': "gridIndexFromPosition d' p = Inr i" "map_get (dsh_grid d') i = Some s" "map_ok (dsh_grid d')"
    using i d' assms(1,3) j by (auto simp: gridIndexFromPosition_def map_get_set intro: grid_map.put_ok)
  from removeFromPosition_rooms [OF rem i'] rooms e i show ?thesis
    by (auto simp: getReferencesFromPosition_def getElement_def rooms_of_allRooms split: option.splits)
qed

text \<open>Moving an element that is no member of a group onto its own cell deletes it with all of its
  courses from the dashboard.\<close>

theorem move_onto_itself_deletes:
  assumes "map_ok (dsh_grid d)" and "gridIndexFromPosition d p = Inr i"
    and "map_get (dsh_grid d) i = Some e" and "pos_groupIndex p = None"
  shows "\<exists>d' r. moveElement pg d p p [] = Inr (d', r) \<and> map_get (dsh_grid d') i = None \<and>
    mset (allRooms d') + mset (gel_references e) = mset (allRooms d)"
proof -
  define e' where "e' = addReferences e (gel_references e)"
  define d' where "d' = d\<lparr>dsh_grid := map_delete (map_set (dsh_grid d) i e') i\<rparr>"
  have "map_delete (map_set (dsh_grid d) i e') i = map_delete (dsh_grid d) i"
  proof -
    have "map_delete (map_set g i e') i = map_delete g i" for g :: "(nat, GridElement) js_map"
      by (induction g) (auto simp: map_delete_def)
    then show ?thesis .
  qed
  then have "mset (allRooms d') + mset (gel_references e) = mset (allRooms d)"
    using rooms_of_delete [OF assms(1,3)] by (simp add: rooms_of_allRooms d'_def)
  moreover have "\<exists>r. moveElement pg d p p [] = Inr (d', r)"
    using assms
    by (simp add: moveElement_def getReferencesFromPosition_def getElement_def
        mergeElementIntoPosition_def removeFromPosition_def gridIndexFromPosition_def map_get_set
        d'_def e'_def Let_def)
  moreover have "map_get (dsh_grid d') i = None" by (simp add: d'_def)
  ultimately show ?thesis by blast
qed

definition ex_grid :: "(nat, GridElement) js_map" where
  "ex_grid = [(0, FromSingleReference (Some ex_course)),
     (1, FromSingleReference (Some (ex_course\<lparr>oid := 12, eid := ''c2''\<rparr>)))]"

lemma ex_grid_facts [simp]:
  "map_ok ex_grid" "map_get ex_grid 0 = Some (FromSingleReference (Some ex_course))"
  "map_get ex_grid (Suc 0) = Some (FromSingleReference (Some (ex_course\<lparr>oid := 12, eid := ''c2''\<rparr>)))"
  by (simp_all add: ex_grid_def map_get_def)

abbreviation ex_pos :: "nat \<Rightarrow> GridPositionWithGroupIndex" where
  "ex_pos x \<equiv> \<lparr>pos_x = x, pos_y = 0, pos_groupIndex = None\<rparr>"

lemma ex_index [simp]: "x \<le> 4 \<Longrightarrow> gridIndexFromPosition (ex_dashboard g) (ex_pos x) = Inr x"
  by (simp add: gridIndexFromPosition_def columns_gridIndex_def)

lemma ex_move: "\<exists>d r. moveElement pg (ex_dashboard ex_grid) (ex_pos 0) (ex_pos 1) [] = Inr (d, r)"
  by (simp add: moveElement_def getReferencesFromPosition_def getElement_def
      mergeElementIntoPosition_def removeFromPosition_def gridIndexFromPosition_def
      columns_gridIndex_def map_get_set Let_def)

theorem moveElement_keeps_rooms_witness:
  "\<exists>d r. moveElement (\<lambda>_. False) (ex_dashboard ex_grid) (ex_pos 0) (ex_pos 1) [] = Inr (d, r) \<and>
     mset (allRooms d) = mset (allRooms (ex_dashboard ex_grid))"
proof -
  from ex_move obtain d r where
    m: "moveElement (\<lambda>_. False) (ex_dashboard ex_grid) (ex_pos 0) (ex_pos 1) [] = Inr (d, r)" by blast
  from moveElement_keeps_rooms [OF _ this] have "mset (allRooms d) = mset (allRooms (ex_dashboard ex_grid))"
    by simp
  with m show ?thesis by blast
qed

theorem move_onto_itself_deletes_witness:
  "\<exists>d' r. moveElement (\<lambda>_. False) (ex_dashboard ex_grid) (ex_pos 0) (ex_pos 0) [] = Inr (d', r) \<and>
     map_get (dsh_grid d') 0 = None"
  using move_onto_itself_deletes [of "ex_dashboard ex_grid" "ex_pos 0" 0
      "FromSingleReference (Some ex_course)" "\<lambda>_. False"] by auto

section \<open>Setting the courses\<close>

lemma same_ref_refl [simp]: "same_ref a a"
  by (simp add: same_ref_def)

lemma ref_includes_same: "same_ref a b \<Longrightarrow> ref_includes rooms a = ref_includes rooms b"
  by (simp add: ref_includes_def same_ref_def)

lemma indexOfRef_found:
  "r \<in> set rs \<Longrightarrow> \<exists>i < length rs. indexOfRef rs r = Some i \<and> same_ref (rs ! i) r"
proof (induction rs)
  case (Cons x rs)
  show ?case
  proof (cases "same_ref x r")
    case False
    then have "r \<in> set rs" using Cons.prems by auto
    with False Cons.IH obtain i where "i < length rs" "indexOfRef rs r = Some i" "same_ref (rs ! i) r" by blast
    with False show ?thesis by (intro exI [of _ "Suc i"]) simp
  qed simp
qed simp

text \<open>Removing a reference that is not in the list keeps those that are.\<close>

lemma removeReference_stale:
  assumes "r \<in> set (gel_references e)" and "\<not> ref_includes rooms r"
  shows "\<exists>e'. removeReference e r = Inr e' \<and> length (gel_references e') < length (gel_references e) \<and>
    mset (gel_references e') \<subseteq># mset (gel_references e) \<and>
    filter (ref_includes rooms) (gel_references e') = filter (ref_includes rooms) (gel_references e)"
proof -
  obtain i where i: "i < length (gel_references e)" "indexOfRef (gel_references e) r = Some i"
    "same_ref (gel_references e ! i) r"
    using indexOfRef_found [OF assms(1)] by blast
  have "\<not> ref_includes rooms (gel_references e ! i)" using i(3) assms(2) ref_includes_same by blast
  then have "filter (ref_includes rooms) (removeAt i (gel_references e)) =
      filter (ref_includes rooms) (gel_references e)"
    unfolding removeAt_def by (subst (3) id_take_nth_drop [OF i(1)]) simp
  moreover have "mset (removeAt i (gel_references e)) \<subseteq># mset (gel_references e)"
    by (subst mset_removeAt [OF i(1), symmetric]) simp
  ultimately show ?thesis using i length_removeAt [OF i(1)] by (auto simp: removeReference_def)
qed

lemma forEach_remove_keeps:
  "\<exists>e'. forEach_remove rooms n k e = Inr e' \<and> mset (gel_references e') \<subseteq># mset (gel_references e) \<and>
     filter (ref_includes rooms) (gel_references e') = filter (ref_includes rooms) (gel_references e)"
proof (induction n arbitrary: k e)
  case (Suc n)
  show ?case
  proof (cases "k < length (gel_references e) \<and> \<not> ref_includes rooms (gel_references e ! k)")
    case True
    then have "gel_references e ! k \<in> set (gel_references e)" by simp
    from removeReference_stale [OF this] True obtain e1 where
      e1: "removeReference e (gel_references e ! k) = Inr e1" "mset (gel_references e1) \<subseteq># mset (gel_references e)"
        "filter (ref_includes rooms) (gel_references e1) = filter (ref_includes rooms) (gel_references e)"
      by blast
    from Suc.IH [of "Suc k" e1] True e1 show ?thesis
      by (auto intro: subset_mset.order_trans)
  qed (use Suc.IH [of "Suc k" e] in \<open>auto simp: Let_def\<close>)
qed simp

lemma forEach_remove_single:
  assumes "length (gel_references e) \<le> 1" and "forEach_remove rooms (length (gel_references e)) 0 e = Inr e'"
  shows "\<forall>r \<in> set (gel_references e'). ref_includes rooms r"
proof (cases "gel_references e")
  case (Cons r rs)
  then show ?thesis using assms removeReference_stale [of r e rooms]
    by (auto split: if_splits)
qed (use assms in auto)

lemma rooms_of_set_get: "map_get g k = Some e \<Longrightarrow> map_get (map_set g k e') k' = (if k' = k then Some e' else map_get g k')"
  by (simp add: map_get_set)

text \<open>The walk over the grid: \<open>ks\<close> are the keys not visited yet.\<close>

lemma remove_rooms_at_keeps:
  assumes "map_ok g" and "distinct ks" and "\<forall>k \<in> set ks. map_get g k \<noteq> None"
  shows "\<exists>g'. remove_rooms_at rooms ks g = Inr g' \<and> map_ok g' \<and>
    filter_mset (ref_includes rooms) (rooms_of g') = filter_mset (ref_includes rooms) (rooms_of g) \<and>
    (\<forall>k. k \<notin> set ks \<longrightarrow> map_get g' k = map_get g k) \<and>
    (\<forall>k \<in> set ks. \<forall>e e'. map_get g k = Some e \<longrightarrow> map_get g' k = Some e' \<longrightarrow>
       forEach_remove rooms (length (gel_references e)) 0 e = Inr e')"
  using assms
proof (induction ks arbitrary: g)
  case (Cons k ks)
  then obtain e where e: "map_get g k = Some e" by auto
  obtain e1 where e1: "forEach_remove rooms (length (gel_references e)) 0 e = Inr e1"
    and keep: "filter (ref_includes rooms) (gel_references e1) = filter (ref_includes rooms) (gel_references e)"
    using forEach_remove_keeps [of rooms "length (gel_references e)" 0 e] by blast
  define g1 where "g1 = map_set g k e1"
  define g2 where "g2 = (if length (gel_references e1) = 0 then map_delete g1 k else g1)"
  have ok: "map_ok g1" "map_ok g2"
    using Cons.prems(1) grid_map.put_ok [of g] grid_map.del_ok [of g1] by (simp_all add: g1_def g2_def)
  have g1k: "map_get g1 k = Some e1" by (simp add: g1_def)
  have get2: "map_get g2 k' = map_get g k'" if "k' \<noteq> k" for k'
    using that by (simp add: g2_def g1_def map_get_set map_get_delete)
  have "filter_mset (ref_includes rooms) (rooms_of g1) = filter_mset (ref_includes rooms) (rooms_of g)"
    using arg_cong [OF rooms_of_set [OF e, of e1], of "filter_mset (ref_includes rooms)"]
      arg_cong [OF keep, of mset] by (simp add: g1_def)
  moreover have "rooms_of g2 = rooms_of g1"
    using rooms_of_delete [OF ok(1) g1k] by (auto simp: g2_def)
  ultimately have r2: "filter_mset (ref_includes rooms) (rooms_of g2) = filter_mset (ref_includes rooms) (rooms_of g)"
    by simp
  have "\<forall>k' \<in> set ks. map_get g2 k' \<noteq> None"
    using Cons.prems(2,3) get2 by (metis distinct.simps(2) list.set_intros(2))
  from Cons.IH [OF ok(2) _ this] Cons.prems(2) obtain g' where
    g': "remove_rooms_at rooms ks g2 = Inr g'" "map_ok g'"
      "filter_mset (ref_includes rooms) (rooms_of g') = filter_mset (ref_includes rooms) (rooms_of g2)"
      "\<forall>k'. k' \<notin> set ks \<longrightarrow> map_get g' k' = map_get g2 k'"
      "\<forall>k' \<in> set ks. \<forall>e e'. map_get g2 k' = Some e \<longrightarrow> map_get g' k' = Some e' \<longrightarrow>
         forEach_remove rooms (length (gel_references e)) 0 e = Inr e'" by auto
  have "remove_rooms_at rooms (k # ks) g = Inr g'"
    using g'(1) by (auto simp: e e1 Let_def g1_def [symmetric] g2_def split: if_splits)
  moreover have "\<forall>k'. k' \<notin> set (k # ks) \<longrightarrow> map_get g' k' = map_get g k'"
    using g'(4) get2 by simp
  moreover have "forEach_remove rooms (length (gel_references a)) 0 a = Inr a'"
    if "k' \<in> set (k # ks)" "map_get g k' = Some a" "map_get g' k' = Some a'" for k' a a'
  proof (cases "k' = k")
    case True
    have "map_get g' k = map_get g2 k" using g'(4) Cons.prems(2) by simp
    then show ?thesis using that True e e1 g1k by (auto simp: g2_def split: if_splits)
  next
    case False
    then show ?thesis using that g'(5) get2 by auto
  qed
  ultimately show ?case using g'(2,3) r2 by auto
qed simp

subsection \<open>Adding\<close>

lemma first_open_free: "map_get g (first_open g i) = None"
  by (induction g i rule: first_open.induct) (subst first_open.simps, simp)

lemma addRoom_rooms:
  "rooms_of (dsh_grid (addRoom d c)) = add_mset (Some c) (rooms_of (dsh_grid d))"
  "map_ok (dsh_grid d) \<Longrightarrow> map_ok (dsh_grid (addRoom d c))"
  by (simp_all add: addRoom_def Let_def getFirstOpenIndex_def rooms_of_set_new first_open_free
      grid_map.put_ok)

lemma add_rooms:
  "rooms_of (dsh_grid (fold (\<lambda>c a. addRoom a c) cs d)) = rooms_of (dsh_grid d) + mset (map Some cs)"
  "map_ok (dsh_grid d) \<Longrightarrow> map_ok (dsh_grid (fold (\<lambda>c a. addRoom a c) cs d))"
  by (induction cs arbitrary: d) (simp_all add: addRoom_rooms)

text \<open>Bringing the courses of a user onto the dashboard always succeeds. Afterwards every course
  of the list is there, the arranged ones that are still in the list are there as often as before,
  and only courses that were missing have been added.\<close>

theorem setLearnRooms_complete:
  assumes "map_ok (dsh_grid d)"
  shows "\<exists>d' new. setLearnRooms d rooms = Inr d' \<and> map_ok (dsh_grid d') \<and>
    (\<forall>c \<in> set rooms. \<exists>r \<in> set (allRooms d'). same_ref (Some c) r) \<and>
    filter_mset (ref_includes rooms) (mset (allRooms d')) =
      filter_mset (ref_includes rooms) (mset (allRooms d)) + mset (map Some new) \<and>
    new = filter (\<lambda>c. \<not> list_ex (same_ref (Some c)) (filter (ref_includes rooms) (allRooms d))) rooms"
proof -
  have "\<forall>k \<in> set (map_keys (dsh_grid d)). map_get (dsh_grid d) k \<noteq> None"
    by (simp add: grid_map.in_keys)
  from remove_rooms_at_keeps [OF assms grid_map.ok_distinct [OF assms] this, of rooms] obtain g where
    g: "remove_rooms_at rooms (map_keys (dsh_grid d)) (dsh_grid d) = Inr g" "map_ok g"
      "filter_mset (ref_includes rooms) (rooms_of g) = filter_mset (ref_includes rooms) (rooms_of (dsh_grid d))"
    by blast
  define d1 where "d1 = d\<lparr>dsh_grid := g\<rparr>"
  define new where "new = determineNewRoomsIn d1 rooms"
  define d' where "d' = fold (\<lambda>c a. addRoom a c) new d1"
  have all1: "mset (allRooms d1) = rooms_of g" by (simp add: rooms_of_allRooms d1_def)
  have all': "mset (allRooms d') = rooms_of g + mset (map Some new)"
    by (simp add: rooms_of_allRooms d'_def add_rooms d1_def)
  have inc: "ref_includes rooms (Some c)" if "c \<in> set rooms" for c
    using that same_ref_refl unfolding ref_includes_def list_ex_iff by blast
  have "setLearnRooms d rooms = Inr d'"
    by (simp add: setLearnRooms_def removeRoomsNotInList_def g(1) d'_def d1_def new_def)
  moreover have "map_ok (dsh_grid d')" using g(2) by (simp add: d'_def add_rooms d1_def)
  moreover have "\<exists>r \<in> set (allRooms d'). same_ref (Some c) r" if c: "c \<in> set rooms" for c
  proof (cases "c \<in> set new")
    case True
    then have "Some c \<in> set (allRooms d')"
      using arg_cong [OF all', of set_mset] by simp
    then show ?thesis by force
  next
    case False
    then obtain r where "r \<in> set (allRooms d1)" "same_ref (Some c) r"
      using c by (auto simp: new_def determineNewRoomsIn_def list_ex_iff Let_def)
    moreover have "set (allRooms d1) \<subseteq> set (allRooms d')"
      using arg_cong [OF all', of set_mset] arg_cong [OF all1, of set_mset] by auto
    ultimately show ?thesis by blast
  qed
  moreover have "filter_mset (ref_includes rooms) (mset (allRooms d')) =
      filter_mset (ref_includes rooms) (mset (allRooms d)) + mset (map Some new)"
  proof -
    have "\<forall>r \<in># mset (map Some new). ref_includes rooms r"
      using inc by (auto simp: new_def determineNewRoomsIn_def Let_def)
    then have "filter_mset (ref_includes rooms) (mset (map Some new)) = mset (map Some new)"
      by (simp add: filter_mset_eq_conv)
    then show ?thesis using g(3) unfolding all' rooms_of_allRooms [of d] by simp
  qed
  moreover have "new = filter (\<lambda>c. \<not> list_ex (same_ref (Some c)) (filter (ref_includes rooms) (allRooms d))) rooms"
  proof -
    have S: "set (filter (ref_includes rooms) (allRooms d1)) = set (filter (ref_includes rooms) (allRooms d))"
      using arg_cong [OF g(3), of set_mset] all1 by (simp add: rooms_of_allRooms flip: set_mset_mset)
    have "list_ex (same_ref (Some c)) (allRooms d1) =
        list_ex (same_ref (Some c)) (filter (ref_includes rooms) (allRooms d))" if "c \<in> set rooms" for c
      using S inc [OF that] ref_includes_same [of "Some c" _ rooms]
      by (auto simp: list_ex_iff)
    then show ?thesis unfolding new_def determineNewRoomsIn_def Let_def
      by (auto intro: filter_cong)
  qed
  ultimately show ?thesis by blast
qed

theorem setLearnRooms_complete_witness:
  "\<exists>d'. setLearnRooms (ex_dashboard ex_grid) [ex_course] = Inr d' \<and>
     (\<exists>r \<in> set (allRooms d'). same_ref (Some ex_course) r)"
  using setLearnRooms_complete [of "ex_dashboard ex_grid" "[ex_course]"] by auto

text \<open>
  Two neighbours in a group that both left the list: the walk skips the second one, which stays on
  the dashboard.
\<close>

definition ex_second :: course where
  "ex_second = ex_course\<lparr>oid := 12, eid := ''c2''\<rparr>"

lemma ex_second_sel [simp]: "oid ex_second = 12" "crs_name ex_second = ''Maths''"
  by (simp_all add: ex_second_def)

lemma adjacent_stale_rooms_survive:
  "\<exists>d'. setLearnRooms (ex_dashboard [(0, FromGroup ''g'' [Some ex_course, Some ex_second])]) [] = Inr d' \<and>
     allRooms d' = [Some ex_second]"
  by (simp add: setLearnRooms_def removeRoomsNotInList_def map_keys_def map_get_def FromGroup_def
      new_GridElement_def sortReferences_def ref_includes_def removeReference_def same_ref_def
      removeAt_def Let_def determineNewRoomsIn_def allRooms_def map_values_def ex_dashboard_def)

section \<open>Who may move what\<close>

lemma checkIfMovedToSubstitute_Inr:
  "checkIfMovedToSubstitute pg e subs = Inr u \<Longrightarrow> Some c \<in> set (gel_references e) \<Longrightarrow>
     eid c \<notin> eid ` set subs"
  unfolding checkIfMovedToSubstitute_def bindR_eq_Inr
  by (force dest!: mapMR_each [of _ _ _ "Some c"]
      simp: bindR_eq_Inr metadata_def getMetadata_def guardR_eq_Inr list_ex_iff)

text \<open>A dashboard is rearranged by its owner only, and a course that the user has as a substitute
  teacher is never moved, nor is anything merged into an element with such a course.\<close>

theorem moveElementOnDashboard_guards:
  assumes "moveElementOnDashboard repos pg i p q uid = Inr d'"
  shows "\<exists>d subs e. dr_getDashboardById repos i = Inr d \<and> dsh_userId d = uid \<and>
    dr_findAllForSubstituteTeacher repos uid = Inr subs \<and> getReferencesFromPosition d p = Inr e \<and>
    (\<forall>c. Some c \<in> set (gel_references e) \<longrightarrow> eid c \<notin> eid ` set subs) \<and>
    (\<forall>t c. getElement d q = Inr t \<and> Some c \<in> set (gel_references t) \<longrightarrow> eid c \<notin> eid ` set subs)"
proof -
  from assms obtain d subs r where d: "dr_getDashboardById repos i = Inr d" "dsh_userId d = uid"
    "dr_findAllForSubstituteTeacher repos uid = Inr subs" and m: "moveElement pg d p q subs = Inr (d', r)"
    by (auto simp: moveElementOnDashboard_def bindR_eq_Inr validateUsersMatch_def guardR_eq_Inr)
  from m obtain e where e: "getReferencesFromPosition d p = Inr e"
    by (auto simp: moveElement_def bindR_eq_Inr)
  show ?thesis
  proof (cases "subs = []")
    case False
    from m False obtain j u where "checkIfMovedToSubstitute pg e subs = Inr u"
      and j: "gridIndexFromPosition d q = Inr j"
      and t: "\<And>t. map_get (dsh_grid d) j = Some t \<Longrightarrow> \<exists>u. checkIfMovedToSubstitute pg t subs = Inr u"
      by (auto simp: moveElement_def bindR_eq_Inr e split: option.splits)
    then have "\<forall>c. Some c \<in> set (gel_references e) \<longrightarrow> eid c \<notin> eid ` set subs"
      using checkIfMovedToSubstitute_Inr by blast
    moreover have "eid c \<notin> eid ` set subs"
      if "getElement d q = Inr a" "Some c \<in> set (gel_references a)" for a c
    proof -
      from that(1) j have "map_get (dsh_grid d) j = Some a"
        by (auto simp: getElement_def split: option.splits)
      from t [OF this] checkIfMovedToSubstitute_Inr that(2) show ?thesis by blast
    qed
    ultimately show ?thesis using d e by blast
  qed (use d e in simp)
qed

definition ex_dashboard_repos :: dashboard_repos where
  "ex_dashboard_repos = \<lparr>dr_getUsersDashboard = (\<lambda>_. Inr (ex_dashboard ex_grid)),
     dr_getDashboardById = (\<lambda>_. Inr (ex_dashboard ex_grid)), dr_persistAndFlush = (\<lambda>_. Inr ()),
     dr_user_findById = (\<lambda>_ _. Inr ex_student), dr_findAllForTeacher = (\<lambda>_. Inr []),
     dr_findAllByUserId = (\<lambda>_. Inr []), dr_findAllForSubstituteTeacher = (\<lambda>_. Inr [])\<rparr>"

theorem moveElementOnDashboard_guards_witness:
  "\<exists>d. dr_getDashboardById ex_dashboard_repos ''d'' = Inr d \<and> dsh_userId d = ''u'' \<and>
     (\<exists>d'. moveElementOnDashboard ex_dashboard_repos (\<lambda>_. False) ''d'' (ex_pos 0) (ex_pos 1) ''u'' = Inr d')"
proof -
  from ex_move obtain d' r where
    "moveElement (\<lambda>_. False) (ex_dashboard ex_grid) (ex_pos 0) (ex_pos 1) [] = Inr (d', r)" by blast
  then have m: "moveElementOnDashboard ex_dashboard_repos (\<lambda>_. False) ''d'' (ex_pos 0) (ex_pos 1) ''u'' = Inr d'"
    by (simp add: moveElementOnDashboard_def ex_dashboard_repos_def validateUsersMatch_def)
  from moveElementOnDashboard_guards [OF this] m show ?thesis by blast
qed

end
