(* ===== verification/Effects.thy ===== *)
theory Effects
  imports Prelude
begin

text \<open>
  Operations with effects: functions of a state that return a result and the new state, so that
  what was done before an exception stays done. Decimal numerals and \<^verbatim>\<open>path.parse\<close> of the
  standard library, as far as the code uses them, are at the end.
\<close>

type_synonym ('s, 'a) eff = "'s \<Rightarrow> 'a result \<times> 's"

definition retE :: "'a \<Rightarrow> ('s, 'a) eff" where
  "retE x s = (Inr x, s)"

definition throwE :: "exn \<Rightarrow> ('s, 'a) eff" where
  "throwE e s = (Inl e, s)"

definition liftE :: "'a result \<Rightarrow> ('s, 'a) eff" where
  "liftE r s = (r, s)"

text \<open>A query: it reads the state and leaves it.\<close>

definition queryE :: "('s \<Rightarrow> 'a result) \<Rightarrow> ('s, 'a) eff" where
  "queryE f s = (f s, s)"

definition modifyE :: "('s \<Rightarrow> 's) \<Rightarrow> ('s, unit) eff" where
  "modifyE f s = (Inr (), f s)"

definition bindE :: "('s, 'a) eff \<Rightarrow> ('a \<Rightarrow> ('s, 'b) eff) \<Rightarrow> ('s, 'b) eff" where
  "bindE m f s = (case m s of (Inl e, s') \<Rightarrow> (Inl e, s') | (Inr x, s') \<Rightarrow> f x s')"

text \<open>\<^verbatim>\<open>try { m } catch (e) { h }\<close>: the handler runs in the state that \<open>m\<close> left.\<close>

definition catchE :: "('s, 'a) eff \<Rightarrow> (exn \<Rightarrow> ('s, 'a) eff) \<Rightarrow> ('s, 'a) eff" where
  "catchE m h s = (case m s of (Inl e, s') \<Rightarrow> h e s' | (Inr x, s') \<Rightarrow> (Inr x, s'))"

primrec mapME :: "('a \<Rightarrow> ('s, 'b) eff) \<Rightarrow> 'a list \<Rightarrow> ('s, 'b list) eff" where
  "mapME f [] = retE []"
| "mapME f (x # xs) = bindE (f x) (\<lambda>y. bindE (mapME f xs) (\<lambda>ys. retE (y # ys)))"

named_theorems eff_simps \<open>running the operators of effectful programs\<close>

lemma eff_run [eff_simps]:
  "retE x s = (Inr x, s)"
  "throwE e s = (Inl e, s)"
  "liftE r s = (r, s)"
  "queryE f s = (f s, s)"
  "modifyE g s = (Inr (), g s)"
  by (simp_all add: retE_def throwE_def liftE_def queryE_def modifyE_def)

lemma bindE_Inr [eff_simps]: "m s = (Inr x, s') \<Longrightarrow> bindE m f s = f x s'"
  by (simp add: bindE_def)

lemma bindE_Inl [eff_simps]: "m s = (Inl e, s') \<Longrightarrow> bindE m f s = (Inl e, s')"
  by (simp add: bindE_def)

lemma catchE_Inr [eff_simps]: "m s = (Inr x, s') \<Longrightarrow> catchE m h s = (Inr x, s')"
  by (simp add: catchE_def)

lemma catchE_Inl [eff_simps]: "m s = (Inl e, s') \<Longrightarrow> catchE m h s = h e s'"
  by (simp add: catchE_def)

lemma bindE_eq_Inr:
  "bindE m f s = (Inr y, s'') \<longleftrightarrow> (\<exists>x s'. m s = (Inr x, s') \<and> f x s' = (Inr y, s''))"
  by (auto simp: bindE_def split: prod.split sum.split)

lemma bindE_eq_Inl:
  "bindE m f s = (Inl e, s'') \<longleftrightarrow>
     m s = (Inl e, s'') \<or> (\<exists>x s'. m s = (Inr x, s') \<and> f x s' = (Inl e, s''))"
  by (auto simp: bindE_def split: prod.split sum.split)

lemma catchE_eq_Inl:
  "catchE m h s = (Inl e, s'') \<longleftrightarrow> (\<exists>e' s'. m s = (Inl e', s') \<and> h e' s' = (Inl e, s''))"
  by (auto simp: catchE_def split: prod.split sum.split)

lemma catchE_eq_Inr:
  "catchE m h s = (Inr y, s'') \<longleftrightarrow>
     m s = (Inr y, s'') \<or> (\<exists>e' s'. m s = (Inl e', s') \<and> h e' s' = (Inr y, s''))"
  by (auto simp: catchE_def split: prod.split sum.split)

lemma bindE_liftE_Inr [simp]: "bindE (liftE (Inr x)) f = f x"
  by (simp add: fun_eq_iff bindE_def liftE_def)

lemma bindE_retE [simp]: "bindE (retE x) f = f x"
  by (simp add: fun_eq_iff bindE_def retE_def)

lemma bindE_liftE: "bindE (liftE r) f s = (case r of Inl e \<Rightarrow> (Inl e, s) | Inr x \<Rightarrow> f x s)"
  by (cases r) (simp_all add: bindE_def liftE_def)

lemma bindE_assoc: "bindE (bindE m f) g = bindE m (\<lambda>x. bindE (f x) g)"
  by (rule ext) (simp add: bindE_def split: prod.split sum.split)

text \<open>
  An operation that keeps an invariant of the state, whatever its outcome, and whose result, when it
  returns one, satisfies \<open>Q\<close>.
\<close>

definition runs :: "('s \<Rightarrow> bool) \<Rightarrow> ('s, 'a) eff \<Rightarrow> ('a \<Rightarrow> bool) \<Rightarrow> bool" where
  "runs I m Q \<longleftrightarrow> (\<forall>s. I s \<longrightarrow> I (snd (m s)) \<and> (\<forall>x. fst (m s) = Inr x \<longrightarrow> Q x))"

named_theorems runs_intros \<open>composition of operations that keep an invariant\<close>

lemma runsI: "(\<And>s. I s \<Longrightarrow> I (snd (m s)) \<and> (\<forall>x. fst (m s) = Inr x \<longrightarrow> Q x)) \<Longrightarrow> runs I m Q"
  by (simp add: runs_def)

lemma runsD: "runs I m Q \<Longrightarrow> I s \<Longrightarrow> I (snd (m s))"
  by (simp add: runs_def)

lemma runs_weaken: "runs I m Q \<Longrightarrow> (\<And>x. Q x \<Longrightarrow> R x) \<Longrightarrow> runs I m R"
  by (simp add: runs_def)

lemma runs_ret [runs_intros]: "Q x \<Longrightarrow> runs I (retE x) Q" "runs I (throwE e) Q"
  by (simp_all add: runs_def retE_def throwE_def)

lemma runs_lift: "(\<And>x. r = Inr x \<Longrightarrow> Q x) \<Longrightarrow> runs I (liftE r) Q"
  by (simp add: runs_def liftE_def)

lemma runs_bind:
  assumes "runs I m Q" and "\<And>x. Q x \<Longrightarrow> runs I (f x) R"
  shows "runs I (bindE m f) R"
  unfolding runs_def
proof (intro allI impI)
  fix s assume "I s"
  with assms(1) have m: "I (snd (m s))" "\<And>x. fst (m s) = Inr x \<Longrightarrow> Q x" by (simp_all add: runs_def)
  show "I (snd (bindE m f s)) \<and> (\<forall>x. fst (bindE m f s) = Inr x \<longrightarrow> R x)"
    using m assms(2) by (cases "m s") (auto simp: bindE_def runs_def split: sum.split)
qed

lemma runs_catch:
  assumes "runs I m Q" and "\<And>e. runs I (h e) Q"
  shows "runs I (catchE m h) Q"
  unfolding runs_def
proof (intro allI impI)
  fix s assume "I s"
  with assms(1) have m: "I (snd (m s))" "\<And>x. fst (m s) = Inr x \<Longrightarrow> Q x" by (simp_all add: runs_def)
  show "I (snd (catchE m h s)) \<and> (\<forall>x. fst (catchE m h s) = Inr x \<longrightarrow> Q x)"
    using m assms(2) by (cases "m s") (auto simp: catchE_def runs_def split: sum.split)
qed

lemma runs_mapME:
  assumes "\<And>x. x \<in> set xs \<Longrightarrow> runs I (f x) Q"
  shows "runs I (mapME f xs) (list_all Q)"
  using assms
  by (induction xs) (auto intro!: runs_ret runs_bind [of I _ Q] runs_bind [of I _ "list_all Q"])

lemma runs_True: "runs I m Q \<Longrightarrow> runs I m (\<lambda>_. True)"
  by (simp add: runs_def)

lemma runs_trivial: "runs (\<lambda>_. True) m (\<lambda>_. True)"
  by (simp add: runs_def)

lemma runs_query: "(\<And>s x. I s \<Longrightarrow> f s = Inr x \<Longrightarrow> Q x) \<Longrightarrow> runs I (queryE f) Q"
  by (simp add: runs_def queryE_def)

lemma runs_modify: "(\<And>s. I s \<Longrightarrow> I (f s)) \<Longrightarrow> Q () \<Longrightarrow> runs I (modifyE f) Q"
  by (simp add: runs_def modifyE_def)

text \<open>An operation that leaves the state as it is.\<close>

definition pureE :: "('s, 'a) eff \<Rightarrow> bool" where
  "pureE m \<longleftrightarrow> (\<forall>s. snd (m s) = s)"

lemma pureE_basic [simp]:
  "pureE (retE x)" "pureE (throwE e)" "pureE (liftE r)" "pureE (queryE f)"
  by (simp_all add: pureE_def retE_def throwE_def liftE_def queryE_def)

lemma pureE_bind: "pureE m \<Longrightarrow> (\<And>x. pureE (f x)) \<Longrightarrow> pureE (bindE m f)"
  by (simp add: pureE_def bindE_def split: prod.split sum.split) (metis snd_conv)

lemma pureE_catch: "pureE m \<Longrightarrow> (\<And>e. pureE (h e)) \<Longrightarrow> pureE (catchE m h)"
  by (simp add: pureE_def catchE_def split: prod.split sum.split) (metis snd_conv)

lemma pureE_mapME: "(\<And>x. pureE (f x)) \<Longrightarrow> pureE (mapME f xs)"
  by (induction xs) (auto intro!: pureE_bind)

lemma pureE_state: "pureE m \<Longrightarrow> m s = (r, s') \<Longrightarrow> s' = s"
  by (metis pureE_def snd_conv)

text \<open>A change under a query needs its success.\<close>

lemma change_after_pure:
  "pureE m \<Longrightarrow> snd (bindE m f s) \<noteq> s \<longleftrightarrow> (\<exists>x. m s = (Inr x, s) \<and> snd (f x s) \<noteq> s)"
  by (cases "m s") (auto simp: bindE_def pureE_def split: sum.split dest: spec [of _ s])

lemma change_step:
  "pureE m \<Longrightarrow> snd (bindE m f s) \<noteq> s \<Longrightarrow> \<exists>x. m s = (Inr x, s) \<and> bindE m f s = f x s \<and> snd (f x s) \<noteq> s"
  by (cases "m s") (auto simp: bindE_def pureE_def split: sum.splits dest: spec [of _ s])

text \<open>An operation that keeps a part of the state.\<close>

definition keepsE :: "('s \<Rightarrow> 'v) \<Rightarrow> ('s, 'a) eff \<Rightarrow> bool" where
  "keepsE v m \<longleftrightarrow> (\<forall>s. v (snd (m s)) = v s)"

lemma keepsE_pure: "pureE m \<Longrightarrow> keepsE v m"
  by (simp add: keepsE_def pureE_def)

lemma keepsE_basic [simp]: "keepsE v (retE x)" "keepsE v (throwE e)" "keepsE v (liftE r)" "keepsE v (queryE f)"
  by (simp_all add: keepsE_pure)

lemma keepsE_modify: "(\<And>s. v (f s) = v s) \<Longrightarrow> keepsE v (modifyE f)"
  by (simp add: keepsE_def modifyE_def)

lemma keepsE_bind: "keepsE v m \<Longrightarrow> (\<And>x. keepsE v (f x)) \<Longrightarrow> keepsE v (bindE m f)"
  by (simp add: keepsE_def bindE_def split: prod.split sum.split) (metis snd_conv)

text \<open>The same, with what is known of the result.\<close>

lemma keepsE_bind_result:
  assumes "keepsE v m" and "runs (\<lambda>_. True) m Q" and "\<And>x. Q x \<Longrightarrow> keepsE v (f x)"
  shows "keepsE v (bindE m f)"
  unfolding keepsE_def
proof
  fix s
  show "v (snd (bindE m f s)) = v s"
    using assms by (cases "m s") (auto simp: bindE_def keepsE_def runs_def split: sum.split dest!: spec [of _ s])
qed

lemma keepsE_catch: "keepsE v m \<Longrightarrow> (\<And>e. keepsE v (h e)) \<Longrightarrow> keepsE v (catchE m h)"
  by (simp add: keepsE_def catchE_def split: prod.split sum.split) (metis snd_conv)

lemma keepsE_mapME: "(\<And>x. keepsE v (f x)) \<Longrightarrow> keepsE v (mapME f xs)"
  by (induction xs) (auto intro!: keepsE_bind)

lemma keepsE_D: "keepsE v m \<Longrightarrow> m s = (r, s') \<Longrightarrow> v s' = v s"
  by (metis keepsE_def snd_conv)

text \<open>A part that is changed behind a query needs its success.\<close>

lemma part_changed_after_pure:
  assumes "pureE m" and "v (snd (bindE m f s)) \<noteq> v s"
  shows "\<exists>x. m s = (Inr x, s) \<and> v (snd (f x s)) \<noteq> v s"
  using assms by (cases "m s") (auto simp: bindE_def pureE_def split: sum.splits dest: spec [of _ s])

text \<open>A run from \<open>s\<close> that changes the state ends where \<open>P\<close> holds.\<close>

definition changes :: "'s \<Rightarrow> ('s \<Rightarrow> bool) \<Rightarrow> ('s, 'a) eff \<Rightarrow> bool" where
  "changes s P m \<longleftrightarrow> (snd (m s) \<noteq> s \<longrightarrow> P (snd (m s)))"

lemma changes_pure: "pureE m \<Longrightarrow> changes s P m"
  by (simp add: changes_def pureE_def)

lemma changes_basic [simp]: "changes s P (retE x)" "changes s P (throwE e)" "changes s P (liftE r)"
  by (simp_all add: changes_pure)

lemma changes_bind:
  "pureE m \<Longrightarrow> (\<And>x. m s = (Inr x, s) \<Longrightarrow> changes s P (f x)) \<Longrightarrow> changes s P (bindE m f)"
  unfolding changes_def by (metis change_step)

lemma changes_after_lift: "(\<And>x. r = Inr x \<Longrightarrow> changes s P (f x)) \<Longrightarrow> changes s P (bindE (liftE r) f)"
  by (rule changes_bind) (simp_all add: liftE_def)

lemma changes_if:
  "(c \<Longrightarrow> changes s P m) \<Longrightarrow> (\<not> c \<Longrightarrow> changes s P n) \<Longrightarrow> changes s P (if c then m else n)"
  by simp

lemma changes_keeps: "keepsE v m \<Longrightarrow> (\<And>s'. v s' = v s \<Longrightarrow> P s') \<Longrightarrow> changes s P m"
  by (simp add: changes_def keepsE_def)

lemma changes_end: "changes s P m \<Longrightarrow> changes s P (bindE m (\<lambda>_. retE x))"
  by (cases "m s") (auto simp: changes_def bindE_def retE_def split: sum.split)

lemma changes_then_pure: "changes s P m \<Longrightarrow> (\<And>x. pureE (f x)) \<Longrightarrow> changes s P (bindE m f)"
  by (cases "m s") (auto simp: changes_def bindE_def pureE_def split: sum.split)

text \<open>A run from \<open>s\<close> that succeeds or changes anything needs \<open>P\<close>.\<close>

definition gated :: "'s \<Rightarrow> bool \<Rightarrow> ('s, 'a) eff \<Rightarrow> bool" where
  "gated s P m \<longleftrightarrow> (snd (m s) \<noteq> s \<or> (\<exists>x. fst (m s) = Inr x) \<longrightarrow> P)"

lemma gated_true: "P \<Longrightarrow> gated s P m"
  by (simp add: gated_def)

lemma gated_throw: "gated s P (throwE e)"
  by (simp add: gated_def throwE_def)

lemma gated_pure: "pureE m \<Longrightarrow> (\<And>x. m s = (Inr x, s) \<Longrightarrow> gated s P (f x)) \<Longrightarrow> gated s P (bindE m f)"
  by (cases "m s") (auto simp: gated_def bindE_def pureE_def split: sum.splits dest: spec [of _ s])

lemma gated_lift: "(\<And>x. r = Inr x \<Longrightarrow> gated s P (f x)) \<Longrightarrow> gated s P (bindE (liftE r) f)"
  by (rule gated_pure) (simp_all add: liftE_def)

lemma gated_first: "gated s P m \<Longrightarrow> gated s P (bindE m f)"
  by (cases "m s") (auto simp: gated_def bindE_def split: sum.splits)

lemmas changes_intros = changes_bind changes_after_lift changes_if changes_basic

text \<open>What a run from \<open>s\<close> that returns ends with.\<close>

definition ensures :: "'s \<Rightarrow> ('a \<Rightarrow> 's \<Rightarrow> bool) \<Rightarrow> ('s, 'a) eff \<Rightarrow> bool" where
  "ensures s P m \<longleftrightarrow> (\<forall>x s'. m s = (Inr x, s') \<longrightarrow> P x s')"

lemma ensuresD: "ensures s P m \<Longrightarrow> m s = (Inr x, s') \<Longrightarrow> P x s'"
  by (simp add: ensures_def)

lemma ensures_bind: "(\<And>x s'. m s = (Inr x, s') \<Longrightarrow> ensures s' P (f x)) \<Longrightarrow> ensures s P (bindE m f)"
  by (auto simp: ensures_def bindE_eq_Inr)

lemma ensures_pure: "pureE m \<Longrightarrow> (\<And>x. m s = (Inr x, s) \<Longrightarrow> ensures s P (f x)) \<Longrightarrow> ensures s P (bindE m f)"
  by (auto intro!: ensures_bind dest: pureE_state)

lemma ensures_lift: "(\<And>x. r = Inr x \<Longrightarrow> ensures s P (f x)) \<Longrightarrow> ensures s P (bindE (liftE r) f)"
  by (rule ensures_bind) (auto simp: liftE_def)

lemma ensures_if: "(c \<Longrightarrow> ensures s P m) \<Longrightarrow> (\<not> c \<Longrightarrow> ensures s P n) \<Longrightarrow> ensures s P (if c then m else n)"
  by simp

lemma ensures_basic [simp]: "ensures s P (retE x) \<longleftrightarrow> P x s" "ensures s P (throwE e)"
  by (simp_all add: ensures_def retE_def throwE_def)

section \<open>Decimal numerals\<close>

definition digit :: "nat \<Rightarrow> char" where
  "digit n = char_of (48 + n)"

fun nat_string :: "nat \<Rightarrow> string" where
  "nat_string n = (if n < 10 then [digit n] else nat_string (n div 10) @ [digit (n mod 10)])"

declare nat_string.simps [simp del]

definition string_nat :: "string \<Rightarrow> nat" where
  "string_nat s = foldl (\<lambda>a c. 10 * a + (of_char c - 48)) 0 s"

lemma of_char_digit: "n < 10 \<Longrightarrow> of_char (digit n) - 48 = n"
  by (simp add: digit_def of_char_of take_bit_eq_mod)

lemma string_nat_nat_string [simp]: "string_nat (nat_string n) = n"
proof (induction n rule: nat_string.induct)
  case (1 n)
  show ?case
  proof (cases "n < 10")
    case True
    then show ?thesis by (simp add: nat_string.simps [of n] string_nat_def of_char_digit)
  next
    case False
    then show ?thesis using 1
      by (simp add: nat_string.simps [of n] string_nat_def of_char_digit)
  qed
qed

lemma nat_string_inject [simp]: "nat_string m = nat_string n \<longleftrightarrow> m = n"
  by (metis string_nat_nat_string)

text \<open>\<^verbatim>\<open>`${n}`\<close> of a whole number.\<close>

definition int_string :: "int \<Rightarrow> string" where
  "int_string n = (if n < 0 then CHR ''-'' # nat_string (nat (- n)) else nat_string (nat n))"

section \<open>Paths\<close>

text \<open>\<^verbatim>\<open>path.parse(s).base\<close>: what follows the last slash, trailing slashes dropped.\<close>

definition path_base :: "string \<Rightarrow> string" where
  "path_base s = rev (takeWhile (\<lambda>c. c \<noteq> CHR ''/'') (dropWhile (\<lambda>c. c = CHR ''/'') (rev s)))"

text \<open>
  Name and extension: the extension starts at the last dot, unless that is the first character of
  the base or the base is \<^verbatim>\<open>..\<close>.
\<close>

definition path_split :: "string \<Rightarrow> string \<times> string" where
  "path_split s =
     (let base = path_base s
      in case dropWhile (\<lambda>c. c \<noteq> CHR ''.'') (rev base) of
           [] \<Rightarrow> (base, [])
         | [_] \<Rightarrow> (base, [])
         | _ # pre \<Rightarrow>
             if base = ''..'' then (base, [])
             else (rev pre, rev (takeWhile (\<lambda>c. c \<noteq> CHR ''.'') (rev base) @ ''.'')))"

definition path_name :: "string \<Rightarrow> string" where
  "path_name s = fst (path_split s)"

definition path_ext :: "string \<Rightarrow> string" where
  "path_ext s = snd (path_split s)"

lemma path_examples:
  "path_split ''a.b.txt'' = (''a.b'', ''.txt'')" "path_split ''.profile'' = (''.profile'', [])"
  "path_split ''dir/x.'' = (''x'', ''.'')" "path_split ''..'' = (''..'', [])"
  by (simp_all add: path_split_def path_base_def)

end
