(* ===== verification/FilesStorage.thy ===== *)
theory FilesStorage
  imports Effects JsMap Authorization "HOL-Library.Product_Lexorder"
begin

text \<open>
  File records and the files storage service (\<^verbatim>\<open>modules/files-storage\<close>): the entity, the helpers,
  the repository with its scope, the storage client, the service and the use cases.

  The state is the collection of file records, the bucket of the object storage and the scan
  requests published so far. Every call to the database, the storage and the message broker is
  counted, and the environment says which of them fail; a failing call has no effect.
\<close>

section \<open>The entity\<close>

datatype ScanStatus = PENDING | VERIFIED | BLOCKED | SCAN_ERROR

datatype FileRecordParentType =
    Parent_User | Parent_School | Parent_Course | Parent_Task | Parent_Lesson | Parent_Submission

record FileSecurityCheck =
  fsc_status :: ScanStatus
  fsc_reason :: string
  fsc_requestToken :: "string option"
  fsc_createdAt :: date
  fsc_updatedAt :: date

record IFileSecurityCheckProperties =
  ifsc_status :: "ScanStatus option"
  ifsc_reason :: "string option"
  ifsc_requestToken :: "string option"

definition new_FileSecurityCheck ::
  "date \<Rightarrow> string \<Rightarrow> IFileSecurityCheckProperties \<Rightarrow> FileSecurityCheck" where
  "new_FileSecurityCheck now uuid props =
     \<lparr>fsc_status = nullish (ifsc_status props) PENDING,
      fsc_reason = nullish (ifsc_reason props) ''not yet scanned'',
      fsc_requestToken = (case ifsc_requestToken props of None \<Rightarrow> Some uuid | Some t \<Rightarrow> Some t),
      fsc_createdAt = now, fsc_updatedAt = now\<rparr>"

record IFileRecordProperties =
  frp_size :: nat
  frp_name :: string
  frp_mimeType :: string
  frp_parentType :: FileRecordParentType
  frp_parentId :: EntityId
  frp_creatorId :: EntityId
  frp_schoolId :: EntityId
  frp_deletedSince :: "date option"
  frp_isCopyFrom :: "EntityId option"

record IParentInfo =
  pi_schoolId :: EntityId
  pi_parentId :: EntityId
  pi_parentType :: FileRecordParentType

text \<open>The id is empty until the record is saved. Object ids are their hexadecimal strings.\<close>

record FileRecord =
  fr_id :: EntityId
  fr_createdAt :: date
  fr_deletedSince :: "date option"
  fr_size :: nat
  fr_name :: string
  fr_mimeType :: string
  fr_securityCheck :: FileSecurityCheck
  fr_parentType :: FileRecordParentType
  fr_parentId :: EntityId
  fr_creatorId :: EntityId
  fr_schoolId :: EntityId
  fr_isCopyFrom :: "EntityId option"

definition new_FileRecord :: "date \<Rightarrow> string \<Rightarrow> IFileRecordProperties \<Rightarrow> FileRecord" where
  "new_FileRecord now uuid props =
     \<lparr>fr_id = [], fr_createdAt = now, fr_deletedSince = frp_deletedSince props,
      fr_size = frp_size props, fr_name = frp_name props, fr_mimeType = frp_mimeType props,
      fr_securityCheck = new_FileSecurityCheck now uuid
        \<lparr>ifsc_status = None, ifsc_reason = None, ifsc_requestToken = None\<rparr>,
      fr_parentType = frp_parentType props, fr_parentId = frp_parentId props,
      fr_creatorId = frp_creatorId props, fr_schoolId = frp_schoolId props,
      fr_isCopyFrom = frp_isCopyFrom props\<rparr>"

definition updateSecurityCheckStatus :: "date \<Rightarrow> FileRecord \<Rightarrow> ScanStatus \<Rightarrow> string \<Rightarrow> FileRecord" where
  "updateSecurityCheckStatus now r status reason =
     r\<lparr>fr_securityCheck := (fr_securityCheck r)\<lparr>fsc_status := status, fsc_reason := reason,
         fsc_updatedAt := now, fsc_requestToken := None\<rparr>\<rparr>"

definition isBlocked :: "FileRecord \<Rightarrow> bool" where
  "isBlocked r \<longleftrightarrow> fsc_status (fr_securityCheck r) = BLOCKED"

definition isPending :: "FileRecord \<Rightarrow> bool" where
  "isPending r \<longleftrightarrow> fsc_status (fr_securityCheck r) = PENDING"

definition isVerified :: "FileRecord \<Rightarrow> bool" where
  "isVerified r \<longleftrightarrow> fsc_status (fr_securityCheck r) = VERIFIED"

definition FileRecord_copy :: "date \<Rightarrow> string \<Rightarrow> FileRecord \<Rightarrow> EntityId \<Rightarrow> IParentInfo \<Rightarrow> FileRecord" where
  "FileRecord_copy now uuid r userId targetParentInfo =
     (let fileRecordCopy = new_FileRecord now uuid
            \<lparr>frp_size = fr_size r, frp_name = fr_name r, frp_mimeType = fr_mimeType r,
             frp_parentType = pi_parentType targetParentInfo, frp_parentId = pi_parentId targetParentInfo,
             frp_creatorId = userId, frp_schoolId = pi_schoolId targetParentInfo,
             frp_deletedSince = None, frp_isCopyFrom = Some (fr_id r)\<rparr>
      in if isVerified r then fileRecordCopy\<lparr>fr_securityCheck := fr_securityCheck r\<rparr> else fileRecordCopy)"

definition FileRecord_markForDelete :: "date \<Rightarrow> FileRecord \<Rightarrow> FileRecord" where
  "FileRecord_markForDelete now r = r\<lparr>fr_deletedSince := Some now\<rparr>"

definition FileRecord_unmarkForDelete :: "FileRecord \<Rightarrow> FileRecord" where
  "FileRecord_unmarkForDelete r = r\<lparr>fr_deletedSince := None\<rparr>"

definition setName :: "FileRecord \<Rightarrow> string \<Rightarrow> FileRecord result" where
  "setName r name =
     (if length name = 0 then Inl (BadRequestException ''FILE_NAME_EMPTY'')
      else Inr (r\<lparr>fr_name := name\<rparr>))"

definition hasName :: "FileRecord \<Rightarrow> string \<Rightarrow> bool" where
  "hasName r name \<longleftrightarrow> fr_name r = name"

definition getParentInfo :: "FileRecord \<Rightarrow> IParentInfo" where
  "getParentInfo r =
     \<lparr>pi_schoolId = fr_schoolId r, pi_parentId = fr_parentId r, pi_parentType = fr_parentType r\<rparr>"

section \<open>Helpers\<close>

definition hasDuplicateName :: "FileRecord list \<Rightarrow> string \<Rightarrow> FileRecord option" where
  "hasDuplicateName fileRecords name = List.find (\<lambda>item. hasName item name) fileRecords"

text \<open>The names the loop tries: the given one, then with a counter before the extension.\<close>

definition candidate :: "string \<Rightarrow> nat \<Rightarrow> string" where
  "candidate filename counter =
     (if counter = 0 then filename
      else path_name filename @ '' ('' @ nat_string counter @ '')'' @ path_ext filename)"

lemma hasDuplicateName_iff: "hasDuplicateName rs n \<noteq> None \<longleftrightarrow> n \<in> fr_name ` set rs"
  by (auto simp: hasDuplicateName_def find_eq_None hasName_def image_iff)

lemma candidate_inject: "candidate f (Suc m) = candidate f (Suc n) \<longleftrightarrow> m = n"
  by (simp add: candidate_def)

lemma finite_candidates: "finite {c. i \<le> c \<and> candidate f c \<in> fr_name ` set rs}"
proof (rule finite_subset)
  show "{c. i \<le> c \<and> candidate f c \<in> fr_name ` set rs} \<subseteq>
      insert 0 (Suc ` {c. candidate f (Suc c) \<in> fr_name ` set rs})"
  proof
    fix c assume "c \<in> {c. i \<le> c \<and> candidate f c \<in> fr_name ` set rs}"
    then show "c \<in> insert 0 (Suc ` {c. candidate f (Suc c) \<in> fr_name ` set rs})"
      by (cases c) auto
  qed
  have "finite ((\<lambda>c. candidate f (Suc c)) -` (fr_name ` set rs))"
    by (rule finite_vimageI) (auto simp: inj_def candidate_inject)
  then show "finite (insert 0 (Suc ` {c. candidate f (Suc c) \<in> fr_name ` set rs}))"
    by (simp add: vimage_def)
qed

function resolve_loop :: "string \<Rightarrow> FileRecord list \<Rightarrow> nat \<Rightarrow> string" where
  "resolve_loop filename fileRecords counter =
     (let newFilename = candidate filename counter
      in if hasDuplicateName fileRecords newFilename \<noteq> None
         then resolve_loop filename fileRecords (counter + 1) else newFilename)"
  by pat_completeness auto

termination
proof (relation "measure (\<lambda>(f, rs, i). card {c. i \<le> c \<and> candidate f c \<in> fr_name ` set rs})")
  fix f rs i and n :: string
  assume "n = candidate f i" "hasDuplicateName rs n \<noteq> None"
  then have i: "i \<in> {c. i \<le> c \<and> candidate f c \<in> fr_name ` set rs}"
    using hasDuplicateName_iff [of rs "candidate f i"] by simp
  have "{c. i + 1 \<le> c \<and> candidate f c \<in> fr_name ` set rs} \<subseteq>
      {c. i \<le> c \<and> candidate f c \<in> fr_name ` set rs}"
    by (rule Collect_mono) simp
  moreover have "i \<notin> {c. i + 1 \<le> c \<and> candidate f c \<in> fr_name ` set rs}" by simp
  ultimately have "{c. i + 1 \<le> c \<and> candidate f c \<in> fr_name ` set rs} \<subset>
      {c. i \<le> c \<and> candidate f c \<in> fr_name ` set rs}" using i by blast
  then show "((f, rs, i + 1), f, rs, i) \<in>
      measure (\<lambda>(f, rs, i). card {c. i \<le> c \<and> candidate f c \<in> fr_name ` set rs})"
    unfolding in_measure prod.case by (intro psubset_card_mono finite_candidates)
qed (rule wf_measure)

declare resolve_loop.simps [simp del]

definition resolveFileNameDuplicates :: "string \<Rightarrow> FileRecord list \<Rightarrow> string" where
  "resolveFileNameDuplicates filename fileRecords = resolve_loop filename fileRecords 0"

definition markForDelete :: "date \<Rightarrow> FileRecord list \<Rightarrow> FileRecord list" where
  "markForDelete now fileRecords = map (FileRecord_markForDelete now) fileRecords"

definition unmarkForDelete :: "FileRecord list \<Rightarrow> FileRecord list" where
  "unmarkForDelete fileRecords = map FileRecord_unmarkForDelete fileRecords"

text \<open>\<^verbatim>\<open>FileRecordParams\<close> has the fields of \<^verbatim>\<open>IParentInfo\<close>.\<close>

type_synonym FileRecordParams = IParentInfo

definition createFileRecord ::
  "date \<Rightarrow> string \<Rightarrow> string \<Rightarrow> nat \<Rightarrow> string \<Rightarrow> FileRecordParams \<Rightarrow> EntityId \<Rightarrow> FileRecord" where
  "createFileRecord now uuid name fileSize mimeType params userId =
     new_FileRecord now uuid
       \<lparr>frp_size = fileSize, frp_name = name, frp_mimeType = mimeType,
        frp_parentType = pi_parentType params, frp_parentId = pi_parentId params,
        frp_creatorId = userId, frp_schoolId = pi_schoolId params, frp_deletedSince = None,
        frp_isCopyFrom = None\<rparr>"

definition createPath :: "EntityId \<Rightarrow> EntityId \<Rightarrow> string result" where
  "createPath schoolId fileRecordId =
     (if schoolId = [] \<or> fileRecordId = [] then Inl (PlainError ''COULD_NOT_CREATE_PATH'')
      else Inr (schoolId @ ''/'' @ fileRecordId))"

definition getPaths :: "FileRecord list \<Rightarrow> string list result" where
  "getPaths fileRecords = mapMR (\<lambda>fileRecord. createPath (fr_schoolId fileRecord) (fr_id fileRecord)) fileRecords"

record ICopyFiles =
  icf_sourcePath :: string
  icf_targetPath :: string

definition createICopyFiles :: "FileRecord \<Rightarrow> FileRecord \<Rightarrow> ICopyFiles result" where
  "createICopyFiles sourceFile targetFile =
     bindR (createPath (fr_schoolId sourceFile) (fr_id sourceFile)) (\<lambda>sourcePath.
     bindR (createPath (fr_schoolId targetFile) (fr_id targetFile)) (\<lambda>targetPath.
       Inr \<lparr>icf_sourcePath = sourcePath, icf_targetPath = targetPath\<rparr>))"

section \<open>Mappers\<close>

record ScanResultParams =
  srp_virus_detected :: "bool option"
  srp_virus_signature :: "string option"
  srp_error :: "string option"

record ScanResultDto =
  srd_status :: ScanStatus
  srd_reason :: string

definition mapScanResultParamsToDto :: "ScanResultParams \<Rightarrow> ScanResultDto" where
  "mapScanResultParamsToDto params =
     (if srp_virus_detected params = Some True
      then \<lparr>srd_status = BLOCKED, srd_reason = nullish (srp_virus_signature params) ''Virus detected''\<rparr>
      else if truthy (srp_error params)
      then \<lparr>srd_status = SCAN_ERROR, srd_reason = the (srp_error params)\<rparr>
      else if srp_virus_detected params = None \<or> srp_error params = Some []
      then \<lparr>srd_status = SCAN_ERROR, srd_reason = ''No scan result''\<rparr>
      else \<lparr>srd_status = VERIFIED, srd_reason = ''Clean''\<rparr>)"

definition mapToAllowedAuthorizationEntityType ::
  "FileRecordParentType \<Rightarrow> AllowedAuthorizationEntityType result" where
  "mapToAllowedAuthorizationEntityType ty =
     (let types = Map.empty (Parent_Task \<mapsto> Allowed_Task, Parent_Course \<mapsto> Allowed_Course,
            Parent_User \<mapsto> Allowed_User, Parent_School \<mapsto> Allowed_School,
            Parent_Lesson \<mapsto> Allowed_Lesson, Parent_Submission \<mapsto> Allowed_Submission)
      in case types ty of None \<Rightarrow> Inl (NotImplementedException []) | Some res \<Rightarrow> Inr res)"

record CopyFileResponse =
  cfr_id :: "EntityId option"
  cfr_sourceId :: EntityId
  cfr_name :: string

definition CopyFileResponseBuilder_build :: "EntityId \<Rightarrow> EntityId \<Rightarrow> string \<Rightarrow> CopyFileResponse" where
  "CopyFileResponseBuilder_build i sourceId name = \<lparr>cfr_id = Some i, cfr_sourceId = sourceId, cfr_name = name\<rparr>"

section \<open>State and environment\<close>

record fs_env =
  fe_now :: date
  fe_fault :: "nat \<Rightarrow> exn option"
  fe_newId :: "nat \<Rightarrow> EntityId"
  fe_uuid :: "nat \<Rightarrow> string"
  fe_maxFileSize :: nat
  fe_antivirus :: bool

record fs_state =
  fs_clock :: nat
  fs_fresh :: nat
  fs_records :: "(EntityId, FileRecord) js_map"
  fs_files :: "string \<Rightarrow> string option"
  fs_scans :: "string list"

text \<open>One call to something outside; \<open>act\<close> is what it does when it is not failing.\<close>

definition external ::
  "fs_env \<Rightarrow> (fs_state \<Rightarrow> 'a result \<times> fs_state) \<Rightarrow> (fs_state, 'a) eff" where
  "external env act s =
     (let s' = s\<lparr>fs_clock := Suc (fs_clock s)\<rparr>
      in case fe_fault env (fs_clock s) of Some e \<Rightarrow> (Inl e, s') | None \<Rightarrow> act s')"

definition fresh_uuid :: "fs_env \<Rightarrow> (fs_state, string) eff" where
  "fresh_uuid env s = (Inr (fe_uuid env (fs_fresh s)), s\<lparr>fs_fresh := Suc (fs_fresh s)\<rparr>)"

section \<open>The repository\<close>

text \<open>\<^verbatim>\<open>shared/repo/scope.ts\<close>: a list of queries with an operator; a query is its predicate.\<close>

datatype ScopeOperator = AndOp | OrOp

record 'a Scope =
  scope_queries :: "('a \<Rightarrow> bool) list"
  scope_operator :: ScopeOperator
  scope_allowEmptyQuery :: bool

definition new_Scope :: "ScopeOperator \<Rightarrow> 'a Scope" where
  "new_Scope operator = \<lparr>scope_queries = [], scope_operator = operator, scope_allowEmptyQuery = False\<rparr>"

definition scope_query :: "'a Scope \<Rightarrow> 'a \<Rightarrow> bool" where
  "scope_query sc x =
     (case scope_queries sc of
        [] \<Rightarrow> if scope_allowEmptyQuery sc then True else False
      | [q] \<Rightarrow> q x
      | qs \<Rightarrow> (case scope_operator sc of AndOp \<Rightarrow> list_all (\<lambda>q. q x) qs | OrOp \<Rightarrow> list_ex (\<lambda>q. q x) qs))"

definition addQuery :: "'a Scope \<Rightarrow> ('a \<Rightarrow> bool) \<Rightarrow> 'a Scope" where
  "addQuery sc q = sc\<lparr>scope_queries := scope_queries sc @ [q]\<rparr>"

definition allowEmptyQuery :: "'a Scope \<Rightarrow> bool \<Rightarrow> 'a Scope" where
  "allowEmptyQuery sc b = sc\<lparr>scope_allowEmptyQuery := b\<rparr>"

definition byParentId :: "EntityId \<Rightarrow> FileRecord Scope \<Rightarrow> FileRecord Scope" where
  "byParentId parentId sc = addQuery sc (\<lambda>r. fr_parentId r = parentId)"

definition byFileRecordId :: "EntityId \<Rightarrow> FileRecord Scope \<Rightarrow> FileRecord Scope" where
  "byFileRecordId fileRecordId sc = addQuery sc (\<lambda>r. fr_id r = fileRecordId)"

definition bySchoolId :: "EntityId \<Rightarrow> FileRecord Scope \<Rightarrow> FileRecord Scope" where
  "bySchoolId schoolId sc = addQuery sc (\<lambda>r. fr_schoolId r = schoolId)"

definition bySecurityCheckRequestToken :: "string \<Rightarrow> FileRecord Scope \<Rightarrow> FileRecord Scope" where
  "bySecurityCheckRequestToken token sc =
     addQuery sc (\<lambda>r. fsc_requestToken (fr_securityCheck r) = Some token)"

definition byMarkedForDelete :: "bool \<Rightarrow> FileRecord Scope \<Rightarrow> FileRecord Scope" where
  "byMarkedForDelete isMarked sc =
     addQuery sc (if isMarked then (\<lambda>r. fr_deletedSince r \<noteq> None) else (\<lambda>r. fr_deletedSince r = None))"

definition findOneOrFail :: "fs_env \<Rightarrow> FileRecord Scope \<Rightarrow> (fs_state, FileRecord) eff" where
  "findOneOrFail env scope =
     external env (\<lambda>s. (case List.find (scope_query scope) (map_values (fs_records s)) of
        None \<Rightarrow> Inl (NotFoundException ''FileRecord'') | Some r \<Rightarrow> Inr r, s))"

text \<open>
  Ordered by \<^verbatim>\<open>createdAt\<close> descending, then by id. The service passes no pagination, so the count
  is the number of the records.
\<close>

definition findAndCount :: "fs_env \<Rightarrow> FileRecord Scope \<Rightarrow> (fs_state, FileRecord list \<times> nat) eff" where
  "findAndCount env scope =
     external env (\<lambda>s.
       let fileRecords = sort_key (\<lambda>r. (- fr_createdAt r, fr_id r))
             (filter (scope_query scope) (map_values (fs_records s)))
       in (Inr (fileRecords, length fileRecords), s))"

definition findOneById :: "fs_env \<Rightarrow> EntityId \<Rightarrow> (fs_state, FileRecord) eff" where
  "findOneById env i = findOneOrFail env (byMarkedForDelete False (byFileRecordId i (new_Scope AndOp)))"

definition findOneByIdMarkedForDelete :: "fs_env \<Rightarrow> EntityId \<Rightarrow> (fs_state, FileRecord) eff" where
  "findOneByIdMarkedForDelete env i =
     findOneOrFail env (byMarkedForDelete True (byFileRecordId i (new_Scope AndOp)))"

definition findBySchoolIdAndParentId ::
  "fs_env \<Rightarrow> EntityId \<Rightarrow> EntityId \<Rightarrow> (fs_state, FileRecord list \<times> nat) eff" where
  "findBySchoolIdAndParentId env schoolId parentId =
     findAndCount env (byMarkedForDelete False (byParentId parentId (bySchoolId schoolId (new_Scope AndOp))))"

definition findBySchoolIdAndParentIdAndMarkedForDelete ::
  "fs_env \<Rightarrow> EntityId \<Rightarrow> EntityId \<Rightarrow> (fs_state, FileRecord list \<times> nat) eff" where
  "findBySchoolIdAndParentIdAndMarkedForDelete env schoolId parentId =
     findAndCount env (byMarkedForDelete True (byParentId parentId (bySchoolId schoolId (new_Scope AndOp))))"

definition findBySecurityCheckRequestToken :: "fs_env \<Rightarrow> string \<Rightarrow> (fs_state, FileRecord) eff" where
  "findBySecurityCheckRequestToken env token =
     findOneOrFail env (bySecurityCheckRequestToken token (new_Scope AndOp))"

text \<open>Persisting gives an id to a record that has none; the record is the object with that id.\<close>

definition persist :: "fs_env \<Rightarrow> FileRecord \<Rightarrow> fs_state \<Rightarrow> FileRecord \<times> fs_state" where
  "persist env r s =
     (let i = (if fr_id r = [] then fe_newId env (fs_fresh s) else fr_id r);
          r' = r\<lparr>fr_id := i\<rparr>
      in (r', s\<lparr>fs_fresh := (if fr_id r = [] then Suc (fs_fresh s) else fs_fresh s),
                fs_records := map_set (fs_records s) i r'\<rparr>))"

primrec persist_all :: "fs_env \<Rightarrow> FileRecord list \<Rightarrow> fs_state \<Rightarrow> FileRecord list \<times> fs_state" where
  "persist_all env [] s = ([], s)"
| "persist_all env (r # rs) s =
     (let (r', s') = persist env r s; (rs', s'') = persist_all env rs s' in (r' # rs', s''))"

definition repo_save :: "fs_env \<Rightarrow> FileRecord list \<Rightarrow> (fs_state, FileRecord list) eff" where
  "repo_save env rs = external env (\<lambda>s. let (rs', s') = persist_all env rs s in (Inr rs', s'))"

definition repo_delete :: "fs_env \<Rightarrow> FileRecord list \<Rightarrow> (fs_state, unit) eff" where
  "repo_delete env rs =
     external env (\<lambda>s. (Inr (), s\<lparr>fs_records := fold (\<lambda>r m. map_delete m (fr_id r)) rs (fs_records s)\<rparr>))"

section \<open>The storage client\<close>

record FileDto =
  fd_name :: string
  fd_data :: "string list"
  fd_mimeType :: string

text \<open>
  The bucket is a map from keys to contents and exists. A copy of a missing key fails with the
  code \<^verbatim>\<open>NoSuchKey\<close>; the commands of a batch are run one after the other, to the first failure.
\<close>

definition NoSuchKey :: exn where
  "NoSuchKey = External ''NoSuchKey''"

definition s3_put :: "fs_env \<Rightarrow> string \<Rightarrow> string \<Rightarrow> (fs_state, unit) eff" where
  "s3_put env key content =
     external env (\<lambda>s. (Inr (), s\<lparr>fs_files := (fs_files s)(key \<mapsto> content)\<rparr>))"

definition s3_get :: "fs_env \<Rightarrow> string \<Rightarrow> (fs_state, string) eff" where
  "s3_get env key =
     external env (\<lambda>s. (case fs_files s key of None \<Rightarrow> Inl NoSuchKey | Some c \<Rightarrow> Inr c, s))"

definition s3_copyObject :: "fs_env \<Rightarrow> ICopyFiles \<Rightarrow> (fs_state, unit) eff" where
  "s3_copyObject env p =
     external env (\<lambda>s. case fs_files s (icf_sourcePath p) of
        None \<Rightarrow> (Inl NoSuchKey, s)
      | Some c \<Rightarrow> (Inr (), s\<lparr>fs_files := (fs_files s)(icf_targetPath p \<mapsto> c)\<rparr>))"

definition s3_deleteObjects :: "fs_env \<Rightarrow> string list \<Rightarrow> (fs_state, unit) eff" where
  "s3_deleteObjects env keys =
     external env (\<lambda>s. (Inr (), s\<lparr>fs_files := (\<lambda>k. if k \<in> set keys then None else fs_files s k)\<rparr>))"

definition deletedFolderName :: string where
  "deletedFolderName = ''trash''"

definition client_create :: "fs_env \<Rightarrow> string \<Rightarrow> FileDto \<Rightarrow> (fs_state, unit) eff" where
  "client_create env path file =
     catchE (s3_put env path (concat (fd_data file)))
       (\<lambda>err. throwE (InternalCausedBy err ''S3ClientAdapter:create''))"

definition client_get :: "fs_env \<Rightarrow> string \<Rightarrow> (fs_state, string) eff" where
  "client_get env path =
     catchE (s3_get env path)
       (\<lambda>err. throwE (if err = NoSuchKey then NotFoundException ''NoSuchKey''
                      else InternalCausedBy err ''S3ClientAdapter:get''))"

definition client_copy :: "fs_env \<Rightarrow> ICopyFiles list \<Rightarrow> (fs_state, unit list) eff" where
  "client_copy env paths =
     catchE (mapME (s3_copyObject env) paths)
       (\<lambda>err. throwE (InternalCausedBy err ''S3ClientAdapter:copy''))"

definition client_delete :: "fs_env \<Rightarrow> string list \<Rightarrow> (fs_state, unit) eff" where
  "client_delete env paths = s3_deleteObjects env paths"

text \<open>\<^verbatim>\<open>err.response\<close> of a wrapped exception is its cause.\<close>

definition client_moveToTrash :: "fs_env \<Rightarrow> string list \<Rightarrow> (fs_state, unit list) eff" where
  "client_moveToTrash env paths =
     (let copyPaths = map (\<lambda>path. \<lparr>icf_sourcePath = path,
                              icf_targetPath = deletedFolderName @ ''/'' @ path\<rparr>) paths
      in catchE
           (bindE (client_copy env copyPaths) (\<lambda>result.
            bindE (client_delete env paths) (\<lambda>_. retE result)))
           (\<lambda>err. if err = InternalCausedBy NoSuchKey ''S3ClientAdapter:copy'' then retE []
                  else throwE (InternalCausedBy err ''S3ClientAdapter:delete'')))"

definition client_restore :: "fs_env \<Rightarrow> string list \<Rightarrow> (fs_state, unit list) eff" where
  "client_restore env paths =
     (let copyPaths = map (\<lambda>path. \<lparr>icf_sourcePath = deletedFolderName @ ''/'' @ path,
                              icf_targetPath = path\<rparr>) paths
      in catchE
           (bindE (client_copy env copyPaths) (\<lambda>result.
            bindE (client_delete env (map icf_sourcePath copyPaths)) (\<lambda>_. retE result)))
           (\<lambda>err. throwE (InternalCausedBy err ''S3ClientAdapter:restore'')))"

section \<open>The antivirus service\<close>

text \<open>A published request is identified by its token, from which both of its URLs are made.\<close>

definition antivirus_send :: "fs_env \<Rightarrow> FileRecord \<Rightarrow> (fs_state, unit) eff" where
  "antivirus_send env fileRecord =
     catchE
       (if fe_antivirus env \<and> truthy (fsc_requestToken (fr_securityCheck fileRecord))
        then external env (\<lambda>s. (Inr (), s\<lparr>fs_scans := fs_scans s @
               [the (fsc_requestToken (fr_securityCheck fileRecord))]\<rparr>))
        else retE ())
       (\<lambda>err. throwE (InternalCausedBy err ''AntivirusService''))"

end
