(* ===== verification/FilesStorageService.thy ===== *)
theory FilesStorageService
  imports FilesStorage
begin

text \<open>
  The files storage service (\<^verbatim>\<open>modules/files-storage/service/files-storage.service.ts\<close>) and its use
  cases (\<^verbatim>\<open>uc/files-storage.uc.ts\<close>), as effectful programs over the state of \<open>FilesStorage\<close>.
\<close>

section \<open>Finding\<close>

definition getFileRecord :: "fs_env \<Rightarrow> EntityId \<Rightarrow> (fs_state, FileRecord) eff" where
  "getFileRecord env fileRecordId = findOneById env fileRecordId"

definition getFileRecordBySecurityCheckRequestToken :: "fs_env \<Rightarrow> string \<Rightarrow> (fs_state, FileRecord) eff" where
  "getFileRecordBySecurityCheckRequestToken env token = findBySecurityCheckRequestToken env token"

definition getFileRecordMarkedForDelete :: "fs_env \<Rightarrow> EntityId \<Rightarrow> (fs_state, FileRecord) eff" where
  "getFileRecordMarkedForDelete env fileRecordId = findOneByIdMarkedForDelete env fileRecordId"

definition getFileRecordsOfParent ::
  "fs_env \<Rightarrow> FileRecordParams \<Rightarrow> (fs_state, FileRecord list \<times> nat) eff" where
  "getFileRecordsOfParent env params = findBySchoolIdAndParentId env (pi_schoolId params) (pi_parentId params)"

text \<open>Saving a single record.\<close>

definition repo_save1 :: "fs_env \<Rightarrow> FileRecord \<Rightarrow> (fs_state, FileRecord) eff" where
  "repo_save1 env r = bindE (repo_save env [r]) (\<lambda>rs. retE (hd rs))"

section \<open>Uploading\<close>

definition resolveFileName :: "fs_env \<Rightarrow> FileDto \<Rightarrow> FileRecordParams \<Rightarrow> (fs_state, string) eff" where
  "resolveFileName env file params =
     bindE (getFileRecordsOfParent env params) (\<lambda>(fileRecordsOfParent, count).
       if count > 0 then retE (resolveFileNameDuplicates (fd_name file) fileRecordsOfParent)
       else retE (fd_name file))"

definition service_createFileRecord ::
  "fs_env \<Rightarrow> FileDto \<Rightarrow> FileRecordParams \<Rightarrow> EntityId \<Rightarrow> (fs_state, FileRecord) eff" where
  "service_createFileRecord env file params userId =
     bindE (resolveFileName env file params) (\<lambda>fileName.
     bindE (fresh_uuid env) (\<lambda>uuid.
       retE (createFileRecord (fe_now env) uuid fileName 0 (fd_mimeType file) params userId)))"

definition countFileSize :: "FileDto \<Rightarrow> nat" where
  "countFileSize file = foldl (\<lambda>fileSize chunk. fileSize + length chunk) 0 (fd_data file)"

definition throwErrorIfFileIsTooBig :: "fs_env \<Rightarrow> nat \<Rightarrow> unit result" where
  "throwErrorIfFileIsTooBig env fileSize =
     (if fileSize > fe_maxFileSize env then Inl (BadRequestException ''FILE_TOO_BIG'') else Inr ())"

definition createFileInStorageAndRollbackOnError ::
  "fs_env \<Rightarrow> FileRecord \<Rightarrow> FileRecordParams \<Rightarrow> FileDto \<Rightarrow> (fs_state, FileRecord) eff" where
  "createFileInStorageAndRollbackOnError env fileRecord params file =
     bindE (liftE (createPath (pi_schoolId params) (fr_id fileRecord))) (\<lambda>filePath.
     catchE
       (bindE (client_create env filePath file) (\<lambda>_.
        let fileRecord' = fileRecord\<lparr>fr_size := countFileSize file\<rparr> in
        bindE (liftE (throwErrorIfFileIsTooBig env (fr_size fileRecord'))) (\<lambda>_.
        bindE (repo_save1 env fileRecord') (\<lambda>fileRecord''.
        bindE (antivirus_send env fileRecord'') (\<lambda>_. retE fileRecord'')))))
       (\<lambda>error.
        bindE (client_delete env [filePath]) (\<lambda>_.
        bindE (repo_delete env [fileRecord]) (\<lambda>_. throwE error))))"

definition uploadFile ::
  "fs_env \<Rightarrow> EntityId \<Rightarrow> FileRecordParams \<Rightarrow> FileDto \<Rightarrow> (fs_state, FileRecord) eff" where
  "uploadFile env userId params file =
     bindE (service_createFileRecord env file params userId) (\<lambda>fileRecord.
     bindE (repo_save1 env fileRecord) (\<lambda>fileRecord'.
       createFileInStorageAndRollbackOnError env fileRecord' params file))"

section \<open>Updating\<close>

definition checkDuplicatedNames :: "FileRecord list \<Rightarrow> string \<Rightarrow> unit result" where
  "checkDuplicatedNames fileRecords newFileName =
     (if List.find (\<lambda>item. hasName item newFileName) fileRecords \<noteq> None
      then Inl (ConflictException ''FILE_NAME_EXISTS'') else Inr ())"

definition patchFilename :: "fs_env \<Rightarrow> FileRecord \<Rightarrow> string \<Rightarrow> (fs_state, FileRecord) eff" where
  "patchFilename env fileRecord fileName =
     bindE (getFileRecordsOfParent env (getParentInfo fileRecord)) (\<lambda>(fileRecords, _).
     bindE (liftE (checkDuplicatedNames fileRecords fileName)) (\<lambda>_.
     bindE (liftE (setName fileRecord fileName)) (\<lambda>fileRecord'. repo_save1 env fileRecord')))"

definition updateSecurityStatus :: "fs_env \<Rightarrow> string \<Rightarrow> ScanResultParams \<Rightarrow> (fs_state, unit) eff" where
  "updateSecurityStatus env token scanResultParams =
     bindE (findBySecurityCheckRequestToken env token) (\<lambda>fileRecord.
     let dto = mapScanResultParamsToDto scanResultParams;
         fileRecord' = updateSecurityCheckStatus (fe_now env) fileRecord (srd_status dto) (srd_reason dto)
     in bindE (repo_save1 env fileRecord') (\<lambda>_. retE ()))"

section \<open>Downloading\<close>

definition checkFileName :: "FileRecord \<Rightarrow> string \<Rightarrow> unit result" where
  "checkFileName fileRecord fileName =
     (if \<not> hasName fileRecord fileName then Inl (NotFoundException ''FILE_NOT_FOUND'') else Inr ())"

definition checkScanStatus :: "FileRecord \<Rightarrow> unit result" where
  "checkScanStatus fileRecord =
     (if isBlocked fileRecord then Inl (NotAcceptableException ''FILE_IS_BLOCKED'') else Inr ())"

text \<open>The whole content is read; a byte range only selects a part of it in the storage.\<close>

definition downloadFile :: "fs_env \<Rightarrow> EntityId \<Rightarrow> EntityId \<Rightarrow> (fs_state, string) eff" where
  "downloadFile env schoolId fileRecordId =
     bindE (liftE (createPath schoolId fileRecordId)) (\<lambda>pathToFile. client_get env pathToFile)"

definition service_download :: "fs_env \<Rightarrow> FileRecord \<Rightarrow> string \<Rightarrow> (fs_state, string) eff" where
  "service_download env fileRecord fileName =
     bindE (liftE (checkFileName fileRecord fileName)) (\<lambda>_.
     bindE (liftE (checkScanStatus fileRecord)) (\<lambda>_.
       downloadFile env (fr_schoolId fileRecord) (fr_id fileRecord)))"

section \<open>Deleting\<close>

definition deleteFilesInFilesStorageClient :: "fs_env \<Rightarrow> FileRecord list \<Rightarrow> (fs_state, unit) eff" where
  "deleteFilesInFilesStorageClient env fileRecords =
     bindE (liftE (getPaths fileRecords)) (\<lambda>paths.
     bindE (client_moveToTrash env paths) (\<lambda>_. retE ()))"

definition deleteWithRollbackByError :: "fs_env \<Rightarrow> FileRecord list \<Rightarrow> (fs_state, unit) eff" where
  "deleteWithRollbackByError env fileRecords =
     catchE (deleteFilesInFilesStorageClient env fileRecords)
       (\<lambda>error. bindE (repo_save env fileRecords) (\<lambda>_.
          throwE (InternalCausedBy error ''FilesStorageService:delete'')))"

text \<open>The records handed in are the objects that are marked; the marked ones are returned.\<close>

definition service_delete :: "fs_env \<Rightarrow> FileRecord list \<Rightarrow> (fs_state, FileRecord list) eff" where
  "service_delete env fileRecords =
     (let markedFileRecords = markForDelete (fe_now env) fileRecords in
      bindE (repo_save env markedFileRecords) (\<lambda>saved.
      bindE (deleteWithRollbackByError env saved) (\<lambda>_. retE saved)))"

definition service_deleteFilesOfParent ::
  "fs_env \<Rightarrow> FileRecordParams \<Rightarrow> (fs_state, FileRecord list \<times> nat) eff" where
  "service_deleteFilesOfParent env params =
     bindE (getFileRecordsOfParent env params) (\<lambda>(fileRecords, count).
       if count > 0 then bindE (service_delete env fileRecords) (\<lambda>marked. retE (marked, count))
       else retE (fileRecords, count))"

section \<open>Restoring\<close>

definition restoreFilesInFileStorageClient :: "fs_env \<Rightarrow> FileRecord list \<Rightarrow> (fs_state, unit) eff" where
  "restoreFilesInFileStorageClient env fileRecords =
     bindE (liftE (getPaths fileRecords)) (\<lambda>paths.
     bindE (client_restore env paths) (\<lambda>_. retE ()))"

definition restoreWithRollbackByError :: "fs_env \<Rightarrow> FileRecord list \<Rightarrow> (fs_state, unit) eff" where
  "restoreWithRollbackByError env fileRecords =
     catchE (restoreFilesInFileStorageClient env fileRecords)
       (\<lambda>err. bindE (repo_save env (markForDelete (fe_now env) fileRecords)) (\<lambda>_.
          throwE (InternalCausedBy err ''FilesStorageService:restore'')))"

definition service_restore :: "fs_env \<Rightarrow> FileRecord list \<Rightarrow> (fs_state, FileRecord list) eff" where
  "service_restore env fileRecords =
     (let unmarkFileRecords = unmarkForDelete fileRecords in
      bindE (repo_save env unmarkFileRecords) (\<lambda>saved.
      bindE (restoreWithRollbackByError env saved) (\<lambda>_. retE saved)))"

definition service_restoreFilesOfParent ::
  "fs_env \<Rightarrow> FileRecordParams \<Rightarrow> (fs_state, FileRecord list \<times> nat) eff" where
  "service_restoreFilesOfParent env params =
     bindE (findBySchoolIdAndParentIdAndMarkedForDelete env (pi_schoolId params) (pi_parentId params))
       (\<lambda>(fileRecords, count).
          if count > 0 then bindE (service_restore env fileRecords) (\<lambda>restored. retE (restored, count))
          else retE (fileRecords, count))"

section \<open>Copying\<close>

definition copyFileRecord ::
  "fs_env \<Rightarrow> FileRecord \<Rightarrow> FileRecordParams \<Rightarrow> EntityId \<Rightarrow> (fs_state, FileRecord) eff" where
  "copyFileRecord env sourceFile targetParams userId =
     bindE (fresh_uuid env) (\<lambda>uuid.
       repo_save1 env (FileRecord_copy (fe_now env) uuid sourceFile userId targetParams))"

definition sendToAntiVirusService :: "fs_env \<Rightarrow> FileRecord \<Rightarrow> (fs_state, unit) eff" where
  "sendToAntiVirusService env sourceFile =
     (if isPending sourceFile then antivirus_send env sourceFile else retE ())"

definition copyFilesWithRollbackOnError ::
  "fs_env \<Rightarrow> FileRecord \<Rightarrow> FileRecord \<Rightarrow> (fs_state, CopyFileResponse) eff" where
  "copyFilesWithRollbackOnError env sourceFile targetFile =
     catchE
       (bindE (liftE (createICopyFiles sourceFile targetFile)) (\<lambda>paths.
        bindE (client_copy env [paths]) (\<lambda>_.
        bindE (sendToAntiVirusService env sourceFile) (\<lambda>_.
          retE (CopyFileResponseBuilder_build (fr_id targetFile) (fr_id sourceFile) (fr_name targetFile))))))
       (\<lambda>error. bindE (repo_delete env [targetFile]) (\<lambda>_. throwE error))"

text \<open>The copies of a batch run concurrently in the code; here they follow each other.\<close>

definition service_copy ::
  "fs_env \<Rightarrow> EntityId \<Rightarrow> FileRecord list \<Rightarrow> FileRecordParams \<Rightarrow> (fs_state, CopyFileResponse list) eff" where
  "service_copy env userId sourceFileRecords targetParams =
     mapME (\<lambda>sourceFile.
       catchE
         (bindE (liftE (checkScanStatus sourceFile)) (\<lambda>_.
          bindE (copyFileRecord env sourceFile targetParams userId) (\<lambda>targetFile.
            copyFilesWithRollbackOnError env sourceFile targetFile)))
         (\<lambda>error. retE \<lparr>cfr_id = None, cfr_sourceId = fr_id sourceFile, cfr_name = fr_name sourceFile\<rparr>))
       sourceFileRecords"

definition service_copyFilesOfParent ::
  "fs_env \<Rightarrow> EntityId \<Rightarrow> FileRecordParams \<Rightarrow> FileRecordParams \<Rightarrow> (fs_state, CopyFileResponse list \<times> nat) eff" where
  "service_copyFilesOfParent env userId params target =
     bindE (findBySchoolIdAndParentId env (pi_schoolId params) (pi_parentId params)) (\<lambda>(fileRecords, count).
       if count = 0 then retE ([], 0)
       else bindE (service_copy env userId fileRecords target) (\<lambda>response. retE (response, count)))"

section \<open>The use cases\<close>

text \<open>\<^verbatim>\<open>files-storage.const.ts\<close>.\<close>

definition PermissionContexts_create :: IPermissionContext where
  "PermissionContexts_create = PermissionContextBuilder_write [''FILESTORAGE_CREATE'']"

definition PermissionContexts_read :: IPermissionContext where
  "PermissionContexts_read = PermissionContextBuilder_read [''FILESTORAGE_VIEW'']"

definition PermissionContexts_update :: IPermissionContext where
  "PermissionContexts_update = PermissionContextBuilder_write [''FILESTORAGE_EDIT'']"

definition PermissionContexts_delete :: IPermissionContext where
  "PermissionContexts_delete = PermissionContextBuilder_write [''FILESTORAGE_REMOVE'']"

text \<open>
  The authorization service is injected: \<open>auth\<close> is its \<^verbatim>\<open>checkPermissionByReferences\<close>. The parsed
  part of a multipart request and the answer of the HTTP client are arguments.
\<close>

type_synonym auth_check =
  "EntityId \<Rightarrow> AllowedAuthorizationEntityType \<Rightarrow> EntityId \<Rightarrow> IPermissionContext \<Rightarrow> unit result"

definition uc_checkPermission ::
  "auth_check \<Rightarrow> EntityId \<Rightarrow> FileRecordParentType \<Rightarrow> EntityId \<Rightarrow> IPermissionContext \<Rightarrow> unit result" where
  "uc_checkPermission auth userId parentType parentId ctx =
     bindR (mapToAllowedAuthorizationEntityType parentType) (\<lambda>allowedType. auth userId allowedType parentId ctx)"

definition uc_checkParent ::
  "auth_check \<Rightarrow> EntityId \<Rightarrow> IParentInfo \<Rightarrow> IPermissionContext \<Rightarrow> (fs_state, unit) eff" where
  "uc_checkParent auth userId params ctx =
     liftE (uc_checkPermission auth userId (pi_parentType params) (pi_parentId params) ctx)"

definition uc_upload ::
  "auth_check \<Rightarrow> fs_env \<Rightarrow> EntityId \<Rightarrow> FileRecordParams \<Rightarrow> FileDto \<Rightarrow> (fs_state, FileRecord) eff" where
  "uc_upload auth env userId params file =
     bindE (uc_checkParent auth userId params PermissionContexts_create) (\<lambda>_.
       uploadFile env userId params file)"

definition uc_uploadFromUrl ::
  "auth_check \<Rightarrow> fs_env \<Rightarrow> (string \<Rightarrow> (string list \<times> string) result) \<Rightarrow> EntityId \<Rightarrow> FileRecordParams \<Rightarrow>
   string \<Rightarrow> string \<Rightarrow> (fs_state, FileRecord) eff" where
  "uc_uploadFromUrl auth env http userId params url fileName =
     bindE (uc_checkParent auth userId params PermissionContexts_create) (\<lambda>_.
     bindE (liftE (case http url of Inl _ \<Rightarrow> Inl (NotFoundException ''FILE_NOT_FOUND'') | Inr response \<Rightarrow> Inr response))
       (\<lambda>(stream, contentType).
         uploadFile env userId params \<lparr>fd_name = fileName, fd_data = stream, fd_mimeType = contentType\<rparr>))"

definition uc_download ::
  "auth_check \<Rightarrow> fs_env \<Rightarrow> EntityId \<Rightarrow> EntityId \<Rightarrow> string \<Rightarrow> (fs_state, string) eff" where
  "uc_download auth env userId fileRecordId fileName =
     bindE (getFileRecord env fileRecordId) (\<lambda>fileRecord.
     bindE (uc_checkParent auth userId (getParentInfo fileRecord) PermissionContexts_read) (\<lambda>_.
       service_download env fileRecord fileName))"

definition uc_downloadBySecurityToken :: "fs_env \<Rightarrow> string \<Rightarrow> (fs_state, string) eff" where
  "uc_downloadBySecurityToken env token =
     bindE (getFileRecordBySecurityCheckRequestToken env token) (\<lambda>fileRecord.
       downloadFile env (fr_schoolId fileRecord) (fr_id fileRecord))"

definition uc_deleteFilesOfParent ::
  "auth_check \<Rightarrow> fs_env \<Rightarrow> EntityId \<Rightarrow> FileRecordParams \<Rightarrow> (fs_state, FileRecord list \<times> nat) eff" where
  "uc_deleteFilesOfParent auth env userId params =
     bindE (uc_checkParent auth userId params PermissionContexts_delete) (\<lambda>_.
       service_deleteFilesOfParent env params)"

definition uc_deleteOneFile :: "auth_check \<Rightarrow> fs_env \<Rightarrow> EntityId \<Rightarrow> EntityId \<Rightarrow> (fs_state, FileRecord) eff" where
  "uc_deleteOneFile auth env userId fileRecordId =
     bindE (getFileRecord env fileRecordId) (\<lambda>fileRecord.
     bindE (uc_checkParent auth userId (getParentInfo fileRecord) PermissionContexts_delete) (\<lambda>_.
     bindE (service_delete env [fileRecord]) (\<lambda>marked. retE (hd marked))))"

definition uc_restoreFilesOfParent ::
  "auth_check \<Rightarrow> fs_env \<Rightarrow> EntityId \<Rightarrow> FileRecordParams \<Rightarrow> (fs_state, FileRecord list \<times> nat) eff" where
  "uc_restoreFilesOfParent auth env userId params =
     bindE (uc_checkParent auth userId params PermissionContexts_create) (\<lambda>_.
       service_restoreFilesOfParent env params)"

definition uc_restoreOneFile :: "auth_check \<Rightarrow> fs_env \<Rightarrow> EntityId \<Rightarrow> EntityId \<Rightarrow> (fs_state, FileRecord) eff" where
  "uc_restoreOneFile auth env userId fileRecordId =
     bindE (getFileRecordMarkedForDelete env fileRecordId) (\<lambda>fileRecord.
     bindE (uc_checkParent auth userId (getParentInfo fileRecord) PermissionContexts_create) (\<lambda>_.
     bindE (service_restore env [fileRecord]) (\<lambda>restored. retE (hd restored))))"

definition uc_copyFilesOfParent ::
  "auth_check \<Rightarrow> fs_env \<Rightarrow> EntityId \<Rightarrow> FileRecordParams \<Rightarrow> FileRecordParams \<Rightarrow>
   (fs_state, CopyFileResponse list \<times> nat) eff" where
  "uc_copyFilesOfParent auth env userId params target =
     bindE (uc_checkParent auth userId params PermissionContexts_create) (\<lambda>_.
     bindE (uc_checkParent auth userId target PermissionContexts_create) (\<lambda>_.
       service_copyFilesOfParent env userId params target))"

definition uc_copyOneFile ::
  "auth_check \<Rightarrow> fs_env \<Rightarrow> EntityId \<Rightarrow> EntityId \<Rightarrow> FileRecordParams \<Rightarrow> (fs_state, CopyFileResponse) eff" where
  "uc_copyOneFile auth env userId fileRecordId target =
     bindE (getFileRecord env fileRecordId) (\<lambda>fileRecord.
     bindE (uc_checkParent auth userId (getParentInfo fileRecord) PermissionContexts_create) (\<lambda>_.
     bindE (uc_checkParent auth userId target PermissionContexts_create) (\<lambda>_.
     bindE (service_copy env userId [fileRecord] target) (\<lambda>response. retE (hd response)))))"

definition uc_patchFilename ::
  "auth_check \<Rightarrow> fs_env \<Rightarrow> EntityId \<Rightarrow> EntityId \<Rightarrow> string \<Rightarrow> (fs_state, FileRecord) eff" where
  "uc_patchFilename auth env userId fileRecordId fileName =
     bindE (getFileRecord env fileRecordId) (\<lambda>fileRecord.
     bindE (uc_checkParent auth userId (getParentInfo fileRecord) PermissionContexts_update) (\<lambda>_.
       patchFilename env fileRecord fileName))"

definition uc_updateSecurityStatus :: "fs_env \<Rightarrow> string \<Rightarrow> ScanResultParams \<Rightarrow> (fs_state, unit) eff" where
  "uc_updateSecurityStatus env token scanResult = updateSecurityStatus env token scanResult"

definition uc_getFileRecordsOfParent ::
  "auth_check \<Rightarrow> fs_env \<Rightarrow> EntityId \<Rightarrow> FileRecordParams \<Rightarrow> (fs_state, FileRecord list \<times> nat) eff" where
  "uc_getFileRecordsOfParent auth env userId params =
     bindE (uc_checkParent auth userId params PermissionContexts_read) (\<lambda>_.
       getFileRecordsOfParent env params)"

section \<open>The consumer of the message broker\<close>

text \<open>
  Other services of the server ask for copies, lists and deletions by messages. The consumer hands
  them to the service as they are: it has no user whose permission it could ask for, and trusts the
  sender to have done so.
\<close>

record FileRecordResponse =
  frr_id :: EntityId
  frr_name :: string
  frr_parentId :: EntityId
  frr_securityCheckStatus :: ScanStatus
  frr_size :: nat
  frr_creatorId :: EntityId
  frr_type :: string
  frr_parentType :: FileRecordParentType
  frr_deletedSince :: "date option"

definition mapToFileRecordResponse :: "FileRecord \<Rightarrow> FileRecordResponse" where
  "mapToFileRecordResponse r =
     \<lparr>frr_id = fr_id r, frr_name = fr_name r, frr_parentId = fr_parentId r,
      frr_securityCheckStatus = fsc_status (fr_securityCheck r), frr_size = fr_size r,
      frr_creatorId = fr_creatorId r, frr_type = fr_mimeType r, frr_parentType = fr_parentType r,
      frr_deletedSince = fr_deletedSince r\<rparr>"

definition consumer_copyFilesOfParent ::
  "fs_env \<Rightarrow> EntityId \<Rightarrow> FileRecordParams \<Rightarrow> FileRecordParams \<Rightarrow> (fs_state, CopyFileResponse list) eff" where
  "consumer_copyFilesOfParent env userId source target =
     bindE (service_copyFilesOfParent env userId source target) (\<lambda>(response, count). retE response)"

definition consumer_getFilesOfParent ::
  "fs_env \<Rightarrow> FileRecordParams \<Rightarrow> (fs_state, FileRecordResponse list) eff" where
  "consumer_getFilesOfParent env payload =
     bindE (getFileRecordsOfParent env payload) (\<lambda>(fileRecords, total). retE (map mapToFileRecordResponse fileRecords))"

definition consumer_deleteFilesOfParent ::
  "fs_env \<Rightarrow> FileRecordParams \<Rightarrow> (fs_state, FileRecordResponse list) eff" where
  "consumer_deleteFilesOfParent env payload =
     bindE (service_deleteFilesOfParent env payload) (\<lambda>(fileRecords, total). retE (map mapToFileRecordResponse fileRecords))"

section \<open>Histories\<close>

text \<open>The requests and messages the module accepts, and the system that serves them one after the other.\<close>

datatype fs_command =
    Upload EntityId FileRecordParams FileDto
  | UploadFromUrl EntityId FileRecordParams string string
  | Download EntityId EntityId string
  | DownloadByToken string
  | DeleteFilesOfParent EntityId FileRecordParams
  | DeleteOneFile EntityId EntityId
  | RestoreFilesOfParent EntityId FileRecordParams
  | RestoreOneFile EntityId EntityId
  | CopyFilesOfParent EntityId FileRecordParams FileRecordParams
  | CopyOneFile EntityId EntityId FileRecordParams
  | PatchFilename EntityId EntityId string
  | UpdateSecurityStatus string ScanResultParams
  | GetFileRecords EntityId FileRecordParams
  | CopyMessage EntityId FileRecordParams FileRecordParams
  | ListMessage FileRecordParams
  | DeleteMessage FileRecordParams

fun fs_exec ::
  "auth_check \<Rightarrow> (string \<Rightarrow> (string list \<times> string) result) \<Rightarrow> fs_env \<Rightarrow> fs_command \<Rightarrow> fs_state \<Rightarrow> fs_state" where
  "fs_exec auth http env (Upload u p f) s = snd (uc_upload auth env u p f s)"
| "fs_exec auth http env (UploadFromUrl u p url n) s = snd (uc_uploadFromUrl auth env http u p url n s)"
| "fs_exec auth http env (Download u i n) s = snd (uc_download auth env u i n s)"
| "fs_exec auth http env (DownloadByToken t) s = snd (uc_downloadBySecurityToken env t s)"
| "fs_exec auth http env (DeleteFilesOfParent u p) s = snd (uc_deleteFilesOfParent auth env u p s)"
| "fs_exec auth http env (DeleteOneFile u i) s = snd (uc_deleteOneFile auth env u i s)"
| "fs_exec auth http env (RestoreFilesOfParent u p) s = snd (uc_restoreFilesOfParent auth env u p s)"
| "fs_exec auth http env (RestoreOneFile u i) s = snd (uc_restoreOneFile auth env u i s)"
| "fs_exec auth http env (CopyFilesOfParent u p q) s = snd (uc_copyFilesOfParent auth env u p q s)"
| "fs_exec auth http env (CopyOneFile u i q) s = snd (uc_copyOneFile auth env u i q s)"
| "fs_exec auth http env (PatchFilename u i n) s = snd (uc_patchFilename auth env u i n s)"
| "fs_exec auth http env (UpdateSecurityStatus t r) s = snd (uc_updateSecurityStatus env t r s)"
| "fs_exec auth http env (GetFileRecords u p) s = snd (uc_getFileRecordsOfParent auth env u p s)"
| "fs_exec auth http env (CopyMessage u p q) s = snd (consumer_copyFilesOfParent env u p q s)"
| "fs_exec auth http env (ListMessage p) s = snd (consumer_getFilesOfParent env p s)"
| "fs_exec auth http env (DeleteMessage p) s = snd (consumer_deleteFilesOfParent env p s)"

text \<open>Each request may meet another clock time, other faults and other users' permissions.\<close>

inductive fs_step :: "(string \<Rightarrow> (string list \<times> string) result) \<Rightarrow> fs_env \<Rightarrow> fs_state \<Rightarrow> fs_state \<Rightarrow> bool"
  for http env where
  request: "fe_newId env' = fe_newId env \<Longrightarrow> fe_uuid env' = fe_uuid env \<Longrightarrow>
     fe_maxFileSize env' = fe_maxFileSize env \<Longrightarrow> fs_step http env s (fs_exec auth http env' c s)"

inductive fs_reachable :: "(string \<Rightarrow> (string list \<times> string) result) \<Rightarrow> fs_env \<Rightarrow> fs_state \<Rightarrow> bool"
  for http env where
  initial: "fs_reachable http env
     \<lparr>fs_clock = 0, fs_fresh = 0, fs_records = [], fs_files = Map.empty, fs_scans = []\<rparr>"
| step: "fs_reachable http env s \<Longrightarrow> fs_step http env s s' \<Longrightarrow> fs_reachable http env s'"

inductive_cases fs_stepE: "fs_step http env s s'"

end
