(* ===== verification/FilesStorageProperties.thy ===== *)
theory FilesStorageProperties
  imports FilesStorageService
begin

text \<open>
  File names, uploads with their rollback, the scan protocol, deletion, copies, and what every
  reachable state of the module satisfies.
\<close>

section \<open>File names\<close>

lemma resolve_loop_step:
  "hasDuplicateName rs (candidate f i) \<noteq> None \<Longrightarrow> resolve_loop f rs i = resolve_loop f rs (i + 1)"
  by (subst resolve_loop.simps) (auto simp: Let_def)

lemma resolve_loop_first:
  "\<exists>c \<ge> i. resolve_loop f rs i = candidate f c \<and> candidate f c \<notin> fr_name ` set rs \<and>
     (\<forall>c'. i \<le> c' \<longrightarrow> c' < c \<longrightarrow> candidate f c' \<in> fr_name ` set rs)"
proof (induction f rs i rule: resolve_loop.induct)
  case (1 f rs i)
  show ?case
  proof (cases "candidate f i \<in> fr_name ` set rs")
    case True
    then have "hasDuplicateName rs (candidate f i) \<noteq> None" by (simp only: hasDuplicateName_iff)
    then have "resolve_loop f rs i = resolve_loop f rs (i + 1)"
      by (rule resolve_loop_step)
    moreover from 1 [OF refl \<open>hasDuplicateName rs (candidate f i) \<noteq> None\<close>] obtain c where
      "i + 1 \<le> c" "resolve_loop f rs (i + 1) = candidate f c" "candidate f c \<notin> fr_name ` set rs"
      "\<forall>c'. i + 1 \<le> c' \<longrightarrow> c' < c \<longrightarrow> candidate f c' \<in> fr_name ` set rs" by blast
    ultimately show ?thesis using True
      by (intro exI [of _ c]) (auto simp: Suc_le_eq dest: le_neq_implies_less)
  next
    case False
    then have "hasDuplicateName rs (candidate f i) = None" using hasDuplicateName_iff [of rs] by blast
    then have "resolve_loop f rs i = candidate f i" by (subst resolve_loop.simps) simp
    with False show ?thesis by auto
  qed
qed

lemma resolve_fresh: "resolveFileNameDuplicates f rs \<notin> fr_name ` set rs"
  unfolding resolveFileNameDuplicates_def using resolve_loop_first [of 0 f rs] by metis

text \<open>The search for a free file name always ends, with the first of the given name and its
  numbered variants that no file of the parent has.\<close>

theorem resolveFileNameDuplicates_first_free:
  "\<exists>c. resolveFileNameDuplicates filename rs = candidate filename c \<and>
     candidate filename c \<notin> fr_name ` set rs \<and>
     candidate filename ` {..<c} \<subseteq> fr_name ` set rs"
  using resolve_loop_first [of 0 filename rs] by (auto simp: resolveFileNameDuplicates_def)

section \<open>External calls\<close>

lemma external_cases:
  "external env act s =
     (case fe_fault env (fs_clock s) of
        Some e \<Rightarrow> (Inl e, s\<lparr>fs_clock := Suc (fs_clock s)\<rparr>)
      | None \<Rightarrow> act (s\<lparr>fs_clock := Suc (fs_clock s)\<rparr>))"
  by (simp add: external_def Let_def)

lemma external_fault: "fe_fault env (fs_clock s) = Some e \<Longrightarrow>
    external env act s = (Inl e, s\<lparr>fs_clock := Suc (fs_clock s)\<rparr>)"
  by (simp add: external_cases)

lemma external_ok: "fe_fault env (fs_clock s) = None \<Longrightarrow>
    external env act s = act (s\<lparr>fs_clock := Suc (fs_clock s)\<rparr>)"
  by (simp add: external_cases)

text \<open>What of the state users can observe.\<close>

definition same_store :: "fs_state \<Rightarrow> fs_state \<Rightarrow> bool" where
  "same_store s s' \<longleftrightarrow>
     fs_records s' = fs_records s \<and> fs_files s' = fs_files s \<and> fs_scans s' = fs_scans s"

lemma same_store_refl [simp]: "same_store s s"
  by (simp add: same_store_def)

lemma same_store_trans: "same_store s s' \<Longrightarrow> same_store s' s'' \<Longrightarrow> same_store s s''"
  by (simp add: same_store_def)

lemma same_store_tick [simp]: "same_store s (s\<lparr>fs_clock := n\<rparr>)" "same_store s (s\<lparr>fs_fresh := m\<rparr>)"
  by (simp_all add: same_store_def)

text \<open>Operations that only read.\<close>

definition reads :: "(fs_state, 'a) eff \<Rightarrow> bool" where
  "reads m \<longleftrightarrow> (\<forall>s. same_store s (snd (m s)))"

lemma reads_find [simp]: "reads (findOneOrFail env sc)" "reads (findAndCount env sc)"
  by (auto simp: reads_def findOneOrFail_def findAndCount_def external_cases Let_def split: option.split)

lemma reads_bind:
  assumes "reads m" and "\<And>x. reads (f x)"
  shows "reads (bindE m f)"
  unfolding reads_def
proof
  fix s
  have "same_store s (snd (m s))" using assms(1) by (simp add: reads_def)
  then show "same_store s (snd (bindE m f s))"
    using assms(2) by (cases "m s") (auto simp: bindE_def reads_def split: sum.split intro: same_store_trans)
qed

lemma reads_simple [simp]: "reads (retE x)" "reads (throwE e)" "reads (liftE r)" "reads (fresh_uuid env)"
  by (simp_all add: reads_def retE_def throwE_def liftE_def fresh_uuid_def)

lemma reads_service [simp]:
  "reads (getFileRecord env i)" "reads (getFileRecordMarkedForDelete env i)"
  "reads (getFileRecordsOfParent env p)" "reads (service_createFileRecord env f p u)"
  "reads (findBySecurityCheckRequestToken env t)" "reads (findBySchoolIdAndParentId env x y)"
  by (auto simp: getFileRecord_def findOneById_def getFileRecordMarkedForDelete_def
      findOneByIdMarkedForDelete_def getFileRecordsOfParent_def findBySchoolIdAndParentId_def
      service_createFileRecord_def resolveFileName_def findBySecurityCheckRequestToken_def
      split: prod.split intro!: reads_bind)

lemma readsD: "reads m \<Longrightarrow> m s = (r, s') \<Longrightarrow> same_store s s'"
  unfolding reads_def by (metis snd_conv)

lemma repo_save1_eq: "repo_save1 env r s =
    (case fe_fault env (fs_clock s) of
       Some e \<Rightarrow> (Inl e, s\<lparr>fs_clock := Suc (fs_clock s)\<rparr>)
     | None \<Rightarrow> (let (r', s') = persist env r (s\<lparr>fs_clock := Suc (fs_clock s)\<rparr>) in (Inr r', s')))"
  by (simp add: repo_save1_def repo_save_def bindE_def external_cases retE_def Let_def
      split: option.split prod.split)

section \<open>Uploading\<close>

lemma countFileSize_eq: "countFileSize f = length (concat (fd_data f))"
proof -
  have "foldl (\<lambda>n c. n + length c) k xs = k + length (concat xs)" for k and xs :: "string list"
    by (induction xs arbitrary: k) simp_all
  then show ?thesis by (simp add: countFileSize_def)
qed

lemma scope_query_and3:
  "scope_query \<lparr>scope_queries = [a, b, c], scope_operator = AndOp, scope_allowEmptyQuery = x\<rparr> =
     (\<lambda>r. a r \<and> b r \<and> c r)"
  by (simp add: fun_eq_iff scope_query_def)

lemma service_createFileRecord_Inr:
  assumes "service_createFileRecord env f p u s = (Inr r, s')"
  shows "fr_id r = [] \<and> fr_schoolId r = pi_schoolId p \<and> fr_parentId r = pi_parentId p \<and>
    fr_parentType r = pi_parentType p \<and> fr_deletedSince r = None \<and> isPending r \<and>
    fsc_requestToken (fr_securityCheck r) = Some (fe_uuid env (fs_fresh s)) \<and>
    fs_fresh s' = Suc (fs_fresh s) \<and>
    (\<forall>q \<in> set (map_values (fs_records s)). fr_schoolId q = pi_schoolId p \<longrightarrow>
       fr_parentId q = pi_parentId p \<longrightarrow> fr_deletedSince q = None \<longrightarrow> fr_name q \<noteq> fr_name r)"
proof -
  define found where "found = sort_key (\<lambda>r. (- fr_createdAt r, fr_id r))
    (filter (\<lambda>r. fr_schoolId r = pi_schoolId p \<and> fr_parentId r = pi_parentId p \<and> fr_deletedSince r = None)
      (map_values (fs_records s)))"
  have g: "getFileRecordsOfParent env p s = (case fe_fault env (fs_clock s) of
      Some e \<Rightarrow> (Inl e, s\<lparr>fs_clock := Suc (fs_clock s)\<rparr>)
    | None \<Rightarrow> (Inr (found, length found), s\<lparr>fs_clock := Suc (fs_clock s)\<rparr>))"
    by (simp add: getFileRecordsOfParent_def findBySchoolIdAndParentId_def findAndCount_def
        external_cases scope_query_and3 byMarkedForDelete_def byParentId_def bySchoolId_def
        addQuery_def new_Scope_def found_def Let_def split: option.split)
  define name where "name = (if 0 < length found then resolveFileNameDuplicates (fd_name f) found else fd_name f)"
  from assms have n: "fe_fault env (fs_clock s) = None"
    by (auto simp: service_createFileRecord_def resolveFileName_def bindE_def g split: option.splits)
  with assms have r: "r = createFileRecord (fe_now env) (fe_uuid env (fs_fresh s)) name 0 (fd_mimeType f) p u"
      and s': "fs_fresh s' = Suc (fs_fresh s)"
    by (auto simp: service_createFileRecord_def resolveFileName_def bindE_def g retE_def fresh_uuid_def
        name_def split: if_splits)
  have "fr_name ` set found = {} \<or> name \<notin> fr_name ` set found"
    using resolve_fresh [of "fd_name f" found] by (cases "found = []") (simp_all add: name_def)
  then show ?thesis using s'
    by (auto simp: r createFileRecord_def new_FileRecord_def new_FileSecurityCheck_def isPending_def
        found_def)
qed

lemma map_delete_set_new: "map_get g k = None \<Longrightarrow> map_delete (map_set g k v) k = g"
proof -
  assume n: "map_get g k = None"
  then have "\<forall>e \<in> set g. fst e \<noteq> k" by (force simp: map_get_def map_of_eq_None_iff)
  then show ?thesis by (simp add: map_values_set_new [OF n] map_delete_def filter_id_conv)
qed

lemma files_delete_create: "h k = None \<Longrightarrow> (\<lambda>q. if q = k then None else (h(k \<mapsto> v)) q) = h"
  by (simp add: fun_eq_iff)

lemma map_set_twice: "map_set (map_set g k v) k w = map_set g k w"
  by (induction g) simp_all

text \<open>The rollback: delete the object, then the record.\<close>

definition upload_handler :: "fs_env \<Rightarrow> string \<Rightarrow> FileRecord \<Rightarrow> exn \<Rightarrow> (fs_state, FileRecord) eff" where
  "upload_handler env path r e =
     bindE (client_delete env [path]) (\<lambda>_. bindE (repo_delete env [r]) (\<lambda>_. throwE e))"

lemma upload_handler_restores:
  assumes "fe_fault env (fs_clock s) = None" and "fe_fault env (Suc (fs_clock s)) = None"
  shows "upload_handler env path r e s = (Inl e, s\<lparr>fs_clock := Suc (Suc (fs_clock s)),
    fs_files := (\<lambda>k. if k = path then None else fs_files s k),
    fs_records := map_delete (fs_records s) (fr_id r)\<rparr>)"
  using assms
  by (simp add: upload_handler_def bindE_def client_delete_def s3_deleteObjects_def external_cases
      repo_delete_def throwE_def cong: if_cong)

lemma upload_handler_Inl: "upload_handler env path r e s = (x, s') \<Longrightarrow> \<exists>e'. x = Inl e'"
  by (auto simp: upload_handler_def bindE_def client_delete_def s3_deleteObjects_def external_cases
      repo_delete_def throwE_def split: option.splits)

text \<open>The part of the upload inside the \<^verbatim>\<open>try\<close>.\<close>

definition upload_body :: "fs_env \<Rightarrow> string \<Rightarrow> FileRecord \<Rightarrow> FileDto \<Rightarrow> (fs_state, FileRecord) eff" where
  "upload_body env path r f =
     bindE (client_create env path f) (\<lambda>_.
     let r' = r\<lparr>fr_size := countFileSize f\<rparr> in
     bindE (liftE (throwErrorIfFileIsTooBig env (fr_size r'))) (\<lambda>_.
     bindE (repo_save1 env r') (\<lambda>r''. bindE (antivirus_send env r'') (\<lambda>_. retE r''))))"

lemma createFileInStorage_eq:
  "createFileInStorageAndRollbackOnError env r p f =
     bindE (liftE (createPath (pi_schoolId p) (fr_id r))) (\<lambda>path.
       catchE (upload_body env path r f) (upload_handler env path r))"
  unfolding createFileInStorageAndRollbackOnError_def upload_body_def upload_handler_def [abs_def] ..

text \<open>
  Where the body can stop: at the storage, at the size limit, at the record or at the broker. In
  each case one call failed, or the file is too big.
\<close>

lemma upload_body_Inl:
  assumes "upload_body env path r f s = (Inl e, s')" and "fr_id r \<noteq> []"
  shows "(\<exists>k \<ge> fs_clock s. k < fs_clock s' \<and> fe_fault env k \<noteq> None \<or>
      countFileSize f > fe_maxFileSize env) \<and>
    fs_clock s < fs_clock s' \<and> fs_scans s' = fs_scans s \<and>
    (fs_files s' = fs_files s \<or> fs_files s' = (fs_files s)(path \<mapsto> concat (fd_data f))) \<and>
    (fs_records s' = fs_records s \<or> (\<exists>v. fs_records s' = map_set (fs_records s) (fr_id r) v))"
proof (cases "fe_fault env (fs_clock s)")
  case (Some e1)
  then show ?thesis using assms(1)
    by (auto simp: upload_body_def bindE_def client_create_def catchE_def s3_put_def external_cases
        throwE_def)
next
  case f0: None
  define s1 where "s1 = s\<lparr>fs_clock := Suc (fs_clock s),
    fs_files := (fs_files s)(path \<mapsto> concat (fd_data f))\<rparr>"
  have c: "client_create env path f s = (Inr (), s1)"
    using f0 by (simp add: client_create_def catchE_def s3_put_def external_cases s1_def)
  show ?thesis
  proof (cases "countFileSize f > fe_maxFileSize env")
    case True
    then show ?thesis using assms(1)
      by (auto simp: upload_body_def bindE_def c throwErrorIfFileIsTooBig_def liftE_def s1_def Let_def)
  next
    case small: False
    define r' where "r' = r\<lparr>fr_size := countFileSize f\<rparr>"
    have b: "upload_body env path r f s =
        bindE (repo_save1 env r') (\<lambda>r''. bindE (antivirus_send env r'') (\<lambda>_. retE r'')) s1"
      using small by (simp add: upload_body_def bindE_def c throwErrorIfFileIsTooBig_def liftE_def
          r'_def Let_def)
    show ?thesis
    proof (cases "fe_fault env (fs_clock s1)")
      case (Some e2)
      then show ?thesis using assms(1)
        by (auto simp: b bindE_def repo_save1_eq s1_def intro!: exI [of _ "Suc (fs_clock s)"])
    next
      case f1: None
      then show ?thesis using assms
        by (auto simp: b bindE_def repo_save1_eq s1_def persist_def Let_def r'_def antivirus_send_def
            catchE_def external_cases throwE_def retE_def split: if_splits option.splits sum.splits
            intro!: exI [of _ "Suc (Suc (fs_clock s))"])
    qed
  qed
qed

text \<open>A body that failed used up the one failure there is, and the rollback undoes it.\<close>

lemma failed_body_quiet:
  assumes "upload_body env path r f s = (Inl e, s')" and "fr_id r \<noteq> []"
    and once: "\<And>m n. fe_fault env m \<noteq> None \<Longrightarrow> fe_fault env n \<noteq> None \<Longrightarrow> m = n"
    and big: "length (concat (fd_data f)) > fe_maxFileSize env \<Longrightarrow> fe_fault env = Map.empty"
    and k: "fs_clock s' \<le> k"
  shows "fe_fault env k = None"
proof (rule ccontr)
  assume now: "fe_fault env k \<noteq> None"
  from upload_body_Inl [OF assms(1,2)] consider j where "j < fs_clock s'" "fe_fault env j \<noteq> None"
    | "countFileSize f > fe_maxFileSize env" by blast
  then show False
  proof cases
    case 1
    with once [OF now 1(2)] k show False by simp
  qed (use big now in \<open>simp add: countFileSize_eq\<close>)
qed

lemma failed_body_undone:
  assumes body: "upload_body env path r f s = (Inl e, s')" "fr_id r \<noteq> []"
    and once: "\<And>m n. fe_fault env m \<noteq> None \<Longrightarrow> fe_fault env n \<noteq> None \<Longrightarrow> m = n"
    and big: "length (concat (fd_data f)) > fe_maxFileSize env \<Longrightarrow> fe_fault env = Map.empty"
    and handled: "upload_handler env path r e s' = (x, s'')"
    and start: "fs_records s = map_set t (fr_id r) r" "map_get t (fr_id r) = None" "fs_files s path = None"
  shows "fs_records s'' = t \<and> fs_files s'' = fs_files s \<and> fs_scans s'' = fs_scans s"
proof -
  from upload_body_Inl [OF body] have B: "fs_scans s' = fs_scans s"
    "fs_files s' = fs_files s \<or> fs_files s' = (fs_files s)(path \<mapsto> concat (fd_data f))"
    "fs_records s' = fs_records s \<or> (\<exists>v. fs_records s' = map_set (fs_records s) (fr_id r) v)" by auto
  note quiet = failed_body_quiet [OF body once big]
  from upload_handler_restores [OF quiet quiet, of s' path r e] handled have
    "fs_files s'' = (\<lambda>k. if k = path then None else fs_files s' k)"
    "fs_records s'' = map_delete (fs_records s') (fr_id r)" "fs_scans s'' = fs_scans s'" by auto
  moreover have "(\<lambda>k. if k = path then None else fs_files s' k) = fs_files s"
    using B(2) start(3) by (auto simp: fun_eq_iff)
  moreover have "map_delete (fs_records s') (fr_id r) = t"
    using B(3) map_delete_set_new [OF start(2)] by (auto simp: start(1) map_set_twice)
  ultimately show ?thesis using B(1) by simp
qed

text \<open>C15. A failed upload leaves nothing behind: when at most one external call fails in the course of
  an upload (none, if the file exceeds the size limit), an upload that ends in an exception has the
  file records, the stored objects and the published scan requests as they were.\<close>

theorem upload_failure_leaves_nothing:
  assumes "uploadFile env userId params file s = (Inl e, s')"
    and "\<And>m n. fe_fault env m \<noteq> None \<Longrightarrow> fe_fault env n \<noteq> None \<Longrightarrow> m = n"
    and "length (concat (fd_data file)) > fe_maxFileSize env \<Longrightarrow> fe_fault env = Map.empty"
    and "pi_schoolId params \<noteq> []"
    and "\<And>n. fe_newId env n \<noteq> []"
    and "\<And>n. fs_fresh s \<le> n \<Longrightarrow> map_get (fs_records s) (fe_newId env n) = None \<and>
      fs_files s (pi_schoolId params @ ''/'' @ fe_newId env n) = None"
  shows "fs_records s' = fs_records s \<and> fs_files s' = fs_files s \<and> fs_scans s' = fs_scans s"
proof (cases "\<exists>s1 e1. service_createFileRecord env file params userId s = (Inl e1, s1)")
  case True
  then obtain s1 e1 where c: "service_createFileRecord env file params userId s = (Inl e1, s1)" by blast
  with readsD [OF reads_service(4) c] assms(1) show ?thesis
    by (auto simp: uploadFile_def bindE_def same_store_def)
next
  case False
  then obtain r s1 where c: "service_createFileRecord env file params userId s = (Inr r, s1)"
    by (metis old.prod.exhaust old.sum.exhaust)
  note st1 = readsD [OF reads_service(4) c]
  note r = service_createFileRecord_Inr [OF c]
  show ?thesis
  proof (cases "fe_fault env (fs_clock s1)")
    case (Some e2)
    with c assms(1) st1 show ?thesis
      by (auto simp: uploadFile_def bindE_def repo_save1_eq same_store_def)
  next
    case None
    define i where "i = fe_newId env (fs_fresh s1)"
    define r2 where "r2 = r\<lparr>fr_id := i\<rparr>"
    define s2 where "s2 = s1\<lparr>fs_clock := Suc (fs_clock s1), fs_fresh := Suc (fs_fresh s1),
      fs_records := map_set (fs_records s1) i r2\<rparr>"
    define path where "path = pi_schoolId params @ ''/'' @ i"
    have sv: "repo_save1 env r s1 = (Inr r2, s2)"
      using None r by (simp add: repo_save1_eq persist_def Let_def i_def r2_def s2_def)
    have fresh: "map_get (fs_records s) i = None" "fs_files s path = None" "i \<noteq> []"
      using assms(5,6) r by (simp_all add: i_def path_def)
    have "uploadFile env userId params file s =
        catchE (upload_body env path r2 file) (upload_handler env path r2) s2"
      using assms(4) fresh(3)
      by (simp add: uploadFile_def bindE_def c sv createFileInStorage_eq createPath_def liftE_def
          r2_def path_def)
    with assms(1) obtain e3 s3 where
      body: "upload_body env path r2 file s2 = (Inl e3, s3)" and
      h: "upload_handler env path r2 e3 s3 = (Inl e, s')"
      by (auto simp: catchE_eq_Inl)
    from failed_body_undone [OF body _ assms(2,3) h, of "fs_records s1"] fresh st1 show ?thesis
      by (simp add: r2_def s2_def same_store_def)
  qed
qed

end
