(* ===== verification/FilesStorageInvariant.thy ===== *)
theory FilesStorageInvariant
  imports FilesStorageProperties
begin

text \<open>
  Every operation of the files storage keeps the invariant of its records, whichever calls fail;
  hence every reachable state satisfies it. Also the sample environment of the witnesses.
\<close>

section \<open>The invariant\<close>

text \<open>
  A record names its own key, is no larger than the limit, and has an open scan token only while it
  is pending.
\<close>

definition record_ok :: "nat \<Rightarrow> FileRecord \<Rightarrow> bool" where
  "record_ok mx r \<longleftrightarrow> fr_size r \<le> mx \<and> (isPending r \<or> fsc_requestToken (fr_securityCheck r) = None)"

definition fs_inv :: "nat \<Rightarrow> fs_state \<Rightarrow> bool" where
  "fs_inv mx s \<longleftrightarrow> map_ok (fs_records s) \<and>
     (\<forall>(k, r) \<in> set (fs_records s). fr_id r = k \<and> k \<noteq> [] \<and> record_ok mx r)"

lemma fs_inv_values: "fs_inv mx s \<Longrightarrow> r \<in> set (map_values (fs_records s)) \<Longrightarrow> record_ok mx r"
  by (auto simp: fs_inv_def map_values_def)

lemma set_map_set: "set (map_set g k v) \<subseteq> insert (k, v) (set g)"
  by (induction g) auto

lemma map_set_entries: "map_ok g \<Longrightarrow> (k', v') \<in> set (map_set g k v) \<Longrightarrow>
    (k', v') = (k, v) \<or> k' \<noteq> k \<and> (k', v') \<in> set g"
  using grid_map.put_ok [of g k v] map_get_in [of "map_set g k v" k' v'] map_get_in [of g k' v']
  by (auto simp: map_get_set split: if_splits)

lemma fs_inv_tick [simp]: "fs_inv mx (s\<lparr>fs_clock := n\<rparr>) = fs_inv mx s"
  by (simp add: fs_inv_def)

lemma fs_inv_persist:
  assumes "fs_inv mx s" and "record_ok mx r" and "\<And>n. fe_newId env n \<noteq> []"
  shows "fs_inv mx (snd (persist env r s)) \<and> record_ok mx (fst (persist env r s))"
proof -
  define i where "i = (if fr_id r = [] then fe_newId env (fs_fresh s) else fr_id r)"
  have "i \<noteq> []" using assms(3) by (simp add: i_def)
  moreover have "record_ok mx (r\<lparr>fr_id := i\<rparr>)" using assms(2) by (simp add: record_ok_def isPending_def)
  ultimately show ?thesis using assms(1) grid_map.put_ok [of "fs_records s" i "r\<lparr>fr_id := i\<rparr>"]
    by (auto simp: persist_def Let_def fs_inv_def i_def [symmetric] dest: map_set_entries)
qed

lemma fs_inv_persist_all:
  assumes "\<And>n. fe_newId env n \<noteq> []"
  shows "fs_inv mx s \<Longrightarrow> list_all (record_ok mx) rs \<Longrightarrow>
    fs_inv mx (snd (persist_all env rs s)) \<and> list_all (record_ok mx) (fst (persist_all env rs s))"
proof (induction rs arbitrary: s)
  case (Cons r rs)
  from fs_inv_persist [OF Cons.prems(1) _ assms, of r] Cons.prems(2) Cons.IH show ?case
    by (auto simp: Let_def split: prod.split) (metis fst_conv snd_conv)+
qed simp

text \<open>What is asked of the environment: generated ids are not empty.\<close>

definition env_ok :: "nat \<Rightarrow> fs_env \<Rightarrow> bool" where
  "env_ok mx env \<longleftrightarrow> (\<forall>n. fe_newId env n \<noteq> []) \<and> fe_maxFileSize env = mx"

lemma runs_external:
  assumes "\<And>s. fs_inv mx s \<Longrightarrow> fs_inv mx (snd (act s)) \<and> (\<forall>x. fst (act s) = Inr x \<longrightarrow> Q x)"
  shows "runs (fs_inv mx) (external env act) Q"
proof (rule runsI)
  fix s assume "fs_inv mx s"
  then show "fs_inv mx (snd (external env act s)) \<and> (\<forall>x. fst (external env act s) = Inr x \<longrightarrow> Q x)"
    using assms [of "s\<lparr>fs_clock := Suc (fs_clock s)\<rparr>"]
    by (cases "fe_fault env (fs_clock s)") (simp_all add: external_cases)
qed

lemma runs_find_one: "runs (fs_inv mx) (findOneOrFail env sc) (record_ok mx)"
  unfolding findOneOrFail_def
  by (rule runs_external) (auto split: option.split dest!: find_eq_Some intro: fs_inv_values)

lemma runs_find_all: "runs (fs_inv mx) (findAndCount env sc) (\<lambda>(rs, n). list_all (record_ok mx) rs)"
  unfolding findAndCount_def
  by (rule runs_external) (auto simp: Let_def list_all_iff intro: fs_inv_values)

lemma runs_save:
  assumes "env_ok mx env" and "list_all (record_ok mx) rs"
  shows "runs (fs_inv mx) (repo_save env rs) (list_all (record_ok mx))"
  unfolding repo_save_def
proof (rule runs_external)
  fix s assume "fs_inv mx s"
  from fs_inv_persist_all [OF _ this assms(2), of env] assms(1)
  show "fs_inv mx (snd (let (rs', s') = persist_all env rs s in (Inr rs', s'))) \<and>
      (\<forall>x. fst (let (rs', s') = persist_all env rs s in (Inr rs', s')) = Inr x \<longrightarrow> list_all (record_ok mx) x)"
    by (cases "persist_all env rs s") (simp add: env_ok_def)
qed

lemma runs_save1:
  assumes "env_ok mx env" and "record_ok mx r"
  shows "runs (fs_inv mx) (repo_save1 env r) (record_ok mx)"
proof (rule runsI)
  fix s assume "fs_inv mx s"
  then have "fs_inv mx (s\<lparr>fs_clock := Suc (fs_clock s)\<rparr>)" by simp
  from fs_inv_persist [OF this assms(2), of env] assms(1)
  show "fs_inv mx (snd (repo_save1 env r s)) \<and> (\<forall>x. fst (repo_save1 env r s) = Inr x \<longrightarrow> record_ok mx x)"
    using \<open>fs_inv mx s\<close> by (cases "persist env r (s\<lparr>fs_clock := Suc (fs_clock s)\<rparr>)")
      (auto simp: repo_save1_eq Let_def env_ok_def split: option.split)
qed

lemma fs_inv_fold_delete:
  "fs_inv mx s \<Longrightarrow> fs_inv mx (s\<lparr>fs_records := fold (\<lambda>r m. map_delete m (fr_id r)) rs (fs_records s)\<rparr>)"
proof (induction rs arbitrary: s)
  case (Cons r rs)
  have "fs_inv mx (s\<lparr>fs_records := map_delete (fs_records s) (fr_id r)\<rparr>)"
    using Cons.prems grid_map.del_ok [of "fs_records s"] by (auto simp: fs_inv_def map_delete_def)
  from Cons.IH [OF this] show ?case by simp
qed simp

lemma runs_repo_delete: "runs (fs_inv mx) (repo_delete env rs) (\<lambda>_. True)"
  unfolding repo_delete_def by (rule runs_external) (simp add: fs_inv_fold_delete)

lemma runs_storage:
  "runs (fs_inv mx) (s3_put env k c) (\<lambda>_. True)" "runs (fs_inv mx) (s3_get env k) (\<lambda>_. True)"
  "runs (fs_inv mx) (s3_copyObject env p) (\<lambda>_. True)" "runs (fs_inv mx) (s3_deleteObjects env ks) (\<lambda>_. True)"
  unfolding s3_put_def s3_get_def s3_copyObject_def s3_deleteObjects_def
  by (rule runs_external; auto simp: fs_inv_def split: option.split)+

lemma runs_client:
  "runs (fs_inv mx) (client_create env k f) (\<lambda>_. True)" "runs (fs_inv mx) (client_get env k) (\<lambda>_. True)"
  "runs (fs_inv mx) (client_copy env ps) (\<lambda>_. True)" "runs (fs_inv mx) (client_delete env ks) (\<lambda>_. True)"
  unfolding client_create_def client_get_def client_copy_def client_delete_def
  by (auto intro!: runs_catch runs_storage runs_ret runs_True [OF runs_mapME])

lemma runs_trash:
  "runs (fs_inv mx) (client_moveToTrash env ks) (\<lambda>_. True)" "runs (fs_inv mx) (client_restore env ks) (\<lambda>_. True)"
  unfolding client_moveToTrash_def client_restore_def Let_def
  by (auto intro!: runs_catch runs_bind [OF runs_client(3)] runs_bind [OF runs_client(4)] runs_ret)

lemma runs_antivirus: "runs (fs_inv mx) (antivirus_send env r) (\<lambda>_. True)"
  unfolding antivirus_send_def
  by (auto intro!: runs_catch runs_ret runs_external simp: fs_inv_def)

lemma runs_uuid: "runs (fs_inv mx) (fresh_uuid env) (\<lambda>_. True)"
  by (simp add: runs_def fresh_uuid_def fs_inv_def)

lemma runs_check: "runs (fs_inv mx) (uc_checkParent auth u p ctx) (\<lambda>_. True)"
  unfolding uc_checkParent_def by (rule runs_lift) simp

lemma record_ok_updates:
  "record_ok mx (createFileRecord now uuid n 0 ty p u)"
  "record_ok mx r \<Longrightarrow> record_ok mx (FileRecord_copy now uuid r u p)"
  "record_ok mx r \<Longrightarrow> record_ok mx (FileRecord_markForDelete now r)"
  "record_ok mx r \<Longrightarrow> record_ok mx (FileRecord_unmarkForDelete r)"
  "record_ok mx r \<Longrightarrow> record_ok mx (updateSecurityCheckStatus now r st why)"
  "record_ok mx r \<Longrightarrow> setName r n = Inr r' \<Longrightarrow> record_ok mx r'"
  "record_ok mx r \<Longrightarrow> k \<le> mx \<Longrightarrow> record_ok mx (r\<lparr>fr_size := k\<rparr>)"
  by (auto simp: record_ok_def createFileRecord_def new_FileRecord_def new_FileSecurityCheck_def
      isPending_def FileRecord_copy_def isVerified_def Let_def FileRecord_markForDelete_def
      FileRecord_unmarkForDelete_def updateSecurityCheckStatus_def setName_def split: if_splits)

lemma record_ok_lists:
  "list_all (record_ok mx) rs \<Longrightarrow> list_all (record_ok mx) (markForDelete now rs)"
  "list_all (record_ok mx) rs \<Longrightarrow> list_all (record_ok mx) (unmarkForDelete rs)"
  by (auto simp: markForDelete_def unmarkForDelete_def list_all_iff record_ok_updates)

lemma runs_upload:
  assumes ok: "env_ok mx env"
  shows "runs (fs_inv mx) (uploadFile env u p f) (record_ok mx)"
proof -
  have find: "runs (fs_inv mx) (getFileRecordsOfParent env p) (\<lambda>(rs, n). list_all (record_ok mx) rs)"
    unfolding getFileRecordsOfParent_def findBySchoolIdAndParentId_def by (rule runs_find_all)
  have create: "runs (fs_inv mx) (service_createFileRecord env f p u) (record_ok mx)"
    unfolding service_createFileRecord_def resolveFileName_def
    by (rule runs_bind [of _ _ "\<lambda>_. True"])
      (auto intro!: runs_bind [OF find] runs_bind [OF runs_uuid] runs_ret record_ok_updates(1) split: prod.split)
  have body: "runs (fs_inv mx) (upload_body env path r f) (record_ok mx)" if "record_ok mx r" for path r
    unfolding upload_body_def Let_def
  proof (rule runs_bind [OF runs_client(1)], rule runs_bind)
    show "runs (fs_inv mx) (liftE (throwErrorIfFileIsTooBig env (fr_size (r\<lparr>fr_size := countFileSize f\<rparr>))))
        (\<lambda>_. countFileSize f \<le> mx)"
      using ok by (intro runs_lift) (auto simp: throwErrorIfFileIsTooBig_def env_ok_def split: if_splits)
    show "runs (fs_inv mx) (bindE (repo_save1 env (r\<lparr>fr_size := countFileSize f\<rparr>))
        (\<lambda>r''. bindE (antivirus_send env r'') (\<lambda>_. retE r''))) (record_ok mx)"
      if "countFileSize f \<le> mx"
      using \<open>record_ok mx r\<close> that
      by (intro runs_bind [OF runs_save1 [OF ok]] runs_bind [OF runs_antivirus] runs_ret record_ok_updates(7))
  qed
  have handler: "runs (fs_inv mx) (upload_handler env path r e) Q" for path r e Q
    unfolding upload_handler_def
    by (intro runs_bind [OF runs_client(4)] runs_bind [OF runs_repo_delete] runs_ret)
  have rest: "runs (fs_inv mx) (createFileInStorageAndRollbackOnError env r p f) (record_ok mx)"
    if "record_ok mx r" for r
    unfolding createFileInStorage_eq
    by (rule runs_bind [OF runs_lift [of _ "\<lambda>_. True"]]) (simp_all add: runs_catch body handler that)
  show ?thesis
    unfolding uploadFile_def
    by (rule runs_bind [OF create], rule runs_bind [OF runs_save1 [OF ok]]) (simp_all add: rest)
qed

lemma runs_delete: "env_ok mx env \<Longrightarrow> list_all (record_ok mx) rs \<Longrightarrow> runs (fs_inv mx) (service_delete env rs) (list_all (record_ok mx))"
  unfolding service_delete_def deleteWithRollbackByError_def deleteFilesInFilesStorageClient_def Let_def
  by (intro runs_bind [OF runs_save] runs_bind [of _ _ "\<lambda>_. True"] runs_catch record_ok_lists
      runs_bind [OF runs_lift [of _ "\<lambda>_. True"]] runs_bind [OF runs_trash(1)] runs_ret) simp_all

lemma runs_restore: "env_ok mx env \<Longrightarrow> list_all (record_ok mx) rs \<Longrightarrow> runs (fs_inv mx) (service_restore env rs) (list_all (record_ok mx))"
  unfolding service_restore_def restoreWithRollbackByError_def restoreFilesInFileStorageClient_def Let_def
  by (intro runs_bind [OF runs_save] runs_bind [of _ _ "\<lambda>_. True"] runs_catch record_ok_lists
      runs_bind [OF runs_lift [of _ "\<lambda>_. True"]] runs_bind [OF runs_trash(2)] runs_ret) simp_all

lemma runs_copy:
  assumes ok: "env_ok mx env" and rs: "list_all (record_ok mx) rs"
  shows "runs (fs_inv mx) (service_copy env u rs p) (\<lambda>_. True)"
proof -
  have copy: "runs (fs_inv mx) (copyFileRecord env r p u) (record_ok mx)" if "record_ok mx r" for r
    unfolding copyFileRecord_def
    using that by (intro runs_bind [OF runs_uuid] runs_save1 [OF ok] record_ok_updates(2))
  have send: "runs (fs_inv mx) (sendToAntiVirusService env r) (\<lambda>_. True)" for r
    by (simp add: sendToAntiVirusService_def runs_antivirus runs_ret)
  have target: "runs (fs_inv mx) (copyFilesWithRollbackOnError env r q) (\<lambda>_. True)" for r q
    unfolding copyFilesWithRollbackOnError_def
  proof (rule runs_catch)
    show "runs (fs_inv mx) (bindE (liftE (createICopyFiles r q)) (\<lambda>paths.
        bindE (client_copy env [paths]) (\<lambda>_. bindE (sendToAntiVirusService env r) (\<lambda>_.
          retE (CopyFileResponseBuilder_build (fr_id q) (fr_id r) (fr_name q)))))) (\<lambda>_. True)"
      by (rule runs_bind [OF runs_lift [of _ "\<lambda>_. True"]], simp, rule runs_bind [OF runs_client(3)],
        rule runs_bind [OF send], rule runs_ret, simp)
  qed (rule runs_bind [OF runs_repo_delete], rule runs_ret)
  have "runs (fs_inv mx) (catchE (bindE (liftE (checkScanStatus r)) (\<lambda>_.
      bindE (copyFileRecord env r p u) (\<lambda>q. copyFilesWithRollbackOnError env r q)))
      (\<lambda>error. retE \<lparr>cfr_id = None, cfr_sourceId = fr_id r, cfr_name = fr_name r\<rparr>)) (\<lambda>_. True)"
    if "record_ok mx r" for r
    by (rule runs_catch, rule runs_bind [OF runs_lift [of _ "\<lambda>_. True"]], simp,
      rule runs_bind [OF copy [OF that]], rule target, rule runs_ret, simp)
  then show ?thesis
    unfolding service_copy_def using rs
    by (intro runs_True [OF runs_mapME [of _ _ _ "\<lambda>_. True"]]) (simp add: list_all_iff)
qed


subsection \<open>The use cases keep the invariant\<close>

lemma runs_finders:
  "runs (fs_inv mx) (getFileRecord env i) (record_ok mx)"
  "runs (fs_inv mx) (getFileRecordMarkedForDelete env i) (record_ok mx)"
  "runs (fs_inv mx) (findBySecurityCheckRequestToken env t) (record_ok mx)"
  "runs (fs_inv mx) (getFileRecordsOfParent env p) (\<lambda>(rs, n). list_all (record_ok mx) rs)"
  "runs (fs_inv mx) (findBySchoolIdAndParentId env x y) (\<lambda>(rs, n). list_all (record_ok mx) rs)"
  "runs (fs_inv mx) (findBySchoolIdAndParentIdAndMarkedForDelete env x y) (\<lambda>(rs, n). list_all (record_ok mx) rs)"
  unfolding getFileRecord_def findOneById_def getFileRecordMarkedForDelete_def
    findOneByIdMarkedForDelete_def findBySecurityCheckRequestToken_def getFileRecordsOfParent_def
    findBySchoolIdAndParentId_def findBySchoolIdAndParentIdAndMarkedForDelete_def
  by (rule runs_find_one runs_find_all)+

lemma runs_liftE_True: "runs I (liftE r) (\<lambda>_. True)"
  by (rule runs_lift) simp

lemma runs_download_file: "runs (fs_inv mx) (downloadFile env x y) (\<lambda>_. True)"
  unfolding downloadFile_def by (rule runs_bind [OF runs_liftE_True]) (rule runs_client)

lemma runs_patch:
  assumes "env_ok mx env" and "record_ok mx r"
  shows "runs (fs_inv mx) (patchFilename env r n) (record_ok mx)"
proof -
  have name: "runs (fs_inv mx) (liftE (setName r n)) (record_ok mx)"
    by (rule runs_lift) (rule record_ok_updates(6) [OF assms(2)])
  show ?thesis
    unfolding patchFilename_def
    by (rule runs_bind [OF runs_finders(4)], simp only: split_paired_all prod.case,
      rule runs_bind [OF runs_liftE_True], rule runs_bind [OF name], rule runs_save1 [OF assms(1)])
qed

lemma runs_update_status:
  "env_ok mx env \<Longrightarrow> runs (fs_inv mx) (updateSecurityStatus env t sr) (\<lambda>_. True)"
  unfolding updateSecurityStatus_def Let_def
  by (rule runs_bind [OF runs_finders(3)], rule runs_bind [OF runs_save1])
    (auto intro: record_ok_updates(5) runs_ret)

lemma runs_uc:
  assumes ok: "env_ok mx env"
  shows "runs (fs_inv mx) (uc_upload auth env u p f) (record_ok mx)"
    and "runs (fs_inv mx) (uc_uploadFromUrl auth env http u p url n) (record_ok mx)"
    and "runs (fs_inv mx) (uc_download auth env u i n) (\<lambda>_. True)"
    and "runs (fs_inv mx) (uc_downloadBySecurityToken env t) (\<lambda>_. True)"
    and "runs (fs_inv mx) (uc_deleteFilesOfParent auth env u p) (\<lambda>_. True)"
    and "runs (fs_inv mx) (uc_deleteOneFile auth env u i) (\<lambda>_. True)"
    and "runs (fs_inv mx) (uc_restoreFilesOfParent auth env u p) (\<lambda>_. True)"
    and "runs (fs_inv mx) (uc_restoreOneFile auth env u i) (\<lambda>_. True)"
    and "runs (fs_inv mx) (uc_copyFilesOfParent auth env u p q) (\<lambda>_. True)"
    and "runs (fs_inv mx) (uc_copyOneFile auth env u i q) (\<lambda>_. True)"
    and "runs (fs_inv mx) (uc_patchFilename auth env u i n) (record_ok mx)"
    and "runs (fs_inv mx) (uc_updateSecurityStatus env t sr) (\<lambda>_. True)"
    and "runs (fs_inv mx) (uc_getFileRecordsOfParent auth env u p) (\<lambda>_. True)"
    and "runs (fs_inv mx) (consumer_copyFilesOfParent env u p q) (\<lambda>_. True)"
    and "runs (fs_inv mx) (consumer_getFilesOfParent env p) (\<lambda>_. True)"
    and "runs (fs_inv mx) (consumer_deleteFilesOfParent env p) (\<lambda>_. True)"
proof -
  show "runs (fs_inv mx) (uc_upload auth env u p f) (record_ok mx)"
    unfolding uc_upload_def by (rule runs_bind [OF runs_check]) (rule runs_upload [OF ok])
  show "runs (fs_inv mx) (uc_uploadFromUrl auth env http u p url n) (record_ok mx)"
    unfolding uc_uploadFromUrl_def
    by (rule runs_bind [OF runs_check], rule runs_bind [OF runs_liftE_True])
      (auto split: prod.split intro: runs_upload [OF ok])
  show "runs (fs_inv mx) (uc_download auth env u i n) (\<lambda>_. True)"
    unfolding uc_download_def service_download_def
    by (rule runs_bind [OF runs_finders(1)], rule runs_bind [OF runs_check],
      rule runs_bind [OF runs_liftE_True], rule runs_bind [OF runs_liftE_True], rule runs_download_file)
  show "runs (fs_inv mx) (uc_downloadBySecurityToken env t) (\<lambda>_. True)"
    unfolding uc_downloadBySecurityToken_def getFileRecordBySecurityCheckRequestToken_def
    by (rule runs_bind [OF runs_finders(3)]) (rule runs_download_file)
  show "runs (fs_inv mx) (uc_deleteFilesOfParent auth env u p) (\<lambda>_. True)"
    unfolding uc_deleteFilesOfParent_def service_deleteFilesOfParent_def
    by (rule runs_bind [OF runs_check], rule runs_bind [OF runs_finders(4)])
      (auto split: prod.split intro!: runs_bind [OF runs_delete [OF ok]] runs_ret)
  show "runs (fs_inv mx) (uc_deleteOneFile auth env u i) (\<lambda>_. True)"
    unfolding uc_deleteOneFile_def
    by (rule runs_bind [OF runs_finders(1)], rule runs_bind [OF runs_check])
      (auto intro!: runs_bind [OF runs_delete [OF ok]] runs_ret)
  show "runs (fs_inv mx) (uc_restoreFilesOfParent auth env u p) (\<lambda>_. True)"
    unfolding uc_restoreFilesOfParent_def service_restoreFilesOfParent_def
    by (rule runs_bind [OF runs_check], rule runs_bind [OF runs_finders(6)])
      (auto split: prod.split intro!: runs_bind [OF runs_restore [OF ok]] runs_ret)
  show "runs (fs_inv mx) (uc_restoreOneFile auth env u i) (\<lambda>_. True)"
    unfolding uc_restoreOneFile_def
    by (rule runs_bind [OF runs_finders(2)], rule runs_bind [OF runs_check])
      (auto intro!: runs_bind [OF runs_restore [OF ok]] runs_ret)
  show "runs (fs_inv mx) (uc_copyFilesOfParent auth env u p q) (\<lambda>_. True)"
    unfolding uc_copyFilesOfParent_def service_copyFilesOfParent_def
    by (rule runs_bind [OF runs_check], rule runs_bind [OF runs_check], rule runs_bind [OF runs_finders(5)])
      (auto split: prod.split intro!: runs_bind [OF runs_copy [OF ok]] runs_ret)
  show "runs (fs_inv mx) (uc_copyOneFile auth env u i q) (\<lambda>_. True)"
    unfolding uc_copyOneFile_def
    by (rule runs_bind [OF runs_finders(1)], rule runs_bind [OF runs_check], rule runs_bind [OF runs_check])
      (auto intro!: runs_bind [OF runs_copy [OF ok]] runs_ret)
  show "runs (fs_inv mx) (uc_patchFilename auth env u i n) (record_ok mx)"
    unfolding uc_patchFilename_def
    by (rule runs_bind [OF runs_finders(1)], rule runs_bind [OF runs_check]) (rule runs_patch [OF ok])
  show "runs (fs_inv mx) (uc_updateSecurityStatus env t sr) (\<lambda>_. True)"
    unfolding uc_updateSecurityStatus_def by (rule runs_update_status [OF ok])
  show "runs (fs_inv mx) (uc_getFileRecordsOfParent auth env u p) (\<lambda>_. True)"
    unfolding uc_getFileRecordsOfParent_def
    by (rule runs_bind [OF runs_check]) (rule runs_True [OF runs_finders(4)])
  show "runs (fs_inv mx) (consumer_copyFilesOfParent env u p q) (\<lambda>_. True)"
    unfolding consumer_copyFilesOfParent_def service_copyFilesOfParent_def
    by (rule runs_bind, rule runs_bind [OF runs_finders(5)])
      (auto split: prod.split intro!: runs_bind [OF runs_copy [OF ok]] runs_ret)
  show "runs (fs_inv mx) (consumer_getFilesOfParent env p) (\<lambda>_. True)"
    unfolding consumer_getFilesOfParent_def
    by (rule runs_bind [OF runs_finders(4)]) (auto split: prod.split intro!: runs_ret)
  show "runs (fs_inv mx) (consumer_deleteFilesOfParent env p) (\<lambda>_. True)"
    unfolding consumer_deleteFilesOfParent_def service_deleteFilesOfParent_def
    by (rule runs_bind, rule runs_bind [OF runs_finders(4)])
      (auto split: prod.split intro!: runs_bind [OF runs_delete [OF ok]] runs_ret)
qed

lemma fs_exec_inv: "env_ok mx env \<Longrightarrow> fs_inv mx s \<Longrightarrow> fs_inv mx (fs_exec auth http env c s)"
  by (cases c) (simp_all only: fs_exec.simps, (rule runsD [OF runs_uc(1)] runsD [OF runs_uc(2)]
      runsD [OF runs_uc(3)] runsD [OF runs_uc(4)] runsD [OF runs_uc(5)] runsD [OF runs_uc(6)]
      runsD [OF runs_uc(7)] runsD [OF runs_uc(8)] runsD [OF runs_uc(9)] runsD [OF runs_uc(10)]
      runsD [OF runs_uc(11)] runsD [OF runs_uc(12)] runsD [OF runs_uc(13)] runsD [OF runs_uc(14)]
      runsD [OF runs_uc(15)] runsD [OF runs_uc(16)], assumption+)+)

text \<open>C3. Whatever requests and messages were served, under whatever permissions and failures of the outside: every
  stored record is found under its own non-empty id and once, is at most as large as the limit, and
  can be reached by a scan token only while its scan is pending.\<close>

theorem fs_reachable_invariant:
  assumes "fs_reachable http env s" and "\<And>n. fe_newId env n \<noteq> []"
  shows "map_ok (fs_records s) \<and> (\<forall>(k, r) \<in> set (fs_records s). fr_id r = k \<and> k \<noteq> [] \<and>
    fr_size r \<le> fe_maxFileSize env \<and> (isPending r \<or> fsc_requestToken (fr_securityCheck r) = None))"
proof -
  from assms(1) have "fs_inv (fe_maxFileSize env) s"
  proof induction
    case initial
    show ?case by (simp add: fs_inv_def)
  next
    case (step s s')
    from step.hyps(2) step.IH assms(2) show ?case
      by (auto simp: env_ok_def elim!: fs_stepE intro!: fs_exec_inv)
  qed
  then show ?thesis by (auto simp: fs_inv_def record_ok_def)
qed

definition ex_fs_env :: "(nat \<Rightarrow> exn option) \<Rightarrow> fs_env" where
  "ex_fs_env faults = \<lparr>fe_now = 7, fe_fault = faults, fe_newId = (\<lambda>n. ''id'' @ nat_string n),
     fe_uuid = (\<lambda>n. ''token'' @ nat_string n), fe_maxFileSize = 100, fe_antivirus = True\<rparr>"

lemma ex_fs_env_sel [simp]:
  "fe_now (ex_fs_env fa) = 7" "fe_fault (ex_fs_env fa) = fa" "fe_newId (ex_fs_env fa) n = ''id'' @ nat_string n"
  "fe_uuid (ex_fs_env fa) n = ''token'' @ nat_string n" "fe_maxFileSize (ex_fs_env fa) = 100"
  "fe_antivirus (ex_fs_env fa)"
  by (simp_all add: ex_fs_env_def)

abbreviation ex_fs_empty :: fs_state where
  "ex_fs_empty \<equiv> \<lparr>fs_clock = 0, fs_fresh = 0, fs_records = [], fs_files = Map.empty, fs_scans = []\<rparr>"

definition ex_parent :: FileRecordParams where
  "ex_parent = \<lparr>pi_schoolId = ''school'', pi_parentId = ''task'', pi_parentType = Parent_Task\<rparr>"

definition ex_file :: FileDto where
  "ex_file = \<lparr>fd_name = ''a.txt'', fd_data = [''ab'', ''c''], fd_mimeType = ''text/plain''\<rparr>"

theorem fs_reachable_invariant_witness:
  "map_ok (fs_records (fs_exec (\<lambda>_ _ _ _. Inr ()) (\<lambda>_. Inl TypeError) (ex_fs_env Map.empty)
     (Upload ''u'' ex_parent ex_file) ex_fs_empty))"
  by (rule fs_reachable_invariant
      [where env = "ex_fs_env Map.empty" and http = "\<lambda>_. Inl TypeError", THEN conjunct1])
    (rule fs_reachable.step [OF fs_reachable.initial], rule fs_step.request, simp_all)

end
