(* ===== verification/FilesStorageAccess.thy ===== *)
theory FilesStorageAccess
  imports FilesStorageInvariant
begin

text \<open>
  Who can change and read what in the files storage, and how the scan protocol and the rollbacks
  of deletion and copy behave.
\<close>

section \<open>A failing and a succeeding upload\<close>

lemma ex_upload_fails:
  "\<exists>e s'. uploadFile (ex_fs_env [2 \<mapsto> External ''S3'']) ''u'' ex_parent ex_file ex_fs_empty = (Inl e, s')"
  by (simp add: uploadFile_def service_createFileRecord_def resolveFileName_def
      getFileRecordsOfParent_def findBySchoolIdAndParentId_def findAndCount_def external_cases
      map_values_def bindE_def retE_def fresh_uuid_def repo_save1_eq persist_def Let_def
      createFileInStorage_eq createPath_def liftE_def catchE_def upload_body_def client_create_def
      s3_put_def throwE_def upload_handler_def client_delete_def s3_deleteObjects_def
      repo_delete_def ex_parent_def createFileRecord_def new_FileRecord_def)

theorem upload_failure_leaves_nothing_witness:
  "\<exists>e s'. uploadFile (ex_fs_env [2 \<mapsto> External ''S3'']) ''u'' ex_parent ex_file ex_fs_empty = (Inl e, s') \<and>
     fs_records s' = [] \<and> fs_files s' = Map.empty"
proof -
  from ex_upload_fails obtain e s' where u:
    "uploadFile (ex_fs_env [2 \<mapsto> External ''S3'']) ''u'' ex_parent ex_file ex_fs_empty = (Inl e, s')" by blast
  have "fs_records s' = fs_records ex_fs_empty \<and> fs_files s' = fs_files ex_fs_empty \<and>
      fs_scans s' = fs_scans ex_fs_empty"
    by (rule upload_failure_leaves_nothing [OF u])
      (auto simp: ex_file_def ex_parent_def map_get_def split: if_splits)
  with u show ?thesis by auto
qed

text \<open>A successful upload stores the content of the file under the path of its record, within the
  size limit, under a name no other file of the parent has, and asks for a scan of exactly this
  record, which stays pending.\<close>

theorem upload_success:
  assumes "uploadFile env userId params file s = (Inr r, s')"
    and "fe_antivirus env" and "\<And>n. fe_uuid env n \<noteq> []" and "\<And>n. fe_newId env n \<noteq> []"
  shows "map_get (fs_records s') (fr_id r) = Some r \<and>
    fs_files s' (pi_schoolId params @ ''/'' @ fr_id r) = Some (concat (fd_data file)) \<and>
    fr_size r = length (concat (fd_data file)) \<and> fr_size r \<le> fe_maxFileSize env \<and>
    fr_parentId r = pi_parentId params \<and> isPending r \<and>
    (\<exists>t. fsc_requestToken (fr_securityCheck r) = Some t \<and> fs_scans s' = fs_scans s @ [t]) \<and>
    (\<forall>q \<in> set (map_values (fs_records s)). fr_schoolId q = pi_schoolId params \<longrightarrow>
       fr_parentId q = pi_parentId params \<longrightarrow> fr_deletedSince q = None \<longrightarrow> fr_name q \<noteq> fr_name r)"
proof -
  from assms(1) obtain r1 s1 r2 s2 where c: "service_createFileRecord env file params userId s = (Inr r1, s1)"
    and sv: "repo_save1 env r1 s1 = (Inr r2, s2)"
    and st: "createFileInStorageAndRollbackOnError env r2 params file s2 = (Inr r, s')"
    by (auto simp: uploadFile_def bindE_eq_Inr)
  note st1 = readsD [OF reads_service(4) c]
  note r1 = service_createFileRecord_Inr [OF c]
  have r2: "r2 = r1\<lparr>fr_id := fe_newId env (fs_fresh s1)\<rparr>" "fs_scans s2 = fs_scans s1"
    using sv r1 by (auto simp: repo_save1_eq persist_def Let_def split: option.splits)
  from st obtain path where path: "createPath (pi_schoolId params) (fr_id r2) = Inr path"
    and b: "catchE (upload_body env path r2 file) (upload_handler env path r2) s2 = (Inr r, s')"
    by (auto simp: createFileInStorage_eq bindE_eq_Inr liftE_def)
  from b upload_handler_Inl have "upload_body env path r2 file s2 = (Inr r, s')"
    by (fastforce simp: catchE_eq_Inr)
  then obtain s3 r3 s4 where cr: "client_create env path file s2 = (Inr (), s3)"
    and size: "\<not> countFileSize file > fe_maxFileSize env"
    and sv2: "repo_save1 env (r2\<lparr>fr_size := countFileSize file\<rparr>) s3 = (Inr r3, s4)"
    and av: "antivirus_send env r3 s4 = (Inr (), s')" and r: "r = r3"
    by (auto simp: upload_body_def bindE_eq_Inr liftE_def throwErrorIfFileIsTooBig_def retE_def Let_def
        split: if_splits)
  have s3: "fs_files s3 = (fs_files s2)(path \<mapsto> concat (fd_data file))" "fs_scans s3 = fs_scans s2"
    using cr by (auto simp: client_create_def catchE_eq_Inr s3_put_def external_cases throwE_def
        split: option.splits)
  have id: "fr_id r2 \<noteq> []" using assms(4) by (simp add: r2)
  have s4: "r3 = r2\<lparr>fr_size := countFileSize file\<rparr>" "fs_files s4 = fs_files s3" "fs_scans s4 = fs_scans s3"
      "map_get (fs_records s4) (fr_id r3) = Some r3"
    using sv2 id by (auto simp: repo_save1_eq persist_def Let_def map_get_set split: option.splits)
  obtain t where t: "fsc_requestToken (fr_securityCheck r3) = Some t" "t \<noteq> []"
    using r1 assms(3) by (auto simp: s4(1) r2)
  then have s': "fs_files s' = fs_files s4" "fs_records s' = fs_records s4" "fs_scans s' = fs_scans s4 @ [t]"
    using av assms(2) by (auto simp: antivirus_send_def catchE_eq_Inr external_cases throwE_def truthy_def
        split: option.splits)
  have "path = pi_schoolId params @ ''/'' @ fr_id r"
    using path by (auto simp: createPath_def r s4(1) split: if_splits)
  then show ?thesis
    using s' s4 s3 size t st1 r1 r2
    by (auto simp: r countFileSize_eq isPending_def same_store_def)
qed

lemma ex_upload_succeeds:
  "\<exists>r s'. uploadFile (ex_fs_env Map.empty) ''u'' ex_parent ex_file ex_fs_empty = (Inr r, s')"
  by (simp add: uploadFile_def service_createFileRecord_def resolveFileName_def
      getFileRecordsOfParent_def findBySchoolIdAndParentId_def findAndCount_def external_cases
      map_values_def bindE_def retE_def fresh_uuid_def repo_save1_eq persist_def Let_def
      createFileInStorage_eq createPath_def liftE_def catchE_def upload_body_def client_create_def
      s3_put_def throwErrorIfFileIsTooBig_def countFileSize_def antivirus_send_def truthy_def
      new_FileSecurityCheck_def
      ex_parent_def ex_file_def createFileRecord_def new_FileRecord_def)

theorem upload_success_witness:
  "\<exists>r s'. uploadFile (ex_fs_env Map.empty) ''u'' ex_parent ex_file ex_fs_empty = (Inr r, s') \<and>
     fr_size r = 3 \<and> isPending r"
proof -
  from ex_upload_succeeds obtain r s' where u:
    "uploadFile (ex_fs_env Map.empty) ''u'' ex_parent ex_file ex_fs_empty = (Inr r, s')" by blast
  have "fr_size r = length (concat (fd_data ex_file))" "isPending r"
    using upload_success [OF u] by simp_all
  with u show ?thesis by (simp add: ex_file_def)
qed

section \<open>Permission\<close>

definition allowed :: "auth_check \<Rightarrow> EntityId \<Rightarrow> IParentInfo \<Rightarrow> IPermissionContext \<Rightarrow> bool" where
  "allowed auth u p ctx \<longleftrightarrow> uc_checkPermission auth u (pi_parentType p) (pi_parentId p) ctx = Inr ()"

text \<open>
  What a request must be allowed to do. The scanner's callback only needs an open token, and a message
  of the broker only needs files of the parent it names.
\<close>

definition has_files :: "fs_state \<Rightarrow> FileRecordParams \<Rightarrow> bool" where
  "has_files s p \<longleftrightarrow> (\<exists>r \<in> set (map_values (fs_records s)). fr_schoolId r = pi_schoolId p \<and>
     fr_parentId r = pi_parentId p \<and> fr_deletedSince r = None)"

fun authorized :: "auth_check \<Rightarrow> fs_state \<Rightarrow> fs_command \<Rightarrow> bool" where
  "authorized auth s (Upload u p f) = allowed auth u p PermissionContexts_create"
| "authorized auth s (UploadFromUrl u p url n) = allowed auth u p PermissionContexts_create"
| "authorized auth s (DeleteFilesOfParent u p) = allowed auth u p PermissionContexts_delete"
| "authorized auth s (DeleteOneFile u i) =
     (\<exists>r \<in> set (map_values (fs_records s)). fr_id r = i \<and> allowed auth u (getParentInfo r) PermissionContexts_delete)"
| "authorized auth s (RestoreFilesOfParent u p) = allowed auth u p PermissionContexts_create"
| "authorized auth s (RestoreOneFile u i) =
     (\<exists>r \<in> set (map_values (fs_records s)). fr_id r = i \<and> allowed auth u (getParentInfo r) PermissionContexts_create)"
| "authorized auth s (CopyFilesOfParent u p q) =
     (allowed auth u p PermissionContexts_create \<and> allowed auth u q PermissionContexts_create)"
| "authorized auth s (CopyOneFile u i q) =
     ((\<exists>r \<in> set (map_values (fs_records s)). fr_id r = i \<and>
         allowed auth u (getParentInfo r) PermissionContexts_create) \<and>
      allowed auth u q PermissionContexts_create)"
| "authorized auth s (PatchFilename u i n) =
     (\<exists>r \<in> set (map_values (fs_records s)). fr_id r = i \<and> allowed auth u (getParentInfo r) PermissionContexts_update)"
| "authorized auth s (UpdateSecurityStatus t res) =
     (\<exists>r \<in> set (map_values (fs_records s)). fsc_requestToken (fr_securityCheck r) = Some t)"
| "authorized auth s (Download u i n) = False"
| "authorized auth s (DownloadByToken t) = False"
| "authorized auth s (GetFileRecords u p) = False"
| "authorized auth s (CopyMessage u p q) = has_files s p"
| "authorized auth s (ListMessage p) = False"
| "authorized auth s (DeleteMessage p) = has_files s p"

lemma denied: "\<not> allowed auth u p ctx \<Longrightarrow> \<exists>e. uc_checkParent auth u p ctx = throwE e"
  by (cases "uc_checkPermission auth u (pi_parentType p) (pi_parentId p) ctx")
    (auto simp: allowed_def uc_checkParent_def fun_eq_iff throwE_def liftE_def)

lemma bindE_throwE [simp]: "bindE (throwE e) f = throwE e"
  by (simp add: fun_eq_iff bindE_def throwE_def)

lemma reads_check [simp]: "reads (uc_checkParent auth u p ctx)"
  by (simp add: uc_checkParent_def)

lemma reads_client_get [simp]: "reads (client_get env k)"
  by (auto simp: reads_def client_get_def catchE_def s3_get_def external_cases throwE_def
      split: option.split prod.split sum.split)

lemma reads_downloadFile [simp]: "reads (downloadFile env x y)"
  unfolding downloadFile_def by (rule reads_bind) simp_all

lemma same_store_reads: "reads m \<Longrightarrow> same_store s (snd (m s))"
  by (simp add: reads_def)

lemma denied_reads: "\<not> allowed auth u p ctx \<Longrightarrow> reads (bindE (uc_checkParent auth u p ctx) f)"
  using denied [of auth u p ctx] by auto

lemma denied_reads2:
  "\<not> (allowed auth u p ctx \<and> allowed auth u q ctx) \<Longrightarrow>
     reads (bindE (uc_checkParent auth u p ctx) (\<lambda>_. bindE (uc_checkParent auth u q ctx) f))"
  by (cases "allowed auth u p ctx") (simp_all add: denied_reads reads_bind)

text \<open>First the record is looked up, then the permission for its parent is checked.\<close>

lemma lookup_then_denied:
  assumes "reads m" and "\<And>r s'. m s = (Inr r, s') \<Longrightarrow> reads (f r)"
  shows "same_store s (snd (bindE m f s))"
proof (cases "m s")
  case (Pair x s')
  have "same_store s s'" using readsD [OF assms(1) Pair] .
  then show ?thesis using assms(2) Pair
    by (cases x) (auto simp: bindE_def reads_def intro: same_store_trans)
qed

lemma findOneOrFail_Inr:
  "findOneOrFail env sc s = (Inr r, s') \<Longrightarrow>
     r \<in> set (map_values (fs_records s)) \<and> scope_query sc r \<and> s' = s\<lparr>fs_clock := Suc (fs_clock s)\<rparr>"
  by (auto simp: findOneOrFail_def external_cases dest: find_eq_Some split: option.splits)

lemmas scope_defs = byMarkedForDelete_def byFileRecordId_def bySecurityCheckRequestToken_def
  addQuery_def new_Scope_def scope_query_def

lemma getFileRecord_Inr:
  "getFileRecord env i s = (Inr r, s') \<Longrightarrow> r \<in> set (map_values (fs_records s)) \<and> fr_id r = i \<and>
     fr_deletedSince r = None \<and> s' = s\<lparr>fs_clock := Suc (fs_clock s)\<rparr>"
  by (auto simp: getFileRecord_def findOneById_def scope_defs dest!: findOneOrFail_Inr)

lemma getFileRecordMarkedForDelete_Inr:
  "getFileRecordMarkedForDelete env i s = (Inr r, s') \<Longrightarrow>
     r \<in> set (map_values (fs_records s)) \<and> fr_id r = i \<and> fr_deletedSince r \<noteq> None"
  by (auto simp: getFileRecordMarkedForDelete_def findOneByIdMarkedForDelete_def scope_defs
      dest!: findOneOrFail_Inr)

lemma findBySecurityCheckRequestToken_Inr:
  "findBySecurityCheckRequestToken env t s = (Inr r, s') \<Longrightarrow>
     r \<in> set (map_values (fs_records s)) \<and> fsc_requestToken (fr_securityCheck r) = Some t \<and>
     s' = s\<lparr>fs_clock := Suc (fs_clock s)\<rparr>"
  by (auto simp: findBySecurityCheckRequestToken_def scope_defs dest!: findOneOrFail_Inr)

lemma no_files_found:
  "findBySchoolIdAndParentId env i k s = (Inr (rs, n), s') \<Longrightarrow> pi_schoolId p = i \<Longrightarrow> pi_parentId p = k \<Longrightarrow>
     \<not> has_files s p \<Longrightarrow> n = 0"
  by (auto simp: findBySchoolIdAndParentId_def findAndCount_def external_cases scope_defs bySchoolId_def byParentId_def
      has_files_def filter_empty_conv split: option.splits)

text \<open>C2. No request of a user changes a record, a stored object or the published scan requests unless the
  user is allowed the action it stands for on the parent of the file (for copies also on the target).
  Apart from the users two others change them without such a permission: the callback of the scanner,
  for an open token, and the messages of the broker by which other services of the server copy or
  delete the files of a parent, which change nothing when the parent has none.\<close>

theorem effects_need_permission:
  assumes "\<not> authorized auth s c"
  shows "fs_records (fs_exec auth http env c s) = fs_records s \<and>
    fs_files (fs_exec auth http env c s) = fs_files s \<and>
    fs_scans (fs_exec auth http env c s) = fs_scans s"
proof -
  have look: "same_store s (snd (bindE (getFileRecord env i) f s))"
    if "\<And>r. r \<in> set (map_values (fs_records s)) \<Longrightarrow> fr_id r = i \<Longrightarrow> reads (f r)" for i and f :: "FileRecord \<Rightarrow> (fs_state, 'x) eff"
    using that by (intro lookup_then_denied) (auto dest: getFileRecord_Inr)
  have "same_store s (fs_exec auth http env c s)"
  proof (cases c)
    case (Download u i n)
    then show ?thesis
      by (auto simp: uc_download_def service_download_def intro!: same_store_reads reads_bind)
  next
    case (DownloadByToken t)
    then show ?thesis
      by (auto simp: uc_downloadBySecurityToken_def getFileRecordBySecurityCheckRequestToken_def
          intro!: same_store_reads reads_bind)
  next
    case (GetFileRecords u p)
    then show ?thesis by (auto simp: uc_getFileRecordsOfParent_def intro!: same_store_reads reads_bind)
  next
    case (CopyMessage u p q)
    then show ?thesis using assms
      unfolding CopyMessage fs_exec.simps consumer_copyFilesOfParent_def service_copyFilesOfParent_def bindE_assoc
      by (intro lookup_then_denied) (auto dest: no_files_found)
  next
    case (DeleteMessage p)
    then show ?thesis using assms
      unfolding DeleteMessage fs_exec.simps consumer_deleteFilesOfParent_def service_deleteFilesOfParent_def
        getFileRecordsOfParent_def bindE_assoc
      by (intro lookup_then_denied) (auto dest: no_files_found)
  next
    case (ListMessage p)
    then show ?thesis by (auto simp: consumer_getFilesOfParent_def intro!: same_store_reads reads_bind)
  next
    case (UpdateSecurityStatus t res)
    then show ?thesis using assms
      unfolding UpdateSecurityStatus fs_exec.simps uc_updateSecurityStatus_def updateSecurityStatus_def
      by (intro lookup_then_denied) (auto dest!: findBySecurityCheckRequestToken_Inr)
  next
    case (RestoreOneFile u i)
    then show ?thesis using assms
      unfolding RestoreOneFile fs_exec.simps uc_restoreOneFile_def
      by (intro lookup_then_denied denied_reads) (auto dest!: getFileRecordMarkedForDelete_Inr)
  next
    case (CopyOneFile u i q)
    then show ?thesis using assms unfolding CopyOneFile fs_exec.simps uc_copyOneFile_def
      by (intro look denied_reads2) auto
  next
    case (CopyFilesOfParent u p q)
    then show ?thesis using assms
      unfolding CopyFilesOfParent fs_exec.simps uc_copyFilesOfParent_def
      by (intro same_store_reads denied_reads2) auto
  qed (use assms in \<open>auto simp: uc_upload_def uc_uploadFromUrl_def uc_deleteFilesOfParent_def
        uc_deleteOneFile_def uc_restoreFilesOfParent_def uc_patchFilename_def
        intro!: same_store_reads denied_reads look\<close>)
  then show ?thesis by (simp add: same_store_def)
qed

theorem effects_need_permission_witness:
  "fs_records (fs_exec (\<lambda>_ _ _ _. Inl ForbiddenException) (\<lambda>_. Inl TypeError) (ex_fs_env Map.empty)
     (Upload ''u'' ex_parent ex_file) ex_fs_empty) = []"
  by (rule effects_need_permission [where s = ex_fs_empty, THEN conjunct1, simplified])
    (simp add: allowed_def uc_checkPermission_def ex_parent_def mapToAllowedAuthorizationEntityType_def)

section \<open>Downloading\<close>

text \<open>A download returns the stored content of a file that is not deleted and not blocked, to a user
  who may read its parent and who knows its name.\<close>

theorem download_guarded:
  assumes "uc_download auth env userId fileRecordId fileName s = (Inr content, s')"
  shows "\<exists>r \<in> set (map_values (fs_records s)). fr_id r = fileRecordId \<and> fr_name r = fileName \<and>
    fr_deletedSince r = None \<and> \<not> isBlocked r \<and> allowed auth userId (getParentInfo r) PermissionContexts_read \<and>
    fs_files s (fr_schoolId r @ ''/'' @ fr_id r) = Some content"
proof -
  from assms obtain r s1 where r: "getFileRecord env fileRecordId s = (Inr r, s1)"
    and rest: "uc_checkPermission auth userId (fr_parentType r) (fr_parentId r) PermissionContexts_read = Inr ()"
      "service_download env r fileName s1 = (Inr content, s')"
    by (auto simp: uc_download_def bindE_eq_Inr uc_checkParent_def liftE_def getParentInfo_def)
  from rest(2) obtain path s2 where d: "hasName r fileName" "\<not> isBlocked r"
    "createPath (fr_schoolId r) (fr_id r) = Inr path" "client_get env path s1 = (Inr content, s2)"
    by (auto simp: service_download_def downloadFile_def bindE_eq_Inr liftE_def checkFileName_def
        checkScanStatus_def split: if_splits)
  from d(4) have "fs_files s1 path = Some content"
    by (auto simp: client_get_def catchE_eq_Inr s3_get_def external_cases throwE_def split: option.splits)
  moreover have "path = fr_schoolId r @ ''/'' @ fr_id r"
    using d(3) by (auto simp: createPath_def split: if_splits)
  ultimately show ?thesis using getFileRecord_Inr [OF r] rest(1) d
    by (intro bexI [of _ r]) (auto simp: hasName_def allowed_def getParentInfo_def)
qed

definition ex_record :: "ScanStatus \<Rightarrow> FileRecord" where
  "ex_record st = (createFileRecord 7 ''token0'' ''a.txt'' 3 ''text/plain'' ex_parent ''u'')
     \<lparr>fr_id := ''id1'', fr_securityCheck := \<lparr>fsc_status = st, fsc_reason = [],
       fsc_requestToken = (if st = PENDING then Some ''token0'' else None), fsc_createdAt = 7,
       fsc_updatedAt = 7\<rparr>\<rparr>"

lemma ex_record_sel [simp]:
  "fr_id (ex_record st) = ''id1''" "fr_name (ex_record st) = ''a.txt''" "fr_deletedSince (ex_record st) = None"
  "fr_schoolId (ex_record st) = ''school''" "fr_parentId (ex_record st) = ''task''"
  "fr_parentType (ex_record st) = Parent_Task" "fsc_status (fr_securityCheck (ex_record st)) = st"
  "fsc_requestToken (fr_securityCheck (ex_record st)) = (if st = PENDING then Some ''token0'' else None)"
  by (simp_all add: ex_record_def createFileRecord_def new_FileRecord_def ex_parent_def)

definition ex_store :: "ScanStatus \<Rightarrow> fs_state" where
  "ex_store st = \<lparr>fs_clock = 0, fs_fresh = 5, fs_records = [(''id1'', ex_record st)],
     fs_files = [''school/id1'' \<mapsto> ''abc''], fs_scans = []\<rparr>"

lemma ex_store_sel [simp]:
  "fs_clock (ex_store st) = 0" "fs_fresh (ex_store st) = 5" "fs_records (ex_store st) = [(''id1'', ex_record st)]"
  "fs_files (ex_store st) = [''school/id1'' \<mapsto> ''abc'']" "fs_scans (ex_store st) = []"
  by (simp_all add: ex_store_def)

lemma ex_download: "\<exists>s'. uc_download (\<lambda>_ _ _ _. Inr ()) (ex_fs_env Map.empty) ''u'' ''id1'' ''a.txt'' (ex_store VERIFIED)
    = (Inr ''abc'', s')"
  by (simp add: uc_download_def getFileRecord_def findOneById_def findOneOrFail_def external_cases
      map_values_def scope_defs bindE_def uc_checkParent_def uc_checkPermission_def getParentInfo_def
      mapToAllowedAuthorizationEntityType_def liftE_def service_download_def checkFileName_def
      hasName_def checkScanStatus_def isBlocked_def downloadFile_def createPath_def client_get_def
      catchE_def s3_get_def)

theorem download_guarded_witness:
  "\<exists>r \<in> set (map_values (fs_records (ex_store VERIFIED))). fr_id r = ''id1'' \<and> \<not> isBlocked r"
proof -
  from ex_download obtain s' where
    "uc_download (\<lambda>_ _ _ _. Inr ()) (ex_fs_env Map.empty) ''u'' ''id1'' ''a.txt'' (ex_store VERIFIED) = (Inr ''abc'', s')" ..
  from download_guarded [OF this] show ?thesis by blast
qed

section \<open>The scan protocol\<close>

text \<open>A scan result is accepted once: it gives the record its token belonged to the status of the
  result and closes the token, so that, as long as no other record has the same token, a second
  result for it is rejected.\<close>

theorem scan_result_accepted_once:
  assumes "updateSecurityStatus env token res s = (Inr (), s')"
    and "map_ok (fs_records s)" and "\<forall>(k, r) \<in> set (fs_records s). fr_id r = k \<and> k \<noteq> []"
    and "\<forall>r \<in> set (map_values (fs_records s)). \<forall>q \<in> set (map_values (fs_records s)).
      fsc_requestToken (fr_securityCheck r) = Some token \<longrightarrow>
      fsc_requestToken (fr_securityCheck q) = Some token \<longrightarrow> r = q"
  shows "(\<exists>r r'. (fr_id r, r) \<in> set (fs_records s) \<and> fsc_requestToken (fr_securityCheck r) = Some token \<and>
      map_get (fs_records s') (fr_id r) = Some r' \<and>
      fsc_status (fr_securityCheck r') = srd_status (mapScanResultParamsToDto res) \<and>
      fsc_requestToken (fr_securityCheck r') = None) \<and>
    (\<exists>e. fst (updateSecurityStatus env token res2 s') = Inl e)"
proof -
  from assms(1) obtain r s1 where f: "findBySecurityCheckRequestToken env token s = (Inr r, s1)"
    and sv: "bindE (repo_save1 env (updateSecurityCheckStatus (fe_now env) r
        (srd_status (mapScanResultParamsToDto res)) (srd_reason (mapScanResultParamsToDto res))))
        (\<lambda>_. retE ()) s1 = (Inr (), s')"
    by (auto simp: updateSecurityStatus_def bindE_eq_Inr Let_def)
  define r' where "r' = updateSecurityCheckStatus (fe_now env) r
    (srd_status (mapScanResultParamsToDto res)) (srd_reason (mapScanResultParamsToDto res))"
  note r = findBySecurityCheckRequestToken_Inr [OF f]
  then have rin: "(fr_id r, r) \<in> set (fs_records s)" "fr_id r \<noteq> []"
    using assms(3) by (auto simp: map_values_def)
  have id': "fr_id r' = fr_id r" "fsc_requestToken (fr_securityCheck r') = None"
    "fsc_status (fr_securityCheck r') = srd_status (mapScanResultParamsToDto res)"
    by (simp_all add: r'_def updateSecurityCheckStatus_def)
  have same: "r'\<lparr>fr_id := fr_id r\<rparr> = r'"
    by (simp add: r'_def updateSecurityCheckStatus_def)
  have "fs_records s' = map_set (fs_records s) (fr_id r) (r'\<lparr>fr_id := fr_id r\<rparr>)"
    using sv r rin(2) id'(1) unfolding r'_def [symmetric]
    by (auto simp: bindE_eq_Inr repo_save1_eq persist_def retE_def Let_def split: option.splits)
  then have rec: "fs_records s' = map_set (fs_records s) (fr_id r) r'" by (simp only: same)
  have no: "fsc_requestToken (fr_securityCheck q) \<noteq> Some token" if "q \<in> set (map_values (fs_records s'))" for q
  proof
    assume t: "fsc_requestToken (fr_securityCheck q) = Some token"
    from that obtain k where "(k, q) \<in> set (map_set (fs_records s) (fr_id r) r')"
      by (auto simp: rec map_values_def)
    from map_set_entries [OF assms(2) this] t id'(2) have kq: "k \<noteq> fr_id r" "(k, q) \<in> set (fs_records s)" by auto
    then have "q \<in> set (map_values (fs_records s))" by (force simp: map_values_def)
    with assms(4) r t have "q = r" by blast
    with kq assms(3) show False by auto
  qed
  have "\<exists>e. fst (updateSecurityStatus env token res2 s') = Inl e"
  proof (rule ccontr)
    assume "\<nexists>e. fst (updateSecurityStatus env token res2 s') = Inl e"
    then obtain x s2 where "updateSecurityStatus env token res2 s' = (Inr x, s2)"
      by (metis fst_conv old.prod.exhaust old.sum.exhaust)
    then obtain q s3 where "findBySecurityCheckRequestToken env token s' = (Inr q, s3)"
      by (auto simp: updateSecurityStatus_def bindE_eq_Inr)
    from findBySecurityCheckRequestToken_Inr [OF this] no show False by blast
  qed
  moreover have "map_get (fs_records s') (fr_id r) = Some r'" by (simp add: rec)
  ultimately show ?thesis using rin(1) r id' by blast
qed

lemma ex_scan: "\<exists>s'. updateSecurityStatus (ex_fs_env Map.empty) ''token0''
    \<lparr>srp_virus_detected = Some False, srp_virus_signature = None, srp_error = None\<rparr> (ex_store PENDING) = (Inr (), s')"
  by (simp add: updateSecurityStatus_def findBySecurityCheckRequestToken_def findOneOrFail_def
      external_cases map_values_def scope_defs bindE_def Let_def repo_save1_eq persist_def retE_def)

theorem scan_result_accepted_once_witness:
  "\<exists>s'. updateSecurityStatus (ex_fs_env Map.empty) ''token0''
      \<lparr>srp_virus_detected = Some False, srp_virus_signature = None, srp_error = None\<rparr> (ex_store PENDING) = (Inr (), s') \<and>
    (\<exists>e. fst (updateSecurityStatus (ex_fs_env Map.empty) ''token0''
      \<lparr>srp_virus_detected = Some True, srp_virus_signature = None, srp_error = None\<rparr> s') = Inl e)"
proof -
  from ex_scan obtain s' where u: "updateSecurityStatus (ex_fs_env Map.empty) ''token0''
    \<lparr>srp_virus_detected = Some False, srp_virus_signature = None, srp_error = None\<rparr> (ex_store PENDING) = (Inr (), s')" ..
  have "\<exists>e. fst (updateSecurityStatus (ex_fs_env Map.empty) ''token0''
      \<lparr>srp_virus_detected = Some True, srp_virus_signature = None, srp_error = None\<rparr> s') = Inl e"
    by (rule scan_result_accepted_once [OF u, THEN conjunct2]) (simp_all add: map_values_def)
  with u show ?thesis by blast
qed

section \<open>Deleting and copying when something fails\<close>

text \<open>The rollback of a deletion does not roll back: when the storage cannot move the object to the
  trash, the request fails, the object stays where it is, and its record stays marked as deleted.\<close>

theorem failed_deletion_keeps_mark:
  assumes "fr_id r \<noteq> []" and "fr_schoolId r \<noteq> []"
    and "fe_fault env (fs_clock s) = None" and "fe_fault env (Suc (fs_clock s)) = Some e"
    and "e \<noteq> NoSuchKey" and "fe_fault env (Suc (Suc (fs_clock s))) = None"
  shows "\<exists>err s' r'. service_delete env [r] s = (Inl err, s') \<and> fs_files s' = fs_files s \<and>
    map_get (fs_records s') (fr_id r) = Some r' \<and> fr_deletedSince r' = Some (fe_now env)"
  using assms
  by (simp add: service_delete_def markForDelete_def FileRecord_markForDelete_def repo_save_def
      external_cases persist_def Let_def bindE_def deleteWithRollbackByError_def catchE_def
      deleteFilesInFilesStorageClient_def getPaths_def createPath_def liftE_def client_moveToTrash_def
      client_copy_def s3_copyObject_def throwE_def map_get_set)

theorem failed_deletion_keeps_mark_witness:
  "\<exists>err s' r'. service_delete (ex_fs_env [1 \<mapsto> External ''S3'']) [ex_record VERIFIED] (ex_store VERIFIED) = (Inl err, s') \<and>
     fs_files s' = [''school/id1'' \<mapsto> ''abc''] \<and> map_get (fs_records s') ''id1'' = Some r' \<and> fr_deletedSince r' = Some 7"
  using failed_deletion_keeps_mark [of "ex_record VERIFIED" "ex_fs_env [1 \<mapsto> External ''S3'']" "ex_store VERIFIED" "External ''S3''"]
  by (simp add: NoSuchKey_def)

text \<open>Copying a file whose scan is still pending asks for another scan of the source: the copy has a
  token of its own that is never published, so its scan stays pending.\<close>

theorem copy_of_pending_is_not_scanned:
  assumes "fe_fault env = Map.empty" and "fe_antivirus env" and "\<And>n. fe_newId env n \<noteq> []"
    and "isPending r" and "fsc_requestToken (fr_securityCheck r) = Some t" and "t \<noteq> []"
    and "fr_id r \<noteq> []" and "fr_schoolId r \<noteq> []" and "pi_schoolId p \<noteq> []"
    and "fs_files s (fr_schoolId r @ ''/'' @ fr_id r) = Some content"
  shows "\<exists>s' i q. fst (service_copy env u [r] p s) = Inr [\<lparr>cfr_id = Some i, cfr_sourceId = fr_id r, cfr_name = fr_name r\<rparr>] \<and>
    s' = snd (service_copy env u [r] p s) \<and> map_get (fs_records s') i = Some q \<and> isPending q \<and>
    fsc_requestToken (fr_securityCheck q) = Some (fe_uuid env (fs_fresh s)) \<and> fs_scans s' = fs_scans s @ [t]"
proof -
  have "\<not> isBlocked r" "\<not> isVerified r" using assms(4) by (simp_all add: isBlocked_def isVerified_def isPending_def)
  with assms show ?thesis
    by (simp add: service_copy_def bindE_def retE_def catchE_def liftE_def checkScanStatus_def
        copyFileRecord_def fresh_uuid_def repo_save1_eq persist_def FileRecord_copy_def new_FileRecord_def
        new_FileSecurityCheck_def Let_def copyFilesWithRollbackOnError_def createICopyFiles_def
        createPath_def client_copy_def s3_copyObject_def external_cases sendToAntiVirusService_def
        antivirus_send_def truthy_def CopyFileResponseBuilder_build_def map_get_set isPending_def)
qed

theorem copy_of_pending_is_not_scanned_witness:
  "\<exists>s' i q. s' = snd (service_copy (ex_fs_env Map.empty) ''u'' [ex_record PENDING] ex_parent (ex_store PENDING)) \<and>
     map_get (fs_records s') i = Some q \<and> isPending q \<and>
     fsc_requestToken (fr_securityCheck q) = Some (''token'' @ nat_string 5) \<and> fs_scans s' = [''token0'']"
proof -
  have "isPending (ex_record PENDING)" by (simp add: isPending_def)
  from copy_of_pending_is_not_scanned [of "ex_fs_env Map.empty" "ex_record PENDING" "''token0''" ex_parent
      "ex_store PENDING" "''abc''" "''u''", OF _ _ _ this]
  show ?thesis by (simp add: ex_parent_def) blast
qed

end
