(* ===== verification/ColumnBoard.thy ===== *)
theory ColumnBoard
  imports JsMap
begin

text \<open>
  The column board: a tree of columns, cards and text elements that the database keeps as flat
  nodes, each with the path of ids from its root (\<^verbatim>\<open>shared/domain/entity/boardnode\<close>,
  \<^verbatim>\<open>shared/domain/domainobject/board\<close>, \<^verbatim>\<open>modules/board\<close>).
\<close>

section \<open>Domain objects\<close>

record TextElement =
  tel_id :: EntityId
  tel_text :: string
  tel_createdAt :: date
  tel_updatedAt :: date

record Card =
  crd_id :: EntityId
  crd_title :: string
  crd_height :: int
  crd_elements :: "TextElement list"
  crd_createdAt :: date
  crd_updatedAt :: date

record Column =
  clm_id :: EntityId
  clm_title :: string
  clm_cards :: "Card list"
  clm_createdAt :: date
  clm_updatedAt :: date

record ColumnBoard =
  cbd_id :: EntityId
  cbd_title :: string
  cbd_columns :: "Column list"
  cbd_createdAt :: date
  cbd_updatedAt :: date

datatype AnyBoardDo =
    ColumnBoardDo ColumnBoard
  | ColumnDo (the_Column: Column)
  | CardDo (the_Card: Card)
  | TextElementDo (the_TextElement: TextElement)

section \<open>Nodes\<close>

datatype BoardNodeType = NODE_COLUMN_BOARD | NODE_COLUMN | NODE_CARD | NODE_TEXT_ELEMENT

record BoardNode = timestamped +
  bn_path :: string
  bn_level :: nat
  bn_position :: int

record ColumnBoardNode = BoardNode +
  cbn_title :: string

record ColumnNode = BoardNode +
  cln_title :: string

record CardNode = BoardNode +
  cdn_height :: int
  cdn_title :: string

record TextElementNode = BoardNode +
  ten_text :: string

text \<open>
  The column \<^verbatim>\<open>type\<close> is the discriminator of the class; it is what the constructors set and what
  the ORM chooses the class by, so it is read off the class.
\<close>

datatype AnyBoardNode =
    ColumnBoardN ColumnBoardNode
  | ColumnN ColumnNode
  | CardN CardNode
  | TextElementN TextElementNode

fun nodeType :: "AnyBoardNode \<Rightarrow> BoardNodeType" where
  "nodeType (ColumnBoardN _) = NODE_COLUMN_BOARD"
| "nodeType (ColumnN _) = NODE_COLUMN"
| "nodeType (CardN _) = NODE_CARD"
| "nodeType (TextElementN _) = NODE_TEXT_ELEMENT"

fun node_path :: "AnyBoardNode \<Rightarrow> string" where
  "node_path (ColumnBoardN n) = bn_path n"
| "node_path (ColumnN n) = bn_path n"
| "node_path (CardN n) = bn_path n"
| "node_path (TextElementN n) = bn_path n"

fun node_level :: "AnyBoardNode \<Rightarrow> nat" where
  "node_level (ColumnBoardN n) = bn_level n"
| "node_level (ColumnN n) = bn_level n"
| "node_level (CardN n) = bn_level n"
| "node_level (TextElementN n) = bn_level n"

fun node_position :: "AnyBoardNode \<Rightarrow> int" where
  "node_position (ColumnBoardN n) = bn_position n"
| "node_position (ColumnN n) = bn_position n"
| "node_position (CardN n) = bn_position n"
| "node_position (TextElementN n) = bn_position n"

fun node_id :: "AnyBoardNode \<Rightarrow> EntityId" where
  "node_id (ColumnBoardN n) = eid n"
| "node_id (ColumnN n) = eid n"
| "node_id (CardN n) = eid n"
| "node_id (TextElementN n) = eid n"

definition PATH_SEPARATOR :: char where
  "PATH_SEPARATOR = CHR '',''"

definition joinPath :: "string \<Rightarrow> EntityId \<Rightarrow> string" where
  "joinPath path i = path @ i @ [PATH_SEPARATOR]"

definition ancestorIds :: "'a BoardNode_scheme \<Rightarrow> EntityId list" where
  "ancestorIds n = filter (\<lambda>i. i \<noteq> []) (js_split PATH_SEPARATOR (bn_path n))"

definition hasParent :: "'a BoardNode_scheme \<Rightarrow> bool" where
  "hasParent n \<longleftrightarrow> length (ancestorIds n) > 0"

definition parentId :: "'a BoardNode_scheme \<Rightarrow> EntityId option" where
  "parentId n = (if hasParent n then Some (ancestorIds n ! (length (ancestorIds n) - 1)) else None)"

definition pathOfChildren :: "AnyBoardNode \<Rightarrow> string" where
  "pathOfChildren n = joinPath (node_path n) (node_id n)"

text \<open>The constructor of the base class, with an optional parent and position.\<close>

definition new_BoardNode ::
  "date \<Rightarrow> ref \<Rightarrow> AnyBoardNode option \<Rightarrow> int option \<Rightarrow> BoardNode result" where
  "new_BoardNode now r parent position =
     (case parent of
        Some p \<Rightarrow>
          if node_id p = []
          then Inl (InternalServerErrorException ''Cannot create board node with a parent having no id'')
          else Inr \<lparr>oid = r, eid = [], ent_createdAt = now, ent_updatedAt = now,
                    bn_path = joinPath (node_path p) (node_id p), bn_level = node_level p + 1,
                    bn_position = nullish position 0\<rparr>
      | None \<Rightarrow> Inr \<lparr>oid = r, eid = [], ent_createdAt = now, ent_updatedAt = now,
                    bn_path = [PATH_SEPARATOR], bn_level = 0, bn_position = nullish position 0\<rparr>)"

definition new_ColumnBoardNode ::
  "date \<Rightarrow> ref \<Rightarrow> AnyBoardNode option \<Rightarrow> int option \<Rightarrow> string \<Rightarrow> ColumnBoardNode result" where
  "new_ColumnBoardNode now r parent position title =
     mapR (\<lambda>n. BoardNode.extend n \<lparr>cbn_title = title\<rparr>) (new_BoardNode now r parent position)"

definition new_ColumnNode ::
  "date \<Rightarrow> ref \<Rightarrow> AnyBoardNode option \<Rightarrow> int option \<Rightarrow> string \<Rightarrow> ColumnNode result" where
  "new_ColumnNode now r parent position title =
     mapR (\<lambda>n. BoardNode.extend n \<lparr>cln_title = title\<rparr>) (new_BoardNode now r parent position)"

definition new_CardNode ::
  "date \<Rightarrow> ref \<Rightarrow> AnyBoardNode option \<Rightarrow> int option \<Rightarrow> int \<Rightarrow> string \<Rightarrow> CardNode result" where
  "new_CardNode now r parent position height title =
     mapR (\<lambda>n. BoardNode.extend n \<lparr>cdn_height = height, cdn_title = title\<rparr>)
       (new_BoardNode now r parent position)"

definition new_TextElementNode ::
  "date \<Rightarrow> ref \<Rightarrow> AnyBoardNode option \<Rightarrow> int option \<Rightarrow> string \<Rightarrow> TextElementNode result" where
  "new_TextElementNode now r parent position txt =
     mapR (\<lambda>n. BoardNode.extend n \<lparr>ten_text = txt\<rparr>) (new_BoardNode now r parent position)"

section \<open>Building the tree\<close>

text \<open>The builder is its \<^verbatim>\<open>childrenMap\<close>: the nodes under each path, in the order they came.\<close>

type_synonym BoardDoBuilder = "(string, AnyBoardNode list) js_map"

definition group_by_path :: "AnyBoardNode list \<Rightarrow> BoardDoBuilder" where
  "group_by_path nodes =
     fold (\<lambda>boardNode m. map_set m (node_path boardNode)
             (nullish (map_get m (node_path boardNode)) [] @ [boardNode])) nodes []"

definition new_BoardDoBuilder :: "AnyBoardNode list \<Rightarrow> BoardDoBuilder" where
  "new_BoardDoBuilder descendants = group_by_path descendants"

definition getChildren :: "BoardDoBuilder \<Rightarrow> AnyBoardNode \<Rightarrow> AnyBoardNode list" where
  "getChildren b boardNode =
     sort_key node_position (nullish (map_get b (pathOfChildren boardNode)) [])"

definition ensureLeafNode :: "BoardDoBuilder \<Rightarrow> AnyBoardNode \<Rightarrow> unit result" where
  "ensureLeafNode b boardNode =
     (let children = getChildren b boardNode
      in if length children \<noteq> 0
         then Inl (PlainError ''BoardNode is a leaf node but children were provided.'') else Inr ())"

text \<open>The nodes are always given as a list and the type as a single one.\<close>

fun type_name :: "BoardNodeType \<Rightarrow> string" where
  "type_name NODE_COLUMN_BOARD = ''column-board''"
| "type_name NODE_COLUMN = ''column''"
| "type_name NODE_CARD = ''card''"
| "type_name NODE_TEXT_ELEMENT = ''text-element''"

definition ensureBoardNodeType :: "AnyBoardNode list \<Rightarrow> BoardNodeType \<Rightarrow> unit result" where
  "ensureBoardNodeType nodes ty =
     mapR (\<lambda>_. ()) (mapMR (\<lambda>bn.
       let isValid = (ty = nodeType bn)
       in if \<not> isValid
          then Inl (NotImplementedException (''Invalid node type '' @ [CHR 0x27] @ type_name (nodeType bn) @ [CHR 0x27]))
          else Inr ()) nodes)"

lemma ensureBoardNodeType_Inr: "ensureBoardNodeType ns ty = Inr u \<longleftrightarrow> (\<forall>n \<in> set ns. nodeType n = ty)"
  by (induction ns) (auto simp: ensureBoardNodeType_def mapR_eq_Inr bindR_eq_Inr)

text \<open>
  \<^verbatim>\<open>useDoBuilder\<close> dispatches on the class; the casts of \<^verbatim>\<open>buildChildren\<close> are the selectors of
  \<open>AnyBoardDo\<close>. The recursion ends because the type check of the children comes first.
\<close>

fun type_rank :: "BoardNodeType \<Rightarrow> nat" where
  "type_rank NODE_COLUMN_BOARD = 3"
| "type_rank NODE_COLUMN = 2"
| "type_rank NODE_CARD = 1"
| "type_rank NODE_TEXT_ELEMENT = 0"

function (sequential) useDoBuilder :: "AnyBoardNode \<Rightarrow> BoardDoBuilder \<Rightarrow> AnyBoardDo result"
  and buildColumnBoard :: "BoardDoBuilder \<Rightarrow> ColumnBoardNode \<Rightarrow> ColumnBoard result"
  and buildColumn :: "BoardDoBuilder \<Rightarrow> ColumnNode \<Rightarrow> Column result"
  and buildCard :: "BoardDoBuilder \<Rightarrow> CardNode \<Rightarrow> Card result"
  and buildTextElement :: "BoardDoBuilder \<Rightarrow> TextElementNode \<Rightarrow> TextElement result"
where
  "useDoBuilder (ColumnBoardN n) b = mapR ColumnBoardDo (buildColumnBoard b n)"
| "useDoBuilder (ColumnN n) b = mapR ColumnDo (buildColumn b n)"
| "useDoBuilder (CardN n) b = mapR CardDo (buildCard b n)"
| "useDoBuilder (TextElementN n) b = mapR TextElementDo (buildTextElement b n)"
| "buildColumnBoard b boardNode =
     bindR (ensureBoardNodeType (getChildren b (ColumnBoardN boardNode)) NODE_COLUMN) (\<lambda>_.
     bindR (mapMR (\<lambda>node. useDoBuilder node b) (getChildren b (ColumnBoardN boardNode))) (\<lambda>columns.
       Inr \<lparr>cbd_id = eid boardNode, cbd_title = cbn_title boardNode, cbd_columns = map the_Column columns,
            cbd_createdAt = ent_createdAt boardNode, cbd_updatedAt = ent_updatedAt boardNode\<rparr>))"
| "buildColumn b boardNode =
     bindR (ensureBoardNodeType (getChildren b (ColumnN boardNode)) NODE_CARD) (\<lambda>_.
     bindR (mapMR (\<lambda>node. useDoBuilder node b) (getChildren b (ColumnN boardNode))) (\<lambda>cards.
       Inr \<lparr>clm_id = eid boardNode, clm_title = cln_title boardNode, clm_cards = map the_Card cards,
            clm_createdAt = ent_createdAt boardNode, clm_updatedAt = ent_updatedAt boardNode\<rparr>))"
| "buildCard b boardNode =
     bindR (ensureBoardNodeType (getChildren b (CardN boardNode)) NODE_TEXT_ELEMENT) (\<lambda>_.
     bindR (mapMR (\<lambda>node. useDoBuilder node b) (getChildren b (CardN boardNode))) (\<lambda>elements.
       Inr \<lparr>crd_id = eid boardNode, crd_title = cdn_title boardNode, crd_height = cdn_height boardNode,
            crd_elements = map the_TextElement elements,
            crd_createdAt = ent_createdAt boardNode, crd_updatedAt = ent_updatedAt boardNode\<rparr>))"
| "buildTextElement b boardNode =
     bindR (ensureLeafNode b (TextElementN boardNode)) (\<lambda>_.
       Inr \<lparr>tel_id = eid boardNode, tel_text = ten_text boardNode,
            tel_createdAt = ent_createdAt boardNode, tel_updatedAt = ent_updatedAt boardNode\<rparr>)"
  by pat_completeness auto

termination
  by (relation "measure (\<lambda>x. case x of
        Inl (Inl (n, b)) \<Rightarrow> 2 * type_rank (nodeType n) + 1
      | Inl (Inr (b, n)) \<Rightarrow> 6
      | Inr (Inl (b, n)) \<Rightarrow> 4
      | Inr (Inr (Inl (b, n))) \<Rightarrow> 2
      | Inr (Inr (Inr (b, n))) \<Rightarrow> 0)")
    (auto simp: ensureBoardNodeType_Inr)

declare buildColumnBoard.simps [simp del] buildColumn.simps [simp del]
  buildCard.simps [simp del] buildTextElement.simps [simp del]

section \<open>The repositories\<close>

text \<open>
  The collection of nodes is a list. A path consists of ids and commas, so the regular expression
  of the descendants' query is a prefix test.
\<close>

definition findDescendants :: "AnyBoardNode list \<Rightarrow> AnyBoardNode \<Rightarrow> nat option \<Rightarrow> AnyBoardNode list" where
  "findDescendants db node depth =
     (let levelQuery = (case depth of
            Some d \<Rightarrow> (\<lambda>l. l > node_level node \<and> l \<le> node_level node + d)
          | None \<Rightarrow> (\<lambda>l. l > node_level node))
      in filter (\<lambda>n. take (length (node_path node)) (node_path n) = node_path node \<and>
            levelQuery (node_level n)) db)"

definition findChildrenOfMany :: "AnyBoardNode list \<Rightarrow> AnyBoardNode list \<Rightarrow> BoardDoBuilder" where
  "findChildrenOfMany db nodes =
     (let paths = map pathOfChildren nodes;
          children = filter (\<lambda>n. node_path n \<in> set paths) db
      in group_by_path children)"

definition ColumnBoardRepo_findById :: "AnyBoardNode list \<Rightarrow> EntityId \<Rightarrow> ColumnBoard result" where
  "ColumnBoardRepo_findById db boardId =
     (case List.find (\<lambda>n. nodeType n = NODE_COLUMN_BOARD \<and> node_id n = boardId) db of
        Some (ColumnBoardN boardNode) \<Rightarrow>
          let descendants = findDescendants db (ColumnBoardN boardNode) (Some 3)
          in buildColumnBoard (new_BoardDoBuilder descendants) boardNode
      | _ \<Rightarrow> Inl (External ''NotFoundError''))"

definition CardRepo_findById :: "AnyBoardNode list \<Rightarrow> EntityId \<Rightarrow> Card result" where
  "CardRepo_findById db cardId =
     (case List.find (\<lambda>n. nodeType n = NODE_CARD \<and> node_id n = cardId) db of
        Some (CardN boardNode) \<Rightarrow>
          let descendants = findDescendants db (CardN boardNode) (Some 2)
          in buildCard (new_BoardDoBuilder descendants) boardNode
      | _ \<Rightarrow> Inl (External ''NotFoundError''))"

definition CardRepo_findByIds :: "AnyBoardNode list \<Rightarrow> EntityId list \<Rightarrow> Card list result" where
  "CardRepo_findByIds db ids =
     (let boardNodes = concat (map (\<lambda>n. case n of CardN c \<Rightarrow> if eid c \<in> set ids then [c] else [] | _ \<Rightarrow> []) db);
          childrenMap = findChildrenOfMany db (map CardN boardNodes)
      in mapMR (\<lambda>boardNode.
           let children = nullish (map_get childrenMap (pathOfChildren (CardN boardNode))) []
           in buildCard (new_BoardDoBuilder children) boardNode) boardNodes)"

text \<open>The services and use cases pass on to the repositories (the permission checks are still to be written).\<close>

definition findBoard :: "AnyBoardNode list \<Rightarrow> EntityId \<Rightarrow> EntityId \<Rightarrow> ColumnBoard result" where
  "findBoard db userId boardId = ColumnBoardRepo_findById db boardId"

definition findCards :: "AnyBoardNode list \<Rightarrow> EntityId \<Rightarrow> EntityId list \<Rightarrow> Card list result" where
  "findCards db userId cardIds = CardRepo_findByIds db cardIds"

end
