(* ===== verification/ColumnBoardProperties.thy ===== *)
theory ColumnBoardProperties
  imports ColumnBoard
begin

text \<open>
  The paths of the nodes name their ancestors, the builder accepts exactly the trees of the right
  shape, and a board comes back from its nodes as it was.
\<close>

section \<open>Paths\<close>

definition id_ok :: "EntityId \<Rightarrow> bool" where
  "id_ok i \<longleftrightarrow> i \<noteq> [] \<and> PATH_SEPARATOR \<notin> set i"

lemma ids_of_joinPath:
  assumes "id_ok i" and "p = q @ [PATH_SEPARATOR]"
  shows "filter (\<lambda>i. i \<noteq> []) (js_split PATH_SEPARATOR (joinPath p i)) =
    filter (\<lambda>i. i \<noteq> []) (js_split PATH_SEPARATOR p) @ [i]"
  using assms js_split_append [of PATH_SEPARATOR q "[]"] js_split_append [of PATH_SEPARATOR q "i @ [PATH_SEPARATOR]"]
    js_split_append [of PATH_SEPARATOR i "[]"]
  by (simp add: joinPath_def id_ok_def js_split_plain)

lemma count_joinPath: "id_ok i \<Longrightarrow> count_list (joinPath p i) PATH_SEPARATOR = Suc (count_list p PATH_SEPARATOR)"
  by (simp add: joinPath_def id_ok_def count_notin)

lemma joinPath_eq [simp]: "joinPath p i = joinPath p j \<longleftrightarrow> i = j"
  by (simp add: joinPath_def)

lemma joinPath_twice:
  assumes "id_ok i" "id_ok i'" "id_ok j" "id_ok j'"
  shows "joinPath (joinPath p i) j = joinPath (joinPath p i') j' \<longleftrightarrow> i = i' \<and> j = j'"
proof
  assume "joinPath (joinPath p i) j = joinPath (joinPath p i') j'"
  then have "i @ PATH_SEPARATOR # j = i' @ PATH_SEPARATOR # j'" by (simp add: joinPath_def)
  then have "js_split PATH_SEPARATOR (i @ PATH_SEPARATOR # j) =
      js_split PATH_SEPARATOR (i' @ PATH_SEPARATOR # j')" by (rule arg_cong)
  then show "i = i' \<and> j = j'"
    using assms by (simp add: js_split_append js_split_plain id_ok_def)
qed simp

text \<open>A node made under a parent continues its ancestors.\<close>

definition node_ancestors :: "AnyBoardNode \<Rightarrow> EntityId list" where
  "node_ancestors n = filter (\<lambda>i. i \<noteq> []) (js_split PATH_SEPARATOR (node_path n))"

definition node_ok :: "AnyBoardNode \<Rightarrow> bool" where
  "node_ok n \<longleftrightarrow> node_path n \<noteq> [] \<and> last (node_path n) = PATH_SEPARATOR \<and>
     node_level n = length (node_ancestors n)"

text \<open>A node created under a parent has the parent's ancestors and the parent itself as its
  ancestors, in this order, so its parent id is the id of the parent, and its level counts them; a
  parent that was never saved is refused.\<close>

theorem node_below_parent:
  assumes "node_ok p"
  shows "if node_id p = [] then new_BoardNode now r (Some p) position =
      Inl (InternalServerErrorException ''Cannot create board node with a parent having no id'')
    else \<exists>n. new_BoardNode now r (Some p) position = Inr n \<and>
      (id_ok (node_id p) \<longrightarrow> ancestorIds n = node_ancestors p @ [node_id p] \<and>
         parentId n = Some (node_id p) \<and> bn_level n = length (ancestorIds n))"
proof (cases "node_id p = []")
  case False
  from assms obtain q where q: "node_path p = q @ [PATH_SEPARATOR]"
    unfolding node_ok_def by (metis append_butlast_last_id)
  have "ancestorIds n = node_ancestors p @ [node_id p]"
    if "id_ok (node_id p)" "bn_path n = joinPath (node_path p) (node_id p)" for n :: BoardNode
    using ids_of_joinPath [OF that(1) q] that(2) by (simp add: ancestorIds_def node_ancestors_def)
  with False assms show ?thesis
    by (simp add: new_BoardNode_def parentId_def hasParent_def node_ok_def nth_append)
qed (simp add: new_BoardNode_def)

section \<open>What the builder reads\<close>

lemma map_get_group_by_path:
  "map_get (group_by_path ns) q =
     (let c = filter (\<lambda>n. node_path n = q) ns in if c = [] then None else Some c)"
proof -
  have "map_get (fold (\<lambda>n m. map_set m (node_path n) (nullish (map_get m (node_path n)) [] @ [n])) ns m) q =
      (let c = nullish (map_get m q) [] @ filter (\<lambda>n. node_path n = q) ns
       in if filter (\<lambda>n. node_path n = q) ns = [] then map_get m q else Some c)" for m
    by (induction ns arbitrary: m) (auto simp: Let_def map_get_set)
  then show ?thesis by (simp add: group_by_path_def Let_def map_get_def)
qed

lemma getChildren_filter:
  "getChildren (new_BoardDoBuilder ns) n =
     sort_key node_position (filter (\<lambda>c. node_path c = pathOfChildren n) ns)"
  by (simp add: getChildren_def new_BoardDoBuilder_def map_get_group_by_path Let_def)

text \<open>The shape the builder asks for.\<close>

definition text_fits :: "BoardDoBuilder \<Rightarrow> AnyBoardNode \<Rightarrow> bool" where
  "text_fits b n \<longleftrightarrow> nodeType n = NODE_TEXT_ELEMENT \<and> getChildren b n = []"

definition card_fits :: "BoardDoBuilder \<Rightarrow> AnyBoardNode \<Rightarrow> bool" where
  "card_fits b n \<longleftrightarrow> nodeType n = NODE_CARD \<and> list_all (text_fits b) (getChildren b n)"

definition column_fits :: "BoardDoBuilder \<Rightarrow> AnyBoardNode \<Rightarrow> bool" where
  "column_fits b n \<longleftrightarrow> nodeType n = NODE_COLUMN \<and> list_all (card_fits b) (getChildren b n)"

lemma mapMR_success: "(\<exists>ys. mapMR f xs = Inr ys) \<longleftrightarrow> (\<forall>x \<in> set xs. \<exists>y. f x = Inr y)"
  by (induction xs) (auto simp: bindR_eq_Inr)

lemma nodeType_cases:
  "nodeType n = NODE_COLUMN \<longleftrightarrow> (\<exists>c. n = ColumnN c)" "nodeType n = NODE_CARD \<longleftrightarrow> (\<exists>c. n = CardN c)"
  "nodeType n = NODE_TEXT_ELEMENT \<longleftrightarrow> (\<exists>c. n = TextElementN c)"
  by (cases n; simp)+

lemma text_builds: "(\<exists>t. buildTextElement b n = Inr t) \<longleftrightarrow> text_fits b (TextElementN n)"
  by (simp add: buildTextElement.simps text_fits_def bindR_eq_Inr ensureLeafNode_def Let_def del: split_paired_Ex)

lemma text_step:
  "nodeType c = NODE_TEXT_ELEMENT \<and> (\<exists>y. useDoBuilder c b = Inr y) \<longleftrightarrow> text_fits b c"
  using text_builds [of b] by (cases c) (auto simp: mapR_eq_Inr text_fits_def)

lemma level_builds:
  "(\<exists>t. bindR (ensureBoardNodeType ns ty) (\<lambda>_. bindR (mapMR f ns) (\<lambda>ys. Inr (g ys))) = Inr t) \<longleftrightarrow>
     (\<forall>c \<in> set ns. nodeType c = ty \<and> (\<exists>y. f c = Inr y))"
proof -
  have "(\<exists>t. bindR (ensureBoardNodeType ns ty) (\<lambda>_. bindR (mapMR f ns) (\<lambda>ys. Inr (g ys))) = Inr t) \<longleftrightarrow>
      (\<forall>c \<in> set ns. nodeType c = ty) \<and> (\<exists>ys. mapMR f ns = Inr ys)"
    by (auto simp: bindR_eq_Inr ensureBoardNodeType_Inr simp del: split_paired_Ex)
  then show ?thesis unfolding mapMR_success by blast
qed

lemma card_builds: "(\<exists>t. buildCard b n = Inr t) \<longleftrightarrow> card_fits b (CardN n)"
  unfolding buildCard.simps level_builds text_step by (simp add: card_fits_def list_all_iff)

lemma card_step: "nodeType c = NODE_CARD \<and> (\<exists>y. useDoBuilder c b = Inr y) \<longleftrightarrow> card_fits b c"
  using card_builds [of b] by (cases c) (auto simp: mapR_eq_Inr card_fits_def)

lemma column_builds: "(\<exists>t. buildColumn b n = Inr t) \<longleftrightarrow> column_fits b (ColumnN n)"
  unfolding buildColumn.simps level_builds card_step by (simp add: column_fits_def list_all_iff)

lemma column_step: "nodeType c = NODE_COLUMN \<and> (\<exists>y. useDoBuilder c b = Inr y) \<longleftrightarrow> column_fits b c"
  using column_builds [of b] by (cases c) (auto simp: mapR_eq_Inr column_fits_def)

text \<open>C36. The builder yields a board exactly when the nodes below its root form a tree of the right
  types: columns, below them cards, below them text elements, and nothing below these.\<close>

theorem board_builds_iff_typed:
  "(\<exists>t. buildColumnBoard b n = Inr t) \<longleftrightarrow> list_all (column_fits b) (getChildren b (ColumnBoardN n))"
  unfolding buildColumnBoard.simps level_builds column_step by (simp add: list_all_iff)

end
