(* ===== verification/ColumnBoardStore.thy ===== *)
theory ColumnBoardStore
  imports ColumnBoardProperties
begin

text \<open>
  A board as the nodes that store it, each child with its place as its position, and the proof that
  reading these nodes, in whatever order and among whatever other nodes, gives the board back.
\<close>

section \<open>The nodes of a board\<close>

definition text_node :: "(EntityId \<Rightarrow> ref) \<Rightarrow> string \<Rightarrow> nat \<Rightarrow> nat \<Rightarrow> TextElement \<Rightarrow> AnyBoardNode" where
  "text_node rf path lvl i t = TextElementN
     \<lparr>oid = rf (tel_id t), eid = tel_id t, ent_createdAt = tel_createdAt t, ent_updatedAt = tel_updatedAt t,
      bn_path = path, bn_level = lvl, bn_position = int i, ten_text = tel_text t\<rparr>"

definition card_node :: "(EntityId \<Rightarrow> ref) \<Rightarrow> string \<Rightarrow> nat \<Rightarrow> nat \<Rightarrow> Card \<Rightarrow> AnyBoardNode" where
  "card_node rf path lvl i c = CardN
     \<lparr>oid = rf (crd_id c), eid = crd_id c, ent_createdAt = crd_createdAt c, ent_updatedAt = crd_updatedAt c,
      bn_path = path, bn_level = lvl, bn_position = int i, cdn_height = crd_height c, cdn_title = crd_title c\<rparr>"

definition column_node :: "(EntityId \<Rightarrow> ref) \<Rightarrow> string \<Rightarrow> nat \<Rightarrow> nat \<Rightarrow> Column \<Rightarrow> AnyBoardNode" where
  "column_node rf path lvl i c = ColumnN
     \<lparr>oid = rf (clm_id c), eid = clm_id c, ent_createdAt = clm_createdAt c, ent_updatedAt = clm_updatedAt c,
      bn_path = path, bn_level = lvl, bn_position = int i, cln_title = clm_title c\<rparr>"

definition board_root :: "(EntityId \<Rightarrow> ref) \<Rightarrow> ColumnBoard \<Rightarrow> ColumnBoardNode" where
  "board_root rf b =
     \<lparr>oid = rf (cbd_id b), eid = cbd_id b, ent_createdAt = cbd_createdAt b, ent_updatedAt = cbd_updatedAt b,
      bn_path = [PATH_SEPARATOR], bn_level = 0, bn_position = 0, cbn_title = cbd_title b\<rparr>"

text \<open>The children of a node, numbered.\<close>

definition numbered :: "(nat \<Rightarrow> 'a \<Rightarrow> 'b) \<Rightarrow> 'a list \<Rightarrow> 'b list" where
  "numbered f xs = map (\<lambda>(i, x). f i x) (enumerate 0 xs)"

definition text_nodes :: "(EntityId \<Rightarrow> ref) \<Rightarrow> string \<Rightarrow> nat \<Rightarrow> Card \<Rightarrow> AnyBoardNode list" where
  "text_nodes rf path lvl c = numbered (text_node rf path lvl) (crd_elements c)"

definition card_nodes :: "(EntityId \<Rightarrow> ref) \<Rightarrow> string \<Rightarrow> nat \<Rightarrow> Column \<Rightarrow> AnyBoardNode list" where
  "card_nodes rf path lvl c =
     concat (numbered (\<lambda>i d. card_node rf path lvl i d # text_nodes rf (joinPath path (crd_id d)) (lvl + 1) d)
       (clm_cards c))"

definition column_nodes :: "(EntityId \<Rightarrow> ref) \<Rightarrow> string \<Rightarrow> nat \<Rightarrow> ColumnBoard \<Rightarrow> AnyBoardNode list" where
  "column_nodes rf path lvl b =
     concat (numbered (\<lambda>i c. column_node rf path lvl i c # card_nodes rf (joinPath path (clm_id c)) (lvl + 1) c)
       (cbd_columns b))"

definition board_nodes :: "(EntityId \<Rightarrow> ref) \<Rightarrow> ColumnBoard \<Rightarrow> AnyBoardNode list" where
  "board_nodes rf b =
     ColumnBoardN (board_root rf b) # column_nodes rf (joinPath [PATH_SEPARATOR] (cbd_id b)) 1 b"

definition board_ids_ok :: "ColumnBoard \<Rightarrow> bool" where
  "board_ids_ok b \<longleftrightarrow> id_ok (cbd_id b) \<and> distinct (map clm_id (cbd_columns b)) \<and>
     (\<forall>c \<in> set (cbd_columns b). id_ok (clm_id c) \<and> distinct (map crd_id (clm_cards c)) \<and>
        (\<forall>d \<in> set (clm_cards c). id_ok (crd_id d) \<and> (\<forall>t \<in> set (crd_elements d). id_ok (tel_id t))))"

lemma node_sel [simp]:
  "node_path (text_node rf q l i t) = q" "node_path (card_node rf q l i d) = q" "node_path (column_node rf q l i c) = q"
  "node_level (text_node rf q l i t) = l" "node_level (card_node rf q l i d) = l" "node_level (column_node rf q l i c) = l"
  "node_position (text_node rf q l i t) = int i" "node_position (card_node rf q l i d) = int i"
  "node_position (column_node rf q l i c) = int i"
  "pathOfChildren (text_node rf q l i t) = joinPath q (tel_id t)"
  "pathOfChildren (card_node rf q l i d) = joinPath q (crd_id d)"
  "pathOfChildren (column_node rf q l i c) = joinPath q (clm_id c)"
  "nodeType (text_node rf q l i t) = NODE_TEXT_ELEMENT" "nodeType (card_node rf q l i d) = NODE_CARD"
  "nodeType (column_node rf q l i c) = NODE_COLUMN"
  by (simp_all add: text_node_def card_node_def column_node_def pathOfChildren_def)

section \<open>Numbered lists\<close>

lemma filter_numbered: "filter P (concat (numbered f xs)) = concat (numbered (\<lambda>i x. filter P (f i x)) xs)"
  by (simp add: numbered_def filter_concat map_map comp_def case_prod_unfold)

lemma numbered_cong: "(\<And>i x. x \<in> set xs \<Longrightarrow> f i x = g i x) \<Longrightarrow> numbered f xs = numbered g xs"
  unfolding numbered_def by (auto simp: in_set_enumerate_eq intro!: map_cong)

lemma set_numbered: "set (numbered f xs) = {f i (xs ! i) | i. i < length xs}"
  unfolding numbered_def by (auto simp: in_set_enumerate_eq image_iff Bex_def)

lemma numbered_in: "y \<in> set (numbered f xs) \<Longrightarrow> \<exists>i x. x \<in> set xs \<and> y = f i x"
  unfolding set_numbered by (blast intro: nth_mem)

lemma concat_numbered_single: "concat (numbered (\<lambda>i x. [f i x]) xs) = numbered f xs"
  by (simp add: numbered_def case_prod_unfold)

lemma concat_numbered_if:
  assumes "distinct (map k xs)" and "x \<in> set xs"
  shows "concat (numbered (\<lambda>i y. if k y = k x then g y else []) xs) = g x"
proof -
  have gen: "concat (map (\<lambda>(i, y). if k y = k x then g y else []) (enumerate n xs)) =
      (if x \<in> set xs then g x else [])" if "\<forall>y \<in> set xs. k y = k x \<longrightarrow> y = x" "distinct xs" for n xs
    using that by (induction xs arbitrary: n) auto
  from assms have "\<forall>y \<in> set xs. k y = k x \<longrightarrow> y = x" "distinct xs"
    by (auto simp: distinct_map dest: inj_onD)
  from gen [OF this, of 0] assms(2) show ?thesis by (simp add: numbered_def)
qed

lemma sort_numbered:
  assumes "mset zs = mset (numbered f xs)" and "\<And>i x. pos (f i x) = int i"
  shows "sort_key pos zs = numbered f xs"
proof -
  have "map pos (numbered f xs) = map int [0..<length xs]"
    using assms(2) unfolding numbered_def enumerate_eq_zip
    by (intro nth_equalityI) simp_all
  then have "sorted (map pos (numbered f xs))" "distinct (map pos (numbered f xs))"
    by (simp_all add: distinct_map sorted_iff_nth_mono)
  moreover have "set zs = set (numbered f xs)" using assms(1) by (metis set_mset_mset)
  ultimately show ?thesis using assms(1)
    by (intro sort_key_inj_key_eq) (auto simp: distinct_map)
qed

section \<open>The children of each node\<close>

lemma text_nodes_at: "filter (\<lambda>n. node_path n = q) (text_nodes rf p l c) = (if q = p then text_nodes rf p l c else [])"
  by (auto simp: text_nodes_def numbered_def filter_map comp_def case_prod_unfold)

lemma card_nodes_at:
  "filter (\<lambda>n. node_path n = q) (card_nodes rf p l c) =
     concat (numbered (\<lambda>i d. (if q = p then [card_node rf p l i d] else []) @
       (if q = joinPath p (crd_id d) then text_nodes rf (joinPath p (crd_id d)) (l + 1) d else [])) (clm_cards c))"
  unfolding card_nodes_def filter_numbered by (auto simp: text_nodes_at intro!: arg_cong [where f = concat] numbered_cong)

lemma column_nodes_at:
  "filter (\<lambda>n. node_path n = q) (column_nodes rf p l b) =
     concat (numbered (\<lambda>i c. (if q = p then [column_node rf p l i c] else []) @
       filter (\<lambda>n. node_path n = q) (card_nodes rf (joinPath p (clm_id c)) (l + 1) c)) (cbd_columns b))"
  unfolding column_nodes_def filter_numbered by (auto intro!: arg_cong [where f = concat] numbered_cong)

lemma join_neq: "id_ok i \<Longrightarrow> p \<noteq> joinPath p i" "id_ok i \<Longrightarrow> joinPath p i \<noteq> p"
  by (auto simp: joinPath_def)

lemma join_join_neq:
  "id_ok i \<Longrightarrow> id_ok j \<Longrightarrow> joinPath (joinPath p i) j \<noteq> p" "id_ok i \<Longrightarrow> id_ok j \<Longrightarrow> p \<noteq> joinPath (joinPath p i) j"
  by (auto simp: joinPath_def)

lemma join_join_neq1:
  assumes "id_ok i" "id_ok j" "id_ok k"
  shows "joinPath (joinPath p i) j \<noteq> joinPath p k" "joinPath p k \<noteq> joinPath (joinPath p i) j"
  using assms count_joinPath [of j "joinPath p i"] count_joinPath [of i p] count_joinPath [of k p] by auto

lemma concat_numbered_nil: "(\<And>i x. x \<in> set xs \<Longrightarrow> f i x = []) \<Longrightarrow> concat (numbered f xs) = []"
  by (auto dest: numbered_in)

lemma columns_of_board:
  assumes "board_ids_ok b"
  shows "filter (\<lambda>n. node_path n = p) (column_nodes rf p l b) = numbered (column_node rf p l) (cbd_columns b)"
proof -
  have "filter (\<lambda>n. node_path n = p) (card_nodes rf (joinPath p (clm_id c)) (l + 1) c) = []"
    if "c \<in> set (cbd_columns b)" for c
    using assms that unfolding card_nodes_at
    by (intro concat_numbered_nil) (auto simp: board_ids_ok_def join_neq join_join_neq)
  then have "filter (\<lambda>n. node_path n = p) (column_nodes rf p l b) =
      concat (numbered (\<lambda>i c. [column_node rf p l i c]) (cbd_columns b))"
    unfolding column_nodes_at by (intro arg_cong [where f = concat] numbered_cong) simp
  then show ?thesis by (simp only: concat_numbered_single)
qed

lemma cards_of_column:
  fixes p :: string
  assumes "board_ids_ok b" and c: "c \<in> set (cbd_columns b)"
  defines "q \<equiv> joinPath p (clm_id c)"
  shows "filter (\<lambda>n. node_path n = q) (column_nodes rf p l b) = numbered (card_node rf q (l + 1)) (clm_cards c)"
proof -
  have "filter (\<lambda>n. node_path n = q) (card_nodes rf (joinPath p (clm_id e)) (l + 1) e) =
      (if clm_id e = clm_id c then numbered (card_node rf (joinPath p (clm_id e)) (l + 1)) (clm_cards e) else [])"
    if "e \<in> set (cbd_columns b)" for e
  proof -
    have ok: "id_ok (clm_id c)" "id_ok (clm_id e)" "\<And>d. d \<in> set (clm_cards e) \<Longrightarrow> id_ok (crd_id d)"
      using assms that by (auto simp: board_ids_ok_def)
    have "filter (\<lambda>n. node_path n = q) (card_nodes rf (joinPath p (clm_id e)) (l + 1) e) =
        concat (numbered (\<lambda>i d. if clm_id e = clm_id c then [card_node rf (joinPath p (clm_id e)) (l + 1) i d] else [])
          (clm_cards e))"
      unfolding card_nodes_at q_def using ok
      by (intro arg_cong [where f = concat] numbered_cong) (auto simp: join_neq join_join_neq1)
    then show ?thesis by (simp add: concat_numbered_single concat_numbered_nil)
  qed
  moreover have "q \<noteq> p" using assms by (auto simp: board_ids_ok_def join_neq)
  ultimately have "filter (\<lambda>n. node_path n = q) (column_nodes rf p l b) =
      concat (numbered (\<lambda>i e. if clm_id e = clm_id c
        then numbered (card_node rf (joinPath p (clm_id e)) (l + 1)) (clm_cards e) else []) (cbd_columns b))"
    unfolding column_nodes_at by (intro arg_cong [where f = concat] numbered_cong) simp
  also have "\<dots> = numbered (card_node rf q (l + 1)) (clm_cards c)"
    unfolding q_def by (rule concat_numbered_if) (use assms in \<open>auto simp: board_ids_ok_def\<close>)
  finally show ?thesis .
qed

lemma concat_numbered_unique:
  assumes "distinct (map k xs)" and "x \<in> set xs" and "\<And>i y. y \<in> set xs \<Longrightarrow> f i y = (if k y = k x then g y else [])"
  shows "concat (numbered f xs) = g x"
proof -
  have "concat (numbered f xs) = concat (numbered (\<lambda>i y. if k y = k x then g y else []) xs)"
    using assms(3) by (intro arg_cong [where f = concat] numbered_cong)
  with concat_numbered_if [OF assms(1,2), of g] show ?thesis by simp
qed

lemma texts_of_card:
  fixes p :: string
  assumes "board_ids_ok b" and c: "c \<in> set (cbd_columns b)" and d: "d \<in> set (clm_cards c)"
  defines "q \<equiv> joinPath (joinPath p (clm_id c)) (crd_id d)"
  shows "filter (\<lambda>n. node_path n = q) (column_nodes rf p l b) = text_nodes rf q (l + 2) d"
  unfolding column_nodes_at
proof (rule concat_numbered_unique [where k = clm_id, OF _ c])
  fix i e assume e: "e \<in> set (cbd_columns b)"
  have ok: "id_ok (clm_id c)" "id_ok (clm_id e)" "id_ok (crd_id d)" "\<And>d. d \<in> set (clm_cards e) \<Longrightarrow> id_ok (crd_id d)"
    using assms e by (auto simp: board_ids_ok_def)
  have "filter (\<lambda>n. node_path n = q) (card_nodes rf (joinPath p (clm_id e)) (l + 1) e) =
      (if clm_id e = clm_id c then text_nodes rf q (l + 2) d else [])"
  proof (cases "clm_id e = clm_id c")
    case True
    then have [simp]: "e = c" using assms(1) e c by (auto simp: board_ids_ok_def distinct_map dest: inj_onD)
    show ?thesis unfolding card_nodes_at
      by (simp, rule concat_numbered_unique [where k = crd_id, OF _ d])
        (use assms ok in \<open>auto simp: q_def join_neq board_ids_ok_def\<close>)
  next
    case False
    have "filter (\<lambda>n. node_path n = q) (card_nodes rf (joinPath p (clm_id e)) (l + 1) e) = []"
      unfolding card_nodes_at q_def
      by (rule concat_numbered_nil) (use False ok in \<open>simp add: join_join_neq1 joinPath_twice\<close>)
    with False show ?thesis by simp
  qed
  moreover have "q \<noteq> p" using ok by (simp add: q_def join_join_neq)
  ultimately show "(if q = p then [column_node rf p l i e] else []) @
      filter (\<lambda>n. node_path n = q) (card_nodes rf (joinPath p (clm_id e)) (l + 1) e) =
      (if clm_id e = clm_id c then text_nodes rf q (l + 2) d else [])" by simp
qed (use assms in \<open>simp add: board_ids_ok_def\<close>)

lemma none_below_text:
  fixes p :: string
  assumes "board_ids_ok b" and c: "c \<in> set (cbd_columns b)" and d: "d \<in> set (clm_cards c)"
    and t: "t \<in> set (crd_elements d)"
  shows "filter (\<lambda>n. node_path n = joinPath (joinPath (joinPath p (clm_id c)) (crd_id d)) (tel_id t))
    (column_nodes rf p l b) = []" (is "filter (\<lambda>n. node_path n = ?q) _ = []")
proof -
  have ok: "id_ok (clm_id c)" "id_ok (crd_id d)" "id_ok (tel_id t)"
    using assms by (auto simp: board_ids_ok_def)
  have n: "count_list ?q PATH_SEPARATOR = count_list p PATH_SEPARATOR + 3"
    using ok by (simp add: count_joinPath)
  have "filter (\<lambda>n. node_path n = ?q) (card_nodes rf (joinPath p (clm_id e)) (l + 1) e) = []"
    if "e \<in> set (cbd_columns b)" for e
  proof -
    have ok: "id_ok (clm_id e)" "\<And>d. d \<in> set (clm_cards e) \<Longrightarrow> id_ok (crd_id d)"
      using assms that by (auto simp: board_ids_ok_def)
    have "?q \<noteq> joinPath p (clm_id e)" "\<And>d. d \<in> set (clm_cards e) \<Longrightarrow> ?q \<noteq> joinPath (joinPath p (clm_id e)) (crd_id d)"
      using n ok by (metis Suc_n_not_n add_cancel_right_right count_joinPath numeral_3_eq_3 add_Suc_right
          add_cancel_left_right Suc_inject old.nat.distinct(2))+
    then show ?thesis unfolding card_nodes_at by (intro concat_numbered_nil) simp
  qed
  moreover have "?q \<noteq> p" using n by auto
  ultimately show ?thesis unfolding column_nodes_at by (intro concat_numbered_nil) simp
qed

section \<open>Reading the board\<close>

lemma build_numbered:
  assumes "\<And>i x. x \<in> set xs \<Longrightarrow> useDoBuilder (f i x) b = Inr (g x)"
  shows "mapMR (\<lambda>n. useDoBuilder n b) (numbered f xs) = Inr (map g xs)"
proof -
  have "mapMR (\<lambda>n. useDoBuilder n b) (map (\<lambda>(i, x). f i x) (enumerate n xs)) = Inr (map g xs)" for n
    using assms by (induction xs arbitrary: n) auto
  then show ?thesis by (simp add: numbered_def)
qed

lemma ensure_numbered:
  "(\<And>i x. nodeType (f i x) = ty) \<Longrightarrow> ensureBoardNodeType (numbered f xs) ty = Inr ()"
  by (auto simp: ensureBoardNodeType_Inr dest!: numbered_in)

text \<open>Nodes that have, under every path below the root of the board, what the board's nodes have there.\<close>

abbreviation root_path :: "ColumnBoard \<Rightarrow> string" where
  "root_path b \<equiv> joinPath [PATH_SEPARATOR] (cbd_id b)"

definition stores :: "(EntityId \<Rightarrow> ref) \<Rightarrow> ColumnBoard \<Rightarrow> AnyBoardNode list \<Rightarrow> bool" where
  "stores rf b ns \<longleftrightarrow> board_ids_ok b \<and>
     (\<forall>xs. mset (filter (\<lambda>n. node_path n = root_path b @ xs) ns) =
        mset (filter (\<lambda>n. node_path n = root_path b @ xs) (column_nodes rf (root_path b) 1 b)))"

lemma children:
  assumes "stores rf b ns" and "pathOfChildren n = root_path b @ xs"
    and "filter (\<lambda>n. node_path n = root_path b @ xs) (column_nodes rf (root_path b) 1 b) = numbered f ys"
    and "\<And>i x. node_position (f i x) = int i"
  shows "getChildren (new_BoardDoBuilder ns) n = numbered f ys"
proof -
  from assms(1) have "mset (filter (\<lambda>m. node_path m = root_path b @ xs) ns) =
      mset (filter (\<lambda>m. node_path m = root_path b @ xs) (column_nodes rf (root_path b) 1 b))"
    unfolding stores_def by blast
  then have "mset (filter (\<lambda>m. node_path m = root_path b @ xs) ns) = mset (numbered f ys)"
    unfolding assms(3) .
  then show ?thesis unfolding getChildren_filter assms(2) by (rule sort_numbered) (rule assms(4))
qed

lemma build_text:
  assumes st: "stores rf b ns" and "c \<in> set (cbd_columns b)" "d \<in> set (clm_cards c)" "t \<in> set (crd_elements d)"
  shows "useDoBuilder (text_node rf (joinPath (joinPath (root_path b) (clm_id c)) (crd_id d)) 3 i t) (new_BoardDoBuilder ns) =
    Inr (TextElementDo t)"
proof -
  let ?n = "text_node rf (joinPath (joinPath (root_path b) (clm_id c)) (crd_id d)) 3 i t"
  have "getChildren (new_BoardDoBuilder ns) ?n = numbered (text_node rf [] 0) []"
  proof (rule children [OF st])
    show "pathOfChildren ?n = root_path b @ (clm_id c @ [PATH_SEPARATOR] @ crd_id d @ [PATH_SEPARATOR] @ tel_id t @ [PATH_SEPARATOR])"
      by (simp add: joinPath_def)
    show "filter (\<lambda>n. node_path n = root_path b @ (clm_id c @ [PATH_SEPARATOR] @ crd_id d @ [PATH_SEPARATOR] @ tel_id t @
        [PATH_SEPARATOR])) (column_nodes rf (root_path b) 1 b) = numbered (text_node rf [] 0) []"
      using st none_below_text [OF _ assms(2-), of "root_path b" rf 1] by (simp add: stores_def joinPath_def numbered_def)
  qed simp
  then show ?thesis
    by (auto simp: text_node_def buildTextElement.simps ensureLeafNode_def numbered_def intro: TextElement.equality)
qed

lemma build_card:
  assumes st: "stores rf b ns" and "c \<in> set (cbd_columns b)" "d \<in> set (clm_cards c)"
  shows "useDoBuilder (card_node rf (joinPath (root_path b) (clm_id c)) 2 i d) (new_BoardDoBuilder ns) = Inr (CardDo d)"
proof -
  let ?n = "card_node rf (joinPath (root_path b) (clm_id c)) 2 i d"
  let ?q = "joinPath (joinPath (root_path b) (clm_id c)) (crd_id d)"
  have ch: "getChildren (new_BoardDoBuilder ns) ?n = numbered (text_node rf ?q 3) (crd_elements d)"
  proof (rule children [OF st])
    show "pathOfChildren ?n = root_path b @ (clm_id c @ [PATH_SEPARATOR] @ crd_id d @ [PATH_SEPARATOR])"
      by (simp add: joinPath_def)
    show "filter (\<lambda>n. node_path n = root_path b @ (clm_id c @ [PATH_SEPARATOR] @ crd_id d @ [PATH_SEPARATOR]))
        (column_nodes rf (root_path b) 1 b) = numbered (text_node rf ?q 3) (crd_elements d)"
      using st texts_of_card [OF _ assms(2-), of "root_path b" rf 1] by (simp add: stores_def joinPath_def text_nodes_def numeral_3_eq_3)
  qed simp
  have "mapMR (\<lambda>n. useDoBuilder n (new_BoardDoBuilder ns)) (numbered (text_node rf ?q 3) (crd_elements d)) =
      Inr (map TextElementDo (crd_elements d))"
    by (rule build_numbered) (rule build_text [OF assms])
  moreover have "ensureBoardNodeType (numbered (text_node rf ?q 3) (crd_elements d)) NODE_TEXT_ELEMENT = Inr ()"
    by (rule ensure_numbered) simp
  ultimately show ?thesis using ch unfolding card_node_def
    by (auto simp: buildCard.simps comp_def intro: Card.equality)
qed

lemma build_column:
  assumes st: "stores rf b ns" and "c \<in> set (cbd_columns b)"
  shows "useDoBuilder (column_node rf (root_path b) 1 i c) (new_BoardDoBuilder ns) = Inr (ColumnDo c)"
proof -
  let ?n = "column_node rf (root_path b) 1 i c"
  let ?q = "joinPath (root_path b) (clm_id c)"
  have ch: "getChildren (new_BoardDoBuilder ns) ?n = numbered (card_node rf ?q 2) (clm_cards c)"
  proof (rule children [OF st])
    show "pathOfChildren ?n = root_path b @ (clm_id c @ [PATH_SEPARATOR])" by (simp add: joinPath_def)
    show "filter (\<lambda>n. node_path n = root_path b @ (clm_id c @ [PATH_SEPARATOR])) (column_nodes rf (root_path b) 1 b) =
        numbered (card_node rf ?q 2) (clm_cards c)"
      using st cards_of_column [OF _ assms(2), of "root_path b" rf 1] by (simp add: stores_def joinPath_def numeral_2_eq_2)
  qed simp
  have "mapMR (\<lambda>n. useDoBuilder n (new_BoardDoBuilder ns)) (numbered (card_node rf ?q 2) (clm_cards c)) =
      Inr (map CardDo (clm_cards c))"
    by (rule build_numbered) (rule build_card [OF assms])
  moreover have "ensureBoardNodeType (numbered (card_node rf ?q 2) (clm_cards c)) NODE_CARD = Inr ()"
    by (rule ensure_numbered) simp
  ultimately show ?thesis using ch unfolding column_node_def
    by (auto simp: buildColumn.simps comp_def intro: Column.equality)
qed

lemma build_board:
  assumes st: "stores rf b ns"
  shows "buildColumnBoard (new_BoardDoBuilder ns) (board_root rf b) = Inr b"
proof -
  have ch: "getChildren (new_BoardDoBuilder ns) (ColumnBoardN (board_root rf b)) =
      numbered (column_node rf (root_path b) 1) (cbd_columns b)"
  proof (rule children [OF st])
    show "pathOfChildren (ColumnBoardN (board_root rf b)) = root_path b @ []"
      by (simp add: pathOfChildren_def board_root_def)
    show "filter (\<lambda>n. node_path n = root_path b @ []) (column_nodes rf (root_path b) 1 b) =
        numbered (column_node rf (root_path b) 1) (cbd_columns b)"
      using st columns_of_board [of b "root_path b" rf 1] by (simp add: stores_def)
  qed simp
  have "mapMR (\<lambda>n. useDoBuilder n (new_BoardDoBuilder ns)) (numbered (column_node rf (root_path b) 1) (cbd_columns b)) =
      Inr (map ColumnDo (cbd_columns b))"
    by (rule build_numbered) (rule build_column [OF st])
  moreover have "ensureBoardNodeType (numbered (column_node rf (root_path b) 1) (cbd_columns b)) NODE_COLUMN = Inr ()"
    by (rule ensure_numbered) simp
  ultimately show ?thesis using ch
    by (auto simp: buildColumnBoard.simps comp_def board_root_def intro: ColumnBoard.equality)
qed

section \<open>A board survives its storage\<close>

lemma column_nodes_level:
  assumes "n \<in> set (column_nodes rf p l b)"
  shows "l \<le> node_level n" "node_level n \<le> l + 2" "nodeType n \<noteq> NODE_COLUMN_BOARD"
  using assms by (auto simp: column_nodes_def card_nodes_def text_nodes_def dest!: numbered_in)

lemma js_split_root:
  assumes "id_ok i"
  shows "js_split PATH_SEPARATOR (joinPath [PATH_SEPARATOR] i @ xs) = [] # i # js_split PATH_SEPARATOR xs"
proof -
  have i: "js_split PATH_SEPARATOR (i @ PATH_SEPARATOR # xs) = i # js_split PATH_SEPARATOR xs"
    using assms by (simp add: js_split_append js_split_plain id_ok_def)
  have "joinPath [PATH_SEPARATOR] i @ xs = PATH_SEPARATOR # (i @ PATH_SEPARATOR # xs)"
    by (simp add: joinPath_def)
  then show ?thesis by (simp only: js_split.simps i if_True refl)
qed

lemma root_among_ancestors:
  assumes "id_ok (cbd_id b)" and "node_path n = root_path b @ xs"
  shows "cbd_id b \<in> set (node_ancestors n)"
  unfolding node_ancestors_def assms(2) js_split_root [OF assms(1)] using assms(1) by (simp add: id_ok_def)

lemma find_unique:
  assumes "x \<in> set xs" and "P x" and "\<And>y. y \<in> set xs \<Longrightarrow> P y \<Longrightarrow> y = x"
  shows "List.find P xs = Some x"
proof -
  obtain y where y: "List.find P xs = Some y" using find_is_Some [where P = P, OF assms(1,2)] by blast
  with assms(3) [of y] find_eq_Some [OF y] show ?thesis by blast
qed

lemma descendants_store:
  assumes "board_ids_ok b" and "mset db = mset (board_nodes rf b) + mset others"
    and "\<And>n. n \<in> set others \<Longrightarrow> cbd_id b \<notin> set (node_ancestors n)"
  shows "stores rf b (findDescendants db (ColumnBoardN (board_root rf b)) (Some 3))"
  unfolding stores_def
proof (intro conjI allI)
  fix xs
  let ?q = "root_path b @ xs" and ?P = "\<lambda>n. node_path n = root_path b @ xs \<and> 0 < node_level n \<and> node_level n \<le> 3"
  have "id_ok (cbd_id b)" using assms(1) by (simp add: board_ids_ok_def)
  then have none: "filter ?P others = []" "node_path (ColumnBoardN (board_root rf b)) \<noteq> ?q"
    using assms(3) by (auto simp: filter_empty_conv dest: root_among_ancestors) (simp add: board_root_def joinPath_def id_ok_def)
  have "mset (filter (\<lambda>n. node_path n = ?q) (findDescendants db (ColumnBoardN (board_root rf b)) (Some 3))) =
      filter_mset ?P (mset db)"
    by (auto simp: findDescendants_def board_root_def joinPath_def Let_def conj_ac intro!: filter_mset_cong)
  also have "\<dots> = mset (filter ?P (board_nodes rf b)) + mset (filter ?P others)"
    by (simp add: assms(2))
  also have "filter ?P (board_nodes rf b) = filter (\<lambda>n. node_path n = ?q) (column_nodes rf (root_path b) 1 b)"
  proof -
    have "filter ?P (board_nodes rf b) = filter ?P (column_nodes rf (root_path b) 1 b)"
      using none(2) by (simp add: board_nodes_def)
    also have "\<dots> = filter (\<lambda>n. node_path n = ?q) (column_nodes rf (root_path b) 1 b)"
      using column_nodes_level(1,2) [of _ rf "root_path b" 1 b]
      by (intro filter_cong) (auto simp: less_eq_Suc_le numeral_3_eq_3)
    finally show ?thesis .
  qed
  finally show "mset (filter (\<lambda>n. node_path n = ?q) (findDescendants db (ColumnBoardN (board_root rf b)) (Some 3))) =
      mset (filter (\<lambda>n. node_path n = ?q) (column_nodes rf (root_path b) 1 b))"
    by (simp add: none(1))
qed (rule assms(1))

text \<open>C17. A board is read back as it was stored: whatever the order of its nodes in the database,
  and whatever nodes of other boards are there, looking it up by its id yields the same columns,
  cards and elements in the same order.\<close>

theorem board_survives_storage:
  assumes "board_ids_ok b" and "mset db = mset (board_nodes rf b) + mset others"
    and "\<forall>n \<in> set others. node_id n \<noteq> cbd_id b \<and> cbd_id b \<notin> set (node_ancestors n)"
  shows "findBoard db userId (cbd_id b) = Inr b"
proof -
  have db: "set db = set (board_nodes rf b) \<union> set others"
    using arg_cong [OF assms(2), of set_mset] by simp
  have root: "List.find (\<lambda>n. nodeType n = NODE_COLUMN_BOARD \<and> node_id n = cbd_id b) db =
      Some (ColumnBoardN (board_root rf b))"
  proof (rule find_unique)
    show "ColumnBoardN (board_root rf b) \<in> set db" by (simp add: db board_nodes_def)
    fix y assume "y \<in> set db" "nodeType y = NODE_COLUMN_BOARD \<and> node_id y = cbd_id b"
    then show "y = ColumnBoardN (board_root rf b)"
      using assms(3) column_nodes_level(3) by (auto simp: db board_nodes_def)
  qed (simp add: board_root_def)
  have "stores rf b (findDescendants db (ColumnBoardN (board_root rf b)) (Some 3))"
    by (rule descendants_store [OF assms(1,2)]) (use assms(3) in blast)
  from build_board [OF this] show ?thesis
    by (simp add: findBoard_def ColumnBoardRepo_findById_def root)
qed

text \<open>A board of two columns, the first with a card of one text.\<close>

definition ex_board_tree :: ColumnBoard where
  "ex_board_tree =
     \<lparr>cbd_id = ''b'', cbd_title = ''B'', cbd_columns =
        [\<lparr>clm_id = ''c'', clm_title = ''C'', clm_cards =
            [\<lparr>crd_id = ''k'', crd_title = ''K'', crd_height = 100, crd_elements =
                [\<lparr>tel_id = ''t'', tel_text = ''T'', tel_createdAt = 1, tel_updatedAt = 2\<rparr>],
              crd_createdAt = 1, crd_updatedAt = 2\<rparr>], clm_createdAt = 1, clm_updatedAt = 2\<rparr>,
         \<lparr>clm_id = ''d'', clm_title = ''D'', clm_cards = [], clm_createdAt = 1, clm_updatedAt = 2\<rparr>],
      cbd_createdAt = 1, cbd_updatedAt = 2\<rparr>"

theorem board_survives_storage_witness:
  "findBoard (rev (board_nodes (\<lambda>_. 7) ex_board_tree)) ''u'' ''b'' = Inr ex_board_tree"
proof -
  have "findBoard (rev (board_nodes (\<lambda>_. 7) ex_board_tree)) ''u'' (cbd_id ex_board_tree) = Inr ex_board_tree"
    by (rule board_survives_storage [where others = "[]"])
      (simp_all add: board_ids_ok_def ex_board_tree_def id_ok_def PATH_SEPARATOR_def)
  then show ?thesis by (simp add: ex_board_tree_def)
qed

theorem node_below_parent_witness:
  "\<exists>n. new_BoardNode 0 1 (Some (ColumnBoardN (board_root (\<lambda>_. 7) ex_board_tree))) None = Inr n \<and>
     parentId n = Some ''b'' \<and> bn_level n = 1"
proof -
  have "node_ok (ColumnBoardN (board_root (\<lambda>_. 7) ex_board_tree))"
    by (simp add: node_ok_def node_ancestors_def board_root_def ex_board_tree_def PATH_SEPARATOR_def)
  from node_below_parent [OF this, of 0 1 None] show ?thesis
    by (auto simp: board_root_def ex_board_tree_def id_ok_def PATH_SEPARATOR_def node_ancestors_def)
qed

end
