(* ===== verification/CopyHelper.thy ===== *)
theory CopyHelper
  imports Board Effects JsMap
begin

text \<open>
  The helpers of copying (\<^verbatim>\<open>modules/copy-helper\<close>): the status tree that reports what became of each
  part, the status of a group, the name of a copy, the dictionary from originals to copies, and the
  response. Numbers in names are natural numbers; the code's are exact up to \<open>2 ^ 53\<close>.
\<close>

section \<open>The status tree\<close>

datatype CopyElementType =
    CET_BOARD | CET_CONTENT | CET_COURSE | CET_COURSEGROUP_GROUP | CET_FILE | CET_FILE_GROUP | CET_LEAF
  | CET_LESSON | CET_LESSON_CONTENT_ETHERPAD | CET_LESSON_CONTENT_GEOGEBRA | CET_LESSON_CONTENT_GROUP
  | CET_LESSON_CONTENT_LERNSTORE | CET_LESSON_CONTENT_NEXBOARD | CET_LESSON_CONTENT_TASK
  | CET_LESSON_CONTENT_TEXT | CET_LERNSTORE_MATERIAL | CET_LERNSTORE_MATERIAL_GROUP | CET_LTITOOL_GROUP
  | CET_METADATA | CET_SUBMISSION_GROUP | CET_TASK | CET_TASK_GROUP | CET_TIME_GROUP | CET_USER_GROUP

datatype CopyStatusEnum = CS_SUCCESS | CS_FAIL | CS_NOT_DOING | CS_NOT_IMPLEMENTED | CS_PARTIAL

text \<open>The entities that are copied.\<close>

datatype CopyEntity =
    CopyTask task
  | CopyLesson lesson_entity
  | CopyMaterial Material
  | CopyCourse course
  | CopyBoard Board

fun entity_id :: "CopyEntity \<Rightarrow> EntityId" where
  "entity_id (CopyTask t) = eid t"
| "entity_id (CopyLesson l) = eid l"
| "entity_id (CopyMaterial m) = eid m"
| "entity_id (CopyCourse c) = eid c"
| "entity_id (CopyBoard b) = eid b"

datatype CopyStatus = CopyStatus
    (cs_title: "string option") (cs_type: CopyElementType) (cs_status: CopyStatusEnum)
    (cs_elements: "CopyStatus list option")
    (cs_copyEntity: "CopyEntity option") (cs_originalEntity: "CopyEntity option")

text \<open>A status without elements and entities.\<close>

abbreviation leaf_status :: "string option \<Rightarrow> CopyElementType \<Rightarrow> CopyStatusEnum \<Rightarrow> CopyStatus" where
  "leaf_status title ty st \<equiv> CopyStatus title ty st None None None"

abbreviation group_status :: "CopyElementType \<Rightarrow> CopyStatusEnum \<Rightarrow> CopyStatus list \<Rightarrow> CopyStatus" where
  "group_status ty st els \<equiv> CopyStatus None ty st (Some els) None None"

definition isAtLeastPartialSuccessfull :: "CopyStatusEnum \<Rightarrow> bool" where
  "isAtLeastPartialSuccessfull status \<longleftrightarrow> status = CS_PARTIAL \<or> status = CS_SUCCESS"

definition deriveStatusFromElements :: "CopyStatus list \<Rightarrow> CopyStatusEnum" where
  "deriveStatusFromElements elements =
     (let elementsStatuses = map cs_status elements;
          filtered = filter (\<lambda>status. status \<noteq> CS_NOT_DOING) elementsStatuses
      in if length filtered > 0 \<and> list_all (\<lambda>status. \<not> isAtLeastPartialSuccessfull status) filtered
         then CS_FAIL
         else if length filtered > 0 \<and> list_ex (\<lambda>status. status \<noteq> CS_SUCCESS) filtered
         then CS_PARTIAL
         else CS_SUCCESS)"

section \<open>The name of a copy\<close>

definition is_digit :: "char \<Rightarrow> bool" where
  "is_digit c \<longleftrightarrow> 48 \<le> (of_char c :: nat) \<and> (of_char c :: nat) \<le> 57"

definition line_break :: "char \<Rightarrow> bool" where
  "line_break c \<longleftrightarrow> c = CHR 0x0A \<or> c = CHR 0x0D"

text \<open>
  \<^verbatim>\<open>name.match(/^(?<name>.*) \((?<number>\d+)\)$/)\<close>: read from the end, a closing parenthesis, digits, an
  opening one and a space; the dot matches no line terminator.
\<close>

definition match_copy_name :: "string \<Rightarrow> (string \<times> nat) option" where
  "match_copy_name name =
     (case rev name of
        c # r \<Rightarrow>
          if c = CHR '')'' \<and> takeWhile is_digit r \<noteq> []
          then case dropWhile is_digit r of
                 x # y # base \<Rightarrow>
                   if x = CHR ''('' \<and> y = CHR '' '' \<and> \<not> list_ex line_break base
                   then Some (rev base, string_nat (rev (takeWhile is_digit r)))
                   else None
               | _ \<Rightarrow> None
          else None
      | [] \<Rightarrow> None)"

definition composed :: "string \<Rightarrow> nat \<Rightarrow> string" where
  "composed name num = name @ '' ('' @ nat_string num @ '')''"

lemma is_digit_digit: "n < 10 \<Longrightarrow> is_digit (digit n)"
  by (simp add: is_digit_def digit_def of_char_of take_bit_eq_mod)

lemma nat_string_digits: "c \<in> set (nat_string n) \<Longrightarrow> is_digit c"
proof (induction n rule: nat_string.induct)
  case (1 n)
  then show ?case using nat_string.simps [of n] by (cases "n < 10") (auto simp: is_digit_digit)
qed

lemma nat_string_nonempty [simp]: "nat_string n \<noteq> []"
  by (simp add: nat_string.simps [of n])

lemma match_composed:
  "match_copy_name (composed b n) = (if list_ex line_break b then None else Some (b, n))"
proof -
  have run: "takeWhile is_digit (ds @ CHR ''('' # r) = ds \<and> dropWhile is_digit (ds @ CHR ''('' # r) = CHR ''('' # r"
    if "\<forall>c \<in> set ds. is_digit c" for ds r
    using that by (induction ds) (simp_all add: is_digit_def)
  have "\<forall>c \<in> set (rev (nat_string n)). is_digit c" by (simp add: nat_string_digits)
  from run [OF this, of "CHR '' '' # rev b"]
  have "takeWhile is_digit (rev (nat_string n) @ CHR ''('' # CHR '' '' # rev b) = rev (nat_string n)"
    "dropWhile is_digit (rev (nat_string n) @ CHR ''('' # CHR '' '' # rev b) = CHR ''('' # CHR '' '' # rev b"
    by blast+
  then show ?thesis by (simp add: match_copy_name_def composed_def list_ex_rev)
qed

lemma match_plain: "match_copy_name s = Some (b, n) \<Longrightarrow> \<not> list_ex line_break b"
  by (auto simp: match_copy_name_def list_ex_rev split: list.splits if_splits)

definition name_and_number :: "string \<Rightarrow> string \<times> nat" where
  "name_and_number name =
     (case match_copy_name name of Some (b, n) \<Rightarrow> (b, n + 1) | None \<Rightarrow> (name, 1))"

text \<open>
  The measure of the search: the existing names with the same stem and at least the number; for a name with a
  line break, which never matches and grows by a suffix each time, the existing names of at least
  its length.
\<close>

definition names_ahead :: "string \<Rightarrow> string list \<Rightarrow> nat" where
  "names_ahead name xs =
     (case match_copy_name name of
        Some (b, n) \<Rightarrow> card {e \<in> set xs. \<exists>m \<ge> n. match_copy_name e = Some (b, m)}
      | None \<Rightarrow> if list_ex line_break name then card {e \<in> set xs. length name \<le> length e}
                else Suc (card (set xs)))"

lemma names_ahead_less:
  assumes "name \<in> set xs"
  shows "names_ahead (composed (fst (name_and_number name)) (snd (name_and_number name))) xs < names_ahead name xs"
proof (cases "match_copy_name name")
  case None
  then have nn: "name_and_number name = (name, 1)" by (simp add: name_and_number_def)
  show ?thesis
  proof (cases "list_ex line_break name")
    case True
    have "name \<in> {e \<in> set xs. length name \<le> length e}"
      "name \<notin> {e \<in> set xs. length (composed name 1) \<le> length e}"
      "{e \<in> set xs. length (composed name 1) \<le> length e} \<subseteq> {e \<in> set xs. length name \<le> length e}"
      using assms by (auto simp: composed_def)
    then have "{e \<in> set xs. length (composed name 1) \<le> length e} \<subset> {e \<in> set xs. length name \<le> length e}"
      by blast
    then have "card {e \<in> set xs. length (composed name 1) \<le> length e} < card {e \<in> set xs. length name \<le> length e}"
      by (rule psubset_card_mono [rotated]) simp
    moreover have "list_ex line_break (composed name 1)" using True by (simp add: composed_def)
    ultimately show ?thesis using True None nn
      by (simp add: names_ahead_def match_composed del: One_nat_def)
  next
    case False
    then have "names_ahead (composed name 1) xs \<le> card (set xs)"
      unfolding names_ahead_def match_composed by (auto intro!: card_mono)
    with False None nn show ?thesis by (simp add: names_ahead_def [of name])
  qed
next
  case (Some p)
  then obtain b n where m: "match_copy_name name = Some (b, n)" by (cases p) auto
  have "name \<in> {e \<in> set xs. \<exists>m \<ge> n. match_copy_name e = Some (b, m)}"
    "name \<notin> {e \<in> set xs. \<exists>m \<ge> n + 1. match_copy_name e = Some (b, m)}"
    "{e \<in> set xs. \<exists>m \<ge> n + 1. match_copy_name e = Some (b, m)} \<subseteq>
      {e \<in> set xs. \<exists>m \<ge> n. match_copy_name e = Some (b, m)}"
    using assms m by auto
  then have "{e \<in> set xs. \<exists>m \<ge> n + 1. match_copy_name e = Some (b, m)} \<subset>
      {e \<in> set xs. \<exists>m \<ge> n. match_copy_name e = Some (b, m)}"
    by blast
  then show ?thesis using m match_plain [OF m]
    by (simp add: names_ahead_def name_and_number_def match_composed psubset_card_mono)
qed

function deriveCopyName :: "string \<Rightarrow> string list \<Rightarrow> string" where
  "deriveCopyName name existingNames =
     (if name \<notin> set existingNames then name
      else let (base, num) = name_and_number name; composedName = composed base num
           in if composedName \<in> set existingNames then deriveCopyName composedName existingNames
              else composedName)"
  by pat_completeness auto

termination
  by (relation "measure (\<lambda>(name, xs). names_ahead name xs)")
    (use names_ahead_less in \<open>force simp: prod_eq_iff\<close>)+

declare deriveCopyName.simps [simp del]

section \<open>The dictionary of copies\<close>

fun buildCopyEntityDict :: "CopyStatus \<Rightarrow> (EntityId, CopyEntity) js_map" where
  "buildCopyEntityDict (CopyStatus title ty st elements copyEntity originalEntity) =
     (let m = (case elements of
                 None \<Rightarrow> []
               | Some els \<Rightarrow> fold (\<lambda>elementStatus m.
                     fold (\<lambda>(key, el) m. map_set m key el) (buildCopyEntityDict elementStatus) m) els [])
      in case (originalEntity, copyEntity) of
           (Some original, Some copy) \<Rightarrow> map_set m (entity_id original) copy
         | _ \<Rightarrow> m)"

section \<open>The response\<close>

datatype CopyApiResponse = CopyApiResponse
    (car_id: "EntityId option") (car_title: "string option") (car_type: CopyElementType)
    (car_destinationCourseId: "EntityId option") (car_status: CopyStatusEnum)
    (car_elements: "CopyApiResponse list option")

text \<open>\<^verbatim>\<open>copyEntity.course?.id\<close>: a course and a material have no property of this name.\<close>

fun entity_courseId :: "CopyEntity \<Rightarrow> EntityId option" where
  "entity_courseId (CopyTask t) = map_option eid (tsk_course t)"
| "entity_courseId (CopyLesson l) = map_option eid (les_course l)"
| "entity_courseId (CopyBoard b) = Some (eid (brd_course b))"
| "entity_courseId (CopyMaterial m) = None"
| "entity_courseId (CopyCourse c) = None"

fun copy_mapToResponse :: "CopyStatus \<Rightarrow> CopyApiResponse" where
  "copy_mapToResponse (CopyStatus title ty st elements copyEntity originalEntity) =
     CopyApiResponse
       (map_option entity_id copyEntity)
       (if truthy title then title else None)
       ty
       (case copyEntity of None \<Rightarrow> None | Some e \<Rightarrow> entity_courseId e)
       st
       (case elements of
          Some els \<Rightarrow>
            if st \<noteq> CS_SUCCESS
            then Some (filter (\<lambda>element. car_status element \<noteq> CS_SUCCESS) (map copy_mapToResponse els))
            else None
        | None \<Rightarrow> None)"

end
