(* ===== verification/CopyFiles.thy ===== *)
theory CopyFiles
  imports CopyHelper FilesStorage
begin

text \<open>
  Copying the files of an entity: the client of the files storage
  (\<^verbatim>\<open>modules/files-storage-client\<close>) and the replacement of the old file urls in texts.
\<close>

section \<open>The client\<close>

record CopyFileDto =
  cfd_id :: "EntityId option"
  cfd_sourceId :: EntityId
  cfd_name :: string

record IFileRequestInfo =
  fri_parentType :: FileRecordParentType
  fri_schoolId :: EntityId
  fri_parentId :: EntityId

record ICopyFilesRequestInfo =
  cri_userId :: EntityId
  cri_source :: IFileRequestInfo
  cri_target :: IFileRequestInfo

datatype EntityWithFiles =
    FilesOfLesson lesson_entity
  | FilesOfTask task
  | FilesOfSubmission submission_entity

fun mapEntityToParentType :: "EntityWithFiles \<Rightarrow> FileRecordParentType" where
  "mapEntityToParentType (FilesOfLesson _) = Parent_Lesson"
| "mapEntityToParentType (FilesOfTask _) = Parent_Task"
| "mapEntityToParentType (FilesOfSubmission _) = Parent_Submission"

fun file_parent_id :: "EntityWithFiles \<Rightarrow> EntityId" where
  "file_parent_id (FilesOfLesson l) = eid l"
| "file_parent_id (FilesOfTask t) = eid t"
| "file_parent_id (FilesOfSubmission s) = eid s"

fun file_school_id :: "EntityWithFiles \<Rightarrow> EntityId result" where
  "file_school_id (FilesOfLesson l) = Lesson_getSchoolId l"
| "file_school_id (FilesOfTask t) = Inr (Task_getSchoolId t)"
| "file_school_id (FilesOfSubmission s) = Inr (eid (sub_school s))"

fun parent_type_string :: "FileRecordParentType \<Rightarrow> string" where
  "parent_type_string Parent_User = ''users''"
| "parent_type_string Parent_School = ''schools''"
| "parent_type_string Parent_Course = ''courses''"
| "parent_type_string Parent_Task = ''tasks''"
| "parent_type_string Parent_Lesson = ''lessons''"
| "parent_type_string Parent_Submission = ''submissions''"

definition all_parent_types :: "FileRecordParentType list" where
  "all_parent_types = [Parent_User, Parent_School, Parent_Course, Parent_Task, Parent_Lesson, Parent_Submission]"

definition mapStringToParentType :: "string \<Rightarrow> FileRecordParentType result" where
  "mapStringToParentType input =
     (case List.find (\<lambda>ty. parent_type_string ty = input) all_parent_types of
        Some response \<Rightarrow> Inr response
      | None \<Rightarrow> Inl (PlainError (''Mapping type is not supported. '' @ input)))"

definition FileParamBuilder_build :: "EntityId \<Rightarrow> EntityWithFiles \<Rightarrow> IFileRequestInfo" where
  "FileParamBuilder_build schoolId parent =
     \<lparr>fri_parentType = mapEntityToParentType parent, fri_schoolId = schoolId,
      fri_parentId = file_parent_id parent\<rparr>"

definition CopyFilesOfParentParamBuilder_build ::
  "EntityId \<Rightarrow> IFileRequestInfo \<Rightarrow> IFileRequestInfo \<Rightarrow> ICopyFilesRequestInfo" where
  "CopyFilesOfParentParamBuilder_build userId source target =
     \<lparr>cri_userId = userId, cri_source = source, cri_target = target\<rparr>"

definition mapCopyFileResponseToCopyFileDto :: "CopyFileDto \<Rightarrow> CopyFileDto" where
  "mapCopyFileResponseToCopyFileDto response =
     \<lparr>cfd_id = cfd_id response, cfd_sourceId = cfd_sourceId response, cfd_name = cfd_name response\<rparr>"

definition mapCopyFileListResponseToCopyFilesDto :: "CopyFileDto list \<Rightarrow> CopyFileDto list" where
  "mapCopyFileListResponseToCopyFilesDto rs = map mapCopyFileResponseToCopyFileDto rs"

text \<open>The producer sends the request to the files storage and waits for its answer.\<close>

definition client_copyFilesOfParent ::
  "(ICopyFilesRequestInfo \<Rightarrow> CopyFileDto list result) \<Rightarrow> ICopyFilesRequestInfo \<Rightarrow> CopyFileDto list result" where
  "client_copyFilesOfParent producer param =
     bindR (producer param) (\<lambda>response. Inr (mapCopyFileListResponseToCopyFilesDto response))"

section \<open>The replacement of urls\<close>

text \<open>
  A replacement stands for the global regular expression \<^verbatim>\<open>sourceId.+?"\<close> and a replacement string. The
  expression matches the id, then at least one character up to the nearest following quotation
  mark, without line terminators in between.
\<close>

record FileUrlReplacement =
  fur_sourceId :: EntityId
  fur_replacement :: string

fun lazy_to_quote :: "string \<Rightarrow> (string \<times> string) option" where
  "lazy_to_quote [] = None"
| "lazy_to_quote (c # cs) =
     (if c = CHR 0x22 then Some ([c], cs)
      else if line_break c then None
      else map_option (\<lambda>(m, r). (c # m, r)) (lazy_to_quote cs))"

definition match_url :: "EntityId \<Rightarrow> string \<Rightarrow> (string \<times> string) option" where
  "match_url sourceId s =
     (if take (length sourceId) s = sourceId
      then case drop (length sourceId) s of
             [] \<Rightarrow> None
           | c # cs \<Rightarrow> if line_break c then None
                       else map_option (\<lambda>(m, r). (sourceId @ c # m, r)) (lazy_to_quote cs)
      else None)"

text \<open>
  The patterns of a replacement string: \<^verbatim>\<open>$$\<close> is a dollar, \<^verbatim>\<open>$&\<close> the match, \<^verbatim>\<open>$`\<close> and \<^verbatim>\<open>$'\<close> what is
  before and after it; the expression has no groups, so everything else stands for itself.
\<close>

fun expand_replacement :: "string \<Rightarrow> string \<Rightarrow> string \<Rightarrow> string \<Rightarrow> string" where
  "expand_replacement pre m post [] = []"
| "expand_replacement pre m post [c] = [c]"
| "expand_replacement pre m post (c # d # cs) =
     (if c = CHR ''$'' \<and> d = CHR ''$'' then CHR ''$'' # expand_replacement pre m post cs
      else if c = CHR ''$'' \<and> d = CHR ''&'' then m @ expand_replacement pre m post cs
      else if c = CHR ''$'' \<and> d = CHR 0x60 then pre @ expand_replacement pre m post cs
      else if c = CHR ''$'' \<and> d = CHR 0x27 then post @ expand_replacement pre m post cs
      else c # expand_replacement pre m post (d # cs))"

lemma lazy_to_quote_append: "lazy_to_quote s = Some (m, r) \<Longrightarrow> s = m @ r \<and> m \<noteq> []"
  by (induction s arbitrary: m r) (auto split: if_splits)

lemma match_url_append: "match_url i s = Some (m, r) \<Longrightarrow> s = m @ r \<and> m \<noteq> []"
proof -
  assume "match_url i s = Some (m, r)"
  then obtain c cs k where "take (length i) s = i" "drop (length i) s = c # cs"
    "lazy_to_quote cs = Some (k, r)" "m = i @ c # k"
    by (auto simp: match_url_def split: if_splits list.splits)
  with lazy_to_quote_append [of cs k r] append_take_drop_id [of "length i" s] show ?thesis by simp
qed

function replace_urls :: "FileUrlReplacement \<Rightarrow> string \<Rightarrow> string \<Rightarrow> string" where
  "replace_urls x pre s =
     (case match_url (fur_sourceId x) s of
        Some (m, r) \<Rightarrow> expand_replacement pre m r (fur_replacement x) @ replace_urls x (pre @ m) r
      | None \<Rightarrow> (case s of [] \<Rightarrow> [] | c # cs \<Rightarrow> c # replace_urls x (pre @ [c]) cs))"
  by pat_completeness auto

termination
  by (relation "measure (\<lambda>(x, pre, s). length s)") (auto dest: match_url_append)

declare replace_urls.simps [simp del]

definition replace_url :: "string \<Rightarrow> FileUrlReplacement \<Rightarrow> string" where
  "replace_url txt x = replace_urls x [] txt"

definition FILE_COULD_NOT_BE_COPIED_HINT :: string where
  "FILE_COULD_NOT_BE_COPIED_HINT = ''fileCouldNotBeCopied''"

definition createFileUrlReplacements :: "CopyFileDto list \<Rightarrow> FileUrlReplacement list" where
  "createFileUrlReplacements fileDtos =
     map (\<lambda>fileDto.
       let newId = nullish (cfd_id fileDto) FILE_COULD_NOT_BE_COPIED_HINT
       in \<lparr>fur_sourceId = cfd_sourceId fileDto,
           fur_replacement = newId @ ''/'' @ cfd_name fileDto @ [CHR 0x22]\<rparr>) fileDtos"

definition files_deriveCopyStatus :: "CopyFileDto list \<Rightarrow> CopyStatus" where
  "files_deriveCopyStatus fileDtos =
     (let fileStatuses = map (\<lambda>fileDto.
            leaf_status (Some (cfd_name fileDto)) CET_FILE
              (if truthy (cfd_id fileDto) then CS_SUCCESS else CS_FAIL)) fileDtos
      in group_status CET_FILE_GROUP (deriveStatusFromElements fileStatuses) fileStatuses)"

definition copyFilesOfEntity ::
  "(ICopyFilesRequestInfo \<Rightarrow> CopyFileDto list result) \<Rightarrow> EntityWithFiles \<Rightarrow> EntityWithFiles \<Rightarrow> EntityId \<Rightarrow>
   (FileUrlReplacement list \<times> CopyStatus) result" where
  "copyFilesOfEntity producer originalEntity copyEntity userId =
     bindR (file_school_id originalEntity) (\<lambda>sourceSchool.
     bindR (file_school_id copyEntity) (\<lambda>targetSchool.
     let source = FileParamBuilder_build sourceSchool originalEntity;
         target = FileParamBuilder_build targetSchool copyEntity;
         params = CopyFilesOfParentParamBuilder_build userId source target
     in bindR (client_copyFilesOfParent producer params) (\<lambda>fileDtos.
          Inr (createFileUrlReplacements fileDtos, files_deriveCopyStatus fileDtos))))"

lemma replace_example:
  "replace_url (''x/id1/a.png'' @ [CHR 0x22] @ '' y/id1/b'' @ [CHR 0x22])
     \<lparr>fur_sourceId = ''id1'', fur_replacement = ''id2/n'' @ [CHR 0x22]\<rparr> =
   ''x/id2/n'' @ [CHR 0x22] @ '' y/id2/n'' @ [CHR 0x22]"
  by (simp add: replace_url_def replace_urls.simps match_url_def line_break_def)

end
