(* ===== verification/CopyServices.thy ===== *)
theory CopyServices
  imports CopyFiles Rooms
begin

text \<open>
  Copying tasks, lessons, boards and courses (\<^verbatim>\<open>modules/task/service/task-copy.service.ts\<close>,
  \<^verbatim>\<open>modules/lesson/service/lesson-copy.service.ts\<close>, \<^verbatim>\<open>modules/learnroom/service/board-copy.service.ts\<close>,
  \<^verbatim>\<open>course-copy.service.ts\<close>, and the use cases).

  The environment holds the database, the files storage and the services for pads and boards; the
  state counts the objects made so far and lists what was saved, in order. A reference from one
  entity to another shows the other as it was when the reference was made; \<open>oid\<close> tells which object it
  is. Copies that the code starts together run in their order.
\<close>

section \<open>Environment and state\<close>

record copy_env =
  ce_now :: date
  ce_newId :: "ref \<Rightarrow> EntityId"
  ce_random :: "ref \<Rightarrow> string"
  ce_save :: "CopyEntity \<Rightarrow> exn option"
  ce_task_findById :: "EntityId \<Rightarrow> task result"
  ce_lesson_findById :: "EntityId \<Rightarrow> lesson_entity result"
  ce_course_findById :: "EntityId \<Rightarrow> course_entity result"
  ce_course_findAllByUserId :: "EntityId \<Rightarrow> course list result"
  ce_rooms :: rooms_repos
  ce_files :: "ICopyFilesRequestInfo \<Rightarrow> CopyFileDto list result"
  ce_pads_create :: "EntityId \<Rightarrow> EntityId \<Rightarrow> string \<Rightarrow> string result"
  ce_nexboards_create :: "EntityId \<Rightarrow> string \<Rightarrow> string \<Rightarrow> (string \<times> string) result"
  ce_url_pathname :: "string \<Rightarrow> string result"
  ce_etherpadEnabled :: bool
  ce_nexboardEnabled :: bool
  ce_copyEnabled :: bool
  ce_padUri :: string
  ce_auth :: auth_env
  ce_getUser :: get_user
  ce_findById :: find_by_id

record copy_state =
  cps_fresh :: ref
  cps_saved :: "CopyEntity list"

type_synonym 'a copying = "(copy_state, 'a) eff"

definition fresh_ref :: "ref copying" where
  "fresh_ref s = (Inr (cps_fresh s), s\<lparr>cps_fresh := Suc (cps_fresh s)\<rparr>)"

text \<open>Saving gives an entity without an id its id.\<close>

definition with_id :: "copy_env \<Rightarrow> 'a entity_scheme \<Rightarrow> 'a entity_scheme" where
  "with_id env e = (if eid e = [] then e\<lparr>eid := ce_newId env (oid e)\<rparr> else e)"

definition save_entity :: "copy_env \<Rightarrow> ('a entity_scheme \<Rightarrow> CopyEntity) \<Rightarrow> 'a entity_scheme \<Rightarrow> 'a entity_scheme copying" where
  "save_entity env C e s =
     (let e' = with_id env e
      in case ce_save env (C e') of
           Some err \<Rightarrow> (Inl err, s)
         | None \<Rightarrow> (Inr e', s\<lparr>cps_saved := cps_saved s @ [C e']\<rparr>))"

section \<open>Tasks\<close>

record TaskCopyParams =
  tcp_originalTaskId :: EntityId
  tcp_destinationCourse :: "course option"
  tcp_destinationLesson :: "lesson option"
  tcp_user :: user
  tcp_copyName :: "string option"

definition copyTaskEntity :: "copy_env \<Rightarrow> TaskCopyParams \<Rightarrow> task \<Rightarrow> task copying" where
  "copyTaskEntity env params originalTask =
     bindE fresh_ref (\<lambda>r.
     let taskCopy = new_Task (ce_now env) r
           \<lparr>tp_name = or_default (tcp_copyName params) (tsk_name originalTask),
            tp_description = Some (tsk_description originalTask),
            tp_descriptionInputFormat = Some (tsk_descriptionInputFormat originalTask),
            tp_availableDate = None, tp_dueDate = None, tp_taskCard = None,
            tp_course = tcp_destinationCourse params, tp_lesson = tcp_destinationLesson params,
            tp_creator = tcp_user params, tp_school = usr_school (tcp_user params),
            tp_finished = None, tp_private = None, tp_submissions = None, tp_publicSubmissions = None,
            tp_teamSubmissions = tsk_teamSubmissions originalTask\<rparr>
     in save_entity env CopyTask taskCopy)"

definition task_updateFileUrls :: "copy_env \<Rightarrow> task \<Rightarrow> FileUrlReplacement list \<Rightarrow> task copying" where
  "task_updateFileUrls env t fileUrlReplacements =
     save_entity env CopyTask (t\<lparr>tsk_description := foldl replace_url (tsk_description t) fileUrlReplacements\<rparr>)"

definition task_deriveCopyStatus :: "CopyStatus \<Rightarrow> task \<Rightarrow> task \<Rightarrow> CopyStatus" where
  "task_deriveCopyStatus fileCopyStatus originalTask taskCopy =
     (let elements = [leaf_status None CET_METADATA CS_SUCCESS, leaf_status None CET_CONTENT CS_SUCCESS,
            leaf_status None CET_SUBMISSION_GROUP CS_NOT_DOING, fileCopyStatus]
      in CopyStatus (Some (tsk_name taskCopy)) CET_TASK (deriveStatusFromElements elements) (Some elements)
           (Some (CopyTask taskCopy)) (Some (CopyTask originalTask)))"

definition copyTask :: "copy_env \<Rightarrow> TaskCopyParams \<Rightarrow> CopyStatus copying" where
  "copyTask env params =
     bindE (liftE (ce_task_findById env (tcp_originalTaskId params))) (\<lambda>originalTask.
     bindE (copyTaskEntity env params originalTask) (\<lambda>taskCopy.
     bindE (liftE (copyFilesOfEntity (ce_files env) (FilesOfTask originalTask) (FilesOfTask taskCopy)
                     (eid (tcp_user params)))) (\<lambda>(fileUrlReplacements, fileCopyStatus).
     bindE (task_updateFileUrls env taskCopy fileUrlReplacements) (\<lambda>taskCopy'.
       retE (task_deriveCopyStatus fileCopyStatus originalTask taskCopy')))))"

section \<open>The contents of a lesson\<close>

record LessonCopyParams =
  lcp_originalLessonId :: EntityId
  lcp_destinationCourse :: course
  lcp_user :: user
  lcp_copyName :: "string option"

text \<open>
  A component's content is of the alternative its type says; a missing content fails where a
  property of it is read. The contents of other alternatives have no text and no resources.
\<close>

definition copyTextContent :: "IComponentProperties \<Rightarrow> IComponentProperties result" where
  "copyTextContent element =
     (case com_content element of
        Some (ComponentText txt) \<Rightarrow>
          Inr \<lparr>com_id = None, com_title = com_title element, com_hidden = com_hidden element,
               com_component = TEXT, com_user = com_user element, com_content = Some (ComponentText txt)\<rparr>
      | _ \<Rightarrow> Inl TypeError)"

definition copyLernStore :: "IComponentProperties \<Rightarrow> IComponentProperties result" where
  "copyLernStore element =
     (case com_content element of
        None \<Rightarrow> Inl TypeError
      | Some content \<Rightarrow>
          let resources = (case content of ComponentLernstore rs \<Rightarrow> rs | _ \<Rightarrow> [])
          in Inr \<lparr>com_id = None, com_title = com_title element, com_hidden = com_hidden element,
                  com_component = LERNSTORE, com_user = com_user element,
                  com_content = Some (ComponentLernstore resources)\<rparr>)"

definition copyGeogebra :: "IComponentProperties \<Rightarrow> IComponentProperties" where
  "copyGeogebra originalElement =
     originalElement\<lparr>com_hidden := True, com_content := Some (ComponentGeogebra []), com_id := None\<rparr>"

text \<open>The services for pads and boards answer \<^verbatim>\<open>false\<close> when the creation fails.\<close>

definition createEtherpad :: "copy_env \<Rightarrow> EntityId \<Rightarrow> EntityId \<Rightarrow> string \<Rightarrow> string option" where
  "createEtherpad env userId courseId title =
     (case ce_pads_create env userId courseId title of Inr padID \<Rightarrow> Some padID | Inl _ \<Rightarrow> None)"

definition createNexboard :: "copy_env \<Rightarrow> EntityId \<Rightarrow> string \<Rightarrow> string \<Rightarrow> (string \<times> string) option" where
  "createNexboard env userId title description =
     (case ce_nexboards_create env userId title description of
        Inr (i, publicLink) \<Rightarrow> Some (i, publicLink) | Inl _ \<Rightarrow> None)"

definition copyEtherpad ::
  "copy_env \<Rightarrow> IComponentProperties \<Rightarrow> LessonCopyParams \<Rightarrow> IComponentProperties option copying" where
  "copyEtherpad env originalElement params =
     bindE fresh_ref (\<lambda>n.
     let copy = originalElement\<lparr>com_id := None\<rparr>;
         description = (case com_content copy of Some (ComponentEtherpad d _ _) \<Rightarrow> d | _ \<Rightarrow> []);
         title = ce_random env n;
         etherpadPadId = createEtherpad env (eid (lcp_user params)) (eid (lcp_destinationCourse params)) title
     in retE (if truthy etherpadPadId
              then Some (copy\<lparr>com_content := Some (ComponentEtherpad description title
                     (ce_padUri env @ ''/'' @ the etherpadPadId))\<rparr>)
              else None))"

definition copyNexboard ::
  "copy_env \<Rightarrow> IComponentProperties \<Rightarrow> LessonCopyParams \<Rightarrow> IComponentProperties option" where
  "copyNexboard env originalElement params =
     (let copy = originalElement\<lparr>com_id := None\<rparr>;
          (description, title) = (case com_content copy of
             Some (ComponentNexboard _ d t _) \<Rightarrow> (d, t) | _ \<Rightarrow> ([], []))
      in case createNexboard env (eid (lcp_user params)) title description of
           Some (board, url) \<Rightarrow> Some (copy\<lparr>com_content := Some (ComponentNexboard board description title url)\<rparr>)
         | None \<Rightarrow> None)"

definition copyEmbeddedTaskLink :: "IComponentProperties \<Rightarrow> IComponentProperties" where
  "copyEmbeddedTaskLink originalElement = originalElement\<lparr>com_id := None\<rparr>"

text \<open>One round of the loop: the copied component, if there is one, and its status; none when skipped.\<close>

definition copy_component ::
  "copy_env \<Rightarrow> LessonCopyParams \<Rightarrow> IComponentProperties \<Rightarrow>
   (IComponentProperties option \<times> CopyStatus) option copying" where
  "copy_component env params element =
     (case com_component element of
        TEXT \<Rightarrow> bindE (liftE (copyTextContent element)) (\<lambda>c.
          retE (Some (Some c, leaf_status (com_title element) CET_LESSON_CONTENT_TEXT CS_SUCCESS)))
      | LERNSTORE \<Rightarrow> bindE (liftE (copyLernStore element)) (\<lambda>c.
          retE (Some (Some c, leaf_status (com_title element) CET_LESSON_CONTENT_LERNSTORE CS_SUCCESS)))
      | GEOGEBRA \<Rightarrow>
          retE (Some (Some (copyGeogebra element), leaf_status (com_title element) CET_LESSON_CONTENT_GEOGEBRA CS_PARTIAL))
      | ETHERPAD \<Rightarrow>
          if ce_etherpadEnabled env
          then bindE (copyEtherpad env element params) (\<lambda>c.
            retE (Some (c, leaf_status (com_title element) CET_LESSON_CONTENT_ETHERPAD
              (if c \<noteq> None then CS_PARTIAL else CS_FAIL))))
          else retE None
      | INTERNAL \<Rightarrow>
          retE (Some (Some (copyEmbeddedTaskLink element), leaf_status (com_title element) CET_LESSON_CONTENT_TASK CS_SUCCESS))
      | NEXBOARD \<Rightarrow>
          if ce_nexboardEnabled env
          then let c = copyNexboard env element params
               in retE (Some (c, leaf_status (com_title element) CET_LESSON_CONTENT_NEXBOARD
                    (if c \<noteq> None then CS_PARTIAL else CS_FAIL)))
          else retE None)"

definition lessonStatusContent :: "CopyStatus list \<Rightarrow> CopyStatus list" where
  "lessonStatusContent elements =
     (if length elements > 0
      then [group_status CET_LESSON_CONTENT_GROUP (deriveStatusFromElements elements) elements] else [])"

definition copyLessonContent ::
  "copy_env \<Rightarrow> IComponentProperties list \<Rightarrow> LessonCopyParams \<Rightarrow>
   (IComponentProperties list \<times> CopyStatus list) copying" where
  "copyLessonContent env content params =
     bindE (mapME (copy_component env params) content) (\<lambda>parts.
     let done = List.map_filter id parts;
         copiedContent = List.map_filter fst done;
         copiedContentStatus = map snd done
     in retE (copiedContent, lessonStatusContent copiedContentStatus))"

section \<open>Lessons\<close>

definition material_props :: "Material \<Rightarrow> IMaterialProperties" where
  "material_props m =
     \<lparr>imp_client = mat_client m, imp_description = mat_description m, imp_license = mat_license m,
      imp_merlinReference = mat_merlinReference m, imp_relatedResources = mat_relatedResources m,
      imp_subjects = mat_subjects m, imp_tags = mat_tags m, imp_targetGroups = mat_targetGroups m,
      imp_title = mat_title m, imp_url = mat_url m\<rparr>"

definition copyLinkedMaterials :: "copy_env \<Rightarrow> lesson_entity \<Rightarrow> (Material list \<times> CopyStatus list) copying" where
  "copyLinkedMaterials env originalLesson =
     bindE (liftE (getLessonMaterials originalLesson)) (\<lambda>linkedItems.
     bindE (mapME (\<lambda>element. bindE fresh_ref (\<lambda>r. retE (new_Material (ce_now env) r (material_props element)))) linkedItems)
       (\<lambda>copiedMaterials.
     if length linkedItems > 0
     then let elementsStatus = map (\<lambda>material.
                CopyStatus (Some (mat_title material)) CET_LERNSTORE_MATERIAL CS_SUCCESS None
                  (Some (CopyMaterial material)) None) copiedMaterials
          in retE (copiedMaterials,
               [group_status CET_LERNSTORE_MATERIAL_GROUP (deriveStatusFromElements elementsStatus) elementsStatus])
     else retE ([], [])))"

definition copyLinkedTasks ::
  "copy_env \<Rightarrow> lesson \<Rightarrow> lesson_entity \<Rightarrow> LessonCopyParams \<Rightarrow> CopyStatus list copying" where
  "copyLinkedTasks env destinationLesson l params =
     bindE (liftE (getLessonLinkedTasks l)) (\<lambda>linkedTasks.
     if length linkedTasks > 0
     then bindE (mapME (\<lambda>element. copyTask env
                  \<lparr>tcp_originalTaskId = eid element,
                   tcp_destinationCourse = Some (lcp_destinationCourse params),
                   tcp_destinationLesson = Some destinationLesson,
                   tcp_user = lcp_user params, tcp_copyName = None\<rparr>) linkedTasks) (\<lambda>copiedTasksStatus.
          retE [group_status CET_TASK_GROUP (deriveStatusFromElements copiedTasksStatus) copiedTasksStatus])
     else retE [])"

definition lesson_deriveCopyStatus ::
  "CopyStatus list \<Rightarrow> CopyStatus list \<Rightarrow> CopyStatus list \<Rightarrow> lesson_entity \<Rightarrow> lesson_entity \<Rightarrow> CopyStatus" where
  "lesson_deriveCopyStatus contentStatus materialsStatus copiedTasksStatus lessonCopy originalLesson =
     (let elements = [leaf_status None CET_METADATA CS_SUCCESS] @ contentStatus @ materialsStatus @ copiedTasksStatus
      in CopyStatus (Some (les_name lessonCopy)) CET_LESSON (deriveStatusFromElements elements) (Some elements)
           (Some (CopyLesson lessonCopy)) (Some (CopyLesson originalLesson)))"

text \<open>
  The task id is the third part of the path of the url: \<^verbatim>\<open>new URL(url, base).pathname\<close> is the URL
  parser of the platform, a parameter, which throws on an invalid url.
\<close>

fun content_url :: "ComponentContent \<Rightarrow> string option" where
  "content_url (ComponentInternal url) = Some url"
| "content_url (ComponentEtherpad _ _ url) = Some url"
| "content_url (ComponentNexboard _ _ _ url) = Some url"
| "content_url _ = None"

definition extractTaskId :: "copy_env \<Rightarrow> string \<Rightarrow> string option result" where
  "extractTaskId env url =
     bindR (ce_url_pathname env url) (\<lambda>pathname.
       let parts = js_split (CHR ''/'') pathname
       in Inr (if 2 < length parts then Some (parts ! 2) else None))"

text \<open>\<^verbatim>\<open>s.replace(a, b)\<close> on strings replaces the first occurrence; ids hold no dollar signs.\<close>

fun replace_first :: "string \<Rightarrow> string \<Rightarrow> string \<Rightarrow> string" where
  "replace_first a b [] = (if a = [] then b else [])"
| "replace_first a b (c # cs) =
     (if take (length a) (c # cs) = a then b @ drop (length a) (c # cs) else c # replace_first a b cs)"

definition updateCopiedEmbeddedTaskId ::
  "copy_env \<Rightarrow> (EntityId, CopyEntity) js_map \<Rightarrow> IComponentProperties \<Rightarrow> IComponentProperties result" where
  "updateCopiedEmbeddedTaskId env copyDict val =
     (case (com_component val, Option.bind (com_content val) content_url) of
        (INTERNAL, Some url) \<Rightarrow>
          bindR (extractTaskId env url) (\<lambda>originalTaskId.
            case originalTaskId of
              None \<Rightarrow> Inr val
            | Some i \<Rightarrow>
                (case map_get copyDict i of
                   None \<Rightarrow> Inr val
                 | Some copiedTask \<Rightarrow>
                     Inr (val\<lparr>com_content := Some (ComponentInternal (replace_first i (entity_id copiedTask) url))\<rparr>)))
      | _ \<Rightarrow> Inr val)"

definition updateCopiedEmbeddedTasks ::
  "copy_env \<Rightarrow> CopyStatus \<Rightarrow> (EntityId, CopyEntity) js_map \<Rightarrow> CopyStatus result" where
  "updateCopiedEmbeddedTasks env lessonStatus copyDict =
     (case lessonStatus of
        CopyStatus title ty st els (Some (CopyLesson copiedLesson)) original \<Rightarrow>
          bindR (mapMR (updateCopiedEmbeddedTaskId env copyDict) (les_contents copiedLesson)) (\<lambda>contents.
            Inr (CopyStatus title ty st els (Some (CopyLesson (copiedLesson\<lparr>les_contents := contents\<rparr>))) original))
      | _ \<Rightarrow> Inr lessonStatus)"

definition replaceUrlsInContents ::
  "IComponentProperties list \<Rightarrow> FileUrlReplacement list \<Rightarrow> IComponentProperties list" where
  "replaceUrlsInContents contents fileUrlReplacements =
     map (\<lambda>item.
       case (com_component item, com_content item) of
         (TEXT, Some (ComponentText txt)) \<Rightarrow>
           if txt \<noteq> [] then item\<lparr>com_content := Some (ComponentText (foldl replace_url txt fileUrlReplacements))\<rparr>
           else item
       | _ \<Rightarrow> item) contents"

text \<open>The tasks that were copied for a lesson; the ORM enters them into the lesson's collection.\<close>

definition copied_tasks :: "CopyStatus list \<Rightarrow> task list" where
  "copied_tasks groups =
     List.map_filter (\<lambda>st. case cs_copyEntity st of Some (CopyTask t) \<Rightarrow> Some t | _ \<Rightarrow> None)
       (concat (map (\<lambda>g. nullish (cs_elements g) []) groups))"

fun lesson_of :: "CopyStatus \<Rightarrow> lesson_entity option" where
  "lesson_of (CopyStatus _ _ _ _ (Some (CopyLesson l)) _) = Some l"
| "lesson_of _ = None"

definition copyLesson :: "copy_env \<Rightarrow> LessonCopyParams \<Rightarrow> CopyStatus copying" where
  "copyLesson env params =
     bindE (liftE (ce_lesson_findById env (lcp_originalLessonId params))) (\<lambda>l.
     bindE (copyLessonContent env (les_contents l) params) (\<lambda>(copiedContent, contentStatus).
     bindE (copyLinkedMaterials env l) (\<lambda>(copiedMaterials, materialsStatus).
     bindE fresh_ref (\<lambda>r.
     let lessonCopy = lesson.extend (new_Lesson (ce_now env) r
           \<lparr>lp_name = nullish (lcp_copyName params) (les_name l), lp_hidden = Some True,
            lp_course = Some (lcp_destinationCourse params), lp_courseGroup = None,
            lp_position = Some (les_position l), lp_contents = copiedContent,
            lp_materials = Some copiedMaterials\<rparr>) \<lparr>les_tasks = coll_of []\<rparr> in
     bindE (save_entity env CopyLesson lessonCopy) (\<lambda>lessonCopy.
     bindE (copyLinkedTasks env (lesson.truncate lessonCopy) l params) (\<lambda>copiedTasksStatus.
     let lessonCopy = lessonCopy\<lparr>les_tasks := coll_of (copied_tasks copiedTasksStatus)\<rparr>;
         status = lesson_deriveCopyStatus contentStatus materialsStatus copiedTasksStatus lessonCopy l in
     bindE (save_entity env CopyLesson lessonCopy) (\<lambda>_.
     let copyDict = buildCopyEntityDict status in
     bindE (liftE (updateCopiedEmbeddedTasks env status copyDict)) (\<lambda>updatedStatus.
     let lessonCopy = nullish (lesson_of updatedStatus) lessonCopy in
     bindE (liftE (copyFilesOfEntity (ce_files env) (FilesOfLesson l) (FilesOfLesson lessonCopy)
              (eid (lcp_user params)))) (\<lambda>(fileUrlReplacements, fileCopyStatus).
     let elements = nullish (cs_elements updatedStatus) [] @ [fileCopyStatus];
         lessonCopy = lessonCopy\<lparr>les_contents := replaceUrlsInContents (les_contents lessonCopy) fileUrlReplacements\<rparr>
     in bindE (save_entity env CopyLesson lessonCopy) (\<lambda>_.
          retE (CopyStatus (cs_title updatedStatus) (cs_type updatedStatus) (deriveStatusFromElements elements)
                 (Some elements) (Some (CopyLesson lessonCopy)) (cs_originalEntity updatedStatus))))))))))))"

section \<open>Boards\<close>

record BoardCopyParams =
  bcp_originalBoard :: Board
  bcp_destinationCourse :: course
  bcp_user :: user

text \<open>\<^verbatim>\<open>Promise.allSettled\<close> keeps the values of what succeeded, here with \<open>None\<close> for a failure.\<close>

definition settled :: "'a copying \<Rightarrow> 'a option copying" where
  "settled m = catchE (bindE m (\<lambda>x. retE (Some x))) (\<lambda>_. retE None)"

definition copy_board_element :: "copy_env \<Rightarrow> user \<Rightarrow> course \<Rightarrow> BoardElement \<Rightarrow> CopyStatus copying" where
  "copy_board_element env u destinationCourse element =
     (case (bel_boardElementType element, bel_target element) of
        (BET_Task, TargetTask t) \<Rightarrow>
          copyTask env \<lparr>tcp_originalTaskId = eid t, tcp_destinationCourse = Some destinationCourse,
            tcp_destinationLesson = None, tcp_user = u, tcp_copyName = None\<rparr>
      | (BET_Lesson, TargetLesson l) \<Rightarrow>
          copyLesson env \<lparr>lcp_originalLessonId = eid l, lcp_destinationCourse = destinationCourse,
            lcp_user = u, lcp_copyName = None\<rparr>
      | _ \<Rightarrow> throwE (PlainError ''BoardCopyService unable to handle boardElementType.''))"

definition copyBoardElements ::
  "copy_env \<Rightarrow> BoardElement list \<Rightarrow> user \<Rightarrow> course \<Rightarrow> CopyStatus list copying" where
  "copyBoardElements env boardElements u destinationCourse =
     bindE (mapME (\<lambda>(pos, element). settled (bindE (copy_board_element env u destinationCourse element)
              (\<lambda>status. retE (pos, status)))) (enumerate 0 boardElements)) (\<lambda>results.
       retE (map snd (sort_key fst (List.map_filter id results))))"

definition extractReferences :: "copy_env \<Rightarrow> CopyStatus list \<Rightarrow> BoardElement list copying" where
  "extractReferences env statuses =
     bindE (mapME (\<lambda>status.
       case cs_copyEntity status of
         Some (CopyTask t) \<Rightarrow> bindE fresh_ref (\<lambda>r. retE [FromTask (ce_now env) r t])
       | Some (CopyLesson l) \<Rightarrow> bindE fresh_ref (\<lambda>r. retE [FromLesson (ce_now env) r l])
       | _ \<Rightarrow> retE []) statuses) (\<lambda>references. retE (concat references))"

definition updateCopiedEmbeddedTasksOfLessons :: "copy_env \<Rightarrow> CopyStatus \<Rightarrow> CopyStatus result" where
  "updateCopiedEmbeddedTasksOfLessons env boardStatus =
     (let copyDict = buildCopyEntityDict boardStatus;
          elements = nullish (cs_elements boardStatus) []
      in bindR (mapMR (\<lambda>elementCopyStatus.
           if cs_type elementCopyStatus = CET_LESSON
           then updateCopiedEmbeddedTasks env elementCopyStatus copyDict
           else Inr elementCopyStatus) elements) (\<lambda>updatedElements.
           Inr (CopyStatus (cs_title boardStatus) (cs_type boardStatus) (cs_status boardStatus)
             (Some updatedElements) (cs_copyEntity boardStatus) (cs_originalEntity boardStatus))))"

text \<open>The elements of the new board refer to the lessons that the update changed.\<close>

definition current_targets :: "CopyStatus list \<Rightarrow> Board \<Rightarrow> Board" where
  "current_targets statuses b =
     b\<lparr>brd_references := (brd_references b)\<lparr>coll_items := map (\<lambda>e.
         case bel_target e of
           TargetLesson l \<Rightarrow>
             (case List.find (\<lambda>l'. oid l' = oid l) (List.map_filter lesson_of statuses) of
                Some l' \<Rightarrow> e\<lparr>bel_target := TargetLesson l'\<rparr> | None \<Rightarrow> e)
         | TargetTask _ \<Rightarrow> e) (coll_items (brd_references b))\<rparr>\<rparr>"

definition copyBoard :: "copy_env \<Rightarrow> BoardCopyParams \<Rightarrow> CopyStatus copying" where
  "copyBoard env params =
     (let boardElements = getElements (bcp_originalBoard params) in
      bindE (copyBoardElements env boardElements (bcp_user params) (bcp_destinationCourse params)) (\<lambda>elements.
      bindE (extractReferences env elements) (\<lambda>references.
      bindE fresh_ref (\<lambda>r.
      let boardCopy = new_Board (ce_now env) r references (bcp_destinationCourse params);
          status = CopyStatus (Some ''board'') CET_BOARD (deriveStatusFromElements elements) (Some elements)
            (Some (CopyBoard boardCopy)) (Some (CopyBoard (bcp_originalBoard params))) in
      bindE (liftE (updateCopiedEmbeddedTasksOfLessons env status)) (\<lambda>status.
      bindE (save_entity env CopyBoard (current_targets (nullish (cs_elements status) []) boardCopy)) (\<lambda>boardCopy.
        retE (CopyStatus (cs_title status) (cs_type status) (cs_status status) (cs_elements status)
          (Some (CopyBoard boardCopy)) (cs_originalEntity status))))))))"

section \<open>Courses\<close>

definition copyCourseEntity :: "copy_env \<Rightarrow> user \<Rightarrow> course_entity \<Rightarrow> string \<Rightarrow> course copying" where
  "copyCourseEntity env u originalCourse copyName =
     bindE fresh_ref (\<lambda>r.
     let courseCopy = new_Course (ce_now env) r
           \<lparr>cp_name = Some copyName, cp_description = None, cp_school = usr_school u, cp_students = None,
            cp_teachers = Some [u], cp_substitutionTeachers = None, cp_color = Some (crs_color originalCourse),
            cp_startDate = map_option sy_startDate (sch_schoolYear (usr_school u)),
            cp_untilDate = map_option sy_endDate (sch_schoolYear (usr_school u)),
            cp_copyingSince = Some (ce_now env)\<rparr>
     in save_entity env CopyCourse courseCopy)"

definition finishCourseCopying :: "copy_env \<Rightarrow> course \<Rightarrow> course copying" where
  "finishCourseCopying env courseCopy = save_entity env CopyCourse (courseCopy\<lparr>crs_copyingSince := None\<rparr>)"

definition deriveCourseStatus :: "course_entity \<Rightarrow> course \<Rightarrow> CopyStatus \<Rightarrow> CopyStatus result" where
  "deriveCourseStatus originalCourse courseCopy boardStatus =
     (let elements = [leaf_status None CET_METADATA CS_SUCCESS, leaf_status None CET_USER_GROUP CS_NOT_DOING,
            leaf_status None CET_LTITOOL_GROUP CS_NOT_DOING, leaf_status None CET_TIME_GROUP CS_NOT_DOING,
            boardStatus]
      in bindR (getCourseGroupItems originalCourse) (\<lambda>groups.
         let courseGroupsExist = length groups > 0;
             elements = (if courseGroupsExist
                         then elements @ [leaf_status None CET_COURSEGROUP_GROUP CS_NOT_IMPLEMENTED] else elements)
         in Inr (CopyStatus (Some (crs_name courseCopy)) CET_COURSE (deriveStatusFromElements elements)
              (Some elements) (Some (CopyCourse courseCopy))
              (Some (CopyCourse (course.truncate originalCourse))))))"

definition service_copyCourse ::
  "copy_env \<Rightarrow> EntityId \<Rightarrow> EntityId \<Rightarrow> string option \<Rightarrow> CopyStatus copying" where
  "service_copyCourse env userId courseId newName =
     bindE (liftE (getUserWithPermissions (ce_getUser env) userId)) (\<lambda>u.
     bindE (liftE (ce_course_findById env courseId)) (\<lambda>originalCourse.
     bindE (liftE (rr_board_findByCourseId (ce_rooms env) courseId)) (\<lambda>b.
     bindE (\<lambda>s. case updateBoard (ce_rooms env) (ce_now env) (cps_fresh s) b courseId userId of
               Inl e \<Rightarrow> (Inl e, s)
             | Inr b' \<Rightarrow> (Inr b', s\<lparr>cps_fresh := cps_fresh s + length (getElements b')\<rparr>)) (\<lambda>originalBoard.
     bindE (liftE (ce_course_findAllByUserId env userId)) (\<lambda>existingCourses.
     let existingNames = map crs_name existingCourses;
         copyName = deriveCopyName (or_default newName (crs_name originalCourse)) existingNames in
     bindE (copyCourseEntity env u originalCourse copyName) (\<lambda>courseCopy.
     bindE (copyBoard env \<lparr>bcp_originalBoard = originalBoard, bcp_destinationCourse = courseCopy, bcp_user = u\<rparr>)
       (\<lambda>boardStatus.
     bindE (finishCourseCopying env courseCopy) (\<lambda>finishedCourseCopy.
       liftE (deriveCourseStatus originalCourse finishedCourseCopy boardStatus)))))))))"

end
