(* ===== verification/CopyUseCases.thy ===== *)
theory CopyUseCases
  imports CopyServices
begin

text \<open>
  The use cases of copying: \<^verbatim>\<open>modules/task/uc/task-copy.uc.ts\<close>,
  \<^verbatim>\<open>modules/learnroom/uc/lesson-copy.uc.ts\<close> and \<^verbatim>\<open>course-copy.uc.ts\<close>, with the parameters they get
  from \<^verbatim>\<open>modules/copy-helper/mapper/copy.mapper.ts\<close>.
\<close>

record LessonCopyParentParams =
  lcpp_courseId :: "EntityId option"
  lcpp_userId :: EntityId

record TaskCopyParentParams =
  tcpp_courseId :: "EntityId option"
  tcpp_lessonId :: "EntityId option"
  tcpp_userId :: EntityId

definition mapLessonCopyToDomain :: "EntityId option \<Rightarrow> EntityId \<Rightarrow> LessonCopyParentParams" where
  "mapLessonCopyToDomain courseId userId = \<lparr>lcpp_courseId = courseId, lcpp_userId = userId\<rparr>"

definition mapTaskCopyToDomain ::
  "EntityId option \<Rightarrow> EntityId option \<Rightarrow> EntityId \<Rightarrow> TaskCopyParentParams" where
  "mapTaskCopyToDomain courseId lessonId userId =
     \<lparr>tcpp_courseId = courseId, tcpp_lessonId = lessonId, tcpp_userId = userId\<rparr>"

definition featureEnabled :: "copy_env \<Rightarrow> unit result" where
  "featureEnabled env =
     guardR (ce_copyEnabled env) (InternalServerErrorException ''Copy Feature not enabled'')"

definition check_course_write :: "copy_env \<Rightarrow> EntityId \<Rightarrow> EntityId \<Rightarrow> string list \<Rightarrow> unit result" where
  "check_course_write env userId courseId required =
     checkPermissionByReferences (ce_getUser env) (ce_findById env) (ce_auth env) userId Allowed_Course courseId
       \<lparr>ctx_action = Write, ctx_requiredPermissions = required\<rparr>"

section \<open>Lessons\<close>

text \<open>\<^verbatim>\<open>destinationCourse.id\<close> fails for a lesson that has no course of its own.\<close>

definition uc_copyLesson ::
  "copy_env \<Rightarrow> EntityId \<Rightarrow> EntityId \<Rightarrow> LessonCopyParentParams \<Rightarrow> CopyStatus copying" where
  "uc_copyLesson env userId lessonId parentParams =
     bindE (liftE (featureEnabled env)) (\<lambda>_.
     bindE (liftE (getUserWithPermissions (ce_getUser env) userId)) (\<lambda>u.
     bindE (liftE (ce_lesson_findById env lessonId)) (\<lambda>originalLesson.
     bindE (liftE (hasPermission (ce_auth env) u (SubjLesson originalLesson)
              (PermissionContextBuilder_read [''TOPIC_CREATE'']))) (\<lambda>allowed.
     bindE (liftE (guardR allowed (ForbiddenBecause ''could not find lesson to copy''))) (\<lambda>_.
     bindE (liftE (if truthy (lcpp_courseId parentParams)
                   then mapR (\<lambda>c. Some (course.truncate c)) (ce_course_findById env (the (lcpp_courseId parentParams)))
                   else Inr (les_course originalLesson))) (\<lambda>destination.
     case destination of
       None \<Rightarrow> throwE TypeError
     | Some destinationCourse \<Rightarrow>
         bindE (liftE (check_course_write env userId (eid destinationCourse) [])) (\<lambda>_.
         case les_course originalLesson of
           None \<Rightarrow> throwE TypeError
         | Some originalCourse \<Rightarrow>
             bindE (liftE (rr_lesson_findAllByCourseIds (ce_rooms env) [eid originalCourse])) (\<lambda>existingLessons.
             let existingNames = map les_name existingLessons;
                 copyName = deriveCopyName (les_name originalLesson) existingNames
             in copyLesson env
                  \<lparr>lcp_originalLessonId = eid originalLesson, lcp_destinationCourse = destinationCourse,
                   lcp_user = u, lcp_copyName = Some copyName\<rparr>))))))))"

section \<open>Tasks\<close>

definition getCopyName :: "copy_env \<Rightarrow> string \<Rightarrow> EntityId option \<Rightarrow> string result" where
  "getCopyName env originalTaskName parentCourseId =
     (if truthy parentCourseId
      then bindR (rr_task_findBySingleParent (ce_rooms env) [] (the parentCourseId)) (\<lambda>existingTasks.
             Inr (deriveCopyName originalTaskName (map tsk_name existingTasks)))
      else Inr (deriveCopyName originalTaskName []))"

definition getDestinationCourse :: "copy_env \<Rightarrow> EntityId option \<Rightarrow> course option result" where
  "getDestinationCourse env courseId =
     (case courseId of
        None \<Rightarrow> Inr None
      | Some i \<Rightarrow> mapR (\<lambda>c. Some (course.truncate c)) (ce_course_findById env i))"

definition getDestinationLesson :: "copy_env \<Rightarrow> EntityId option \<Rightarrow> user \<Rightarrow> lesson option result" where
  "getDestinationLesson env lessonId u =
     (case lessonId of
        None \<Rightarrow> Inr None
      | Some i \<Rightarrow>
          bindR (ce_lesson_findById env i) (\<lambda>destinationLesson.
          bindR (hasPermission (ce_auth env) u (SubjLesson destinationLesson) (PermissionContextBuilder_write [])) (\<lambda>allowed.
          bindR (guardR allowed (ForbiddenBecause ''you dont have permission to add to this lesson'')) (\<lambda>_.
            Inr (Some (lesson.truncate destinationLesson))))))"

definition uc_copyTask ::
  "copy_env \<Rightarrow> EntityId \<Rightarrow> EntityId \<Rightarrow> TaskCopyParentParams \<Rightarrow> CopyStatus copying" where
  "uc_copyTask env userId taskId parentParams =
     bindE (liftE (featureEnabled env)) (\<lambda>_.
     bindE (liftE (getUserWithPermissions (ce_getUser env) userId)) (\<lambda>u.
     bindE (liftE (ce_task_findById env taskId)) (\<lambda>originalTask.
     bindE (liftE (hasPermission (ce_auth env) u (SubjTask originalTask) (PermissionContextBuilder_read []))) (\<lambda>allowed.
     bindE (liftE (guardR allowed (NotFoundException ''could not find task to copy''))) (\<lambda>_.
     bindE (liftE (getDestinationCourse env (tcpp_courseId parentParams))) (\<lambda>destinationCourse.
     bindE (liftE (if truthy (tcpp_courseId parentParams)
                   then check_course_write env userId (the (tcpp_courseId parentParams)) [] else Inr ())) (\<lambda>_.
     bindE (liftE (getDestinationLesson env (tcpp_lessonId parentParams) u)) (\<lambda>destinationLesson.
     bindE (liftE (getCopyName env (tsk_name originalTask) (tcpp_courseId parentParams))) (\<lambda>copyName.
       copyTask env
         \<lparr>tcp_originalTaskId = eid originalTask, tcp_destinationCourse = destinationCourse,
          tcp_destinationLesson = destinationLesson, tcp_user = u, tcp_copyName = Some copyName\<rparr>)))))))))"

section \<open>Courses\<close>

definition uc_copyCourse :: "copy_env \<Rightarrow> EntityId \<Rightarrow> EntityId \<Rightarrow> CopyStatus copying" where
  "uc_copyCourse env userId courseId =
     bindE (liftE (featureEnabled env)) (\<lambda>_.
     bindE (liftE (check_course_write env userId courseId [''COURSE_CREATE''])) (\<lambda>_.
       service_copyCourse env userId courseId None))"

end
