(* ===== verification/CopyProperties.thy ===== *)
theory CopyProperties
  imports CopyUseCases Samples
begin

text \<open>
  What copying promises: the name of a copy, the status that is reported, the entities that are
  made, and who may start it.
\<close>

section \<open>Names\<close>

lemma derive_step:
  "name \<in> set xs \<Longrightarrow>
   deriveCopyName name xs = deriveCopyName (composed (fst (name_and_number name)) (snd (name_and_number name))) xs"
  by (simp add: deriveCopyName.simps [of name] deriveCopyName.simps [of "composed a b" for a b] split_beta Let_def)

lemma derive_free: "name \<notin> set xs \<Longrightarrow> deriveCopyName name xs = name"
  by (simp add: deriveCopyName.simps)

lemma deriveCopyName_fresh: "deriveCopyName name xs \<notin> set xs"
proof (induction "names_ahead name xs" arbitrary: name rule: less_induct)
  case less
  then show ?case
    using names_ahead_less [of name xs] by (cases "name \<in> set xs") (simp_all add: derive_step derive_free)
qed

lemma composed_number:
  "\<not> list_ex line_break b \<Longrightarrow> name_and_number (composed b n) = (b, Suc n)"
  by (simp add: name_and_number_def match_composed)

lemma composed_inject: "\<not> list_ex line_break b \<Longrightarrow> composed b m = composed b n \<Longrightarrow> m = n"
  by (metis match_composed option.inject prod.inject)

lemma derive_numbered:
  assumes "\<not> list_ex line_break b"
  shows "\<exists>k \<ge> n. deriveCopyName (composed b n) xs = composed b k \<and> composed b ` {n..<k} \<subseteq> set xs"
proof (induction "names_ahead (composed b n) xs" arbitrary: n rule: less_induct)
  case less
  show ?case
  proof (cases "composed b n \<in> set xs")
    case False
    then show ?thesis by (intro exI [of _ n]) (simp add: derive_free)
  next
    case True
    with less [of "Suc n"] names_ahead_less [OF True] composed_number [OF assms, of n]
    obtain k where k: "Suc n \<le> k" "deriveCopyName (composed b (Suc n)) xs = composed b k"
      "composed b ` {Suc n..<k} \<subseteq> set xs"
      by auto
    have "{n..<k} = insert n {Suc n..<k}" using k(1) by auto
    with k True composed_number [OF assms, of n] derive_step [OF True] show ?thesis
      by (intro exI [of _ k]) auto
  qed
qed

text \<open>
  The name of a copy is the first free one: when the name is taken, the copy is called
  \<^verbatim>\<open>stem (k)\<close> with the smallest number \<open>k\<close> that is free from the next number on, and \<open>k\<close> exceeds that
  number by less than the number of names that exist. The number goes on from the one in the name.
\<close>

theorem deriveCopyName_first_free:
  assumes "name \<in> set existing" and "\<not> list_ex line_break name"
  shows "\<exists>k. deriveCopyName name existing = composed (fst (name_and_number name)) k \<and>
    composed (fst (name_and_number name)) k \<notin> set existing \<and>
    composed (fst (name_and_number name)) ` {snd (name_and_number name)..<k} \<subseteq> set existing \<and>
    snd (name_and_number name) \<le> k \<and> k < snd (name_and_number name) + card (set existing)"
proof -
  obtain b n where bn: "name_and_number name = (b, n)" by (cases "name_and_number name") auto
  have b: "\<not> list_ex line_break b"
    using bn assms(2) match_plain by (auto simp: name_and_number_def split: option.splits)
  obtain k where k: "n \<le> k" "deriveCopyName (composed b n) existing = composed b k"
    "composed b ` {n..<k} \<subseteq> set existing"
    using derive_numbered [OF b, of n existing] by auto
  have ne: "name \<notin> composed b ` {n..<k}"
  proof
    assume "name \<in> composed b ` {n..<k}"
    then obtain m where "name = composed b m" "n \<le> m" by auto
    then have "name_and_number name = (b, Suc m)" using b by (simp add: composed_number)
    with bn \<open>n \<le> m\<close> show False by simp
  qed
  have inj: "inj_on (composed b) {n..<k}" by (auto intro: inj_onI composed_inject [OF b])
  have "composed b ` {n..<k} \<subseteq> set existing - {name}" using k(3) ne by blast
  then have "card (composed b ` {n..<k}) \<le> card (set existing - {name})" by (intro card_mono) auto
  then have "k - n < card (set existing)"
    using inj assms(1) card_Diff1_less [OF List.finite_set assms(1)] by (simp add: card_image)
  moreover have "deriveCopyName name existing = composed b k" using derive_step [OF assms(1)] bn k(2) by simp
  moreover have "composed b k \<notin> set existing"
    using deriveCopyName_fresh [of name existing] calculation(2) by simp
  ultimately show ?thesis using k bn by (intro exI [of _ k]) auto
qed

lemma deriveCopyName_first_free_witness:
  "\<exists>k. deriveCopyName ''T (1)'' [''T'', ''T (2)'', ''T (1)''] = composed ''T'' k \<and>
     composed ''T'' k \<notin> set [''T'', ''T (2)'', ''T (1)''] \<and>
     composed ''T'' ` {2..<k} \<subseteq> set [''T'', ''T (2)'', ''T (1)''] \<and> 2 \<le> k \<and>
     k < 2 + card (set [''T'', ''T (2)'', ''T (1)''])"
proof -
  have "match_copy_name ''T (1)'' = Some (''T'', 1)"
    by (simp add: match_copy_name_def is_digit_def line_break_def string_nat_def)
  then have nn: "name_and_number ''T (1)'' = (''T'', 2)" by (simp add: name_and_number_def)
  have m: "''T (1)'' \<in> set [''T'', ''T (2)'', ''T (1)'']" by simp
  have "\<not> list_ex line_break ''T (1)''" by (simp add: line_break_def)
  from deriveCopyName_first_free [OF m this, unfolded nn fst_conv snd_conv] show ?thesis .
qed

section \<open>The status of a copy\<close>

text \<open>All statuses of a tree; a tree is consistent when every group has the status of its elements.\<close>

fun parts :: "CopyStatus \<Rightarrow> CopyStatus list" where
  "parts (CopyStatus title ty st elements c original) =
     CopyStatus title ty st elements c original #
       (case elements of None \<Rightarrow> [] | Some els \<Rightarrow> concat (map parts els))"

fun consistent :: "CopyStatus \<Rightarrow> bool" where
  "consistent (CopyStatus title ty st elements c original) \<longleftrightarrow>
     (case elements of
        None \<Rightarrow> True
      | Some els \<Rightarrow> st = deriveStatusFromElements els \<and> list_all consistent els)"

definition success_is_complete :: "CopyStatus \<Rightarrow> bool" where
  "success_is_complete st \<longleftrightarrow>
     (cs_status st = CS_SUCCESS \<longrightarrow> set (map cs_status (parts st)) \<subseteq> {CS_SUCCESS, CS_NOT_DOING})"

lemma derive_not_NOT_DOING: "deriveStatusFromElements els \<noteq> CS_NOT_DOING"
  by (simp add: deriveStatusFromElements_def Let_def)

lemma derive_SUCCESS:
  "deriveStatusFromElements els = CS_SUCCESS \<Longrightarrow> e \<in> set els \<Longrightarrow> cs_status e \<in> {CS_SUCCESS, CS_NOT_DOING}"
  by (auto simp: deriveStatusFromElements_def Let_def list_ex_iff filter_empty_conv split: if_splits)

lemma consistent_parts:
  "consistent st \<Longrightarrow> cs_status st \<in> {CS_SUCCESS, CS_NOT_DOING} \<Longrightarrow>
   set (map cs_status (parts st)) \<subseteq> {CS_SUCCESS, CS_NOT_DOING}"
proof (induction st rule: consistent.induct)
  case (1 title ty st elements c original)
  show ?case
  proof (cases elements)
    case None
    with 1 show ?thesis by simp
  next
    case (Some els)
    with 1 have s: "deriveStatusFromElements els = CS_SUCCESS" "st = CS_SUCCESS" and c: "list_all consistent els"
      using derive_not_NOT_DOING [of els] by auto
    have "set (map cs_status (parts e)) \<subseteq> {CS_SUCCESS, CS_NOT_DOING}" if "e \<in> set els" for e
      using 1(1) [OF Some that] derive_SUCCESS [OF s(1) that] c that by (simp add: list_all_iff)
    then show ?thesis using Some s(2) by auto
  qed
qed

lemma consistent_complete: "consistent st \<Longrightarrow> success_is_complete st"
  unfolding success_is_complete_def using consistent_parts by blast

text \<open>Operations that do not touch an invariant of the state: only their results matter.\<close>

abbreviation yields :: "'a copying \<Rightarrow> ('a \<Rightarrow> bool) \<Rightarrow> bool" where
  "yields m Q \<equiv> runs (\<lambda>_. True) m Q"

lemma yields_any: "yields m (\<lambda>_. True)"
  by (simp add: runs_def)

lemma yields_bind: "(\<And>x. yields (f x) Q) \<Longrightarrow> yields (bindE m f) Q"
  by (rule runs_bind [OF yields_any])

lemma yields_lift_bind: "(\<And>x. r = Inr x \<Longrightarrow> yields (f x) Q) \<Longrightarrow> yields (bindE (liftE r) f) Q"
  by (cases r) (simp_all add: runs_def bindE_def liftE_def)

lemma consistent_group [simp]:
  "consistent (CopyStatus title ty (deriveStatusFromElements els) (Some els) c original) = list_all consistent els"
  by simp

lemma copyFilesOfEntity_consistent:
  "copyFilesOfEntity producer original copy userId = Inr (replacements, st) \<Longrightarrow> consistent st"
  by (auto simp: copyFilesOfEntity_def bindR_eq_Inr Let_def files_deriveCopyStatus_def list_all_iff)

lemma copyTask_consistent: "yields (copyTask env params) consistent"
  unfolding copyTask_def
  by (intro yields_bind yields_lift_bind)
    (auto simp: split_beta task_deriveCopyStatus_def Let_def
      intro!: yields_bind runs_ret yields_lift_bind dest: copyFilesOfEntity_consistent)

lemma copyLessonContent_consistent:
  "yields (copyLessonContent env content params) (\<lambda>r. list_all consistent (snd r))"
proof -
  have c: "yields (copy_component env params element) (\<lambda>r. pred_option (\<lambda>p. consistent (snd p)) r)" for element
    by (cases "com_component element")
      (auto simp: copy_component_def Let_def intro!: yields_bind runs_ret)
  have f: "list_all (\<lambda>r. pred_option (\<lambda>p. consistent (snd p)) r) xs \<Longrightarrow>
      list_all consistent (map snd (List.map_filter id xs))" for xs :: "(IComponentProperties option \<times> CopyStatus) option list"
    by (induction xs) (auto simp: List.map_filter_def)
  show ?thesis unfolding copyLessonContent_def
    by (rule runs_bind [OF runs_mapME [OF c]])
      (auto simp: Let_def lessonStatusContent_def intro!: runs_ret dest: f)
qed

lemma copyLinkedMaterials_consistent:
  "yields (copyLinkedMaterials env l) (\<lambda>r. list_all consistent (snd r))"
  unfolding copyLinkedMaterials_def
  by (intro yields_bind) (auto simp: Let_def list_all_iff intro!: runs_ret)

lemma copyLinkedTasks_consistent: "yields (copyLinkedTasks env d l params) (list_all consistent)"
  unfolding copyLinkedTasks_def
  by (intro yields_bind)
    (auto intro!: runs_ret runs_bind [OF runs_mapME [OF copyTask_consistent]])

lemma updateCopiedEmbeddedTasks_keeps:
  "updateCopiedEmbeddedTasks env st dict = Inr st' \<Longrightarrow>
   cs_elements st' = cs_elements st \<and> cs_status st' = cs_status st \<and> consistent st' = consistent st"
  by (auto simp: updateCopiedEmbeddedTasks_def bindR_eq_Inr split: CopyStatus.splits option.splits CopyEntity.splits)

lemma lesson_derive_consistent:
  "list_all consistent a \<Longrightarrow> list_all consistent b \<Longrightarrow> list_all consistent c \<Longrightarrow>
   consistent (lesson_deriveCopyStatus a b c x y)"
  by (simp add: lesson_deriveCopyStatus_def Let_def)

lemma copyLesson_consistent: "yields (copyLesson env params) consistent"
proof -
  have finish: "consistent (CopyStatus t ty (deriveStatusFromElements (nullish (cs_elements st') [] @ [st]))
      (Some (nullish (cs_elements st') [] @ [st])) c original)"
    if "consistent st" "consistent st'" for t ty c original st st'
    using that by (cases st') (auto split: option.splits simp: nullish_def)
  show ?thesis
    unfolding copyLesson_def Let_def split_beta
    by (rule yields_lift_bind, rule runs_bind [OF copyLessonContent_consistent],
        rule runs_bind [OF copyLinkedMaterials_consistent], rule yields_bind, rule yields_bind,
        rule runs_bind [OF copyLinkedTasks_consistent], rule yields_bind, rule yields_lift_bind,
        rule yields_lift_bind, rule yields_bind, rule runs_ret, rule finish)
      (auto dest: updateCopiedEmbeddedTasks_keeps copyFilesOfEntity_consistent simp: lesson_derive_consistent)
qed

lemma copy_board_element_consistent: "yields (copy_board_element env u c element) consistent"
  unfolding copy_board_element_def
  by (auto split: BoardElementType.split BoardElementReference.split
      intro: copyTask_consistent copyLesson_consistent runs_ret)

lemma yields_settled: "yields m Q \<Longrightarrow> yields (settled m) (pred_option Q)"
  unfolding settled_def
  by (rule runs_catch, erule runs_bind) (auto intro: runs_ret)

lemma copyBoardElements_consistent: "yields (copyBoardElements env els u c) (list_all consistent)"
proof -
  have e: "yields (case p of (pos, element) \<Rightarrow>
      settled (bindE (copy_board_element env u c element) (\<lambda>status. retE (pos, status))))
      (pred_option (\<lambda>r. consistent (snd r)))" for p
    unfolding split_beta
    by (rule yields_settled, rule runs_bind [OF copy_board_element_consistent]) (auto intro: runs_ret)
  have f: "list_all (pred_option (\<lambda>r. consistent (snd r))) rs \<Longrightarrow>
      list_all consistent (map snd (sort_key fst (List.map_filter id rs)))" for rs :: "(nat \<times> CopyStatus) option list"
    by (induction rs) (auto simp: List.map_filter_def list_all_iff)
  show ?thesis unfolding copyBoardElements_def
    by (rule runs_bind [OF runs_mapME [OF e]], rule runs_ret, rule f)
qed

lemma updateCopiedEmbeddedTasksOfLessons_consistent:
  assumes "updateCopiedEmbeddedTasksOfLessons env st = Inr st'" and "consistent st" and "cs_elements st = Some els"
  shows "consistent st'"
proof -
  let ?f = "\<lambda>e. if cs_type e = CET_LESSON then updateCopiedEmbeddedTasks env e (buildCopyEntityDict st) else Inr e"
  from assms obtain els' where els': "mapMR ?f els = Inr els'"
    "st' = CopyStatus (cs_title st) (cs_type st) (cs_status st) (Some els') (cs_copyEntity st) (cs_originalEntity st)"
    by (auto simp: updateCopiedEmbeddedTasksOfLessons_def Let_def bindR_eq_Inr)
  then have "list_all2 (\<lambda>e e'. cs_status e' = cs_status e \<and> consistent e' = consistent e) els els'"
    unfolding mapMR_eq_Inr
    by (auto elim!: list_all2_mono split: if_splits dest: updateCopiedEmbeddedTasks_keeps)
  then have "map cs_status els' = map cs_status els" "list_all consistent els' = list_all consistent els"
    by (induction rule: list_all2_induct) auto
  moreover have "cs_status st = deriveStatusFromElements els" "list_all consistent els"
    using assms(2,3) by (cases st; simp)+
  ultimately show ?thesis using els'(2) by (simp add: deriveStatusFromElements_def)
qed

lemma copyBoard_consistent: "yields (copyBoard env params) consistent"
proof -
  have keep: "consistent (CopyStatus (cs_title st) (cs_type st) (cs_status st) (cs_elements st) c (cs_originalEntity st))"
    if "consistent st" for st c
    using that by (cases st) simp
  show ?thesis
    unfolding copyBoard_def Let_def
    by (rule runs_bind [OF copyBoardElements_consistent], rule yields_bind, rule yields_bind,
        rule yields_lift_bind, rule yields_bind, rule runs_ret, rule keep,
        erule updateCopiedEmbeddedTasksOfLessons_consistent)
      auto
qed

lemma deriveCourseStatus_consistent:
  "deriveCourseStatus a b st = Inr st' \<Longrightarrow> consistent st \<Longrightarrow> consistent st'"
  by (auto simp: deriveCourseStatus_def Let_def bindR_eq_Inr)

lemma service_copyCourse_consistent: "yields (service_copyCourse env userId courseId name) consistent"
  unfolding service_copyCourse_def Let_def
  by (rule yields_lift_bind, rule yields_lift_bind, rule yields_lift_bind, rule yields_bind,
      rule yields_lift_bind, rule yields_bind, rule runs_bind [OF copyBoard_consistent],
      rule yields_bind, rule runs_lift, erule deriveCourseStatus_consistent)

lemma uc_copies_consistent:
  "yields (uc_copyTask env userId taskId tps) consistent"
  "yields (uc_copyLesson env userId lessonId lps) consistent"
  "yields (uc_copyCourse env userId courseId) consistent"
proof -
  show "yields (uc_copyTask env userId taskId tps) consistent"
    unfolding uc_copyTask_def by (intro yields_bind copyTask_consistent)
  show "yields (uc_copyLesson env userId lessonId lps) consistent"
    unfolding uc_copyLesson_def
    by (intro yields_bind) (auto simp: Let_def intro: yields_bind copyLesson_consistent runs_ret split: option.split)
  show "yields (uc_copyCourse env userId courseId) consistent"
    unfolding uc_copyCourse_def by (intro yields_bind service_copyCourse_consistent)
qed

text \<open>
  C18. The status that a copy reports is the one of its parts: in the tree of every copy of a task, a
  lesson or a course, each group has the status derived from its elements, and a copy that reports
  success has no part that failed, is partial or not implemented, at any depth.
\<close>

theorem copy_status_consistent:
  "runs (\<lambda>_. True) (uc_copyTask env userId taskId tps) (\<lambda>st. consistent st \<and> success_is_complete st) \<and>
   runs (\<lambda>_. True) (uc_copyLesson env userId lessonId lps) (\<lambda>st. consistent st \<and> success_is_complete st) \<and>
   runs (\<lambda>_. True) (uc_copyCourse env userId courseId) (\<lambda>st. consistent st \<and> success_is_complete st)"
  by (blast intro: runs_weaken uc_copies_consistent consistent_complete)

section \<open>What is saved\<close>

lemma mapME_eq_Inr:
  "mapME f xs s = (Inr ys, s') \<Longrightarrow> list_all2 (\<lambda>x y. \<exists>s1 s2. f x s1 = (Inr y, s2)) xs ys"
  by (induction xs arbitrary: s ys) (fastforce simp: retE_def bindE_eq_Inr)+

text \<open>Operations that only add to what was saved, and only count on.\<close>

definition appends :: "'a copying \<Rightarrow> bool" where
  "appends m \<longleftrightarrow> (\<forall>s. (\<exists>ys. cps_saved (snd (m s)) = cps_saved s @ ys) \<and> cps_fresh s \<le> cps_fresh (snd (m s)))"

lemma appendsD: "appends m \<Longrightarrow> m s = (r, s') \<Longrightarrow> (\<exists>ys. cps_saved s' = cps_saved s @ ys) \<and> cps_fresh s \<le> cps_fresh s'"
  unfolding appends_def by (metis snd_conv)

lemma appends_basic:
  "appends (retE x)" "appends (throwE e)" "appends (liftE r)" "appends fresh_ref" "appends (save_entity env C y)"
  by (auto simp: appends_def eff_run fresh_ref_def save_entity_def Let_def split: option.split)

lemma appends_handle:
  assumes m: "appends m" and f: "\<And>x. appends (f x)" and h: "\<And>e. appends (h e)"
  shows "appends (\<lambda>s. case m s of (Inl e, s') \<Rightarrow> h e s' | (Inr x, s') \<Rightarrow> f x s')"
  unfolding appends_def
proof
  fix s
  obtain r s' where ms: "m s = (r, s')" by (cases "m s")
  from appendsD [OF m ms] f h
  show "(\<exists>ys. cps_saved (snd (case m s of (Inl e, s') \<Rightarrow> h e s' | (Inr x, s') \<Rightarrow> f x s')) = cps_saved s @ ys) \<and>
      cps_fresh s \<le> cps_fresh (snd (case m s of (Inl e, s') \<Rightarrow> h e s' | (Inr x, s') \<Rightarrow> f x s'))"
    unfolding ms appends_def by (cases r) (auto, metis append.assoc, meson le_trans, metis append.assoc, meson le_trans)
qed

lemma appends_bind: "appends m \<Longrightarrow> (\<And>x. appends (f x)) \<Longrightarrow> appends (bindE m f)"
  using appends_handle [of m f throwE]
  by (simp add: bindE_def [abs_def] throwE_def appends_basic cong: prod.case_cong sum.case_cong)

lemma appends_catch: "appends m \<Longrightarrow> (\<And>e. appends (h e)) \<Longrightarrow> appends (catchE m h)"
  using appends_handle [of m retE h]
  by (simp add: catchE_def [abs_def] retE_def appends_basic cong: prod.case_cong sum.case_cong)

lemma appends_mapME: "(\<And>x. appends (f x)) \<Longrightarrow> appends (mapME f xs)"
  by (induction xs) (auto intro!: appends_bind appends_basic)

lemmas appends_intros = appends_bind appends_basic appends_mapME appends_catch

lemma appends_copyTask: "appends (copyTask env params)"
  unfolding copyTask_def copyTaskEntity_def task_updateFileUrls_def Let_def split_beta
  by (intro appends_intros)

lemma appends_copyLessonContent: "appends (copyLessonContent env content params)"
proof -
  have "appends (copy_component env params element)" for element
    by (cases "com_component element") (auto simp: copy_component_def Let_def copyEtherpad_def intro!: appends_intros)
  then show ?thesis unfolding copyLessonContent_def Let_def by (intro appends_intros)
qed

lemma appends_copyLinkedMaterials: "appends (copyLinkedMaterials env l)"
  unfolding copyLinkedMaterials_def by (auto simp: Let_def intro!: appends_intros)

lemma appends_copyLesson: "appends (copyLesson env params)"
proof -
  have "appends (copyLinkedTasks env d l params)" for d l
    unfolding copyLinkedTasks_def by (auto intro!: appends_intros appends_copyTask)
  then show ?thesis
    unfolding copyLesson_def Let_def split_beta
    by (intro appends_intros appends_copyLessonContent appends_copyLinkedMaterials)
qed

lemma appends_copyBoardElements: "appends (copyBoardElements env els u c)"
proof -
  have "appends (copy_board_element env u c element)" for element
    unfolding copy_board_element_def
    by (auto split: BoardElementType.split BoardElementReference.split
        intro: appends_copyTask appends_copyLesson appends_basic)
  then show ?thesis unfolding copyBoardElements_def settled_def split_beta by (intro appends_intros)
qed

lemma appends_copyBoard: "appends (copyBoard env params)"
proof -
  have "appends (extractReferences env statuses)" for statuses
    unfolding extractReferences_def
    by (intro appends_intros) (auto split: option.split CopyEntity.split intro!: appends_intros)
  then show ?thesis unfolding copyBoard_def Let_def by (intro appends_intros appends_copyBoardElements)
qed

lemma with_id_sel [simp]:
  "oid (with_id env e) = oid e" "with_id env (with_id env e) = with_id env e"
  by (simp_all add: with_id_def)

lemma save_entity_eq_Inr:
  "save_entity env C e s = (Inr e', s') \<longleftrightarrow>
     e' = with_id env e \<and> ce_save env (C e') = None \<and> s' = s\<lparr>cps_saved := cps_saved s @ [C e']\<rparr>"
  by (auto simp: save_entity_def Let_def split: option.splits)

lemma fresh_ref_eq_Inr:
  "fresh_ref s = (Inr r, s') \<longleftrightarrow> r = cps_fresh s \<and> s' = s\<lparr>cps_fresh := Suc (cps_fresh s)\<rparr>"
  by (auto simp: fresh_ref_def)

lemma liftE_eq_Inr: "liftE r s = (Inr x, s') \<longleftrightarrow> r = Inr x \<and> s' = s"
  by (auto simp: liftE_def)

lemma retE_eq_Inr: "retE x s = (Inr y, s') \<longleftrightarrow> y = x \<and> s' = s"
  by (auto simp: retE_def)

lemma case_None_throwE:
  "(case x of None \<Rightarrow> throwE e | Some a \<Rightarrow> f a) s = (Inr y, s') \<longleftrightarrow> (\<exists>a. x = Some a \<and> f a s = (Inr y, s'))"
  by (cases x) (simp_all add: throwE_def)

lemma case_sum_eq_Inr:
  "(case r of Inl e \<Rightarrow> (Inl e, s) | Inr b \<Rightarrow> (Inr b, g b)) = (Inr x, s1) \<longleftrightarrow> r = Inr x \<and> s1 = g x"
  by (cases r) auto

lemmas copy_results = bindE_eq_Inr save_entity_eq_Inr fresh_ref_eq_Inr liftE_eq_Inr retE_eq_Inr

lemma with_id_task:
  "with_id env (t :: 'a task_scheme) = t\<lparr>eid := (if eid t = [] then ce_newId env (oid t) else eid t)\<rparr>"
  by (simp add: with_id_def)

text \<open>
  The task that a copy makes: a draft without submissions, dates and finished users, created by the
  user for the user's school in the course and lesson it was asked for.
\<close>

definition fresh_copy_of_task :: "copy_env \<Rightarrow> TaskCopyParams \<Rightarrow> ref \<Rightarrow> task \<Rightarrow> task \<Rightarrow> bool" where
  "fresh_copy_of_task env params r original t \<longleftrightarrow>
     oid t = r \<and> isDraft t \<and> getSubmissionItems t = Inr [] \<and> getFinishedUserIds t = Inr [] \<and>
     tsk_name t = or_default (tcp_copyName params) (tsk_name original) \<and>
     tsk_creator t = tcp_user params \<and> tsk_school t = usr_school (tcp_user params) \<and>
     tsk_course t = tcp_destinationCourse params \<and> tsk_lesson t = tcp_destinationLesson params \<and>
     tsk_availableDate t = None \<and> tsk_dueDate t = None \<and> ent_createdAt t = ce_now env"

lemma copyTask_made:
  assumes "copyTask env params s = (Inr st, s')"
  shows "\<exists>original t replacements. ce_task_findById env (tcp_originalTaskId params) = Inr original \<and>
    fresh_copy_of_task env params (cps_fresh s) original t \<and>
    tsk_description t = foldl replace_url (tsk_description original) replacements \<and>
    cs_copyEntity st = Some (CopyTask t) \<and> cs_originalEntity st = Some (CopyTask original) \<and>
    cps_saved s' = cps_saved s @ [CopyTask (t\<lparr>tsk_description := tsk_description original\<rparr>), CopyTask t]"
proof -
  from assms obtain original t1 replacements fst0 t2 where
    o: "ce_task_findById env (tcp_originalTaskId params) = Inr original" and
    t1: "t1 = with_id env (new_Task (ce_now env) (cps_fresh s)
           \<lparr>tp_name = or_default (tcp_copyName params) (tsk_name original),
            tp_description = Some (tsk_description original),
            tp_descriptionInputFormat = Some (tsk_descriptionInputFormat original),
            tp_availableDate = None, tp_dueDate = None, tp_taskCard = None,
            tp_course = tcp_destinationCourse params, tp_lesson = tcp_destinationLesson params,
            tp_creator = tcp_user params, tp_school = usr_school (tcp_user params),
            tp_finished = None, tp_private = None, tp_submissions = None, tp_publicSubmissions = None,
            tp_teamSubmissions = tsk_teamSubmissions original\<rparr>)" and
    t2: "t2 = with_id env (t1\<lparr>tsk_description := foldl replace_url (tsk_description t1) replacements\<rparr>)" and
    st: "st = task_deriveCopyStatus fst0 original t2" and
    saved: "cps_saved s' = cps_saved s @ [CopyTask t1, CopyTask t2]"
    by (auto simp: copyTask_def copyTaskEntity_def task_updateFileUrls_def copy_results Let_def)
  have d: "tsk_description t1 = tsk_description original"
    by (simp add: t1 with_id_task new_Task_def or_default_def)
  have t2': "t2 = t1\<lparr>tsk_description := foldl replace_url (tsk_description original) replacements\<rparr>"
    using t2 d t1 by (simp add: with_id_task new_Task_def)
  have "fresh_copy_of_task env params (cps_fresh s) original t2"
    by (simp add: t2' t1 with_id_task new_Task_def fresh_copy_of_task_def isDraft_def
        getSubmissionItems_def getFinishedUserIds_def coll_ids_def)
  moreover have "cps_saved s' = cps_saved s @ [CopyTask (t2\<lparr>tsk_description := tsk_description original\<rparr>), CopyTask t2]"
    using saved t2' d by simp
  moreover have "tsk_description t2 = foldl replace_url (tsk_description original) replacements"
    by (simp add: t2')
  moreover have "cs_copyEntity st = Some (CopyTask t2)" "cs_originalEntity st = Some (CopyTask original)"
    by (simp_all add: st task_deriveCopyStatus_def Let_def)
  ultimately show ?thesis using o by blast
qed

text \<open>
  The lesson that a copy makes: hidden, in the destination course, under the new name, with a fresh
  copy of every linked task, in order, that belongs to it.
\<close>

definition copied_for_lesson :: "copy_env \<Rightarrow> LessonCopyParams \<Rightarrow> ref \<Rightarrow> task \<Rightarrow> task \<Rightarrow> bool" where
  "copied_for_lesson env params r linked t \<longleftrightarrow>
     (\<exists>d original. oid d = r \<and> ce_task_findById env (eid linked) = Inr original \<and>
        fresh_copy_of_task env
          \<lparr>tcp_originalTaskId = eid linked, tcp_destinationCourse = Some (lcp_destinationCourse params),
           tcp_destinationLesson = Some d, tcp_user = lcp_user params, tcp_copyName = None\<rparr> (oid t) original t)"

definition fresh_copy_of_lesson :: "copy_env \<Rightarrow> LessonCopyParams \<Rightarrow> lesson_entity \<Rightarrow> lesson_entity \<Rightarrow> bool" where
  "fresh_copy_of_lesson env params original l \<longleftrightarrow>
     les_hidden l \<and> les_course l = Some (lcp_destinationCourse params) \<and> les_courseGroup l = None \<and>
     les_name l = nullish (lcp_copyName params) (les_name original) \<and> les_position l = les_position original \<and>
     ent_createdAt l = ce_now env \<and>
     (\<exists>linked. getLessonLinkedTasks original = Inr linked \<and>
        list_all2 (copied_for_lesson env params (oid l)) linked (coll_items (les_tasks l)))"

lemma copyLinkedTasks_made:
  assumes "copyLinkedTasks env d l params s = (Inr groups, s')"
  shows "\<exists>linked. getLessonLinkedTasks l = Inr linked \<and>
    list_all2 (copied_for_lesson env params (oid d)) linked (copied_tasks groups)"
proof -
  let ?tp = "\<lambda>element. \<lparr>tcp_originalTaskId = eid element, tcp_destinationCourse = Some (lcp_destinationCourse params),
           tcp_destinationLesson = Some d, tcp_user = lcp_user params, tcp_copyName = None\<rparr>"
  from assms obtain linked where linked: "getLessonLinkedTasks l = Inr linked" and
    rest: "(if length linked > 0 then bindE (mapME (\<lambda>element. copyTask env (?tp element)) linked)
        (\<lambda>sts. retE [group_status CET_TASK_GROUP (deriveStatusFromElements sts) sts]) else retE []) s = (Inr groups, s')"
    by (auto simp: copyLinkedTasks_def bindE_eq_Inr liftE_eq_Inr)
  show ?thesis
  proof (cases "linked = []")
    case True
    with linked rest show ?thesis by (simp add: retE_eq_Inr copied_tasks_def)
  next
    case False
    with rest obtain sts s1 where m: "mapME (\<lambda>element. copyTask env (?tp element)) linked s = (Inr sts, s1)" and
      g: "groups = [group_status CET_TASK_GROUP (deriveStatusFromElements sts) sts]"
      by (auto simp: bindE_eq_Inr retE_eq_Inr)
    have each: "\<exists>t. cs_copyEntity st = Some (CopyTask t) \<and> copied_for_lesson env params (oid d) element t"
      if "copyTask env (?tp element) s1 = (Inr st, s2)" for element st s1 s2
    proof -
      from copyTask_made [OF that] obtain original t where
        "ce_task_findById env (eid element) = Inr original" "cs_copyEntity st = Some (CopyTask t)"
        "fresh_copy_of_task env (?tp element) (cps_fresh s1) original t"
        by auto
      moreover from this(3) have "cps_fresh s1 = oid t" by (simp add: fresh_copy_of_task_def)
      ultimately show ?thesis unfolding copied_for_lesson_def by metis
    qed
    have "list_all2 (copied_for_lesson env params (oid d)) linked
        (List.map_filter (\<lambda>st. case cs_copyEntity st of Some (CopyTask t) \<Rightarrow> Some t | _ \<Rightarrow> None) sts)"
      using mapME_eq_Inr [OF m]
    proof (induction rule: list_all2_induct)
      case Nil
      then show ?case by (simp add: List.map_filter_def)
    next
      case (Cons x xs y ys)
      then obtain t where "cs_copyEntity y = Some (CopyTask t)" "copied_for_lesson env params (oid d) x t"
        using each by blast
      with Cons.IH show ?case by (simp add: List.map_filter_def)
    qed
    with linked g show ?thesis by (simp add: copied_tasks_def)
  qed
qed

lemma with_id_lesson:
  "with_id env (l :: 'a lesson_scheme) = l\<lparr>eid := (if eid l = [] then ce_newId env (oid l) else eid l)\<rparr>"
  by (simp add: with_id_def)

lemma updateCopiedEmbeddedTasks_lesson:
  assumes "updateCopiedEmbeddedTasks env st dict = Inr st'" and "lesson_of st = Some l"
  shows "\<exists>contents. lesson_of st' = Some (l\<lparr>les_contents := contents\<rparr>) \<and> cs_originalEntity st' = cs_originalEntity st"
  using assms
  by (auto simp: updateCopiedEmbeddedTasks_def bindR_eq_Inr split: CopyStatus.splits option.splits CopyEntity.splits)

text \<open>A saved object keeps its id, so saving a later version of it saves that version.\<close>

lemma with_id_later:
  "with_id env ((with_id env (l :: 'a lesson_scheme))\<lparr>les_contents := c\<rparr>) = (with_id env l)\<lparr>les_contents := c\<rparr>"
  by (simp add: with_id_lesson)

lemma with_id_course:
  "with_id env (c :: 'a course_scheme) = c\<lparr>eid := (if eid c = [] then ce_newId env (oid c) else eid c)\<rparr>"
  by (simp add: with_id_def)

lemma with_id_later_course:
  "with_id env ((with_id env (c :: 'a course_scheme))\<lparr>crs_copyingSince := d\<rparr>) = (with_id env c)\<lparr>crs_copyingSince := d\<rparr>"
  by (cases c) (simp add: with_id_def)

lemma with_id_later_tasks:
  "with_id env ((with_id env (l :: lesson_entity))\<lparr>les_tasks := t\<rparr>) = (with_id env l)\<lparr>les_tasks := t\<rparr>"
  by (simp add: with_id_def)

lemma copyLesson_made:
  assumes "copyLesson env params s = (Inr st, s')"
  shows "\<exists>original l. ce_lesson_findById env (lcp_originalLessonId params) = Inr original \<and>
    cs_copyEntity st = Some (CopyLesson l) \<and> cs_originalEntity st = Some (CopyLesson original) \<and>
    fresh_copy_of_lesson env params original l \<and> cps_fresh s \<le> oid l \<and> last (cps_saved s') = CopyLesson l"
proof -
  from assms obtain original contents cst s1 materials mst s2 r l0 groups s4 st1 reps fst1 s5 where
    original: "ce_lesson_findById env (lcp_originalLessonId params) = Inr original" and
    cont: "copyLessonContent env (les_contents original) params s = (Inr (contents, cst), s1)" and
    mats: "copyLinkedMaterials env original s1 = (Inr (materials, mst), s2)" and
    r: "r = cps_fresh s2" and
    l0: "l0 = with_id env (lesson.extend (new_Lesson (ce_now env) r
           \<lparr>lp_name = nullish (lcp_copyName params) (les_name original), lp_hidden = Some True,
            lp_course = Some (lcp_destinationCourse params), lp_courseGroup = None,
            lp_position = Some (les_position original), lp_contents = contents,
            lp_materials = Some materials\<rparr>) \<lparr>les_tasks = coll_of []\<rparr>)" and
    tasks: "copyLinkedTasks env (lesson.truncate l0) original params s4 = (Inr groups, s5)" and
    upd: "updateCopiedEmbeddedTasks env
        (lesson_deriveCopyStatus cst mst groups (l0\<lparr>les_tasks := coll_of (copied_tasks groups)\<rparr>) original)
        (buildCopyEntityDict (lesson_deriveCopyStatus cst mst groups (l0\<lparr>les_tasks := coll_of (copied_tasks groups)\<rparr>) original))
        = Inr st1" and
    fin: "cs_copyEntity st = Some (CopyLesson ((nullish (lesson_of st1) (l0\<lparr>les_tasks := coll_of (copied_tasks groups)\<rparr>))\<lparr>les_contents :=
           replaceUrlsInContents (les_contents (nullish (lesson_of st1) (l0\<lparr>les_tasks := coll_of (copied_tasks groups)\<rparr>))) reps\<rparr>))"
      "cs_originalEntity st = cs_originalEntity st1"
      "last (cps_saved s') = CopyLesson (with_id env ((nullish (lesson_of st1) (l0\<lparr>les_tasks := coll_of (copied_tasks groups)\<rparr>))\<lparr>les_contents :=
           replaceUrlsInContents (les_contents (nullish (lesson_of st1) (l0\<lparr>les_tasks := coll_of (copied_tasks groups)\<rparr>))) reps\<rparr>))"
    by (auto simp: copyLesson_def Let_def copy_results simp del: lesson.extend_def)
  have "lesson_of (lesson_deriveCopyStatus cst mst groups (l0\<lparr>les_tasks := coll_of (copied_tasks groups)\<rparr>) original) =
      Some (l0\<lparr>les_tasks := coll_of (copied_tasks groups)\<rparr>)"
    by (simp add: lesson_deriveCopyStatus_def Let_def)
  from updateCopiedEmbeddedTasks_lesson [OF upd this] obtain c where
    c: "lesson_of st1 = Some (l0\<lparr>les_tasks := coll_of (copied_tasks groups), les_contents := c\<rparr>)"
      "cs_originalEntity st1 = Some (CopyLesson original)"
    by (auto simp: lesson_deriveCopyStatus_def Let_def)
  define l where "l = l0\<lparr>les_tasks := coll_of (copied_tasks groups), les_contents := replaceUrlsInContents c reps\<rparr>"
  have st: "cs_copyEntity st = Some (CopyLesson l)" "cs_originalEntity st = Some (CopyLesson original)"
    using fin(1,2) c by (simp_all add: l_def)
  have "with_id env l = l" by (simp add: l_def l0 with_id_def)
  then have saved: "last (cps_saved s') = CopyLesson l" using fin(3) c by (simp add: l_def)
  have sel: "oid l = r" "oid (lesson.truncate l0) = r" "coll_items (les_tasks l) = copied_tasks groups"
    by (simp_all add: l_def l0 with_id_def new_Lesson_def lesson.defs)
  have "cps_fresh s \<le> oid l"
    using appendsD [OF appends_copyLessonContent cont] appendsD [OF appends_copyLinkedMaterials mats] r sel(1) by simp
  moreover have "fresh_copy_of_lesson env params original l"
    using copyLinkedTasks_made [OF tasks] sel
    by (simp add: fresh_copy_of_lesson_def l_def l0 with_id_def new_Lesson_def lesson.defs)
  ultimately show ?thesis using original st saved by blast
qed

text \<open>
  A successful copy of a task saves one new task, which is a draft without submissions made by
  the user, in the course and lesson of the request, under the name derived from the tasks that the
  course has; the user could read the original.
\<close>

theorem copied_task_is_draft:
  assumes "uc_copyTask env userId taskId p s = (Inr st, s')"
  shows "\<exists>u found course lesson name original t.
    ce_getUser env userId = Inr u \<and> ce_task_findById env taskId = Inr found \<and>
    hasPermission (ce_auth env) u (SubjTask found) (PermissionContextBuilder_read []) = Inr True \<and>
    getDestinationCourse env (tcpp_courseId p) = Inr course \<and>
    getDestinationLesson env (tcpp_lessonId p) u = Inr lesson \<and>
    getCopyName env (tsk_name found) (tcpp_courseId p) = Inr name \<and>
    ce_task_findById env (eid found) = Inr original \<and>
    fresh_copy_of_task env
      \<lparr>tcp_originalTaskId = eid found, tcp_destinationCourse = course, tcp_destinationLesson = lesson,
       tcp_user = u, tcp_copyName = Some name\<rparr> (cps_fresh s) original t \<and>
    cs_copyEntity st = Some (CopyTask t) \<and>
    cps_saved s' = cps_saved s @ [CopyTask (t\<lparr>tsk_description := tsk_description original\<rparr>), CopyTask t]"
proof -
  from assms obtain u found course lesson name where
    r: "ce_getUser env userId = Inr u" "ce_task_findById env taskId = Inr found"
      "hasPermission (ce_auth env) u (SubjTask found) (PermissionContextBuilder_read []) = Inr True"
      "getDestinationCourse env (tcpp_courseId p) = Inr course"
      "getDestinationLesson env (tcpp_lessonId p) u = Inr lesson"
      "getCopyName env (tsk_name found) (tcpp_courseId p) = Inr name" and
    c: "copyTask env \<lparr>tcp_originalTaskId = eid found, tcp_destinationCourse = course,
      tcp_destinationLesson = lesson, tcp_user = u, tcp_copyName = Some name\<rparr> s = (Inr st, s')"
    by (auto simp: uc_copyTask_def copy_results guardR_eq_Inr getUserWithPermissions_def)
  from copyTask_made [OF c] r show ?thesis by auto
qed

text \<open>
  A successful copy of a lesson is a hidden lesson in the destination course, in which the user
  may write, with a fresh draft for every linked task, in order; its name is free among the lessons
  of the course of the original, and it is the last thing saved.
\<close>

theorem copied_lesson_is_hidden:
  assumes "uc_copyLesson env userId lessonId p s = (Inr st, s')"
  shows "\<exists>u found course home siblings original l.
    ce_getUser env userId = Inr u \<and> ce_lesson_findById env lessonId = Inr found \<and>
    hasPermission (ce_auth env) u (SubjLesson found) (PermissionContextBuilder_read [''TOPIC_CREATE'']) = Inr True \<and>
    check_course_write env userId (eid course) [] = Inr () \<and>
    les_course found = Some home \<and> rr_lesson_findAllByCourseIds (ce_rooms env) [eid home] = Inr siblings \<and>
    ce_lesson_findById env (eid found) = Inr original \<and>
    fresh_copy_of_lesson env
      \<lparr>lcp_originalLessonId = eid found, lcp_destinationCourse = course, lcp_user = u,
       lcp_copyName = Some (les_name l)\<rparr> original l \<and>
    les_name l \<notin> set (map les_name siblings) \<and> cps_fresh s \<le> oid l \<and>
    cs_copyEntity st = Some (CopyLesson l) \<and> last (cps_saved s') = CopyLesson l"
proof -
  from assms obtain u found course home siblings where
    r: "ce_getUser env userId = Inr u" "ce_lesson_findById env lessonId = Inr found"
      "hasPermission (ce_auth env) u (SubjLesson found) (PermissionContextBuilder_read [''TOPIC_CREATE'']) = Inr True"
      "check_course_write env userId (eid course) [] = Inr ()" "les_course found = Some home"
      "rr_lesson_findAllByCourseIds (ce_rooms env) [eid home] = Inr siblings" and
    c: "copyLesson env \<lparr>lcp_originalLessonId = eid found, lcp_destinationCourse = course, lcp_user = u,
       lcp_copyName = Some (deriveCopyName (les_name found) (map les_name siblings))\<rparr> s = (Inr st, s')"
    by (auto simp: uc_copyLesson_def copy_results guardR_eq_Inr getUserWithPermissions_def case_None_throwE Let_def)
  from copyLesson_made [OF c] obtain original l where l:
    "ce_lesson_findById env (eid found) = Inr original" "cs_copyEntity st = Some (CopyLesson l)"
    "fresh_copy_of_lesson env \<lparr>lcp_originalLessonId = eid found, lcp_destinationCourse = course, lcp_user = u,
       lcp_copyName = Some (deriveCopyName (les_name found) (map les_name siblings))\<rparr> original l"
    "cps_fresh s \<le> oid l" "last (cps_saved s') = CopyLesson l"
    by auto
  then have n: "les_name l = deriveCopyName (les_name found) (map les_name siblings)"
    by (simp add: fresh_copy_of_lesson_def)
  then have "les_name l \<notin> set (map les_name siblings)" by (simp add: deriveCopyName_fresh del: set_map)
  with r l n show ?thesis by metis
qed

text \<open>
  C24. A copied course is marked as being copied from its first save until the board is copied, and
  the last thing saved is the course with the mark removed: a course without students, taught by the
  user alone, whose name none of the user's courses has.
\<close>

theorem course_copy_is_marked_until_done:
  assumes "service_copyCourse env userId courseId newName s = (Inr st, s')"
  shows "\<exists>u original mine c finished between.
    ce_getUser env userId = Inr u \<and> ce_course_findById env courseId = Inr original \<and>
    ce_course_findAllByUserId env userId = Inr mine \<and>
    crs_copyingSince c = Some (ce_now env) \<and> finished = c\<lparr>crs_copyingSince := None\<rparr> \<and>
    cps_saved s' = cps_saved s @ CopyCourse c # between @ [CopyCourse finished] \<and>
    cs_copyEntity st = Some (CopyCourse finished) \<and>
    Course_getStudentIds finished = Inr [] \<and> coll_items (crs_teachers finished) = [u] \<and> crs_school finished = usr_school u \<and>
    crs_name finished = or_default (Some (deriveCopyName (or_default newName (crs_name original)) (map crs_name mine))) DEFAULT_name \<and>
    deriveCopyName (or_default newName (crs_name original)) (map crs_name mine) \<notin> set (map crs_name mine)"
proof -
  let ?name = "\<lambda>original mine. deriveCopyName (or_default newName (crs_name original)) (map crs_name mine)"
  from assms obtain u original mine k c s2 x bst s3 finished where
    r: "ce_getUser env userId = Inr u" "ce_course_findById env courseId = Inr original"
      "ce_course_findAllByUserId env userId = Inr mine" and
    c: "copyCourseEntity env u original (?name original mine) (s\<lparr>cps_fresh := k\<rparr>) = (Inr c, s2)" and
    b: "copyBoard env x s2 = (Inr bst, s3)" and
    f: "finishCourseCopying env c s3 = (Inr finished, s')" and
    st: "deriveCourseStatus original finished bst = Inr st"
    by (auto simp: service_copyCourse_def Let_def bindE_eq_Inr liftE_eq_Inr getUserWithPermissions_def case_sum_eq_Inr)
  from c obtain r where
    "c = with_id env (new_Course (ce_now env) r
           \<lparr>cp_name = Some (?name original mine), cp_description = None, cp_school = usr_school u, cp_students = None,
            cp_teachers = Some [u], cp_substitutionTeachers = None, cp_color = Some (crs_color original),
            cp_startDate = map_option sy_startDate (sch_schoolYear (usr_school u)),
            cp_untilDate = map_option sy_endDate (sch_schoolYear (usr_school u)),
            cp_copyingSince = Some (ce_now env)\<rparr>)"
    "cps_saved s2 = cps_saved s @ [CopyCourse c]"
    by (auto simp: copyCourseEntity_def copy_results Let_def)
  moreover from this(1) have "with_id env (c\<lparr>crs_copyingSince := None\<rparr>) = c\<lparr>crs_copyingSince := None\<rparr>"
    by (simp only: with_id_later_course)
  with f have "finished = c\<lparr>crs_copyingSince := None\<rparr>" "cps_saved s' = cps_saved s3 @ [CopyCourse finished]"
    by (auto simp: finishCourseCopying_def save_entity_eq_Inr)
  moreover obtain ys where "cps_saved s3 = cps_saved s2 @ ys" using appendsD [OF appends_copyBoard b] by blast
  moreover have "cs_copyEntity st = Some (CopyCourse finished)"
    using st by (auto simp: deriveCourseStatus_def Let_def bindR_eq_Inr)
  ultimately show ?thesis
    using r
    by (intro exI [of _ u] exI [of _ original] exI [of _ mine] exI [of _ c] exI [of _ finished] exI [of _ ys] conjI)
      (simp_all add: with_id_course new_Course_def Course_getStudentIds_def coll_ids_def deriveCopyName_fresh
        del: set_map)
qed

end
