(* ===== verification/CopyAccess.thy ===== *)
theory CopyAccess
  imports CopyProperties
begin

text \<open>
  Requests to copy: what a request needs, what its response shows, and what becomes of the parts
  that could not be copied.
\<close>

section \<open>Requests\<close>

datatype copy_request =
    RequestTask EntityId TaskCopyParentParams
  | RequestLesson EntityId LessonCopyParentParams
  | RequestCourse EntityId

fun perform :: "copy_env \<Rightarrow> EntityId \<Rightarrow> copy_request \<Rightarrow> CopyStatus copying" where
  "perform env userId (RequestTask i p) = uc_copyTask env userId i p"
| "perform env userId (RequestLesson i p) = uc_copyLesson env userId i p"
| "perform env userId (RequestCourse i) = uc_copyCourse env userId i"

text \<open>
  Who may do what: the server knows the user and finds the object, and the rule of the authorization
  service for that object allows the action to a user with these permissions.
\<close>

definition may :: "copy_env \<Rightarrow> EntityId \<Rightarrow> AllowedAuthorizationEntityType \<Rightarrow> EntityId \<Rightarrow> Actions \<Rightarrow> string list \<Rightarrow> bool" where
  "may env userId kind i action permissions \<longleftrightarrow>
     (\<exists>u e. ce_getUser env userId = Inr u \<and> loadEntity (ce_findById env) kind i = Inr e \<and>
        hasPermission (ce_auth env) u e \<lparr>ctx_action = action, ctx_requiredPermissions = permissions\<rparr> = Inr True)"

lemma checked_reference:
  "checkPermissionByReferences (ce_getUser env) (ce_findById env) (ce_auth env) userId kind i
     \<lparr>ctx_action = a, ctx_requiredPermissions = ps\<rparr> = Inr x \<longleftrightarrow> may env userId kind i a ps"
  by (auto simp: checkPermissionByReferences_def hasPermissionByReferences_def bindR_eq_Inr
      guardR_eq_Inr getUserWithPermissions_def may_def split: sum.splits)

lemma checked_course: "check_course_write env userId i ps = Inr x \<longleftrightarrow> may env userId Allowed_Course i Write ps"
  by (simp add: check_course_write_def checked_reference)

text \<open>
  Everything needs the feature; a task has to be readable, and a course and a lesson it goes to
  writable; a lesson needs the permission to create topics on it and a writable course; a course has
  to be writable for somebody who may create courses.
\<close>

fun copy_permitted :: "copy_env \<Rightarrow> EntityId \<Rightarrow> copy_request \<Rightarrow> bool" where
  "copy_permitted env userId (RequestTask i p) \<longleftrightarrow>
     ce_copyEnabled env \<and>
     (\<exists>u t. ce_getUser env userId = Inr u \<and> ce_task_findById env i = Inr t \<and>
        hasPermission (ce_auth env) u (SubjTask t) \<lparr>ctx_action = Read, ctx_requiredPermissions = []\<rparr> = Inr True \<and>
        (case tcpp_lessonId p of
           None \<Rightarrow> True
         | Some k \<Rightarrow> \<exists>l. ce_lesson_findById env k = Inr l \<and>
             hasPermission (ce_auth env) u (SubjLesson l) \<lparr>ctx_action = Write, ctx_requiredPermissions = []\<rparr> = Inr True)) \<and>
     (truthy (tcpp_courseId p) \<longrightarrow> may env userId Allowed_Course (the (tcpp_courseId p)) Write [])"
| "copy_permitted env userId (RequestLesson i p) \<longleftrightarrow>
     ce_copyEnabled env \<and>
     (\<exists>u l c. ce_getUser env userId = Inr u \<and> ce_lesson_findById env i = Inr l \<and>
        hasPermission (ce_auth env) u (SubjLesson l)
          \<lparr>ctx_action = Read, ctx_requiredPermissions = [''TOPIC_CREATE'']\<rparr> = Inr True \<and>
        may env userId Allowed_Course (eid c) Write [] \<and>
        (truthy (lcpp_courseId p) \<longrightarrow> (\<exists>c'. ce_course_findById env (the (lcpp_courseId p)) = Inr c' \<and> eid c = eid c')) \<and>
        (\<not> truthy (lcpp_courseId p) \<longrightarrow> les_course l = Some c))"
| "copy_permitted env userId (RequestCourse i) \<longleftrightarrow>
     ce_copyEnabled env \<and> may env userId Allowed_Course i Write [''COURSE_CREATE'']"

lemma lift_changes:
  "snd (bindE (liftE r) f s) \<noteq> s \<longleftrightarrow> (\<exists>x. r = Inr x \<and> snd (f x s) \<noteq> s)"
  by (cases r) (simp_all add: bindE_def liftE_def)

lemma case_changes:
  "snd ((case x of None \<Rightarrow> throwE e | Some y \<Rightarrow> f y) s) \<noteq> s \<longleftrightarrow> (\<exists>y. x = Some y \<and> snd (f y s) \<noteq> s)"
  by (cases x) (simp_all add: throwE_def)

text \<open>
  C16. A request to copy that changes anything had the permissions it needs, as the rules of the
  authorization service decide them: whoever lacks the permission on the original, on the course
  or on the lesson it goes to, or asks while the feature is off, leaves everything as it was.
\<close>

theorem copying_needs_permission:
  assumes "snd (perform env userId request s) \<noteq> s"
  shows "copy_permitted env userId request"
proof (cases request)
  case (RequestTask i p)
  from assms obtain u t d x where ok: "ce_copyEnabled env" "ce_getUser env userId = Inr u" "ce_task_findById env i = Inr t"
    "hasPermission (ce_auth env) u (SubjTask t) (PermissionContextBuilder_read []) = Inr True"
    "(if truthy (tcpp_courseId p) then check_course_write env userId (the (tcpp_courseId p)) [] else Inr ()) = Inr x"
    and lesson: "getDestinationLesson env (tcpp_lessonId p) u = Inr d"
    by (auto simp: RequestTask uc_copyTask_def lift_changes featureEnabled_def guardR_eq_Inr getUserWithPermissions_def
        simp del: split_paired_Ex)
  from ok lesson show ?thesis
    by (auto simp: RequestTask checked_course context_builder_defs getDestinationLesson_def bindR_eq_Inr guardR_eq_Inr
        split: if_splits option.splits)
next
  case (RequestLesson i p)
  with assms obtain u l c where
    "ce_copyEnabled env" "ce_getUser env userId = Inr u" "ce_lesson_findById env i = Inr l"
    "hasPermission (ce_auth env) u (SubjLesson l) (PermissionContextBuilder_read [''TOPIC_CREATE'']) = Inr True"
    "may env userId Allowed_Course (eid c) Write []"
    "(if truthy (lcpp_courseId p)
      then mapR (\<lambda>c. Some (course.truncate c)) (ce_course_findById env (the (lcpp_courseId p)))
      else Inr (les_course l)) = Inr (Some c)"
    by (auto simp: uc_copyLesson_def lift_changes case_changes featureEnabled_def guardR_eq_Inr
        getUserWithPermissions_def checked_course)
  moreover from this(6) have
    "truthy (lcpp_courseId p) \<longrightarrow> (\<exists>c'. ce_course_findById env (the (lcpp_courseId p)) = Inr c' \<and> eid c = eid c')"
    "\<not> truthy (lcpp_courseId p) \<longrightarrow> les_course l = Some c"
    by (auto simp: mapR_eq_Inr course.defs split: if_splits)
  ultimately show ?thesis using RequestLesson by (auto simp: context_builder_defs)
next
  case (RequestCourse i)
  with assms show ?thesis
    by (auto simp: uc_copyCourse_def lift_changes featureEnabled_def guardR_eq_Inr checked_course)
qed

section \<open>Copies that complete\<close>

definition returns :: "'a copying \<Rightarrow> bool" where
  "returns m \<longleftrightarrow> (\<forall>s. \<not> isl (fst (m s)))"

lemma returnsD: "returns m \<Longrightarrow> \<exists>x s'. m s = (Inr x, s')"
  unfolding returns_def by (metis prod.collapse sum.collapse(2))

lemma returns_basic [simp]: "returns (retE x)" "returns (liftE (Inr x))" "returns fresh_ref"
  by (simp_all add: returns_def eff_run fresh_ref_def)

lemma returns_bind_dep:
  assumes "returns m" and "yields m Q" and "\<And>x. Q x \<Longrightarrow> returns (f x)"
  shows "returns (bindE m f)"
  unfolding returns_def
proof
  fix s
  from returnsD [OF assms(1), of s] obtain x s' where ms: "m s = (Inr x, s')" by blast
  with assms(2) have "Q x" by (simp add: runs_def) (metis fst_conv)
  with ms assms(3) [of x] show "\<not> isl (fst (bindE m f s))" by (simp add: bindE_def returns_def)
qed

lemma returns_bind: "returns m \<Longrightarrow> (\<And>x. returns (f x)) \<Longrightarrow> returns (bindE m f)"
  by (rule returns_bind_dep [OF _ yields_any])

lemma returns_lift: "\<exists>x. r = Inr x \<Longrightarrow> returns (liftE r)"
  by auto

lemma returns_lift_bind: "\<exists>x. r = Inr x \<Longrightarrow> (\<And>x. r = Inr x \<Longrightarrow> returns (f x)) \<Longrightarrow> returns (bindE (liftE r) f)"
  by auto

lemma returns_mapME: "(\<And>x. returns (f x)) \<Longrightarrow> returns (mapME f xs)"
  by (induction xs) (auto intro!: returns_bind)

lemma returns_settled: "returns (settled m)"
  by (simp add: returns_def settled_def catchE_def bindE_def retE_def split: prod.split sum.split)

lemma returns_save: "ce_save env = (\<lambda>_. None) \<Longrightarrow> returns (save_entity env C e)"
  by (simp add: returns_def save_entity_def Let_def)

lemma copyBoardElements_returns: "returns (copyBoardElements env els u c)"
  unfolding copyBoardElements_def split_beta by (intro returns_bind returns_mapME returns_settled returns_basic)

lemma extractReferences_returns: "returns (extractReferences env sts)"
  unfolding extractReferences_def
  by (intro returns_bind returns_mapME) (auto split: option.split CopyEntity.split intro!: returns_bind)

definition urls_parse :: "copy_env \<Rightarrow> bool" where
  "urls_parse env \<longleftrightarrow> (\<forall>url. \<exists>path. ce_url_pathname env url = Inr path)"

lemma updateCopiedEmbeddedTasks_total:
  assumes "urls_parse env"
  shows "\<exists>st'. updateCopiedEmbeddedTasks env st dict = Inr st'"
proof -
  from assms obtain p where p: "\<And>url. ce_url_pathname env url = Inr (p url)"
    unfolding urls_parse_def by metis
  have "\<exists>c'. updateCopiedEmbeddedTaskId env dict c = Inr c'" for c
    by (auto simp: updateCopiedEmbeddedTaskId_def extractTaskId_def p Let_def
        split: ComponentType.split option.split)
  then obtain g where "\<And>c. updateCopiedEmbeddedTaskId env dict c = Inr (g c)" by metis
  then have "mapMR (updateCopiedEmbeddedTaskId env dict) cs = Inr (map g cs)" for cs by (rule mapMR_total)
  then show ?thesis
    by (auto simp: updateCopiedEmbeddedTasks_def split: CopyStatus.split option.split CopyEntity.split)
qed

lemma updateCopiedEmbeddedTasksOfLessons_total:
  assumes "urls_parse env"
  shows "\<exists>st'. updateCopiedEmbeddedTasksOfLessons env st = Inr st'"
proof -
  have "\<exists>e'. (if cs_type e = CET_LESSON then updateCopiedEmbeddedTasks env e (buildCopyEntityDict st) else Inr e) = Inr e'"
    for e using updateCopiedEmbeddedTasks_total [OF assms] by simp
  then obtain g where
    "\<And>e. (if cs_type e = CET_LESSON then updateCopiedEmbeddedTasks env e (buildCopyEntityDict st) else Inr e) = Inr (g e)"
    by metis
  then show ?thesis by (simp add: updateCopiedEmbeddedTasksOfLessons_def Let_def mapMR_total [where g = g])
qed

lemma copyBoard_returns:
  assumes "ce_save env = (\<lambda>_. None)" and "urls_parse env"
  shows "returns (copyBoard env params)"
proof -
  have "returns (liftE (updateCopiedEmbeddedTasksOfLessons env st))" for st
    using updateCopiedEmbeddedTasksOfLessons_total [OF assms(2), of st] by auto
  then show ?thesis unfolding copyBoard_def Let_def
    by (intro returns_bind copyBoardElements_returns extractReferences_returns returns_basic returns_save assms(1))
qed

lemma course_copy_returns:
  assumes "ce_getUser env userId = Inr u" and "ce_course_findById env courseId = Inr original"
    and "rr_board_findByCourseId (ce_rooms env) courseId = Inr b"
    and "updateBoard (ce_rooms env) (ce_now env) (cps_fresh s) b courseId userId = Inr b'"
    and "ce_course_findAllByUserId env userId = Inr mine"
    and "ce_save env = (\<lambda>_. None)" and "urls_parse env" and "coll_initialized (crs_courseGroups original)"
  shows "\<exists>st s'. service_copyCourse env userId courseId newName s = (Inr st, s')"
proof -
  have groups: "getCourseGroupItems original = Inr (coll_items (crs_courseGroups original))"
    using assms(8) by (simp add: getCourseGroupItems_def)
  have "returns (bindE (copyCourseEntity env u original n) (\<lambda>courseCopy.
      bindE (copyBoard env \<lparr>bcp_originalBoard = b', bcp_destinationCourse = courseCopy, bcp_user = u\<rparr>) (\<lambda>boardStatus.
      bindE (finishCourseCopying env courseCopy) (\<lambda>finished.
        liftE (deriveCourseStatus original finished boardStatus)))))" for n
    unfolding copyCourseEntity_def Let_def finishCourseCopying_def deriveCourseStatus_def groups bindR_simps
    by (intro returns_bind returns_basic returns_save copyBoard_returns assms(6,7))
  from returnsD [OF this] show ?thesis
    using assms(1-5) by (simp add: service_copyCourse_def getUserWithPermissions_def Let_def bindE_Inr)
qed

definition files_answer :: "copy_env \<Rightarrow> bool" where
  "files_answer env \<longleftrightarrow> (\<forall>r. \<exists>fs. ce_files env r = Inr fs)"

lemma copyFilesOfEntity_total:
  assumes "files_answer env" and "file_school_id a = Inr i" and "file_school_id b = Inr j"
  shows "\<exists>r. copyFilesOfEntity (ce_files env) a b u = Inr r"
  using assms by (auto simp: copyFilesOfEntity_def client_copyFilesOfParent_def files_answer_def Let_def bindR_def
      split: sum.split) (metis Inr_not_Inl)

lemma copyTask_returns:
  assumes "ce_task_findById env (tcp_originalTaskId params) = Inr t" and "ce_save env = (\<lambda>_. None)"
    and "files_answer env"
  shows "returns (copyTask env params)"
proof -
  have "returns (liftE (copyFilesOfEntity (ce_files env) (FilesOfTask x) (FilesOfTask y) u))" for x y u
    by (intro returns_lift copyFilesOfEntity_total [OF assms(3)]) auto
  then show ?thesis
    unfolding copyTask_def copyTaskEntity_def task_updateFileUrls_def Let_def split_beta assms(1)
    by (intro returns_bind returns_basic returns_save assms(2))
qed

lemma copyLesson_returns:
  assumes "ce_lesson_findById env (lcp_originalLessonId params) = Inr l" and "ce_save env = (\<lambda>_. None)"
    and "files_answer env" and "urls_parse env" and "les_contents l = []" and "getLessonMaterials l = Inr ms"
    and "getLessonLinkedTasks l = Inr ts" and "\<forall>i. \<exists>t. ce_task_findById env i = Inr t"
    and "Lesson_getSchoolId l = Inr schoolId"
  shows "returns (copyLesson env params)"
proof -
  have task: "returns (copyTask env ps)" for ps
    using assms(8) copyTask_returns [OF _ assms(2,3)] by blast
  have tasks: "returns (copyLinkedTasks env d l params)" for d
    unfolding copyLinkedTasks_def assms(7) by (auto intro!: returns_bind returns_mapME task)
  have materials: "returns (copyLinkedMaterials env l)"
    unfolding copyLinkedMaterials_def assms(6) Let_def by (auto intro!: returns_bind returns_mapME)
  have content: "returns (copyLessonContent env [] params)"
    by (simp add: copyLessonContent_def Let_def)
  have save: "yields (save_entity env CopyLesson e) (\<lambda>x. x = with_id env e)" for e :: lesson_entity
    using assms(2) by (simp add: runs_def save_entity_def Let_def)
  have files: "returns (liftE (copyFilesOfEntity (ce_files env) (FilesOfLesson l)
      (FilesOfLesson (nullish (lesson_of st) (x\<lparr>les_tasks := tc\<rparr>))) u))"
    if "x = with_id env (lesson.extend (new_Lesson (ce_now env) r
          \<lparr>lp_name = n, lp_hidden = h, lp_course = Some c, lp_courseGroup = None, lp_position = p,
           lp_contents = cs, lp_materials = mats\<rparr>) ext)"
      and "updateCopiedEmbeddedTasks env (lesson_deriveCopyStatus a b d (x\<lparr>les_tasks := tc\<rparr>) l) dict = Inr st"
    for x r n h c p cs mats ext a b d tc dict st u
  proof -
    have "lesson_of (lesson_deriveCopyStatus a b d (x\<lparr>les_tasks := tc\<rparr>) l) = Some (x\<lparr>les_tasks := tc\<rparr>)"
      by (simp add: lesson_deriveCopyStatus_def Let_def)
    from updateCopiedEmbeddedTasks_lesson [OF that(2) this] obtain ks where
      "lesson_of st = Some (x\<lparr>les_tasks := tc, les_contents := ks\<rparr>)" by blast
    then have "file_school_id (FilesOfLesson (nullish (lesson_of st) (x\<lparr>les_tasks := tc\<rparr>))) = Inr (eid (crs_school c))"
      by (simp add: that(1) Lesson_getSchoolId_def with_id_def lesson.defs new_Lesson_def)
    then show ?thesis
      using assms(9) by (intro returns_lift copyFilesOfEntity_total [OF assms(3)]) auto
  qed
  show ?thesis
    unfolding copyLesson_def Let_def split_beta assms(1,5) bindE_liftE_Inr
    by (rule returns_bind [OF content], rule returns_bind [OF materials], rule returns_bind [OF returns_basic(3)],
        rule returns_bind_dep [OF returns_save [OF assms(2)] save], rule returns_bind [OF tasks],
        rule returns_bind [OF returns_save [OF assms(2)]],
        rule returns_lift_bind [OF updateCopiedEmbeddedTasks_total [OF assms(4)]],
        rule returns_bind, erule files, assumption, intro returns_bind returns_basic returns_save assms(2))
qed

text \<open>
  C23. A permitted copy of a course comes to its end and reports a status, whatever happens to its
  tasks and lessons: it is enough that the user, the course and its board are there, the database
  saves, and the urls of embedded tasks parse.
\<close>

theorem permitted_course_copy_completes:
  assumes "copy_permitted env userId (RequestCourse courseId)"
    and "ce_getUser env userId = Inr u" and "ce_course_findById env courseId = Inr original"
    and "rr_board_findByCourseId (ce_rooms env) courseId = Inr b"
    and "updateBoard (ce_rooms env) (ce_now env) (cps_fresh s) b courseId userId = Inr b'"
    and "ce_course_findAllByUserId env userId = Inr mine"
    and "ce_save env = (\<lambda>_. None)" and "urls_parse env" and "coll_initialized (crs_courseGroups original)"
  shows "\<exists>st s'. uc_copyCourse env userId courseId s = (Inr st, s')"
  using course_copy_returns [OF assms(2-9), of None] assms(1) checked_course [of env userId courseId "[''COURSE_CREATE'']" "()"]
  by (simp add: uc_copyCourse_def featureEnabled_def)

section \<open>Parts that could not be copied\<close>

lemma settled_failure: "m s = (Inl e, s') \<Longrightarrow> settled m s = (Inr None, s')"
  by (simp add: settled_def catchE_def bindE_def retE_def)

lemma mapME_same: "(\<And>x. x \<in> set xs \<Longrightarrow> f x s = (Inr y, s)) \<Longrightarrow> mapME f xs s = (Inr (map (\<lambda>_. y) xs), s)"
  by (induction xs) (simp_all add: bindE_def retE_def)

lemma map_filter_None: "List.map_filter id (map (\<lambda>_. None) xs) = []"
  by (induction xs) (simp_all add: List.map_filter_def)

text \<open>
  An element of a board whose copy fails is left out without a trace: when no task and no lesson
  can be loaded, the copy of a board with any elements still reports success, for a board that is
  empty.
\<close>

theorem board_copy_hides_failures:
  assumes "ce_task_findById env = (\<lambda>_. Inl e)" and "ce_lesson_findById env = (\<lambda>_. Inl e)"
    and "ce_save env = (\<lambda>_. None)"
  shows "\<exists>st b s'. copyBoard env params s = (Inr st, s') \<and> cs_status st = CS_SUCCESS \<and>
    cs_elements st = Some [] \<and> cs_copyEntity st = Some (CopyBoard b) \<and> getElements b = []"
proof -
  let ?f = "\<lambda>(pos, element). settled (bindE (copy_board_element env (bcp_user params) (bcp_destinationCourse params) element)
      (\<lambda>status. retE (pos, status)))"
  have "\<exists>err. copy_board_element env u c element s = (Inl err, s)" for u c element
    by (auto simp: copy_board_element_def copyTask_def copyLesson_def assms bindE_def eff_run
        split: BoardElementType.split BoardElementReference.split)
  then obtain err where "\<And>el. copy_board_element env (bcp_user params) (bcp_destinationCourse params) el s = (Inl (err el), s)"
    by metis
  then have "?f x s = (Inr None, s)" for x
    by (cases x) (auto intro!: settled_failure bindE_Inl)
  then have m: "mapME ?f xs s = (Inr (map (\<lambda>_. None) xs), s)" for xs by (intro mapME_same)
  have "copyBoardElements env els (bcp_user params) (bcp_destinationCourse params) s = (Inr [], s)" for els
    unfolding copyBoardElements_def by (subst bindE_Inr, rule m) (simp add: map_filter_None retE_def)
  then show ?thesis
    by (simp add: copyBoard_def Let_def bindE_Inr extractReferences_def fresh_ref_def retE_def
        updateCopiedEmbeddedTasksOfLessons_def liftE_def save_entity_def assms(3) with_id_def current_targets_def
        new_Board_def coll_set_def getElements_def deriveStatusFromElements_def)
qed

section \<open>The response\<close>

fun response_parts :: "CopyApiResponse \<Rightarrow> CopyApiResponse list" where
  "response_parts (CopyApiResponse i title ty c st elements) =
     CopyApiResponse i title ty c st elements #
       (case elements of None \<Rightarrow> [] | Some els \<Rightarrow> concat (map response_parts els))"

definition is_problem :: "CopyStatusEnum \<Rightarrow> bool" where
  "is_problem st \<longleftrightarrow> st \<in> {CS_FAIL, CS_PARTIAL, CS_NOT_IMPLEMENTED}"

lemma response_status [simp]: "car_status (copy_mapToResponse st) = cs_status st"
  by (cases st) simp

definition status_problems :: "CopyStatus list \<Rightarrow> (CopyElementType \<times> CopyStatusEnum) list" where
  "status_problems ps = filter (\<lambda>p. is_problem (snd p)) (map (\<lambda>p. (cs_type p, cs_status p)) ps)"

definition response_problems :: "CopyApiResponse list \<Rightarrow> (CopyElementType \<times> CopyStatusEnum) list" where
  "response_problems rs = filter (\<lambda>p. is_problem (snd p)) (map (\<lambda>r. (car_type r, car_status r)) rs)"

lemma problems_simps [simp]:
  "status_problems [] = []" "status_problems (xs @ ys) = status_problems xs @ status_problems ys"
  "status_problems (x # xs) = (if is_problem (cs_status x) then [(cs_type x, cs_status x)] else []) @ status_problems xs"
  "response_problems [] = []" "response_problems (as @ bs) = response_problems as @ response_problems bs"
  "response_problems (a # as) = (if is_problem (car_status a) then [(car_type a, car_status a)] else []) @ response_problems as"
  by (simp_all add: status_problems_def response_problems_def)

lemma no_problems: "consistent st \<Longrightarrow> cs_status st = CS_SUCCESS \<Longrightarrow> status_problems (parts st) = []"
  using consistent_parts [of st] by (auto simp: status_problems_def filter_empty_conv is_problem_def)

text \<open>
  What a response shows of a status: all problems with their types, in order, and below its root no
  success.
\<close> 
definition response_faithful :: "CopyStatus \<Rightarrow> bool" where
  "response_faithful st \<longleftrightarrow>
     response_problems (response_parts (copy_mapToResponse st)) = status_problems (parts st) \<and>
     CS_SUCCESS \<notin> set (map car_status (tl (response_parts (copy_mapToResponse st))))"

lemma response_parts_Cons: "response_parts r = r # tl (response_parts r)"
  by (cases r) simp

lemma shown_problems:
  assumes "\<And>e. e \<in> set els \<Longrightarrow> consistent e \<and> response_faithful e"
  shows "response_problems (concat (map response_parts
      (filter (\<lambda>r. car_status r \<noteq> CS_SUCCESS) (map copy_mapToResponse els)))) =
    status_problems (concat (map parts els)) \<and>
    CS_SUCCESS \<notin> set (map car_status (concat (map response_parts
      (filter (\<lambda>r. car_status r \<noteq> CS_SUCCESS) (map copy_mapToResponse els)))))"
  using assms
proof (induction els)
  case Nil
  then show ?case by simp
next
  case (Cons e els)
  then have IH: "response_problems (concat (map response_parts
      (filter (\<lambda>r. car_status r \<noteq> CS_SUCCESS) (map copy_mapToResponse els)))) = status_problems (concat (map parts els))"
    "CS_SUCCESS \<notin> set (map car_status (concat (map response_parts
      (filter (\<lambda>r. car_status r \<noteq> CS_SUCCESS) (map copy_mapToResponse els)))))"
    by auto
  from Cons.prems have e: "consistent e" "response_faithful e" by auto
  show ?case
  proof (cases "cs_status e = CS_SUCCESS")
    case True
    with IH no_problems [OF e(1)] show ?thesis by simp
  next
    case False
    have "CS_SUCCESS \<notin> set (map car_status (response_parts (copy_mapToResponse e)))"
      using e(2) False by (subst response_parts_Cons) (simp add: response_faithful_def)
    with IH e(2) False show ?thesis by (simp add: response_faithful_def)
  qed
qed

lemma consistent_response: "consistent st \<Longrightarrow> response_faithful st"
proof (induction st rule: consistent.induct)
  case (1 title ty st elements c original)
  show ?case
  proof (cases elements)
    case None
    then show ?thesis by (simp add: response_faithful_def)
  next
    case (Some els)
    with 1 have "\<And>e. e \<in> set els \<Longrightarrow> consistent e \<and> response_faithful e" by (auto simp: list_all_iff)
    from shown_problems [OF this] have shown:
      "response_problems (concat (map response_parts
        (filter (\<lambda>r. car_status r \<noteq> CS_SUCCESS) (map copy_mapToResponse els)))) = status_problems (concat (map parts els))"
      "CS_SUCCESS \<notin> set (map car_status (concat (map response_parts
        (filter (\<lambda>r. car_status r \<noteq> CS_SUCCESS) (map copy_mapToResponse els)))))"
      by blast+
    show ?thesis
    proof (cases "st = CS_SUCCESS")
      case True
      with no_problems [OF 1(2)] Some show ?thesis by (simp add: response_faithful_def is_problem_def)
    next
      case False
      with shown Some show ?thesis by (simp add: response_faithful_def)
    qed
  qed
qed

text \<open>
  The response to a copy leaves out what succeeded and nothing else: with their types, the parts
  that failed, are partial or not implemented are the same, in the same order, in the response as in
  the status, and below its root the response has no success.
\<close>

theorem copy_response_faithful:
  "runs (\<lambda>_. True) (perform env userId request) response_faithful"
proof -
  have "runs (\<lambda>_. True) (perform env userId request) consistent"
    by (cases request) (auto intro: uc_copies_consistent)
  then show ?thesis by (rule runs_weaken) (rule consistent_response)
qed

section \<open>A server to copy on\<close>

definition ex_copy_task :: task where
  "ex_copy_task = (ex_task False [ex_submission True])\<lparr>tsk_description := ''see /f1/a.png'' @ [CHR 0x22]\<rparr>"

definition ex_copy_lesson :: lesson_entity where
  "ex_copy_lesson = lesson.extend (ex_lesson False) \<lparr>les_tasks = coll_of [ex_copy_task]\<rparr>"

definition ex_copy_course :: course_entity where
  "ex_copy_course = course.extend ex_course \<lparr>crs_courseGroups = coll_of []\<rparr>"

definition ex_copy_board :: Board where
  "ex_copy_board = new_Board 0 50 [FromTask 0 51 ex_copy_task] ex_course"

definition ex_copy_env :: copy_env where
  "ex_copy_env =
     \<lparr>ce_now = 7, ce_newId = (\<lambda>r. CHR ''n'' # nat_string r), ce_random = (\<lambda>_. ''r''), ce_save = (\<lambda>_. None),
      ce_task_findById = (\<lambda>_. Inr ex_copy_task), ce_lesson_findById = (\<lambda>_. Inr ex_copy_lesson),
      ce_course_findById = (\<lambda>_. Inr ex_copy_course), ce_course_findAllByUserId = (\<lambda>_. Inr [ex_course]),
      ce_rooms = \<lparr>rr_user_findById = (\<lambda>_ _. Inr ex_teacher), rr_course_findOne = (\<lambda>_ _. Inr ex_course),
        rr_board_findByCourseId = (\<lambda>_. Inr ex_copy_board), rr_lesson_findAllByCourseIds = (\<lambda>_. Inr []),
        rr_task_findBySingleParent = (\<lambda>_ _. Inr [ex_copy_task]), rr_board_save = (\<lambda>_. Inr ())\<rparr>,
      ce_files = (\<lambda>_. Inr [\<lparr>cfd_id = Some ''f2'', cfd_sourceId = ''f1'', cfd_name = ''a.png''\<rparr>]),
      ce_pads_create = (\<lambda>_ _ _. Inr ''pad''), ce_nexboards_create = (\<lambda>_ _ _. Inr (''b'', ''l'')),
      ce_url_pathname = Inr, ce_etherpadEnabled = True, ce_nexboardEnabled = True, ce_copyEnabled = True,
      ce_padUri = ''p'',
      ce_auth = \<lparr>env_roles = (\<lambda>r. \<lparr>oid = r, eid = ''r'', ent_createdAt = 0, ent_updatedAt = 0, role_name = TEACHER,
          role_permissions = [''TOPIC_CREATE'', ''COURSE_CREATE''], role_roles = coll_of []\<rparr>), env_stack = 3\<rparr>,
      ce_getUser = (\<lambda>_. Inr ex_teacher), ce_findById = (\<lambda>_ _ _. Inr (SubjCourse ex_course))\<rparr>"

abbreviation ex_copy_start :: copy_state where
  "ex_copy_start \<equiv> \<lparr>cps_fresh = 100, cps_saved = []\<rparr>"

lemma ex_copy_allowed:
  "hasAllPermissions (ce_auth ex_copy_env) ex_teacher [''TOPIC_CREATE''] = Inr True"
  "hasAllPermissions (ce_auth ex_copy_env) ex_teacher [''COURSE_CREATE''] = Inr True"
  by code_simp+

lemma service_permits:
  "hasPermission env u (SubjTask t) ctx = TaskRule_hasPermission env u t ctx"
  "hasPermission env u (SubjLesson l) ctx = LessonRule_hasPermission env u l ctx"
  "hasPermission env u (SubjCourse c) ctx = CourseRule_hasPermission env u c ctx"
  by (simp_all add: hasPermission_def manager_hasPermission_def selectPermissions_single
      SingleSelectStrategie_match_def rule_hasPermission_def)

lemma ex_copy_env_sel [simp]:
  "ce_getUser ex_copy_env i = Inr ex_teacher" "ce_findById ex_copy_env ty i b = Inr (SubjCourse ex_course)"
  "ce_task_findById ex_copy_env i = Inr ex_copy_task" "ce_lesson_findById ex_copy_env i = Inr ex_copy_lesson"
  "ce_course_findById ex_copy_env i = Inr ex_copy_course" "ce_course_findAllByUserId ex_copy_env i = Inr [ex_course]"
  "rr_board_findByCourseId (ce_rooms ex_copy_env) i = Inr ex_copy_board"
  "rr_lesson_findAllByCourseIds (ce_rooms ex_copy_env) is = Inr []"
  "rr_task_findBySingleParent (ce_rooms ex_copy_env) i j = Inr [ex_copy_task]"
  "rr_board_save (ce_rooms ex_copy_env) b' = Inr ()"
  "ce_files ex_copy_env r = Inr [\<lparr>cfd_id = Some ''f2'', cfd_sourceId = ''f1'', cfd_name = ''a.png''\<rparr>]"
  "ce_copyEnabled ex_copy_env" "ce_save ex_copy_env e = None"
  by (simp_all add: ex_copy_env_def)

lemma ex_course_write:
  "CourseRule_hasPermission (ce_auth ex_copy_env) ex_teacher ex_course
     \<lparr>ctx_action = Write, ctx_requiredPermissions = [''COURSE_CREATE'']\<rparr> = Inr True"
  "CourseRule_hasPermission (ce_auth ex_copy_env) ex_teacher ex_course
     \<lparr>ctx_action = Write, ctx_requiredPermissions = []\<rparr> = Inr True"
  using ex_copy_allowed
  by (simp_all add: course_rule.permitted_iff course_rule.unconditional ex_access_defs)

lemma ex_copy_permissions:
  "hasPermission (ce_auth ex_copy_env) ex_teacher (SubjTask ex_copy_task) (PermissionContextBuilder_read []) = Inr True"
  "hasPermission (ce_auth ex_copy_env) ex_teacher (SubjLesson ex_copy_lesson) (PermissionContextBuilder_write []) = Inr True"
  "hasPermission (ce_auth ex_copy_env) ex_teacher (SubjLesson ex_copy_lesson)
     (PermissionContextBuilder_read [''TOPIC_CREATE'']) = Inr True"
  "check_course_write ex_copy_env ''teacher'' ''course'' [''COURSE_CREATE''] = Inr ()"
  "check_course_write ex_copy_env ''teacher'' ''course'' [] = Inr ()"
  using ex_copy_allowed
  by (simp_all add: service_permits task_rule.unconditional lesson_rule.unconditional lesson_rule.permitted_iff
      ex_course_write ex_copy_task_def ex_copy_lesson_def lesson.defs lesson_access_def ex_access_defs
      context_builder_defs check_course_write_def checkPermissionByReferences_def hasPermissionByReferences_def
      getUserWithPermissions_def loadEntity_def resolveRepo_def ReferenceLoader_repos_def)




lemma ex_copy_ready:
  "ce_save ex_copy_env = (\<lambda>_. None)" "files_answer ex_copy_env" "urls_parse ex_copy_env"
  by (simp_all add: files_answer_def urls_parse_def ex_copy_env_def)

lemma ex_copy_lesson_sel [simp]:
  "les_course ex_copy_lesson = Some ex_course" "les_courseGroup ex_copy_lesson = None"
  "les_contents ex_copy_lesson = []" "les_materials ex_copy_lesson = coll_of []"
  "les_tasks ex_copy_lesson = coll_of [ex_copy_task]"
  by (simp_all add: ex_copy_lesson_def lesson.defs ex_lesson_def new_Lesson_def)

abbreviation ex_task_request :: TaskCopyParentParams where
  "ex_task_request \<equiv> mapTaskCopyToDomain (Some ''course'') (Some ''lesson'') ''teacher''"

abbreviation ex_lesson_request :: LessonCopyParentParams where
  "ex_lesson_request \<equiv> mapLessonCopyToDomain None ''teacher''"

lemma ex_copy_task_runs: "\<exists>st s'. uc_copyTask ex_copy_env ''teacher'' ''task'' ex_task_request ex_copy_start = (Inr st, s')"
proof -
  have "returns (copyTask ex_copy_env ps)" for ps by (rule copyTask_returns) (simp_all add: ex_copy_ready)
  from returnsD [OF this] show ?thesis
    by (simp add: uc_copyTask_def featureEnabled_def getUserWithPermissions_def ex_copy_permissions
        getDestinationCourse_def getDestinationLesson_def truthy_def getCopyName_def mapTaskCopyToDomain_def)
qed

lemma ex_copy_lesson_runs:
  "\<exists>st s'. uc_copyLesson ex_copy_env ''teacher'' ''lesson'' ex_lesson_request ex_copy_start = (Inr st, s')"
proof -
  have "returns (copyLesson ex_copy_env ps)" for ps
    by (rule copyLesson_returns [of _ _ ex_copy_lesson "[]" "[ex_copy_task]"])
      (simp_all add: ex_copy_ready getLessonMaterials_def getLessonLinkedTasks_def getTasksItems_def
        Lesson_getSchoolId_def)
  from returnsD [OF this] show ?thesis
    by (simp add: uc_copyLesson_def featureEnabled_def getUserWithPermissions_def ex_copy_permissions
        truthy_def mapLessonCopyToDomain_def Let_def)
qed

lemma ex_copy_board_updates:
  "\<exists>b'. updateBoard (ce_rooms ex_copy_env) now next ex_copy_board i j = Inr b'"
  by (simp add: updateBoard_def Let_def)

theorem copied_task_is_draft_witness:
  "\<exists>t s'. snd (uc_copyTask ex_copy_env ''teacher'' ''task'' ex_task_request ex_copy_start) = s' \<and>
     last (cps_saved s') = CopyTask t \<and> isDraft t \<and> getSubmissionItems t = Inr [] \<and> tsk_creator t = ex_teacher"
proof -
  from ex_copy_task_runs obtain st s' where
    run: "uc_copyTask ex_copy_env ''teacher'' ''task'' ex_task_request ex_copy_start = (Inr st, s')" by blast
  from copied_task_is_draft [OF run] obtain u c l n o1 t where
    "ce_getUser ex_copy_env ''teacher'' = Inr u"
    "fresh_copy_of_task ex_copy_env \<lparr>tcp_originalTaskId = eid ex_copy_task, tcp_destinationCourse = c,
       tcp_destinationLesson = l, tcp_user = u, tcp_copyName = Some n\<rparr> 100 o1 t"
    "cps_saved s' = [CopyTask (t\<lparr>tsk_description := tsk_description o1\<rparr>), CopyTask t]"
    by auto
  with run show ?thesis by (intro exI [of _ t] exI [of _ s']) (simp add: fresh_copy_of_task_def)
qed

theorem copied_lesson_is_hidden_witness:
  "\<exists>l s'. snd (uc_copyLesson ex_copy_env ''teacher'' ''lesson'' ex_lesson_request ex_copy_start) = s' \<and>
     last (cps_saved s') = CopyLesson l \<and> les_hidden l \<and> 100 \<le> oid l"
proof -
  from ex_copy_lesson_runs obtain st s' where
    run: "uc_copyLesson ex_copy_env ''teacher'' ''lesson'' ex_lesson_request ex_copy_start = (Inr st, s')" by blast
  from copied_lesson_is_hidden [OF run] obtain l where
    "les_hidden l" "100 \<le> oid l" "last (cps_saved s') = CopyLesson l"
    by (auto simp: fresh_copy_of_lesson_def)
  with run show ?thesis by simp
qed

lemma ex_copy_task_changes:
  "snd (perform ex_copy_env ''teacher'' (RequestTask ''task'' ex_task_request) ex_copy_start) \<noteq> ex_copy_start"
proof -
  have "snd (copyTask ex_copy_env ps s) \<noteq> s" for ps s
  proof -
    have "returns (copyTask ex_copy_env ps)" by (rule copyTask_returns) (simp_all add: ex_copy_ready)
    from returnsD [OF this, of s] obtain st s' where "copyTask ex_copy_env ps s = (Inr st, s')" by blast
    with copyTask_made [OF this] show ?thesis by auto
  qed
  then show ?thesis
    by (simp add: uc_copyTask_def featureEnabled_def getUserWithPermissions_def ex_copy_permissions
        getDestinationCourse_def getDestinationLesson_def truthy_def getCopyName_def mapTaskCopyToDomain_def)
qed

theorem copying_needs_permission_witness:
  "copy_permitted ex_copy_env ''teacher'' (RequestTask ''task'' ex_task_request)"
  by (rule copying_needs_permission [OF ex_copy_task_changes])

theorem permitted_course_copy_completes_witness:
  "\<exists>st s'. uc_copyCourse ex_copy_env ''teacher'' ''course'' ex_copy_start = (Inr st, s')"
proof -
  from ex_copy_board_updates obtain b' where
    "updateBoard (ce_rooms ex_copy_env) (ce_now ex_copy_env) (cps_fresh ex_copy_start) ex_copy_board ''course'' ''teacher'' = Inr b'"
    by blast
  then show ?thesis
    by (intro permitted_course_copy_completes [of _ _ _ ex_teacher ex_copy_course ex_copy_board _ b' "[ex_course]"])
      (simp_all add: ex_copy_ready ex_copy_permissions(4) [unfolded checked_course], simp add: ex_copy_course_def course.defs)
qed

lemma ex_copy_course_runs:
  "\<exists>st s'. service_copyCourse ex_copy_env ''teacher'' ''course'' None ex_copy_start = (Inr st, s')"
proof -
  from ex_copy_board_updates obtain b' where b':
    "updateBoard (ce_rooms ex_copy_env) (ce_now ex_copy_env) (cps_fresh ex_copy_start) ex_copy_board ''course'' ''teacher'' = Inr b'"
    by blast
  have "coll_initialized (crs_courseGroups ex_copy_course)" by (simp add: ex_copy_course_def course.defs)
  then show ?thesis
    using b' by (intro course_copy_returns [of _ _ ex_teacher _ ex_copy_course ex_copy_board _ b' "[ex_course]"])
      (simp_all add: ex_copy_ready)
qed

theorem course_copy_is_marked_until_done_witness:
  "\<exists>c. last (cps_saved (snd (service_copyCourse ex_copy_env ''teacher'' ''course'' None ex_copy_start))) = CopyCourse c \<and>
     crs_copyingSince c = None \<and> coll_items (crs_teachers c) = [ex_teacher]"
proof -
  from ex_copy_course_runs obtain st s' where
    run: "service_copyCourse ex_copy_env ''teacher'' ''course'' None ex_copy_start = (Inr st, s')" by blast
  from course_copy_is_marked_until_done [OF run] obtain c where
    "last (cps_saved s') = CopyCourse (c\<lparr>crs_copyingSince := None\<rparr>)"
    "coll_items (crs_teachers (c\<lparr>crs_copyingSince := None\<rparr>)) = [ex_teacher]"
    by auto
  with run show ?thesis by (intro exI [of _ "c\<lparr>crs_copyingSince := None\<rparr>"]) simp
qed

theorem board_copy_hides_failures_witness:
  "\<exists>st b s'. copyBoard (ex_copy_env\<lparr>ce_task_findById := (\<lambda>_. Inl TypeError), ce_lesson_findById := (\<lambda>_. Inl TypeError)\<rparr>)
     \<lparr>bcp_originalBoard = ex_copy_board, bcp_destinationCourse = ex_course, bcp_user = ex_teacher\<rparr> ex_copy_start = (Inr st, s') \<and>
     cs_status st = CS_SUCCESS \<and> cs_elements st = Some [] \<and> cs_copyEntity st = Some (CopyBoard b) \<and> getElements b = []"
  by (rule board_copy_hides_failures) (simp_all add: ex_copy_ready)


end
