(* ===== verification/ToolRepo.thy ===== *)
theory ToolRepo
  imports ToolData FilesStorage
begin

text \<open>
  The repositories of external tools. \<^verbatim>\<open>shared/repo/base.do.repo.ts\<close> is generic: it stores domain
  objects as entities through a mapper, and every repository of domain objects extends it. A table
  is the list of its rows in the order of their ids.
\<close>

section \<open>The base repository\<close>

record ('d, 'x, 'p) base_do_repo =
  bdr_id :: "'d \<Rightarrow> EntityId option"
  bdr_entityFactory :: "date \<Rightarrow> ref \<Rightarrow> 'p \<Rightarrow> 'x timestamped_scheme"
  bdr_mapEntityToDO :: "'x timestamped_scheme \<Rightarrow> 'd"
  bdr_mapDOToEntityProperties :: "'d \<Rightarrow> 'p"

definition find_row :: "'x entity_scheme list \<Rightarrow> EntityId \<Rightarrow> 'x entity_scheme option" where
  "find_row t i = List.find (\<lambda>e. eid e = i) t"

lemma find_row_in: "find_row t i = Some e \<Longrightarrow> e \<in> set t \<and> eid e = i"
  using find_eq_Some by (force simp: find_row_def)

definition row_or_fail :: "'x entity_scheme list \<Rightarrow> EntityId \<Rightarrow> 'x entity_scheme result" where
  "row_or_fail t i = (case find_row t i of None \<Rightarrow> Inl (NotFoundException []) | Some e \<Rightarrow> Inr e)"

definition createNewEntityFromDO ::
  "('d, 'x, 'p) base_do_repo \<Rightarrow> date \<Rightarrow> ref \<Rightarrow> 'd \<Rightarrow> 'x timestamped_scheme" where
  "createNewEntityFromDO repo now r d =
     (let e = bdr_entityFactory repo now r (bdr_mapDOToEntityProperties repo d)
      in if truthy (bdr_id repo d) then e\<lparr>eid := the (bdr_id repo d)\<rparr> else e)"

text \<open>
  An update assigns the fields of the new entity to the row, except the id and the timestamps; the
  database sets the time of the update of a row it changes.
\<close>

definition assign_row :: "date \<Rightarrow> 'x timestamped_scheme \<Rightarrow> 'x timestamped_scheme \<Rightarrow> 'x timestamped_scheme" where
  "assign_row now old e =
     (let e' = e\<lparr>oid := oid old, eid := eid old, ent_createdAt := ent_createdAt old,
                 ent_updatedAt := ent_updatedAt old\<rparr>
      in if e' = old then old else e'\<lparr>ent_updatedAt := now\<rparr>)"

definition base_save ::
  "('d, 'x, 'p) base_do_repo \<Rightarrow> date \<Rightarrow> (ref \<Rightarrow> EntityId) \<Rightarrow> ref \<Rightarrow> 'x timestamped_scheme list \<Rightarrow> 'd \<Rightarrow>
   ('d \<times> 'x timestamped_scheme list) result" where
  "base_save repo now newId r t d =
     (let e = createNewEntityFromDO repo now r d
      in if \<not> truthy (bdr_id repo d)
         then let e' = e\<lparr>eid := newId r\<rparr> in Inr (bdr_mapEntityToDO repo e', t @ [e'])
         else bindR (row_or_fail t (the (bdr_id repo d))) (\<lambda>old.
           let e' = assign_row now old e
           in Inr (bdr_mapEntityToDO repo e', map (\<lambda>row. if eid row = eid old then e' else row) t)))"

definition base_findById ::
  "('d, 'x, 'p) base_do_repo \<Rightarrow> 'x timestamped_scheme list \<Rightarrow> EntityId \<Rightarrow> 'd result" where
  "base_findById repo t i = bindR (row_or_fail t i) (\<lambda>e. Inr (bdr_mapEntityToDO repo e))"

definition base_delete :: "('d, 'x, 'p) base_do_repo \<Rightarrow> 'x timestamped_scheme list \<Rightarrow> 'd list \<Rightarrow> 'x timestamped_scheme list" where
  "base_delete repo t ds =
     (let entities = map (createNewEntityFromDO repo 0 0) ds
      in filter (\<lambda>row. eid row \<notin> set (map eid entities)) t)"

definition base_deleteById :: "'x timestamped_scheme list \<Rightarrow> EntityId \<Rightarrow> 'x timestamped_scheme list" where
  "base_deleteById t i = filter (\<lambda>row. eid row \<noteq> i) t"

text \<open>
  What a repository promises: what a domain object holds for good, its \<open>content\<close>, survives being
  stored, whatever row it is stored in, and the object read has the id of its row.
\<close>

locale stores_content =
  fixes repo :: "('d, 'x, 'p) base_do_repo" and content :: "'d \<Rightarrow> 'c"
  assumes kept: "content (bdr_mapEntityToDO repo ((bdr_entityFactory repo now r
      (bdr_mapDOToEntityProperties repo d))\<lparr>oid := r', eid := i, ent_createdAt := c, ent_updatedAt := u\<rparr>)) = content d"
    and id_read: "bdr_id repo (bdr_mapEntityToDO repo e) = Some (eid e)"
begin

lemma kept_new: "content (bdr_mapEntityToDO repo ((bdr_entityFactory repo now r
    (bdr_mapDOToEntityProperties repo d))\<lparr>eid := i\<rparr>)) = content d"
proof -
  have "e\<lparr>eid := i\<rparr> = e\<lparr>oid := oid e, eid := i, ent_createdAt := ent_createdAt e, ent_updatedAt := ent_updatedAt e\<rparr>"
    for e :: "'x timestamped_scheme" by (cases e) simp
  then show ?thesis using kept by metis
qed

lemma kept_assigned:
  "content (bdr_mapEntityToDO repo (assign_row now' old (createNewEntityFromDO repo now r d))) = content d"
proof -
  let ?e = "bdr_entityFactory repo now r (bdr_mapDOToEntityProperties repo d)"
  let ?f = "\<lambda>u. ?e\<lparr>oid := oid old, eid := eid old, ent_createdAt := ent_createdAt old, ent_updatedAt := u\<rparr>"
  have "e\<lparr>eid := j, oid := a, eid := b, ent_createdAt := c, ent_updatedAt := u\<rparr> =
      e\<lparr>oid := a, eid := b, ent_createdAt := c, ent_updatedAt := u\<rparr>"
    for e :: "'x timestamped_scheme" and j a b c u by (cases e) simp
  then have "(createNewEntityFromDO repo now r d)\<lparr>oid := oid old, eid := eid old,
      ent_createdAt := ent_createdAt old, ent_updatedAt := u\<rparr> = ?f u" for u
    by (simp add: createNewEntityFromDO_def Let_def)
  moreover have "(?f u)\<lparr>ent_updatedAt := v\<rparr> = ?f v" for u v by simp
  ultimately have "assign_row now' old (createNewEntityFromDO repo now r d) = ?f (ent_updatedAt old) \<or>
      assign_row now' old (createNewEntityFromDO repo now r d) = ?f now'"
    unfolding assign_row_def Let_def by metis
  then show ?thesis using kept by metis
qed

lemma assigned_id: "eid (assign_row now' old e) = eid old"
  by (simp add: assign_row_def Let_def)

text \<open>Whatever is saved is found again under its id, with its content, and no other row is touched.\<close>

lemma saved_is_found:
  assumes saved: "base_save repo now newId r t d = Inr (d', t')" and fresh: "newId r \<notin> set (map eid t)"
  shows "\<exists>i. bdr_id repo d' = Some i \<and> (truthy (bdr_id repo d) \<longrightarrow> bdr_id repo d = Some i) \<and>
    base_findById repo t' i = Inr d' \<and> content d' = content d \<and>
    (\<forall>j. j \<noteq> i \<longrightarrow> base_findById repo t' j = base_findById repo t j) \<and>
    set (map eid t') = insert i (set (map eid t))"
proof (cases "truthy (bdr_id repo d)")
  case False
  let ?e = "(bdr_entityFactory repo now r (bdr_mapDOToEntityProperties repo d))\<lparr>eid := newId r\<rparr>"
  have ds: "d' = bdr_mapEntityToDO repo ?e" "t' = t @ [?e]"
    using saved False by (simp_all add: base_save_def createNewEntityFromDO_def Let_def)
  have f: "find_row (t @ [?e]) j = (case find_row t j of Some x \<Rightarrow> Some x | None \<Rightarrow> if j = newId r then Some ?e else None)" for j
    unfolding find_row_def by (induction t) auto
  have "find_row t (newId r) = None" using fresh by (force simp: find_row_def find_eq_None)
  with ds f False show ?thesis
    by (intro exI [of _ "newId r"])
      (auto simp: id_read kept_new base_findById_def row_or_fail_def split: option.split)
next
  case True
  then obtain i where i: "bdr_id repo d = Some i" by (auto simp: truthy_def)
  with saved True obtain old where old: "find_row t i = Some old" and
    ds: "d' = bdr_mapEntityToDO repo (assign_row now old (createNewEntityFromDO repo now r d))"
      "t' = map (\<lambda>row. if eid row = eid old then assign_row now old (createNewEntityFromDO repo now r d) else row) t"
    by (auto simp: base_save_def Let_def bindR_eq_Inr row_or_fail_def split: option.splits)
  have oi: "eid old = i" "old \<in> set t" using find_eq_Some [OF old [unfolded find_row_def]] by auto
  let ?e = "assign_row now old (createNewEntityFromDO repo now r d)"
  have f: "find_row (map (\<lambda>row. if eid row = i then ?e else row) t) j =
      (if j = i then map_option (\<lambda>_. ?e) (find_row t i) else find_row t j)" for j
    unfolding find_row_def using assigned_id [of now old "createNewEntityFromDO repo now r d"] oi(1)
    by (induction t) auto
  have "set (map eid t') = insert i (set (map eid t))"
    using ds(2) oi assigned_id [of now old "createNewEntityFromDO repo now r d"] by force
  with ds f old oi i show ?thesis
    by (intro exI [of _ i]) (simp add: id_read assigned_id kept_assigned base_findById_def row_or_fail_def)
qed

end

section \<open>The repositories of tools\<close>

definition ExternalToolRepo ::
  "(ExternalToolDO, unit ExternalTool_ext, IExternalToolProperties) base_do_repo" where
  "ExternalToolRepo =
     \<lparr>bdr_id = etd_id, bdr_entityFactory = new_ExternalTool, bdr_mapEntityToDO = tool_mapEntityToDO,
      bdr_mapDOToEntityProperties = tool_mapDOToEntityProperties\<rparr>"

definition SchoolToolRepo ::
  "(SchoolExternalToolDO, unit SchoolExternalTool_ext, ISchoolExternalToolProperties) base_do_repo" where
  "SchoolToolRepo =
     \<lparr>bdr_id = setdo_id, bdr_entityFactory = new_SchoolExternalTool,
      bdr_mapEntityToDO = schoolTool_mapEntityToDO,
      bdr_mapDOToEntityProperties = schoolTool_mapDOToEntityProperties\<rparr>"

definition CourseToolRepo ::
  "(CourseExternalToolDO, unit CourseExternalTool_ext, ICourseExternalToolProperties) base_do_repo" where
  "CourseToolRepo =
     \<lparr>bdr_id = ced_id, bdr_entityFactory = new_CourseExternalTool,
      bdr_mapEntityToDO = courseTool_mapEntityToDO,
      bdr_mapDOToEntityProperties = courseTool_mapDOToEntityProperties\<rparr>"

text \<open>
  What the tables hold of a domain object: of an OAuth2 configuration only the client id and whether
  consent is skipped, the rest belongs to the provider; absent parameters are stored as none; the name
  and the status of a tool of a school are derived.
\<close>

definition tool_content ::
  "ExternalToolDO \<Rightarrow> string \<times> string option \<times> string option \<times> AnyToolConfig \<times> CustomParameterDO list \<times> bool \<times> bool \<times> int" where
  "tool_content d = (etd_name d, etd_url d, etd_logoUrl d, mapConfigDOToEntity (etd_config d),
     nullish (etd_parameters d) [], etd_isHidden d, etd_openNewTab d, etd_version d)"

definition schoolTool_content :: "SchoolExternalToolDO \<Rightarrow> EntityId \<times> EntityId \<times> CustomParameterEntryDO list \<times> int" where
  "schoolTool_content d = (setdo_toolId d, setdo_schoolId d, setdo_parameters d, setdo_toolVersion d)"

definition courseTool_content :: "CourseExternalToolDO \<Rightarrow> EntityId \<times> EntityId \<times> CustomParameterEntryDO list \<times> int" where
  "courseTool_content d = (ced_schoolToolId d, ced_courseId d, ced_parameters d, ced_toolVersion d)"

lemma config_kept [simp]: "mapConfigDOToEntity (mapConfigToDO c) = c"
  by (cases c) simp_all

interpretation tool_repo: stores_content ExternalToolRepo tool_content
  by unfold_locales (simp_all add: ExternalToolRepo_def tool_content_def tool_mapEntityToDO_def
      tool_mapDOToEntityProperties_def new_ExternalTool_def)

interpretation school_repo: stores_content SchoolToolRepo schoolTool_content
  by unfold_locales (simp_all add: SchoolToolRepo_def schoolTool_content_def schoolTool_mapEntityToDO_def
      schoolTool_mapDOToEntityProperties_def new_SchoolExternalTool_def)

interpretation course_repo: stores_content CourseToolRepo courseTool_content
  by unfold_locales (simp_all add: CourseToolRepo_def courseTool_content_def courseTool_mapEntityToDO_def
      courseTool_mapDOToEntityProperties_def new_CourseExternalTool_def)

text \<open>
  What is stored is what is read: an external tool that is created under a fresh id, or updated,
  is found again under its id with its content; the object that the save returns is the one that is
  found, an update keeps the id, and every other tool is as before.
\<close>

theorem saved_tool_is_found:
  assumes "base_save ExternalToolRepo now newId r t d = Inr (d', t')" and "newId r \<notin> set (map eid t)"
  shows "\<exists>i. etd_id d' = Some i \<and> (truthy (etd_id d) \<longrightarrow> etd_id d = Some i) \<and>
    base_findById ExternalToolRepo t' i = Inr d' \<and> tool_content d' = tool_content d \<and>
    (\<forall>j. j \<noteq> i \<longrightarrow> base_findById ExternalToolRepo t' j = base_findById ExternalToolRepo t j)"
  using tool_repo.saved_is_found [OF assms] by (auto simp: ExternalToolRepo_def)

definition ex_lti_tool :: ExternalToolDO where
  "ex_lti_tool =
     \<lparr>etd_id = None, etd_createdAt = None, etd_updatedAt = None, etd_name = ''Quiz'', etd_url = None, etd_logoUrl = None,
      etd_config = Lti11ConfigDO \<lparr>ecd_baseUrl = ''u'', lcd_key = ''k'', lcd_secret = ''s'', lcd_resource_link_id = None,
        lcd_lti_message_type = BASIC_LTI_LAUNCH_REQUEST, lcd_privacy_permission = PRIVACY_ANONYMOUS\<rparr>,
      etd_parameters = None, etd_isHidden = False, etd_openNewTab = True, etd_version = 1\<rparr>"

theorem saved_tool_is_found_witness:
  "\<exists>d' t'. base_save ExternalToolRepo 5 (\<lambda>r. ''new'') 0 [] ex_lti_tool = Inr (d', t') \<and>
     base_findById ExternalToolRepo t' ''new'' = Inr d' \<and> tool_content d' = tool_content ex_lti_tool"
proof -
  obtain d' t' where s: "base_save ExternalToolRepo 5 (\<lambda>r. ''new'') 0 [] ex_lti_tool = Inr (d', t')"
    by (simp add: base_save_def ExternalToolRepo_def ex_lti_tool_def truthy_def Let_def)
  then have "etd_id d' = Some ''new''"
    by (auto simp: base_save_def ExternalToolRepo_def ex_lti_tool_def truthy_def Let_def tool_mapEntityToDO_def)
  with s saved_tool_is_found [OF s] show ?thesis by auto
qed

end
