(* ===== verification/ToolServices.thy ===== *)
theory ToolServices
  imports ToolRepo Authorization
begin

text \<open>
  The state of the external tools, the queries of their repositories, and the services over them
  (\<^verbatim>\<open>modules/tool/service\<close>). The state holds the three tables, the counter for new rows and the
  requests that were sent to the OAuth provider. The provider answers by what it was sent before;
  it is a parameter, as are the encryption, the regular expressions of the language and of the
  database, the users and the other repositories. Requests that the code sends in parallel are sent in their order. Names are
  unique by the checks of the services; the unique index of the database is not relied on.
\<close>

section \<open>State and parameters\<close>

record ProviderOauthClient =
  poc_client_name :: "string option"
  poc_client_id :: "string option"
  poc_client_secret :: "string option"
  poc_scope :: "string option"
  poc_token_endpoint_auth_method :: "string option"
  poc_redirect_uris :: "string list option"
  poc_frontchannel_logout_uri :: "string option"
  poc_subject_type :: "string option"

datatype provider_request = CreateClient ProviderOauthClient | UpdateClient string ProviderOauthClient

record tool_state =
  tls_tools :: "ExternalTool list"
  tls_schoolTools :: "SchoolExternalTool list"
  tls_courseTools :: "CourseExternalTool list"
  tls_fresh :: ref
  tls_sent :: "provider_request list"

type_synonym 'a tooling = "(tool_state, 'a) eff"

record tool_env =
  te_now :: date
  te_newId :: "ref \<Rightarrow> EntityId"
  te_encrypt :: "string \<Rightarrow> string"
  te_regExp :: "string \<Rightarrow> (string \<Rightarrow> bool) option"
  te_regexQuery :: "string \<Rightarrow> (string \<Rightarrow> bool) option"
  te_getClient :: "provider_request list \<Rightarrow> string \<Rightarrow> ProviderOauthClient result"
  te_refused :: "provider_request list \<Rightarrow> provider_request \<Rightarrow> exn option"
  te_auth :: auth_env
  te_getUser :: get_user
  te_findById :: find_by_id

text \<open>\<^verbatim>\<open>new RegExp(s)\<close> throws when \<open>s\<close> is no regular expression.\<close>

definition new_RegExp :: "tool_env \<Rightarrow> string \<Rightarrow> (string \<Rightarrow> bool) result" where
  "new_RegExp env s =
     (case te_regExp env s of None \<Rightarrow> Inl (PlainError ''Invalid regular expression'') | Some test \<Rightarrow> Inr test)"

definition send :: "tool_env \<Rightarrow> provider_request \<Rightarrow> unit tooling" where
  "send env r s =
     (case te_refused env (tls_sent s) r of
        Some e \<Rightarrow> (Inl e, s)
      | None \<Rightarrow> (Inr (), s\<lparr>tls_sent := tls_sent s @ [r]\<rparr>))"

definition getOAuth2Client :: "tool_env \<Rightarrow> string \<Rightarrow> ProviderOauthClient tooling" where
  "getOAuth2Client env clientId = queryE (\<lambda>s. te_getClient env (tls_sent s) clientId)"

section \<open>The repositories\<close>

definition tool_save :: "tool_env \<Rightarrow> ExternalToolDO \<Rightarrow> ExternalToolDO tooling" where
  "tool_save env d s =
     (case base_save ExternalToolRepo (te_now env) (te_newId env) (tls_fresh s) (tls_tools s) d of
        Inl e \<Rightarrow> (Inl e, s)
      | Inr (d', t) \<Rightarrow> (Inr d', s\<lparr>tls_tools := t, tls_fresh := Suc (tls_fresh s)\<rparr>))"

definition tool_findById :: "EntityId \<Rightarrow> ExternalToolDO tooling" where
  "tool_findById i = queryE (\<lambda>s. base_findById ExternalToolRepo (tls_tools s) i)"

definition tool_deleteById :: "EntityId \<Rightarrow> unit tooling" where
  "tool_deleteById i = modifyE (\<lambda>s. s\<lparr>tls_tools := base_deleteById (tls_tools s) i\<rparr>)"

definition findOne :: "('x \<Rightarrow> bool) \<Rightarrow> 'x list \<Rightarrow> 'x option" where
  "findOne = List.find"

definition findByName :: "string \<Rightarrow> ExternalToolDO option tooling" where
  "findByName name = queryE (\<lambda>s.
     Inr (map_option tool_mapEntityToDO (findOne (\<lambda>e. ext_name e = name) (tls_tools s))))"

fun has_clientId :: "string \<Rightarrow> AnyToolConfig \<Rightarrow> bool" where
  "has_clientId i (Oauth2Config c) \<longleftrightarrow> otc_clientId c = i"
| "has_clientId i _ \<longleftrightarrow> False"

definition findByOAuth2ConfigClientId :: "string \<Rightarrow> ExternalToolDO option tooling" where
  "findByOAuth2ConfigClientId clientId = queryE (\<lambda>s.
     Inr (map_option tool_mapEntityToDO (findOne (\<lambda>e. has_clientId clientId (ext_config e)) (tls_tools s))))"

text \<open>
  Searching: a query of the tools and its options. The order of the options names id or name; the id
  comes first where it is named, and last in ascending order where it is not. A limit is positive.
\<close>

datatype SortOrder = SortAsc | SortDesc

record SortOrderMap =
  som_id :: "SortOrder option"
  som_name :: "SortOrder option"

record IFindOptions =
  ifo_skip :: "nat option"
  ifo_limit :: "nat option"
  ifo_order :: "SortOrderMap option"

record tool_query =
  tq_name :: "string option"
  tq_isHidden :: "bool option"

definition tool_byName :: "tool_env \<Rightarrow> string option \<Rightarrow> ExternalTool Scope \<Rightarrow> ExternalTool Scope" where
  "tool_byName env name sc =
     (if truthy name
      then addQuery sc (\<lambda>e. case te_regexQuery env (the name) of Some test \<Rightarrow> test (ext_name e) | None \<Rightarrow> False) else sc)"

definition tool_byHidden :: "bool option \<Rightarrow> ExternalTool Scope \<Rightarrow> ExternalTool Scope" where
  "tool_byHidden isHidden sc =
     (case isHidden of None \<Rightarrow> sc | Some b \<Rightarrow> addQuery sc (\<lambda>e. ext_isHidden e = b))"

definition mapDOSortOrderToQueryOrder :: "SortOrderMap \<Rightarrow> (bool \<times> SortOrder) list" where
  "mapDOSortOrderToQueryOrder m =
     (case som_id m of None \<Rightarrow> [] | Some x \<Rightarrow> [(True, x)]) @ (case som_name m of None \<Rightarrow> [] | Some x \<Rightarrow> [(False, x)])"

text \<open>Sorting by several keys: stable, the last key first. The flag says whether the key is the id.\<close>

definition sort_rows :: "(bool \<times> SortOrder) list \<Rightarrow> ExternalTool list \<Rightarrow> ExternalTool list" where
  "sort_rows order rows =
     foldr (\<lambda>(byId, direction) rs.
       let sorted = sort_key (\<lambda>e. if byId then eid e else ext_name e)
             (case direction of SortAsc \<Rightarrow> rs | SortDesc \<Rightarrow> rev rs)
       in case direction of SortAsc \<Rightarrow> sorted | SortDesc \<Rightarrow> rev sorted) order rows"

definition tool_find :: "tool_env \<Rightarrow> tool_query \<Rightarrow> IFindOptions option \<Rightarrow> (ExternalToolDO list \<times> nat) tooling" where
  "tool_find env query options = queryE (\<lambda>s.
     if truthy (tq_name query) \<and> te_regexQuery env (the (tq_name query)) = None then Inl (External ''regex'')
     else
       let order = mapDOSortOrderToQueryOrder
             (nullish (case options of None \<Rightarrow> None | Some x \<Rightarrow> ifo_order x) \<lparr>som_id = None, som_name = None\<rparr>);
           scope = allowEmptyQuery (tool_byHidden (tq_isHidden query) (tool_byName env (tq_name query) (new_Scope AndOp))) True;
           order = (if list_ex fst order then order else order @ [(True, SortAsc)]);
           found = sort_rows order (filter (scope_query scope) (tls_tools s));
           skipped = (case options of None \<Rightarrow> found | Some x \<Rightarrow> drop (nullish (ifo_skip x) 0) found);
           entities = (case options of None \<Rightarrow> skipped
                       | Some x \<Rightarrow> (case ifo_limit x of None \<Rightarrow> skipped | Some n \<Rightarrow> take n skipped))
       in Inr (map tool_mapEntityToDO entities, length found))"

definition school_save :: "tool_env \<Rightarrow> SchoolExternalToolDO \<Rightarrow> SchoolExternalToolDO tooling" where
  "school_save env d s =
     (case base_save SchoolToolRepo (te_now env) (te_newId env) (tls_fresh s) (tls_schoolTools s) d of
        Inl e \<Rightarrow> (Inl e, s)
      | Inr (d', t) \<Rightarrow> (Inr d', s\<lparr>tls_schoolTools := t, tls_fresh := Suc (tls_fresh s)\<rparr>))"

definition school_findById :: "EntityId \<Rightarrow> SchoolExternalToolDO tooling" where
  "school_findById i = queryE (\<lambda>s. base_findById SchoolToolRepo (tls_schoolTools s) i)"

definition findByExternalToolId :: "EntityId \<Rightarrow> SchoolExternalToolDO list tooling" where
  "findByExternalToolId toolId = queryE (\<lambda>s.
     Inr (map schoolTool_mapEntityToDO (filter (\<lambda>e. set_tool e = toolId) (tls_schoolTools s))))"

definition deleteByExternalToolId :: "EntityId \<Rightarrow> unit tooling" where
  "deleteByExternalToolId toolId =
     modifyE (\<lambda>s. s\<lparr>tls_schoolTools := filter (\<lambda>e. set_tool e \<noteq> toolId) (tls_schoolTools s)\<rparr>)"

definition school_bySchoolId :: "EntityId option \<Rightarrow> SchoolExternalTool Scope \<Rightarrow> SchoolExternalTool Scope" where
  "school_bySchoolId schoolId sc =
     (case schoolId of None \<Rightarrow> sc | Some i \<Rightarrow> addQuery sc (\<lambda>e. set_school e = i))"

definition school_buildScope :: "EntityId option \<Rightarrow> SchoolExternalTool Scope" where
  "school_buildScope schoolId =
     allowEmptyQuery (if truthy schoolId then school_bySchoolId schoolId (new_Scope AndOp) else new_Scope AndOp) True"

definition school_find :: "EntityId option \<Rightarrow> SchoolExternalToolDO list tooling" where
  "school_find schoolId = queryE (\<lambda>s.
     Inr (map schoolTool_mapEntityToDO (filter (scope_query (school_buildScope schoolId)) (tls_schoolTools s))))"

definition school_deleteById :: "EntityId \<Rightarrow> unit tooling" where
  "school_deleteById i = modifyE (\<lambda>s. s\<lparr>tls_schoolTools := base_deleteById (tls_schoolTools s) i\<rparr>)"

definition deleteBySchoolExternalToolIds :: "EntityId list \<Rightarrow> unit tooling" where
  "deleteBySchoolExternalToolIds schoolExternalToolIds =
     modifyE (\<lambda>s. s\<lparr>tls_courseTools :=
       filter (\<lambda>e. cet_schoolTool e \<notin> set schoolExternalToolIds) (tls_courseTools s)\<rparr>)"

definition course_bySchoolToolId :: "EntityId option \<Rightarrow> CourseExternalTool Scope \<Rightarrow> CourseExternalTool Scope" where
  "course_bySchoolToolId schoolToolId sc =
     (case schoolToolId of None \<Rightarrow> sc | Some i \<Rightarrow> addQuery sc (\<lambda>e. cet_schoolTool e = i))"

definition course_buildScope :: "EntityId option \<Rightarrow> CourseExternalTool Scope" where
  "course_buildScope schoolToolId =
     allowEmptyQuery (if truthy schoolToolId then course_bySchoolToolId schoolToolId (new_Scope AndOp) else new_Scope AndOp) True"

definition course_find :: "EntityId option \<Rightarrow> CourseExternalToolDO list tooling" where
  "course_find schoolToolId = queryE (\<lambda>s.
     Inr (map courseTool_mapEntityToDO (filter (scope_query (course_buildScope schoolToolId)) (tls_courseTools s))))"

definition course_delete :: "CourseExternalToolDO list \<Rightarrow> unit tooling" where
  "course_delete ds = modifyE (\<lambda>s. s\<lparr>tls_courseTools := base_delete CourseToolRepo (tls_courseTools s) ds\<rparr>)"

section \<open>Versions\<close>

definition matching_param :: "CustomParameterDO list \<Rightarrow> CustomParameterDO \<Rightarrow> CustomParameterDO option" where
  "matching_param params param = List.find (\<lambda>p. cpd_name p = cpd_name param) params"

definition hasNewRequiredParameter :: "CustomParameterDO list \<Rightarrow> CustomParameterDO list \<Rightarrow> bool" where
  "hasNewRequiredParameter oldParams newParams \<longleftrightarrow>
     list_ex (\<lambda>newParam. \<not> cpd_isOptional newParam \<and>
       list_all (\<lambda>oldParam. cpd_name oldParam \<noteq> cpd_name newParam) oldParams) newParams"

definition hasChangedParameterNames :: "CustomParameterDO list \<Rightarrow> CustomParameterDO list \<Rightarrow> bool" where
  "hasChangedParameterNames oldParams newParams \<longleftrightarrow>
     (let nonOptionalParamNames = map cpd_name (filter (\<lambda>p. \<not> cpd_isOptional p) oldParams);
          newNonOptionalParamNames = map cpd_name (filter (\<lambda>p. \<not> cpd_isOptional p) newParams)
      in list_ex (\<lambda>name. name \<notin> set newNonOptionalParamNames) nonOptionalParamNames \<or>
         list_ex (\<lambda>name. name \<notin> set nonOptionalParamNames) newNonOptionalParamNames)"

definition hasChanged ::
  "(CustomParameterDO \<Rightarrow> 'a) \<Rightarrow> CustomParameterDO list \<Rightarrow> CustomParameterDO list \<Rightarrow> bool" where
  "hasChanged field newParams matchingParams \<longleftrightarrow>
     list_ex (\<lambda>param. case matching_param newParams param of
         None \<Rightarrow> False | Some newParam \<Rightarrow> field param \<noteq> field newParam) matchingParams"

definition hasChangedRequiredParameters :: "CustomParameterDO list \<Rightarrow> CustomParameterDO list \<Rightarrow> bool" where
  "hasChangedRequiredParameters = hasChanged cpd_isOptional"

definition hasChangedParameterRegex :: "CustomParameterDO list \<Rightarrow> CustomParameterDO list \<Rightarrow> bool" where
  "hasChangedParameterRegex = hasChanged cpd_regex"

definition hasChangedParameterTypes :: "CustomParameterDO list \<Rightarrow> CustomParameterDO list \<Rightarrow> bool" where
  "hasChangedParameterTypes = hasChanged cpd_type"

definition hasChangedParameterScope :: "CustomParameterDO list \<Rightarrow> CustomParameterDO list \<Rightarrow> bool" where
  "hasChangedParameterScope = hasChanged cpd_scope"

definition compareParameters :: "CustomParameterDO list \<Rightarrow> CustomParameterDO list \<Rightarrow> bool" where
  "compareParameters oldParams newParams \<longleftrightarrow>
     (let matchingParams = filter (\<lambda>oldParam.
            list_ex (\<lambda>newParam. cpd_name oldParam = cpd_name newParam) newParams) oldParams
      in hasNewRequiredParameter oldParams newParams \<or>
         hasChangedRequiredParameters oldParams newParams \<or>
         hasChangedParameterNames oldParams newParams \<or>
         hasChangedParameterRegex newParams matchingParams \<or>
         hasChangedParameterTypes newParams matchingParams \<or>
         hasChangedParameterScope newParams matchingParams)"

definition increaseVersionOfNewToolIfNecessary :: "ExternalToolDO \<Rightarrow> ExternalToolDO \<Rightarrow> ExternalToolDO" where
  "increaseVersionOfNewToolIfNecessary oldTool newTool =
     (case (etd_parameters oldTool, etd_parameters newTool) of
        (Some oldParams, Some newParams) \<Rightarrow>
          if compareParameters oldParams newParams then newTool\<lparr>etd_version := etd_version newTool + 1\<rparr> else newTool
      | _ \<Rightarrow> newTool)"

section \<open>External tools\<close>

definition mapDoToProviderOauthClient :: "string \<Rightarrow> Oauth2ToolConfigDO \<Rightarrow> ProviderOauthClient" where
  "mapDoToProviderOauthClient name oauth2Config =
     \<lparr>poc_client_name = Some name, poc_client_id = Some (ocd_clientId oauth2Config),
      poc_client_secret = ocd_clientSecret oauth2Config, poc_scope = ocd_scope oauth2Config,
      poc_token_endpoint_auth_method = ocd_tokenEndpointAuthMethod oauth2Config,
      poc_redirect_uris = ocd_redirectUris oauth2Config,
      poc_frontchannel_logout_uri = ocd_frontchannelLogoutUri oauth2Config,
      poc_subject_type = Some ''pairwise''\<rparr>"

definition createExternalTool :: "tool_env \<Rightarrow> ExternalToolDO \<Rightarrow> ExternalToolDO tooling" where
  "createExternalTool env d =
     (case etd_config d of
        Lti11ConfigDO c \<Rightarrow>
          tool_save env (d\<lparr>etd_config := Lti11ConfigDO (c\<lparr>lcd_secret := te_encrypt env (lcd_secret c)\<rparr>)\<rparr>)
      | Oauth2ConfigDO c \<Rightarrow>
          bindE (send env (CreateClient (mapDoToProviderOauthClient (etd_name d) c))) (\<lambda>_. tool_save env d)
      | BasicConfigDO c \<Rightarrow> tool_save env d)"

definition updateOauthClientOrThrow ::
  "tool_env \<Rightarrow> ProviderOauthClient \<Rightarrow> ProviderOauthClient \<Rightarrow> ExternalToolDO \<Rightarrow> unit tooling" where
  "updateOauthClientOrThrow env loadedOauthClient toUpdateOauthClient toUpdate =
     (if truthy (poc_client_id loadedOauthClient)
      then send env (UpdateClient (the (poc_client_id loadedOauthClient)) toUpdateOauthClient)
      else throwE (UnprocessableEntityException
             (''The oAuthConfigs clientId of tool '' @ etd_name toUpdate @ [CHR 0x22] @ '' does not exist'')))"

definition updateOauth2ToolConfig :: "tool_env \<Rightarrow> ExternalToolDO \<Rightarrow> unit tooling" where
  "updateOauth2ToolConfig env toUpdate =
     (case etd_config toUpdate of
        Oauth2ConfigDO c \<Rightarrow>
          bindE (getOAuth2Client env (ocd_clientId c)) (\<lambda>loadedOauthClient.
            updateOauthClientOrThrow env loadedOauthClient (mapDoToProviderOauthClient (etd_name toUpdate) c) toUpdate)
      | _ \<Rightarrow> retE ())"

definition updateExternalTool :: "tool_env \<Rightarrow> ExternalToolDO \<Rightarrow> ExternalToolDO \<Rightarrow> ExternalToolDO tooling" where
  "updateExternalTool env toUpdate loadedTool =
     bindE (updateOauth2ToolConfig env toUpdate) (\<lambda>_.
       tool_save env (increaseVersionOfNewToolIfNecessary loadedTool toUpdate))"

definition addExternalOauth2DataToConfig :: "tool_env \<Rightarrow> Oauth2ToolConfigDO \<Rightarrow> Oauth2ToolConfigDO tooling" where
  "addExternalOauth2DataToConfig env config =
     bindE (getOAuth2Client env (ocd_clientId config)) (\<lambda>oauthClient.
       retE (config\<lparr>ocd_scope := poc_scope oauthClient,
         ocd_tokenEndpointAuthMethod := poc_token_endpoint_auth_method oauthClient,
         ocd_redirectUris := poc_redirect_uris oauthClient,
         ocd_frontchannelLogoutUri := poc_frontchannel_logout_uri oauthClient\<rparr>))"

definition resolve_tool :: "tool_env \<Rightarrow> ExternalToolDO \<Rightarrow> ExternalToolDO tooling" where
  "resolve_tool env tool =
     (case etd_config tool of
        Oauth2ConfigDO c \<Rightarrow>
          bindE (addExternalOauth2DataToConfig env c) (\<lambda>c'. retE (tool\<lparr>etd_config := Oauth2ConfigDO c'\<rparr>))
      | _ \<Rightarrow> retE tool)"

definition findExternalTools ::
  "tool_env \<Rightarrow> tool_query \<Rightarrow> IFindOptions option \<Rightarrow> (ExternalToolDO list \<times> nat) tooling" where
  "findExternalTools env query options =
     bindE (tool_find env query options) (\<lambda>(tools, total).
     bindE (mapME (\<lambda>tool. catchE (bindE (resolve_tool env tool) (\<lambda>t. retE (Some t))) (\<lambda>_. retE None)) tools)
       (\<lambda>resolvedTools. retE (List.map_filter id resolvedTools, total)))"

definition findExternalToolById :: "tool_env \<Rightarrow> EntityId \<Rightarrow> ExternalToolDO tooling" where
  "findExternalToolById env i =
     bindE (tool_findById i) (\<lambda>tool.
       catchE (resolve_tool env tool)
         (\<lambda>_. throwE (UnprocessableEntityException
            (''Could not resolve oauth2Config of tool '' @ etd_name tool @ ''.''))))"

definition deleteExternalTool :: "EntityId \<Rightarrow> unit tooling" where
  "deleteExternalTool toolId =
     bindE (findByExternalToolId toolId) (\<lambda>schoolExternalTools.
     let schoolExternalToolIds = map (\<lambda>t. the (setdo_id t)) schoolExternalTools in
     bindE (deleteBySchoolExternalToolIds schoolExternalToolIds) (\<lambda>_.
     bindE (deleteByExternalToolId toolId) (\<lambda>_.
       tool_deleteById toolId)))"

definition getExternalToolForScope :: "EntityId \<Rightarrow> CustomParameterScope \<Rightarrow> ExternalToolDO tooling" where
  "getExternalToolForScope externalToolId scope =
     bindE (tool_findById externalToolId) (\<lambda>externalTool.
       retE (case etd_parameters externalTool of
               None \<Rightarrow> externalTool
             | Some ps \<Rightarrow> externalTool\<lparr>etd_parameters := Some (filter (\<lambda>p. cpd_scope p = scope) ps)\<rparr>))"

section \<open>Tools of schools and of courses\<close>

definition determineStatus :: "SchoolExternalToolDO \<Rightarrow> ExternalToolDO \<Rightarrow> SchoolExternalToolStatus" where
  "determineStatus tool externalTool =
     (if etd_version externalTool \<le> setdo_toolVersion tool then STATUS_LATEST else STATUS_OUTDATED)"

definition enrichDataFromExternalTool :: "tool_env \<Rightarrow> SchoolExternalToolDO \<Rightarrow> SchoolExternalToolDO tooling" where
  "enrichDataFromExternalTool env tool =
     bindE (findExternalToolById env (setdo_toolId tool)) (\<lambda>externalTool.
       retE (tool\<lparr>setdo_status := Some (determineStatus tool externalTool), setdo_name := Some (etd_name externalTool)\<rparr>))"

definition findSchoolExternalTools :: "tool_env \<Rightarrow> EntityId option \<Rightarrow> SchoolExternalToolDO list tooling" where
  "findSchoolExternalTools env schoolId =
     bindE (school_find schoolId) (\<lambda>schoolExternalToolDOs.
       mapME (enrichDataFromExternalTool env) schoolExternalToolDOs)"

definition saveSchoolExternalTool :: "tool_env \<Rightarrow> SchoolExternalToolDO \<Rightarrow> SchoolExternalToolDO tooling" where
  "saveSchoolExternalTool env schoolExternalTool =
     bindE (school_save env schoolExternalTool) (\<lambda>createdSchoolExternalTool.
       enrichDataFromExternalTool env createdSchoolExternalTool)"

definition deleteBySchoolExternalToolId :: "EntityId \<Rightarrow> unit tooling" where
  "deleteBySchoolExternalToolId schoolExternalToolId =
     bindE (course_find (Some schoolExternalToolId)) (\<lambda>courseExternalTools. course_delete courseExternalTools)"

end
