(* ===== verification/JsStrings.thy ===== *)
theory JsStrings
  imports Effects
begin

text \<open>
  Strings of JavaScript as far as the code works on their characters, which are those of Latin-1:
  lower case, white space, the numerals of \<^verbatim>\<open>Number\<close>, and the regular expressions that the code
  contains, each written as the test or the replacement that it stands for.
\<close>

section \<open>Case, space and numerals\<close>

definition lower_char :: "char \<Rightarrow> char" where
  "lower_char c =
     (let n = (of_char c :: nat)
      in if (65 \<le> n \<and> n \<le> 90) \<or> (192 \<le> n \<and> n \<le> 222 \<and> n \<noteq> 215) then char_of (n + 32) else c)"

definition toLowerCase :: "string \<Rightarrow> string" where
  "toLowerCase s = map lower_char s"

definition white_space :: "char \<Rightarrow> bool" where
  "white_space c \<longleftrightarrow> (of_char c :: nat) \<in> {9, 10, 11, 12, 13, 32, 160}"

definition trim :: "string \<Rightarrow> string" where
  "trim s = rev (dropWhile white_space (rev (dropWhile white_space s)))"

definition decimal_digit :: "char \<Rightarrow> bool" where
  "decimal_digit c \<longleftrightarrow> 48 \<le> (of_char c :: nat) \<and> (of_char c :: nat) \<le> 57"

definition hex_digit :: "char \<Rightarrow> bool" where
  "hex_digit c \<longleftrightarrow> decimal_digit c \<or> (97 \<le> (of_char (lower_char c) :: nat) \<and> (of_char (lower_char c) :: nat) \<le> 102)"

definition digits :: "(char \<Rightarrow> bool) \<Rightarrow> string \<Rightarrow> bool" where
  "digits d s \<longleftrightarrow> s \<noteq> [] \<and> list_all d s"

definition unsigned :: "string \<Rightarrow> string" where
  "unsigned s = (case s of c # cs \<Rightarrow> if c = CHR ''+'' \<or> c = CHR ''-'' then cs else s | [] \<Rightarrow> s)"

text \<open>A decimal literal: digits with at most one point, at least one digit, and an exponent.\<close>

definition exponent_part :: "string \<Rightarrow> bool" where
  "exponent_part s \<longleftrightarrow>
     (case s of [] \<Rightarrow> True
      | e # r \<Rightarrow> lower_char e = CHR ''e'' \<and> digits decimal_digit (unsigned r))"

definition decimal_literal :: "string \<Rightarrow> bool" where
  "decimal_literal s \<longleftrightarrow>
     (let whole = takeWhile decimal_digit s; rest = dropWhile decimal_digit s
      in case rest of
           [] \<Rightarrow> whole \<noteq> []
         | c # cs \<Rightarrow>
             if c = CHR ''.''
             then (whole \<noteq> [] \<or> takeWhile decimal_digit cs \<noteq> []) \<and> exponent_part (dropWhile decimal_digit cs)
             else whole \<noteq> [] \<and> exponent_part rest)"

text \<open>\<^verbatim>\<open>!isNaN(Number(s))\<close>.\<close>

definition is_numeric :: "string \<Rightarrow> bool" where
  "is_numeric s \<longleftrightarrow>
     (let t = trim s
      in t = [] \<or> unsigned t = ''Infinity'' \<or> decimal_literal (unsigned t) \<or>
         (case t of
            z # b # ds \<Rightarrow> z = CHR ''0'' \<and>
              (lower_char b = CHR ''x'' \<and> digits hex_digit ds \<or>
               lower_char b = CHR ''o'' \<and> digits (\<lambda>c. decimal_digit c \<and> (of_char c :: nat) < 56) ds \<or>
               lower_char b = CHR ''b'' \<and> digits (\<lambda>c. c = CHR ''0'' \<or> c = CHR ''1'') ds)
          | _ \<Rightarrow> False))"

lemma is_numeric_examples:
  "is_numeric '' -1.5e+3 ''" "is_numeric ''.5''" "is_numeric ''0xFf''" "is_numeric []" "is_numeric ''-Infinity''"
  "\<not> is_numeric ''.''" "\<not> is_numeric ''1e''" "\<not> is_numeric ''-0x1''" "\<not> is_numeric ''1 2''" "\<not> is_numeric ''0o8''"
  by code_simp+

section \<open>Regular expressions\<close>

definition capital :: "char \<Rightarrow> bool" where
  "capital c \<longleftrightarrow> 65 \<le> (of_char c :: nat) \<and> (of_char c :: nat) \<le> 90"

definition small :: "char \<Rightarrow> bool" where
  "small c \<longleftrightarrow> 97 \<le> (of_char c :: nat) \<and> (of_char c :: nat) \<le> 122"

text \<open>\<^verbatim>\<open>\w\<close>, and the letters and numbers of Unicode, \<^verbatim>\<open>\p{L}\<close> and \<^verbatim>\<open>\p{N}\<close>.\<close>

definition word_char :: "char \<Rightarrow> bool" where
  "word_char c \<longleftrightarrow> capital c \<or> small c \<or> decimal_digit c \<or> c = CHR ''_''"

definition letter :: "char \<Rightarrow> bool" where
  "letter c \<longleftrightarrow> capital c \<or> small c \<or>
     (let n = (of_char c :: nat) in n \<in> {170, 181, 186} \<or> (192 \<le> n \<and> n \<noteq> 215 \<and> n \<noteq> 247))"

definition number_char :: "char \<Rightarrow> bool" where
  "number_char c \<longleftrightarrow> decimal_digit c \<or> (of_char c :: nat) \<in> {178, 179, 185, 188, 189, 190}"

text \<open>\<^verbatim>\<open>s.replace(/.../g, '\\$&')\<close>: a backslash before every character that is not kept.\<close>

definition escape_unless :: "(char \<Rightarrow> bool) \<Rightarrow> string \<Rightarrow> string" where
  "escape_unless keep s = concat (map (\<lambda>c. if keep c then [c] else [CHR 0x5C, c]) s)"

text \<open>\<^verbatim>\<open>.\<close> matches every character but the line terminators.\<close>

definition line_end :: "char \<Rightarrow> bool" where
  "line_end c \<longleftrightarrow> (of_char c :: nat) \<in> {10, 13}"

text \<open>A look-ahead \<^verbatim>\<open>(?=.*[...])\<close> at the start of a string.\<close>

definition ahead :: "(char \<Rightarrow> bool) \<Rightarrow> string \<Rightarrow> bool" where
  "ahead P s \<longleftrightarrow> list_ex P (takeWhile (\<lambda>c. \<not> line_end c) s) \<or>
     (case dropWhile (\<lambda>c. \<not> line_end c) s of [] \<Rightarrow> False | c # _ \<Rightarrow> P c)"

definition password_special :: "char \<Rightarrow> bool" where
  "password_special c \<longleftrightarrow> c \<in> set ''-_!<>$%&/()=?;:,.#+*~'' \<or> (of_char c :: nat) \<in> {39, 92, 167}"

text \<open>
  \<^verbatim>\<open>passwordPattern\<close>: four look-aheads, then a visible character, between 6 and 253 characters, and a
  visible character at the end.
\<close>

definition passwordPattern :: "string \<Rightarrow> bool" where
  "passwordPattern s \<longleftrightarrow>
     ahead capital s \<and> ahead decimal_digit s \<and> ahead small s \<and> ahead password_special s \<and>
     (let n = length s
      in 8 \<le> n \<and> n \<le> 255 \<and> \<not> white_space (hd s) \<and>
         list_all (\<lambda>c. \<not> line_end c) (butlast (tl s)) \<and> \<not> white_space (last s))"

lemma trim_visible:
  assumes "s \<noteq> []" and "\<not> white_space (hd s)" and "\<not> white_space (last s)"
  shows "trim s = s"
proof -
  have keep: "dropWhile white_space t = t" if "t \<noteq> []" "\<not> white_space (hd t)" for t
    using that by (cases t) simp_all
  show ?thesis using assms by (simp add: trim_def keep hd_rev)
qed

text \<open>A password that fits the pattern is not changed by the trimming of the login.\<close>

lemma trim_password: "passwordPattern s \<Longrightarrow> trim s = s"
  by (intro trim_visible) (auto simp: passwordPattern_def Let_def)

lemma password_examples:
  "passwordPattern ''Asdf 1ds df!''" "passwordPattern ''Asdf 1ds /df''"
  "\<not> passwordPattern ''A1!asdf''" "\<not> passwordPattern ''Asdfqwer!''" "\<not> passwordPattern ''Asdfqwer1''"
  "\<not> passwordPattern ''asdfqwer1''" "\<not> passwordPattern ''ASDFQWER''" "\<not> passwordPattern '' Schulcloud1!''"
  "\<not> passwordPattern ''Schulcloud1! ''"
  by code_simp+

end
