(* ===== verification/ToolValidation.thy ===== *)
theory ToolValidation
  imports ToolServices JsStrings
begin

text \<open>
  The checks of external tools and of their configurations for schools
  (\<^verbatim>\<open>modules/tool/service/validation\<close>).
\<close>

section \<open>Tools\<close>

definition isCustomParameterNameEmpty :: "CustomParameterDO list \<Rightarrow> bool" where
  "isCustomParameterNameEmpty customParameters \<longleftrightarrow> list_ex (\<lambda>param. cpd_name param = []) customParameters"

definition isNameUnique :: "ExternalToolDO \<Rightarrow> bool tooling" where
  "isNameUnique d =
     (if etd_name d = [] then retE True
      else bindE (findByName (etd_name d)) (\<lambda>duplicate.
             retE (case duplicate of None \<Rightarrow> True | Some t \<Rightarrow> etd_id t = etd_id d)))"

definition hasDuplicateAttributes :: "CustomParameterDO list \<Rightarrow> bool" where
  "hasDuplicateAttributes customParameter \<longleftrightarrow>
     list_ex (\<lambda>i. list_ex (\<lambda>j. i \<noteq> j \<and>
         toLowerCase (cpd_name (customParameter ! i)) = toLowerCase (cpd_name (customParameter ! j)))
       [0..<length customParameter]) [0..<length customParameter]"

definition validateByRegex :: "tool_env \<Rightarrow> CustomParameterDO list \<Rightarrow> bool" where
  "validateByRegex env customParameter \<longleftrightarrow>
     list_all (\<lambda>param. if truthy (cpd_regex param)
       then (case new_RegExp env (the (cpd_regex param)) of Inl _ \<Rightarrow> False | Inr _ \<Rightarrow> True) else True) customParameter"

definition validateDefaultValue :: "tool_env \<Rightarrow> CustomParameterDO list \<Rightarrow> bool result" where
  "validateDefaultValue env customParameter =
     everyR (\<lambda>param. if truthy (cpd_regex param) \<and> truthy (cpd_default param)
       then mapR (\<lambda>test. test (the (cpd_default param))) (new_RegExp env (the (cpd_regex param)))
       else Inr True) customParameter"

definition isRegexCommentMandatoryAndFilled :: "CustomParameterDO \<Rightarrow> bool" where
  "isRegexCommentMandatoryAndFilled p \<longleftrightarrow> \<not> (truthy (cpd_regex p) \<and> \<not> truthy (cpd_regexComment p))"

definition isGlobalParameterValid :: "CustomParameterDO \<Rightarrow> bool" where
  "isGlobalParameterValid p \<longleftrightarrow> \<not> (cpd_scope p = SCOPE_GLOBAL \<and> \<not> truthy (cpd_default p))"

abbreviation quoted :: "string \<Rightarrow> string" where
  "quoted s \<equiv> CHR 0x22 # s @ [CHR 0x22]"

definition validateParam :: "CustomParameterDO \<Rightarrow> unit result" where
  "validateParam param =
     bindR (guardR (isGlobalParameterValid param) (ValidationError
       (''tool_param_default_required: The '' @ quoted (cpd_name param) @
        '' is a global parameter and requires a default value.''))) (\<lambda>_.
     guardR (isRegexCommentMandatoryAndFilled param) (ValidationError
       (''tool_param_regexComment: The '' @ quoted (cpd_name param) @ '' parameter is missing a regex comment.'')))"

definition validateParameters :: "tool_env \<Rightarrow> ExternalToolDO \<Rightarrow> CustomParameterDO list \<Rightarrow> unit result" where
  "validateParameters env d ps =
     bindR (guardR (\<not> isCustomParameterNameEmpty ps) (ValidationError
       (''tool_param_name: The tool '' @ etd_name d @ '' is missing at least one custom parameter name.''))) (\<lambda>_.
     bindR (guardR (\<not> hasDuplicateAttributes ps) (ValidationError
       (''tool_param_duplicate: The tool '' @ etd_name d @ '' contains multiple of the same custom parameters.''))) (\<lambda>_.
     bindR (guardR (validateByRegex env ps) (ValidationError
       (''tool_param_regex_invalid: A custom Parameter of the tool '' @ etd_name d @ '' has wrong regex attribute.''))) (\<lambda>_.
     bindR (validateDefaultValue env ps) (\<lambda>valid.
     bindR (guardR valid (ValidationError
       (''tool_param_default_regex: The default value of a custom parameter of the tool: '' @ etd_name d @
        '' does not match its regex''))) (\<lambda>_.
       mapR (\<lambda>_. ()) (mapMR validateParam ps))))))"

definition validateCommon :: "tool_env \<Rightarrow> ExternalToolDO \<Rightarrow> unit tooling" where
  "validateCommon env d =
     bindE (isNameUnique d) (\<lambda>unique.
     bindE (liftE (guardR unique (ValidationError
       (''tool_name_duplicate: The tool name '' @ quoted (etd_name d) @ '' is already used.'')))) (\<lambda>_.
       liftE (case etd_parameters d of None \<Rightarrow> Inr () | Some ps \<Rightarrow> validateParameters env d ps)))"

definition isClientIdUnique :: "ExternalToolDO \<Rightarrow> bool tooling" where
  "isClientIdUnique d =
     bindE (case etd_config d of
              Oauth2ConfigDO c \<Rightarrow> findByOAuth2ConfigClientId (ocd_clientId c) | _ \<Rightarrow> retE None) (\<lambda>duplicate.
       retE (case duplicate of None \<Rightarrow> True | Some t \<Rightarrow> etd_id t = etd_id d))"

definition validateOauth2Config :: "ExternalToolDO \<Rightarrow> unit tooling" where
  "validateOauth2Config d =
     (case etd_config d of
        Oauth2ConfigDO c \<Rightarrow>
          bindE (liftE (guardR (truthy (ocd_clientSecret c)) (ValidationError
            (''tool_clientSecret_missing: The Client Secret of the tool '' @ etd_name d @ '' is missing.'')))) (\<lambda>_.
          bindE (isClientIdUnique d) (\<lambda>unique.
            liftE (guardR unique (ValidationError
              (''tool_clientId_duplicate: The Client Id of the tool '' @ etd_name d @ '' is already used.'')))))
      | _ \<Rightarrow> retE ())"

definition validateCreate :: "tool_env \<Rightarrow> ExternalToolDO \<Rightarrow> unit tooling" where
  "validateCreate env d = bindE (validateCommon env d) (\<lambda>_. validateOauth2Config d)"

definition validateUpdate :: "tool_env \<Rightarrow> EntityId \<Rightarrow> ExternalToolDO \<Rightarrow> unit tooling" where
  "validateUpdate env toolId d =
     bindE (liftE (guardR (etd_id d = Some toolId) (ValidationError
       ''tool_id_mismatch: The tool has no id or it does not match the path parameter.''))) (\<lambda>_.
     bindE (validateCommon env d) (\<lambda>_.
     bindE (findExternalToolById env toolId) (\<lambda>loadedTool.
       liftE (case (etd_config loadedTool, etd_config d) of
           (Oauth2ConfigDO loaded, Oauth2ConfigDO c) \<Rightarrow>
             guardR (ocd_clientId c = ocd_clientId loaded) (ValidationError
               (''tool_clientId_immutable: The Client Id of the tool '' @ etd_name d @ '' is immutable.''))
         | (Oauth2ConfigDO loaded, _) \<Rightarrow>
             Inl (ValidationError
               (''tool_type_immutable: The Config Type of the tool '' @ etd_name d @ '' is immutable.''))
         | _ \<Rightarrow> Inr ()))))"

section \<open>Configurations for schools\<close>

fun param_type_string :: "CustomParameterType \<Rightarrow> string" where
  "param_type_string PT_STRING = ''string''"
| "param_type_string PT_NUMBER = ''number''"
| "param_type_string PT_BOOLEAN = ''boolean''"
| "param_type_string PT_AUTO_COURSEID = ''auto_courseid''"
| "param_type_string PT_AUTO_COURSENAME = ''auto_coursename''"
| "param_type_string PT_AUTO_SCHOOLID = ''auto_schoolid''"

fun typeCheckers :: "CustomParameterType \<Rightarrow> string \<Rightarrow> bool" where
  "typeCheckers PT_STRING val \<longleftrightarrow> True"
| "typeCheckers PT_NUMBER val \<longleftrightarrow> is_numeric val"
| "typeCheckers PT_BOOLEAN val \<longleftrightarrow> val = ''true'' \<or> val = ''false''"
| "typeCheckers PT_AUTO_COURSEID val \<longleftrightarrow> True"
| "typeCheckers PT_AUTO_COURSENAME val \<longleftrightarrow> True"
| "typeCheckers PT_AUTO_SCHOOLID val \<longleftrightarrow> True"

definition checkForDuplicateParameters :: "SchoolExternalToolDO \<Rightarrow> unit result" where
  "checkForDuplicateParameters d =
     (let caseInsensitiveNames = map (\<lambda>e. toLowerCase (ped_name e)) (setdo_parameters d);
          uniqueNames = set caseInsensitiveNames
      in guardR (card uniqueNames = length (setdo_parameters d)) (ValidationError
           (''tool_param_duplicate: The tool '' @ or_default (setdo_name d) [] @
            '' contains multiple of the same custom parameters.'')))"

definition checkVersionMatch :: "int \<Rightarrow> int \<Rightarrow> unit result" where
  "checkVersionMatch schoolExternalToolVersion externalToolVersion =
     guardR (schoolExternalToolVersion = externalToolVersion) (ValidationError
       (''tool_version_mismatch: The version '' @ int_string schoolExternalToolVersion @
        '' of given schoolExternalTool does not match the externalTool version '' @
        int_string externalToolVersion @ ''.''))"

definition checkOptionalParameter :: "CustomParameterDO \<Rightarrow> CustomParameterEntryDO option \<Rightarrow> unit result" where
  "checkOptionalParameter param foundEntry =
     guardR (\<not> (\<not> truthy (Option.bind foundEntry ped_value) \<and> \<not> cpd_isOptional param)) (ValidationError
       (''tool_param_required: The parameter with name '' @ cpd_name param @
        '' is required but not found in the schoolExternalTool.''))"

definition checkParameterType :: "CustomParameterEntryDO \<Rightarrow> CustomParameterDO \<Rightarrow> unit result" where
  "checkParameterType foundEntry param =
     guardR (\<not> (ped_value foundEntry \<noteq> None \<and> \<not> typeCheckers (cpd_type param) (the (ped_value foundEntry))))
       (ValidationError
         (''tool_param_type_mismatch: The value of parameter with name '' @ ped_name foundEntry @
          '' should be of type '' @ param_type_string (cpd_type param) @ ''.''))"

definition checkParameterRegex :: "tool_env \<Rightarrow> CustomParameterEntryDO \<Rightarrow> CustomParameterDO \<Rightarrow> unit result" where
  "checkParameterRegex env foundEntry param =
     (if truthy (cpd_regex param)
      then bindR (new_RegExp env (the (cpd_regex param))) (\<lambda>test.
             guardR (test (nullish (ped_value foundEntry) [])) (ValidationError
               (''tool_param_value_regex: The given entry for the parameter with name '' @ ped_name foundEntry @
                '' does not fit the regex.'')))
      else Inr ())"

definition checkEntry :: "tool_env \<Rightarrow> CustomParameterEntryDO list \<Rightarrow> CustomParameterDO \<Rightarrow> unit result" where
  "checkEntry env entries param =
     (let foundEntry = List.find (\<lambda>e. toLowerCase (ped_name e) = toLowerCase (cpd_name param)) entries
      in if cpd_scope param = SCOPE_SCHOOL
         then bindR (checkOptionalParameter param foundEntry) (\<lambda>_.
                case foundEntry of
                  None \<Rightarrow> Inr ()
                | Some e \<Rightarrow> bindR (checkParameterType e param) (\<lambda>_. checkParameterRegex env e param))
         else Inr ())"

definition checkCustomParameterEntries ::
  "tool_env \<Rightarrow> ExternalToolDO \<Rightarrow> SchoolExternalToolDO \<Rightarrow> unit result" where
  "checkCustomParameterEntries env loadedExternalTool d =
     (case etd_parameters loadedExternalTool of
        None \<Rightarrow> Inr ()
      | Some ps \<Rightarrow> mapR (\<lambda>_. ()) (mapMR (checkEntry env (setdo_parameters d)) ps))"

definition validate :: "tool_env \<Rightarrow> SchoolExternalToolDO \<Rightarrow> unit tooling" where
  "validate env d =
     bindE (liftE (checkForDuplicateParameters d)) (\<lambda>_.
     bindE (findExternalToolById env (setdo_toolId d)) (\<lambda>loadedExternalTool.
     bindE (liftE (checkVersionMatch (setdo_toolVersion d) (etd_version loadedExternalTool))) (\<lambda>_.
       liftE (checkCustomParameterEntries env loadedExternalTool d))))"

end
