(* ===== verification/ToolUseCases.thy ===== *)
theory ToolUseCases
  imports ToolValidation
begin

text \<open>
  The use cases of external tools (\<^verbatim>\<open>modules/tool/uc\<close>) and the mappers between them and the requests
  and responses (\<^verbatim>\<open>modules/tool/controller/mapper\<close>). The spread of a parsed request copies its fields;
  the enumerations of requests and responses name the same values as those of the domain.
\<close>

section \<open>Requests\<close>

record CustomParameterPostParams =
  cpp_name :: string
  cpp_defaultValue :: "string option"
  cpp_regex :: "string option"
  cpp_regexComment :: "string option"
  cpp_scope :: CustomParameterScope
  cpp_location :: CustomParameterLocation
  cpp_type :: CustomParameterType
  cpp_isOptional :: bool

record ExternalToolPostParams =
  epp_id :: "EntityId option"
  epp_name :: "string option"
  epp_url :: "string option"
  epp_logoUrl :: "string option"
  epp_config :: AnyToolConfigDO
  epp_parameters :: "CustomParameterPostParams list option"
  epp_isHidden :: "bool option"
  epp_openNewTab :: "bool option"

definition mapRequestToCustomParameterDO :: "CustomParameterPostParams list \<Rightarrow> CustomParameterDO list" where
  "mapRequestToCustomParameterDO ps =
     map (\<lambda>p. \<lparr>cpd_name = cpp_name p, cpd_default = cpp_defaultValue p, cpd_regex = cpp_regex p,
       cpd_regexComment = cpp_regexComment p, cpd_scope = cpp_scope p, cpd_location = cpp_location p,
       cpd_type = cpp_type p, cpd_isOptional = cpp_isOptional p\<rparr>) ps"

definition mapExternalToolRequest :: "ExternalToolPostParams \<Rightarrow> int \<Rightarrow> ExternalToolDO" where
  "mapExternalToolRequest p version =
     \<lparr>etd_id = epp_id p, etd_createdAt = None, etd_updatedAt = None,
      etd_name = or_default (epp_name p) [], etd_url = epp_url p, etd_logoUrl = epp_logoUrl p,
      etd_config = epp_config p,
      etd_parameters = Some (mapRequestToCustomParameterDO (nullish (epp_parameters p) [])),
      etd_isHidden = nullish (epp_isHidden p) True, etd_openNewTab = nullish (epp_openNewTab p) True,
      etd_version = version\<rparr>"

definition mapUpdateRequest :: "ExternalToolPostParams \<Rightarrow> ExternalToolDO" where
  "mapUpdateRequest p = mapExternalToolRequest p 1"

definition mapCreateRequest :: "ExternalToolPostParams \<Rightarrow> ExternalToolDO" where
  "mapCreateRequest p = mapExternalToolRequest p 1"

record SchoolExternalToolPostParams =
  spp_toolId :: EntityId
  spp_schoolId :: EntityId
  spp_parameters :: "(string \<times> string option) list option"
  spp_version :: int

definition mapRequestToCustomParameterEntryDO :: "(string \<times> string option) list \<Rightarrow> CustomParameterEntryDO list" where
  "mapRequestToCustomParameterEntryDO ps = map (\<lambda>(n, v). \<lparr>ped_name = n, ped_value = v\<rparr>) ps"

definition mapSchoolExternalToolRequest :: "SchoolExternalToolPostParams \<Rightarrow> SchoolExternalToolDO" where
  "mapSchoolExternalToolRequest r =
     \<lparr>setdo_id = None, setdo_name = None, setdo_createdAt = None, setdo_updatedAt = None,
      setdo_toolId = spp_toolId r, setdo_schoolId = spp_schoolId r,
      setdo_parameters = mapRequestToCustomParameterEntryDO (nullish (spp_parameters r) []),
      setdo_toolVersion = spp_version r, setdo_status = None\<rparr>"

section \<open>Responses\<close>

record CustomParameterResponse =
  cpr_name :: string
  cpr_defaultValue :: "string option"
  cpr_regex :: "string option"
  cpr_regexComment :: "string option"
  cpr_scope :: CustomParameterScope
  cpr_location :: CustomParameterLocation
  cpr_type :: CustomParameterType
  cpr_isOptional :: bool

record Lti11ToolConfigResponse =
  lcr_baseUrl :: string
  lcr_key :: string
  lcr_resource_link_id :: "string option"
  lcr_lti_message_type :: LtiMessageType
  lcr_privacy_permission :: LtiPrivacyPermission

record Oauth2ToolConfigResponse =
  ocr_baseUrl :: string
  ocr_clientId :: string
  ocr_skipConsent :: bool
  ocr_frontchannelLogoutUri :: "string option"
  ocr_scope :: "string option"
  ocr_redirectUris :: "string list option"
  ocr_tokenEndpointAuthMethod :: "string option"

datatype AnyToolConfigResponse =
    BasicToolConfigResponse string
  | Lti11Response Lti11ToolConfigResponse
  | Oauth2Response Oauth2ToolConfigResponse

record ExternalToolResponse =
  etr_id :: EntityId
  etr_name :: string
  etr_url :: "string option"
  etr_logoUrl :: "string option"
  etr_config :: AnyToolConfigResponse
  etr_parameters :: "CustomParameterResponse list"
  etr_isHidden :: bool
  etr_openNewTab :: bool
  etr_version :: int

definition mapCustomParameterDOToResponse :: "CustomParameterDO list \<Rightarrow> CustomParameterResponse list" where
  "mapCustomParameterDOToResponse ps =
     map (\<lambda>p. \<lparr>cpr_name = cpd_name p, cpr_defaultValue = cpd_default p, cpr_regex = cpd_regex p,
       cpr_regexComment = cpd_regexComment p, cpr_scope = cpd_scope p, cpr_location = cpd_location p,
       cpr_type = cpd_type p, cpr_isOptional = cpd_isOptional p\<rparr>) ps"

definition mapLti11ToolConfigDOToResponse :: "Lti11ToolConfigDO \<Rightarrow> Lti11ToolConfigResponse" where
  "mapLti11ToolConfigDOToResponse c =
     \<lparr>lcr_baseUrl = ecd_baseUrl c, lcr_key = lcd_key c, lcr_resource_link_id = lcd_resource_link_id c,
      lcr_lti_message_type = lcd_lti_message_type c, lcr_privacy_permission = lcd_privacy_permission c\<rparr>"

definition mapOauth2ToolConfigDOToResponse :: "Oauth2ToolConfigDO \<Rightarrow> Oauth2ToolConfigResponse" where
  "mapOauth2ToolConfigDOToResponse c =
     \<lparr>ocr_baseUrl = ecd_baseUrl c, ocr_clientId = ocd_clientId c, ocr_skipConsent = ocd_skipConsent c,
      ocr_frontchannelLogoutUri = ocd_frontchannelLogoutUri c, ocr_scope = ocd_scope c,
      ocr_redirectUris = ocd_redirectUris c, ocr_tokenEndpointAuthMethod = ocd_tokenEndpointAuthMethod c\<rparr>"

definition tool_mapToResponse :: "ExternalToolDO \<Rightarrow> ExternalToolResponse" where
  "tool_mapToResponse d =
     \<lparr>etr_id = or_default (etd_id d) [], etr_name = etd_name d, etr_url = etd_url d, etr_logoUrl = etd_logoUrl d,
      etr_config = (case etd_config d of
          BasicConfigDO c \<Rightarrow> BasicToolConfigResponse (ecd_baseUrl c)
        | Lti11ConfigDO c \<Rightarrow> Lti11Response (mapLti11ToolConfigDOToResponse c)
        | Oauth2ConfigDO c \<Rightarrow> Oauth2Response (mapOauth2ToolConfigDOToResponse c)),
      etr_parameters = mapCustomParameterDOToResponse (nullish (etd_parameters d) []),
      etr_isHidden = etd_isHidden d, etr_openNewTab = etd_openNewTab d, etr_version = etd_version d\<rparr>"

record ToolConfigurationEntryResponse =
  tcr_id :: EntityId
  tcr_name :: string
  tcr_logoUrl :: "string option"

definition mapExternalToolDOsToToolConfigurationListResponse ::
  "ExternalToolDO list \<Rightarrow> ToolConfigurationEntryResponse list" where
  "mapExternalToolDOsToToolConfigurationListResponse externalTools =
     map (\<lambda>tool. \<lparr>tcr_id = or_default (etd_id tool) [], tcr_name = etd_name tool, tcr_logoUrl = etd_logoUrl tool\<rparr>)
       externalTools"

record ExternalToolConfigurationTemplateResponse =
  ttr_id :: EntityId
  ttr_name :: string
  ttr_logoUrl :: "string option"
  ttr_parameters :: "CustomParameterResponse list"
  ttr_version :: int

definition mapToConfigurationTemplateResponse :: "ExternalToolDO \<Rightarrow> ExternalToolConfigurationTemplateResponse" where
  "mapToConfigurationTemplateResponse d =
     \<lparr>ttr_id = or_default (etd_id d) [], ttr_name = etd_name d, ttr_logoUrl = etd_logoUrl d,
      ttr_parameters = mapCustomParameterDOToResponse (nullish (etd_parameters d) []),
      ttr_version = etd_version d\<rparr>"

datatype SchoolExternalToolStatusResponse = RESPONSE_LATEST | RESPONSE_OUTDATED | RESPONSE_UNKNOWN

record SchoolExternalToolResponse =
  ser_id :: EntityId
  ser_name :: string
  ser_toolId :: EntityId
  ser_schoolId :: EntityId
  ser_parameters :: "(string \<times> string option) list"
  ser_toolVersion :: int
  ser_status :: SchoolExternalToolStatusResponse

definition mapToSchoolExternalToolResponse :: "SchoolExternalToolDO \<Rightarrow> SchoolExternalToolResponse" where
  "mapToSchoolExternalToolResponse d =
     \<lparr>ser_id = nullish (setdo_id d) [], ser_name = nullish (setdo_name d) [], ser_toolId = setdo_toolId d,
      ser_schoolId = setdo_schoolId d,
      ser_parameters = map (\<lambda>e. (ped_name e, ped_value e)) (setdo_parameters d),
      ser_toolVersion = setdo_toolVersion d,
      ser_status = (case setdo_status d of
          None \<Rightarrow> RESPONSE_UNKNOWN | Some STATUS_LATEST \<Rightarrow> RESPONSE_LATEST | Some STATUS_OUTDATED \<Rightarrow> RESPONSE_OUTDATED)\<rparr>"

section \<open>Use cases of external tools\<close>

definition ensurePermission :: "tool_env \<Rightarrow> EntityId \<Rightarrow> string \<Rightarrow> unit tooling" where
  "ensurePermission env userId permission =
     liftE (bindR (getUserWithPermissions (te_getUser env) userId) (\<lambda>u.
       checkAllPermissions (te_auth env) u [permission]))"

definition uc_createExternalTool :: "tool_env \<Rightarrow> EntityId \<Rightarrow> ExternalToolDO \<Rightarrow> ExternalToolDO tooling" where
  "uc_createExternalTool env userId d =
     bindE (ensurePermission env userId ''TOOL_ADMIN'') (\<lambda>_.
     bindE (validateCreate env d) (\<lambda>_.
       createExternalTool env d))"

text \<open>
  The spread \<^verbatim>\<open>{ ...loaded, ...externalTool, version: loaded.version }\<close>: a request has every field but the
  timestamps.
\<close>

definition merged :: "ExternalToolDO \<Rightarrow> ExternalToolDO \<Rightarrow> ExternalToolDO" where
  "merged loaded d =
     d\<lparr>etd_createdAt := etd_createdAt loaded, etd_updatedAt := etd_updatedAt loaded,
       etd_version := etd_version loaded\<rparr>"

definition uc_updateExternalTool :: "tool_env \<Rightarrow> EntityId \<Rightarrow> EntityId \<Rightarrow> ExternalToolDO \<Rightarrow> ExternalToolDO tooling" where
  "uc_updateExternalTool env userId toolId d =
     bindE (ensurePermission env userId ''TOOL_ADMIN'') (\<lambda>_.
     bindE (validateUpdate env toolId d) (\<lambda>_.
     bindE (findExternalToolById env toolId) (\<lambda>loaded.
       updateExternalTool env (merged loaded d) loaded)))"

definition uc_findExternalTool ::
  "tool_env \<Rightarrow> EntityId \<Rightarrow> tool_query \<Rightarrow> IFindOptions option \<Rightarrow> (ExternalToolDO list \<times> nat) tooling" where
  "uc_findExternalTool env userId query options =
     bindE (ensurePermission env userId ''TOOL_ADMIN'') (\<lambda>_. findExternalTools env query options)"

definition uc_getExternalTool :: "tool_env \<Rightarrow> EntityId \<Rightarrow> EntityId \<Rightarrow> ExternalToolDO tooling" where
  "uc_getExternalTool env userId toolId =
     bindE (ensurePermission env userId ''TOOL_ADMIN'') (\<lambda>_. findExternalToolById env toolId)"

definition uc_deleteExternalTool :: "tool_env \<Rightarrow> EntityId \<Rightarrow> EntityId \<Rightarrow> unit tooling" where
  "uc_deleteExternalTool env userId toolId =
     bindE (ensurePermission env userId ''TOOL_ADMIN'') (\<lambda>_. deleteExternalTool toolId)"

section \<open>Use cases of schools\<close>

text \<open>The reference loader finds tools of schools in their table.\<close>

definition stored_or_outside :: "tool_env \<Rightarrow> tool_state \<Rightarrow> find_by_id" where
  "stored_or_outside env s repo i populate =
     (if repo = SchoolExternalToolRepo
      then mapR (\<lambda>d. SubjTool (ToolDomainObject d)) (base_findById SchoolToolRepo (tls_schoolTools s) i)
      else te_findById env repo i populate)"

definition check_by_references ::
  "tool_env \<Rightarrow> EntityId \<Rightarrow> AllowedAuthorizationEntityType \<Rightarrow> EntityId \<Rightarrow> unit tooling" where
  "check_by_references env userId ty i = queryE (\<lambda>s.
     checkPermissionByReferences (te_getUser env) (stored_or_outside env s) (te_auth env) userId ty i
       \<lparr>ctx_action = Read, ctx_requiredPermissions = [''SCHOOL_TOOL_ADMIN'']\<rparr>)"

definition ensureSchoolPermission :: "tool_env \<Rightarrow> EntityId \<Rightarrow> EntityId \<Rightarrow> unit tooling" where
  "ensureSchoolPermission env userId schoolId = check_by_references env userId Allowed_School schoolId"

definition ensureSchoolExternalToolPermission :: "tool_env \<Rightarrow> EntityId \<Rightarrow> EntityId \<Rightarrow> unit tooling" where
  "ensureSchoolExternalToolPermission env userId schoolExternalToolId =
     check_by_references env userId Allowed_SchoolExternalTool schoolExternalToolId"

definition uc_findSchoolExternalTools :: "tool_env \<Rightarrow> EntityId \<Rightarrow> EntityId option \<Rightarrow> SchoolExternalToolDO list tooling" where
  "uc_findSchoolExternalTools env userId schoolId =
     (if truthy schoolId
      then bindE (ensureSchoolPermission env userId (the schoolId)) (\<lambda>_. findSchoolExternalTools env schoolId)
      else retE [])"

definition uc_createSchoolExternalTool ::
  "tool_env \<Rightarrow> EntityId \<Rightarrow> SchoolExternalToolDO \<Rightarrow> SchoolExternalToolDO tooling" where
  "uc_createSchoolExternalTool env userId d =
     bindE (ensureSchoolPermission env userId (setdo_schoolId d)) (\<lambda>_.
     bindE (validate env d) (\<lambda>_.
       saveSchoolExternalTool env d))"

definition uc_deleteSchoolExternalTool :: "tool_env \<Rightarrow> EntityId \<Rightarrow> EntityId \<Rightarrow> unit tooling" where
  "uc_deleteSchoolExternalTool env userId schoolExternalToolId =
     bindE (ensureSchoolExternalToolPermission env userId schoolExternalToolId) (\<lambda>_.
     bindE (deleteBySchoolExternalToolId schoolExternalToolId) (\<lambda>_.
       school_deleteById schoolExternalToolId))"

definition uc_getSchoolExternalTool :: "tool_env \<Rightarrow> EntityId \<Rightarrow> EntityId \<Rightarrow> SchoolExternalToolDO tooling" where
  "uc_getSchoolExternalTool env userId schoolExternalToolId =
     bindE (ensureSchoolExternalToolPermission env userId schoolExternalToolId) (\<lambda>_.
       school_findById schoolExternalToolId)"

definition uc_updateSchoolExternalTool ::
  "tool_env \<Rightarrow> EntityId \<Rightarrow> EntityId \<Rightarrow> SchoolExternalToolDO \<Rightarrow> SchoolExternalToolDO tooling" where
  "uc_updateSchoolExternalTool env userId schoolExternalToolId d =
     bindE (ensureSchoolExternalToolPermission env userId schoolExternalToolId) (\<lambda>_.
     bindE (validate env d) (\<lambda>_.
       saveSchoolExternalTool env (d\<lparr>setdo_id := Some schoolExternalToolId\<rparr>)))"

definition uc_getAvailableToolsForSchool :: "tool_env \<Rightarrow> EntityId \<Rightarrow> EntityId \<Rightarrow> ExternalToolDO list tooling" where
  "uc_getAvailableToolsForSchool env userId schoolId =
     bindE (ensureSchoolPermission env userId schoolId) (\<lambda>_.
     bindE (findExternalTools env \<lparr>tq_name = None, tq_isHidden = None\<rparr> None) (\<lambda>(externalTools, _).
     bindE (findSchoolExternalTools env (Some schoolId)) (\<lambda>toolsInUse.
     let toolIdsInUse = map setdo_toolId toolsInUse in
       retE (filter (\<lambda>tool. \<not> etd_isHidden tool \<and> truthy (etd_id tool) \<and> the (etd_id tool) \<notin> set toolIdsInUse)
         externalTools))))"

definition uc_getExternalToolForSchool :: "tool_env \<Rightarrow> EntityId \<Rightarrow> EntityId \<Rightarrow> EntityId \<Rightarrow> ExternalToolDO tooling" where
  "uc_getExternalToolForSchool env userId externalToolId schoolId =
     bindE (ensureSchoolPermission env userId schoolId) (\<lambda>_.
     bindE (getExternalToolForScope externalToolId SCOPE_SCHOOL) (\<lambda>d.
       if etd_isHidden d then throwE (NotFoundException ''Could not find the Tool Template'') else retE d))"

section \<open>Requests of the interface\<close>

datatype tool_request =
    PostTool ExternalToolPostParams
  | UpdateTool EntityId ExternalToolPostParams
  | DeleteTool EntityId
  | PostSchoolTool SchoolExternalToolPostParams
  | UpdateSchoolTool EntityId SchoolExternalToolPostParams
  | DeleteSchoolTool EntityId

fun serve :: "tool_env \<Rightarrow> EntityId \<Rightarrow> tool_request \<Rightarrow> unit tooling" where
  "serve env userId (PostTool p) =
     bindE (uc_createExternalTool env userId (mapCreateRequest p)) (\<lambda>_. retE ())"
| "serve env userId (UpdateTool i p) =
     bindE (uc_updateExternalTool env userId i (mapUpdateRequest p)) (\<lambda>_. retE ())"
| "serve env userId (DeleteTool i) = uc_deleteExternalTool env userId i"
| "serve env userId (PostSchoolTool p) =
     bindE (uc_createSchoolExternalTool env userId (mapSchoolExternalToolRequest p)) (\<lambda>_. retE ())"
| "serve env userId (UpdateSchoolTool i p) =
     bindE (uc_updateSchoolExternalTool env userId i (mapSchoolExternalToolRequest p)) (\<lambda>_. retE ())"
| "serve env userId (DeleteSchoolTool i) = uc_deleteSchoolExternalTool env userId i"

end
