(* ===== verification/ToolProperties.thy ===== *)
theory ToolProperties
  imports ToolUseCases RuleFacts
begin

text \<open>
  What requests to external tools need and do: permissions, secrets, the validity of configurations
  and the tools that a school may still configure.
\<close>

section \<open>Queries leave the state\<close>

named_theorems pure_ops \<open>operations that leave the state\<close>

lemma pure_repositories [pure_ops]:
  "pureE (getOAuth2Client env i)" "pureE (tool_findById i)" "pureE (findByName n)"
  "pureE (findByOAuth2ConfigClientId i)" "pureE (tool_find env q opts)" "pureE (school_findById i)"
  "pureE (findByExternalToolId i)" "pureE (school_find j)" "pureE (course_find j)"
  "pureE (ensurePermission env userId p)" "pureE (check_by_references env userId ty i)"
  "pureE (ensureSchoolPermission env userId i)" "pureE (ensureSchoolExternalToolPermission env userId i)"
  by (simp_all add: getOAuth2Client_def tool_findById_def findByName_def findByOAuth2ConfigClientId_def
      tool_find_def school_findById_def findByExternalToolId_def school_find_def course_find_def
      ensurePermission_def check_by_references_def ensureSchoolPermission_def
      ensureSchoolExternalToolPermission_def)

lemma pure_services [pure_ops]:
  "pureE (resolve_tool env t)" "pureE (findExternalToolById env i)" "pureE (findExternalTools env q opts)"
  "pureE (enrichDataFromExternalTool env d)" "pureE (findSchoolExternalTools env j)"
  by (auto simp: resolve_tool_def findExternalToolById_def findExternalTools_def enrichDataFromExternalTool_def
      findSchoolExternalTools_def addExternalOauth2DataToConfig_def split: AnyToolConfigDO.split
      intro!: pureE_bind pureE_catch pureE_mapME pure_repositories)

lemma pure_validation [pure_ops]:
  "pureE (validateCommon env d)" "pureE (validateCreate env d)" "pureE (validateUpdate env i d)"
  "pureE (validate env sd)"
  by (auto simp: validateCommon_def validateCreate_def validateUpdate_def validate_def isNameUnique_def
      validateOauth2Config_def isClientIdUnique_def split: AnyToolConfigDO.split
      intro!: pureE_bind pure_repositories pure_services)

section \<open>Permissions\<close>

text \<open>Being allowed to administer the tools of a school.\<close>

definition school_tool_admin :: "tool_env \<Rightarrow> EntityId \<Rightarrow> EntityId \<Rightarrow> bool" where
  "school_tool_admin env userId schoolId \<longleftrightarrow>
     (\<exists>u. te_getUser env userId = Inr u \<and>
        hasAllPermissions (te_auth env) u [''SCHOOL_TOOL_ADMIN''] = Inr True \<and> eid (usr_school u) = schoolId)"

definition tool_admin :: "tool_env \<Rightarrow> EntityId \<Rightarrow> bool" where
  "tool_admin env userId \<longleftrightarrow>
     (\<exists>u. te_getUser env userId = Inr u \<and> hasAllPermissions (te_auth env) u [''TOOL_ADMIN''] = Inr True)"

text \<open>The repository of schools answers with schools, under their ids.\<close>

definition schools_found :: "tool_env \<Rightarrow> bool" where
  "schools_found env \<longleftrightarrow>
     (\<forall>i e. te_findById env SchoolRepo i None = Inr e \<longrightarrow>
        (\<exists>x. e = SubjSchool x \<and> school_subject_id x = Some i))"

lemma service_on_tools:
  "hasPermission env u (SubjTool t) ctx = SchoolExternalToolRule_hasPermission env u t ctx"
  "hasPermission env u (SubjSchool x) ctx = SchoolRule_hasPermission env u x ctx"
  by (simp_all add: hasPermission_def manager_hasPermission_def selectPermissions_single
      SingleSelectStrategie_match_def rule_hasPermission_def)

lemma references_checked:
  "check_by_references env userId ty i s = (Inr (), s') \<longleftrightarrow> s' = s \<and>
     (\<exists>u e. te_getUser env userId = Inr u \<and> loadEntity (stored_or_outside env s) ty i = Inr e \<and>
        hasPermission (te_auth env) u e
          \<lparr>ctx_action = Read, ctx_requiredPermissions = [''SCHOOL_TOOL_ADMIN'']\<rparr> = Inr True)"
proof -
  have c: "(case m of Inl err \<Rightarrow> Inl (ForbiddenCausedBy err) | Inr b \<Rightarrow> Inr b) = Inr x \<longleftrightarrow> m = Inr x"
    for m :: "bool result" and x by (cases m) simp_all
  have "checkPermissionByReferences (te_getUser env) (stored_or_outside env s) (te_auth env) userId ty i
      \<lparr>ctx_action = Read, ctx_requiredPermissions = [''SCHOOL_TOOL_ADMIN'']\<rparr> = Inr () \<longleftrightarrow>
    (\<exists>u e. te_getUser env userId = Inr u \<and> loadEntity (stored_or_outside env s) ty i = Inr e \<and>
        hasPermission (te_auth env) u e
          \<lparr>ctx_action = Read, ctx_requiredPermissions = [''SCHOOL_TOOL_ADMIN'']\<rparr> = Inr True)"
    unfolding checkPermissionByReferences_def hasPermissionByReferences_def getUserWithPermissions_def
      bindR_eq_Inr c guardR_eq_Inr by metis
  then show ?thesis by (auto simp: check_by_references_def queryE_def)
qed

lemma ensurePermission_iff:
  "ensurePermission env userId ''TOOL_ADMIN'' s = (Inr (), s') \<longleftrightarrow> s' = s \<and> tool_admin env userId"
  by (auto simp: ensurePermission_def liftE_def tool_admin_def checkAllPermissions_def bindR_eq_Inr
      getUserWithPermissions_def guardR_eq_Inr)

lemma ensureSchoolExternalToolPermission_iff:
  "ensureSchoolExternalToolPermission env userId i s = (Inr (), s') \<longleftrightarrow> s' = s \<and>
     (\<exists>d. base_findById SchoolToolRepo (tls_schoolTools s) i = Inr d \<and>
        school_tool_admin env userId (setdo_schoolId d))"
  by (auto simp: ensureSchoolExternalToolPermission_def references_checked loadEntity_def resolveRepo_def
      ReferenceLoader_repos_def stored_or_outside_def mapR_eq_Inr service_on_tools andR_eq_True
      school_tool_admin_def)

lemma ensureSchoolPermission_iff:
  assumes "schools_found env"
    and "ensureSchoolPermission env userId i s = (Inr (), s')"
  shows "school_tool_admin env userId i"
proof -
  from assms(2) obtain u e where u: "te_getUser env userId = Inr u" "te_findById env SchoolRepo i None = Inr e"
    "hasPermission (te_auth env) u e \<lparr>ctx_action = Read, ctx_requiredPermissions = [''SCHOOL_TOOL_ADMIN'']\<rparr> = Inr True"
    by (auto simp: ensureSchoolPermission_def references_checked loadEntity_def resolveRepo_def
        ReferenceLoader_repos_def stored_or_outside_def)
  moreover from u(2) assms(1) obtain x where "e = SubjSchool x" "school_subject_id x = Some i"
    unfolding schools_found_def by blast
  ultimately show ?thesis
    by (auto simp: school_tool_admin_def service_on_tools SchoolRule_hasPermission_def andR_eq_True)
qed

text \<open>What a request needs.\<close>

fun tool_request_permitted :: "tool_env \<Rightarrow> EntityId \<Rightarrow> tool_state \<Rightarrow> tool_request \<Rightarrow> bool" where
  "tool_request_permitted env userId s (PostTool p) \<longleftrightarrow> tool_admin env userId"
| "tool_request_permitted env userId s (UpdateTool i p) \<longleftrightarrow> tool_admin env userId"
| "tool_request_permitted env userId s (DeleteTool i) \<longleftrightarrow> tool_admin env userId"
| "tool_request_permitted env userId s (PostSchoolTool p) \<longleftrightarrow> school_tool_admin env userId (spp_schoolId p)"
| "tool_request_permitted env userId s (UpdateSchoolTool i p) \<longleftrightarrow>
     (\<exists>d. base_findById SchoolToolRepo (tls_schoolTools s) i = Inr d \<and> school_tool_admin env userId (setdo_schoolId d))"
| "tool_request_permitted env userId s (DeleteSchoolTool i) \<longleftrightarrow>
     (\<exists>d. base_findById SchoolToolRepo (tls_schoolTools s) i = Inr d \<and> school_tool_admin env userId (setdo_schoolId d))"

fun is_school_request :: "tool_request \<Rightarrow> bool" where
  "is_school_request (PostTool _) \<longleftrightarrow> False"
| "is_school_request (UpdateTool _ _) \<longleftrightarrow> False"
| "is_school_request (DeleteTool _) \<longleftrightarrow> False"
| "is_school_request _ \<longleftrightarrow> True"

lemma school_requests_keep:
  assumes "is_school_request request"
  shows "keepsE (\<lambda>s. (tls_tools s, tls_sent s)) (serve env userId request)"
proof -
  have save: "keepsE (\<lambda>s. (tls_tools s, tls_sent s)) (school_save env d)" for d
    by (simp add: keepsE_def school_save_def split: sum.split prod.split)
  show ?thesis using assms
    by (cases request)
      (auto simp: uc_createSchoolExternalTool_def uc_updateSchoolExternalTool_def uc_deleteSchoolExternalTool_def
        saveSchoolExternalTool_def deleteBySchoolExternalToolId_def course_delete_def school_deleteById_def
        intro!: keepsE_bind keepsE_modify save keepsE_pure [OF pure_repositories(9)] keepsE_pure [OF pure_repositories(12)]
          keepsE_pure [OF pure_repositories(13)] keepsE_pure [OF pure_services(4)] keepsE_pure [OF pure_validation(4)]
          keepsE_pure [OF pureE_basic(1)])
qed

text \<open>
  C19. A request that changes a tool, a tool of a school or of a course, or sends anything to the OAuth
  provider, had its permission: for tools that of an administrator of tools, for the tools of a
  school that of an administrator of tools of this school, who moreover changes no tool itself and
  sends nothing to the provider.
\<close>

theorem tool_changes_need_permission:
  assumes "schools_found env" and "snd (serve env userId request s) \<noteq> s"
  shows "tool_request_permitted env userId s request \<and>
    (is_school_request request \<longrightarrow> tls_tools (snd (serve env userId request s)) = tls_tools s \<and>
       tls_sent (snd (serve env userId request s)) = tls_sent s)"
proof -
  have keep: "snd (bindE m (\<lambda>_. retE ()) s) = snd (m s)" for m :: "'a tooling"
    by (simp add: bindE_def retE_def split: prod.split sum.split)
  note change = change_after_pure [OF pure_validation(1)] change_after_pure [OF pure_validation(2)]
    change_after_pure [OF pure_validation(3)] change_after_pure [OF pure_validation(4)]
    change_after_pure [OF pure_repositories(10)] change_after_pure [OF pure_repositories(12)]
    change_after_pure [OF pure_repositories(13)]
  have in_school: "school_tool_admin env userId i" if "ensureSchoolPermission env userId i s = (Inr (), s)" for i
    using ensureSchoolPermission_iff [OF assms(1) that] .
  have "tool_request_permitted env userId s request"
    using assms(2) in_school
    by (cases request) (auto simp: keep uc_createExternalTool_def uc_updateExternalTool_def uc_deleteExternalTool_def
        uc_createSchoolExternalTool_def uc_updateSchoolExternalTool_def uc_deleteSchoolExternalTool_def
        change ensurePermission_iff ensureSchoolExternalToolPermission_iff mapSchoolExternalToolRequest_def)
  moreover have "tls_tools (snd (serve env userId request s)) = tls_tools s \<and>
      tls_sent (snd (serve env userId request s)) = tls_sent s" if "is_school_request request"
    using school_requests_keep [OF that, of env userId] by (simp add: keepsE_def)
  ultimately show ?thesis by simp
qed

section \<open>Valid configurations\<close>

text \<open>What the entries of a school have to say about a parameter.\<close>

definition entry_fits :: "tool_env \<Rightarrow> CustomParameterEntryDO list \<Rightarrow> CustomParameterDO \<Rightarrow> bool" where
  "entry_fits env entries p \<longleftrightarrow>
     (case List.find (\<lambda>e. toLowerCase (ped_name e) = toLowerCase (cpd_name p)) entries of
        None \<Rightarrow> cpd_isOptional p
      | Some e \<Rightarrow>
          (truthy (ped_value e) \<or> cpd_isOptional p) \<and>
          (case ped_value e of None \<Rightarrow> True | Some v \<Rightarrow> typeCheckers (cpd_type p) v) \<and>
          (truthy (cpd_regex p) \<longrightarrow>
             (\<exists>test. te_regExp env (the (cpd_regex p)) = Some test \<and> test (nullish (ped_value e) []))))"

lemma checkEntry_iff:
  "checkEntry env entries p = Inr () \<longleftrightarrow> (cpd_scope p = SCOPE_SCHOOL \<longrightarrow> entry_fits env entries p)"
  by (auto simp: checkEntry_def entry_fits_def checkOptionalParameter_def checkParameterType_def
      checkParameterRegex_def new_RegExp_def bindR_eq_Inr guardR_eq_Inr truthy_def Let_def split: option.splits)

lemma mapMR_unit: "mapR (\<lambda>_. ()) (mapMR f xs) = Inr () \<longleftrightarrow> (\<forall>x \<in> set xs. f x = (Inr () :: unit result))"
  by (induction xs) (auto simp: mapR_eq_Inr bindR_eq_Inr)

lemma checkCustomParameterEntries_iff:
  "checkCustomParameterEntries env tool d = Inr () \<longleftrightarrow>
     (\<forall>p \<in> set (nullish (etd_parameters tool) []).
        cpd_scope p = SCOPE_SCHOOL \<longrightarrow> entry_fits env (setdo_parameters d) p)"
  by (simp add: checkCustomParameterEntries_def mapMR_unit checkEntry_iff split: option.split)

lemma checkForDuplicateParameters_iff:
  "checkForDuplicateParameters d = Inr () \<longleftrightarrow> distinct (map (\<lambda>e. toLowerCase (ped_name e)) (setdo_parameters d))"
  using card_distinct [of "map (\<lambda>e. toLowerCase (ped_name e)) (setdo_parameters d)"]
    distinct_card [of "map (\<lambda>e. toLowerCase (ped_name e)) (setdo_parameters d)"]
  by (auto simp: checkForDuplicateParameters_def Let_def guardR_eq_Inr)

text \<open>
  C22. The configuration of a tool for a school is valid exactly when no name occurs twice, in whatever
  case, the tool is found, the version is that of the tool, and every parameter of the tool that
  schools set has a fitting entry: a required one a value, every value the type of the parameter,
  and, where there is a regular expression, a match. Entries for unknown names are accepted.
\<close>

theorem school_configuration_valid_iff:
  "validate env d s = (Inr (), s) \<longleftrightarrow>
     distinct (map (\<lambda>e. toLowerCase (ped_name e)) (setdo_parameters d)) \<and>
     (\<exists>tool. findExternalToolById env (setdo_toolId d) s = (Inr tool, s) \<and>
        setdo_toolVersion d = etd_version tool \<and>
        list_all (entry_fits env (setdo_parameters d))
          (filter (\<lambda>p. cpd_scope p = SCOPE_SCHOOL) (nullish (etd_parameters tool) [])))"
proof -
  have "findExternalToolById env (setdo_toolId d) s = (r, s') \<Longrightarrow> s' = s" for r s'
    using pureE_state [OF pure_services(2)] .
  then show ?thesis
    unfolding validate_def bindE_eq_Inr
    by (auto simp: liftE_def checkForDuplicateParameters_iff checkVersionMatch_def guardR_eq_Inr
        checkCustomParameterEntries_iff list_all_iff)
qed

section \<open>Secrets\<close>

text \<open>The row that a save leaves, and the other rows.\<close>

context stores_content
begin

lemma saved_rows:
  assumes "base_save repo now newId r t d = Inr (d', t')"
  shows "\<exists>e. d' = bdr_mapEntityToDO repo e \<and> content (bdr_mapEntityToDO repo e) = content d \<and>
    (\<not> truthy (bdr_id repo d) \<and> eid e = newId r \<and> t' = t @ [e] \<or>
     bdr_id repo d = Some (eid e) \<and> eid e \<noteq> [] \<and> eid e \<in> set (map eid t) \<and>
       t' = map (\<lambda>row. if eid row = eid e then e else row) t)"
proof (cases "truthy (bdr_id repo d)")
  case False
  let ?e = "(bdr_entityFactory repo now r (bdr_mapDOToEntityProperties repo d))\<lparr>eid := newId r\<rparr>"
  from assms False have "d' = bdr_mapEntityToDO repo ?e" "t' = t @ [?e]"
    by (simp_all add: base_save_def createNewEntityFromDO_def Let_def)
  with False kept_new show ?thesis by (intro exI [of _ ?e]) simp
next
  case True
  then obtain i where i: "bdr_id repo d = Some i" "i \<noteq> []" by (auto simp: truthy_def)
  with assms True obtain old where old: "find_row t i = Some old" and
    ds: "d' = bdr_mapEntityToDO repo (assign_row now old (createNewEntityFromDO repo now r d))"
      "t' = map (\<lambda>row. if eid row = eid old then assign_row now old (createNewEntityFromDO repo now r d) else row) t"
    by (auto simp: base_save_def Let_def bindR_eq_Inr row_or_fail_def split: option.splits)
  have oi: "eid old = i" "old \<in> set t" using find_eq_Some [OF old [unfolded find_row_def]] by auto
  let ?e = "assign_row now old (createNewEntityFromDO repo now r d)"
  have e: "eid ?e = i" using assigned_id [of now old] oi(1) by simp
  have "i \<in> set (map eid t)" using oi by force
  then show ?thesis
    by (intro exI [of _ ?e]) (simp add: e ds oi(1) i kept_assigned)
qed

end

lemma tool_save_rows:
  assumes "tool_save env d s = (Inr d', s')"
  shows "\<exists>e. d' = tool_mapEntityToDO e \<and> tool_content (tool_mapEntityToDO e) = tool_content d \<and>
    tls_schoolTools s' = tls_schoolTools s \<and> tls_courseTools s' = tls_courseTools s \<and>
    tls_fresh s' = Suc (tls_fresh s) \<and> tls_sent s' = tls_sent s \<and>
    (\<not> truthy (etd_id d) \<and> eid e = te_newId env (tls_fresh s) \<and> tls_tools s' = tls_tools s @ [e] \<or>
     etd_id d = Some (eid e) \<and> eid e \<noteq> [] \<and> eid e \<in> set (map eid (tls_tools s)) \<and>
       tls_tools s' = map (\<lambda>row. if eid row = eid e then e else row) (tls_tools s))"
proof -
  from assms obtain t where t: "base_save ExternalToolRepo (te_now env) (te_newId env) (tls_fresh s) (tls_tools s) d = Inr (d', t)"
    and s': "s' = s\<lparr>tls_tools := t, tls_fresh := Suc (tls_fresh s)\<rparr>"
    by (auto simp: tool_save_def split: sum.splits prod.splits)
  from tool_repo.saved_rows [OF t] show ?thesis
    unfolding s' by (simp add: ExternalToolRepo_def)
qed

lemma school_save_rows:
  assumes "school_save env d s = (Inr d', s')"
  shows "\<exists>e. d' = schoolTool_mapEntityToDO e \<and> schoolTool_content (schoolTool_mapEntityToDO e) = schoolTool_content d \<and>
    tls_tools s' = tls_tools s \<and> tls_courseTools s' = tls_courseTools s \<and>
    tls_fresh s' = Suc (tls_fresh s) \<and> tls_sent s' = tls_sent s \<and>
    (\<not> truthy (setdo_id d) \<and> eid e = te_newId env (tls_fresh s) \<and> tls_schoolTools s' = tls_schoolTools s @ [e] \<or>
     setdo_id d = Some (eid e) \<and> eid e \<noteq> [] \<and> eid e \<in> set (map eid (tls_schoolTools s)) \<and>
       tls_schoolTools s' = map (\<lambda>row. if eid row = eid e then e else row) (tls_schoolTools s))"
proof -
  from assms obtain t where t: "base_save SchoolToolRepo (te_now env) (te_newId env) (tls_fresh s) (tls_schoolTools s) d = Inr (d', t)"
    and s': "s' = s\<lparr>tls_schoolTools := t, tls_fresh := Suc (tls_fresh s)\<rparr>"
    by (auto simp: school_save_def split: sum.splits prod.splits)
  from school_repo.saved_rows [OF t] show ?thesis
    unfolding s' by (simp add: SchoolToolRepo_def)
qed

lemma saved_tool_stored:
  assumes "tool_save env d s = (Inr d', s')"
  shows "\<exists>row \<in> set (tls_tools s'). d' = tool_mapEntityToDO row \<and>
    ext_config row = mapConfigDOToEntity (etd_config d) \<and> (truthy (etd_id d) \<longrightarrow> etd_id d = Some (eid row))"
proof -
  from tool_save_rows [OF assms] obtain e where e: "d' = tool_mapEntityToDO e"
    "tool_content (tool_mapEntityToDO e) = tool_content d" "e \<in> set (tls_tools s')"
    "truthy (etd_id d) \<longrightarrow> etd_id d = Some (eid e)" by auto
  then show ?thesis by (auto simp: tool_content_def tool_mapEntityToDO_def)
qed

text \<open>The secrets of a tool, blanked out.\<close>

definition without_secrets :: "ExternalToolDO \<Rightarrow> ExternalToolDO" where
  "without_secrets d =
     d\<lparr>etd_config := (case etd_config d of
         BasicConfigDO c \<Rightarrow> BasicConfigDO c
       | Lti11ConfigDO c \<Rightarrow> Lti11ConfigDO (c\<lparr>lcd_secret := []\<rparr>)
       | Oauth2ConfigDO c \<Rightarrow> Oauth2ConfigDO (c\<lparr>ocd_clientSecret := None\<rparr>))\<rparr>"

lemma response_without_secrets: "tool_mapToResponse (without_secrets d) = tool_mapToResponse d"
  by (simp add: tool_mapToResponse_def without_secrets_def mapLti11ToolConfigDOToResponse_def
      mapOauth2ToolConfigDOToResponse_def split: AnyToolConfigDO.split)

text \<open>The secret of an LTI tool that a configuration is stored with.\<close>

fun stored_secret :: "AnyToolConfig \<Rightarrow> string option" where
  "stored_secret (Lti11Config c) = Some (ltc_secret c)"
| "stored_secret _ = None"

fun sent_secret :: "AnyToolConfigDO \<Rightarrow> string option" where
  "sent_secret (Lti11ConfigDO c) = Some (lcd_secret c)"
| "sent_secret _ = None"

text \<open>
  A created tool is stored with its LTI secret encrypted, and without the client secret of OAuth2,
  which only the provider gets; the response to any tool is the same as without its secrets.
\<close>

theorem created_secrets_protected:
  assumes "uc_createExternalTool env userId d s = (Inr saved, s')"
  shows "\<exists>row \<in> set (tls_tools s'). saved = tool_mapEntityToDO row \<and>
    stored_secret (ext_config row) = map_option (te_encrypt env) (sent_secret (etd_config d)) \<and>
    tool_mapToResponse saved = tool_mapToResponse (without_secrets saved) \<and>
    (\<forall>c. etd_config saved = Oauth2ConfigDO c \<longrightarrow> ocd_clientSecret c = None)"
proof -
  from assms obtain s1 where c: "createExternalTool env d s1 = (Inr saved, s')"
    unfolding uc_createExternalTool_def bindE_eq_Inr by blast
  have same: "tool_save env (d\<lparr>etd_config := etd_config d\<rparr>) s2 = (Inr saved, s')"
    if "tool_save env d s2 = (Inr saved, s')" for s2 using that by simp
  have "\<exists>cfg s2. tool_save env (d\<lparr>etd_config := cfg\<rparr>) s2 = (Inr saved, s') \<and>
    stored_secret (mapConfigDOToEntity cfg) = map_option (te_encrypt env) (sent_secret (etd_config d))"
  proof (cases "etd_config d")
    case (BasicConfigDO x)
    with c have "tool_save env d s1 = (Inr saved, s')" by (simp add: createExternalTool_def)
    from same [OF this] show ?thesis
      by (intro exI [of _ "etd_config d"] exI [of _ s1] conjI) (assumption, simp add: BasicConfigDO)
  next
    case (Lti11ConfigDO x)
    with c show ?thesis
      by (intro exI [of _ "Lti11ConfigDO (x\<lparr>lcd_secret := te_encrypt env (lcd_secret x)\<rparr>)"] exI [of _ s1])
        (simp add: createExternalTool_def)
  next
    case (Oauth2ConfigDO x)
    with c obtain s2 where "tool_save env d s2 = (Inr saved, s')"
      by (auto simp: createExternalTool_def bindE_eq_Inr)
    from same [OF this] show ?thesis
      by (intro exI [of _ "etd_config d"] exI [of _ s2] conjI) (assumption, simp add: Oauth2ConfigDO)
  qed
  then obtain cfg s2 where cfg: "tool_save env (d\<lparr>etd_config := cfg\<rparr>) s2 = (Inr saved, s')"
    "stored_secret (mapConfigDOToEntity cfg) = map_option (te_encrypt env) (sent_secret (etd_config d))" by blast
  from saved_tool_stored [OF cfg(1)] obtain row where row: "row \<in> set (tls_tools s')" "saved = tool_mapEntityToDO row"
    "ext_config row = mapConfigDOToEntity cfg" by auto
  moreover have "etd_config saved = Oauth2ConfigDO c \<Longrightarrow> ocd_clientSecret c = None" for c
    unfolding row(2) by (cases "ext_config row") (auto simp: tool_mapEntityToDO_def)
  ultimately show ?thesis using cfg(2) response_without_secrets by (metis (no_types, lifting))
qed

text \<open>What a successful update did.\<close>

lemma uc_update_steps:
  assumes "uc_updateExternalTool env userId toolId d s = (Inr saved, s')"
  shows "\<exists>loaded s2. tool_admin env userId \<and> validateCommon env d s = (Inr (), s) \<and> etd_id d = Some toolId \<and>
    findExternalToolById env toolId s = (Inr loaded, s) \<and> tls_tools s2 = tls_tools s \<and>
    tls_schoolTools s2 = tls_schoolTools s \<and> tls_courseTools s2 = tls_courseTools s \<and> tls_fresh s2 = tls_fresh s \<and>
    tool_save env (increaseVersionOfNewToolIfNecessary loaded (merged loaded d)) s2 = (Inr saved, s')"
proof -
  let ?v = "\<lambda>s. (tls_tools s, tls_schoolTools s, tls_courseTools s, tls_fresh s)"
  from assms obtain x0 x1 x2 s0 s1 s3 loaded s2 where
    w: "ensurePermission env userId ''TOOL_ADMIN'' s = (Inr x0, s0)" "validateUpdate env toolId d s0 = (Inr x1, s1)"
      "findExternalToolById env toolId s1 = (Inr loaded, s3)"
      "updateOauth2ToolConfig env (merged loaded d) s3 = (Inr x2, s2)"
      "tool_save env (increaseVersionOfNewToolIfNecessary loaded (merged loaded d)) s2 = (Inr saved, s')"
    unfolding uc_updateExternalTool_def updateExternalTool_def bindE_eq_Inr by blast
  have s0: "s0 = s" "s1 = s" "s3 = s" "tool_admin env userId"
    using w(1) ensurePermission_iff [of env userId s s0] pureE_state [OF pure_validation(3) w(2)]
      pureE_state [OF pure_services(2) w(3)] by auto
  note v = w [unfolded s0 unit_eq]
  have "keepsE ?v (updateOauth2ToolConfig env x)" for x
    by (auto simp: updateOauth2ToolConfig_def updateOauthClientOrThrow_def keepsE_def send_def throwE_def retE_def
        getOAuth2Client_def queryE_def bindE_def split: AnyToolConfigDO.split option.split sum.split prod.split)
  then have "?v s2 = ?v s" using v(4) by (simp add: keepsE_def) (metis snd_conv)
  moreover have "etd_id d = Some toolId \<and> validateCommon env d s = (Inr (), s)"
    using v(2) pureE_state [OF pure_validation(1)]
    unfolding validateUpdate_def by (auto simp: bindE_eq_Inr liftE_def guardR_eq_Inr)
  ultimately show ?thesis using v(3,5) s0 by auto
qed

lemma increase_keeps [simp]:
  "etd_config (increaseVersionOfNewToolIfNecessary l d) = etd_config d"
  "etd_id (increaseVersionOfNewToolIfNecessary l d) = etd_id d"
  "etd_name (increaseVersionOfNewToolIfNecessary l d) = etd_name d"
  "etd_parameters (increaseVersionOfNewToolIfNecessary l d) = etd_parameters d"
  by (simp_all add: increaseVersionOfNewToolIfNecessary_def split: option.split)

text \<open>
  An update does not encrypt: the LTI secret of an updated tool is stored as it was sent.
\<close>

theorem updated_secret_in_clear:
  assumes "uc_updateExternalTool env userId toolId d s = (Inr saved, s')" and "toolId \<noteq> []"
  shows "\<exists>row \<in> set (tls_tools s'). eid row = toolId \<and> saved = tool_mapEntityToDO row \<and>
    stored_secret (ext_config row) = sent_secret (etd_config d)"
proof -
  have s: "stored_secret (mapConfigDOToEntity c) = sent_secret c" for c by (cases c) simp_all
  from uc_update_steps [OF assms(1)] obtain loaded s2 where
    u: "etd_id d = Some toolId"
      "tool_save env (increaseVersionOfNewToolIfNecessary loaded (merged loaded d)) s2 = (Inr saved, s')" by blast
  from saved_tool_stored [OF u(2)] s u(1) assms(2) show ?thesis
    by (auto simp: merged_def truthy_def)
qed

section \<open>Schools and their tools\<close>

text \<open>
  C38. An update of a tool of a school is permitted by the school that had it, and puts it into the school
  that the request names: an administrator can move a tool to a school that is not their own.
\<close>

theorem school_tool_can_change_school:
  assumes "uc_updateSchoolExternalTool env userId i d s = (Inr saved, s')" and "i \<noteq> []"
  shows "\<exists>old row. base_findById SchoolToolRepo (tls_schoolTools s) i = Inr old \<and>
    school_tool_admin env userId (setdo_schoolId old) \<and>
    row \<in> set (tls_schoolTools s') \<and> eid row = i \<and> set_school row = setdo_schoolId d \<and>
    set_tool row = setdo_toolId d \<and> setdo_schoolId saved = setdo_schoolId d"
proof -
  from assms(1) obtain x0 s0 x1 s1 mid s2 where
    w: "ensureSchoolExternalToolPermission env userId i s = (Inr x0, s0)" "validate env d s0 = (Inr x1, s1)"
      "school_save env (d\<lparr>setdo_id := Some i\<rparr>) s1 = (Inr mid, s2)"
      "enrichDataFromExternalTool env mid s2 = (Inr saved, s')"
    unfolding uc_updateSchoolExternalTool_def saveSchoolExternalTool_def bindE_eq_Inr by blast
  then obtain old where
    v: "base_findById SchoolToolRepo (tls_schoolTools s) i = Inr old"
      "school_tool_admin env userId (setdo_schoolId old)"
      "school_save env (d\<lparr>setdo_id := Some i\<rparr>) s1 = (Inr mid, s2)"
      "enrichDataFromExternalTool env mid s2 = (Inr saved, s')"
    using ensureSchoolExternalToolPermission_iff [of env userId i s s0] by auto
  have "s' = s2" using v(4) pureE_state [OF pure_services(4)] by blast
  moreover have "setdo_schoolId saved = setdo_schoolId mid"
    using v(4) by (auto simp: enrichDataFromExternalTool_def bindE_eq_Inr retE_def)
  moreover from school_save_rows [OF v(3)] assms(2) obtain e where
    "mid = schoolTool_mapEntityToDO e" "schoolTool_content (schoolTool_mapEntityToDO e) = schoolTool_content d"
    "eid e = i" "e \<in> set (tls_schoolTools s2)"
    by (fastforce simp: truthy_def schoolTool_content_def)
  ultimately show ?thesis using v(1,2)
    by (intro exI [of _ old] exI [of _ e]) (auto simp: schoolTool_content_def schoolTool_mapEntityToDO_def)
qed

end
