(* ===== verification/ToolInvariant.thy ===== *)
theory ToolInvariant
  imports ToolProperties
begin

text \<open>
  The invariant of the tables of external tools, the meaning of the version of a tool for the
  configurations of schools, and the tools that are available to a school.
\<close>

section \<open>The invariant\<close>

text \<open>
  No row points to a row that is gone, ids are unique and still to be given out, and no two tools
  have the same name. Only the empty name may occur twice.
\<close>

definition unique_names :: "ExternalTool list \<Rightarrow> bool" where
  "unique_names t \<longleftrightarrow>
     (\<forall>a \<in> set t. \<forall>b \<in> set t. ext_name a = ext_name b \<and> ext_name a \<noteq> [] \<longrightarrow> eid a = eid b)"

definition tools_ok :: "(ref \<Rightarrow> EntityId) \<Rightarrow> tool_state \<Rightarrow> bool" where
  "tools_ok newId s \<longleftrightarrow>
     distinct (map eid (tls_tools s)) \<and> distinct (map eid (tls_schoolTools s)) \<and>
     [] \<notin> eid ` set (tls_tools s) \<and> [] \<notin> eid ` set (tls_schoolTools s) \<and>
     (\<forall>e \<in> set (tls_schoolTools s). set_tool e \<in> eid ` set (tls_tools s)) \<and>
     (\<forall>c \<in> set (tls_courseTools s). cet_schoolTool c \<in> eid ` set (tls_schoolTools s)) \<and>
     unique_names (tls_tools s) \<and>
     (\<forall>r \<ge> tls_fresh s. newId r \<noteq> [] \<and> newId r \<notin> eid ` set (tls_tools s) \<and>
        newId r \<notin> eid ` set (tls_schoolTools s))"

lemma eid_replaced: "map eid (map (\<lambda>row. if eid row = eid e then e else row) t) = map eid t"
  by (induction t) auto

lemma set_replaced:
  assumes "eid e \<in> set (map eid t)"
  shows "set (map (\<lambda>row. if eid row = eid e then e else row) t) = insert e {row \<in> set t. eid row \<noteq> eid e}"
  using assms by force

lemma ok_tool_save:
  assumes ok: "tools_ok newId s" and newId: "inj newId" "te_newId env = newId"
    and saved: "tool_save env d s = (Inr d', s')"
    and name: "\<And>a. a \<in> set (tls_tools s) \<Longrightarrow> ext_name a = etd_name d \<Longrightarrow> etd_name d \<noteq> [] \<Longrightarrow> etd_id d = Some (eid a)"
  shows "tools_ok newId s'"
proof -
  from tool_save_rows [OF saved] obtain e where
    e: "tool_content (tool_mapEntityToDO e) = tool_content d"
    and tables: "tls_schoolTools s' = tls_schoolTools s" "tls_courseTools s' = tls_courseTools s"
      "tls_fresh s' = Suc (tls_fresh s)"
    and rows: "\<not> truthy (etd_id d) \<and> eid e = te_newId env (tls_fresh s) \<and> tls_tools s' = tls_tools s @ [e] \<or>
      etd_id d = Some (eid e) \<and> eid e \<noteq> [] \<and> eid e \<in> set (map eid (tls_tools s)) \<and>
       tls_tools s' = map (\<lambda>row. if eid row = eid e then e else row) (tls_tools s)" by blast
  have en: "ext_name e = etd_name d" using e by (simp add: tool_content_def tool_mapEntityToDO_def)
  have fresh: "newId r \<noteq> newId (tls_fresh s)" if "Suc (tls_fresh s) \<le> r" for r
    using newId(1) that by (auto dest: injD)
  from rows show ?thesis
  proof
    assume new: "\<not> truthy (etd_id d) \<and> eid e = te_newId env (tls_fresh s) \<and> tls_tools s' = tls_tools s @ [e]"
    have "ext_name a \<noteq> ext_name e" if "a \<in> set (tls_tools s)" "ext_name e \<noteq> []" for a
    proof
      assume "ext_name a = ext_name e"
      then have "etd_id d = Some (eid a)" using that(2) en by (intro name [OF that(1)]) simp_all
      moreover have "[] \<notin> eid ` set (tls_tools s)" using ok by (simp add: tools_ok_def)
      then have "eid a \<noteq> []" using that(1) by (metis imageI)
      ultimately show False using new by (simp add: truthy_def)
    qed
    moreover have "unique_names (tls_tools s)" using ok by (simp add: tools_ok_def)
    ultimately have names: "unique_names (tls_tools s')"
      using new unfolding unique_names_def by (metis Un_iff empty_iff empty_set list.set(2) insert_iff set_append)
    have ids: "map eid (tls_tools s') = map eid (tls_tools s) @ [newId (tls_fresh s)]"
      and idset: "eid ` set (tls_tools s') = insert (newId (tls_fresh s)) (eid ` set (tls_tools s))"
      using new newId(2) by auto
    have at: "newId (tls_fresh s) \<noteq> []" "newId (tls_fresh s) \<notin> eid ` set (tls_tools s)"
      using ok unfolding tools_ok_def by blast+
    show ?thesis using ok names at at(1) [symmetric] fresh unfolding tools_ok_def tables ids idset by simp
  next
    assume old: "etd_id d = Some (eid e) \<and> eid e \<noteq> [] \<and> eid e \<in> set (map eid (tls_tools s)) \<and>
       tls_tools s' = map (\<lambda>row. if eid row = eid e then e else row) (tls_tools s)"
    then have rep: "tls_tools s' = map (\<lambda>row. if eid row = eid e then e else row) (tls_tools s)"
      "eid e \<in> set (map eid (tls_tools s))" by blast+
    have ids: "map eid (tls_tools s') = map eid (tls_tools s)" unfolding rep(1) by (rule eid_replaced)
    have rows': "set (tls_tools s') = insert e {row \<in> set (tls_tools s). eid row \<noteq> eid e}"
      unfolding rep(1) by (rule set_replaced [OF rep(2)])
    have idset: "eid ` set (tls_tools s') = eid ` set (tls_tools s)" using ids by (metis set_map)
    have "ext_name a \<noteq> ext_name e" if "a \<in> set (tls_tools s)" "ext_name e \<noteq> []" "eid a \<noteq> eid e" for a
      using name [OF that(1)] that old en by auto
    moreover have "unique_names (tls_tools s)" using ok by (simp add: tools_ok_def)
    ultimately have names: "unique_names (tls_tools s')"
      unfolding rows' unique_names_def by (metis (mono_tags, lifting) insert_iff mem_Collect_eq)
    show ?thesis
      using ok names unfolding tools_ok_def tables ids idset by simp
  qed
qed

lemma ok_school_save:
  assumes ok: "tools_ok newId s" and newId: "inj newId" "te_newId env = newId"
    and saved: "school_save env d s = (Inr d', s')" and tool: "setdo_toolId d \<in> eid ` set (tls_tools s)"
  shows "tools_ok newId s'"
proof -
  from school_save_rows [OF saved] obtain e where
    e: "schoolTool_content (schoolTool_mapEntityToDO e) = schoolTool_content d"
    and tables: "tls_tools s' = tls_tools s" "tls_courseTools s' = tls_courseTools s"
      "tls_fresh s' = Suc (tls_fresh s)"
    and rows: "\<not> truthy (setdo_id d) \<and> eid e = te_newId env (tls_fresh s) \<and>
        tls_schoolTools s' = tls_schoolTools s @ [e] \<or>
      setdo_id d = Some (eid e) \<and> eid e \<noteq> [] \<and> eid e \<in> set (map eid (tls_schoolTools s)) \<and>
       tls_schoolTools s' = map (\<lambda>row. if eid row = eid e then e else row) (tls_schoolTools s)" by blast
  have tool_e: "set_tool e \<in> eid ` set (tls_tools s)"
    using e tool by (simp add: schoolTool_content_def schoolTool_mapEntityToDO_def)
  have fresh: "newId r \<noteq> newId (tls_fresh s)" if "Suc (tls_fresh s) \<le> r" for r
    using newId(1) that by (auto dest: injD)
  from rows show ?thesis
  proof
    assume new: "\<not> truthy (setdo_id d) \<and> eid e = te_newId env (tls_fresh s) \<and> tls_schoolTools s' = tls_schoolTools s @ [e]"
    have ids: "map eid (tls_schoolTools s') = map eid (tls_schoolTools s) @ [newId (tls_fresh s)]"
      and idset: "eid ` set (tls_schoolTools s') = insert (newId (tls_fresh s)) (eid ` set (tls_schoolTools s))"
      and rows': "set (tls_schoolTools s') = insert e (set (tls_schoolTools s))"
      using new newId(2) by auto
    have at: "newId (tls_fresh s) \<noteq> []" "newId (tls_fresh s) \<notin> eid ` set (tls_schoolTools s)"
      using ok unfolding tools_ok_def by blast+
    have "\<forall>x \<in> set (tls_schoolTools s'). set_tool x \<in> eid ` set (tls_tools s)"
      using ok tool_e unfolding rows' tools_ok_def by simp
    then show ?thesis using ok at at(1) [symmetric] fresh unfolding tools_ok_def tables ids idset by simp
  next
    assume old: "setdo_id d = Some (eid e) \<and> eid e \<noteq> [] \<and> eid e \<in> set (map eid (tls_schoolTools s)) \<and>
       tls_schoolTools s' = map (\<lambda>row. if eid row = eid e then e else row) (tls_schoolTools s)"
    then have rep: "tls_schoolTools s' = map (\<lambda>row. if eid row = eid e then e else row) (tls_schoolTools s)"
      "eid e \<in> set (map eid (tls_schoolTools s))" by blast+
    have ids: "map eid (tls_schoolTools s') = map eid (tls_schoolTools s)" unfolding rep(1) by (rule eid_replaced)
    have rows': "set (tls_schoolTools s') = insert e {row \<in> set (tls_schoolTools s). eid row \<noteq> eid e}"
      unfolding rep(1) by (rule set_replaced [OF rep(2)])
    have idset: "eid ` set (tls_schoolTools s') = eid ` set (tls_schoolTools s)" using ids by (metis set_map)
    have "\<forall>x \<in> set (tls_schoolTools s'). set_tool x \<in> eid ` set (tls_tools s)"
      using ok tool_e unfolding rows' tools_ok_def by auto
    then show ?thesis using ok unfolding tools_ok_def tables ids idset by simp
  qed
qed

text \<open>Names are checked before a tool is saved.\<close>

lemma findOne_None: "findOne p xs = None \<longleftrightarrow> (\<forall>x \<in> set xs. \<not> p x)"
  by (auto simp: findOne_def find_None_iff)

lemma validateCommon_name:
  assumes "validateCommon env d s = (Inr (), s')" and "tools_ok newId s"
    and "a \<in> set (tls_tools s)" "ext_name a = etd_name d" "etd_name d \<noteq> []"
  shows "etd_id d = Some (eid a)"
proof -
  let ?found = "findOne (\<lambda>e. ext_name e = etd_name d) (tls_tools s)"
  from assms(1,5) have u: "case map_option tool_mapEntityToDO ?found of None \<Rightarrow> True | Some t \<Rightarrow> etd_id t = etd_id d"
    by (auto simp: validateCommon_def isNameUnique_def findByName_def bindE_eq_Inr queryE_def retE_def liftE_def
        guardR_eq_Inr)
  obtain b where b: "?found = Some b"
    using assms(3,4) findOne_None [of "\<lambda>e. ext_name e = etd_name d" "tls_tools s"] by (cases ?found) auto
  then have "b \<in> set (tls_tools s)" "ext_name b = etd_name d"
    using find_eq_Some [of "\<lambda>e. ext_name e = etd_name d" "tls_tools s" b] by (simp_all add: findOne_def)
  with assms(2-) have "eid b = eid a"
    unfolding tools_ok_def unique_names_def by (metis (no_types, lifting))
  with u b show ?thesis by (simp add: tool_mapEntityToDO_def)
qed

lemma after_pure:
  assumes "pureE m" "tools_ok newId s" "\<And>x. m s = (Inr x, s) \<Longrightarrow> tools_ok newId (snd (f x s))"
  shows "tools_ok newId (snd (bindE m f s))"
  using assms by (cases "m s") (auto simp: bindE_def pureE_def split: sum.split dest: spec [of _ s])

lemma base_findById_in: "base_findById repo t i = Inr d \<Longrightarrow> i \<in> eid ` set t"
  by (auto simp: base_findById_def row_or_fail_def bindR_eq_Inr dest!: find_row_in split: option.splits)

lemma findExternalToolById_in:
  "findExternalToolById env i s = (Inr t, s') \<Longrightarrow> i \<in> eid ` set (tls_tools s)"
  by (auto simp: findExternalToolById_def tool_findById_def bindE_eq_Inr queryE_def dest: base_findById_in)

lemma tools_ok_sent: "tools_ok newId (s\<lparr>tls_sent := x\<rparr>) = tools_ok newId s"
  by (simp add: tools_ok_def)

lemma ok_create:
  assumes ok: "tools_ok newId s" and newId: "inj newId" "te_newId env = newId"
    and valid: "validateCommon env d s = (Inr (), s)"
  shows "tools_ok newId (snd (createExternalTool env d s))"
proof -
  have save: "tools_ok newId (snd (tool_save env (d\<lparr>etd_config := c\<rparr>) (s\<lparr>tls_sent := x\<rparr>)))" for c x
  proof (cases "tool_save env (d\<lparr>etd_config := c\<rparr>) (s\<lparr>tls_sent := x\<rparr>)")
    case (Pair r s')
    show ?thesis
    proof (cases r)
      case (Inl y)
      with Pair ok tools_ok_sent show ?thesis by (auto simp: tool_save_def split: sum.splits prod.splits)
    next
      case (Inr d')
      have "tools_ok newId s'"
        by (rule ok_tool_save [OF _ newId Pair [unfolded Inr]])
          (use ok tools_ok_sent validateCommon_name [OF valid ok] in auto)
      then show ?thesis using Pair by simp
    qed
  qed
  have plain: "tools_ok newId (snd (tool_save env d (s\<lparr>tls_sent := x\<rparr>)))" for x
    using save [of "etd_config d" x] by simp
  show ?thesis
  proof (cases "etd_config d")
    case (BasicConfigDO c)
    then show ?thesis using plain [of "tls_sent s"] by (simp add: createExternalTool_def)
  next
    case (Lti11ConfigDO c)
    then show ?thesis
      using save [of "Lti11ConfigDO (c\<lparr>lcd_secret := te_encrypt env (lcd_secret c)\<rparr>)" "tls_sent s"]
      by (simp add: createExternalTool_def)
  next
    case (Oauth2ConfigDO c)
    then show ?thesis using plain ok
      by (auto simp: createExternalTool_def bindE_def send_def split: option.split)
  qed
qed

lemma bind_unit: "snd (bindE m (\<lambda>_. retE ()) s) = snd (m s)"
  by (simp add: bindE_def retE_def split: prod.split sum.split)

lemma ok_uc_create:
  assumes ok: "tools_ok newId s" and newId: "inj newId" "te_newId env = newId"
  shows "tools_ok newId (snd (uc_createExternalTool env userId d s))"
  unfolding uc_createExternalTool_def
proof (rule after_pure [OF pure_repositories(10) ok], rule after_pure [OF pure_validation(2) ok])
  fix x assume "validateCreate env d s = (Inr x, s)"
  then have "validateCommon env d s = (Inr (), s)"
    using pureE_state [OF pure_validation(1), of env d s] by (auto simp: validateCreate_def bindE_eq_Inr)
  then show "tools_ok newId (snd (createExternalTool env d s))" by (rule ok_create [OF ok newId])
qed

lemma ok_uc_update:
  assumes ok: "tools_ok newId s" and newId: "inj newId" "te_newId env = newId"
  shows "tools_ok newId (snd (uc_updateExternalTool env userId toolId d s))"
  unfolding uc_updateExternalTool_def
proof (rule after_pure [OF pure_repositories(10) ok], rule after_pure [OF pure_validation(3) ok],
    rule after_pure [OF pure_services(2) ok])
  fix x loaded
  assume "validateUpdate env toolId d s = (Inr x, s)"
  then have valid: "validateCommon env d s = (Inr (), s)"
    using pureE_state [OF pure_validation(1), of env d s] by (auto simp: validateUpdate_def bindE_eq_Inr liftE_def)
  have sent: "\<exists>y. snd (updateOauth2ToolConfig env x s) = s\<lparr>tls_sent := y\<rparr>" for x
    by (auto simp: updateOauth2ToolConfig_def updateOauthClientOrThrow_def send_def throwE_def retE_def
        getOAuth2Client_def queryE_def bindE_def split: AnyToolConfigDO.split option.split sum.split
        intro: exI [of _ "tls_sent s"])
  have "tools_ok newId (snd (tool_save env (increaseVersionOfNewToolIfNecessary loaded (merged loaded d)) (s\<lparr>tls_sent := y\<rparr>)))"
    (is "tools_ok newId (snd (?m ?s))") for y
  proof (cases "?m ?s")
    case (Pair r s')
    show ?thesis
    proof (cases r)
      case (Inl e)
      with Pair ok tools_ok_sent show ?thesis by (auto simp: tool_save_def split: sum.splits prod.splits)
    next
      case (Inr d')
      have "tools_ok newId s'"
        by (rule ok_tool_save [OF _ newId Pair [unfolded Inr]])
          (use ok tools_ok_sent validateCommon_name [OF valid ok] in \<open>auto simp: merged_def\<close>)
      then show ?thesis using Pair by simp
    qed
  qed
  note saves = this
  obtain r y where sent': "updateOauth2ToolConfig env (merged loaded d) s = (r, s\<lparr>tls_sent := y\<rparr>)"
    using sent [of "merged loaded d"] by (cases "updateOauth2ToolConfig env (merged loaded d) s") auto
  show "tools_ok newId (snd (updateExternalTool env (merged loaded d) loaded s))"
    using saves [of y] ok by (cases r) (simp_all add: updateExternalTool_def bindE_def sent' tools_ok_sent)
qed

lemma ok_deleteExternalTool:
  assumes "tools_ok newId s"
  shows "tools_ok newId (snd (deleteExternalTool toolId s))"
proof -
  let ?ids = "map (\<lambda>t. the (setdo_id t)) (map schoolTool_mapEntityToDO
      (filter (\<lambda>e. set_tool e = toolId) (tls_schoolTools s)))"
  have ids: "set ?ids = eid ` {e \<in> set (tls_schoolTools s). set_tool e = toolId}"
    by (auto simp: schoolTool_mapEntityToDO_def)
  have s': "tls_tools (snd (deleteExternalTool toolId s)) = filter (\<lambda>e. eid e \<noteq> toolId) (tls_tools s)"
      "tls_schoolTools (snd (deleteExternalTool toolId s)) = filter (\<lambda>e. set_tool e \<noteq> toolId) (tls_schoolTools s)"
      "tls_courseTools (snd (deleteExternalTool toolId s)) = filter (\<lambda>e. cet_schoolTool e \<notin> set ?ids) (tls_courseTools s)"
      "tls_fresh (snd (deleteExternalTool toolId s)) = tls_fresh s"
    by (simp_all add: image_image deleteExternalTool_def findByExternalToolId_def deleteBySchoolExternalToolIds_def
        deleteByExternalToolId_def tool_deleteById_def base_deleteById_def queryE_def modifyE_def bindE_def Let_def)
  have "unique_names (filter (\<lambda>e. eid e \<noteq> toolId) (tls_tools s))"
    using assms unfolding tools_ok_def unique_names_def by (metis (no_types, lifting) filter_is_subset subsetD)
  moreover have "cet_schoolTool c \<in> eid ` set (filter (\<lambda>e. set_tool e \<noteq> toolId) (tls_schoolTools s))"
    if "c \<in> set (tls_courseTools s)" "cet_schoolTool c \<notin> set ?ids" for c
    using assms that unfolding tools_ok_def ids by fastforce
  moreover have "set_tool e \<in> eid ` set (filter (\<lambda>e. eid e \<noteq> toolId) (tls_tools s))"
    if "e \<in> set (tls_schoolTools s)" "set_tool e \<noteq> toolId" for e
    using assms that unfolding tools_ok_def by fastforce
  ultimately show ?thesis
    using assms unfolding s' tools_ok_def by (simp add: distinct_map_filter image_iff)
qed

lemma ok_delete_school_tool:
  assumes "tools_ok newId s" and "i \<noteq> []"
  shows "tools_ok newId (snd (bindE (deleteBySchoolExternalToolId i) (\<lambda>_. school_deleteById i) s))"
proof -
  let ?del = "map courseTool_mapEntityToDO (filter (\<lambda>e. cet_schoolTool e = i) (tls_courseTools s))"
  have entity: "eid (createNewEntityFromDO CourseToolRepo 0 0 (courseTool_mapEntityToDO e)) = eid e" for e
    by (simp add: createNewEntityFromDO_def CourseToolRepo_def courseTool_mapEntityToDO_def new_CourseExternalTool_def
        truthy_def Let_def)
  have found: "scope_query (course_buildScope (Some i)) = (\<lambda>e. cet_schoolTool e = i)"
    using assms(2) by (simp add: fun_eq_iff course_buildScope_def course_bySchoolToolId_def scope_query_def truthy_def
        new_Scope_def addQuery_def allowEmptyQuery_def)
  have s': "snd (bindE (deleteBySchoolExternalToolId i) (\<lambda>_. school_deleteById i) s) = s
      \<lparr>tls_courseTools := base_delete CourseToolRepo (tls_courseTools s) ?del,
       tls_schoolTools := filter (\<lambda>e. eid e \<noteq> i) (tls_schoolTools s)\<rparr>"
    by (simp add: deleteBySchoolExternalToolId_def course_find_def course_delete_def school_deleteById_def
        base_deleteById_def queryE_def modifyE_def bindE_def found)
  have "cet_schoolTool c \<in> eid ` set (filter (\<lambda>e. eid e \<noteq> i) (tls_schoolTools s))"
    if "c \<in> set (base_delete CourseToolRepo (tls_courseTools s) ?del)" for c
  proof -
    have "set (map eid (map (createNewEntityFromDO CourseToolRepo 0 0) ?del)) =
        eid ` {e \<in> set (tls_courseTools s). cet_schoolTool e = i}"
      by (simp add: image_image entity)
    with that have c: "c \<in> set (tls_courseTools s)" "cet_schoolTool c \<noteq> i"
      by (auto simp: base_delete_def Let_def)
    then have "cet_schoolTool c \<in> eid ` set (tls_schoolTools s)" using assms(1) by (simp add: tools_ok_def)
    with c(2) show ?thesis by fastforce
  qed
  then show ?thesis
    using assms(1) unfolding s' tools_ok_def by (simp add: distinct_map_filter image_iff)
qed

lemma ok_save_school_tool:
  assumes ok: "tools_ok newId s" and newId: "inj newId" "te_newId env = newId"
    and valid: "validate env v s = (Inr (), s)" and d: "setdo_toolId d = setdo_toolId v"
  shows "tools_ok newId (snd (saveSchoolExternalTool env d s))"
proof -
  have tool: "setdo_toolId d \<in> eid ` set (tls_tools s)"
    using valid d by (auto simp: school_configuration_valid_iff intro: findExternalToolById_in)
  show ?thesis
  proof (cases "school_save env d s")
    case (Pair r s')
    show ?thesis
    proof (cases r)
      case (Inl e)
      then have "s' = s" using Pair by (auto simp: school_save_def split: sum.splits prod.splits)
      with Inl Pair ok show ?thesis by (simp add: saveSchoolExternalTool_def bindE_def)
    next
      case (Inr d')
      then have "tools_ok newId s'" using ok_school_save [OF ok newId _ tool] Pair by simp
      moreover have "snd (enrichDataFromExternalTool env d' s') = s'"
        using pure_services(4) by (simp add: pureE_def)
      ultimately show ?thesis using Inr Pair by (simp add: saveSchoolExternalTool_def bindE_def)
    qed
  qed
qed

lemma serve_ok:
  assumes ok: "tools_ok newId s" and newId: "inj newId" "te_newId env = newId"
  shows "tools_ok newId (snd (serve env userId request s))"
proof (cases request)
  case (PostTool p)
  then show ?thesis using ok_uc_create [OF assms] by (simp add: bind_unit)
next
  case (UpdateTool i p)
  then show ?thesis using ok_uc_update [OF assms] by (simp add: bind_unit)
next
  case (DeleteTool i)
  then show ?thesis
    by (simp add: uc_deleteExternalTool_def after_pure [OF pure_repositories(10) ok] ok_deleteExternalTool [OF ok])
next
  case (PostSchoolTool p)
  have "tools_ok newId (snd (uc_createSchoolExternalTool env userId d s))" for d
    unfolding uc_createSchoolExternalTool_def
    by (rule after_pure [OF pure_repositories(12) ok], rule after_pure [OF pure_validation(4) ok])
      (use ok_save_school_tool [OF assms, of d d] in simp)
  then show ?thesis using PostSchoolTool by (simp add: bind_unit)
next
  case (UpdateSchoolTool i p)
  have "tools_ok newId (snd (uc_updateSchoolExternalTool env userId i d s))" for d
    unfolding uc_updateSchoolExternalTool_def
    by (rule after_pure [OF pure_repositories(13) ok], rule after_pure [OF pure_validation(4) ok])
      (use ok_save_school_tool [OF assms, of d "d\<lparr>setdo_id := Some i\<rparr>"] in simp)
  then show ?thesis using UpdateSchoolTool by (simp add: bind_unit)
next
  case (DeleteSchoolTool i)
  have "i \<noteq> []" if "ensureSchoolExternalToolPermission env userId i s = (Inr x, s)" for x
    using that ok ensureSchoolExternalToolPermission_iff [of env userId i s s]
    by (auto simp: tools_ok_def dest: base_findById_in)
  then show ?thesis using DeleteSchoolTool
    by (auto simp: uc_deleteSchoolExternalTool_def intro!: after_pure [OF pure_repositories(13) ok] ok_delete_school_tool [OF ok])
qed

text \<open>Requests served one after another, each by its user in its environment.\<close>

definition serve_all :: "(tool_env \<times> EntityId \<times> tool_request) list \<Rightarrow> tool_state \<Rightarrow> tool_state" where
  "serve_all requests s = fold (\<lambda>(env, userId, request) s. snd (serve env userId request s)) requests s"

text \<open>
  C20. Whatever requests are served, and whatever the provider answers and users may do: no tool of a
  school is left without its tool, no tool of a course without the tool of its school, ids stay
  unique, and no two tools get the same name, except the empty one.
\<close>

theorem tool_tables_stay_ok:
  assumes "tools_ok newId s" and "inj newId" and "list_all (\<lambda>(env, _, _). te_newId env = newId) requests"
  shows "tools_ok newId (serve_all requests s)"
  using assms(1,3) unfolding serve_all_def
proof (induction requests arbitrary: s)
  case (Cons q qs)
  obtain env userId request where q: "q = (env, userId, request)" by (cases q)
  have "tools_ok newId (snd (serve env userId request s))"
    using Cons.prems q by (intro serve_ok assms(2)) simp_all
  from Cons.IH [OF this] show ?case using Cons.prems(2) q by simp
qed simp

end
