(* ===== verification/ToolVersions.thy ===== *)
theory ToolVersions
  imports ToolInvariant Samples
begin

text \<open>
  What the version of a tool says about the configurations of schools, which tools a school may still
  configure, and a small school to run the requests on.
\<close>

section \<open>Versions\<close>

definition same_name :: "string \<Rightarrow> string \<Rightarrow> bool" where
  "same_name a b \<longleftrightarrow> toLowerCase a = toLowerCase b"

lemma hasDuplicateAttributes_iff:
  "hasDuplicateAttributes ps \<longleftrightarrow> \<not> distinct (map (\<lambda>p. toLowerCase (cpd_name p)) ps)"
  by (auto simp: hasDuplicateAttributes_def distinct_conv_nth list_ex_iff atLeast0LessThan)

lemma distinct_names:
  assumes "\<not> hasDuplicateAttributes ps" "p \<in> set ps" "q \<in> set ps" "cpd_name p = cpd_name q"
  shows "p = q"
proof -
  have "inj_on (\<lambda>p. toLowerCase (cpd_name p)) (set ps)"
    using assms(1) by (simp add: hasDuplicateAttributes_iff distinct_map)
  then show ?thesis by (rule inj_onD) (use assms in simp_all)
qed

lemma matching_param_unique:
  assumes "\<not> hasDuplicateAttributes ps" "q \<in> set ps" "cpd_name q = cpd_name p"
  shows "matching_param ps p = Some q"
proof -
  obtain r where r: "matching_param ps p = Some r"
    using assms find_is_Some [of q ps "\<lambda>x. cpd_name x = cpd_name p"] by (auto simp: matching_param_def)
  then have "r \<in> set ps" "cpd_name r = cpd_name p"
    using find_eq_Some [of "\<lambda>x. cpd_name x = cpd_name p" ps r] by (simp_all add: matching_param_def)
  with assms r distinct_names [OF assms(1)] show ?thesis by metis
qed

lemma unchanged_params:
  assumes same: "\<not> compareParameters ps qs"
    and names: "\<not> hasDuplicateAttributes ps" "\<not> hasDuplicateAttributes qs"
    and p: "p \<in> set ps" and q: "q \<in> set qs" and pq: "cpd_name p = cpd_name q"
  shows "cpd_isOptional p = cpd_isOptional q \<and> cpd_regex p = cpd_regex q \<and> cpd_type p = cpd_type q \<and>
    cpd_scope p = cpd_scope q"
proof -
  let ?ms = "filter (\<lambda>old. list_ex (\<lambda>n. cpd_name old = cpd_name n) qs) ps"
  have m: "matching_param ps q = Some p" "matching_param qs p = Some q"
    using matching_param_unique names p q pq by metis+
  have in_ms: "p \<in> set ?ms" using p q pq by (auto simp: list_ex_iff)
  have c: "\<not> hasChanged cpd_isOptional ps qs" "\<not> hasChanged cpd_regex qs ?ms"
    "\<not> hasChanged cpd_type qs ?ms" "\<not> hasChanged cpd_scope qs ?ms"
    using same by (simp_all add: compareParameters_def Let_def hasChangedRequiredParameters_def
        hasChangedParameterRegex_def hasChangedParameterTypes_def hasChangedParameterScope_def)
  have stays: "f x = f y" if "\<not> hasChanged f a b" "x \<in> set b" "matching_param a x = Some y" for f :: "CustomParameterDO \<Rightarrow> 'z" and a b x y
    using that by (force simp: hasChanged_def list_ex_iff)
  show ?thesis
    using stays [OF c(1) q m(1)] stays [OF c(2) in_ms m(2)] stays [OF c(3) in_ms m(2)] stays [OF c(4) in_ms m(2)]
    by simp
qed

lemma still_fits:
  assumes same: "\<not> compareParameters ps qs"
    and names: "\<not> hasDuplicateAttributes ps" "\<not> hasDuplicateAttributes qs"
    and spelling: "\<And>p q. p \<in> set ps \<Longrightarrow> q \<in> set qs \<Longrightarrow> same_name (cpd_name p) (cpd_name q) \<Longrightarrow> cpd_name p = cpd_name q"
    and known: "\<And>e. e \<in> set es \<Longrightarrow> \<exists>p \<in> set ps. same_name (ped_name e) (cpd_name p)"
    and fits: "\<And>p. p \<in> set ps \<Longrightarrow> cpd_scope p = SCOPE_SCHOOL \<Longrightarrow> entry_fits env es p"
    and q: "q \<in> set qs" "cpd_scope q = SCOPE_SCHOOL"
  shows "entry_fits env es q"
proof (cases "\<exists>p \<in> set ps. cpd_name p = cpd_name q")
  case True
  then obtain p where p: "p \<in> set ps" "cpd_name p = cpd_name q" by blast
  note u = unchanged_params [OF same names p(1) q(1) p(2)]
  then have "entry_fits env es p" using fits p(1) q(2) by simp
  then show ?thesis using u p(2) by (simp add: entry_fits_def cong: option.case_cong)
next
  case False
  then have "cpd_isOptional q"
    using same q(1) by (auto simp: compareParameters_def Let_def hasNewRequiredParameter_def list_ex_iff list_all_iff)
  moreover have "List.find (\<lambda>e. toLowerCase (ped_name e) = toLowerCase (cpd_name q)) es = None"
  proof (rule ccontr)
    assume "List.find (\<lambda>e. toLowerCase (ped_name e) = toLowerCase (cpd_name q)) es \<noteq> None"
    then obtain e where "e \<in> set es" "same_name (ped_name e) (cpd_name q)"
      by (auto simp: find_eq_None same_name_def)
    with known obtain p where "p \<in> set ps" "same_name (cpd_name p) (cpd_name q)" by (fastforce simp: same_name_def)
    with spelling q(1) False show False by blast
  qed
  ultimately show ?thesis by (simp add: entry_fits_def)
qed

text \<open>The tool that a service finds has the parameters and the version of the stored one.\<close>

lemma resolve_tool_keeps:
  "resolve_tool env t s = (Inr t', s') \<Longrightarrow> etd_parameters t' = etd_parameters t \<and> etd_version t' = etd_version t \<and>
     etd_id t' = etd_id t \<and> etd_isHidden t' = etd_isHidden t \<and> etd_name t' = etd_name t"
  by (auto simp: resolve_tool_def bindE_eq_Inr retE_def split: AnyToolConfigDO.splits)

lemma findExternalToolById_stored:
  assumes "findExternalToolById env i s = (Inr t, s')" and "base_findById ExternalToolRepo (tls_tools s) i = Inr old"
  shows "etd_parameters t = etd_parameters old \<and> etd_version t = etd_version old"
  using assms
  by (auto simp: findExternalToolById_def tool_findById_def bindE_eq_Inr queryE_def catchE_eq_Inr throwE_def
      dest: resolve_tool_keeps)

lemma stored_parameters: "base_findById ExternalToolRepo t i = Inr d \<Longrightarrow> \<exists>ps. etd_parameters d = Some ps"
  by (auto simp: base_findById_def bindR_eq_Inr ExternalToolRepo_def tool_mapEntityToDO_def)

text \<open>
  C21. An update that does not raise the version of a tool keeps the configurations of the schools valid:
  what fitted the parameters of the old tool fits those of the new one. This needs that the new
  tool does not change the case of a name, and that the configuration has no entries for names
  that the old tool did not have; the services check neither.
\<close>

theorem same_version_same_configurations:
  assumes update: "uc_updateExternalTool env userId toolId d s = (Inr saved, s')"
    and old: "base_findById ExternalToolRepo (tls_tools s) toolId = Inr old"
    and version: "etd_version saved = etd_version old"
    and distinct: "\<not> hasDuplicateAttributes (nullish (etd_parameters old) [])"
    and spelling: "list_all (\<lambda>p. list_all (\<lambda>q. same_name (cpd_name p) (cpd_name q) \<longrightarrow> cpd_name p = cpd_name q)
      (nullish (etd_parameters d) [])) (nullish (etd_parameters old) [])"
    and known: "list_all (\<lambda>e. list_ex (\<lambda>p. same_name (ped_name e) (cpd_name p)) (nullish (etd_parameters old) []))
      (setdo_parameters cfg)"
    and valid: "checkCustomParameterEntries env old cfg = Inr ()"
  shows "checkCustomParameterEntries env saved cfg = Inr ()"
proof -
  obtain ps where ps: "etd_parameters old = Some ps" using stored_parameters [OF old] by blast
  from uc_update_steps [OF update] obtain loaded s2 where
    u: "validateCommon env d s = (Inr (), s)" "findExternalToolById env toolId s = (Inr loaded, s)"
      "tool_save env (increaseVersionOfNewToolIfNecessary loaded (merged loaded d)) s2 = (Inr saved, s')" by blast
  note loaded = findExternalToolById_stored [OF u(2) old]
  let ?new = "increaseVersionOfNewToolIfNecessary loaded (merged loaded d)"
  from tool_save_rows [OF u(3)] have "tool_content saved = tool_content ?new" by auto
  then have sv: "nullish (etd_parameters saved) [] = nullish (etd_parameters d) []" "etd_version saved = etd_version ?new"
    by (simp_all add: tool_content_def merged_def)
  show ?thesis
  proof (cases "etd_parameters d")
    case None
    then show ?thesis using sv(1) by (simp add: checkCustomParameterEntries_iff)
  next
    case (Some qs)
    have same: "\<not> compareParameters ps qs"
      using version sv(2) loaded ps Some
      by (simp add: increaseVersionOfNewToolIfNecessary_def merged_def split: if_splits)
    have "\<not> hasDuplicateAttributes qs"
      using u(1) Some pureE_state [OF pure_repositories(3)]
      by (auto simp: validateCommon_def validateParameters_def bindE_eq_Inr liftE_def bindR_eq_Inr guardR_eq_Inr)
    then have "entry_fits env (setdo_parameters cfg) q" if "q \<in> set qs" "cpd_scope q = SCOPE_SCHOOL" for q
      using still_fits [OF same _ _ _ _ _ that, of "setdo_parameters cfg" env] distinct spelling known valid ps Some
      by (auto simp: checkCustomParameterEntries_iff list_all_iff list_ex_iff)
    then show ?thesis using sv(1) Some by (simp add: checkCustomParameterEntries_iff)
  qed
qed

section \<open>Available tools\<close>

lemma mapME_pure_map:
  "(\<And>x. f x s = (Inr (g x), s)) \<Longrightarrow> mapME f xs s = (Inr (map g xs), s)"
  by (induction xs) (simp_all add: bindE_def retE_def)

lemma mapME_keeps_field:
  assumes "mapME f xs s = (Inr ys, s')" and "\<And>x y s s'. f x s = (Inr y, s') \<Longrightarrow> h y = h' x"
  shows "map h ys = map h' xs"
  using assms(1)
proof (induction xs arbitrary: ys s)
  case (Cons x xs)
  from Cons.prems obtain y zs s1 where s: "f x s = (Inr y, s1)" "mapME f xs s1 = (Inr zs, s')" "ys = y # zs"
    by (auto simp: bindE_eq_Inr retE_def)
  from Cons.IH [OF s(2)] assms(2) [OF s(1)] s(3) show ?case by simp
qed (simp add: retE_def)

definition resolved :: "tool_env \<Rightarrow> tool_state \<Rightarrow> ExternalToolDO \<Rightarrow> ExternalToolDO option" where
  "resolved env s tool = (case fst (resolve_tool env tool s) of Inl _ \<Rightarrow> None | Inr t \<Rightarrow> Some t)"

text \<open>The provider knows the tool, if it is one of OAuth2.\<close>

definition resolves :: "tool_env \<Rightarrow> tool_state \<Rightarrow> ExternalTool \<Rightarrow> bool" where
  "resolves env s e \<longleftrightarrow> resolved env s (tool_mapEntityToDO e) \<noteq> None"

lemma resolve_run: "resolve_tool env tool s = (fst (resolve_tool env tool s), s)"
  using pure_services(1) [of env tool] by (simp add: pureE_def prod_eq_iff)

lemma findExternalTools_all:
  "findExternalTools env \<lparr>tq_name = None, tq_isHidden = None\<rparr> None s =
     (Inr (List.map_filter (resolved env s) (map tool_mapEntityToDO (sort_key eid (tls_tools s))),
           length (tls_tools s)), s)"
proof -
  have all: "scope_query (allowEmptyQuery (new_Scope AndOp) True) = (\<lambda>e. True)"
    by (simp add: fun_eq_iff scope_query_def allowEmptyQuery_def new_Scope_def)
  have find: "tool_find env \<lparr>tq_name = None, tq_isHidden = None\<rparr> None s =
      (Inr (map tool_mapEntityToDO (sort_key eid (tls_tools s)), length (tls_tools s)), s)"
    by (simp add: tool_find_def queryE_def truthy_def tool_byName_def tool_byHidden_def
        mapDOSortOrderToQueryOrder_def sort_rows_def all Let_def)
  have step: "catchE (bindE (resolve_tool env tool) (\<lambda>t. retE (Some t))) (\<lambda>_. retE None) s = (Inr (resolved env s tool), s)" for tool
    using resolve_run [of env tool s]
    by (cases "fst (resolve_tool env tool s)") (simp_all add: catchE_def bindE_def retE_def resolved_def)
  have run: "mapME (\<lambda>tool. catchE (bindE (resolve_tool env tool) (\<lambda>t. retE (Some t))) (\<lambda>_. retE None)) tools s =
      (Inr (map (resolved env s) tools), s)" for tools
    by (rule mapME_pure_map) (rule step)
  show ?thesis
    unfolding findExternalTools_def
    by (subst bindE_Inr, rule find, simp only: prod.case, subst bindE_Inr, rule run)
      (simp add: retE_def List.map_filter_def comp_def filter_map)
qed

text \<open>
  The tools that are available to a school are, in the order of their ids, those that are not
  hidden, that the provider still knows if they are of OAuth2, and that the school has not
  configured yet.
\<close>

theorem available_tools_are_free:
  assumes "uc_getAvailableToolsForSchool env userId schoolId s = (Inr ts, s')" and "schoolId \<noteq> []"
  shows "s' = s \<and> map etd_id ts = map (\<lambda>e. Some (eid e)) (filter (\<lambda>e. \<not> ext_isHidden e \<and> eid e \<noteq> [] \<and> resolves env s e \<and>
      \<not> list_ex (\<lambda>st. set_school st = schoolId \<and> set_tool st = eid e) (tls_schoolTools s)) (sort_key eid (tls_tools s)))"
proof -
  let ?rows = "sort_key eid (tls_tools s)"
  let ?tools = "List.map_filter (resolved env s) (map tool_mapEntityToDO ?rows)"
  obtain x s0 used where
    w: "ensureSchoolPermission env userId schoolId s = (Inr x, s0)"
      "findSchoolExternalTools env (Some schoolId) s0 = (Inr used, s')"
      "ts = filter (\<lambda>tool. \<not> etd_isHidden tool \<and> truthy (etd_id tool) \<and>
        the (etd_id tool) \<notin> set (map setdo_toolId used))
        (List.map_filter (resolved env s0) (map tool_mapEntityToDO (sort_key eid (tls_tools s0))))"
    using assms(1) unfolding uc_getAvailableToolsForSchool_def
    by (auto simp: bindE_eq_Inr findExternalTools_all retE_def Let_def)
  have s0: "s0 = s" by (rule pureE_state [OF pure_repositories(12) w(1)])
  have s': "s' = s" using pureE_state [OF pure_services(5) w(2)] s0 by simp
  note used = w(2) [unfolded s0 s'] and ts = w(3) [unfolded s0]
  have scope: "scope_query (school_buildScope (Some schoolId)) = (\<lambda>e. set_school e = schoolId)"
    using assms(2) by (simp add: fun_eq_iff school_buildScope_def school_bySchoolId_def scope_query_def truthy_def
        new_Scope_def addQuery_def allowEmptyQuery_def)
  have "map setdo_toolId used = map set_tool (filter (\<lambda>e. set_school e = schoolId) (tls_schoolTools s))"
  proof -
    from used have m: "mapME (enrichDataFromExternalTool env)
        (map schoolTool_mapEntityToDO (filter (\<lambda>e. set_school e = schoolId) (tls_schoolTools s))) s = (Inr used, s)"
      by (simp add: findSchoolExternalTools_def school_find_def queryE_def bindE_def scope)
    have "map setdo_toolId used = map setdo_toolId
        (map schoolTool_mapEntityToDO (filter (\<lambda>e. set_school e = schoolId) (tls_schoolTools s)))"
      by (rule mapME_keeps_field [OF m])
        (auto simp: enrichDataFromExternalTool_def bindE_eq_Inr retE_def)
    then show ?thesis by (simp add: schoolTool_mapEntityToDO_def comp_def)
  qed
  then have "setdo_toolId ` set used = set_tool ` set (filter (\<lambda>e. set_school e = schoolId) (tls_schoolTools s))"
    by (metis set_map)
  then have in_use: "i \<in> setdo_toolId ` set used \<longleftrightarrow>
      list_ex (\<lambda>st. set_school st = schoolId \<and> set_tool st = i) (tls_schoolTools s)" for i
    by (auto simp: list_ex_iff)
  have keep: "etd_id t = Some (eid e) \<and> etd_isHidden t = ext_isHidden e"
    if "resolved env s (tool_mapEntityToDO e) = Some t" for e t
    using that resolve_tool_keeps [of env "tool_mapEntityToDO e" s t s] resolve_run [of env "tool_mapEntityToDO e" s]
    by (auto simp: resolved_def tool_mapEntityToDO_def split: sum.splits)
  have "map etd_id (filter (\<lambda>tool. \<not> etd_isHidden tool \<and> truthy (etd_id tool) \<and> the (etd_id tool) \<notin> set (map setdo_toolId used))
      (List.map_filter (resolved env s) (map tool_mapEntityToDO rows))) =
    map (\<lambda>e. Some (eid e)) (filter (\<lambda>e. \<not> ext_isHidden e \<and> eid e \<noteq> [] \<and> resolves env s e \<and>
      \<not> list_ex (\<lambda>st. set_school st = schoolId \<and> set_tool st = eid e) (tls_schoolTools s)) rows)" for rows
  proof (induction rows)
    case (Cons e rows)
    show ?case
    proof (cases "resolved env s (tool_mapEntityToDO e)")
      case None
      with Cons show ?thesis by (simp add: map_filter_simps resolves_def in_use)
    next
      case (Some t)
      with Cons keep [OF Some] show ?thesis
        by (simp add: map_filter_simps resolves_def in_use truthy_def)
    qed
  qed (simp add: map_filter_simps)
  with s' ts show ?thesis by simp
qed

end
