(* ===== verification/ToolSamples.thy ===== *)
theory ToolSamples
  imports ToolVersions
begin

text \<open>A school with a tool, on which the theorems about external tools are applied.\<close>

definition ex_tool_env :: tool_env where
  "ex_tool_env =
     \<lparr>te_now = 5, te_newId = (\<lambda>r. CHR ''n'' # nat_string r), te_encrypt = (\<lambda>s. CHR ''#'' # s),
      te_regExp = (\<lambda>_. Some (\<lambda>_. True)), te_regexQuery = (\<lambda>_. Some (\<lambda>_. True)),
      te_getClient = (\<lambda>_ _. Inl (External [])), te_refused = (\<lambda>_ _. None),
      te_auth = \<lparr>env_roles = (\<lambda>r. \<lparr>oid = r, eid = ''r'', ent_createdAt = 0, ent_updatedAt = 0, role_name = TEACHER,
          role_permissions = [''TOOL_ADMIN'', ''SCHOOL_TOOL_ADMIN''], role_roles = coll_of []\<rparr>), env_stack = 3\<rparr>,
      te_getUser = (\<lambda>_. Inr ex_teacher),
      te_findById = (\<lambda>_ i _. Inr (SubjSchool (SchoolEntity (ex_school 900 i))))\<rparr>"

definition ex_parameter :: CustomParameterDO where
  "ex_parameter = \<lparr>cpd_name = ''size'', cpd_default = None, cpd_regex = None, cpd_regexComment = None,
     cpd_scope = SCOPE_SCHOOL, cpd_location = LOCATION_QUERY, cpd_type = PT_NUMBER, cpd_isOptional = False\<rparr>"

text \<open>The request that creates the tool, under its id when it is an update.\<close>

definition ex_tool_request :: "EntityId option \<Rightarrow> string \<Rightarrow> ExternalToolDO" where
  "ex_tool_request i secret =
     \<lparr>etd_id = i, etd_createdAt = None, etd_updatedAt = None, etd_name = ''Quiz'', etd_url = None, etd_logoUrl = None,
      etd_config = Lti11ConfigDO \<lparr>ecd_baseUrl = ''u'', lcd_key = ''k'', lcd_secret = secret, lcd_resource_link_id = None,
        lcd_lti_message_type = BASIC_LTI_LAUNCH_REQUEST, lcd_privacy_permission = PRIVACY_ANONYMOUS\<rparr>,
      etd_parameters = Some [ex_parameter], etd_isHidden = False, etd_openNewTab = True, etd_version = 1\<rparr>"

definition ex_tool_row :: ExternalTool where
  "ex_tool_row = (new_ExternalTool 5 0 (tool_mapDOToEntityProperties (ex_tool_request None ''#s'')))\<lparr>eid := ''n0''\<rparr>"

definition ex_school_tool :: "EntityId \<Rightarrow> SchoolExternalToolDO" where
  "ex_school_tool schoolId =
     \<lparr>setdo_id = None, setdo_name = None, setdo_createdAt = None, setdo_updatedAt = None, setdo_toolId = ''n0'',
      setdo_schoolId = schoolId, setdo_parameters = [\<lparr>ped_name = ''Size'', ped_value = Some ''7''\<rparr>],
      setdo_toolVersion = 1, setdo_status = None\<rparr>"

definition ex_school_tool_row :: SchoolExternalTool where
  "ex_school_tool_row =
     (new_SchoolExternalTool 5 1 (schoolTool_mapDOToEntityProperties (ex_school_tool ''school'')))\<lparr>eid := ''n1''\<rparr>"

definition ex_no_tools :: tool_state where
  "ex_no_tools = \<lparr>tls_tools = [], tls_schoolTools = [], tls_courseTools = [], tls_fresh = 0, tls_sent = []\<rparr>"

definition ex_tools :: tool_state where
  "ex_tools = \<lparr>tls_tools = [ex_tool_row], tls_schoolTools = [ex_school_tool_row], tls_courseTools = [], tls_fresh = 2, tls_sent = []\<rparr>"

lemma ex_tool_allowed:
  "hasAllPermissions (te_auth ex_tool_env) ex_teacher [''TOOL_ADMIN''] = Inr True"
  "hasAllPermissions (te_auth ex_tool_env) ex_teacher [''SCHOOL_TOOL_ADMIN''] = Inr True"
  by code_simp+

lemma ex_tool_env_sel [simp]:
  "te_now ex_tool_env = 5" "te_newId ex_tool_env r = CHR ''n'' # nat_string r" "te_encrypt ex_tool_env x = CHR ''#'' # x"
  "te_getUser ex_tool_env i = Inr ex_teacher" "te_regExp ex_tool_env x = Some (\<lambda>_. True)"
  "te_findById ex_tool_env repo i b = Inr (SubjSchool (SchoolEntity (ex_school 900 i)))"
  by (simp_all add: ex_tool_env_def)

lemma ex_numerals [simp]: "nat_string 0 = ''0''" "nat_string 2 = ''2''"
  by code_simp+

lemma ex_tool_admin: "tool_admin ex_tool_env i" "school_tool_admin ex_tool_env i ''school''"
  using ex_tool_allowed by (simp_all add: tool_admin_def school_tool_admin_def)

lemma ex_tool_ensure: "ensurePermission ex_tool_env i ''TOOL_ADMIN'' s = (Inr (), s)"
  using ex_tool_admin by (simp add: ensurePermission_iff)

lemma ex_row_sel [simp]:
  "eid ex_tool_row = ''n0''" "ext_name ex_tool_row = ''Quiz''" "ext_version ex_tool_row = 1" "\<not> ext_isHidden ex_tool_row"
  "tool_mapEntityToDO ex_tool_row = (ex_tool_request (Some ''n0'') ''#s'')\<lparr>etd_createdAt := Some 5, etd_updatedAt := Some 5\<rparr>"
  "eid ex_school_tool_row = ''n1''" "set_tool ex_school_tool_row = ''n0''" "set_school ex_school_tool_row = ''school''"
  "schoolTool_mapEntityToDO ex_school_tool_row = (ex_school_tool ''school'')
     \<lparr>setdo_id := Some ''n1'', setdo_createdAt := Some 5, setdo_updatedAt := Some 5\<rparr>"
  by (simp_all add: ex_tool_row_def new_ExternalTool_def tool_mapDOToEntityProperties_def ex_tool_request_def
      tool_mapEntityToDO_def ex_school_tool_row_def new_SchoolExternalTool_def schoolTool_mapDOToEntityProperties_def
      ex_school_tool_def schoolTool_mapEntityToDO_def)

lemma ex_tools_sel [simp]:
  "tls_tools ex_tools = [ex_tool_row]" "tls_schoolTools ex_tools = [ex_school_tool_row]" "tls_courseTools ex_tools = []"
  "tls_fresh ex_tools = 2" "tls_sent ex_tools = []"
  "tls_tools ex_no_tools = []" "tls_schoolTools ex_no_tools = []" "tls_courseTools ex_no_tools = []"
  "tls_fresh ex_no_tools = 0" "tls_sent ex_no_tools = []"
  by (simp_all add: ex_tools_def ex_no_tools_def)

lemma ex_request_sel [simp]:
  "etd_id (ex_tool_request i x) = i" "etd_name (ex_tool_request i x) = ''Quiz''"
  "etd_config (ex_tool_request i x) = Lti11ConfigDO \<lparr>ecd_baseUrl = ''u'', lcd_key = ''k'', lcd_secret = x, lcd_resource_link_id = None,
        lcd_lti_message_type = BASIC_LTI_LAUNCH_REQUEST, lcd_privacy_permission = PRIVACY_ANONYMOUS\<rparr>"
  "etd_parameters (ex_tool_request i x) = Some [ex_parameter]" "etd_version (ex_tool_request i x) = 1"
  by (simp_all add: ex_tool_request_def)

lemma ex_request_valid:
  "validateParameters ex_tool_env (ex_tool_request i secret) [ex_parameter] = Inr ()"
  by (simp add: validateParameters_def isCustomParameterNameEmpty_def hasDuplicateAttributes_iff validateByRegex_def
      validateDefaultValue_def validateParam_def isGlobalParameterValid_def isRegexCommentMandatoryAndFilled_def
      ex_parameter_def truthy_def)

lemma ex_created:
  "\<exists>saved s'. uc_createExternalTool ex_tool_env userId (ex_tool_request None ''s'') ex_no_tools = (Inr saved, s') \<and>
     s' \<noteq> ex_no_tools"
proof -
  have "validateCreate ex_tool_env (ex_tool_request None ''s'') ex_no_tools = (Inr (), ex_no_tools)"
    using ex_request_valid [of None "''s''"]
    by (simp add: validateCreate_def validateCommon_def isNameUnique_def findByName_def findOne_def validateOauth2Config_def
        ex_tool_request_def eff_simps bindE_def)
  moreover have "\<exists>saved s'. createExternalTool ex_tool_env (ex_tool_request None ''s'') ex_no_tools = (Inr saved, s') \<and>
      tls_fresh s' = 1"
    by (simp add: createExternalTool_def ex_tool_request_def tool_save_def base_save_def ExternalToolRepo_def truthy_def Let_def)
  then obtain saved s' where "createExternalTool ex_tool_env (ex_tool_request None ''s'') ex_no_tools = (Inr saved, s')"
    "tls_fresh s' = 1" by blast
  ultimately show ?thesis
    by (intro exI [of _ saved] exI [of _ s'] conjI)
      (simp_all add: uc_createExternalTool_def bindE_def ex_tool_ensure, force)
qed

section \<open>Witnesses\<close>

lemma ex_schools_found: "schools_found ex_tool_env"
  by (simp add: schools_found_def)

text \<open>A request that creates the tool through the interface.\<close>

definition ex_post :: ExternalToolPostParams where
  "ex_post = \<lparr>epp_id = None, epp_name = Some ''Quiz'', epp_url = None, epp_logoUrl = None,
     epp_config = etd_config (ex_tool_request None ''s''),
     epp_parameters = Some [\<lparr>cpp_name = ''size'', cpp_defaultValue = None, cpp_regex = None, cpp_regexComment = None,
       cpp_scope = SCOPE_SCHOOL, cpp_location = LOCATION_QUERY, cpp_type = PT_NUMBER, cpp_isOptional = False\<rparr>],
     epp_isHidden = Some False, epp_openNewTab = None\<rparr>"

lemma ex_post_maps: "mapCreateRequest ex_post = ex_tool_request None ''s''"
  by (simp add: mapCreateRequest_def mapExternalToolRequest_def ex_post_def ex_tool_request_def or_default_def
      mapRequestToCustomParameterDO_def ex_parameter_def)

theorem tool_changes_need_permission_witness:
  "\<exists>s'. snd (serve ex_tool_env ''u'' (PostTool ex_post) ex_no_tools) = s' \<and> s' \<noteq> ex_no_tools \<and>
     tool_request_permitted ex_tool_env ''u'' ex_no_tools (PostTool ex_post)"
proof -
  have change: "snd (serve ex_tool_env ''u'' (PostTool ex_post) ex_no_tools) \<noteq> ex_no_tools"
    using ex_created [of "''u''"] by (auto simp: bind_unit ex_post_maps)
  with tool_changes_need_permission [OF ex_schools_found change] show ?thesis by blast
qed

theorem created_secrets_protected_witness:
  "\<exists>saved s' row. uc_createExternalTool ex_tool_env ''u'' (ex_tool_request None ''s'') ex_no_tools = (Inr saved, s') \<and>
     row \<in> set (tls_tools s') \<and> stored_secret (ext_config row) = Some ''#s''"
proof -
  obtain saved s' where s: "uc_createExternalTool ex_tool_env ''u'' (ex_tool_request None ''s'') ex_no_tools = (Inr saved, s')"
    using ex_created [of "''u''"] by blast
  from created_secrets_protected [OF s] obtain row where
    "row \<in> set (tls_tools s')" "stored_secret (ext_config row) = Some ''#s''" by auto
  with s show ?thesis by blast
qed

lemma ex_tool_found: "findExternalToolById ex_tool_env ''n0'' ex_tools = (Inr (tool_mapEntityToDO ex_tool_row), ex_tools)"
  by (simp add: findExternalToolById_def tool_findById_def base_findById_def row_or_fail_def find_row_def eff_simps
      bindE_def resolve_tool_def ex_tool_request_def ExternalToolRepo_def catchE_def)

lemma ex_updated:
  "\<exists>saved s'. uc_updateExternalTool ex_tool_env userId ''n0'' (ex_tool_request (Some ''n0'') ''t'') ex_tools = (Inr saved, s') \<and>
     etd_version saved = 1"
proof -
  have "validateCommon ex_tool_env (ex_tool_request (Some ''n0'') ''t'') ex_tools = (Inr (), ex_tools)"
    using ex_request_valid [of "Some ''n0''" "''t''"]
    by (simp add: validateCommon_def isNameUnique_def findByName_def findOne_def ex_tool_request_def eff_simps bindE_def)
  then have v: "validateUpdate ex_tool_env ''n0'' (ex_tool_request (Some ''n0'') ''t'') ex_tools = (Inr (), ex_tools)"
    by (simp add: validateUpdate_def bindE_Inr ex_tool_found [simplified] eff_simps)
  let ?m = "merged (tool_mapEntityToDO ex_tool_row) (ex_tool_request (Some ''n0'') ''t'')"
  have "increaseVersionOfNewToolIfNecessary (tool_mapEntityToDO ex_tool_row) ?m = ?m"
    by (simp add: increaseVersionOfNewToolIfNecessary_def ex_tool_request_def merged_def compareParameters_def
        hasNewRequiredParameter_def hasChangedRequiredParameters_def hasChangedParameterNames_def
        hasChangedParameterRegex_def hasChangedParameterTypes_def hasChangedParameterScope_def hasChanged_def
        matching_param_def Let_def)
  moreover have "\<exists>saved s'. tool_save ex_tool_env ?m ex_tools = (Inr saved, s') \<and> etd_version saved = 1"
    by (simp add: tool_save_def base_save_def ExternalToolRepo_def row_or_fail_def find_row_def truthy_def Let_def
        merged_def ex_tool_request_def createNewEntityFromDO_def assign_row_def new_ExternalTool_def
        tool_mapDOToEntityProperties_def tool_mapEntityToDO_def)
  moreover have "updateOauth2ToolConfig ex_tool_env ?m ex_tools = (Inr (), ex_tools)"
    by (simp add: updateOauth2ToolConfig_def merged_def ex_tool_request_def retE_def)
  ultimately show ?thesis
    by (simp add: uc_updateExternalTool_def updateExternalTool_def bindE_def ex_tool_ensure v ex_tool_found
        del: ex_row_sel(5))
qed

theorem updated_secret_in_clear_witness:
  "\<exists>saved s' row. uc_updateExternalTool ex_tool_env ''u'' ''n0'' (ex_tool_request (Some ''n0'') ''t'') ex_tools = (Inr saved, s') \<and>
     row \<in> set (tls_tools s') \<and> stored_secret (ext_config row) = Some ''t''"
proof -
  obtain saved s' where s: "uc_updateExternalTool ex_tool_env ''u'' ''n0'' (ex_tool_request (Some ''n0'') ''t'') ex_tools = (Inr saved, s')"
    using ex_updated by blast
  from updated_secret_in_clear [OF s] obtain row where
    "row \<in> set (tls_tools s')" "stored_secret (ext_config row) = Some ''t''" by auto
  with s show ?thesis by blast
qed

lemma ex_configuration_valid: "validate ex_tool_env (ex_school_tool schoolId) ex_tools = (Inr (), ex_tools)"
proof -
  have "list_all (entry_fits ex_tool_env (setdo_parameters (ex_school_tool schoolId)))
      (filter (\<lambda>p. cpd_scope p = SCOPE_SCHOOL) (nullish (etd_parameters (tool_mapEntityToDO ex_tool_row)) []))"
    by (simp add: ex_tool_request_def ex_parameter_def ex_school_tool_def entry_fits_def truthy_def) code_simp
  then show ?thesis
    unfolding school_configuration_valid_iff
    by (auto simp: ex_school_tool_def ex_tool_found intro!: exI [of _ "tool_mapEntityToDO ex_tool_row"])
qed

lemma ex_school_tool_row_permission: "ensureSchoolExternalToolPermission ex_tool_env i ''n1'' ex_tools = (Inr (), ex_tools)"
proof -
  have "base_findById SchoolToolRepo (tls_schoolTools ex_tools) ''n1'' = Inr (schoolTool_mapEntityToDO ex_school_tool_row)"
    by (simp add: base_findById_def row_or_fail_def find_row_def SchoolToolRepo_def)
  moreover have "setdo_schoolId (schoolTool_mapEntityToDO ex_school_tool_row) = ''school''"
    by (simp add: ex_school_tool_def)
  ultimately show ?thesis unfolding ensureSchoolExternalToolPermission_iff using ex_tool_admin(2) by metis
qed

lemma ex_school_tool_moved:
  "\<exists>saved s'. uc_updateSchoolExternalTool ex_tool_env userId ''n1'' (ex_school_tool ''other'') ex_tools = (Inr saved, s')"
proof -
  have "\<exists>d s'. school_save ex_tool_env ((ex_school_tool ''other'')\<lparr>setdo_id := Some ''n1''\<rparr>) ex_tools = (Inr d, s') \<and>
      setdo_toolId d = ''n0'' \<and> tls_tools s' = tls_tools ex_tools"
    by (simp add: school_save_def base_save_def SchoolToolRepo_def row_or_fail_def find_row_def truthy_def Let_def
        createNewEntityFromDO_def assign_row_def new_SchoolExternalTool_def schoolTool_mapDOToEntityProperties_def
        schoolTool_mapEntityToDO_def ex_school_tool_def)
  then obtain d s' where d: "school_save ex_tool_env ((ex_school_tool ''other'')\<lparr>setdo_id := Some ''n1''\<rparr>) ex_tools = (Inr d, s')"
    "setdo_toolId d = ''n0''" "tls_tools s' = tls_tools ex_tools" by blast
  have "findExternalToolById ex_tool_env ''n0'' s' = (Inr (tool_mapEntityToDO ex_tool_row), s')"
    by (simp add: findExternalToolById_def tool_findById_def base_findById_def row_or_fail_def find_row_def eff_simps
        bindE_def resolve_tool_def ExternalToolRepo_def catchE_def d(3))
  then show ?thesis
    by (simp add: uc_updateSchoolExternalTool_def saveSchoolExternalTool_def enrichDataFromExternalTool_def
        bindE_def ex_school_tool_row_permission ex_configuration_valid d(1,2) retE_def)
qed

theorem school_tool_can_change_school_witness:
  "\<exists>saved s' row. uc_updateSchoolExternalTool ex_tool_env ''u'' ''n1'' (ex_school_tool ''other'') ex_tools = (Inr saved, s') \<and>
     \<not> school_tool_admin ex_tool_env ''u'' ''other'' \<and> row \<in> set (tls_schoolTools s') \<and> set_school row = ''other''"
proof -
  obtain saved s' where s: "uc_updateSchoolExternalTool ex_tool_env ''u'' ''n1'' (ex_school_tool ''other'') ex_tools = (Inr saved, s')"
    using ex_school_tool_moved by blast
  from school_tool_can_change_school [OF s] obtain row where "row \<in> set (tls_schoolTools s')" "set_school row = ''other''"
    by (auto simp: ex_school_tool_def)
  moreover have "\<not> school_tool_admin ex_tool_env ''u'' ''other''" by (simp add: school_tool_admin_def)
  ultimately show ?thesis using s by blast
qed

lemma ex_tools_ok: "tools_ok (te_newId ex_tool_env) ex_tools"
proof -
  have "nat_string r \<noteq> ''0'' \<and> nat_string r \<noteq> ''1''" if "2 \<le> r" for r
  proof -
    have "''0'' = nat_string 0" "''1'' = nat_string 1" by code_simp+
    then show ?thesis using that by (metis nat_string_inject not_numeral_le_zero numeral_le_one_iff semiring_norm(69))
  qed
  then show ?thesis by (simp add: tools_ok_def unique_names_def)
qed

lemma ex_newId_inj: "inj (te_newId ex_tool_env)"
  by (simp add: inj_def)

theorem tool_tables_stay_ok_witness:
  "tools_ok (te_newId ex_tool_env) (serve_all
     [(ex_tool_env, ''u'', PostTool ex_post), (ex_tool_env, ''u'', DeleteTool ''n0''), (ex_tool_env, ''u'', DeleteSchoolTool ''n1'')]
     ex_tools)"
  by (rule tool_tables_stay_ok [OF ex_tools_ok ex_newId_inj]) simp

lemma ex_same_names: "same_name ''Size'' ''size''" "same_name ''size'' ''size''"
  by code_simp+

theorem same_version_same_configurations_witness:
  "\<exists>saved s'. uc_updateExternalTool ex_tool_env ''u'' ''n0'' (ex_tool_request (Some ''n0'') ''t'') ex_tools = (Inr saved, s') \<and>
     checkCustomParameterEntries ex_tool_env saved (ex_school_tool ''school'') = Inr ()"
proof -
  let ?old = "tool_mapEntityToDO ex_tool_row"
  obtain saved s' where s: "uc_updateExternalTool ex_tool_env ''u'' ''n0'' (ex_tool_request (Some ''n0'') ''t'') ex_tools = (Inr saved, s')"
    "etd_version saved = 1" using ex_updated by blast
  have old: "base_findById ExternalToolRepo (tls_tools ex_tools) ''n0'' = Inr ?old"
    by (simp add: base_findById_def row_or_fail_def find_row_def ExternalToolRepo_def)
  have "validate ex_tool_env (ex_school_tool ''school'') ex_tools = (Inr (), ex_tools)" by (rule ex_configuration_valid)
  then have valid: "checkCustomParameterEntries ex_tool_env ?old (ex_school_tool ''school'') = Inr ()"
    by (simp add: validate_def bindE_eq_Inr liftE_def ex_school_tool_def ex_tool_found)
  have "checkCustomParameterEntries ex_tool_env saved (ex_school_tool ''school'') = Inr ()"
    by (rule same_version_same_configurations [OF s(1) old _ _ _ _ valid])
      (simp_all add: s(2) hasDuplicateAttributes_iff ex_parameter_def ex_school_tool_def ex_same_names)
  with s(1) show ?thesis by blast
qed

abbreviation ex_unused :: tool_state where
  "ex_unused \<equiv> ex_tools\<lparr>tls_schoolTools := []\<rparr>"

lemma ex_school_permission: "ensureSchoolPermission ex_tool_env i ''school'' s = (Inr (), s)"
  using ex_tool_allowed
  by (auto simp: ensureSchoolPermission_def references_checked loadEntity_def resolveRepo_def
      ReferenceLoader_repos_def stored_or_outside_def service_on_tools SchoolRule_hasPermission_def)

theorem available_tools_are_free_witness:
  "\<exists>ts s'. uc_getAvailableToolsForSchool ex_tool_env ''u'' ''school'' ex_unused = (Inr ts, s') \<and>
     map etd_id ts = [Some ''n0'']"
proof -
  have "findSchoolExternalTools ex_tool_env (Some ''school'') ex_unused = (Inr [], ex_unused)"
    by (simp add: findSchoolExternalTools_def school_find_def eff_simps bindE_def)
  then obtain ts s' where s: "uc_getAvailableToolsForSchool ex_tool_env ''u'' ''school'' ex_unused = (Inr ts, s')"
    by (simp add: uc_getAvailableToolsForSchool_def bindE_def ex_school_permission findExternalTools_all Let_def retE_def)
  have "resolves ex_tool_env ex_unused ex_tool_row"
    by (simp add: resolves_def resolved_def resolve_tool_def retE_def)
  with available_tools_are_free [OF s] have "map etd_id ts = [Some ''n0'']" by simp
  with s show ?thesis by (intro exI [of _ ts] exI [of _ s'] conjI)
qed

end
