(* ===== verification/Systems.thy ===== *)
theory Systems
  imports ToolRepo
begin

text \<open>
  Login systems (\<^verbatim>\<open>system.entity.ts\<close> of \<^verbatim>\<open>shared/domain/entity\<close>, \<^verbatim>\<open>shared/repo/system\<close>,
  \<^verbatim>\<open>modules/system\<close>): the entity, its repository, the service that lets a broker stand in for the
  systems of OpenID Connect, and the public list. The configuration of the broker comes from the
  identity management and is a parameter.
\<close>

section \<open>The entity\<close>

record OauthConfig =
  oac_clientId :: string
  oac_clientSecret :: string
  oac_alias :: string
  oac_redirectUri :: string
  oac_grantType :: string
  oac_tokenEndpoint :: string
  oac_authEndpoint :: string
  oac_responseType :: string
  oac_scope :: string
  oac_provider :: string
  oac_logoutEndpoint :: string
  oac_issuer :: string
  oac_jwksEndpoint :: string

record LdapConfig =
  ldc_active :: "bool option"
  ldc_federalState :: "EntityId option"
  ldc_lastSyncAttempt :: "date option"
  ldc_lastSuccessfulFullSync :: "date option"
  ldc_lastSuccessfulPartialSync :: "date option"
  ldc_lastModifyTimestamp :: "string option"
  ldc_url :: string
  ldc_rootPath :: "string option"
  ldc_searchUser :: "string option"
  ldc_searchUserPassword :: "string option"
  ldc_provider :: "string option"

record OidcConfig =
  oic_clientId :: string
  oic_clientSecret :: string
  oic_alias :: string
  oic_authorizationUrl :: string
  oic_tokenUrl :: string
  oic_logoutUrl :: string
  oic_userinfoUrl :: string
  oic_defaultScopes :: string

datatype SystemProvisioningStrategy = STRATEGY_SANIS | STRATEGY_ISERV | STRATEGY_OIDC | STRATEGY_UNDEFINED

record ISystemProperties =
  ysp_type :: string
  ysp_url :: "string option"
  ysp_alias :: "string option"
  ysp_displayName :: "string option"
  ysp_oauthConfig :: "OauthConfig option"
  ysp_oidcConfig :: "OidcConfig option"
  ysp_ldapConfig :: "LdapConfig option"
  ysp_provisioningStrategy :: "SystemProvisioningStrategy option"
  ysp_provisioningUrl :: "string option"

record System = timestamped +
  sys_type :: string
  sys_url :: "string option"
  sys_alias :: "string option"
  sys_displayName :: "string option"
  sys_oauthConfig :: "OauthConfig option"
  sys_provisioningStrategy :: "SystemProvisioningStrategy option"
  sys_oidcConfig :: "OidcConfig option"
  sys_ldapConfig :: "LdapConfig option"
  sys_provisioningUrl :: "string option"

definition new_System :: "date \<Rightarrow> ref \<Rightarrow> ISystemProperties \<Rightarrow> System" where
  "new_System now r props =
     \<lparr>oid = r, eid = [], ent_createdAt = now, ent_updatedAt = now, sys_type = ysp_type props,
      sys_url = ysp_url props, sys_alias = ysp_alias props, sys_displayName = ysp_displayName props,
      sys_oauthConfig = ysp_oauthConfig props,
      sys_provisioningStrategy = ysp_provisioningStrategy props,
      sys_oidcConfig = ysp_oidcConfig props, sys_ldapConfig = ysp_ldapConfig props,
      sys_provisioningUrl = ysp_provisioningUrl props\<rparr>"

section \<open>The repository\<close>

datatype SystemTypeEnum = TYPE_LDAP | TYPE_OAUTH | TYPE_OIDC

fun system_type_string :: "SystemTypeEnum \<Rightarrow> string" where
  "system_type_string TYPE_LDAP = ''ldap''"
| "system_type_string TYPE_OAUTH = ''oauth''"
| "system_type_string TYPE_OIDC = ''oidc''"

definition withLdapConfig :: "System Scope \<Rightarrow> System Scope" where
  "withLdapConfig scope = addQuery scope (\<lambda>s. sys_ldapConfig s \<noteq> None)"

definition withOauthConfig :: "System Scope \<Rightarrow> System Scope" where
  "withOauthConfig scope = addQuery scope (\<lambda>s. sys_oauthConfig s \<noteq> None)"

definition withOidcConfig :: "System Scope \<Rightarrow> System Scope" where
  "withOidcConfig scope = addQuery scope (\<lambda>s. sys_oidcConfig s \<noteq> None)"

definition system_findByFilter :: "System list \<Rightarrow> SystemTypeEnum \<Rightarrow> System list" where
  "system_findByFilter table t =
     (let scope = new_Scope AndOp;
          scope' = (case t of TYPE_LDAP \<Rightarrow> withLdapConfig scope | TYPE_OAUTH \<Rightarrow> withOauthConfig scope
                    | TYPE_OIDC \<Rightarrow> withOidcConfig scope)
      in filter (scope_query scope') table)"

text \<open>A row that is saved: a new one gets an id, a known one is replaced.\<close>

definition persist_row ::
  "date \<Rightarrow> (ref \<Rightarrow> EntityId) \<Rightarrow> 'x timestamped_scheme list \<Rightarrow> 'x timestamped_scheme \<Rightarrow>
   'x timestamped_scheme \<times> 'x timestamped_scheme list" where
  "persist_row now newId t e =
     (if eid e = [] then let e' = e\<lparr>eid := newId (oid e)\<rparr> in (e', t @ [e'])
      else let e' = (if find_row t (eid e) = Some e then e else e\<lparr>ent_updatedAt := now\<rparr>)
           in (e', map (\<lambda>row. if eid row = eid e then e' else row) t))"

section \<open>The service\<close>

record SystemDto =
  syd_id :: "EntityId option"
  syd_type :: string
  syd_url :: "string option"
  syd_alias :: "string option"
  syd_displayName :: "string option"
  syd_provisioningStrategy :: "SystemProvisioningStrategy option"
  syd_provisioningUrl :: "string option"
  syd_oauthConfig :: "OauthConfig option"

text \<open>\<^verbatim>\<open>OauthConfigDto\<close> has the fields of \<^verbatim>\<open>OauthConfig\<close>; the mapper copies all of them.\<close>

definition mapFromOauthConfigEntityToDto :: "OauthConfig option \<Rightarrow> OauthConfig option" where
  "mapFromOauthConfigEntityToDto oauthConfig =
     (case oauthConfig of None \<Rightarrow> None
      | Some c \<Rightarrow> Some \<lparr>oac_clientId = oac_clientId c, oac_clientSecret = oac_clientSecret c, oac_alias = oac_alias c,
          oac_redirectUri = oac_redirectUri c, oac_grantType = oac_grantType c,
          oac_tokenEndpoint = oac_tokenEndpoint c, oac_authEndpoint = oac_authEndpoint c,
          oac_responseType = oac_responseType c, oac_scope = oac_scope c, oac_provider = oac_provider c,
          oac_logoutEndpoint = oac_logoutEndpoint c, oac_issuer = oac_issuer c,
          oac_jwksEndpoint = oac_jwksEndpoint c\<rparr>)"

definition system_mapFromEntityToDto :: "System \<Rightarrow> SystemDto" where
  "system_mapFromEntityToDto e =
     \<lparr>syd_id = Some (eid e), syd_type = sys_type e, syd_url = sys_url e, syd_alias = sys_alias e,
      syd_displayName = (case sys_displayName e of None \<Rightarrow> sys_alias e | n \<Rightarrow> n),
      syd_provisioningStrategy = sys_provisioningStrategy e,
      syd_provisioningUrl = sys_provisioningUrl e,
      syd_oauthConfig = mapFromOauthConfigEntityToDto (sys_oauthConfig e)\<rparr>"

text \<open>
  What the identity management says of itself as a broker: nothing when it is not available. A
  system of OpenID Connect without a configuration of its own is replaced by one that leads to the
  broker, or left out without it.
\<close>

type_synonym broker = "(OauthConfig result) option"

definition behind_broker :: "System \<Rightarrow> bool" where
  "behind_broker s \<longleftrightarrow> sys_oidcConfig s \<noteq> None \<and> sys_oauthConfig s = None"

definition generated_system :: "date \<Rightarrow> OauthConfig \<Rightarrow> System \<Rightarrow> System" where
  "generated_system now brokerConfig s =
     (new_System now (oid s) \<lparr>ysp_type = system_type_string TYPE_OAUTH, ysp_url = sys_url s, ysp_alias = sys_alias s,
        ysp_displayName = (if truthy (sys_displayName s) then sys_displayName s else sys_alias s),
        ysp_oauthConfig = None, ysp_oidcConfig = None, ysp_ldapConfig = None,
        ysp_provisioningStrategy = sys_provisioningStrategy s, ysp_provisioningUrl = sys_provisioningUrl s\<rparr>)
     \<lparr>eid := eid s,
      sys_oauthConfig := Some (brokerConfig\<lparr>oac_alias := oic_alias (the (sys_oidcConfig s)),
        oac_redirectUri := oac_redirectUri brokerConfig @ eid s\<rparr>)\<rparr>"

definition generateBrokerSystems :: "date \<Rightarrow> broker \<Rightarrow> System list \<Rightarrow> System list result" where
  "generateBrokerSystems now broker systems =
     (case broker of
        None \<Rightarrow> Inr (filter (\<lambda>s. \<not> behind_broker s) systems)
      | Some config \<Rightarrow> bindR config (\<lambda>brokerConfig.
          Inr (map (\<lambda>s. if behind_broker s then generated_system now brokerConfig s else s) systems)))"

definition system_findById :: "date \<Rightarrow> broker \<Rightarrow> System list \<Rightarrow> EntityId \<Rightarrow> SystemDto result" where
  "system_findById now broker table i =
     bindR (row_or_fail table i) (\<lambda>s.
     bindR (generateBrokerSystems now broker [s]) (\<lambda>ss.
       case ss of [] \<Rightarrow> Inl (EntityNotFoundError ''System'')
       | x # _ \<Rightarrow> Inr (system_mapFromEntityToDto x)))"

definition system_findByType :: "date \<Rightarrow> broker \<Rightarrow> System list \<Rightarrow> SystemTypeEnum option \<Rightarrow> SystemDto list result" where
  "system_findByType now broker table t =
     (let systems = (case t of
            Some TYPE_OAUTH \<Rightarrow> system_findByFilter table TYPE_OAUTH @ system_findByFilter table TYPE_OIDC
          | Some x \<Rightarrow> system_findByFilter table x
          | None \<Rightarrow> table)
      in bindR (generateBrokerSystems now broker systems) (\<lambda>ss. Inr (map system_mapFromEntityToDto ss)))"

definition system_save ::
  "date \<Rightarrow> (ref \<Rightarrow> EntityId) \<Rightarrow> ref \<Rightarrow> System list \<Rightarrow> SystemDto \<Rightarrow> (SystemDto \<times> System list) result" where
  "system_save now newId r table d =
     bindR (if truthy (syd_id d)
            then bindR (row_or_fail table (the (syd_id d))) (\<lambda>s.
              Inr (s\<lparr>sys_type := syd_type d, sys_alias := syd_alias d, sys_displayName := syd_displayName d,
                sys_oauthConfig := syd_oauthConfig d, sys_provisioningStrategy := syd_provisioningStrategy d,
                sys_provisioningUrl := syd_provisioningUrl d, sys_url := syd_url d\<rparr>))
            else Inr (new_System now r \<lparr>ysp_type = syd_type d, ysp_url = syd_url d, ysp_alias = syd_alias d,
              ysp_displayName = syd_displayName d, ysp_oauthConfig = syd_oauthConfig d, ysp_oidcConfig = None,
              ysp_ldapConfig = None, ysp_provisioningStrategy = syd_provisioningStrategy d,
              ysp_provisioningUrl = syd_provisioningUrl d\<rparr>))
       (\<lambda>s. let (s', table') = persist_row now newId table s in Inr (system_mapFromEntityToDto s', table'))"

definition uc_findByFilter ::
  "date \<Rightarrow> broker \<Rightarrow> System list \<Rightarrow> SystemTypeEnum option \<Rightarrow> bool \<Rightarrow> SystemDto list result" where
  "uc_findByFilter now broker table t onlyOauth =
     (if onlyOauth then system_findByType now broker table (Some TYPE_OAUTH) else system_findByType now broker table t)"

section \<open>OpenID Connect\<close>

record OidcConfigDto =
  odd_parentSystemId :: string
  odd_clientId :: string
  odd_clientSecret :: string
  odd_alias :: string
  odd_authorizationUrl :: string
  odd_tokenUrl :: string
  odd_logoutUrl :: string
  odd_userinfoUrl :: string
  odd_defaultScopes :: string

definition mapFromOidcConfigEntityToDto :: "EntityId \<Rightarrow> OidcConfig \<Rightarrow> OidcConfigDto" where
  "mapFromOidcConfigEntityToDto systemId c =
     \<lparr>odd_parentSystemId = systemId, odd_clientId = oic_clientId c, odd_clientSecret = oic_clientSecret c,
      odd_alias = oic_alias c, odd_authorizationUrl = oic_authorizationUrl c, odd_tokenUrl = oic_tokenUrl c,
      odd_logoutUrl = oic_logoutUrl c, odd_userinfoUrl = oic_userinfoUrl c,
      odd_defaultScopes = oic_defaultScopes c\<rparr>"

definition oidc_mapFromEntityToDto :: "System \<Rightarrow> OidcConfigDto option" where
  "oidc_mapFromEntityToDto e = map_option (mapFromOidcConfigEntityToDto (eid e)) (sys_oidcConfig e)"

definition oidc_findById :: "System list \<Rightarrow> EntityId \<Rightarrow> OidcConfigDto result" where
  "oidc_findById table i =
     bindR (row_or_fail table i) (\<lambda>s.
       case oidc_mapFromEntityToDto s of None \<Rightarrow> Inl (EntityNotFoundError ''System'') | Some c \<Rightarrow> Inr c)"

definition oidc_findAll :: "System list \<Rightarrow> OidcConfigDto list" where
  "oidc_findAll table = List.map_filter oidc_mapFromEntityToDto (system_findByFilter table TYPE_OIDC)"

section \<open>The public list\<close>

record OauthConfigResponse =
  ocr_clientId :: string
  ocr_alias :: string
  ocr_redirectUri :: string
  ocr_grantType :: string
  ocr_tokenEndpoint :: string
  ocr_authEndpoint :: string
  ocr_responseType :: string
  ocr_scope :: string
  ocr_provider :: string
  ocr_logoutEndpoint :: string
  ocr_issuer :: string
  ocr_jwksEndpoint :: string

record PublicSystemResponse =
  psr_id :: string
  psr_type :: string
  psr_url :: "string option"
  psr_alias :: "string option"
  psr_displayName :: "string option"
  psr_oauthConfig :: "OauthConfigResponse option"

definition mapFromOauthConfigDtoToResponse :: "OauthConfig \<Rightarrow> OauthConfigResponse" where
  "mapFromOauthConfigDtoToResponse c =
     \<lparr>ocr_clientId = oac_clientId c, ocr_alias = oac_alias c, ocr_redirectUri = oac_redirectUri c,
      ocr_grantType = oac_grantType c, ocr_tokenEndpoint = oac_tokenEndpoint c,
      ocr_authEndpoint = oac_authEndpoint c, ocr_responseType = oac_responseType c, ocr_scope = oac_scope c,
      ocr_provider = oac_provider c, ocr_logoutEndpoint = oac_logoutEndpoint c, ocr_issuer = oac_issuer c,
      ocr_jwksEndpoint = oac_jwksEndpoint c\<rparr>"

definition system_mapFromDtoToResponse :: "SystemDto list \<Rightarrow> PublicSystemResponse list" where
  "system_mapFromDtoToResponse systems =
     map (\<lambda>s. \<lparr>psr_id = or_default (syd_id s) [], psr_type = syd_type s, psr_url = syd_url s, psr_alias = syd_alias s,
       psr_displayName = syd_displayName s,
       psr_oauthConfig = map_option mapFromOauthConfigDtoToResponse (syd_oauthConfig s)\<rparr>) systems"

definition public_systems :: "date \<Rightarrow> broker \<Rightarrow> System list \<Rightarrow> SystemTypeEnum option \<Rightarrow> bool \<Rightarrow> PublicSystemResponse list result" where
  "public_systems now broker table t onlyOauth =
     bindR (uc_findByFilter now broker table t onlyOauth) (\<lambda>ds. Inr (system_mapFromDtoToResponse ds))"

section \<open>Facts\<close>

lemma scope_single: "scope_query (addQuery (new_Scope o') q) = q"
  by (simp add: fun_eq_iff new_Scope_def addQuery_def scope_query_def)

lemma find_by_filter [simp]:
  "system_findByFilter t TYPE_LDAP = filter (\<lambda>s. sys_ldapConfig s \<noteq> None) t"
  "system_findByFilter t TYPE_OAUTH = filter (\<lambda>s. sys_oauthConfig s \<noteq> None) t"
  "system_findByFilter t TYPE_OIDC = filter (\<lambda>s. sys_oidcConfig s \<noteq> None) t"
  by (simp_all add: system_findByFilter_def withLdapConfig_def withOauthConfig_def withOidcConfig_def scope_single)

text \<open>A system, and a broker, without their secrets.\<close>

definition hide_oauth :: "OauthConfig \<Rightarrow> OauthConfig" where
  "hide_oauth c = c\<lparr>oac_clientSecret := []\<rparr>"

definition hide_system :: "System \<Rightarrow> System" where
  "hide_system s = s\<lparr>sys_oauthConfig := map_option hide_oauth (sys_oauthConfig s),
     sys_oidcConfig := map_option (\<lambda>c. c\<lparr>oic_clientSecret := []\<rparr>) (sys_oidcConfig s),
     sys_ldapConfig := map_option (\<lambda>c. c\<lparr>ldc_searchUser := None, ldc_searchUserPassword := None\<rparr>) (sys_ldapConfig s)\<rparr>"

definition hide_broker :: "broker \<Rightarrow> broker" where
  "hide_broker b = map_option (mapR hide_oauth) b"

lemma hide_system_sel [simp]:
  "sys_oauthConfig (hide_system s) = map_option hide_oauth (sys_oauthConfig s)"
  "sys_oidcConfig (hide_system s) = map_option (\<lambda>c. c\<lparr>oic_clientSecret := []\<rparr>) (sys_oidcConfig s)"
  "sys_ldapConfig (hide_system s) = map_option (\<lambda>c. c\<lparr>ldc_searchUser := None, ldc_searchUserPassword := None\<rparr>) (sys_ldapConfig s)"
  "behind_broker (hide_system s) = behind_broker s"
  "oid (hide_system s) = oid s" "eid (hide_system s) = eid s" "sys_type (hide_system s) = sys_type s"
  "sys_url (hide_system s) = sys_url s" "sys_alias (hide_system s) = sys_alias s"
  "sys_displayName (hide_system s) = sys_displayName s"
  "sys_provisioningStrategy (hide_system s) = sys_provisioningStrategy s"
  "sys_provisioningUrl (hide_system s) = sys_provisioningUrl s"
  by (simp_all add: hide_system_def behind_broker_def)

text \<open>What the public list shows of a system.\<close>

definition shown :: "System \<Rightarrow> PublicSystemResponse" where
  "shown s = \<lparr>psr_id = eid s, psr_type = sys_type s, psr_url = sys_url s, psr_alias = sys_alias s,
     psr_displayName = (case sys_displayName s of None \<Rightarrow> sys_alias s | n \<Rightarrow> n),
     psr_oauthConfig = map_option mapFromOauthConfigDtoToResponse (sys_oauthConfig s)\<rparr>"

lemma response_shown: "system_mapFromDtoToResponse (map system_mapFromEntityToDto ss) = map shown ss"
  by (induction ss) (auto simp: system_mapFromDtoToResponse_def shown_def system_mapFromEntityToDto_def or_default_def
      mapFromOauthConfigEntityToDto_def mapFromOauthConfigDtoToResponse_def split: option.splits)

lemma shown_hide: "shown (hide_system s) = shown s"
  by (cases "sys_oauthConfig s"; simp add: shown_def mapFromOauthConfigDtoToResponse_def hide_oauth_def split: option.split)

lemma generated_hide:
  "behind_broker s \<Longrightarrow> shown (generated_system now (hide_oauth c) (hide_system s)) = shown (generated_system now c s)"
  by (auto simp: shown_def generated_system_def new_System_def behind_broker_def mapFromOauthConfigDtoToResponse_def
      hide_oauth_def split: option.split)

lemma broker_hide:
  "mapR (map shown) (generateBrokerSystems now (hide_broker b) (map hide_system ss)) =
   mapR (map shown) (generateBrokerSystems now b ss)"
proof (cases b)
  case None
  then show ?thesis by (simp add: generateBrokerSystems_def hide_broker_def filter_map comp_def shown_hide)
next
  case (Some r)
  show ?thesis
    by (cases r) (simp_all add: Some generateBrokerSystems_def hide_broker_def comp_def shown_hide generated_hide)
qed

text \<open>
  C32. The public list of systems shows no secrets: it is the same whatever the client secrets of the
  systems and of the broker, and whatever the user and the password for searches in LDAP are.
\<close>

theorem public_systems_hide_secrets:
  "public_systems now (hide_broker b) (map hide_system table) t onlyOauth = public_systems now b table t onlyOauth"
proof -
  have "filter (\<lambda>s. sys_oauthConfig s \<noteq> None) (map hide_system table) = map hide_system (filter (\<lambda>s. sys_oauthConfig s \<noteq> None) table)"
    "filter (\<lambda>s. sys_oidcConfig s \<noteq> None) (map hide_system table) = map hide_system (filter (\<lambda>s. sys_oidcConfig s \<noteq> None) table)"
    "filter (\<lambda>s. sys_ldapConfig s \<noteq> None) (map hide_system table) = map hide_system (filter (\<lambda>s. sys_ldapConfig s \<noteq> None) table)"
    by (simp_all add: filter_map comp_def)
  then have found: "\<exists>ss. (\<forall>b. system_findByType now b table t' = bindR (generateBrokerSystems now b ss) (\<lambda>ss. Inr (map system_mapFromEntityToDto ss))) \<and>
      (\<forall>b. system_findByType now b (map hide_system table) t' = bindR (generateBrokerSystems now b (map hide_system ss)) (\<lambda>ss. Inr (map system_mapFromEntityToDto ss)))" for t'
    unfolding system_findByType_def Let_def by (cases t' rule: option.exhaust; cases "the t'") auto
  have "bindR (system_findByType now b table t') (\<lambda>ds. Inr (system_mapFromDtoToResponse ds)) =
      bindR (system_findByType now (hide_broker b) (map hide_system table) t') (\<lambda>ds. Inr (system_mapFromDtoToResponse ds))" for t'
  proof -
    from found [of t'] obtain ss where
      ss: "\<And>b. system_findByType now b table t' = bindR (generateBrokerSystems now b ss) (\<lambda>ss. Inr (map system_mapFromEntityToDto ss))"
      "\<And>b. system_findByType now b (map hide_system table) t' = bindR (generateBrokerSystems now b (map hide_system ss)) (\<lambda>ss. Inr (map system_mapFromEntityToDto ss))"
      by blast
    have r: "bindR (bindR m (\<lambda>ss. Inr (map system_mapFromEntityToDto ss))) (\<lambda>ds. Inr (system_mapFromDtoToResponse ds)) =
        mapR (map shown) m" for m by (cases m) (simp_all add: response_shown)
    show ?thesis unfolding ss r broker_hide ..
  qed
  then show ?thesis by (simp add: public_systems_def uc_findByFilter_def)
qed

end
