(* ===== verification/PeopleData.thy ===== *)
theory PeopleData
  imports Systems Authorization JsStrings
begin

text \<open>
  Users, their accounts and the users to be imported, as the services exchange them: entities,
  domain and transport objects with their mappers, and the state that the services over them share.
\<close>

section \<open>Accounts\<close>

record IAccountProperties =
  acp_username :: string
  acp_password :: "string option"
  acp_token :: "string option"
  acp_credentialHash :: "string option"
  acp_userId :: "EntityId option"
  acp_systemId :: "EntityId option"
  acp_lasttriedFailedLogin :: "date option"
  acp_expiresAt :: "date option"
  acp_activated :: "bool option"

record Account = timestamped +
  acc_username :: string
  acc_password :: "string option"
  acc_token :: "string option"
  acc_credentialHash :: "string option"
  acc_userId :: "EntityId option"
  acc_systemId :: "EntityId option"
  acc_lasttriedFailedLogin :: "date option"
  acc_expiresAt :: "date option"
  acc_activated :: "bool option"

definition new_Account :: "date \<Rightarrow> ref \<Rightarrow> IAccountProperties \<Rightarrow> Account" where
  "new_Account now r props =
     \<lparr>oid = r, eid = [], ent_createdAt = now, ent_updatedAt = now, acc_username = acp_username props,
      acc_password = acp_password props, acc_token = acp_token props,
      acc_credentialHash = acp_credentialHash props, acc_userId = acp_userId props,
      acc_systemId = acp_systemId props, acc_lasttriedFailedLogin = acp_lasttriedFailedLogin props,
      acc_expiresAt = acp_expiresAt props, acc_activated = acp_activated props\<rparr>"

text \<open>
  \<^verbatim>\<open>AccountSaveDto\<close>; an \<^verbatim>\<open>AccountDto\<close> is one whose id and timestamps are there. The password of an
  object that comes from the database is the stored hash.
\<close>

record AccountSaveDto =
  acd_id :: "EntityId option"
  acd_createdAt :: "date option"
  acd_updatedAt :: "date option"
  acd_username :: string
  acd_password :: "string option"
  acd_token :: "string option"
  acd_credentialHash :: "string option"
  acd_userId :: "EntityId option"
  acd_systemId :: "EntityId option"
  acd_lasttriedFailedLogin :: "date option"
  acd_expiresAt :: "date option"
  acd_activated :: "bool option"
  acd_idmReferenceId :: "string option"

type_synonym AccountDto = AccountSaveDto

definition account_mapToDto :: "Account \<Rightarrow> AccountDto" where
  "account_mapToDto a =
     \<lparr>acd_id = Some (eid a), acd_createdAt = Some (ent_createdAt a), acd_updatedAt = Some (ent_updatedAt a),
      acd_username = acc_username a, acd_password = acc_password a, acd_token = acc_token a,
      acd_credentialHash = acc_credentialHash a, acd_userId = acc_userId a, acd_systemId = acc_systemId a,
      acd_lasttriedFailedLogin = acc_lasttriedFailedLogin a, acd_expiresAt = acc_expiresAt a,
      acd_activated = acc_activated a, acd_idmReferenceId = None\<rparr>"

text \<open>Accounts of the identity management; \<^verbatim>\<open>IAccountUpdate\<close> is one without the id.\<close>

record IAccountUpdate =
  ia_username :: "string option"
  ia_email :: "string option"
  ia_firstName :: "string option"
  ia_lastName :: "string option"
  ia_createdDate :: "date option"
  ia_attRefTechnicalId :: "string option"
  ia_attRefFunctionalIntId :: "string option"
  ia_attRefFunctionalExtId :: "string option"

record IAccount = IAccountUpdate +
  ia_id :: string

definition idm_mapToDto :: "date \<Rightarrow> IAccount \<Rightarrow> AccountDto" where
  "idm_mapToDto now a =
     (let createdDate = nullish (ia_createdDate a) now
      in \<lparr>acd_id = Some (nullish (ia_attRefTechnicalId a) []), acd_createdAt = Some createdDate,
          acd_updatedAt = Some createdDate, acd_username = nullish (ia_username a) [],
          acd_password = None, acd_token = None, acd_credentialHash = None,
          acd_userId = ia_attRefFunctionalIntId a, acd_systemId = ia_attRefFunctionalExtId a,
          acd_lasttriedFailedLogin = None, acd_expiresAt = None, acd_activated = None,
          acd_idmReferenceId = Some (ia_id a)\<rparr>)"

record AccountResponse =
  acr_id :: "EntityId option"
  acr_username :: string
  acr_userId :: "EntityId option"
  acr_activated :: "bool option"

definition account_mapToResponse :: "AccountDto \<Rightarrow> AccountResponse" where
  "account_mapToResponse a =
     \<lparr>acr_id = acd_id a, acr_username = acd_username a, acr_userId = acd_userId a, acr_activated = acd_activated a\<rparr>"

section \<open>Users to be imported\<close>

datatype MatchCreator = MATCH_AUTO | MATCH_MANUAL

record IImportUserProperties =
  iup_school :: school
  iup_system :: System
  iup_ldapDn :: string
  iup_externalId :: string
  iup_firstName :: string
  iup_lastName :: string
  iup_email :: string
  iup_roleNames :: "RoleName list option"
  iup_classNames :: "string list option"
  iup_user :: "user option"
  iup_matchedBy :: "MatchCreator option"
  iup_flagged :: "bool option"

text \<open>The references to the school and the system are used by their ids only.\<close>

record ImportUser = timestamped +
  imu_school :: EntityId
  imu_system :: EntityId
  imu_ldapDn :: string
  imu_externalId :: string
  imu_firstName :: string
  imu_lastName :: string
  imu_email :: string
  imu_roleNames :: "RoleName list"
  imu_classNames :: "string list"
  imu_user :: "user option"
  imu_matchedBy :: "MatchCreator option"
  imu_flagged :: bool

definition setMatch :: "ImportUser \<Rightarrow> user \<Rightarrow> MatchCreator \<Rightarrow> ImportUser result" where
  "setMatch iu u matchedBy =
     (if imu_school iu \<noteq> eid (usr_school u) then Inl (PlainError ''not same school'')
      else Inr (iu\<lparr>imu_user := Some u, imu_matchedBy := Some matchedBy\<rparr>))"

definition revokeMatch :: "ImportUser \<Rightarrow> ImportUser" where
  "revokeMatch iu = iu\<lparr>imu_user := None, imu_matchedBy := None\<rparr>"

definition new_ImportUser :: "date \<Rightarrow> ref \<Rightarrow> IImportUserProperties \<Rightarrow> ImportUser result" where
  "new_ImportUser now r props =
     (let iu = \<lparr>oid = r, eid = [], ent_createdAt = now, ent_updatedAt = now, imu_school = eid (iup_school props),
            imu_system = eid (iup_system props), imu_ldapDn = iup_ldapDn props,
            imu_externalId = iup_externalId props, imu_firstName = iup_firstName props,
            imu_lastName = iup_lastName props, imu_email = iup_email props,
            imu_roleNames = nullish (iup_roleNames props) [], imu_classNames = nullish (iup_classNames props) [],
            imu_user = None, imu_matchedBy = None, imu_flagged = False\<rparr>
      in bindR (case (iup_user props, iup_matchedBy props) of
                  (Some u, Some matchedBy) \<Rightarrow> setMatch iu u matchedBy
                | _ \<Rightarrow> Inr iu)
           (\<lambda>iu'. Inr (if iup_flagged props = Some True then iu'\<lparr>imu_flagged := True\<rparr> else iu')))"

text \<open>\<^verbatim>\<open>/^uid=(.+?),/i\<close>: what stands between \<^verbatim>\<open>uid=\<close> and the next comma, at least one character.\<close>

definition loginName :: "ImportUser \<Rightarrow> string option" where
  "loginName iu =
     (if toLowerCase (take 4 (imu_ldapDn iu)) \<noteq> ''uid='' then None
      else case drop 4 (imu_ldapDn iu) of
             [] \<Rightarrow> None
           | c # cs \<Rightarrow>
               let name = c # takeWhile (\<lambda>x. x \<noteq> CHR '','') cs
               in if CHR '','' \<in> set cs \<and> \<not> list_ex line_end name then Some name else None)"

section \<open>Domain and transport objects of users\<close>

record UserDO =
  udo_id :: "EntityId option"
  udo_createdAt :: "date option"
  udo_updatedAt :: "date option"
  udo_email :: string
  udo_firstName :: string
  udo_lastName :: string
  udo_roleIds :: "EntityId list"
  udo_schoolId :: EntityId
  udo_ldapDn :: "string option"
  udo_externalId :: "string option"
  udo_importHash :: "string option"
  udo_firstNameSearchValues :: "string list option"
  udo_lastNameSearchValues :: "string list option"
  udo_emailSearchValues :: "string list option"
  udo_language :: "LanguageType option"
  udo_forcePasswordChange :: "bool option"
  udo_preferences :: "(string \<times> string) list option"
  udo_lastLoginSystemChange :: "date option"
  udo_outdatedSince :: "date option"
  udo_previousExternalId :: "string option"

record UserDto =
  utd_id :: "EntityId option"
  utd_email :: string
  utd_firstName :: string
  utd_lastName :: string
  utd_roleIds :: "EntityId list"
  utd_schoolId :: EntityId
  utd_ldapDn :: "string option"
  utd_externalId :: "string option"
  utd_language :: "LanguageType option"
  utd_forcePasswordChange :: "bool option"
  utd_preferences :: "(string \<times> string) list option"
  utd_lastLoginSystemChange :: "date option"
  utd_outdatedSince :: "date option"

record RoleDto =
  rod_id :: "EntityId option"
  rod_name :: RoleName
  rod_permissions :: "string list option"

text \<open>\<^verbatim>\<open>ICurrentUser\<close>: roles by their names where they are known, otherwise by their ids.\<close>

datatype role_label = RoleNamed RoleName | RoleId EntityId

record IResolvedUser =
  iru_firstName :: string
  iru_lastName :: string
  iru_id :: EntityId
  iru_createdAt :: date
  iru_updatedAt :: date
  iru_roles :: "(EntityId \<times> role_label) list"
  iru_permissions :: "string list"
  iru_schoolId :: EntityId

record ICurrentUser =
  icu_userId :: EntityId
  icu_roles :: "role_label list"
  icu_schoolId :: EntityId
  icu_accountId :: EntityId
  icu_systemId :: "EntityId option"
  icu_user :: IResolvedUser

section \<open>State and parameters\<close>

text \<open>
  The tables, the counter for new objects, the number of writes so far, and the changes that were
  sent to the identity management. A user or an import user is read together with the rows that it
  refers to, as the ORM does with one request's objects.
\<close>

datatype idm_change =
    IdmCreate IAccountUpdate "string option"
  | IdmUpdate string IAccountUpdate
  | IdmPassword string string
  | IdmDelete string

datatype idm_query = ById string | ByTecRefId string | ByFctIntId string

record people_state =
  pst_users :: "user list"
  pst_schools :: "school list"
  pst_accounts :: "Account list"
  pst_importUsers :: "ImportUser list"
  pst_fresh :: ref
  pst_writes :: nat
  pst_idm :: "idm_change list"

type_synonym 'a people = "(people_state, 'a) eff"

text \<open>
  What is not part of the code: the time, ids of new rows, which write to the database fails, the
  identity map of the ORM for roles and systems, password hashes with their salt, the regular
  expressions of the database (they ignore case here), the identity management, and the
  configuration.
\<close>

record people_env =
  pe_now :: date
  pe_newId :: "ref \<Rightarrow> EntityId"
  pe_isObjectId :: "string \<Rightarrow> bool"
  pe_fails :: "nat \<Rightarrow> exn option"
  pe_auth :: auth_env
  pe_roles :: "ref list"
  pe_roleRef :: "EntityId \<Rightarrow> ref"
  pe_systems :: "System list"
  pe_systemRef :: "EntityId \<Rightarrow> ref"
  pe_systemId :: "ref \<Rightarrow> EntityId"
  pe_broker :: broker
  pe_hash :: "ref \<Rightarrow> string \<Rightarrow> string"
  pe_compare :: "string \<Rightarrow> string \<Rightarrow> bool"
  pe_isEmail :: "string \<Rightarrow> bool"
  pe_regex :: "string \<Rightarrow> (string \<Rightarrow> bool) option"
  pe_idmChange :: "idm_change list \<Rightarrow> idm_change \<Rightarrow> string result"
  pe_idmFind :: "idm_change list \<Rightarrow> idm_query \<Rightarrow> IAccount result"
  pe_passwordGrant :: "string \<Rightarrow> string \<Rightarrow> string option result"
  pe_ldapBind :: "System \<Rightarrow> string \<Rightarrow> string \<Rightarrow> unit result"
  pe_url :: "string \<Rightarrow> string \<Rightarrow> (string \<times> string) list \<Rightarrow> string"
  pe_HOST :: string
  pe_PUBLIC_BACKEND_URL :: string
  pe_IDM_STORE_ENABLED :: bool
  pe_IDM_LOGIN_ENABLED :: bool
  pe_USER_MIGRATION_ENABLED :: bool
  pe_USER_MIGRATION_SYSTEM_ID :: EntityId
  pe_VISIBILITY_IS_CONFIGURABLE :: bool
  pe_LOGIN_BLOCK_TIME :: int
  pe_AVAILABLE_LANGUAGES :: "LanguageType list"

text \<open>A write: it may fail, and then changes nothing.\<close>

definition db_write :: "people_env \<Rightarrow> 'a people \<Rightarrow> 'a people" where
  "db_write env m s =
     (let s' = s\<lparr>pst_writes := Suc (pst_writes s)\<rparr>
      in case pe_fails env (pst_writes s) of
           Some e \<Rightarrow> (Inl e, s')
         | None \<Rightarrow> m s')"

definition fresh_ref :: "ref people" where
  "fresh_ref s = (Inr (pst_fresh s), s\<lparr>pst_fresh := Suc (pst_fresh s)\<rparr>)"

text \<open>\<^verbatim>\<open>new ObjectId(s)\<close> takes a valid id over, throws at an invalid one, and invents one for \<^verbatim>\<open>undefined\<close>.\<close>

definition new_ObjectId :: "people_env \<Rightarrow> string option \<Rightarrow> EntityId people" where
  "new_ObjectId env s =
     (case s of
        Some i \<Rightarrow> (if pe_isObjectId env i then retE i else throwE (PlainError ''BSONTypeError''))
      | None \<Rightarrow> bindE fresh_ref (\<lambda>r. retE (pe_newId env r)))"

section \<open>The current user\<close>

definition userToICurrentUser :: "people_env \<Rightarrow> EntityId \<Rightarrow> user \<Rightarrow> EntityId option \<Rightarrow> ICurrentUser" where
  "userToICurrentUser env accountId u systemId =
     (let roles = map (env_roles (pe_auth env)) (coll_items (usr_roles u))
      in \<lparr>icu_userId = eid u, icu_roles = map (\<lambda>r. RoleNamed (role_name r)) roles, icu_schoolId = eid (usr_school u),
          icu_accountId = accountId, icu_systemId = systemId,
          icu_user = \<lparr>iru_firstName = usr_firstName u, iru_lastName = usr_lastName u, iru_id = eid u,
            iru_createdAt = ent_createdAt u, iru_updatedAt = ent_updatedAt u,
            iru_roles = map (\<lambda>r. (eid r, RoleNamed (role_name r))) roles,
            iru_permissions = uniq (concat (map role_permissions roles)),
            iru_schoolId = eid (usr_school u)\<rparr>\<rparr>)"

definition userDoToICurrentUser :: "EntityId \<Rightarrow> UserDO \<Rightarrow> EntityId option \<Rightarrow> ICurrentUser result" where
  "userDoToICurrentUser accountId d systemId =
     (case (udo_id d, udo_createdAt d, udo_updatedAt d) of
        (Some i, Some c, Some t) \<Rightarrow>
          if i = [] then Inl (ValidationError ''user has no ID'')
          else Inr \<lparr>icu_userId = i, icu_roles = map RoleId (udo_roleIds d), icu_schoolId = udo_schoolId d,
            icu_accountId = accountId, icu_systemId = systemId,
            icu_user = \<lparr>iru_firstName = udo_firstName d, iru_lastName = udo_lastName d, iru_id = i,
              iru_createdAt = c, iru_updatedAt = t, iru_roles = map (\<lambda>r. (r, RoleId r)) (udo_roleIds d),
              iru_permissions = [], iru_schoolId = udo_schoolId d\<rparr>\<rparr>
      | _ \<Rightarrow> Inl (ValidationError ''user has no ID''))"

end
