(* ===== verification/PeopleRepos.thy ===== *)
theory PeopleRepos
  imports PeopleData ToolServices
begin

text \<open>
  The repositories of users, schools, roles, accounts and import users (\<^verbatim>\<open>shared/repo\<close>,
  \<^verbatim>\<open>modules/account/repo\<close>) over the tables of \<open>people_state\<close>. A field that is set to \<^verbatim>\<open>undefined\<close> is
  absent in the database. Where a domain object is saved over a row, the row keeps the fields that
  the constructor of the entity does not assign.
\<close>

section \<open>Rows\<close>

primrec persist_rows ::
  "date \<Rightarrow> (ref \<Rightarrow> EntityId) \<Rightarrow> 'x timestamped_scheme list \<Rightarrow> 'x timestamped_scheme list \<Rightarrow>
   'x timestamped_scheme list \<times> 'x timestamped_scheme list" where
  "persist_rows now newId t [] = ([], t)"
| "persist_rows now newId t (e # es) =
     (let (e', t') = persist_row now newId t e; (es', t'') = persist_rows now newId t' es in (e' # es', t''))"

text \<open>A page of a result; a limit of 0 is none.\<close>

definition page_of :: "nat option \<Rightarrow> nat option \<Rightarrow> 'a list \<Rightarrow> 'a list" where
  "page_of skip limit xs =
     (let ys = drop (nullish skip 0) xs
      in case limit of None \<Rightarrow> ys | Some n \<Rightarrow> if n = 0 then ys else take n ys)"

section \<open>Roles\<close>

definition role_findByNames :: "people_env \<Rightarrow> RoleName list \<Rightarrow> role list" where
  "role_findByNames env names =
     filter (\<lambda>r. role_name r \<in> set names) (map (env_roles (pe_auth env)) (pe_roles env))"

definition role_findByIds :: "people_env \<Rightarrow> EntityId list \<Rightarrow> ref list" where
  "role_findByIds env ids = filter (\<lambda>r. eid (env_roles (pe_auth env) r) \<in> set ids) (pe_roles env)"

definition role_findById :: "people_env \<Rightarrow> EntityId \<Rightarrow> role result" where
  "role_findById env i = row_or_fail (map (env_roles (pe_auth env)) (pe_roles env)) i"

section \<open>Users\<close>

text \<open>\<^verbatim>\<open>populate\<close>: the school of a user is read together with the user.\<close>

definition with_school :: "people_state \<Rightarrow> user \<Rightarrow> user" where
  "with_school s u =
     (case find_row (pst_schools s) (eid (usr_school u)) of None \<Rightarrow> u | Some sch \<Rightarrow> u\<lparr>usr_school := sch\<rparr>)"

definition user_findById :: "EntityId \<Rightarrow> bool \<Rightarrow> user people" where
  "user_findById i populate = queryE (\<lambda>s.
     bindR (row_or_fail (pst_users s) i) (\<lambda>u. Inr (if populate then with_school s u else u)))"

definition user_save :: "people_env \<Rightarrow> user \<Rightarrow> unit people" where
  "user_save env u = db_write env (modifyE (\<lambda>s.
     s\<lparr>pst_users := snd (persist_row (pe_now env) (pe_newId env) (pst_users s) u)\<rparr>))"

definition user_findByEmail :: "people_env \<Rightarrow> string \<Rightarrow> user list people" where
  "user_findByEmail env email = queryE (\<lambda>s.
     case pe_regex env (''^'' @ escape_unless word_char email @ ''$'') of
       None \<Rightarrow> Inl (PlainError ''Invalid regular expression'')
     | Some test \<Rightarrow> Inr (filter (\<lambda>u. test (usr_email u)) (pst_users s)))"

text \<open>
  \<^verbatim>\<open>MongoPatterns.REGEX_MONGO_LANGUAGE_PATTERN_WHITELIST\<close> names the characters that a search keeps:
  minus, letters, digits, underscore, space and the accented letters listed there.
\<close>

definition language_char :: "char \<Rightarrow> bool" where
  "language_char c \<longleftrightarrow> word_char c \<or> c \<in> set ''- '' \<or>
     (let n = (of_char (lower_char c) :: nat)
      in 224 \<le> n \<and> n \<notin> {240, 247, 248, 254})"

definition escaped_search :: "string \<Rightarrow> string" where
  "escaped_search s = trim (filter language_char s)"

definition regex_query :: "people_env \<Rightarrow> string \<Rightarrow> string \<Rightarrow> bool" where
  "regex_query env pattern x = (case pe_regex env pattern of None \<Rightarrow> False | Some test \<Rightarrow> test x)"

definition isNotEmptyString :: "string option \<Rightarrow> bool \<Rightarrow> bool" where
  "isNotEmptyString value trimmed =
     (case value of None \<Rightarrow> False | Some s \<Rightarrow> (if trimmed then trim s else s) \<noteq> [])"

text \<open>A stable sort by one key; the order of the keys is that of the options.\<close>

definition sorted_on :: "SortOrder option \<Rightarrow> ('a \<Rightarrow> string) \<Rightarrow> 'a list \<Rightarrow> 'a list" where
  "sorted_on order key xs =
     (case order of None \<Rightarrow> xs | Some SortAsc \<Rightarrow> sort_key key xs | Some SortDesc \<Rightarrow> rev (sort_key key (rev xs)))"

definition user_findWithoutImportUser ::
  "people_env \<Rightarrow> school \<Rightarrow> string option \<Rightarrow> SortOrder option \<Rightarrow> SortOrder option \<Rightarrow> nat option \<Rightarrow> nat option \<Rightarrow> (user list \<times> nat) people" where
  "user_findWithoutImportUser env sch name byFirstName byLastName skip limit = queryE (\<lambda>s.
     if \<not> pe_isObjectId env (eid sch) then Inl (PlainError ''invalid school id'')
     else
       let free = filter (\<lambda>u. usr_deletedAt u = None \<and> eid (usr_school u) = eid sch \<and>
             \<not> list_ex (\<lambda>iu. map_option eid (imu_user iu) = Some (eid u)) (pst_importUsers s)) (pst_users s);
           escaped = escaped_search (nullish name []);
           found = (if isNotEmptyString name True \<and> isNotEmptyString (Some escaped) True
                    then filter (\<lambda>u. regex_query env escaped (usr_firstName u) \<or> regex_query env escaped (usr_lastName u)) free
                    else free)
       in Inr (page_of skip limit (sorted_on byFirstName usr_firstName (sorted_on byLastName usr_lastName found)), length found))"

section \<open>Users as domain objects\<close>

record UserQuery =
  uq_schoolId :: "EntityId option"
  uq_outdatedSince :: "date option"
  uq_isOutdated :: "bool option"
  uq_lastLoginSystemChangeGreaterThan :: "date option"

definition user_isOutdated :: "bool option \<Rightarrow> user Scope \<Rightarrow> user Scope" where
  "user_isOutdated isOutdated sc =
     (case isOutdated of None \<Rightarrow> sc | Some b \<Rightarrow> addQuery sc (\<lambda>u. (usr_outdatedSince u \<noteq> None) = b))"

definition whereLastLoginSystemChangeGreaterThan :: "date option \<Rightarrow> user Scope \<Rightarrow> user Scope" where
  "whereLastLoginSystemChangeGreaterThan d sc =
     (case d of None \<Rightarrow> sc
      | Some t \<Rightarrow> addQuery sc (\<lambda>u. case usr_lastLoginSystemChange u of None \<Rightarrow> False | Some x \<Rightarrow> t \<le> x))"

definition withOutdatedSince :: "date option \<Rightarrow> user Scope \<Rightarrow> user Scope" where
  "withOutdatedSince d sc =
     (case d of None \<Rightarrow> sc | Some t \<Rightarrow> addQuery sc (\<lambda>u. usr_outdatedSince u = Some t))"

definition user_bySchoolId :: "EntityId option \<Rightarrow> user Scope \<Rightarrow> user Scope" where
  "user_bySchoolId schoolId sc =
     (case schoolId of None \<Rightarrow> sc | Some i \<Rightarrow> addQuery sc (\<lambda>u. eid (usr_school u) = i))"

definition user_mapEntityToDO :: "people_env \<Rightarrow> user \<Rightarrow> UserDO" where
  "user_mapEntityToDO env u =
     \<lparr>udo_id = Some (eid u), udo_createdAt = Some (ent_createdAt u), udo_updatedAt = Some (ent_updatedAt u),
      udo_email = usr_email u, udo_firstName = usr_firstName u, udo_lastName = usr_lastName u,
      udo_roleIds = (if coll_initialized (usr_roles u)
                     then map (\<lambda>r. eid (env_roles (pe_auth env) r)) (coll_items (usr_roles u)) else []),
      udo_schoolId = eid (usr_school u), udo_ldapDn = usr_ldapDn u, udo_externalId = usr_externalId u,
      udo_importHash = usr_importHash u, udo_firstNameSearchValues = usr_firstNameSearchValues u,
      udo_lastNameSearchValues = usr_lastNameSearchValues u, udo_emailSearchValues = usr_emailSearchValues u,
      udo_language = usr_language u, udo_forcePasswordChange = usr_forcePasswordChange u,
      udo_preferences = usr_preferences u, udo_lastLoginSystemChange = usr_lastLoginSystemChange u,
      udo_outdatedSince = usr_outdatedSince u, udo_previousExternalId = usr_previousExternalId u\<rparr>"

text \<open>A reference to a school that is not loaded: only its id is there.\<close>

definition school_reference :: "EntityId \<Rightarrow> school" where
  "school_reference i =
     (new_School 0 \<lparr>sp_externalId = None, sp_inMaintenanceSince = None, sp_inUserMigration = None,
        sp_oauthMigrationPossible = None, sp_oauthMigrationMandatory = None, sp_oauthMigrationFinished = None,
        sp_previousExternalId = None, sp_name = [], sp_officialSchoolNumber = None, sp_systems = None,
        sp_features = None, sp_schoolYear = None\<rparr>)\<lparr>eid := i\<rparr>"

definition user_mapDOToEntityProperties :: "people_env \<Rightarrow> UserDO \<Rightarrow> IUserProperties" where
  "user_mapDOToEntityProperties env d =
     \<lparr>up_email = udo_email d, up_firstName = udo_firstName d, up_lastName = udo_lastName d,
      up_school = school_reference (udo_schoolId d), up_roles = map (pe_roleRef env) (udo_roleIds d),
      up_ldapDn = udo_ldapDn d, up_externalId = udo_externalId d, up_language = udo_language d,
      up_forcePasswordChange = udo_forcePasswordChange d, up_preferences = udo_preferences d,
      up_deletedAt = None, up_lastLoginSystemChange = udo_lastLoginSystemChange d,
      up_outdatedSince = udo_outdatedSince d, up_previousExternalId = udo_previousExternalId d\<rparr>"

text \<open>The constructor of \<^verbatim>\<open>User\<close> does not assign the hash of an import and the values for searches.\<close>

definition assign_user :: "user \<Rightarrow> user \<Rightarrow> user" where
  "assign_user old e =
     e\<lparr>oid := oid old, eid := eid old, ent_createdAt := ent_createdAt old, ent_updatedAt := ent_updatedAt old,
       usr_importHash := usr_importHash old, usr_firstNameSearchValues := usr_firstNameSearchValues old,
       usr_lastNameSearchValues := usr_lastNameSearchValues old, usr_emailSearchValues := usr_emailSearchValues old\<rparr>"

definition user_entity :: "people_env \<Rightarrow> UserDO \<Rightarrow> user people" where
  "user_entity env d =
     bindE fresh_ref (\<lambda>r.
       let e = new_User (pe_now env) r (user_mapDOToEntityProperties env d)
       in if \<not> truthy (udo_id d) then retE e
          else queryE (\<lambda>s. bindR (row_or_fail (pst_users s) (the (udo_id d))) (\<lambda>old. Inr (assign_user old e))))"

definition user_saveAll :: "people_env \<Rightarrow> UserDO list \<Rightarrow> UserDO list people" where
  "user_saveAll env ds =
     bindE (mapME (user_entity env) ds) (\<lambda>es.
       db_write env (\<lambda>s.
         let (es', t) = persist_rows (pe_now env) (pe_newId env) (pst_users s) es
         in (Inr (map (user_mapEntityToDO env) es'), s\<lparr>pst_users := t\<rparr>)))"

definition userDO_save :: "people_env \<Rightarrow> UserDO \<Rightarrow> UserDO people" where
  "userDO_save env d = bindE (user_saveAll env [d]) (\<lambda>ds. retE (hd ds))"

definition userDO_findById :: "people_env \<Rightarrow> EntityId \<Rightarrow> UserDO people" where
  "userDO_findById env i = queryE (\<lambda>s. bindR (row_or_fail (pst_users s) i) (\<lambda>u. Inr (user_mapEntityToDO env u)))"

definition userDO_findByExternalId :: "people_env \<Rightarrow> string \<Rightarrow> EntityId \<Rightarrow> UserDO option people" where
  "userDO_findByExternalId env externalId systemId = queryE (\<lambda>s.
     Inr (map_option (user_mapEntityToDO env)
       (List.find (\<lambda>u. systemId \<in> set (map (pe_systemId env) (coll_items (sch_systems (usr_school u)))))
         (map (with_school s) (filter (\<lambda>u. usr_externalId u = Some externalId) (pst_users s))))))"

definition userDO_findByExternalIdOrFail :: "people_env \<Rightarrow> string \<Rightarrow> EntityId \<Rightarrow> UserDO people" where
  "userDO_findByExternalIdOrFail env externalId systemId =
     bindE (userDO_findByExternalId env externalId systemId) (\<lambda>d.
       case d of Some x \<Rightarrow> retE x | None \<Rightarrow> throwE (EntityNotFoundError ''User''))"

definition user_scope :: "UserQuery \<Rightarrow> user Scope" where
  "user_scope query =
     allowEmptyQuery (withOutdatedSince (uq_outdatedSince query)
       (whereLastLoginSystemChangeGreaterThan (uq_lastLoginSystemChangeGreaterThan query)
         (user_isOutdated (uq_isOutdated query) (user_bySchoolId (uq_schoolId query) (new_Scope AndOp))))) True"

definition userDO_find ::
  "people_env \<Rightarrow> UserQuery \<Rightarrow> nat option \<Rightarrow> nat option \<Rightarrow> SortOrder option \<Rightarrow> (UserDO list \<times> nat) people" where
  "userDO_find env query skip limit order = queryE (\<lambda>s.
     let rows = sort_key eid (filter (scope_query (user_scope query)) (pst_users s));
         found = (case nullish order SortAsc of SortAsc \<Rightarrow> rows | SortDesc \<Rightarrow> rev rows)
     in Inr (map (user_mapEntityToDO env) (page_of skip limit found), length found))"

section \<open>Schools\<close>

definition school_mapDOToEntityProperties :: "people_env \<Rightarrow> SchoolDO \<Rightarrow> ISchoolProperties" where
  "school_mapDOToEntityProperties env d =
     \<lparr>sp_externalId = sdo_externalId d, sp_inMaintenanceSince = sdo_inMaintenanceSince d,
      sp_inUserMigration = sdo_inUserMigration d, sp_oauthMigrationPossible = sdo_oauthMigrationPossible d,
      sp_oauthMigrationMandatory = sdo_oauthMigrationMandatory d,
      sp_oauthMigrationFinished = sdo_oauthMigrationFinished d,
      sp_previousExternalId = sdo_previousExternalId d, sp_name = sdo_name d,
      sp_officialSchoolNumber = sdo_officialSchoolNumber d,
      sp_systems = Some (case sdo_systems d of None \<Rightarrow> [] | Some is \<Rightarrow> map (pe_systemRef env) is),
      sp_features = sdo_features d, sp_schoolYear = sdo_schoolYear d\<rparr>"

definition school_mapEntityToDO :: "people_env \<Rightarrow> school \<Rightarrow> SchoolDO" where
  "school_mapEntityToDO env e = new_SchoolDO
     \<lparr>sdo_id = Some (eid e), sdo_externalId = sch_externalId e, sdo_inMaintenanceSince = sch_inMaintenanceSince e,
      sdo_inUserMigration = sch_inUserMigration e, sdo_oauthMigrationPossible = sch_oauthMigrationPossible e,
      sdo_oauthMigrationMandatory = sch_oauthMigrationMandatory e,
      sdo_oauthMigrationFinished = sch_oauthMigrationFinished e,
      sdo_previousExternalId = sch_previousExternalId e, sdo_name = sch_name e,
      sdo_officialSchoolNumber = sch_officialSchoolNumber e,
      sdo_systems = Some (if coll_initialized (sch_systems e) then map (pe_systemId env) (coll_items (sch_systems e)) else []),
      sdo_features = sch_features e, sdo_schoolYear = sch_schoolYear e\<rparr>"

text \<open>
  The constructor of \<^verbatim>\<open>School\<close> assigns some fields only when the property is there; the others it never
  assigns. What it does not assign, a row keeps.
\<close>

definition kept_when_absent :: "'a option \<Rightarrow> 'a option \<Rightarrow> 'a option" where
  "kept_when_absent old new = (case new of None \<Rightarrow> old | Some x \<Rightarrow> Some x)"

definition assign_school :: "school \<Rightarrow> school \<Rightarrow> school" where
  "assign_school old e =
     e\<lparr>oid := oid old, eid := eid old,
       sch_externalId := kept_when_absent (sch_externalId old) (sch_externalId e),
       sch_previousExternalId := kept_when_absent (sch_previousExternalId old) (sch_previousExternalId e),
       sch_inMaintenanceSince := kept_when_absent (sch_inMaintenanceSince old) (sch_inMaintenanceSince e),
       sch_officialSchoolNumber := kept_when_absent (sch_officialSchoolNumber old) (sch_officialSchoolNumber e),
       sch_features := kept_when_absent (sch_features old) (sch_features e),
       sch_schoolYear := kept_when_absent (sch_schoolYear old) (sch_schoolYear e),
       sch_permissions := sch_permissions old\<rparr>"

definition school_repo_save :: "people_env \<Rightarrow> SchoolDO \<Rightarrow> SchoolDO people" where
  "school_repo_save env d =
     bindE fresh_ref (\<lambda>r.
     let e = new_School r (school_mapDOToEntityProperties env d)
     in if \<not> truthy (sdo_id d)
        then db_write env (\<lambda>s. let e' = e\<lparr>eid := pe_newId env r\<rparr>
               in (Inr (school_mapEntityToDO env e'), s\<lparr>pst_schools := pst_schools s @ [e']\<rparr>))
        else bindE (queryE (\<lambda>s. row_or_fail (pst_schools s) (the (sdo_id d)))) (\<lambda>old.
               let e' = assign_school old e
               in db_write env (\<lambda>s. (Inr (school_mapEntityToDO env e'),
                    s\<lparr>pst_schools := map (\<lambda>row. if eid row = eid old then e' else row) (pst_schools s)\<rparr>))))"

definition school_repo_findById :: "people_env \<Rightarrow> EntityId \<Rightarrow> SchoolDO people" where
  "school_repo_findById env i = queryE (\<lambda>s.
     bindR (row_or_fail (pst_schools s) i) (\<lambda>e. Inr (school_mapEntityToDO env e)))"

definition school_findByExternalId :: "people_env \<Rightarrow> string \<Rightarrow> EntityId \<Rightarrow> SchoolDO option people" where
  "school_findByExternalId env externalId systemId = queryE (\<lambda>s.
     Inr (map_option (school_mapEntityToDO env) (List.find (\<lambda>e. sch_externalId e = Some externalId \<and>
       systemId \<in> set (map (pe_systemId env) (coll_items (sch_systems e)))) (pst_schools s))))"

definition school_findBySchoolNumber :: "people_env \<Rightarrow> string \<Rightarrow> SchoolDO option people" where
  "school_findBySchoolNumber env schoolNumber = queryE (\<lambda>s.
     Inr (map_option (school_mapEntityToDO env)
       (List.find (\<lambda>e. sch_officialSchoolNumber e = Some schoolNumber) (pst_schools s))))"

section \<open>Accounts\<close>

definition account_findById :: "EntityId \<Rightarrow> Account people" where
  "account_findById i = queryE (\<lambda>s. row_or_fail (pst_accounts s) i)"

definition account_findByUserId :: "people_env \<Rightarrow> EntityId \<Rightarrow> Account option people" where
  "account_findByUserId env userId =
     bindE (new_ObjectId env (Some userId)) (\<lambda>i.
       queryE (\<lambda>s. Inr (List.find (\<lambda>a. acc_userId a = Some i) (pst_accounts s))))"

definition account_findMultipleByUserId :: "people_env \<Rightarrow> EntityId list \<Rightarrow> Account list people" where
  "account_findMultipleByUserId env userIds =
     bindE (mapME (\<lambda>i. new_ObjectId env (Some i)) userIds) (\<lambda>objectIds.
       queryE (\<lambda>s. Inr (filter (\<lambda>a. acc_userId a \<in> Some ` set objectIds) (pst_accounts s))))"

definition account_findByUsernameAndSystemId :: "people_env \<Rightarrow> string \<Rightarrow> EntityId \<Rightarrow> Account option people" where
  "account_findByUsernameAndSystemId env username systemId =
     bindE (new_ObjectId env (Some systemId)) (\<lambda>i.
       queryE (\<lambda>s. Inr (List.find (\<lambda>a. acc_username a = username \<and> acc_systemId a = Some i) (pst_accounts s))))"

text \<open>\<^verbatim>\<open>/[^(\p{L}\p{N})]/gu\<close> keeps letters, numbers and, as it stands, parentheses without a backslash.\<close>

definition escapedUsername :: "string \<Rightarrow> string" where
  "escapedUsername = escape_unless (\<lambda>c. letter c \<or> number_char c \<or> c \<in> set ''()'')"

definition searchByUsername :: "people_env \<Rightarrow> string \<Rightarrow> nat \<Rightarrow> nat \<Rightarrow> bool \<Rightarrow> (Account list \<times> nat) people" where
  "searchByUsername env username offset limit exactMatch = queryE (\<lambda>s.
     let escaped = escapedUsername username;
         pattern = (if exactMatch then ''^'' @ escaped @ ''$'' else escaped)
     in case pe_regex env pattern of
          None \<Rightarrow> Inl (PlainError ''Invalid regular expression'')
        | Some test \<Rightarrow>
            let found = filter (\<lambda>a. test (acc_username a)) (pst_accounts s)
            in Inr (page_of (Some offset) (Some limit) (sort_key acc_username found), length found))"

definition repo_searchByUsernameExactMatch :: "people_env \<Rightarrow> string \<Rightarrow> (Account list \<times> nat) people" where
  "repo_searchByUsernameExactMatch env username = searchByUsername env username 0 1 True"

definition repo_searchByUsernamePartialMatch :: "people_env \<Rightarrow> string \<Rightarrow> nat \<Rightarrow> nat \<Rightarrow> (Account list \<times> nat) people" where
  "repo_searchByUsernamePartialMatch env username skip limit = searchByUsername env username skip limit False"

definition account_save :: "people_env \<Rightarrow> Account \<Rightarrow> Account people" where
  "account_save env a = db_write env (\<lambda>s.
     let (a', t) = persist_row (pe_now env) (pe_newId env) (pst_accounts s) a
     in (Inr a', s\<lparr>pst_accounts := t\<rparr>))"

definition account_delete :: "people_env \<Rightarrow> Account \<Rightarrow> unit people" where
  "account_delete env a = db_write env (modifyE (\<lambda>s.
     s\<lparr>pst_accounts := filter (\<lambda>row. eid row \<noteq> eid a) (pst_accounts s)\<rparr>))"

definition account_deleteById :: "people_env \<Rightarrow> EntityId \<Rightarrow> unit people" where
  "account_deleteById env i = bindE (account_findById i) (account_delete env)"

definition account_deleteByUserId :: "people_env \<Rightarrow> EntityId \<Rightarrow> unit people" where
  "account_deleteByUserId env userId =
     bindE (account_findByUserId env userId) (\<lambda>a.
       case a of None \<Rightarrow> retE () | Some x \<Rightarrow> account_delete env x)"

end
