(* ===== verification/AccountServices.thy ===== *)
theory AccountServices
  imports PeopleRepos
begin

text \<open>
  The services of accounts (\<^verbatim>\<open>modules/account/services\<close>): the one over the database, the one over the
  identity management, the facade that writes to both, and the validation of names.
\<close>

section \<open>Passwords\<close>

text \<open>\<^verbatim>\<open>bcrypt.hash\<close> with a fresh salt, and \<^verbatim>\<open>bcrypt.compare\<close>.\<close>

definition encryptPassword :: "people_env \<Rightarrow> string \<Rightarrow> string people" where
  "encryptPassword env password = bindE fresh_ref (\<lambda>salt. retE (pe_hash env salt password))"

definition checkPassword :: "people_env \<Rightarrow> string \<Rightarrow> string \<Rightarrow> bool" where
  "checkPassword env enteredPassword hashedAccountPassword = pe_compare env enteredPassword hashedAccountPassword"

section \<open>Accounts in the database\<close>

definition db_findById :: "EntityId \<Rightarrow> AccountDto people" where
  "db_findById i = bindE (account_findById i) (\<lambda>a. retE (account_mapToDto a))"

definition db_findMultipleByUserId :: "people_env \<Rightarrow> EntityId list \<Rightarrow> AccountDto list people" where
  "db_findMultipleByUserId env userIds =
     bindE (account_findMultipleByUserId env userIds) (\<lambda>as. retE (map account_mapToDto as))"

definition db_findByUserId :: "people_env \<Rightarrow> EntityId \<Rightarrow> AccountDto option people" where
  "db_findByUserId env userId = bindE (account_findByUserId env userId) (\<lambda>a. retE (map_option account_mapToDto a))"

definition db_findByUserIdOrFail :: "people_env \<Rightarrow> EntityId \<Rightarrow> AccountDto people" where
  "db_findByUserIdOrFail env userId =
     bindE (account_findByUserId env userId) (\<lambda>a.
       case a of None \<Rightarrow> throwE (EntityNotFoundError ''Account'') | Some x \<Rightarrow> retE (account_mapToDto x))"

definition db_findByUsernameAndSystemId :: "people_env \<Rightarrow> string \<Rightarrow> EntityId \<Rightarrow> AccountDto option people" where
  "db_findByUsernameAndSystemId env username systemId =
     bindE (account_findByUsernameAndSystemId env username systemId) (\<lambda>a. retE (map_option account_mapToDto a))"

definition optional_ObjectId :: "people_env \<Rightarrow> string option \<Rightarrow> EntityId option people" where
  "optional_ObjectId env i =
     (if truthy i then bindE (new_ObjectId env i) (\<lambda>x. retE (Some x)) else retE None)"

definition optional_hash :: "people_env \<Rightarrow> string option \<Rightarrow> string option people" where
  "optional_hash env p =
     (if truthy p then bindE (encryptPassword env (the p)) (\<lambda>h. retE (Some h)) else retE None)"

text \<open>An update keeps the stored password when the object has none; it hashes the one it has.\<close>

definition db_save :: "people_env \<Rightarrow> AccountSaveDto \<Rightarrow> AccountDto people" where
  "db_save env d =
     bindE (if truthy (acd_id d)
        then bindE (account_findById (the (acd_id d))) (\<lambda>account.
             bindE (new_ObjectId env (acd_userId d)) (\<lambda>userId.
             bindE (optional_ObjectId env (acd_systemId d)) (\<lambda>systemId.
             bindE (optional_hash env (acd_password d)) (\<lambda>password.
               account_save env (account\<lparr>acc_userId := Some userId, acc_systemId := systemId,
                 acc_username := acd_username d, acc_activated := acd_activated d,
                 acc_expiresAt := acd_expiresAt d, acc_lasttriedFailedLogin := acd_lasttriedFailedLogin d,
                 acc_password := (case password of None \<Rightarrow> acc_password account | Some h \<Rightarrow> Some h),
                 acc_credentialHash := acd_credentialHash d, acc_token := acd_token d\<rparr>)))))
        else bindE (new_ObjectId env (acd_userId d)) (\<lambda>userId.
             bindE (optional_ObjectId env (acd_systemId d)) (\<lambda>systemId.
             bindE (optional_hash env (acd_password d)) (\<lambda>password.
             bindE fresh_ref (\<lambda>r.
               account_save env (new_Account (pe_now env) r
                 \<lparr>acp_username = acd_username d, acp_password = password, acp_token = acd_token d,
                  acp_credentialHash = acd_credentialHash d, acp_userId = Some userId, acp_systemId = systemId,
                  acp_lasttriedFailedLogin = acd_lasttriedFailedLogin d, acp_expiresAt = acd_expiresAt d,
                  acp_activated = acd_activated d\<rparr>))))))
     (\<lambda>a. retE (account_mapToDto a))"

definition db_updateUsername :: "people_env \<Rightarrow> EntityId \<Rightarrow> string \<Rightarrow> AccountDto people" where
  "db_updateUsername env accountId username =
     bindE (account_findById accountId) (\<lambda>account.
     bindE (account_save env (account\<lparr>acc_username := username\<rparr>)) (\<lambda>a. retE (account_mapToDto a)))"

definition db_updateLastTriedFailedLogin :: "people_env \<Rightarrow> EntityId \<Rightarrow> date \<Rightarrow> AccountDto people" where
  "db_updateLastTriedFailedLogin env accountId d =
     bindE (account_findById accountId) (\<lambda>account.
     bindE (account_save env (account\<lparr>acc_lasttriedFailedLogin := Some d\<rparr>)) (\<lambda>a. retE (account_mapToDto a)))"

definition db_updatePassword :: "people_env \<Rightarrow> EntityId \<Rightarrow> string \<Rightarrow> AccountDto people" where
  "db_updatePassword env accountId password =
     bindE (account_findById accountId) (\<lambda>account.
     bindE (encryptPassword env password) (\<lambda>h.
     bindE (account_save env (account\<lparr>acc_password := Some h\<rparr>)) (\<lambda>a. retE (account_mapToDto a))))"

definition mapSearchResult :: "Account list \<times> nat \<Rightarrow> AccountDto list \<times> nat" where
  "mapSearchResult r = (map account_mapToDto (fst r), snd r)"

definition db_searchByUsernamePartialMatch :: "people_env \<Rightarrow> string \<Rightarrow> nat \<Rightarrow> nat \<Rightarrow> (AccountDto list \<times> nat) people" where
  "db_searchByUsernamePartialMatch env userName skip limit =
     bindE (repo_searchByUsernamePartialMatch env userName skip limit) (\<lambda>r. retE (mapSearchResult r))"

definition db_searchByUsernameExactMatch :: "people_env \<Rightarrow> string \<Rightarrow> (AccountDto list \<times> nat) people" where
  "db_searchByUsernameExactMatch env userName =
     bindE (repo_searchByUsernameExactMatch env userName) (\<lambda>r. retE (mapSearchResult r))"

section \<open>Accounts in the identity management\<close>

definition idm_change_send :: "people_env \<Rightarrow> idm_change \<Rightarrow> string people" where
  "idm_change_send env c s =
     (case pe_idmChange env (pst_idm s) c of
        Inl e \<Rightarrow> (Inl e, s) | Inr i \<Rightarrow> (Inr i, s\<lparr>pst_idm := pst_idm s @ [c]\<rparr>))"

definition idm_find :: "people_env \<Rightarrow> idm_query \<Rightarrow> IAccount people" where
  "idm_find env q = queryE (\<lambda>s. pe_idmFind env (pst_idm s) q)"

definition getIdmAccountId :: "people_env \<Rightarrow> string \<Rightarrow> string people" where
  "getIdmAccountId env schoolCloudId = bindE (idm_find env (ByTecRefId schoolCloudId)) (\<lambda>a. retE (ia_id a))"

definition idm_save :: "people_env \<Rightarrow> AccountSaveDto \<Rightarrow> AccountDto people" where
  "idm_save env d =
     (let idmAccount = \<lparr>ia_username = Some (acd_username d), ia_email = None, ia_firstName = None, ia_lastName = None,
            ia_createdDate = None, ia_attRefTechnicalId = acd_idmReferenceId d,
            ia_attRefFunctionalIntId = acd_userId d, ia_attRefFunctionalExtId = acd_systemId d\<rparr>
      in bindE (if truthy (acd_id d)
           then bindE (getIdmAccountId env (the (acd_id d))) (\<lambda>i.
                bindE (idm_change_send env (IdmUpdate i idmAccount)) (\<lambda>accountId.
                  if truthy (acd_password d)
                  then bindE (idm_change_send env (IdmPassword i (the (acd_password d)))) (\<lambda>_. retE accountId)
                  else retE accountId))
           else idm_change_send env (IdmCreate idmAccount (acd_password d)))
         (\<lambda>accountId. bindE (idm_find env (ById accountId)) (\<lambda>a. retE (idm_mapToDto (pe_now env) a))))"

definition idm_updateUsername :: "people_env \<Rightarrow> EntityId \<Rightarrow> string \<Rightarrow> AccountDto people" where
  "idm_updateUsername env accountRefId username =
     bindE (getIdmAccountId env accountRefId) (\<lambda>i.
     bindE (idm_change_send env (IdmUpdate i
       \<lparr>ia_username = Some username, ia_email = None, ia_firstName = None, ia_lastName = None, ia_createdDate = None,
        ia_attRefTechnicalId = None, ia_attRefFunctionalIntId = None, ia_attRefFunctionalExtId = None\<rparr>)) (\<lambda>_.
     bindE (idm_find env (ById i)) (\<lambda>a. retE (idm_mapToDto (pe_now env) a))))"

definition idm_updatePassword :: "people_env \<Rightarrow> EntityId \<Rightarrow> string \<Rightarrow> AccountDto people" where
  "idm_updatePassword env accountRefId password =
     bindE (getIdmAccountId env accountRefId) (\<lambda>i.
     bindE (idm_change_send env (IdmPassword i password)) (\<lambda>_.
     bindE (idm_find env (ById i)) (\<lambda>a. retE (idm_mapToDto (pe_now env) a))))"

definition idm_delete :: "people_env \<Rightarrow> EntityId \<Rightarrow> unit people" where
  "idm_delete env accountRefId =
     bindE (getIdmAccountId env accountRefId) (\<lambda>i. bindE (idm_change_send env (IdmDelete i)) (\<lambda>_. retE ()))"

definition idm_deleteByUserId :: "people_env \<Rightarrow> EntityId \<Rightarrow> unit people" where
  "idm_deleteByUserId env userId =
     bindE (idm_find env (ByFctIntId userId)) (\<lambda>a. bindE (idm_change_send env (IdmDelete (ia_id a))) (\<lambda>_. retE ()))"

section \<open>The facade\<close>

text \<open>The identity management is only told when it is enabled, and its errors are only logged.\<close>

definition executeIdmMethod :: "people_env \<Rightarrow> 'a people \<Rightarrow> 'a option people" where
  "executeIdmMethod env m =
     (if pe_IDM_STORE_ENABLED env
      then catchE (bindE m (\<lambda>x. retE (Some x))) (\<lambda>_. retE None)
      else retE None)"

definition with_idmReference :: "AccountDto \<Rightarrow> AccountDto option \<Rightarrow> AccountDto" where
  "with_idmReference ret idmAccount = ret\<lparr>acd_idmReferenceId := Option.bind idmAccount acd_idmReferenceId\<rparr>"

definition account_service_save :: "people_env \<Rightarrow> AccountSaveDto \<Rightarrow> AccountDto people" where
  "account_service_save env d =
     bindE (db_save env d) (\<lambda>ret.
     bindE (executeIdmMethod env (idm_save env (d\<lparr>acd_idmReferenceId := acd_id ret\<rparr>))) (\<lambda>idmAccount.
       retE (with_idmReference ret idmAccount)))"

definition service_updateUsername :: "people_env \<Rightarrow> EntityId \<Rightarrow> string \<Rightarrow> AccountDto people" where
  "service_updateUsername env accountId username =
     bindE (db_updateUsername env accountId username) (\<lambda>ret.
     bindE (executeIdmMethod env (idm_updateUsername env accountId username)) (\<lambda>idmAccount.
       retE (with_idmReference ret idmAccount)))"

definition service_updatePassword :: "people_env \<Rightarrow> EntityId \<Rightarrow> string \<Rightarrow> AccountDto people" where
  "service_updatePassword env accountId password =
     bindE (db_updatePassword env accountId password) (\<lambda>ret.
     bindE (executeIdmMethod env (idm_updatePassword env accountId password)) (\<lambda>idmAccount.
       retE (with_idmReference ret idmAccount)))"

definition account_service_delete :: "people_env \<Rightarrow> EntityId \<Rightarrow> unit people" where
  "account_service_delete env accountId =
     bindE (account_deleteById env accountId) (\<lambda>_.
     bindE (executeIdmMethod env (idm_delete env accountId)) (\<lambda>_. retE ()))"

definition service_deleteByUserId :: "people_env \<Rightarrow> EntityId \<Rightarrow> unit people" where
  "service_deleteByUserId env userId =
     bindE (account_deleteByUserId env userId) (\<lambda>_.
     bindE (executeIdmMethod env (idm_deleteByUserId env userId)) (\<lambda>_. retE ()))"

section \<open>Names\<close>

definition isUniqueEmail ::
  "people_env \<Rightarrow> string \<Rightarrow> EntityId option \<Rightarrow> EntityId option \<Rightarrow> EntityId option \<Rightarrow> bool people" where
  "isUniqueEmail env email userId accountId systemId =
     bindE (repo_searchByUsernameExactMatch env email) (\<lambda>r.
     bindE (user_findByEmail env email) (\<lambda>foundUsers.
       let foundAccounts = fst (mapSearchResult r);
           filteredAccounts = filter (\<lambda>a. acd_systemId a = systemId) foundAccounts
       in retE (\<not> (length foundUsers > 1 \<or> length filteredAccounts > 1 \<or>
            (length foundUsers = 1 \<and> Some (eid (hd foundUsers)) \<noteq> userId) \<or>
            (length filteredAccounts = 1 \<and> acd_id (hd filteredAccounts) \<noteq> accountId)))))"

definition isUniqueEmailForUser :: "people_env \<Rightarrow> string \<Rightarrow> EntityId \<Rightarrow> bool people" where
  "isUniqueEmailForUser env email userId =
     bindE (account_findByUserId env userId) (\<lambda>account.
       isUniqueEmail env email (Some userId) (map_option eid account) (Option.bind account acc_systemId))"

definition isUniqueEmailForAccount :: "people_env \<Rightarrow> string \<Rightarrow> EntityId \<Rightarrow> bool people" where
  "isUniqueEmailForAccount env email accountId =
     bindE (account_findById accountId) (\<lambda>account.
       isUniqueEmail env email (acc_userId account) (Some (eid account)) (acc_systemId account))"

text \<open>
  \<^verbatim>\<open>validateOrReject\<close> checks the decorators of \<^verbatim>\<open>AccountSaveDto\<close>: a name, ids that are ids, and a password
  that fits the pattern.
\<close>

definition valid_optional :: "(string \<Rightarrow> bool) \<Rightarrow> string option \<Rightarrow> bool" where
  "valid_optional P x = (case x of None \<Rightarrow> True | Some s \<Rightarrow> P s)"

definition AccountSaveDto_valid :: "people_env \<Rightarrow> AccountSaveDto \<Rightarrow> bool" where
  "AccountSaveDto_valid env d \<longleftrightarrow>
     valid_optional (pe_isObjectId env) (acd_id d) \<and> acd_username d \<noteq> [] \<and>
     valid_optional passwordPattern (acd_password d) \<and>
     valid_optional (pe_isObjectId env) (acd_userId d) \<and> valid_optional (pe_isObjectId env) (acd_systemId d)"

definition saveWithValidation :: "people_env \<Rightarrow> AccountSaveDto \<Rightarrow> unit people" where
  "saveWithValidation env dto =
     bindE (liftE (guardR (AccountSaveDto_valid env dto) (ValidationError []))) (\<lambda>_.
     let d = (if truthy (acd_systemId dto) then dto
              else dto\<lparr>acd_username := toLowerCase (trim (acd_username dto))\<rparr>)
     in bindE (liftE (guardR (\<not> (\<not> truthy (acd_systemId d) \<and> \<not> truthy (acd_password d)))
              (ValidationError ''No password provided''))) (\<lambda>_.
        bindE (liftE (guardR (\<not> (\<not> truthy (acd_systemId d) \<and> \<not> pe_isEmail env (acd_username d)))
              (ValidationError ''Username is not an email''))) (\<lambda>_.
        bindE (if truthy (acd_userId d)
               then bindE (db_findByUserId env (the (acd_userId d))) (\<lambda>a.
                 if a \<noteq> None then throwE (ValidationError ''Account already exists'') else retE ())
               else retE ()) (\<lambda>_.
        bindE (isUniqueEmail env (acd_username d) (acd_userId d) (acd_id d) (acd_systemId d)) (\<lambda>unique.
          if \<not> unique then throwE (ValidationError ''Username already exists'')
          else bindE (account_service_save env d) (\<lambda>_. retE ()))))))"

end
