(* ===== verification/AccountUseCases.thy ===== *)
theory AccountUseCases
  imports AccountServices
begin

text \<open>The use cases of accounts (\<^verbatim>\<open>modules/account/uc\<close>) and the requests of its controller.\<close>

section \<open>Who may see and change an account\<close>

definition user_hasRole :: "people_env \<Rightarrow> user \<Rightarrow> RoleName \<Rightarrow> bool" where
  "user_hasRole env u roleName \<longleftrightarrow>
     list_ex (\<lambda>r. role_name (env_roles (pe_auth env) r) = roleName) (coll_items (usr_roles u))"

definition isSuperhero :: "people_env \<Rightarrow> EntityId \<Rightarrow> bool people" where
  "isSuperhero env currentUserId =
     bindE (user_findById currentUserId True) (\<lambda>u. retE (user_hasRole env u SUPERHERO))"

definition hasPermissionsToChangeOwnName :: "people_env \<Rightarrow> user \<Rightarrow> bool" where
  "hasPermissionsToChangeOwnName env u \<longleftrightarrow>
     user_hasRole env u SUPERHERO \<or> user_hasRole env u TEACHER \<or> user_hasRole env u ADMINISTRATOR"

text \<open>The names of the roles and of the roles directly inside them.\<close>

definition extractRoles :: "people_env \<Rightarrow> ref list \<Rightarrow> RoleName list" where
  "extractRoles env inputRoles = concat (map (\<lambda>r.
     let role = env_roles (pe_auth env) r
     in role_name role # map (\<lambda>x. role_name (env_roles (pe_auth env) x)) (coll_items (role_roles role))) inputRoles)"

definition schoolPermissionExists :: "people_env \<Rightarrow> RoleName list \<Rightarrow> school \<Rightarrow> string list \<Rightarrow> bool" where
  "schoolPermissionExists env roles sch permissions \<longleftrightarrow>
     pe_VISIBILITY_IS_CONFIGURABLE env \<and> TEACHER \<in> set roles \<and> ''STUDENT_LIST'' \<in> set permissions \<and>
     nullish (Option.bind (Option.bind (sch_permissions sch) sr_teacher) srp_STUDENT_LIST) False"

datatype account_action = ACTION_READ | ACTION_UPDATE | ACTION_DELETE | ACTION_CREATE

definition permissionsToCheck :: "people_env \<Rightarrow> user \<Rightarrow> account_action \<Rightarrow> string list" where
  "permissionsToCheck env targetUser action =
     (if user_hasRole env targetUser STUDENT
      then (case action of ACTION_READ \<Rightarrow> [''STUDENT_LIST''] | ACTION_UPDATE \<Rightarrow> [''STUDENT_EDIT''] | _ \<Rightarrow> []) else []) @
     (if user_hasRole env targetUser TEACHER
      then (case action of ACTION_READ \<Rightarrow> [''TEACHER_LIST''] | ACTION_UPDATE \<Rightarrow> [''TEACHER_EDIT''] | _ \<Rightarrow> []) else [])"

definition hasPermissionsToAccessAccount :: "people_env \<Rightarrow> user \<Rightarrow> user \<Rightarrow> account_action \<Rightarrow> bool result" where
  "hasPermissionsToAccessAccount env currentUser targetUser action =
     (if user_hasRole env currentUser SUPERHERO then Inr True
      else if eid (usr_school currentUser) \<noteq> eid (usr_school targetUser) then Inr False
      else if permissionsToCheck env targetUser action = [] then Inr False
      else orR (hasUserAllSchoolPermissions (pe_auth env) currentUser (permissionsToCheck env targetUser action))
             (Inr (schoolPermissionExists env (extractRoles env (coll_items (usr_roles currentUser)))
               (usr_school currentUser) (permissionsToCheck env targetUser action))))"

section \<open>Searching\<close>

datatype AccountSearchType = SEARCH_USER_ID | SEARCH_USERNAME

record AccountSearchQueryParams =
  asq_type :: AccountSearchType
  asq_value :: string
  asq_skip :: "nat option"
  asq_limit :: "nat option"

record AccountSearchListResponse =
  asl_data :: "AccountResponse list"
  asl_total :: nat
  asl_skip :: nat
  asl_limit :: nat

definition searchAccounts :: "people_env \<Rightarrow> EntityId \<Rightarrow> AccountSearchQueryParams \<Rightarrow> AccountSearchListResponse people" where
  "searchAccounts env currentUserId query =
     (let skip = nullish (asq_skip query) 0; limit = nullish (asq_limit query) 10
      in bindE (user_findById currentUserId True) (\<lambda>executingUser.
           case asq_type query of
             SEARCH_USERNAME \<Rightarrow>
               bindE (isSuperhero env currentUserId) (\<lambda>superhero.
                 if \<not> superhero
                 then throwE (ForbiddenOperationError ''Current user is not authorized to search for accounts.'')
                 else bindE (db_searchByUsernamePartialMatch env (asq_value query) skip limit) (\<lambda>r.
                        retE \<lparr>asl_data = map account_mapToResponse (fst r), asl_total = snd r,
                              asl_skip = skip, asl_limit = limit\<rparr>))
           | SEARCH_USER_ID \<Rightarrow>
               bindE (user_findById (asq_value query) True) (\<lambda>targetUser.
               bindE (liftE (hasPermissionsToAccessAccount env executingUser targetUser ACTION_READ)) (\<lambda>permission.
                 if \<not> permission
                 then throwE (ForbiddenOperationError ''Current user is not authorized to search for accounts by user id.'')
                 else bindE (db_findByUserId env (asq_value query)) (\<lambda>account.
                        retE (case account of
                          Some a \<Rightarrow> \<lparr>asl_data = [account_mapToResponse a], asl_total = 1, asl_skip = 0, asl_limit = 1\<rparr>
                        | None \<Rightarrow> \<lparr>asl_data = [], asl_total = 0, asl_skip = 0, asl_limit = 0\<rparr>))))))"

definition uc_findAccountById :: "people_env \<Rightarrow> EntityId \<Rightarrow> EntityId \<Rightarrow> AccountResponse people" where
  "uc_findAccountById env currentUserId i =
     bindE (isSuperhero env currentUserId) (\<lambda>superhero.
       if \<not> superhero
       then throwE (ForbiddenOperationError ''Current user is not authorized to search for accounts.'')
       else bindE (db_findById i) (\<lambda>account. retE (account_mapToResponse account)))"

definition uc_saveAccount :: "people_env \<Rightarrow> AccountSaveDto \<Rightarrow> unit people" where
  "uc_saveAccount env d = saveWithValidation env d"

section \<open>Changing accounts\<close>

definition checkUniqueEmail :: "people_env \<Rightarrow> AccountDto \<Rightarrow> user \<Rightarrow> string \<Rightarrow> unit people" where
  "checkUniqueEmail env account u email =
     bindE (isUniqueEmail env email (Some (eid u)) (acd_id account) (acd_systemId account)) (\<lambda>unique.
       if unique then retE () else throwE (ValidationError ''The email address is already in use!''))"

text \<open>A save whose failure is reported as a missing entity.\<close>

definition or_not_found :: "string \<Rightarrow> 'a people \<Rightarrow> unit people" where
  "or_not_found name m = catchE (bindE m (\<lambda>_. retE ())) (\<lambda>_. throwE (EntityNotFoundError name))"

record AccountByIdBodyParams =
  abb_username :: "string option"
  abb_password :: "string option"
  abb_activated :: "bool option"

definition updateAccountById ::
  "people_env \<Rightarrow> EntityId \<Rightarrow> EntityId \<Rightarrow> AccountByIdBodyParams \<Rightarrow> AccountResponse people" where
  "updateAccountById env currentUserId accountId body =
     bindE (user_findById currentUserId True) (\<lambda>executingUser.
     bindE (db_findById accountId) (\<lambda>targetAccount.
       if \<not> truthy (acd_userId targetAccount) then throwE (EntityNotFoundError ''User'')
       else bindE (user_findById (the (acd_userId targetAccount)) True) (\<lambda>targetUser.
     bindE (liftE (hasPermissionsToAccessAccount env executingUser targetUser ACTION_UPDATE)) (\<lambda>permission.
       if \<not> permission
       then throwE (ForbiddenOperationError ''Current user is not authorized to update target account.'')
       else
         let newPassword = abb_password body \<noteq> None;
             account1 = (if newPassword then targetAccount\<lparr>acd_password := abb_password body\<rparr> else targetAccount);
             user1 = (if newPassword then targetUser\<lparr>usr_forcePasswordChange := Some True\<rparr> else targetUser)
         in bindE (case abb_username body of
              None \<Rightarrow> retE (account1, user1)
            | Some username \<Rightarrow>
                let newMail = toLowerCase username
                in bindE (checkUniqueEmail env account1 user1 newMail) (\<lambda>_.
                     retE (account1\<lparr>acd_username := newMail\<rparr>, user1\<lparr>usr_email := newMail\<rparr>)))
            (\<lambda>(account2, user2).
              let account3 = (case abb_activated body of None \<Rightarrow> account2
                              | Some b \<Rightarrow> account2\<lparr>acd_activated := Some b\<rparr>)
              in bindE (if newPassword \<or> abb_username body \<noteq> None
                        then or_not_found ''User'' (user_save env user2) else retE ()) (\<lambda>_.
                 bindE (if newPassword \<or> abb_username body \<noteq> None \<or> abb_activated body \<noteq> None
                        then or_not_found ''Account'' (account_service_save env account3) else retE ()) (\<lambda>_.
                   retE (account_mapToResponse account3))))))))"

definition uc_deleteAccountById :: "people_env \<Rightarrow> EntityId \<Rightarrow> EntityId \<Rightarrow> AccountResponse people" where
  "uc_deleteAccountById env currentUserId i =
     bindE (isSuperhero env currentUserId) (\<lambda>superhero.
       if \<not> superhero
       then throwE (ForbiddenOperationError ''Current user is not authorized to delete an account.'')
       else bindE (db_findById i) (\<lambda>account.
            bindE (account_service_delete env (the (acd_id account))) (\<lambda>_.
              retE (account_mapToResponse account))))"

record PatchMyAccountParams =
  pma_passwordOld :: string
  pma_passwordNew :: "string option"
  pma_email :: "string option"
  pma_firstName :: "string option"
  pma_lastName :: "string option"

text \<open>A new name: \<^verbatim>\<open>name && old !== name\<close>.\<close>

definition differs :: "string option \<Rightarrow> string \<Rightarrow> bool" where
  "differs new old \<longleftrightarrow> truthy new \<and> new \<noteq> Some old"

definition updateMyAccount :: "people_env \<Rightarrow> EntityId \<Rightarrow> PatchMyAccountParams \<Rightarrow> unit people" where
  "updateMyAccount env currentUserId params =
     bindE (user_findById currentUserId True) (\<lambda>u.
     bindE (db_findByUserIdOrFail env currentUserId) (\<lambda>account.
       if truthy (acd_systemId account)
       then throwE (ForbiddenOperationError ''External account details can not be changed.'')
       else if pma_passwordOld params = [] \<or> \<not> truthy (acd_password account) \<or>
               \<not> checkPassword env (pma_passwordOld params) (the (acd_password account))
       then throwE (AuthorizationError ''Dein Passwort ist nicht korrekt!'')
       else
         let newPassword = truthy (pma_passwordNew params);
             account1 = account\<lparr>acd_password := (if newPassword then pma_passwordNew params else None)\<rparr>;
             newEmail = differs (pma_email params) (usr_email u)
         in bindE (if newEmail
                   then let newMail = toLowerCase (the (pma_email params))
                        in bindE (checkUniqueEmail env account1 u newMail) (\<lambda>_.
                             retE (account1\<lparr>acd_username := newMail\<rparr>, u\<lparr>usr_email := newMail\<rparr>))
                   else retE (account1, u))
            (\<lambda>(account2, user1).
              let newFirst = differs (pma_firstName params) (usr_firstName user1);
                  newLast = differs (pma_lastName params) (usr_lastName user1)
              in if newFirst \<and> \<not> hasPermissionsToChangeOwnName env user1
                 then throwE (ForbiddenOperationError ''No permission to change first name'')
                 else if newLast \<and> \<not> hasPermissionsToChangeOwnName env user1
                 then throwE (ForbiddenOperationError ''No permission to change last name'')
                 else
                   let user2 = (if newFirst then user1\<lparr>usr_firstName := the (pma_firstName params)\<rparr> else user1);
                       user3 = (if newLast then user2\<lparr>usr_lastName := the (pma_lastName params)\<rparr> else user2)
                   in bindE (if newEmail \<or> newFirst \<or> newLast then or_not_found ''User'' (user_save env user3)
                             else retE ()) (\<lambda>_.
                      if newPassword \<or> newEmail then or_not_found ''Account'' (account_service_save env account2)
                      else retE ()))))"

text \<open>\<^verbatim>\<open>preferences\<close> is a document; its entry \<^verbatim>\<open>firstLogin\<close> is read for its truth, here from JSON.\<close>

definition json_truthy :: "string \<Rightarrow> bool" where
  "json_truthy v \<longleftrightarrow> v \<notin> {''false'', ''null'', ''0'', [CHR 0x22, CHR 0x22]}"

definition firstLoginPassed :: "user \<Rightarrow> bool" where
  "firstLoginPassed u =
     (case usr_preferences u of None \<Rightarrow> False
      | Some ps \<Rightarrow> (case map_of ps ''firstLogin'' of None \<Rightarrow> False | Some v \<Rightarrow> json_truthy v))"

definition replaceMyTemporaryPassword :: "people_env \<Rightarrow> EntityId \<Rightarrow> string \<Rightarrow> string \<Rightarrow> unit people" where
  "replaceMyTemporaryPassword env userId password confirmPassword =
     (if password \<noteq> confirmPassword
      then throwE (ForbiddenOperationError ''Password and confirm password do not match.'')
      else bindE (catchE (user_findById userId False) (\<lambda>_. throwE (EntityNotFoundError ''User''))) (\<lambda>u.
        if usr_forcePasswordChange u \<noteq> Some True \<and> firstLoginPassed u
        then throwE (ForbiddenOperationError ''The password is not temporary, hence can not be changed.'')
        else bindE (db_findByUserIdOrFail env userId) (\<lambda>account.
          if truthy (acd_systemId account)
          then throwE (ForbiddenOperationError ''External account details can not be changed.'')
          else if \<not> truthy (acd_password account)
          then throwE (PlainError ''The account does not have a password to compare against.'')
          else if checkPassword env password (the (acd_password account))
          then throwE (ForbiddenOperationError ''New password can not be same as old password.'')
          else bindE (or_not_found ''Account'' (account_service_save env (account\<lparr>acd_password := Some password\<rparr>))) (\<lambda>_.
                 or_not_found ''User'' (user_save env (u\<lparr>usr_forcePasswordChange := Some False\<rparr>))))))"

section \<open>Failed logins\<close>

text \<open>Times are in milliseconds; \<^verbatim>\<open>Math.ceil\<close> of the seconds.\<close>

definition ceil_seconds :: "int \<Rightarrow> int" where
  "ceil_seconds ms = - ((- ms) div 1000)"

definition uc_checkBrutForce :: "people_env \<Rightarrow> string \<Rightarrow> EntityId \<Rightarrow> unit people" where
  "uc_checkBrutForce env username systemId =
     bindE (db_findByUsernameAndSystemId env username systemId) (\<lambda>found.
       case found of
         None \<Rightarrow> retE ()
       | Some account \<Rightarrow>
           bindE (case acd_lasttriedFailedLogin account of
               None \<Rightarrow> retE ()
             | Some t \<Rightarrow>
                 let timeDifference = pe_now env - t
                 in if timeDifference < 1000 * pe_LOGIN_BLOCK_TIME env
                    then throwE (BruteForcePrevention ''Brute Force Prevention!''
                           (pe_LOGIN_BLOCK_TIME env - ceil_seconds timeDifference))
                    else retE ()) (\<lambda>_.
           bindE (db_updateLastTriedFailedLogin env (the (acd_id account)) (pe_now env)) (\<lambda>_. retE ())))"

section \<open>The requests of the controller\<close>

text \<open>The decorators of the bodies: names are email addresses, new passwords fit the pattern.\<close>

datatype AccountRequest =
    SearchRequest AccountSearchQueryParams
  | FindRequest EntityId
  | UpdateRequest EntityId AccountByIdBodyParams
  | DeleteRequest EntityId
  | UpdateMeRequest PatchMyAccountParams
  | PasswordRequest string string

fun account_request_valid :: "people_env \<Rightarrow> AccountRequest \<Rightarrow> bool" where
  "account_request_valid env (SearchRequest _) = True"
| "account_request_valid env (FindRequest i) = pe_isObjectId env i"
| "account_request_valid env (UpdateRequest i body) =
     (pe_isObjectId env i \<and> valid_optional (pe_isEmail env) (abb_username body) \<and>
      valid_optional passwordPattern (abb_password body))"
| "account_request_valid env (DeleteRequest i) = pe_isObjectId env i"
| "account_request_valid env (UpdateMeRequest p) =
     (valid_optional passwordPattern (pma_passwordNew p) \<and> valid_optional (pe_isEmail env) (pma_email p))"
| "account_request_valid env (PasswordRequest p q) = (passwordPattern p \<and> passwordPattern q)"

fun handle_account_request :: "people_env \<Rightarrow> EntityId \<Rightarrow> AccountRequest \<Rightarrow> unit people" where
  "handle_account_request env userId (SearchRequest q) = bindE (searchAccounts env userId q) (\<lambda>_. retE ())"
| "handle_account_request env userId (FindRequest i) = bindE (uc_findAccountById env userId i) (\<lambda>_. retE ())"
| "handle_account_request env userId (UpdateRequest i body) = bindE (updateAccountById env userId i body) (\<lambda>_. retE ())"
| "handle_account_request env userId (DeleteRequest i) = bindE (uc_deleteAccountById env userId i) (\<lambda>_. retE ())"
| "handle_account_request env userId (UpdateMeRequest p) = updateMyAccount env userId p"
| "handle_account_request env userId (PasswordRequest p q) = replaceMyTemporaryPassword env userId p q"

definition account_request :: "people_env \<Rightarrow> EntityId \<Rightarrow> AccountRequest \<Rightarrow> unit people" where
  "account_request env userId request =
     (if account_request_valid env request then handle_account_request env userId request
      else throwE (BadRequestException []))"

end
