(* ===== verification/Authentication.thy ===== *)
theory Authentication
  imports AccountUseCases
begin

text \<open>
  The login (\<^verbatim>\<open>modules/authentication\<close>): the loading of an account, the delay after a failed login,
  and the strategies for local accounts, LDAP, OAuth and tokens. The LDAP server and the identity
  management answer as parameters; what a token contains is checked by the library before.
\<close>

section \<open>The service\<close>

definition loadAccount :: "people_env \<Rightarrow> string \<Rightarrow> EntityId option \<Rightarrow> AccountDto people" where
  "loadAccount env username systemId =
     bindE (if truthy systemId then db_findByUsernameAndSystemId env username (the systemId)
            else bindE (db_searchByUsernameExactMatch env username) (\<lambda>found.
                   retE (List.find (\<lambda>a. acd_systemId a = None) (fst found)))) (\<lambda>account.
       case account of None \<Rightarrow> throwE (UnauthorizedException []) | Some a \<Rightarrow> retE a)"

definition auth_checkBrutForce :: "people_env \<Rightarrow> AccountDto \<Rightarrow> unit result" where
  "auth_checkBrutForce env account =
     (case acd_lasttriedFailedLogin account of
        None \<Rightarrow> Inr ()
      | Some t \<Rightarrow>
          let timeDifference = pe_now env - t
          in if timeDifference < 1000 * pe_LOGIN_BLOCK_TIME env
             then let timeToWait = pe_LOGIN_BLOCK_TIME env - ceil_seconds timeDifference
                  in Inl (BruteForceError timeToWait (''Brute Force Prevention! Time to wait: '' @ int_string timeToWait @ '' s''))
             else Inr ())"

definition auth_updateLastTriedFailedLogin :: "people_env \<Rightarrow> EntityId \<Rightarrow> unit people" where
  "auth_updateLastTriedFailedLogin env i = bindE (db_updateLastTriedFailedLogin env i (pe_now env)) (\<lambda>_. retE ())"

definition normalizeUsername :: "string \<Rightarrow> string" where
  "normalizeUsername username = toLowerCase (trim username)"

definition normalizePassword :: "string \<Rightarrow> string" where
  "normalizePassword password = trim password"

section \<open>Local accounts\<close>

definition or_unauthorized :: "'a option \<Rightarrow> 'a people" where
  "or_unauthorized x = (case x of None \<Rightarrow> throwE (UnauthorizedException []) | Some y \<Rightarrow> retE y)"

definition local_checkCredentials :: "people_env \<Rightarrow> string \<Rightarrow> string \<Rightarrow> AccountDto \<Rightarrow> unit people" where
  "local_checkCredentials env enteredPassword savedPassword account =
     bindE (liftE (auth_checkBrutForce env account)) (\<lambda>_.
       if \<not> pe_compare env enteredPassword savedPassword
       then bindE (auth_updateLastTriedFailedLogin env (the (acd_id account))) (\<lambda>_. throwE (UnauthorizedException []))
       else retE ())"

definition local_validate :: "people_env \<Rightarrow> string option \<Rightarrow> string option \<Rightarrow> ICurrentUser people" where
  "local_validate env username password =
     bindE (or_unauthorized username) (\<lambda>name. bindE (or_unauthorized password) (\<lambda>word.
     let name = normalizeUsername name; word = normalizePassword word
     in bindE (loadAccount env name None) (\<lambda>account.
        bindE (or_unauthorized (acd_password account)) (\<lambda>accountPassword.
        bindE (if pe_IDM_LOGIN_ENABLED env
               then bindE (liftE (pe_passwordGrant env name word)) (\<lambda>jwt.
                      bindE (or_unauthorized jwt) (\<lambda>_. retE ()))
               else local_checkCredentials env word accountPassword account) (\<lambda>_.
        bindE (case acd_userId account of
            None \<Rightarrow> throwE (PlainError (''login failing, because account '' @ the (acd_id account) @ '' has no userId''))
          | Some i \<Rightarrow> retE i) (\<lambda>accountUserId.
        bindE (user_findById accountUserId False) (\<lambda>u.
          retE (userToICurrentUser env (the (acd_id account)) u None))))))))"

section \<open>LDAP\<close>

definition checkLdapCredentials :: "people_env \<Rightarrow> System \<Rightarrow> string \<Rightarrow> string \<Rightarrow> unit result" where
  "checkLdapCredentials env system username password =
     (if sys_ldapConfig system = None
      then Inl (PlainError (''no LDAP config found in system '' @ eid system))
      else pe_ldapBind env system username password)"

record LdapRequestBody =
  lrb_systemId :: "string option"
  lrb_username :: "string option"
  lrb_password :: "string option"
  lrb_schoolId :: "string option"

definition ldap_checkCredentials :: "people_env \<Rightarrow> AccountDto \<Rightarrow> System \<Rightarrow> string \<Rightarrow> string \<Rightarrow> unit people" where
  "ldap_checkCredentials env account system ldapDn password =
     (case checkLdapCredentials env system ldapDn password of
        Inr x \<Rightarrow> retE x
      | Inl e \<Rightarrow>
          (case e of
             UnauthorizedException _ \<Rightarrow>
               bindE (auth_updateLastTriedFailedLogin env (the (acd_id account))) (\<lambda>_. throwE e)
           | _ \<Rightarrow> throwE e))"

definition ldap_loadAccount :: "people_env \<Rightarrow> string \<Rightarrow> EntityId \<Rightarrow> SchoolDO \<Rightarrow> AccountDto people" where
  "ldap_loadAccount env username systemId school =
     bindE (or_unauthorized (sdo_externalId school)) (\<lambda>externalSchoolId.
       loadAccount env (toLowerCase (externalSchoolId @ ''/'' @ username)) (Some systemId))"

definition ldap_validate :: "people_env \<Rightarrow> LdapRequestBody \<Rightarrow> ICurrentUser people" where
  "ldap_validate env body =
     (if \<not> truthy (lrb_systemId body) \<or> \<not> truthy (lrb_username body) \<or> \<not> truthy (lrb_password body) \<or>
         \<not> truthy (lrb_schoolId body)
      then throwE (UnauthorizedException [])
      else
        let username = normalizeUsername (the (lrb_username body));
            password = normalizePassword (the (lrb_password body));
            systemId = the (lrb_systemId body)
        in bindE (liftE (row_or_fail (pe_systems env) systemId)) (\<lambda>system.
           bindE (school_repo_findById env (the (lrb_schoolId body))) (\<lambda>school.
           bindE (ldap_loadAccount env username systemId school) (\<lambda>account.
           bindE (or_unauthorized (acd_userId account)) (\<lambda>userId.
           bindE (liftE (auth_checkBrutForce env account)) (\<lambda>_.
           bindE (user_findById userId False) (\<lambda>u.
           bindE (or_unauthorized (usr_ldapDn u)) (\<lambda>ldapDn.
           bindE (ldap_checkCredentials env account system ldapDn password) (\<lambda>_.
             retE (userToICurrentUser env (the (acd_id account)) u (Some systemId)))))))))))"

section \<open>OAuth and tokens\<close>

text \<open>Without a user there is no current user, only a redirect.\<close>

definition loadICurrentUser :: "people_env \<Rightarrow> EntityId \<Rightarrow> UserDO option \<Rightarrow> ICurrentUser option people" where
  "loadICurrentUser env systemId u =
     (case u of
        None \<Rightarrow> retE None
      | Some d \<Rightarrow>
          if \<not> truthy (udo_id d) then retE None
          else bindE (db_findByUserId env (the (udo_id d))) (\<lambda>account.
                 case account of
                   None \<Rightarrow> throwE (UnauthorizedException ''no account found'')
                 | Some a \<Rightarrow> bindE (liftE (userDoToICurrentUser (the (acd_id a)) d (Some systemId))) (\<lambda>c. retE (Some c))))"

record JwtPayload = ICurrentUser +
  jwt_aud :: string
  jwt_exp :: int
  jwt_iat :: int
  jwt_iss :: string
  jwt_jti :: string
  jwt_sub :: string

definition jwt_validate :: "people_env \<Rightarrow> (EntityId \<Rightarrow> string \<Rightarrow> unit result) \<Rightarrow> JwtPayload \<Rightarrow> JwtPayload people" where
  "jwt_validate env isWhitelisted payload =
     bindE (liftE (isWhitelisted (icu_accountId payload) (jwt_jti payload))) (\<lambda>_.
     bindE (catchE (user_findById (icu_userId payload) False) (\<lambda>_. throwE (UnauthorizedException ''Unauthorized.''))) (\<lambda>_.
       retE payload))"

section \<open>Resolved users\<close>

text \<open>\<^verbatim>\<open>UserService.getResolvedUser\<close>.\<close>

definition getResolvedUser :: "people_env \<Rightarrow> EntityId \<Rightarrow> ICurrentUser people" where
  "getResolvedUser env userId =
     bindE (user_findById userId True) (\<lambda>u.
     bindE (db_findByUserIdOrFail env userId) (\<lambda>account.
       retE (userToICurrentUser env (the (acd_id account)) u (acd_systemId account))))"

end
