(* ===== verification/AccountProperties.thy ===== *)
theory AccountProperties
  imports Authentication
begin

text \<open>
  What the requests to accounts need, change and leave: permissions, the rows they touch, and what
  becomes of passwords.
\<close>

section \<open>Queries and writes\<close>

named_theorems people_pure \<open>operations on people that leave the state\<close>

lemma pure_ids [people_pure]: "pureE (new_ObjectId env (Some i))"
  by (simp add: new_ObjectId_def)

lemma pure_people_repositories [people_pure]:
  "pureE (user_findById i b)" "pureE (user_findByEmail env e)" "pureE (account_findById i)"
  "pureE (searchByUsername env n k l b)" "pureE (school_repo_findById env i)" "pureE (userDO_findById env i)"
  "pureE (school_findBySchoolNumber env x)" "pureE (school_findByExternalId env x y)"
  "pureE (userDO_findByExternalId env x y)" "pureE (userDO_find env q k2 l2 d)"
  by (simp_all add: user_findById_def user_findByEmail_def account_findById_def searchByUsername_def
      school_repo_findById_def userDO_findById_def school_findBySchoolNumber_def school_findByExternalId_def
      userDO_findByExternalId_def userDO_find_def)

lemma pure_account_queries [people_pure]:
  "pureE (account_findByUserId env i)" "pureE (account_findByUsernameAndSystemId env n i)"
  "pureE (account_findMultipleByUserId env is)"
  "pureE (repo_searchByUsernameExactMatch env n)" "pureE (repo_searchByUsernamePartialMatch env n k l)"
  by (auto simp: account_findByUserId_def account_findByUsernameAndSystemId_def account_findMultipleByUserId_def
      repo_searchByUsernameExactMatch_def repo_searchByUsernamePartialMatch_def
      intro!: pureE_bind pureE_mapME people_pure)

lemma pure_account_services [people_pure]:
  "pureE (db_findById i)" "pureE (db_findByUserId env i)" "pureE (db_findByUserIdOrFail env i)"
  "pureE (db_findByUsernameAndSystemId env n i)" "pureE (db_searchByUsernamePartialMatch env n k l)"
  "pureE (db_searchByUsernameExactMatch env n)" "pureE (isUniqueEmail env e u a y)"
  "pureE (isSuperhero env i)" "pureE (checkUniqueEmail env d v e)" "pureE (loadAccount env n sys)"
  "pureE (or_unauthorized x)"
  by (auto simp: db_findById_def db_findByUserId_def db_findByUserIdOrFail_def db_findByUsernameAndSystemId_def
      db_searchByUsernamePartialMatch_def db_searchByUsernameExactMatch_def isUniqueEmail_def isSuperhero_def
      checkUniqueEmail_def loadAccount_def or_unauthorized_def Let_def split: option.split
      intro!: pureE_bind people_pure)

text \<open>The rows other than those of an account and a user, and the other tables.\<close>

definition untouched ::
  "EntityId \<Rightarrow> EntityId \<Rightarrow> people_state \<Rightarrow> Account list \<times> user list \<times> school list \<times> ImportUser list" where
  "untouched a u s = (filter (\<lambda>x. eid x \<noteq> a) (pst_accounts s), filter (\<lambda>x. eid x \<noteq> u) (pst_users s),
     pst_schools s, pst_importUsers s)"

lemma keeps_db_write:
  "(\<And>s n. v (s\<lparr>pst_writes := n\<rparr>) = v s) \<Longrightarrow> keepsE v m \<Longrightarrow> keepsE v (db_write env m)"
  by (simp add: keepsE_def db_write_def Let_def split: option.split)

lemma keeps_fresh: "(\<And>s n. v (s\<lparr>pst_fresh := n\<rparr>) = v s) \<Longrightarrow> keepsE v fresh_ref"
  by (simp add: keepsE_def fresh_ref_def)

lemma keeps_idm: "(\<And>s n. v (s\<lparr>pst_idm := n\<rparr>) = v s) \<Longrightarrow> keepsE v (idm_change_send env c)"
  by (simp add: keepsE_def idm_change_send_def split: sum.split)

lemma untouched_rest [simp]:
  "untouched a u (s\<lparr>pst_writes := n\<rparr>) = untouched a u s" "untouched a u (s\<lparr>pst_fresh := m\<rparr>) = untouched a u s"
  "untouched a u (s\<lparr>pst_idm := l\<rparr>) = untouched a u s"
  by (simp_all add: untouched_def)

lemma persist_known:
  "eid e \<noteq> [] \<Longrightarrow> \<exists>e'. persist_row now newId t e = (e', map (\<lambda>row. if eid row = eid e then e' else row) t) \<and>
     (e' = e \<or> e' = e\<lparr>ent_updatedAt := now\<rparr>) \<and> eid e' = eid e"
  by (cases e) (auto simp: persist_row_def Let_def)

lemma filter_replaced:
  "eid e' = i \<Longrightarrow> filter (\<lambda>x. eid x \<noteq> i) (map (\<lambda>row. if eid row = i then e' else row) t) = filter (\<lambda>x. eid x \<noteq> i) t"
  by (induction t) auto

lemma persist_untouched:
  assumes "eid e = i" and "i \<noteq> []"
  shows "filter (\<lambda>x. eid x \<noteq> i) (snd (persist_row now newId t e)) = filter (\<lambda>x. eid x \<noteq> i) t"
proof -
  obtain e' where p: "persist_row now newId t e = (e', map (\<lambda>row. if eid row = i then e' else row) t)" "eid e' = i"
    using persist_known [of e now newId t] assms by auto
  show ?thesis unfolding p(1) snd_conv using filter_replaced [OF p(2)] .
qed

lemma keeps_user_save: "eid x = u \<Longrightarrow> u \<noteq> [] \<Longrightarrow> keepsE (untouched a u) (user_save env x)"
  unfolding user_save_def
  by (intro keeps_db_write keepsE_modify) (simp_all add: untouched_def persist_untouched)

lemma keeps_account_save:
  assumes "eid x = a" and "a \<noteq> []"
  shows "keepsE (untouched a u) (account_save env x)"
proof -
  have "untouched a u (s\<lparr>pst_accounts := snd (persist_row now newId (pst_accounts s) x)\<rparr>) = untouched a u s" for now newId s
    using assms by (simp add: untouched_def persist_untouched)
  then show ?thesis unfolding account_save_def
    by (intro keeps_db_write) (simp_all add: keepsE_def split_beta)
qed

lemma keeps_small:
  "keepsE (untouched a u) fresh_ref" "keepsE (untouched a u) (new_ObjectId env i)"
  "keepsE (untouched a u) (optional_ObjectId env i)" "keepsE (untouched a u) (encryptPassword env p)"
  "keepsE (untouched a u) (optional_hash env q)"
  by (auto simp: new_ObjectId_def optional_ObjectId_def encryptPassword_def optional_hash_def
      split: option.split intro!: keepsE_bind keeps_fresh)

lemma keeps_idm_methods:
  "keepsE (untouched a u) (idm_save env d)" "keepsE (untouched a u) (idm_updateUsername env i n)"
  "keepsE (untouched a u) (idm_updatePassword env i p)" "keepsE (untouched a u) (idm_delete env i)"
  by (auto simp: idm_save_def idm_updateUsername_def idm_updatePassword_def idm_delete_def getIdmAccountId_def
      idm_find_def Let_def intro!: keepsE_bind keeps_idm)

lemma keeps_execute: "keepsE v m \<Longrightarrow> keepsE v (executeIdmMethod env m)"
  by (auto simp: executeIdmMethod_def intro!: keepsE_bind keepsE_catch)

lemma found_account: "account_findById i s = (Inr x, s') \<Longrightarrow> s' = s \<and> find_row (pst_accounts s) i = Some x"
  by (auto simp: account_findById_def queryE_def row_or_fail_def split: option.splits)

lemma row_found: "find_row t i = Some x \<Longrightarrow> x \<in> set t \<and> eid x = i"
  unfolding find_row_def using find_eq_Some by fastforce

lemma keeps_after_find:
  assumes "\<And>x. eid x = i \<Longrightarrow> keepsE v (k x)"
  shows "keepsE v (bindE (account_findById i) k)"
  unfolding keepsE_def
proof
  fix s
  show "v (snd (bindE (account_findById i) k s)) = v s"
    using assms found_account [of i s] row_found [of "pst_accounts s" i]
    by (cases "account_findById i s") (auto simp: bindE_def keepsE_def account_findById_def queryE_def split: sum.split)
qed

lemma keeps_db_save:
  assumes "acd_id d = Some a" and "a \<noteq> []"
  shows "keepsE (untouched a u) (db_save env d)"
proof -
  have t: "truthy (acd_id d) = True" "the (acd_id d) = a" using assms by (simp_all add: truthy_def)
  show ?thesis unfolding db_save_def t if_True
    by (rule keepsE_bind, rule keeps_after_find)
      (auto simp: assms(2) intro!: keepsE_bind keeps_small keeps_account_save)
qed

lemma keeps_service_save:
  "acd_id d = Some a \<Longrightarrow> a \<noteq> [] \<Longrightarrow> keepsE (untouched a u) (account_service_save env d)"
  unfolding account_service_save_def
  by (intro keepsE_bind keeps_db_save keeps_execute keeps_idm_methods keepsE_basic)

lemma keeps_or_not_found: "keepsE v m \<Longrightarrow> keepsE v (or_not_found n m)"
  unfolding or_not_found_def by (intro keepsE_catch keepsE_bind keepsE_basic)

lemma keeps_delete:
  assumes "a \<noteq> []"
  shows "keepsE (untouched a u) (account_service_delete env a)"
proof -
  have del: "keepsE (untouched a u) (account_delete env x)" if "eid x = a" for x
    unfolding account_delete_def using that
    by (intro keeps_db_write keepsE_modify) (simp_all add: untouched_def)
  then have "keepsE (untouched a u) (account_deleteById env a)"
    unfolding account_deleteById_def by (rule keeps_after_find)
  then show ?thesis unfolding account_service_delete_def
    by (intro keepsE_bind keeps_execute keeps_idm_methods keepsE_basic)
qed

section \<open>Who changes what\<close>

lemma hasPermissions_update:
  assumes "hasPermissionsToAccessAccount env cur target ACTION_UPDATE = Inr True"
  shows "user_hasRole env cur SUPERHERO \<or>
     eid (usr_school cur) = eid (usr_school target) \<and>
     (user_hasRole env target STUDENT \<or> user_hasRole env target TEACHER) \<and>
     hasUserAllSchoolPermissions (pe_auth env) cur
       ((if user_hasRole env target STUDENT then [''STUDENT_EDIT''] else []) @
        (if user_hasRole env target TEACHER then [''TEACHER_EDIT''] else [])) = Inr True"
proof -
  have no: "schoolPermissionExists env rs sch (permissionsToCheck env target ACTION_UPDATE) = False" for rs sch
    by (auto simp: schoolPermissionExists_def permissionsToCheck_def)
  show ?thesis using assms unfolding hasPermissionsToAccessAccount_def no
    by (cases "hasUserAllSchoolPermissions (pe_auth env) cur (permissionsToCheck env target ACTION_UPDATE)")
      (auto simp: permissionsToCheck_def orR_def split: if_splits sum.splits)
qed

text \<open>What a request needs in a state, with the account and the user whose rows it may change.\<close>

definition may_edit :: "people_env \<Rightarrow> user \<Rightarrow> user \<Rightarrow> bool" where
  "may_edit env cur target \<longleftrightarrow>
     user_hasRole env cur SUPERHERO \<or>
     eid (usr_school cur) = eid (usr_school target) \<and>
     (user_hasRole env target STUDENT \<or> user_hasRole env target TEACHER) \<and>
     hasUserAllSchoolPermissions (pe_auth env) cur
       ((if user_hasRole env target STUDENT then [''STUDENT_EDIT''] else []) @
        (if user_hasRole env target TEACHER then [''TEACHER_EDIT''] else [])) = Inr True"

definition user_row :: "people_state \<Rightarrow> EntityId \<Rightarrow> (user \<Rightarrow> bool) \<Rightarrow> bool" where
  "user_row s i P = (case find_row (pst_users s) i of None \<Rightarrow> False | Some u \<Rightarrow> P (with_school s u))"

definition local_account_row :: "people_state \<Rightarrow> EntityId \<Rightarrow> EntityId \<Rightarrow> (string \<Rightarrow> bool) \<Rightarrow> bool" where
  "local_account_row s a u P =
     (case List.find (\<lambda>row. acc_userId row = Some u) (pst_accounts s) of
        None \<Rightarrow> False
      | Some row \<Rightarrow> eid row = a \<and> \<not> truthy (acc_systemId row) \<and> truthy (acc_password row) \<and> P (the (acc_password row)))"

fun account_change_permitted ::
  "people_env \<Rightarrow> people_state \<Rightarrow> EntityId \<Rightarrow> AccountRequest \<Rightarrow> EntityId \<Rightarrow> EntityId \<Rightarrow> bool" where
  "account_change_permitted env s me (SearchRequest _) a u = False"
| "account_change_permitted env s me (FindRequest _) a u = False"
| "account_change_permitted env s me (UpdateRequest i _) a u =
     (a = i \<and> map_option acc_userId (find_row (pst_accounts s) i) = Some (Some u) \<and>
      user_row s me (\<lambda>cur. user_row s u (may_edit env cur)))"
| "account_change_permitted env s me (DeleteRequest i) a u =
     (a = i \<and> user_row s me (\<lambda>cur. user_hasRole env cur SUPERHERO))"
| "account_change_permitted env s me (UpdateMeRequest p) a u =
     (u = me \<and> local_account_row s a u (\<lambda>hash. pma_passwordOld p \<noteq> [] \<and> pe_compare env (pma_passwordOld p) hash) \<and>
      user_row s u (\<lambda>cur. differs (pma_firstName p) (usr_firstName cur) \<or> differs (pma_lastName p) (usr_lastName cur) \<longrightarrow>
        hasPermissionsToChangeOwnName env cur))"
| "account_change_permitted env s me (PasswordRequest p q) a u =
     (u = me \<and> p = q \<and> passwordPattern p \<and>
      local_account_row s a u (\<lambda>hash. \<not> pe_compare env p hash) \<and>
      user_row s u (\<lambda>cur. usr_forcePasswordChange cur = Some True \<or> \<not> firstLoginPassed cur))"

lemma found_user: "user_findById i b s = (Inr x, s') \<longleftrightarrow>
    (s' = s \<and> (\<exists>row. find_row (pst_users s) i = Some row \<and> x = (if b then with_school s row else row)))"
  by (auto simp: user_findById_def queryE_def row_or_fail_def split: option.splits)

lemma user_row_found: "user_findById i True s = (Inr x, s') \<Longrightarrow> user_row s i P \<longleftrightarrow> P x"
  by (auto simp: found_user user_row_def)

lemma with_school_sel [simp]:
  "eid (with_school s u) = eid u" "usr_forcePasswordChange (with_school s u) = usr_forcePasswordChange u"
  "usr_roles (with_school s u) = usr_roles u" "usr_preferences (with_school s u) = usr_preferences u"
  "usr_email (with_school s u) = usr_email u" "usr_firstName (with_school s u) = usr_firstName u"
  "usr_lastName (with_school s u) = usr_lastName u"
  by (cases u; simp add: with_school_def split: option.split)+

lemma found_user_id: "user_findById i b s = (Inr x, s') \<Longrightarrow> eid x = i \<and> (\<exists>row \<in> set (pst_users s). eid row = i)"
  by (auto simp: found_user dest: row_found)

lemma mapToDto_sel [simp]:
  "acd_id (account_mapToDto a) = Some (eid a)" "acd_userId (account_mapToDto a) = acc_userId a"
  "acd_systemId (account_mapToDto a) = acc_systemId a" "acd_password (account_mapToDto a) = acc_password a"
  "acd_username (account_mapToDto a) = acc_username a" "acd_activated (account_mapToDto a) = acc_activated a"
  "acd_lasttriedFailedLogin (account_mapToDto a) = acc_lasttriedFailedLogin a"
  by (simp_all add: account_mapToDto_def)

lemma found_dto: "db_findById i s = (Inr d, s') \<Longrightarrow>
    \<exists>row. find_row (pst_accounts s) i = Some row \<and> d = account_mapToDto row \<and> s' = s"
  by (auto simp: db_findById_def bindE_eq_Inr retE_def dest: found_account)

lemma found_own_dto: "db_findByUserIdOrFail env i s = (Inr d, s') \<Longrightarrow>
    \<exists>row. List.find (\<lambda>a. acc_userId a = Some i) (pst_accounts s) = Some row \<and> d = account_mapToDto row \<and> s' = s"
  by (auto simp: db_findByUserIdOrFail_def account_findByUserId_def new_ObjectId_def bindE_eq_Inr queryE_def retE_def throwE_def
      split: option.splits if_splits)

lemma isSuperhero_row: "isSuperhero env me s = (Inr True, s') \<Longrightarrow> user_row s me (\<lambda>cur. user_hasRole env cur SUPERHERO)"
  by (auto simp: isSuperhero_def bindE_eq_Inr retE_def user_row_found found_user)

lemma keeps_checked_email: "keepsE v (bindE (checkUniqueEmail env d x e) (\<lambda>_. retE y))"
  by (intro keepsE_bind keepsE_pure people_pure) simp_all

lemma update_tail_keeps:
  assumes "acd_id d = Some a" and "a \<noteq> []" and "eid x = u" and "u \<noteq> []"
  shows "keepsE (untouched a u)
    (bindE (case n of None \<Rightarrow> retE (d, x)
       | Some username \<Rightarrow>
           let newMail = toLowerCase username
           in bindE (checkUniqueEmail env d x newMail) (\<lambda>_. retE (d\<lparr>acd_username := newMail\<rparr>, x\<lparr>usr_email := newMail\<rparr>)))
     (\<lambda>(d2, x2).
       let d3 = (case act of None \<Rightarrow> d2 | Some b \<Rightarrow> d2\<lparr>acd_activated := Some b\<rparr>)
       in bindE (if c1 then or_not_found ''User'' (user_save env x2) else retE ()) (\<lambda>_.
          bindE (if c2 then or_not_found ''Account'' (account_service_save env d3) else retE ()) (\<lambda>_.
            retE (account_mapToResponse d3)))))"
proof -
  have named: "eid (x\<lparr>usr_email := e\<rparr>) = u" for e using assms by (cases x) simp
  show ?thesis
    by (rule keepsE_bind_result [where Q = "\<lambda>(d2, x2). acd_id d2 = Some a \<and> eid x2 = u"])
      (auto simp: Let_def assms named split: option.split
        intro!: keepsE_bind keepsE_pure [OF pure_account_services(9)] runs_ret runs_bind [OF runs_trivial]
          people_pure
          keeps_or_not_found keeps_user_save keeps_service_save)
qed

text \<open>The rows have their ids.\<close>

definition rows_have_ids :: "people_state \<Rightarrow> bool" where
  "rows_have_ids s \<longleftrightarrow> list_all (\<lambda>row. eid row \<noteq> []) (pst_accounts s) \<and> list_all (\<lambda>row. eid row \<noteq> []) (pst_users s)"

lemma account_id: "rows_have_ids s \<Longrightarrow> find_row (pst_accounts s) i = Some row \<Longrightarrow> i \<noteq> []"
  by (auto simp: rows_have_ids_def list_all_iff dest: row_found)

lemma own_account_id:
  "rows_have_ids s \<Longrightarrow> List.find (\<lambda>a. acc_userId a = Some i) (pst_accounts s) = Some row \<Longrightarrow> eid row \<noteq> []"
  by (auto simp: rows_have_ids_def list_all_iff dest: find_eq_Some)

lemma user_id: "rows_have_ids s \<Longrightarrow> user_findById i b s = (Inr x, s') \<Longrightarrow> i \<noteq> [] \<and> eid x = i"
  by (auto simp: rows_have_ids_def list_all_iff dest: found_user_id)

text \<open>The state after a request.\<close>

definition permitted_end :: "people_env \<Rightarrow> people_state \<Rightarrow> EntityId \<Rightarrow> AccountRequest \<Rightarrow> people_state \<Rightarrow> bool" where
  "permitted_end env s me request s' \<longleftrightarrow>
     (\<exists>a u. account_change_permitted env s me request a u \<and> untouched a u s' = untouched a u s)"

lemma permitted_endI:
  "account_change_permitted env s me request a u \<Longrightarrow> untouched a u s' = untouched a u s \<Longrightarrow> permitted_end env s me request s'"
  by (auto simp: permitted_end_def)

lemma changes_permitted:
  "account_change_permitted env s me request a u \<Longrightarrow> keepsE (untouched a u) m \<Longrightarrow>
   changes s (permitted_end env s me request) m"
  by (auto intro: changes_keeps permitted_endI)

lemma update_permitted:
  assumes ids: "rows_have_ids s"
  shows "changes s (permitted_end env s me (UpdateRequest i body)) (updateAccountById env me i body)"
  unfolding updateAccountById_def Let_def
proof (rule changes_bind, rule pure_people_repositories, rule changes_bind, rule pure_account_services, rule changes_if,
    rule changes_basic, rule changes_bind, rule pure_people_repositories, rule changes_after_lift, rule changes_if,
    rule changes_basic, goal_cases)
  case (1 cur d target permission)
  from found_dto [OF 1(2)] obtain row where
    row: "find_row (pst_accounts s) i = Some row" "d = account_mapToDto row" by blast
  define u where "u = the (acd_userId d)"
  have u: "acc_userId row = Some u" using 1(3) row(2) by (auto simp: u_def truthy_def split: option.splits)
  have target: "user_findById u True s = (Inr target, s)" using 1(4) by (simp add: u_def)
  have perm: "may_edit env cur target"
    using hasPermissions_update [of env cur target] 1(5,6) by (simp add: may_edit_def)
  have ok: "account_change_permitted env s me (UpdateRequest i body) i u"
    using row(1) u perm by (simp add: user_row_found [OF 1(1)] user_row_found [OF target])
  have ids': "acd_id d = Some i" "i \<noteq> []" "eid target = u" "u \<noteq> []"
    using row row_found [OF row(1)] account_id [OF ids row(1)] user_id [OF ids target] by simp_all
  have new: "eid (target\<lparr>usr_forcePasswordChange := x\<rparr>) = u" for x using ids' by (cases target) simp
  show ?case
    by (rule changes_permitted [OF ok], rule update_tail_keeps [unfolded Let_def])
      (simp_all add: ids' new)
qed

lemma delete_permitted:
  assumes ids: "rows_have_ids s"
  shows "changes s (permitted_end env s me (DeleteRequest i)) (uc_deleteAccountById env me i)"
  unfolding uc_deleteAccountById_def
proof (rule changes_bind, rule pure_account_services, rule changes_if, rule changes_basic, rule changes_bind,
    rule pure_account_services, goal_cases)
  case (1 superhero d)
  from found_dto [OF 1(3)] obtain row where
    row: "find_row (pst_accounts s) i = Some row" "d = account_mapToDto row" by blast
  have ok: "account_change_permitted env s me (DeleteRequest i) i []"
    using 1(1,2) isSuperhero_row [of env me s s] by simp
  have i: "the (acd_id d) = i" "i \<noteq> []"
    using row row_found [OF row(1)] account_id [OF ids row(1)] by simp_all
  show ?case
    by (rule changes_permitted [OF ok]) (simp add: i keepsE_bind keeps_delete)
qed

lemma own_account_permitted:
  assumes ids: "rows_have_ids s" and own: "db_findByUserIdOrFail env me s = (Inr d, s)"
    and "\<not> truthy (acd_systemId d)" and "truthy (acd_password d)"
  shows "\<exists>a. acd_id d = Some a \<and> a \<noteq> [] \<and> (\<forall>P. local_account_row s a me P = P (the (acd_password d)))"
  using found_own_dto [OF own] own_account_id [OF ids, of me] assms(3,4)
  by (auto simp: local_account_row_def)

lemma password_permitted:
  assumes ids: "rows_have_ids s" and valid: "passwordPattern p"
  shows "changes s (permitted_end env s me (PasswordRequest p q)) (replaceMyTemporaryPassword env me p q)"
  unfolding replaceMyTemporaryPassword_def
proof (rule changes_if, rule changes_basic, rule changes_bind, rule pureE_catch, rule pure_people_repositories, simp,
    rule changes_if, rule changes_basic, rule changes_bind, rule pure_account_services, intro changes_if changes_basic, goal_cases)
  case (1 x d)
  have u: "user_findById me False s = (Inr x, s)" using 1(2)
    by (auto simp: catchE_eq_Inr throwE_def)
  from own_account_permitted [OF ids 1(4) 1(5)] 1(6) obtain a where
    a: "acd_id d = Some a" "a \<noteq> []" "\<And>P. local_account_row s a me P = P (the (acd_password d))" by auto
  have ok: "account_change_permitted env s me (PasswordRequest p q) a me"
    using 1 a(3) u valid by (auto simp: found_user user_row_def checkPassword_def firstLoginPassed_def)
  have new: "eid (x\<lparr>usr_forcePasswordChange := y\<rparr>) = me" for y using user_id [OF ids u] by (cases x) simp
  show ?case
    by (rule changes_permitted [OF ok])
      (intro keepsE_bind keeps_or_not_found keeps_service_save keeps_user_save; use a(1,2) user_id [OF ids u] new in simp)
qed

lemma updateMe_permitted:
  assumes ids: "rows_have_ids s"
  shows "changes s (permitted_end env s me (UpdateMeRequest p)) (updateMyAccount env me p)"
  unfolding updateMyAccount_def Let_def
proof (rule changes_bind, rule pure_people_repositories, rule changes_bind, rule pure_account_services,
    intro changes_if changes_basic, goal_cases)
  case (1 x d)
  from own_account_permitted [OF ids 1(2) 1(3)] 1(4) obtain a where
    a: "acd_id d = Some a" "a \<noteq> []" "\<And>P. local_account_row s a me P = P (the (acd_password d))" by auto
  note found = 1(1) and old = 1(4)
  have row: "user_row s me P = P x" for P using user_row_found [OF found] by blast
  have new: "eid (x\<lparr>usr_email := y\<rparr>) = eid x" "usr_firstName (x\<lparr>usr_email := y\<rparr>) = usr_firstName x"
    "usr_lastName (x\<lparr>usr_email := y\<rparr>) = usr_lastName x"
    "hasPermissionsToChangeOwnName env (x\<lparr>usr_email := y\<rparr>) = hasPermissionsToChangeOwnName env x" for y
    by (cases x; simp add: hasPermissionsToChangeOwnName_def user_hasRole_def)+
  have named: "eid (z\<lparr>usr_firstName := n\<rparr>) = eid z" "eid (z\<lparr>usr_lastName := n\<rparr>) = eid z" for z :: user and n
    by (cases z; simp)+
  show ?case
  proof (rule changes_bind, goal_cases)
    case 1
    show ?case by (auto intro!: pureE_bind people_pure)
  next
    case (2 y)
    obtain d2 x2 where y: "y = (d2, x2)" by force
    have same: "acd_id d2 = Some a" "eid x2 = me" "usr_firstName x2 = usr_firstName x" "usr_lastName x2 = usr_lastName x"
      "hasPermissionsToChangeOwnName env x2 = hasPermissionsToChangeOwnName env x"
      using 2 a new user_id [OF ids 1(1)] by (auto simp: y retE_def bindE_eq_Inr split: if_splits)
    show ?case unfolding y prod.case
    proof (intro changes_if changes_basic, goal_cases)
      case 1
      have ok: "account_change_permitted env s me (UpdateMeRequest p) a me"
        using 1 same(3-5) old by (auto simp: a(3) row checkPassword_def)
      have ends: "keepsE (untouched a me) (or_not_found ''User'' (user_save env z))" if "eid z = me" for z
        using that user_id [OF ids found] by (intro keeps_or_not_found keeps_user_save) simp_all
      have "keepsE (untouched a me) (or_not_found ''Account'' (account_service_save env d2))"
        using same a by (intro keeps_or_not_found keeps_service_save)
      with ends same(2) show ?case
        by (intro changes_permitted [OF ok] keepsE_bind) (simp_all add: named)
    qed
  qed
qed

lemma reading_is_pure:
  "pureE (searchAccounts env me q)" "pureE (uc_findAccountById env me i)"
  unfolding searchAccounts_def uc_findAccountById_def Let_def
  by (cases "asq_type q"; auto intro!: pureE_bind people_pure)+

lemma changes_requested:
  assumes "rows_have_ids s"
  shows "changes s (permitted_end env s me request) (account_request env me request)"
proof (cases "account_request_valid env request")
  case True
  then show ?thesis
    using assms by (cases request)
      (auto simp: account_request_def intro: changes_pure [OF pureE_bind] reading_is_pure changes_end update_permitted
        delete_permitted updateMe_permitted password_permitted)
next
  case False
  then show ?thesis by (simp add: account_request_def)
qed

text \<open>
  C4. A request to the accounts that changes anything was permitted: an update by a superhero, or by
  somebody of the school of a student or a teacher who has the permission to edit those; a deletion
  by a superhero; a change of one's own account with its old password, and of a name only with a
  role that may change it; a new password only for an account of this system, in place of a
  temporary one, repeated correctly, of the required form and different from the old one. It changes
  at most the row of that account, the row of its user, and no school and no import user.
\<close>

theorem account_changes_need_permission:
  assumes "rows_have_ids s" and "snd (account_request env me request s) \<noteq> s"
  shows "\<exists>a u. account_change_permitted env s me request a u \<and>
    untouched a u (snd (account_request env me request s)) = untouched a u s"
  using changes_requested [OF assms(1), of env me request] assms(2) by (simp add: changes_def permitted_end_def)

section \<open>What is stored\<close>

lemma find_replaced:
  "find_row t i = Some x \<Longrightarrow> eid e = i \<Longrightarrow> find_row (map (\<lambda>row. if eid row = i then e else row) t) i = Some e"
  unfolding find_row_def by (induction t) auto

lemma account_saved:
  assumes "account_save env x s = (Inr x', s')" and "find_row (pst_accounts s) (eid x) = Some y" and "eid x \<noteq> []"
  shows "find_row (pst_accounts s') (eid x) = Some x' \<and> eid x' = eid x \<and> acc_password x' = acc_password x \<and>
    acc_username x' = acc_username x \<and> acc_activated x' = acc_activated x \<and> acc_systemId x' = acc_systemId x \<and>
    acc_lasttriedFailedLogin x' = acc_lasttriedFailedLogin x"
proof -
  obtain e' where p: "persist_row (pe_now env) (pe_newId env) (pst_accounts s) x =
      (e', map (\<lambda>row. if eid row = eid x then e' else row) (pst_accounts s))"
    and e': "e' = x \<or> e' = x\<lparr>ent_updatedAt := pe_now env\<rparr>" "eid e' = eid x"
    using persist_known [OF assms(3), of "pe_now env" "pe_newId env" "pst_accounts s"] by auto
  have "acc_password e' = acc_password x \<and> acc_username e' = acc_username x \<and> acc_activated e' = acc_activated x \<and>
      acc_systemId e' = acc_systemId x \<and> acc_lasttriedFailedLogin e' = acc_lasttriedFailedLogin x"
    using e'(1) by (cases x) auto
  moreover have "x' = e' \<and> pst_accounts s' = map (\<lambda>row. if eid row = eid x then e' else row) (pst_accounts s)"
    using assms(1) p by (auto simp: account_save_def db_write_def Let_def split: option.splits)
  ultimately show ?thesis using find_replaced [OF assms(2) e'(2)] e'(2) by simp
qed

lemma keeps_accounts:
  "keepsE pst_accounts fresh_ref" "keepsE pst_accounts (new_ObjectId env i)" "keepsE pst_accounts (optional_ObjectId env i)"
  "keepsE pst_accounts (optional_hash env q)" "keepsE pst_accounts (user_save env u)"
  "keepsE pst_accounts (idm_save env d)"
  by (auto simp: new_ObjectId_def optional_ObjectId_def encryptPassword_def optional_hash_def user_save_def
      idm_save_def getIdmAccountId_def idm_find_def Let_def split: option.split
      intro!: keepsE_bind keeps_fresh keeps_db_write keepsE_modify keeps_idm)

definition is_hash :: "people_env \<Rightarrow> string \<Rightarrow> string option \<Rightarrow> bool" where
  "is_hash env p h \<longleftrightarrow> (\<exists>salt. h = Some (pe_hash env salt p))"

lemma hashed:
  "optional_hash env q s = (Inr h, s') \<Longrightarrow> (if truthy q then h \<noteq> None \<and> is_hash env (the q) h else h = None)"
  by (auto simp: optional_hash_def encryptPassword_def bindE_eq_Inr retE_def fresh_ref_def is_hash_def)

lemma optional_id:
  "optional_ObjectId env i s = (Inr x, s') \<Longrightarrow> x = (if truthy i then i else None)"
  by (auto simp: optional_ObjectId_def new_ObjectId_def bindE_eq_Inr retE_def liftE_def throwE_def truthy_def fresh_ref_def
      split: option.splits if_splits)

text \<open>An update stores what the object has; the password it has is hashed, whatever it is.\<close>

definition stored_as :: "people_env \<Rightarrow> AccountSaveDto \<Rightarrow> Account \<Rightarrow> Account \<Rightarrow> bool" where
  "stored_as env d old new \<longleftrightarrow>
     acc_username new = acd_username d \<and> acc_activated new = acd_activated d \<and>
     acc_systemId new = (if truthy (acd_systemId d) then acd_systemId d else None) \<and>
     (if truthy (acd_password d) then is_hash env (the (acd_password d)) (acc_password new)
      else acc_password new = acc_password old)"

lemma service_save_stores:
  assumes save: "account_service_save env d s = (Inr r, s')" and d: "acd_id d = Some i" and i: "i \<noteq> []"
    and row: "find_row (pst_accounts s) i = Some row"
  shows "\<exists>new. find_row (pst_accounts s') i = Some new \<and> stored_as env d row new"
proof -
  from save obtain ret s1 x where db: "db_save env d s = (Inr ret, s1)" and
    idm: "executeIdmMethod env (idm_save env (d\<lparr>acd_idmReferenceId := acd_id ret\<rparr>)) s1 = (Inr x, s')"
    unfolding account_service_save_def bindE_eq_Inr retE_def by auto
  have after: "pst_accounts s' = pst_accounts s1"
    by (rule keepsE_D [OF keeps_execute [OF keeps_accounts(6)] idm])
  have t: "truthy (acd_id d) = True" "the (acd_id d) = i" using d i by (simp_all add: truthy_def)
  have find: "bindE (account_findById i) f s = f row s" for f :: "Account \<Rightarrow> Account people"
    using row by (simp add: bindE_def account_findById_def queryE_def row_or_fail_def)
  from db obtain a where "bindE (account_findById i) (\<lambda>account.
             bindE (new_ObjectId env (acd_userId d)) (\<lambda>userId.
             bindE (optional_ObjectId env (acd_systemId d)) (\<lambda>systemId.
             bindE (optional_hash env (acd_password d)) (\<lambda>password.
               account_save env (account\<lparr>acc_userId := Some userId, acc_systemId := systemId,
                 acc_username := acd_username d, acc_activated := acd_activated d,
                 acc_expiresAt := acd_expiresAt d, acc_lasttriedFailedLogin := acd_lasttriedFailedLogin d,
                 acc_password := (case password of None \<Rightarrow> acc_password account | Some h \<Rightarrow> Some h),
                 acc_credentialHash := acd_credentialHash d, acc_token := acd_token d\<rparr>))))) s = (Inr a, s1)"
    unfolding db_save_def t if_True bindE_eq_Inr [of _ "\<lambda>a. retE (account_mapToDto a)"] retE_def by auto
  then obtain userId systemId password s2 s3 s4 where
    m: "new_ObjectId env (acd_userId d) s = (Inr userId, s2)"
      "optional_ObjectId env (acd_systemId d) s2 = (Inr systemId, s3)"
      "optional_hash env (acd_password d) s3 = (Inr password, s4)"
    and sv: "account_save env (row\<lparr>acc_userId := Some userId, acc_systemId := systemId,
                 acc_username := acd_username d, acc_activated := acd_activated d,
                 acc_expiresAt := acd_expiresAt d, acc_lasttriedFailedLogin := acd_lasttriedFailedLogin d,
                 acc_password := (case password of None \<Rightarrow> acc_password row | Some h \<Rightarrow> Some h),
                 acc_credentialHash := acd_credentialHash d, acc_token := acd_token d\<rparr>) s4 = (Inr a, s1)"
    unfolding find unfolding bindE_eq_Inr by blast
  have "pst_accounts s4 = pst_accounts s"
    using keepsE_D [OF keeps_accounts(2) m(1)] keepsE_D [OF keeps_accounts(3) m(2)] keepsE_D [OF keeps_accounts(4) m(3)] by simp
  moreover have "eid row = i" using row_found [OF row] by simp
  ultimately show ?thesis
    using account_saved [OF sv, of row] row i hashed [OF m(3)] optional_id [OF m(2)] after
    by (cases row) (auto simp: stored_as_def)
qed

lemma or_not_found_result: "or_not_found n m s = (Inr x, s') \<Longrightarrow> \<exists>y. m s = (Inr y, s')"
  by (auto simp: or_not_found_def catchE_eq_Inr bindE_eq_Inr retE_def throwE_def)

lemma keeps_user_or_not_found: "or_not_found n (user_save env x) s = (y, s') \<Longrightarrow> pst_accounts s' = pst_accounts s"
  by (rule keepsE_D [OF keeps_or_not_found [OF keeps_accounts(5)]])

lemma update_saves:
  assumes keep: "abb_password body = None" and something: "abb_username body \<noteq> None \<or> abb_activated body \<noteq> None"
    and i: "i \<noteq> []" and row: "find_row (pst_accounts s) i = Some row"
  shows "ensures s (\<lambda>_ s'. \<exists>new d. find_row (pst_accounts s') i = Some new \<and> stored_as env d row new \<and> acd_password d = acc_password row)
    (updateAccountById env me i body)"
  unfolding updateAccountById_def Let_def
proof (rule ensures_pure, rule pure_people_repositories, rule ensures_pure, rule pure_account_services, rule ensures_if,
    rule ensures_basic, rule ensures_pure, rule pure_people_repositories, rule ensures_lift, rule ensures_if,
    rule ensures_basic, rule ensures_bind, goal_cases)
  case (1 cur d target permission y s1)
  obtain d2 x2 where y: "y = (d2, x2)" by force
  have d: "acd_id d = Some i" "acd_password d = acc_password row"
    using found_dto [OF 1(2)] row row_found [OF row] by auto
  let ?m = "case abb_username body of None \<Rightarrow> retE (d, target)
      | Some username \<Rightarrow> bindE (checkUniqueEmail env d target (toLowerCase username))
          (\<lambda>_. retE (d\<lparr>acd_username := toLowerCase username\<rparr>, target\<lparr>usr_email := toLowerCase username\<rparr>))"
  have kept: "keepsE pst_accounts ?m"
    by (cases "abb_username body") (simp_all add: keeps_checked_email)
  have run: "?m s = (Inr y, s1)" using 1(7) keep by (cases "abb_username body") simp_all
  have s1: "pst_accounts s1 = pst_accounts s" by (rule keepsE_D [OF kept run])
  have d2: "acd_id d2 = Some i" "acd_password d2 = acc_password row"
    using run d by (auto simp: y retE_def bindE_eq_Inr split: option.splits)
  show ?case unfolding y prod.case
  proof (rule ensures_bind, rule ensures_bind, goal_cases)
    case (1 _ s2 _ s3)
    have "pst_accounts s2 = pst_accounts s"
      using 1(1) s1 by (auto simp: retE_def split: if_splits dest: keeps_user_or_not_found)
    moreover obtain d3 where d3: "d3 = (case abb_activated body of None \<Rightarrow> d2 | Some b \<Rightarrow> d2\<lparr>acd_activated := Some b\<rparr>)"
      "acd_id d3 = Some i" "acd_password d3 = acc_password row" using d2 by (simp split: option.split)
    moreover have "or_not_found ''Account'' (account_service_save env d3) s2 = (Inr (), s3)"
      using 1(2) something by (simp add: d3(1))
    then obtain r where "account_service_save env d3 s2 = (Inr r, s3)" using or_not_found_result by blast
    ultimately show ?case using service_save_stores [of env d3 s2 r s3 i row] i row by auto
  qed
qed

text \<open>
  C25. An update of the name or of the activation of an account, without a new password, makes the
  account unusable: what is saved comes from the database with its hash as password, and the save
  hashes it again. No entered password but that old hash passes the check of the credentials
  afterwards (when a hash is only matched by the password it was made of).
\<close>

theorem update_locks_account:
  assumes "updateAccountById env me i body s = (Inr r, s')"
    and "abb_password body = None" and "abb_username body \<noteq> None \<or> abb_activated body \<noteq> None"
    and "find_row (pst_accounts s) i = Some row" and "acc_password row = Some hash" and "hash \<noteq> []" and "i \<noteq> []"
    and "\<forall>salt p. pe_compare env p (pe_hash env salt hash) = (p = hash)"
  shows "\<exists>new again. find_row (pst_accounts s') i = Some new \<and> acc_password new = Some again \<and>
    (\<forall>s'' p. fst (local_checkCredentials env p again (account_mapToDto new) s'') = Inr () \<longrightarrow> p = hash)"
proof -
  from ensuresD [OF update_saves [OF assms(2,3,7,4)] assms(1)] obtain new d where
    new: "find_row (pst_accounts s') i = Some new" "stored_as env d row new" "acd_password d = Some hash"
    using assms(5) by auto
  with assms(6) obtain salt where salt: "acc_password new = Some (pe_hash env salt hash)"
    by (auto simp: stored_as_def is_hash_def truthy_def)
  have "p = hash" if "fst (local_checkCredentials env p (pe_hash env salt hash) dto s'') = Inr ()" for p dto s''
    using that assms(8) by (auto simp: local_checkCredentials_def bindE_def liftE_def throwE_def split: sum.splits if_splits prod.splits)
  with new(1) salt show ?thesis by blast
qed

lemma user_saved:
  assumes "user_save env x s = (Inr y, s')" and "find_row (pst_users s) (eid x) = Some row" and "eid x \<noteq> []"
  shows "\<exists>x'. find_row (pst_users s') (eid x) = Some x' \<and> (x' = x \<or> x' = x\<lparr>ent_updatedAt := pe_now env\<rparr>)"
proof -
  obtain e' where p: "persist_row (pe_now env) (pe_newId env) (pst_users s) x =
      (e', map (\<lambda>row. if eid row = eid x then e' else row) (pst_users s))"
    and e': "e' = x \<or> e' = x\<lparr>ent_updatedAt := pe_now env\<rparr>" "eid e' = eid x"
    using persist_known [OF assms(3), of "pe_now env" "pe_newId env" "pst_users s"] by auto
  have "pst_users s' = map (\<lambda>row. if eid row = eid x then e' else row) (pst_users s)"
    using assms(1) p by (auto simp: user_save_def db_write_def Let_def modifyE_def split: option.splits)
  then show ?thesis using find_replaced [OF assms(2) e'(2)] e'(1) by auto
qed

lemma keeps_users:
  "keepsE pst_users fresh_ref" "keepsE pst_users (new_ObjectId env i)" "keepsE pst_users (optional_ObjectId env i)"
  "keepsE pst_users (optional_hash env q)" "keepsE pst_users (account_save env a)" "keepsE pst_users (idm_save env d)"
  by (auto simp: new_ObjectId_def optional_ObjectId_def encryptPassword_def optional_hash_def account_save_def split_beta
      idm_save_def getIdmAccountId_def idm_find_def Let_def split: option.split
      intro!: keepsE_bind keeps_fresh keeps_db_write keeps_idm) (simp add: keepsE_def)

lemma service_save_keeps_users: "keepsE pst_users (account_service_save env d)"
  unfolding account_service_save_def db_save_def
  by (simp; intro conjI impI keepsE_bind keeps_users keeps_execute keepsE_basic keepsE_pure [OF pure_people_repositories(3)])

lemma own_row_found: "List.find (\<lambda>a. acc_userId a = Some u) t = Some row \<Longrightarrow> rows_have_ids s \<Longrightarrow> t = pst_accounts s \<Longrightarrow>
    \<exists>row'. find_row (pst_accounts s) (eid row) = Some row'"
  by (cases "find_row (pst_accounts s) (eid row)") (auto simp: find_row_def find_None_iff dest: find_eq_Some)

lemma replaced_password:
  assumes ids: "rows_have_ids s" and p: "p \<noteq> []"
  shows "ensures s (\<lambda>_ s'. \<exists>row new u. List.find (\<lambda>a. acc_userId a = Some me) (pst_accounts s) = Some row \<and>
    find_row (pst_accounts s') (eid row) = Some new \<and> acc_username new = acc_username row \<and> is_hash env p (acc_password new) \<and>
    find_row (pst_users s') me = Some u \<and> usr_forcePasswordChange u = Some False)
    (replaceMyTemporaryPassword env me p q)"
  unfolding replaceMyTemporaryPassword_def
proof (rule ensures_if, rule ensures_basic, rule ensures_pure, rule pureE_catch, rule pure_people_repositories, simp,
    rule ensures_if, rule ensures_basic, rule ensures_pure, rule pure_account_services, intro ensures_if ensures_basic, goal_cases)
  case (1 x d)
  have u: "user_findById me False s = (Inr x, s)" using 1(2) by (auto simp: catchE_eq_Inr throwE_def)
  from found_own_dto [OF 1(4)] obtain row where
    row: "List.find (\<lambda>a. acc_userId a = Some me) (pst_accounts s) = Some row" "d = account_mapToDto row" by blast
  from own_row_found [OF row(1) ids refl] obtain row' where row': "find_row (pst_accounts s) (eid row) = Some row'" ..
  show ?case
  proof (rule ensures_bind, goal_cases)
    case (1 _ s1)
    then obtain r where sv: "account_service_save env (d\<lparr>acd_password := Some p\<rparr>) s = (Inr r, s1)"
      using or_not_found_result by blast
    from service_save_stores [OF sv _ own_account_id [OF ids row(1)] row'] row(2) p obtain new where
      new: "find_row (pst_accounts s1) (eid row) = Some new" "acc_username new = acc_username row" "is_hash env p (acc_password new)"
      by (auto simp: stored_as_def truthy_def)
    have users: "pst_users s1 = pst_users s" by (rule keepsE_D [OF service_save_keeps_users sv])
    show ?case unfolding ensures_def
    proof (intro allI impI)
      fix y s2 assume run: "or_not_found ''User'' (user_save env (x\<lparr>usr_forcePasswordChange := Some False\<rparr>)) s1 = (Inr y, s2)"
      have accounts: "pst_accounts s2 = pst_accounts s1" by (rule keeps_user_or_not_found [OF run])
      from or_not_found_result [OF run] obtain z where z: "user_save env (x\<lparr>usr_forcePasswordChange := Some False\<rparr>) s1 = (Inr z, s2)" ..
      have x: "eid (x\<lparr>usr_forcePasswordChange := Some False\<rparr>) = me" "me \<noteq> []" "find_row (pst_users s1) me = Some x"
        using user_id [OF ids u] u users by (cases x, simp_all add: found_user)
      from user_saved [OF z, unfolded x(1), OF x(3,2)] obtain x' where
        "find_row (pst_users s2) me = Some x'" "usr_forcePasswordChange x' = Some False" by (cases x) auto
      then show "\<exists>row new u. List.find (\<lambda>a. acc_userId a = Some me) (pst_accounts s) = Some row \<and>
        find_row (pst_accounts s2) (eid row) = Some new \<and> acc_username new = acc_username row \<and>
        is_hash env p (acc_password new) \<and> find_row (pst_users s2) me = Some u \<and> usr_forcePasswordChange u = Some False"
        using row(1) new accounts by auto
    qed
  qed
qed

text \<open>
  C5. After a successful change of a temporary password, the account of the user has the same name
  and a hash of the new password, with which the check of the credentials succeeds unless a failed
  login blocks it, and the user has no temporary password any more.
\<close>

theorem replaced_password_is_accepted:
  assumes ok: "replaceMyTemporaryPassword env me p q s = (Inr (), s')" and ids: "rows_have_ids s" and "p \<noteq> []"
    and "\<forall>salt. pe_compare env p (pe_hash env salt p)"
  shows "\<exists>row new hash u. List.find (\<lambda>a. acc_userId a = Some me) (pst_accounts s) = Some row \<and>
    find_row (pst_accounts s') (eid row) = Some new \<and> acc_username new = acc_username row \<and>
    acc_password new = Some hash \<and>
    local_checkCredentials env p hash (account_mapToDto new) s' = (auth_checkBrutForce env (account_mapToDto new), s') \<and>
    find_row (pst_users s') me = Some u \<and> usr_forcePasswordChange u = Some False"
proof -
  from ensuresD [OF replaced_password [OF ids \<open>p \<noteq> []\<close>] ok] obtain row new u salt where
    r: "List.find (\<lambda>a. acc_userId a = Some me) (pst_accounts s) = Some row" "find_row (pst_accounts s') (eid row) = Some new"
      "acc_username new = acc_username row" "acc_password new = Some (pe_hash env salt p)"
      "find_row (pst_users s') me = Some u" "usr_forcePasswordChange u = Some False" by (auto simp: is_hash_def)
  have "local_checkCredentials env p (pe_hash env salt p) dto s' = (auth_checkBrutForce env dto, s')" for dto
    using assms(4) by (cases "auth_checkBrutForce env dto") (simp_all add: local_checkCredentials_def bindE_def liftE_def retE_def)
  with r show ?thesis by blast
qed

section \<open>Failed logins\<close>

text \<open>
  While a failed login blocks an account, the announced wait in seconds is the rest of the
  blocking time rounded down: waiting that long ends the block exactly when whole seconds have
  passed since the failed login, otherwise the login is refused again.
\<close>

theorem announced_wait_bounds:
  assumes "auth_checkBrutForce env account = Inl (BruteForceError seconds message)"
    and "acd_lasttriedFailedLogin account = Some t"
  shows "1000 * seconds \<le> t + 1000 * pe_LOGIN_BLOCK_TIME env - pe_now env \<and>
    t + 1000 * pe_LOGIN_BLOCK_TIME env - pe_now env < 1000 * seconds + 1000 \<and>
    (auth_checkBrutForce (env\<lparr>pe_now := pe_now env + 1000 * seconds\<rparr>) account = Inr ()) = ((pe_now env - t) mod 1000 = 0)"
proof -
  let ?d = "pe_now env - t"
  have s: "seconds = pe_LOGIN_BLOCK_TIME env + (- ?d) div 1000"
    using assms by (auto simp: auth_checkBrutForce_def Let_def ceil_seconds_def split: if_splits)
  have r: "1000 * ((- ?d) div 1000) + (- ?d) mod 1000 = - ?d" "(- ?d) mod 1000 \<ge> 0" "(- ?d) mod 1000 < 1000" by simp_all
  have "(auth_checkBrutForce (env\<lparr>pe_now := pe_now env + 1000 * seconds\<rparr>) account = Inr ()) \<longleftrightarrow>
      pe_now env + 1000 * seconds - t \<ge> 1000 * pe_LOGIN_BLOCK_TIME env"
    using assms(2) by (auto simp: auth_checkBrutForce_def Let_def)
  also have "\<dots> \<longleftrightarrow> (- ?d) mod 1000 = 0" using r s by linarith
  also have "\<dots> \<longleftrightarrow> ?d mod 1000 = 0" by presburger
  finally show ?thesis using r s by linarith
qed

section \<open>Names in use\<close>

text \<open>
  Whether a name is free is decided by all users with that email address, but by only one
  account: the first of those with that name, whatever their systems are. An account behind it is
  not seen.
\<close>

theorem unique_email_sees_one_account:
  assumes "isUniqueEmail env email userId accountId systemId s = (Inr unique, s')"
    and "pe_regex env (''^'' @ escapedUsername email @ ''$'') = Some account_test"
    and "pe_regex env (''^'' @ escape_unless word_char email @ ''$'') = Some user_test"
  shows "unique =
    (length (filter (\<lambda>u. user_test (usr_email u)) (pst_users s)) \<le> 1 \<and>
     list_all (\<lambda>u. Some (eid u) = userId) (filter (\<lambda>u. user_test (usr_email u)) (pst_users s)) \<and>
     (case sort_key acc_username (filter (\<lambda>a. account_test (acc_username a)) (pst_accounts s)) of
        [] \<Rightarrow> True
      | a # _ \<Rightarrow> acc_systemId a \<noteq> systemId \<or> Some (eid a) = accountId))"
proof -
  let ?us = "filter (\<lambda>u. user_test (usr_email u)) (pst_users s)"
  let ?as = "sort_key acc_username (filter (\<lambda>a. account_test (acc_username a)) (pst_accounts s))"
  have "unique = (\<not> (length ?us > 1 \<or> length (filter (\<lambda>a. acd_systemId a = systemId) (map account_mapToDto (take 1 ?as))) > 1 \<or>
      (length ?us = 1 \<and> Some (eid (hd ?us)) \<noteq> userId) \<or>
      (length (filter (\<lambda>a. acd_systemId a = systemId) (map account_mapToDto (take 1 ?as))) = 1 \<and>
       acd_id (hd (filter (\<lambda>a. acd_systemId a = systemId) (map account_mapToDto (take 1 ?as)))) \<noteq> accountId)))"
    using assms by (auto simp: isUniqueEmail_def repo_searchByUsernameExactMatch_def searchByUsername_def user_findByEmail_def
        bindE_def queryE_def retE_def Let_def page_of_def nullish_def mapSearchResult_def)
  moreover have "(length ?us > 1 \<or> (length ?us = 1 \<and> Some (eid (hd ?us)) \<noteq> userId)) =
      (\<not> (length ?us \<le> 1 \<and> list_all (\<lambda>u. Some (eid u) = userId) ?us))"
    by (cases ?us) auto
  ultimately show ?thesis by (cases ?as) auto
qed

end
