(* ===== verification/PeopleSamples.thy ===== *)
theory PeopleSamples
  imports AccountProperties
begin

text \<open>A school with an administrator and a student, on which the theorems about people are applied.\<close>

definition ex_people_roles :: role_heap where
  "ex_people_roles r =
     \<lparr>oid = r, eid = (if r = 9 then ''superhero'' else ''student''), ent_createdAt = 0, ent_updatedAt = 0,
      role_name = (if r = 9 then SUPERHERO else STUDENT), role_permissions = [], role_roles = coll_of []\<rparr>"

definition ex_people_env :: people_env where
  "ex_people_env =
     \<lparr>pe_now = 100000, pe_newId = (\<lambda>r. CHR ''n'' # nat_string r), pe_isObjectId = (\<lambda>s. s \<noteq> []),
      pe_fails = (\<lambda>_. None), pe_auth = \<lparr>env_roles = ex_people_roles, env_stack = 3\<rparr>, pe_roles = [8, 9],
      pe_roleRef = (\<lambda>i. if i = ''superhero'' then 9 else 8), pe_systems = [], pe_systemRef = (\<lambda>_. 70),
      pe_systemId = (\<lambda>_. ''system''), pe_broker = None, pe_hash = (\<lambda>_ p. CHR ''#'' # p),
      pe_compare = (\<lambda>p h. h = CHR ''#'' # p), pe_isEmail = (\<lambda>_. True), pe_regex = (\<lambda>_. Some (\<lambda>_. True)),
      pe_idmChange = (\<lambda>_ _. Inl (PlainError [])), pe_idmFind = (\<lambda>_ _. Inl (PlainError [])),
      pe_passwordGrant = (\<lambda>_ _. Inr None), pe_ldapBind = (\<lambda>_ _ _. Inr ()), pe_url = (\<lambda>u _ _. u),
      pe_HOST = ''host'', pe_PUBLIC_BACKEND_URL = ''backend'', pe_IDM_STORE_ENABLED = False,
      pe_IDM_LOGIN_ENABLED = False, pe_USER_MIGRATION_ENABLED = True, pe_USER_MIGRATION_SYSTEM_ID = ''system'',
      pe_VISIBILITY_IS_CONFIGURABLE = False, pe_LOGIN_BLOCK_TIME = 15, pe_AVAILABLE_LANGUAGES = [DE]\<rparr>"

definition ex_account :: "EntityId \<Rightarrow> string \<Rightarrow> EntityId \<Rightarrow> EntityId option \<Rightarrow> Account" where
  "ex_account i name userId systemId =
     (new_Account 0 60 \<lparr>acp_username = name, acp_password = Some ''#old'', acp_token = None, acp_credentialHash = None,
        acp_userId = Some userId, acp_systemId = systemId, acp_lasttriedFailedLogin = None, acp_expiresAt = None,
        acp_activated = Some True\<rparr>)\<lparr>eid := i\<rparr>"

definition ex_people :: people_state where
  "ex_people =
     \<lparr>pst_users = [ex_user 2 ''student'' [8], ex_user 3 ''admin'' [9]], pst_schools = [ex_school 900 ''school''],
      pst_accounts = [ex_account ''account'' ''name'' ''student'' None], pst_importUsers = [], pst_fresh = 100,
      pst_writes = 0, pst_idm = []\<rparr>"

definition ex_password :: string where
  "ex_password = ''Asdf 1ds df!''"

definition ex_password_changed :: "unit result \<times> people_state" where
  "ex_password_changed = account_request ex_people_env ''student'' (PasswordRequest ex_password ex_password) ex_people"

lemma ex_password_written: "fst ex_password_changed = Inr () \<and> pst_writes (snd ex_password_changed) = 2"
  by code_simp

lemma ex_people_ids: "rows_have_ids ex_people"
  by code_simp

lemma ex_people_sel [simp]:
  "pe_hash ex_people_env salt p = CHR ''#'' # p" "pe_compare ex_people_env p h = (h = CHR ''#'' # p)"
  "pe_now ex_people_env = 100000" "pe_LOGIN_BLOCK_TIME ex_people_env = 15" "pe_regex ex_people_env x = Some (\<lambda>_. True)"
  "pst_users ex_people = [ex_user 2 ''student'' [8], ex_user 3 ''admin'' [9]]"
  "pst_accounts ex_people = [ex_account ''account'' ''name'' ''student'' None]"
  by (simp_all add: ex_people_env_def ex_people_def)

lemma ex_account_sel [simp]:
  "eid (ex_account i n u y) = i" "acc_password (ex_account i n u y) = Some ''#old''" "acc_username (ex_account i n u y) = n"
  "acc_userId (ex_account i n u y) = Some u" "acc_systemId (ex_account i n u y) = y"
  "acc_lasttriedFailedLogin (ex_account i n u y) = None"
  by (simp_all add: ex_account_def new_Account_def)

theorem account_changes_need_permission_witness:
  "snd ex_password_changed \<noteq> ex_people \<and>
   (\<exists>a u. account_change_permitted ex_people_env ex_people ''student'' (PasswordRequest ex_password ex_password) a u \<and>
      untouched a u (snd ex_password_changed) = untouched a u ex_people)"
proof -
  have "snd ex_password_changed \<noteq> ex_people"
    using ex_password_written by (auto simp: ex_people_def)
  then show ?thesis
    using account_changes_need_permission [OF ex_people_ids, of ex_people_env "''student''" "PasswordRequest ex_password ex_password"]
    unfolding ex_password_changed_def by blast
qed

definition ex_deactivated :: "AccountResponse result \<times> people_state" where
  "ex_deactivated = updateAccountById ex_people_env ''admin'' ''account''
     \<lparr>abb_username = None, abb_password = None, abb_activated = Some False\<rparr> ex_people"

lemma ex_deactivated_ok: "fst ex_deactivated = Inr \<lparr>acr_id = Some ''account'', acr_username = ''name'', acr_userId = Some ''student'', acr_activated = Some False\<rparr>"
  by code_simp

theorem update_locks_account_witness:
  "\<exists>new again. find_row (pst_accounts (snd ex_deactivated)) ''account'' = Some new \<and> acc_password new = Some again \<and>
    (\<forall>s'' p. fst (local_checkCredentials ex_people_env p again (account_mapToDto new) s'') = Inr () \<longrightarrow> p = ''#old'')"
proof -
  have run: "updateAccountById ex_people_env ''admin'' ''account''
     \<lparr>abb_username = None, abb_password = None, abb_activated = Some False\<rparr> ex_people =
     (Inr \<lparr>acr_id = Some ''account'', acr_username = ''name'', acr_userId = Some ''student'', acr_activated = Some False\<rparr>, snd ex_deactivated)"
    using ex_deactivated_ok by (simp add: ex_deactivated_def prod_eq_iff)
  show ?thesis
    using update_locks_account [OF run, of "ex_account ''account'' ''name'' ''student'' None" "''#old''"] by (simp add: find_row_def eq_commute [of "''#old''"])
qed

theorem replaced_password_is_accepted_witness:
  "\<exists>new u. find_row (pst_accounts (snd ex_password_changed)) ''account'' = Some new \<and> acc_username new = ''name'' \<and>
    (\<exists>hash. acc_password new = Some hash \<and>
      local_checkCredentials ex_people_env ex_password hash (account_mapToDto new) (snd ex_password_changed) =
        (auth_checkBrutForce ex_people_env (account_mapToDto new), snd ex_password_changed)) \<and>
    find_row (pst_users (snd ex_password_changed)) ''student'' = Some u \<and> usr_forcePasswordChange u = Some False"
proof -
  have valid: "account_request_valid ex_people_env (PasswordRequest ex_password ex_password)"
    by code_simp
  have run: "replaceMyTemporaryPassword ex_people_env ''student'' ex_password ex_password ex_people = (Inr (), snd ex_password_changed)"
    using ex_password_written valid by (simp add: ex_password_changed_def account_request_def prod_eq_iff)
  show ?thesis
    using replaced_password_is_accepted [OF run ex_people_ids] by (auto simp: ex_password_def)
qed

theorem announced_wait_bounds_witness:
  "auth_checkBrutForce (ex_people_env\<lparr>pe_now := 110000\<rparr>)
     ((account_mapToDto (ex_account ''account'' ''name'' ''student'' None))\<lparr>acd_lasttriedFailedLogin := Some 95500\<rparr>) \<noteq> Inr ()"
proof -
  have "auth_checkBrutForce ex_people_env
     ((account_mapToDto (ex_account ''account'' ''name'' ''student'' None))\<lparr>acd_lasttriedFailedLogin := Some 95500\<rparr>) =
     Inl (BruteForceError 10 (''Brute Force Prevention! Time to wait: '' @ int_string 10 @ '' s''))"
    by (simp add: auth_checkBrutForce_def Let_def ceil_seconds_def)
  from announced_wait_bounds [OF this, of 95500] show ?thesis by simp
qed

text \<open>A local account is not seen behind one of another system with the same name.\<close>

definition ex_two_accounts :: people_state where
  "ex_two_accounts = ex_people\<lparr>pst_accounts := [ex_account ''external'' ''name'' ''admin'' (Some ''system''),
     ex_account ''account'' ''name'' ''student'' None]\<rparr>"

theorem unique_email_sees_one_account_witness:
  "isUniqueEmail ex_people_env ''name'' None None None (ex_two_accounts\<lparr>pst_users := []\<rparr>) = (Inr True, ex_two_accounts\<lparr>pst_users := []\<rparr>)"
proof -
  have "\<exists>b. isUniqueEmail ex_people_env ''name'' None None None (ex_two_accounts\<lparr>pst_users := []\<rparr>) = (Inr b, ex_two_accounts\<lparr>pst_users := []\<rparr>)"
    by (simp add: isUniqueEmail_def repo_searchByUsernameExactMatch_def searchByUsername_def user_findByEmail_def
        bindE_def queryE_def retE_def Let_def)
  then obtain b where b: "isUniqueEmail ex_people_env ''name'' None None None (ex_two_accounts\<lparr>pst_users := []\<rparr>) =
      (Inr b, ex_two_accounts\<lparr>pst_users := []\<rparr>)" ..
  from unique_email_sees_one_account [OF b, of "\<lambda>_. True" "\<lambda>_. True"] have b
    by (simp add: ex_two_accounts_def)
  with b show ?thesis by simp
qed

end
