(* ===== verification/UserServices.thy ===== *)
theory UserServices
  imports Authentication
begin

text \<open>
  The services and use cases of roles, users and schools (\<^verbatim>\<open>modules/role\<close>, \<^verbatim>\<open>modules/user\<close>,
  \<^verbatim>\<open>modules/school\<close>), with the migration of the users of a school to another login, as far as it
  concerns the school (\<^verbatim>\<open>school-migration.service.ts\<close>).
\<close>

section \<open>Roles\<close>

definition role_mapFromEntityToDto :: "role \<Rightarrow> RoleDto" where
  "role_mapFromEntityToDto e =
     \<lparr>rod_id = Some (eid e), rod_name = role_name e, rod_permissions = Some (role_permissions e)\<rparr>"

definition role_mapFromEntitiesToDtos :: "role list \<Rightarrow> RoleDto list" where
  "role_mapFromEntitiesToDtos es = map role_mapFromEntityToDto es"

definition roleService_findById :: "people_env \<Rightarrow> EntityId \<Rightarrow> RoleDto result" where
  "roleService_findById env i = mapR role_mapFromEntityToDto (role_findById env i)"

definition roleService_findByNames :: "people_env \<Rightarrow> RoleName list \<Rightarrow> RoleDto list" where
  "roleService_findByNames env names = role_mapFromEntitiesToDtos (role_findByNames env names)"

definition getProtectedRoles :: "people_env \<Rightarrow> RoleDto list" where
  "getProtectedRoles env = roleService_findByNames env [ADMINISTRATOR, TEACHER]"

section \<open>Users\<close>

definition user_mapFromEntityToDto :: "people_env \<Rightarrow> user \<Rightarrow> UserDto" where
  "user_mapFromEntityToDto env u =
     \<lparr>utd_id = Some (eid u), utd_email = usr_email u, utd_firstName = usr_firstName u, utd_lastName = usr_lastName u,
      utd_roleIds = map (\<lambda>r. eid (env_roles (pe_auth env) r)) (coll_items (usr_roles u)),
      utd_schoolId = eid (usr_school u), utd_ldapDn = usr_ldapDn u, utd_externalId = usr_externalId u,
      utd_language = usr_language u, utd_forcePasswordChange = usr_forcePasswordChange u,
      utd_preferences = usr_preferences u, utd_lastLoginSystemChange = usr_lastLoginSystemChange u,
      utd_outdatedSince = usr_outdatedSince u\<rparr>"

definition user_me :: "people_env \<Rightarrow> EntityId \<Rightarrow> (user \<times> string list) people" where
  "user_me env userId =
     bindE (user_findById userId True) (\<lambda>u.
     bindE (liftE (ps_resolvePermissions (pe_auth env) u)) (\<lambda>permissions. retE (u, permissions)))"

definition getUser :: "people_env \<Rightarrow> EntityId \<Rightarrow> UserDto people" where
  "getUser env i = bindE (user_findById i True) (\<lambda>u. retE (user_mapFromEntityToDto env u))"

definition findUsers :: "people_env \<Rightarrow> UserQuery \<Rightarrow> (UserDO list \<times> nat) people" where
  "findUsers env query = userDO_find env query None None None"

text \<open>Teachers and administrators are shown without their first name.\<close>

definition getDisplayName :: "people_env \<Rightarrow> UserDto \<Rightarrow> string" where
  "getDisplayName env d =
     (let i = (if truthy (utd_id d) then the (utd_id d) else []);
          isProtectedUser = list_ex (\<lambda>r. or_default (rod_id r) [] \<in> set (utd_roleIds d)) (getProtectedRoles env)
      in if isProtectedUser then (if utd_lastName d \<noteq> [] then utd_lastName d else i)
         else if utd_lastName d \<noteq> [] then utd_firstName d @ '' '' @ utd_lastName d else i)"

definition checkAvailableLanguages :: "people_env \<Rightarrow> LanguageType \<Rightarrow> unit result" where
  "checkAvailableLanguages env language =
     guardR (language \<in> set (pe_AVAILABLE_LANGUAGES env)) (BadRequestException ''Language is not activated.'')"

definition patchLanguage :: "people_env \<Rightarrow> EntityId \<Rightarrow> LanguageType \<Rightarrow> bool people" where
  "patchLanguage env userId newLanguage =
     bindE (liftE (checkAvailableLanguages env newLanguage)) (\<lambda>_.
     bindE (user_findById userId False) (\<lambda>u.
     bindE (user_save env (u\<lparr>usr_language := Some newLanguage\<rparr>)) (\<lambda>_. retE True)))"

section \<open>Schools\<close>

text \<open>\<^verbatim>\<open>{ ...entity, ...school }\<close> is the new object, as its constructor sets all the fields.\<close>

definition patchSchool :: "people_env \<Rightarrow> SchoolDO \<Rightarrow> SchoolDO people" where
  "patchSchool env school =
     bindE (school_repo_findById env (the (sdo_id school))) (\<lambda>_.
     bindE (school_repo_save env school) (\<lambda>_. retE school))"

definition createOrUpdateSchool :: "people_env \<Rightarrow> SchoolDO \<Rightarrow> SchoolDO people" where
  "createOrUpdateSchool env school =
     (if truthy (sdo_id school) then patchSchool env school else school_repo_save env school)"

definition hasFeature :: "people_env \<Rightarrow> EntityId \<Rightarrow> SchoolFeatures \<Rightarrow> bool people" where
  "hasFeature env schoolId feature =
     bindE (school_repo_findById env schoolId) (\<lambda>d.
       retE (case sdo_features d of None \<Rightarrow> False | Some fs \<Rightarrow> feature \<in> set fs))"

record OauthMigrationDto =
  omd_oauthMigrationPossible :: "date option"
  omd_oauthMigrationMandatory :: "date option"
  omd_oauthMigrationFinished :: "date option"
  omd_enableMigrationStart :: bool

definition migration_of :: "SchoolDO \<Rightarrow> OauthMigrationDto" where
  "migration_of d =
     \<lparr>omd_oauthMigrationPossible = sdo_oauthMigrationPossible d,
      omd_oauthMigrationMandatory = sdo_oauthMigrationMandatory d,
      omd_oauthMigrationFinished = sdo_oauthMigrationFinished d,
      omd_enableMigrationStart = truthy (sdo_officialSchoolNumber d)\<rparr>"

text \<open>A flag that is given is set to now or cleared.\<close>

definition flagged :: "date \<Rightarrow> bool option \<Rightarrow> date option \<Rightarrow> date option" where
  "flagged now flag old = (case flag of None \<Rightarrow> old | Some b \<Rightarrow> if b then Some now else None)"

definition service_setMigration ::
  "people_env \<Rightarrow> EntityId \<Rightarrow> bool option \<Rightarrow> bool option \<Rightarrow> bool option \<Rightarrow> OauthMigrationDto people" where
  "service_setMigration env schoolId possible mandatory finished =
     bindE (school_repo_findById env schoolId) (\<lambda>d.
       let d' = d\<lparr>sdo_oauthMigrationPossible := flagged (pe_now env) possible (sdo_oauthMigrationPossible d),
             sdo_oauthMigrationMandatory := flagged (pe_now env) mandatory (sdo_oauthMigrationMandatory d),
             sdo_oauthMigrationFinished := flagged (pe_now env) finished (sdo_oauthMigrationFinished d)\<rparr>
       in bindE (school_repo_save env d') (\<lambda>_. retE (migration_of d')))"

definition service_getMigration :: "people_env \<Rightarrow> EntityId \<Rightarrow> OauthMigrationDto people" where
  "service_getMigration env schoolId = bindE (school_repo_findById env schoolId) (\<lambda>d. retE (migration_of d))"

section \<open>The migration of a school\<close>

text \<open>
  \<^verbatim>\<open>new SchoolDO({ ...existingSchool })\<close> shares the array of systems with the original, so the copy for
  the rollback gets the new system too, when there are systems at all.
\<close>

definition with_system :: "EntityId \<Rightarrow> SchoolDO \<Rightarrow> SchoolDO" where
  "with_system i d = d\<lparr>sdo_systems := (case sdo_systems d of None \<Rightarrow> Some [i] | Some is \<Rightarrow> Some (is @ [i]))\<rparr>"

definition school_doMigration :: "people_env \<Rightarrow> string \<Rightarrow> SchoolDO \<Rightarrow> EntityId \<Rightarrow> unit people" where
  "school_doMigration env externalId d targetSystemId =
     (let d' = (with_system targetSystemId d)\<lparr>sdo_previousExternalId := sdo_externalId d, sdo_externalId := Some externalId\<rparr>
      in bindE (school_repo_save env d') (\<lambda>_. retE ()))"

definition school_rollback_copy :: "SchoolDO \<Rightarrow> EntityId \<Rightarrow> SchoolDO" where
  "school_rollback_copy d targetSystemId =
     (if sdo_systems d = None then d else with_system targetSystemId d)"

definition migrateSchool :: "people_env \<Rightarrow> string \<Rightarrow> SchoolDO \<Rightarrow> EntityId \<Rightarrow> unit people" where
  "migrateSchool env externalId existingSchool targetSystemId =
     catchE (school_doMigration env externalId existingSchool targetSystemId)
       (\<lambda>_. bindE (school_repo_save env (school_rollback_copy existingSchool targetSystemId)) (\<lambda>_. retE ()))"

definition isExternalUserInSchool :: "people_env \<Rightarrow> EntityId \<Rightarrow> SchoolDO option \<Rightarrow> bool people" where
  "isExternalUserInSchool env currentUserId existingSchool =
     bindE (userDO_findById env currentUserId) (\<lambda>currentUser.
       retE (case existingSchool of None \<Rightarrow> False | Some d \<Rightarrow> sdo_id d = Some (udo_schoolId currentUser)))"

definition schoolToMigrate :: "people_env \<Rightarrow> EntityId \<Rightarrow> string \<Rightarrow> string option \<Rightarrow> SchoolDO option people" where
  "schoolToMigrate env currentUserId externalId schoolNumber =
     (if \<not> truthy schoolNumber
      then throwE (OAuthMigrationError ''Official school number from target migration system is missing''
             ''ext_official_school_number_missing'')
      else bindE (school_findBySchoolNumber env (the schoolNumber)) (\<lambda>existingSchool.
        case existingSchool of
          None \<Rightarrow> throwE (OAuthMigrationError ''Could not find school by official school number from target migration system''
                    ''ext_official_school_number_mismatch'')
        | Some d \<Rightarrow> bindE (isExternalUserInSchool env currentUserId existingSchool) (\<lambda>inSchool.
            if \<not> inSchool
            then throwE (OAuthMigrationError
              ''Current users school is not the same as school found by official school number from target migration system''
              ''ext_official_school_number_mismatch'')
            else retE (if sdo_externalId d = Some externalId then None else Some d))))"

definition completeMigration :: "people_env \<Rightarrow> EntityId \<Rightarrow> unit people" where
  "completeMigration env schoolId =
     bindE (school_repo_findById env schoolId) (\<lambda>school.
     bindE (findUsers env \<lparr>uq_schoolId = Some schoolId, uq_outdatedSince = None, uq_isOutdated = Some False,
              uq_lastLoginSystemChangeGreaterThan = sdo_oauthMigrationPossible school\<rparr>) (\<lambda>notMigratedUsers.
     bindE (user_saveAll env (map (\<lambda>d. d\<lparr>udo_outdatedSince := sdo_oauthMigrationFinished school\<rparr>) (fst notMigratedUsers))) (\<lambda>_.
       retE ())))"

text \<open>The school is not saved after its mandatory date is cleared.\<close>

definition restartMigration :: "people_env \<Rightarrow> EntityId \<Rightarrow> unit people" where
  "restartMigration env schoolId =
     bindE (school_repo_findById env schoolId) (\<lambda>school.
     bindE (findUsers env \<lparr>uq_schoolId = Some schoolId, uq_outdatedSince = sdo_oauthMigrationFinished school,
              uq_isOutdated = None, uq_lastLoginSystemChangeGreaterThan = None\<rparr>) (\<lambda>migratedUsers.
     bindE (user_saveAll env (map (\<lambda>d. d\<lparr>udo_outdatedSince := None\<rparr>) (fst migratedUsers))) (\<lambda>_.
       let school' = school\<lparr>sdo_oauthMigrationMandatory := None\<rparr> in retE ())))"

section \<open>The use cases of schools\<close>

text \<open>The authorization loads the user and the school from their tables, and other entities from outside.\<close>

definition people_findById :: "people_env \<Rightarrow> find_by_id \<Rightarrow> people_state \<Rightarrow> find_by_id" where
  "people_findById env outside s repo i populate =
     (if repo = SchoolRepo then mapR (\<lambda>d. SubjSchool (SchoolDomainObject d)) (fst (school_repo_findById env i s))
      else if repo = UserRepo then mapR SubjUser (fst (user_findById i (populate = Some True) s))
      else outside repo i populate)"

definition check_school_edit :: "people_env \<Rightarrow> find_by_id \<Rightarrow> EntityId \<Rightarrow> EntityId \<Rightarrow> unit people" where
  "check_school_edit env outside userId schoolId = queryE (\<lambda>s.
     checkPermissionByReferences (\<lambda>i. fst (user_findById i True s)) (people_findById env outside s) (pe_auth env)
       userId Allowed_School schoolId \<lparr>ctx_action = Read, ctx_requiredPermissions = [''SCHOOL_EDIT'']\<rparr>)"

definition isRestartMigrationRequired :: "SchoolDO \<Rightarrow> bool \<Rightarrow> bool \<Rightarrow> bool \<Rightarrow> bool" where
  "isRestartMigrationRequired school possible mandatory finished \<longleftrightarrow>
     sdo_oauthMigrationFinished school \<noteq> None \<and> possible \<and>
     mandatory = (sdo_oauthMigrationMandatory school \<noteq> None) \<and> \<not> finished"

definition uc_setMigration ::
  "people_env \<Rightarrow> find_by_id \<Rightarrow> EntityId \<Rightarrow> bool \<Rightarrow> bool \<Rightarrow> bool \<Rightarrow> EntityId \<Rightarrow> OauthMigrationDto people" where
  "uc_setMigration env outside schoolId possible mandatory finished userId =
     bindE (check_school_edit env outside userId schoolId) (\<lambda>_.
     bindE (school_repo_findById env schoolId) (\<lambda>school.
     bindE (if isRestartMigrationRequired school possible mandatory finished
            then restartMigration env schoolId else retE ()) (\<lambda>_.
     bindE (service_setMigration env schoolId (Some possible) (Some mandatory) (Some finished)) (\<lambda>migrationDto.
     bindE (if finished then completeMigration env schoolId else retE ()) (\<lambda>_. retE migrationDto)))))"

definition uc_getMigration :: "people_env \<Rightarrow> find_by_id \<Rightarrow> EntityId \<Rightarrow> EntityId \<Rightarrow> OauthMigrationDto people" where
  "uc_getMigration env outside schoolId userId =
     bindE (check_school_edit env outside userId schoolId) (\<lambda>_. service_getMigration env schoolId)"

record PublicSchoolResponse =
  psc_schoolName :: string
  psc_schoolNumber :: string
  psc_oauthMigrationPossible :: bool
  psc_oauthMigrationMandatory :: bool

definition mapDOToPublicResponse :: "SchoolDO \<Rightarrow> PublicSchoolResponse" where
  "mapDOToPublicResponse d =
     \<lparr>psc_schoolName = sdo_name d, psc_schoolNumber = nullish (sdo_officialSchoolNumber d) ''N/A'',
      psc_oauthMigrationPossible = (sdo_oauthMigrationPossible d \<noteq> None),
      psc_oauthMigrationMandatory = (sdo_oauthMigrationMandatory d \<noteq> None)\<rparr>"

definition getPublicSchoolData :: "people_env \<Rightarrow> string \<Rightarrow> PublicSchoolResponse people" where
  "getPublicSchoolData env schoolnumber =
     bindE (school_findBySchoolNumber env schoolnumber) (\<lambda>d.
       case d of Some x \<Rightarrow> retE (mapDOToPublicResponse x)
       | None \<Rightarrow> throwE (NotFoundException (''No school found for schoolnumber: '' @ schoolnumber)))"

end
