(* ===== verification/UserImport.thy ===== *)
theory UserImport
  imports UserServices
begin

text \<open>
  The import of users from a directory (\<^verbatim>\<open>modules/user-import\<close>, \<^verbatim>\<open>shared/repo/importuser\<close>): the users to
  be imported are matched with users of the school, then the accounts of these are moved to the
  system of the import.
\<close>

section \<open>The repository\<close>

datatype MatchCreatorScope = SCOPE_AUTO | SCOPE_MANUAL | SCOPE_NONE

record IImportUserScope =
  ius_firstName :: "string option"
  ius_lastName :: "string option"
  ius_loginName :: "string option"
  ius_matches :: "MatchCreatorScope list option"
  ius_flagged :: "bool option"
  ius_role :: "RoleName option"
  ius_classes :: "string option"

definition empty_scope :: IImportUserScope where
  "empty_scope = \<lparr>ius_firstName = None, ius_lastName = None, ius_loginName = None, ius_matches = None,
     ius_flagged = None, ius_role = None, ius_classes = None\<rparr>"

definition import_bySchool :: "people_env \<Rightarrow> school \<Rightarrow> ImportUser Scope \<Rightarrow> ImportUser Scope result" where
  "import_bySchool env sch sc =
     (if \<not> pe_isObjectId env (eid sch) then Inl (PlainError ''invalid school id'')
      else Inr (addQuery sc (\<lambda>iu. imu_school iu = eid sch)))"

definition byUserMatch :: "people_env \<Rightarrow> user \<Rightarrow> ImportUser Scope \<Rightarrow> ImportUser Scope result" where
  "byUserMatch env u sc =
     (if \<not> pe_isObjectId env (eid u) then Inl (PlainError ''invalid user match id'')
      else Inr (addQuery sc (\<lambda>iu. map_option eid (imu_user iu) = Some (eid u))))"

definition by_text :: "people_env \<Rightarrow> (ImportUser \<Rightarrow> string list) \<Rightarrow> (string \<Rightarrow> string) \<Rightarrow> string \<Rightarrow> ImportUser Scope \<Rightarrow> ImportUser Scope" where
  "by_text env field pattern name sc =
     (let escaped = escaped_search name
      in if isNotEmptyString (Some escaped) True
         then addQuery sc (\<lambda>iu. list_ex (regex_query env (pattern escaped)) (field iu)) else sc)"

definition byFirstName :: "people_env \<Rightarrow> string \<Rightarrow> ImportUser Scope \<Rightarrow> ImportUser Scope" where
  "byFirstName env firstName sc = by_text env (\<lambda>iu. [imu_firstName iu]) (\<lambda>x. x) firstName sc"

definition byLastName :: "people_env \<Rightarrow> string \<Rightarrow> ImportUser Scope \<Rightarrow> ImportUser Scope" where
  "byLastName env lastName sc = by_text env (\<lambda>iu. [imu_lastName iu]) (\<lambda>x. x) lastName sc"

definition byLoginName :: "people_env \<Rightarrow> string \<Rightarrow> ImportUser Scope \<Rightarrow> ImportUser Scope" where
  "byLoginName env name sc =
     by_text env (\<lambda>iu. [imu_ldapDn iu]) (\<lambda>x. ''^uid=[^,]*'' @ x @ ''[^,]*,'') name sc"

definition byClasses :: "people_env \<Rightarrow> string \<Rightarrow> ImportUser Scope \<Rightarrow> ImportUser Scope" where
  "byClasses env classes sc = by_text env imu_classNames (\<lambda>x. x) classes sc"

definition byRole :: "RoleName \<Rightarrow> ImportUser Scope \<Rightarrow> ImportUser Scope result" where
  "byRole roleName sc =
     (if roleName \<in> {ADMINISTRATOR, STUDENT, TEACHER}
      then Inr (addQuery sc (\<lambda>iu. roleName \<in> set (imu_roleNames iu)))
      else Inl (PlainError ''unexpected role name''))"

fun matches_scope :: "MatchCreatorScope \<Rightarrow> ImportUser \<Rightarrow> bool" where
  "matches_scope SCOPE_MANUAL iu = (imu_matchedBy iu = Some MATCH_MANUAL)"
| "matches_scope SCOPE_AUTO iu = (imu_matchedBy iu = Some MATCH_AUTO)"
| "matches_scope SCOPE_NONE iu = (imu_matchedBy iu = None)"

definition byMatches :: "MatchCreatorScope list \<Rightarrow> ImportUser Scope \<Rightarrow> ImportUser Scope" where
  "byMatches ms sc = (if ms = [] then sc else addQuery sc (\<lambda>iu. list_ex (\<lambda>m. matches_scope m iu) ms))"

definition isFlagged :: "bool \<Rightarrow> ImportUser Scope \<Rightarrow> ImportUser Scope" where
  "isFlagged b sc = (if b then addQuery sc imu_flagged else sc)"

definition import_scope :: "people_env \<Rightarrow> school \<Rightarrow> IImportUserScope \<Rightarrow> ImportUser Scope result" where
  "import_scope env sch filters =
     bindR (import_bySchool env sch (new_Scope AndOp)) (\<lambda>sc0.
     let sc1 = (case ius_firstName filters of None \<Rightarrow> sc0 | Some x \<Rightarrow> byFirstName env x sc0);
         sc2 = (case ius_lastName filters of None \<Rightarrow> sc1 | Some x \<Rightarrow> byLastName env x sc1);
         sc3 = (case ius_loginName filters of None \<Rightarrow> sc2 | Some x \<Rightarrow> byLoginName env x sc2)
     in bindR (case ius_role filters of None \<Rightarrow> Inr sc3 | Some r \<Rightarrow> byRole r sc3) (\<lambda>sc4.
        let sc5 = (case ius_classes filters of None \<Rightarrow> sc4 | Some x \<Rightarrow> byClasses env x sc4);
            sc6 = (case ius_matches filters of None \<Rightarrow> sc5 | Some ms \<Rightarrow> byMatches ms sc5)
        in Inr (if ius_flagged filters = Some True then isFlagged True sc6 else sc6)))"

text \<open>The matched user is read together with a user to be imported.\<close>

definition with_match :: "people_state \<Rightarrow> ImportUser \<Rightarrow> ImportUser" where
  "with_match s iu =
     iu\<lparr>imu_user := map_option (\<lambda>u. case find_row (pst_users s) (eid u) of None \<Rightarrow> u | Some row \<Rightarrow> row) (imu_user iu)\<rparr>"

definition importUser_findById :: "people_env \<Rightarrow> EntityId \<Rightarrow> ImportUser people" where
  "importUser_findById env i = queryE (\<lambda>s.
     if \<not> pe_isObjectId env i then Inl (PlainError ''invalid id'')
     else bindR (row_or_fail (pst_importUsers s) i) (\<lambda>iu. Inr (with_match s iu)))"

definition hasMatch :: "people_env \<Rightarrow> user \<Rightarrow> ImportUser option people" where
  "hasMatch env u = queryE (\<lambda>s.
     bindR (byUserMatch env u (new_Scope AndOp)) (\<lambda>sc. Inr (List.find (scope_query sc) (pst_importUsers s))))"

datatype ImportUserSortOrder = SORT_FIRSTNAME | SORT_LASTNAME

fun import_sorted :: "(ImportUserSortOrder \<times> SortOrder) option \<Rightarrow> ImportUser list \<Rightarrow> ImportUser list" where
  "import_sorted None xs = xs"
| "import_sorted (Some (SORT_FIRSTNAME, d)) xs = sorted_on (Some d) imu_firstName xs"
| "import_sorted (Some (SORT_LASTNAME, d)) xs = sorted_on (Some d) imu_lastName xs"

definition findImportUsers ::
  "people_env \<Rightarrow> school \<Rightarrow> IImportUserScope \<Rightarrow> (ImportUserSortOrder \<times> SortOrder) option \<Rightarrow> nat option \<Rightarrow> nat option \<Rightarrow>
   (ImportUser list \<times> nat) people" where
  "findImportUsers env sch filters order skip limit = queryE (\<lambda>s.
     bindR (import_scope env sch filters) (\<lambda>sc.
       let found = filter (scope_query sc) (pst_importUsers s)
       in Inr (map (with_match s) (page_of skip limit (import_sorted order found)), length found)))"

definition importUser_save :: "people_env \<Rightarrow> ImportUser \<Rightarrow> unit people" where
  "importUser_save env iu = db_write env (modifyE (\<lambda>s.
     s\<lparr>pst_importUsers := snd (persist_row (pe_now env) (pe_newId env) (pst_importUsers s) iu)\<rparr>))"

definition deleteImportUsersBySchool :: "people_env \<Rightarrow> school \<Rightarrow> unit people" where
  "deleteImportUsersBySchool env sch = db_write env (modifyE (\<lambda>s.
     s\<lparr>pst_importUsers := filter (\<lambda>iu. imu_school iu \<noteq> eid sch) (pst_importUsers s)\<rparr>))"

section \<open>Guards\<close>

definition checkFeatureEnabled :: "people_env \<Rightarrow> SchoolDO \<Rightarrow> unit result" where
  "checkFeatureEnabled env school =
     (let isLdapPilotSchool = (case sdo_features school of None \<Rightarrow> False | Some fs \<Rightarrow> LDAP_UNIVENTION_MIGRATION \<in> set fs)
      in if \<not> pe_USER_MIGRATION_ENABLED env \<and> \<not> isLdapPilotSchool
         then Inl (InternalServerErrorException ''User Migration not enabled'') else Inr ())"

definition import_getCurrentUser :: "people_env \<Rightarrow> EntityId \<Rightarrow> string \<Rightarrow> user people" where
  "import_getCurrentUser env currentUserId permission =
     bindE (user_findById currentUserId True) (\<lambda>currentUser.
     bindE (liftE (checkUserHasAllSchoolPermissions (pe_auth env) currentUser [permission])) (\<lambda>_. retE currentUser))"

text \<open>Every request starts like this.\<close>

definition import_start :: "people_env \<Rightarrow> EntityId \<Rightarrow> string \<Rightarrow> (user \<times> SchoolDO) people" where
  "import_start env currentUserId permission =
     bindE (import_getCurrentUser env currentUserId permission) (\<lambda>currentUser.
     bindE (school_repo_findById env (eid (usr_school currentUser))) (\<lambda>school.
     bindE (liftE (checkFeatureEnabled env school)) (\<lambda>_. retE (currentUser, school))))"

section \<open>Matches\<close>

definition findAllImportUsers ::
  "people_env \<Rightarrow> EntityId \<Rightarrow> IImportUserScope \<Rightarrow> (ImportUserSortOrder \<times> SortOrder) option \<Rightarrow> nat option \<Rightarrow> nat option \<Rightarrow>
   (ImportUser list \<times> nat) people" where
  "findAllImportUsers env currentUserId query order skip limit =
     bindE (import_start env currentUserId ''SCHOOL_IMPORT_USERS_VIEW'') (\<lambda>(currentUser, _).
       findImportUsers env (usr_school currentUser) query order skip limit)"

definition uc_setMatch :: "people_env \<Rightarrow> EntityId \<Rightarrow> EntityId \<Rightarrow> EntityId \<Rightarrow> ImportUser people" where
  "uc_setMatch env currentUserId importUserId userMatchId =
     bindE (import_start env currentUserId ''SCHOOL_IMPORT_USERS_UPDATE'') (\<lambda>(_, school).
     bindE (importUser_findById env importUserId) (\<lambda>importUser.
     bindE (user_findById userMatchId True) (\<lambda>userMatch.
       if \<not> truthy (sdo_id school) \<or> sdo_id school \<noteq> Some (eid (usr_school userMatch)) \<or>
          sdo_id school \<noteq> Some (imu_school importUser)
       then throwE (ForbiddenBecause ''not same school'')
       else bindE (hasMatch env userMatch) (\<lambda>other.
         if other \<noteq> None then throwE UserAlreadyAssignedToImportUserError
         else bindE (liftE (setMatch importUser userMatch MATCH_MANUAL)) (\<lambda>importUser'.
              bindE (importUser_save env importUser') (\<lambda>_. retE importUser'))))))"

definition uc_removeMatch :: "people_env \<Rightarrow> EntityId \<Rightarrow> EntityId \<Rightarrow> ImportUser people" where
  "uc_removeMatch env currentUserId importUserId =
     bindE (import_start env currentUserId ''SCHOOL_IMPORT_USERS_UPDATE'') (\<lambda>(_, school).
     bindE (importUser_findById env importUserId) (\<lambda>importUser.
       if sdo_id school \<noteq> Some (imu_school importUser)
       then throwE (ForbiddenBecause ''not same school'')
       else let importUser' = revokeMatch importUser
            in bindE (importUser_save env importUser') (\<lambda>_. retE importUser')))"

definition uc_updateFlag :: "people_env \<Rightarrow> EntityId \<Rightarrow> EntityId \<Rightarrow> bool \<Rightarrow> ImportUser people" where
  "uc_updateFlag env currentUserId importUserId flag =
     bindE (import_start env currentUserId ''SCHOOL_IMPORT_USERS_UPDATE'') (\<lambda>(_, school).
     bindE (importUser_findById env importUserId) (\<lambda>importUser.
       if sdo_id school \<noteq> Some (imu_school importUser)
       then throwE (ForbiddenBecause ''not same school'')
       else let importUser' = importUser\<lparr>imu_flagged := flag\<rparr>
            in bindE (importUser_save env importUser') (\<lambda>_. retE importUser')))"

definition findAllUnmatchedUsers ::
  "people_env \<Rightarrow> EntityId \<Rightarrow> string option \<Rightarrow> nat option \<Rightarrow> nat option \<Rightarrow> (user list \<times> nat) people" where
  "findAllUnmatchedUsers env currentUserId name skip limit =
     bindE (import_start env currentUserId ''SCHOOL_IMPORT_USERS_VIEW'') (\<lambda>(currentUser, _).
       user_findWithoutImportUser env (usr_school currentUser) name None None skip limit)"

section \<open>The end of the matching\<close>

definition endSchoolInUserMigration :: "people_env \<Rightarrow> EntityId \<Rightarrow> unit people" where
  "endSchoolInUserMigration env currentUserId =
     bindE (import_start env currentUserId ''SCHOOL_IMPORT_USERS_MIGRATE'') (\<lambda>(_, school).
       if \<not> truthy (sdo_externalId school) \<or> sdo_inUserMigration school \<noteq> Some True \<or> sdo_inMaintenanceSince school = None
       then throwE (BadRequestException ''School cannot exit from user migration mode'')
       else bindE (school_repo_save env (school\<lparr>sdo_inUserMigration := Some False\<rparr>)) (\<lambda>_. retE ()))"

text \<open>
  What a matched user is changed to, before anything is awaited. The name in the directory of the
  school is \<^verbatim>\<open>externalId/loginName\<close>.
\<close>

definition ready_to_move :: "SchoolDO \<Rightarrow> ImportUser \<Rightarrow> bool" where
  "ready_to_move school importUser \<longleftrightarrow>
     imu_user importUser \<noteq> None \<and> truthy (loginName importUser) \<and> truthy (sdo_externalId school)"

definition moved_user :: "ImportUser \<Rightarrow> user" where
  "moved_user importUser =
     (the (imu_user importUser))\<lparr>usr_ldapDn := Some (imu_ldapDn importUser), usr_externalId := Some (imu_externalId importUser)\<rparr>"

definition moved_account :: "SchoolDO \<Rightarrow> ImportUser \<Rightarrow> AccountDto \<Rightarrow> AccountDto" where
  "moved_account school importUser account =
     account\<lparr>acd_systemId := Some (imu_system importUser), acd_password := None,
       acd_username := the (sdo_externalId school) @ ''/'' @ the (loginName importUser)\<rparr>"

definition updateUserAndAccount :: "people_env \<Rightarrow> ImportUser \<Rightarrow> SchoolDO \<Rightarrow> unit people" where
  "updateUserAndAccount env importUser school =
     (if \<not> ready_to_move school importUser then retE ()
      else bindE (db_findByUserIdOrFail env (eid (the (imu_user importUser)))) (\<lambda>account.
           bindE (user_save env (moved_user importUser)) (\<lambda>_.
           bindE (account_service_save env (moved_account school importUser account)) (\<lambda>_. retE ()))))"

text \<open>\<^verbatim>\<open>flush\<close> writes the users that were changed by then.\<close>

definition flush_users :: "people_env \<Rightarrow> user list \<Rightarrow> unit people" where
  "flush_users env us = db_write env (modifyE (\<lambda>s.
     s\<lparr>pst_users := snd (persist_rows (pe_now env) (pe_newId env) (pst_users s) us)\<rparr>))"

text \<open>
  The updates of the accounts are started and not awaited: here they run one after the other after
  the flush, and their errors go nowhere.
\<close>

primrec not_awaited :: "('s, unit) eff list \<Rightarrow> ('s, unit) eff" where
  "not_awaited [] = retE ()"
| "not_awaited (m # ms) = bindE (catchE m (\<lambda>_. retE ())) (\<lambda>_. not_awaited ms)"

definition saveAllUsersMatches :: "people_env \<Rightarrow> EntityId \<Rightarrow> unit people" where
  "saveAllUsersMatches env currentUserId =
     bindE (import_start env currentUserId ''SCHOOL_IMPORT_USERS_MIGRATE'') (\<lambda>(currentUser, school).
     bindE (findImportUsers env (usr_school currentUser) (empty_scope\<lparr>ius_matches := Some [SCOPE_MANUAL, SCOPE_AUTO]\<rparr>)
              None None None) (\<lambda>(importUsers, total).
     bindE (if total > 0
            then bindE (flush_users env (map moved_user (filter (ready_to_move school) importUsers))) (\<lambda>_.
                 not_awaited (map (\<lambda>iu. updateUserAndAccount env iu school) importUsers))
            else retE ()) (\<lambda>_.
     bindE (deleteImportUsersBySchool env (usr_school currentUser)) (\<lambda>_.
       endSchoolInUserMigration env currentUserId))))"

section \<open>The mode of the school\<close>

definition getMigrationSystem :: "people_env \<Rightarrow> System result" where
  "getMigrationSystem env = row_or_fail (pe_systems env) (pe_USER_MIGRATION_SYSTEM_ID env)"

definition checkNoExistingLdapBeforeStart :: "people_env \<Rightarrow> SchoolDO \<Rightarrow> unit result" where
  "checkNoExistingLdapBeforeStart env school =
     mapR (\<lambda>_. ()) (mapMR (\<lambda>systemId. bindR (row_or_fail (pe_systems env) systemId) (\<lambda>system.
        guardR (sys_ldapConfig system = None) (LdapAlreadyPersistedException ''ldapAlreadyPersisted'')))
       (nullish (sdo_systems school) []))"

definition checkSchoolNumber :: "SchoolDO \<Rightarrow> bool \<Rightarrow> unit result" where
  "checkSchoolNumber school useCentralLdap =
     guardR (\<not> (useCentralLdap \<and> \<not> truthy (sdo_officialSchoolNumber school))) (MissingSchoolNumberException ''ldapAlreadyPersisted'')"

definition checkSchoolNotInMigration :: "SchoolDO \<Rightarrow> unit result" where
  "checkSchoolNotInMigration school =
     guardR (sdo_inUserMigration school = None) (MigrationAlreadyActivatedException ''ldapAlreadyPersisted'')"

definition startSchoolInUserMigration :: "people_env \<Rightarrow> EntityId \<Rightarrow> bool \<Rightarrow> unit people" where
  "startSchoolInUserMigration env currentUserId useCentralLdap =
     bindE (import_start env currentUserId ''SCHOOL_IMPORT_USERS_MIGRATE'') (\<lambda>(_, school).
     bindE (liftE (checkSchoolNumber school useCentralLdap)) (\<lambda>_.
     bindE (liftE (checkSchoolNotInMigration school)) (\<lambda>_.
     bindE (liftE (checkNoExistingLdapBeforeStart env school)) (\<lambda>_.
     let school1 = school\<lparr>sdo_inUserMigration := Some True, sdo_inMaintenanceSince := Some (pe_now env),
           sdo_externalId := sdo_officialSchoolNumber school\<rparr>
     in bindE (if useCentralLdap
               then bindE (liftE (getMigrationSystem env)) (\<lambda>migrationSystem.
                 retE (school1\<lparr>sdo_systems := map_option (\<lambda>is. if eid migrationSystem \<in> set is then is else is @ [eid migrationSystem])
                   (sdo_systems school1)\<rparr>))
               else retE school1) (\<lambda>school2.
        bindE (school_repo_save env school2) (\<lambda>_. retE ()))))))"

definition endSchoolInMaintenance :: "people_env \<Rightarrow> EntityId \<Rightarrow> unit people" where
  "endSchoolInMaintenance env currentUserId =
     bindE (import_start env currentUserId ''SCHOOL_IMPORT_USERS_MIGRATE'') (\<lambda>(_, school).
       if sdo_inUserMigration school \<noteq> Some False \<or> sdo_inMaintenanceSince school = None \<or> \<not> truthy (sdo_externalId school)
       then throwE (BadRequestException ''Sync cannot be activated for school'')
       else bindE (school_repo_save env (school\<lparr>sdo_inMaintenanceSince := None\<rparr>)) (\<lambda>_. retE ()))"

section \<open>The controller\<close>

datatype UserRole = ROLE_STUDENT | ROLE_TEACHER | ROLE_ADMIN

definition roleName_mapToResponse :: "RoleName \<Rightarrow> UserRole result" where
  "roleName_mapToResponse r =
     (if r = ADMINISTRATOR then Inr ROLE_ADMIN else if r = TEACHER then Inr ROLE_TEACHER
      else if r = STUDENT then Inr ROLE_STUDENT else Inl (PlainError ''invalid role name from domain''))"

fun roleName_mapToDomain :: "UserRole \<Rightarrow> RoleName" where
  "roleName_mapToDomain ROLE_ADMIN = ADMINISTRATOR"
| "roleName_mapToDomain ROLE_TEACHER = TEACHER"
| "roleName_mapToDomain ROLE_STUDENT = STUDENT"

record UserMatchResponse =
  umr_userId :: EntityId
  umr_firstName :: string
  umr_lastName :: string
  umr_loginName :: string
  umr_roleNames :: "UserRole list"
  umr_matchedBy :: "MatchCreator option"

definition match_mapToResponse :: "people_env \<Rightarrow> user \<Rightarrow> MatchCreator option \<Rightarrow> UserMatchResponse" where
  "match_mapToResponse env u matchCreator =
     \<lparr>umr_userId = eid u, umr_firstName = usr_firstName u, umr_lastName = usr_lastName u, umr_loginName = usr_email u,
      umr_roleNames = concat (map (\<lambda>r. case roleName_mapToResponse (role_name (env_roles (pe_auth env) r)) of
        Inl _ \<Rightarrow> [] | Inr x \<Rightarrow> [x]) (coll_items (usr_roles u))),
      umr_matchedBy = matchCreator\<rparr>"

record ImportUserResponse =
  iur_importUserId :: EntityId
  iur_loginName :: string
  iur_firstName :: string
  iur_lastName :: string
  iur_roleNames :: "UserRole list"
  iur_classNames :: "string list"
  iur_match :: "UserMatchResponse option"
  iur_flagged :: bool

definition importUser_mapToResponse :: "people_env \<Rightarrow> ImportUser \<Rightarrow> ImportUserResponse result" where
  "importUser_mapToResponse env iu =
     bindR (mapMR roleName_mapToResponse (imu_roleNames iu)) (\<lambda>roles.
       Inr \<lparr>iur_importUserId = eid iu, iur_loginName = or_default (loginName iu) [], iur_firstName = imu_firstName iu,
         iur_lastName = imu_lastName iu, iur_roleNames = roles, iur_classNames = imu_classNames iu,
         iur_match = (case (imu_user iu, imu_matchedBy iu) of
            (Some u, Some m) \<Rightarrow> Some (match_mapToResponse env u (Some m)) | _ \<Rightarrow> None),
         iur_flagged = imu_flagged iu\<rparr>)"

record FilterImportUserParams =
  fip_firstName :: "string option"
  fip_lastName :: "string option"
  fip_loginName :: "string option"
  fip_match :: "MatchCreatorScope list option"
  fip_flagged :: "bool option"
  fip_classes :: "string option"
  fip_role :: "UserRole option"

definition mapImportUserFilterQueryToDomain :: "FilterImportUserParams \<Rightarrow> IImportUserScope" where
  "mapImportUserFilterQueryToDomain query =
     \<lparr>ius_firstName = (if isNotEmptyString (fip_firstName query) False then fip_firstName query else None),
      ius_lastName = (if isNotEmptyString (fip_lastName query) False then fip_lastName query else None),
      ius_loginName = (if isNotEmptyString (fip_loginName query) False then fip_loginName query else None),
      ius_matches = fip_match query,
      ius_flagged = (if fip_flagged query = Some True then Some True else None),
      ius_role = map_option roleName_mapToDomain (fip_role query),
      ius_classes = (if isNotEmptyString (fip_classes query) False then fip_classes query else None)\<rparr>"

definition mapSortingQueryToDomain :: "ImportUserSortOrder option \<Rightarrow> SortOrder \<Rightarrow> (ImportUserSortOrder \<times> SortOrder) option" where
  "mapSortingQueryToDomain sortBy sortOrder = map_option (\<lambda>f. (f, sortOrder)) sortBy"

definition userMatch_mapToDomain :: "string option \<Rightarrow> string option result" where
  "userMatch_mapToDomain name =
     (if \<not> truthy name then Inr None
      else if isNotEmptyString name True then Inr name else Inl (PlainError ''invalid name from query''))"

datatype ImportRequest =
    FindImportUsers FilterImportUserParams "ImportUserSortOrder option" SortOrder nat nat
  | SetMatch EntityId EntityId
  | RemoveMatch EntityId
  | UpdateFlag EntityId bool
  | FindUnmatched "string option" nat nat
  | SaveMatches
  | StartMigration "bool option"
  | StartSync

datatype ImportAnswer =
    ImportUserList "ImportUserResponse list" nat
  | OneImportUser ImportUserResponse
  | UserMatchList "UserMatchResponse list" nat
  | NoContent

fun import_request :: "people_env \<Rightarrow> EntityId \<Rightarrow> ImportRequest \<Rightarrow> ImportAnswer people" where
  "import_request env me (FindImportUsers scope sortBy sortOrder skip limit) =
     bindE (findAllImportUsers env me (mapImportUserFilterQueryToDomain scope) (mapSortingQueryToDomain sortBy sortOrder)
              (Some skip) (Some limit)) (\<lambda>(ius, count).
     bindE (liftE (mapMR (importUser_mapToResponse env) ius)) (\<lambda>rs. retE (ImportUserList rs count)))"
| "import_request env me (SetMatch i u) =
     bindE (uc_setMatch env me i u) (\<lambda>iu. bindE (liftE (importUser_mapToResponse env iu)) (\<lambda>r. retE (OneImportUser r)))"
| "import_request env me (RemoveMatch i) =
     bindE (uc_removeMatch env me i) (\<lambda>iu. bindE (liftE (importUser_mapToResponse env iu)) (\<lambda>r. retE (OneImportUser r)))"
| "import_request env me (UpdateFlag i b) =
     bindE (uc_updateFlag env me i b) (\<lambda>iu. bindE (liftE (importUser_mapToResponse env iu)) (\<lambda>r. retE (OneImportUser r)))"
| "import_request env me (FindUnmatched name skip limit) =
     bindE (liftE (userMatch_mapToDomain name)) (\<lambda>name.
     bindE (findAllUnmatchedUsers env me name (Some skip) (Some limit)) (\<lambda>(us, total).
       retE (UserMatchList (map (\<lambda>u. match_mapToResponse env u None) us) total)))"
| "import_request env me SaveMatches = bindE (saveAllUsersMatches env me) (\<lambda>_. retE NoContent)"
| "import_request env me (StartMigration useCentralLdap) =
     bindE (startSchoolInUserMigration env me (nullish useCentralLdap True)) (\<lambda>_. retE NoContent)"
| "import_request env me StartSync = bindE (endSchoolInMaintenance env me) (\<lambda>_. retE NoContent)"

end
