(* ===== verification/LoginMigration.thy ===== *)
theory LoginMigration
  imports UserServices
begin

text \<open>
  The migration of a user to the login of another system
  (\<^verbatim>\<open>user-login-migration/service/user-migration.service.ts\<close>) with its pages and redirects. How a URL is
  put together from a path, a base and search parameters is a parameter.
\<close>

section \<open>Pages and redirects\<close>

definition isSchoolInMigration :: "people_env \<Rightarrow> string \<Rightarrow> bool people" where
  "isSchoolInMigration env officialSchoolNumber =
     bindE (school_findBySchoolNumber env officialSchoolNumber) (\<lambda>school.
       retE (case school of None \<Rightarrow> False
             | Some d \<Rightarrow> sdo_oauthMigrationPossible d \<noteq> None \<or> sdo_oauthMigrationMandatory d \<noteq> None))"

definition bool_string :: "bool \<Rightarrow> string" where
  "bool_string b = (if b then ''true'' else ''false'')"

definition getMigrationRedirect :: "people_env \<Rightarrow> string \<Rightarrow> EntityId \<Rightarrow> string people" where
  "getMigrationRedirect env officialSchoolNumber originSystemId =
     bindE (school_findBySchoolNumber env officialSchoolNumber) (\<lambda>school.
     bindE (liftE (system_findByType (pe_now env) (pe_broker env) (pe_systems env) (Some TYPE_OAUTH))) (\<lambda>oauthSystems.
       let sanisSystem = List.find (\<lambda>d. syd_alias d = Some ''SANIS'') oauthSystems;
           iservSystem = List.find (\<lambda>d. syd_alias d = Some ''Schulserver'') oauthSystems
       in if \<not> truthy (Option.bind iservSystem syd_id) \<or> \<not> truthy (Option.bind sanisSystem syd_id)
          then throwE (InternalServerErrorException
            ''Unable to generate migration redirect url. Iserv or Sanis system information is invalid.'')
          else retE (pe_url env ''/migration'' (pe_HOST env)
            [(''sourceSystem'', the (Option.bind iservSystem syd_id)),
             (''targetSystem'', the (Option.bind sanisSystem syd_id)), (''origin'', originSystemId),
             (''mandatory'', bool_string (Option.bind school sdo_oauthMigrationMandatory \<noteq> None))])))"

datatype PageTypes = START_FROM_TARGET_SYSTEM | START_FROM_SOURCE_SYSTEM | START_FROM_SOURCE_SYSTEM_MANDATORY

record PageContentDto =
  pcd_proceedButtonUrl :: string
  pcd_cancelButtonUrl :: string

definition getLoginUrl :: "people_env \<Rightarrow> SystemDto \<Rightarrow> string option \<Rightarrow> string result" where
  "getLoginUrl env d postLoginRedirect =
     (if syd_oauthConfig d = None \<or> \<not> truthy (syd_id d)
      then Inl (UnprocessableEntityException (''System '' @ or_default (syd_id d) ''unknown'' @ '' has no oauth config''))
      else Inr (pe_url env (''api/v3/sso/login/'' @ the (syd_id d)) (pe_PUBLIC_BACKEND_URL env)
        [if truthy postLoginRedirect then (''postLoginRedirect'', the postLoginRedirect) else (''migration'', ''true'')]))"

definition getPageContent :: "people_env \<Rightarrow> PageTypes \<Rightarrow> EntityId \<Rightarrow> EntityId \<Rightarrow> PageContentDto result" where
  "getPageContent env pageType sourceId targetId =
     bindR (system_findById (pe_now env) (pe_broker env) (pe_systems env) sourceId) (\<lambda>sourceSystem.
     bindR (system_findById (pe_now env) (pe_broker env) (pe_systems env) targetId) (\<lambda>targetSystem.
     bindR (getLoginUrl env targetSystem None) (\<lambda>targetSystemLoginUrl.
       case pageType of
         START_FROM_TARGET_SYSTEM \<Rightarrow>
           bindR (getLoginUrl env sourceSystem (Some targetSystemLoginUrl)) (\<lambda>sourceSystemLoginUrl.
             Inr \<lparr>pcd_proceedButtonUrl = sourceSystemLoginUrl, pcd_cancelButtonUrl = ''/login''\<rparr>)
       | START_FROM_SOURCE_SYSTEM \<Rightarrow> Inr \<lparr>pcd_proceedButtonUrl = targetSystemLoginUrl, pcd_cancelButtonUrl = ''/dashboard''\<rparr>
       | START_FROM_SOURCE_SYSTEM_MANDATORY \<Rightarrow>
           Inr \<lparr>pcd_proceedButtonUrl = targetSystemLoginUrl, pcd_cancelButtonUrl = ''/logout''\<rparr>)))"

definition getMigrationRedirectUri :: "people_env \<Rightarrow> string" where
  "getMigrationRedirectUri env = pe_url env ''/api/v3/sso/oauth/migration'' (pe_PUBLIC_BACKEND_URL env) []"

section \<open>The migration of a user\<close>

text \<open>A \<^verbatim>\<open>MigrationDto\<close> is the address to redirect to.\<close>

definition createUserMigrationDto :: "people_env \<Rightarrow> string \<Rightarrow> string \<Rightarrow> string \<Rightarrow> string" where
  "createUserMigrationDto env urlPath sourceSystemId targetSystemId =
     pe_url env urlPath (pe_HOST env) [(''sourceSystem'', sourceSystemId), (''targetSystem'', targetSystemId)]"

definition user_doMigration ::
  "people_env \<Rightarrow> UserDO \<Rightarrow> string \<Rightarrow> AccountDto \<Rightarrow> EntityId \<Rightarrow> EntityId option \<Rightarrow> string people" where
  "user_doMigration env userDO externalUserId account targetSystemId sourceSystemId =
     bindE (userDO_save env (userDO\<lparr>udo_previousExternalId := udo_externalId userDO,
        udo_externalId := Some externalUserId, udo_lastLoginSystemChange := Some (pe_now env)\<rparr>)) (\<lambda>_.
     bindE (account_service_save env (account\<lparr>acd_systemId := Some targetSystemId\<rparr>)) (\<lambda>_.
       retE (createUserMigrationDto env ''/migration/success'' (nullish sourceSystemId []) targetSystemId)))"

definition user_rollbackMigration :: "people_env \<Rightarrow> UserDO \<Rightarrow> AccountDto \<Rightarrow> EntityId \<Rightarrow> string people" where
  "user_rollbackMigration env userDOCopy accountCopy targetSystemId =
     bindE (userDO_save env userDOCopy) (\<lambda>_.
     bindE (account_service_save env accountCopy) (\<lambda>_.
       retE (createUserMigrationDto env ''/migration/error'' (nullish (acd_systemId accountCopy) []) targetSystemId)))"

definition migrateUser :: "people_env \<Rightarrow> EntityId \<Rightarrow> string \<Rightarrow> EntityId \<Rightarrow> string people" where
  "migrateUser env currentUserId externalUserId targetSystemId =
     bindE (userDO_findById env currentUserId) (\<lambda>userDO.
     bindE (db_findByUserIdOrFail env currentUserId) (\<lambda>account.
       catchE (user_doMigration env userDO externalUserId account targetSystemId (acd_systemId account))
         (\<lambda>_. user_rollbackMigration env userDO account targetSystemId)))"

end
