(* ===== verification/Provisioning.thy ===== *)
theory Provisioning
  imports LoginMigration
begin

text \<open>
  The provisioning of users and schools from the system of a login (\<^verbatim>\<open>modules/provisioning\<close>): the
  strategies, the mapper of the answers of SANIS, and what is saved. Tokens are decoded and answers
  fetched by libraries: those are parameters.
\<close>

section \<open>Data\<close>

record ProvisioningSystemDto =
  psy_systemId :: EntityId
  psy_provisioningStrategy :: SystemProvisioningStrategy
  psy_provisioningUrl :: "string option"

text \<open>A role that the mapper does not know is \<^verbatim>\<open>undefined\<close>.\<close>

record ExternalUserDto =
  xud_externalId :: string
  xud_firstName :: "string option"
  xud_lastName :: "string option"
  xud_email :: "string option"
  xud_roles :: "RoleName option list option"

record ExternalSchoolDto =
  xsd_externalId :: string
  xsd_name :: string
  xsd_officialSchoolNumber :: "string option"

record OauthDataDto =
  odd_system :: ProvisioningSystemDto
  odd_externalUser :: ExternalUserDto
  odd_externalSchool :: "ExternalSchoolDto option"

record OauthDataStrategyInputDto =
  odi_accessToken :: string
  odi_idToken :: string
  odi_system :: ProvisioningSystemDto

datatype SanisRole = LEHR | LERN | LEIT | ORGADMIN

record SanisResponseOrganisation =
  sro_id :: string
  sro_kennung :: string
  sro_name :: string

record SanisResponsePersonenkontext =
  srk_rolle :: "SanisRole option"
  srk_organisation :: SanisResponseOrganisation
  srk_email :: "string option"

record SanisResponse =
  sar_pid :: string
  sar_vorname :: "string option"
  sar_familienname :: "string option"
  sar_personenkontexte :: "SanisResponsePersonenkontext list"

text \<open>The claims of a token, the answers of SANIS, and the hash of a name.\<close>

record provisioning_env =
  pve_decode :: "string \<Rightarrow> (string \<times> string) list option"
  pve_sanis :: "string \<Rightarrow> string \<Rightarrow> SanisResponse result"
  pve_sha256 :: "string \<Rightarrow> string"

definition claim :: "provisioning_env \<Rightarrow> string \<Rightarrow> string \<Rightarrow> string option" where
  "claim penv idToken name = Option.bind (pve_decode penv idToken) (\<lambda>claims. map_of claims name)"

section \<open>The mapper of SANIS\<close>

fun RoleMapping :: "SanisRole \<Rightarrow> RoleName" where
  "RoleMapping LEHR = TEACHER"
| "RoleMapping LERN = STUDENT"
| "RoleMapping LEIT = ADMINISTRATOR"
| "RoleMapping ORGADMIN = ADMINISTRATOR"

definition without_prefix :: "string \<Rightarrow> string" where
  "without_prefix s = (if take 3 s = ''NI_'' then drop 3 s else s)"

definition mapToExternalSchoolDto :: "SanisResponse \<Rightarrow> ExternalSchoolDto result" where
  "mapToExternalSchoolDto source =
     (case sar_personenkontexte source of
        [] \<Rightarrow> Inl TypeError
      | k # _ \<Rightarrow> Inr \<lparr>xsd_externalId = sro_id (srk_organisation k), xsd_name = sro_name (srk_organisation k),
          xsd_officialSchoolNumber = Some (without_prefix (sro_kennung (srk_organisation k)))\<rparr>)"

definition mapToExternalUserDto :: "SanisResponse \<Rightarrow> ExternalUserDto result" where
  "mapToExternalUserDto source =
     (case sar_personenkontexte source of
        [] \<Rightarrow> Inl TypeError
      | k # _ \<Rightarrow> Inr \<lparr>xud_externalId = sar_pid source, xud_firstName = sar_vorname source,
          xud_lastName = sar_familienname source, xud_email = srk_email k,
          xud_roles = Some [map_option RoleMapping (srk_rolle k)]\<rparr>)"

section \<open>What is saved\<close>

definition provisionExternalSchool :: "people_env \<Rightarrow> ExternalSchoolDto \<Rightarrow> EntityId \<Rightarrow> SchoolDO people" where
  "provisionExternalSchool env externalSchool systemId =
     bindE (school_findByExternalId env (xsd_externalId externalSchool) systemId) (\<lambda>existingSchool.
       createOrUpdateSchool env (case existingSchool of
         Some d \<Rightarrow> d\<lparr>sdo_name := xsd_name externalSchool,
           sdo_officialSchoolNumber := (case xsd_officialSchoolNumber externalSchool of
             None \<Rightarrow> sdo_officialSchoolNumber d | Some n \<Rightarrow> Some n),
           sdo_systems := (case sdo_systems d of None \<Rightarrow> Some [systemId]
             | Some is \<Rightarrow> Some (if systemId \<in> set is then is else is @ [systemId]))\<rparr>
       | None \<Rightarrow> new_SchoolDO \<lparr>sdo_id = None, sdo_externalId = Some (xsd_externalId externalSchool),
           sdo_inMaintenanceSince = None, sdo_inUserMigration = None, sdo_oauthMigrationPossible = None,
           sdo_oauthMigrationMandatory = None, sdo_oauthMigrationFinished = None, sdo_previousExternalId = None,
           sdo_name = xsd_name externalSchool, sdo_officialSchoolNumber = xsd_officialSchoolNumber externalSchool,
           sdo_systems = Some [systemId], sdo_features = None, sdo_schoolYear = None\<rparr>))"

definition external_roleIds :: "people_env \<Rightarrow> ExternalUserDto \<Rightarrow> EntityId list option" where
  "external_roleIds env externalUser =
     map_option (\<lambda>roles. map (\<lambda>r. or_default (rod_id r) [])
       (roleService_findByNames env (concat (map (\<lambda>r. case r of None \<Rightarrow> [] | Some x \<Rightarrow> [x]) roles)))) (xud_roles externalUser)"

definition updated_user :: "people_env \<Rightarrow> ExternalUserDto \<Rightarrow> EntityId option \<Rightarrow> UserDO \<Rightarrow> UserDO" where
  "updated_user env externalUser schoolId d =
     d\<lparr>udo_firstName := nullish (xud_firstName externalUser) (udo_firstName d),
       udo_lastName := nullish (xud_lastName externalUser) (udo_lastName d),
       udo_email := nullish (xud_email externalUser) (udo_email d),
       udo_roleIds := nullish (external_roleIds env externalUser) (udo_roleIds d),
       udo_schoolId := nullish schoolId (udo_schoolId d)\<rparr>"

definition created_user :: "people_env \<Rightarrow> ExternalUserDto \<Rightarrow> EntityId \<Rightarrow> UserDO" where
  "created_user env externalUser schoolId =
     \<lparr>udo_id = None, udo_createdAt = None, udo_updatedAt = None, udo_email = nullish (xud_email externalUser) [],
      udo_firstName = nullish (xud_firstName externalUser) [], udo_lastName = nullish (xud_lastName externalUser) [],
      udo_roleIds = nullish (external_roleIds env externalUser) [], udo_schoolId = schoolId, udo_ldapDn = None,
      udo_externalId = Some (xud_externalId externalUser), udo_importHash = None, udo_firstNameSearchValues = None,
      udo_lastNameSearchValues = None, udo_emailSearchValues = None, udo_language = None,
      udo_forcePasswordChange = None, udo_preferences = None, udo_lastLoginSystemChange = None,
      udo_outdatedSince = None, udo_previousExternalId = None\<rparr>"

definition new_account :: "provisioning_env \<Rightarrow> EntityId \<Rightarrow> EntityId \<Rightarrow> AccountSaveDto" where
  "new_account penv userId systemId =
     \<lparr>acd_id = None, acd_createdAt = None, acd_updatedAt = None, acd_username = pve_sha256 penv userId,
      acd_password = None, acd_token = None, acd_credentialHash = None, acd_userId = Some userId,
      acd_systemId = Some systemId, acd_lasttriedFailedLogin = None, acd_expiresAt = None,
      acd_activated = Some True, acd_idmReferenceId = None\<rparr>"

definition provisionExternalUser ::
  "people_env \<Rightarrow> provisioning_env \<Rightarrow> ExternalUserDto \<Rightarrow> EntityId \<Rightarrow> EntityId option \<Rightarrow> UserDO people" where
  "provisionExternalUser env penv externalUser systemId schoolId =
     bindE (userDO_findByExternalId env (xud_externalId externalUser) systemId) (\<lambda>existingUser.
       case existingUser of
         Some d \<Rightarrow> userDO_save env (updated_user env externalUser schoolId d)
       | None \<Rightarrow>
           if \<not> truthy schoolId
           then throwE (UnprocessableEntityException
             (''Unable to create new external user '' @ xud_externalId externalUser @ '' without a school''))
           else bindE (userDO_save env (created_user env externalUser (the schoolId))) (\<lambda>savedUser.
                bindE (saveWithValidation env (new_account penv (the (udo_id savedUser)) systemId)) (\<lambda>_.
                  retE savedUser)))"

section \<open>The strategies\<close>

definition sanis_getData :: "provisioning_env \<Rightarrow> OauthDataStrategyInputDto \<Rightarrow> OauthDataDto result" where
  "sanis_getData penv input =
     (if \<not> truthy (psy_provisioningUrl (odi_system input))
      then Inl (InternalServerErrorException
        (''Sanis system with id: '' @ psy_systemId (odi_system input) @ '' is missing a provisioning url''))
      else bindR (pve_sanis penv (the (psy_provisioningUrl (odi_system input))) (odi_accessToken input)) (\<lambda>response.
           bindR (mapToExternalUserDto response) (\<lambda>externalUser.
           bindR (mapToExternalSchoolDto response) (\<lambda>externalSchool.
             Inr \<lparr>odd_system = odi_system input, odd_externalUser = externalUser,
               odd_externalSchool = Some externalSchool\<rparr>))))"

text \<open>The other two strategies take the id of the user from a claim of the token.\<close>

definition claimed_user :: "string \<Rightarrow> ProvisioningSystemDto \<Rightarrow> OauthDataDto" where
  "claimed_user externalId system =
     \<lparr>odd_system = system, odd_externalUser = \<lparr>xud_externalId = externalId, xud_firstName = None, xud_lastName = None,
        xud_email = None, xud_roles = None\<rparr>, odd_externalSchool = None\<rparr>"

definition iserv_getData :: "provisioning_env \<Rightarrow> OauthDataStrategyInputDto \<Rightarrow> OauthDataDto result" where
  "iserv_getData penv input =
     (if \<not> truthy (claim penv (odi_idToken input) ''uuid'')
      then Inl (OAuthSSOError ''Failed to extract uuid'' ''sso_jwt_problem'')
      else Inr (claimed_user (the (claim penv (odi_idToken input) ''uuid'')) (odi_system input)))"

definition oidcMock_getData :: "provisioning_env \<Rightarrow> OauthDataStrategyInputDto \<Rightarrow> OauthDataDto result" where
  "oidcMock_getData penv input =
     (if \<not> truthy (claim penv (odi_idToken input) ''external_sub'')
      then Inl (OAuthSSOError ''Failed to extract external_sub'' ''sso_jwt_problem'')
      else Inr (claimed_user (the (claim penv (odi_idToken input) ''external_sub'')) (odi_system input)))"

text \<open>A \<^verbatim>\<open>ProvisioningDto\<close> is the external id of the user.\<close>

definition oidc_apply :: "people_env \<Rightarrow> provisioning_env \<Rightarrow> OauthDataDto \<Rightarrow> string people" where
  "oidc_apply env penv data =
     bindE (case odd_externalSchool data of
         None \<Rightarrow> retE None
       | Some x \<Rightarrow> bindE (provisionExternalSchool env x (psy_systemId (odd_system data))) (\<lambda>d. retE (sdo_id d))) (\<lambda>schoolId.
     bindE (provisionExternalUser env penv (odd_externalUser data) (psy_systemId (odd_system data)) schoolId) (\<lambda>d.
       retE (or_default (udo_externalId d) (xud_externalId (odd_externalUser data)))))"

section \<open>The service\<close>

definition mapToInternal :: "SystemDto \<Rightarrow> ProvisioningSystemDto" where
  "mapToInternal d =
     \<lparr>psy_systemId = or_default (syd_id d) [],
      psy_provisioningStrategy = (case syd_provisioningStrategy d of None \<Rightarrow> STRATEGY_UNDEFINED | Some x \<Rightarrow> x),
      psy_provisioningUrl = (if truthy (syd_provisioningUrl d) then syd_provisioningUrl d else None)\<rparr>"

definition provisioning_getData :: "people_env \<Rightarrow> provisioning_env \<Rightarrow> string \<Rightarrow> string \<Rightarrow> EntityId \<Rightarrow> OauthDataDto result" where
  "provisioning_getData env penv accessToken idToken systemId =
     bindR (system_findById (pe_now env) (pe_broker env) (pe_systems env) systemId) (\<lambda>d.
       let input = \<lparr>odi_accessToken = accessToken, odi_idToken = idToken, odi_system = mapToInternal d\<rparr>
       in case psy_provisioningStrategy (odi_system input) of
            STRATEGY_SANIS \<Rightarrow> sanis_getData penv input
          | STRATEGY_ISERV \<Rightarrow> iserv_getData penv input
          | STRATEGY_OIDC \<Rightarrow> oidcMock_getData penv input
          | STRATEGY_UNDEFINED \<Rightarrow> Inl (InternalServerErrorException ''Provisioning Strategy is not defined.''))"

definition provisionData :: "people_env \<Rightarrow> provisioning_env \<Rightarrow> OauthDataDto \<Rightarrow> string people" where
  "provisionData env penv data =
     (case psy_provisioningStrategy (odd_system data) of
        STRATEGY_SANIS \<Rightarrow> oidc_apply env penv data
      | STRATEGY_ISERV \<Rightarrow> retE (xud_externalId (odd_externalUser data))
      | STRATEGY_OIDC \<Rightarrow> retE (xud_externalId (odd_externalUser data))
      | STRATEGY_UNDEFINED \<Rightarrow> throwE (InternalServerErrorException ''Provisioning Strategy is not defined.''))"

end
