(* ===== verification/OauthLogin.thy ===== *)
theory OauthLogin
  imports Provisioning
begin

text \<open>
  The login through another system (\<^verbatim>\<open>modules/oauth\<close>): the exchange of an authorization code for
  tokens, the check of the token, the redirects, the migration, and the handlers of the controller.
  The requests to the token endpoint, the check of signatures, the decryption of secrets and the list
  of valid tokens are parameters.
\<close>

section \<open>Parameters and data\<close>

record TokenRequestPayload =
  trp_tokenEndpoint :: string
  trp_client_id :: string
  trp_client_secret :: string
  trp_redirect_uri :: string
  trp_grant_type :: string
  trp_code :: string

record OauthTokenResponse =
  otr_access_token :: string
  otr_refresh_token :: string
  otr_id_token :: string

text \<open>\<^verbatim>\<open>jwt.verify\<close> with the key of the system, its issuer and its client id as the audience.\<close>

record oauth_env =
  oae_provisioning :: provisioning_env
  oae_decrypt :: "string \<Rightarrow> string"
  oae_sendTokenRequest :: "TokenRequestPayload \<Rightarrow> OauthTokenResponse option"
  oae_getPublicKey :: "OauthConfig \<Rightarrow> string result"
  oae_verify :: "string \<Rightarrow> string \<Rightarrow> string \<Rightarrow> string \<Rightarrow> unit result"
  oae_generateJwt :: "ICurrentUser \<Rightarrow> string result"
  oae_removeJwt :: "string \<Rightarrow> unit result"

section \<open>The service\<close>

definition createErrorRedirect :: "people_env \<Rightarrow> string \<Rightarrow> string" where
  "createErrorRedirect env errorCode = pe_url env ''/login'' (pe_HOST env) [(''error'', errorCode)]"

definition extractOauthConfigFromSystem :: "SystemDto \<Rightarrow> OauthConfig result" where
  "extractOauthConfigFromSystem d =
     (case syd_oauthConfig d of
        None \<Rightarrow> Inl (UnauthorizedException ''Requested system has no oauth configured'')
      | Some c \<Rightarrow> Inr c)"

definition createTokenRequestPayload :: "OauthConfig \<Rightarrow> string \<Rightarrow> string \<Rightarrow> string option \<Rightarrow> TokenRequestPayload" where
  "createTokenRequestPayload c decryptedClientSecret code migrationRedirect =
     \<lparr>trp_tokenEndpoint = oac_tokenEndpoint c, trp_client_id = oac_clientId c,
      trp_client_secret = decryptedClientSecret, trp_redirect_uri = or_default migrationRedirect (oac_redirectUri c),
      trp_grant_type = oac_grantType c, trp_code = code\<rparr>"

definition requestToken :: "oauth_env \<Rightarrow> string \<Rightarrow> OauthConfig \<Rightarrow> string option \<Rightarrow> OauthTokenResponse result" where
  "requestToken oenv code c migrationRedirect =
     (case oae_sendTokenRequest oenv (createTokenRequestPayload c (oae_decrypt oenv (oac_clientSecret c)) code migrationRedirect) of
        None \<Rightarrow> Inl (OAuthSSOError ''Requesting token failed.'' ''sso_auth_code_step'')
      | Some r \<Rightarrow> Inr r)"

definition validateToken :: "oauth_env \<Rightarrow> string \<Rightarrow> OauthConfig \<Rightarrow> unit result" where
  "validateToken oenv idToken c =
     bindR (oae_getPublicKey oenv c) (\<lambda>publicKey. oae_verify oenv idToken publicKey (oac_issuer c) (oac_clientId c))"

definition getAdditionalErrorInfo :: "people_env \<Rightarrow> string option \<Rightarrow> string people" where
  "getAdditionalErrorInfo env email =
     (if truthy email
      then bindE (user_findByEmail env (the email)) (\<lambda>usersWithEmail.
        retE (case usersWithEmail of
          [] \<Rightarrow> '' [schoolId: , currentLdapId: ]''
        | u # _ \<Rightarrow> '' [schoolId: '' @ eid (usr_school u) @ '', currentLdapId: '' @ nullish (usr_externalId u) [] @ '']''))
      else retE [])"

definition findUser :: "people_env \<Rightarrow> oauth_env \<Rightarrow> string \<Rightarrow> string \<Rightarrow> EntityId \<Rightarrow> UserDO people" where
  "findUser env oenv idToken externalUserId systemId =
     (if \<not> truthy (claim (oae_provisioning oenv) idToken ''sub'')
      then throwE (BadRequestException (''Provided idToken: '' @ idToken @ '' has no sub.''))
      else bindE (userDO_findByExternalId env externalUserId systemId) (\<lambda>u.
        case u of
          Some d \<Rightarrow> retE d
        | None \<Rightarrow> bindE (getAdditionalErrorInfo env (claim (oae_provisioning oenv) idToken ''email'')) (\<lambda>info.
            throwE (OAuthSSOError (''Failed to find user with Id '' @ externalUserId @ '' '' @ info) ''sso_user_notfound''))))"

definition getPostLoginRedirectUrl :: "people_env \<Rightarrow> string \<Rightarrow> string \<Rightarrow> string \<Rightarrow> string option \<Rightarrow> string" where
  "getPostLoginRedirectUrl env provider idToken logoutEndpoint postLoginRedirect =
     (let dashboardUrl = pe_url env ''/dashboard'' (pe_HOST env) []
      in if provider = ''iserv''
         then pe_url env [] logoutEndpoint [(''id_token_hint'', idToken),
                (''post_logout_redirect_uri'', or_default postLoginRedirect dashboardUrl)]
         else or_default postLoginRedirect dashboardUrl)"

definition getAuthenticationUrl :: "people_env \<Rightarrow> string \<Rightarrow> OauthConfig \<Rightarrow> string \<Rightarrow> bool \<Rightarrow> string option \<Rightarrow> string" where
  "getAuthenticationUrl env ty c state migration alias =
     pe_url env [] (oac_authEndpoint c)
       ([(''client_id'', oac_clientId c),
         (''redirect_uri'', pe_url env (if migration then ''api/v3/sso/oauth/migration'' else ''api/v3/sso/oauth'')
            (pe_PUBLIC_BACKEND_URL env) []),
         (''response_type'', oac_responseType c), (''scope'', oac_scope c), (''state'', state)] @
        (if truthy alias \<and> ty = ''oidc'' then [(''kc_idp_hint'', the alias)] else []))"

definition shouldUserMigrate :: "people_env \<Rightarrow> string \<Rightarrow> string \<Rightarrow> EntityId \<Rightarrow> bool people" where
  "shouldUserMigrate env externalUserId officialSchoolNumber systemId =
     bindE (userDO_findByExternalId env externalUserId systemId) (\<lambda>existingUser.
     bindE (isSchoolInMigration env officialSchoolNumber) (\<lambda>inMigration.
       retE (existingUser = None \<and> inMigration)))"

text \<open>What a code was exchanged for: the system with its configuration, and tokens that were checked.\<close>

definition load_system :: "people_env \<Rightarrow> EntityId \<Rightarrow> SystemDto result" where
  "load_system env systemId = system_findById (pe_now env) (pe_broker env) (pe_systems env) systemId"

definition redirect_to_migration ::
  "people_env \<Rightarrow> OauthDataDto \<Rightarrow> EntityId \<Rightarrow> string option people" where
  "redirect_to_migration env data systemId =
     (case Option.bind (odd_externalSchool data) xsd_officialSchoolNumber of
        None \<Rightarrow> retE None
      | Some n \<Rightarrow>
          if n = [] then retE None
          else bindE (shouldUserMigrate env (xud_externalId (odd_externalUser data)) n systemId) (\<lambda>should.
                 if should then bindE (getMigrationRedirect env n systemId) (\<lambda>r. retE (Some r)) else retE None))"

definition authenticateUser ::
  "people_env \<Rightarrow> oauth_env \<Rightarrow> EntityId \<Rightarrow> string option \<Rightarrow> string option \<Rightarrow> string option \<Rightarrow> (UserDO option \<times> string) people" where
  "authenticateUser env oenv systemId authCode errorCode postLoginRedirect =
     (if truthy errorCode then retE (None, createErrorRedirect env (the errorCode))
      else if \<not> truthy authCode
      then throwE (OAuthSSOError ''Authorization Query Object has no authorization code or error''
             (or_default errorCode ''sso_auth_code_step''))
      else bindE (liftE (load_system env systemId)) (\<lambda>system.
        if \<not> truthy (syd_id system)
        then throwE (UnauthorizedException (''System with id \"'' @ systemId @ ''\" does not exist.''))
        else bindE (liftE (extractOauthConfigFromSystem system)) (\<lambda>c.
             bindE (liftE (requestToken oenv (the authCode) c None)) (\<lambda>queryToken.
             bindE (liftE (validateToken oenv (otr_id_token queryToken) c)) (\<lambda>_.
             bindE (liftE (provisioning_getData env (oae_provisioning oenv) (otr_access_token queryToken)
                      (otr_id_token queryToken) (the (syd_id system)))) (\<lambda>data.
             bindE (redirect_to_migration env data (the (syd_id system))) (\<lambda>migrationRedirect.
               case migrationRedirect of
                 Some r \<Rightarrow> retE (None, r)
               | None \<Rightarrow>
                   let redirect = getPostLoginRedirectUrl env (oac_provider c) (otr_id_token queryToken)
                         (oac_logoutEndpoint c) postLoginRedirect
                   in bindE (provisionData env (oae_provisioning oenv) data) (\<lambda>externalUserId.
                      bindE (findUser env oenv (otr_id_token queryToken) externalUserId (the (syd_id system))) (\<lambda>u.
                        retE (Some u, redirect))))))))))"

record AuthorizationParams =
  aup_code :: "string option"
  aup_error :: "string option"
  aup_state :: string

definition checkAuthorizationCode :: "AuthorizationParams \<Rightarrow> string result" where
  "checkAuthorizationCode query =
     (if truthy (aup_code query) then Inr (the (aup_code query))
      else Inl (OAuthSSOError ''Authorization Query Object has no authorization code or error''
             (or_default (aup_error query) ''sso_auth_code_step'')))"

definition authorizeForMigration ::
  "people_env \<Rightarrow> oauth_env \<Rightarrow> AuthorizationParams \<Rightarrow> EntityId \<Rightarrow> OauthTokenResponse result" where
  "authorizeForMigration env oenv query targetSystemId =
     bindR (checkAuthorizationCode query) (\<lambda>authCode.
     bindR (load_system env targetSystemId) (\<lambda>system.
       if \<not> truthy (syd_id system)
       then Inl (NotFoundException (''System with id \"'' @ targetSystemId @ ''\" does not exist.''))
       else bindR (extractOauthConfigFromSystem system) (\<lambda>c.
            bindR (requestToken oenv authCode c (Some (getMigrationRedirectUri env))) (\<lambda>queryToken.
            bindR (validateToken oenv (otr_id_token queryToken) c) (\<lambda>_. Inr queryToken)))))"

section \<open>The use cases\<close>

record OauthLoginStateDto =
  ols_state :: string
  ols_systemId :: EntityId
  ols_provider :: string
  ols_postLoginRedirect :: "string option"

text \<open>The state in the session, and the address to go to; \<open>state\<close> is what \<^verbatim>\<open>nanoid\<close> made.\<close>

definition startOauthLogin ::
  "people_env \<Rightarrow> string \<Rightarrow> EntityId \<Rightarrow> bool \<Rightarrow> string option \<Rightarrow> (OauthLoginStateDto \<times> string) result" where
  "startOauthLogin env state systemId migration postLoginRedirect =
     bindR (load_system env systemId) (\<lambda>system.
       case syd_oauthConfig system of
         None \<Rightarrow> Inl (UnprocessableEntityException (''Requested system '' @ systemId @ '' has no oauth configured''))
       | Some c \<Rightarrow> Inr (\<lparr>ols_state = state, ols_systemId = systemId, ols_provider = oac_provider c,
           ols_postLoginRedirect = postLoginRedirect\<rparr>,
           getAuthenticationUrl env (syd_type system) c state migration (syd_alias system)))"

record OAuthProcessDto =
  opd_jwt :: "string option"
  opd_redirect :: string

definition getJwtForUser :: "people_env \<Rightarrow> oauth_env \<Rightarrow> EntityId \<Rightarrow> string people" where
  "getJwtForUser env oenv userId =
     bindE (getResolvedUser env userId) (\<lambda>currentUser. liftE (oae_generateJwt oenv currentUser))"

definition processOAuthLogin ::
  "people_env \<Rightarrow> oauth_env \<Rightarrow> OauthLoginStateDto \<Rightarrow> string option \<Rightarrow> string option \<Rightarrow> OAuthProcessDto people" where
  "processOAuthLogin env oenv cachedState code error =
     bindE (authenticateUser env oenv (ols_systemId cachedState) code error (ols_postLoginRedirect cachedState)) (\<lambda>(u, redirect).
     bindE (case Option.bind u udo_id of
         None \<Rightarrow> retE None
       | Some i \<Rightarrow> if i = [] then retE None else bindE (getJwtForUser env oenv i) (\<lambda>jwt. retE (Some jwt))) (\<lambda>jwt.
       retE \<lparr>opd_jwt = jwt, opd_redirect = redirect\<rparr>))"

definition oauth_migrate ::
  "people_env \<Rightarrow> oauth_env \<Rightarrow> string \<Rightarrow> EntityId \<Rightarrow> AuthorizationParams \<Rightarrow> OauthLoginStateDto \<Rightarrow> string people" where
  "oauth_migrate env oenv userJwt currentUserId query cachedState =
     (if ols_state cachedState \<noteq> aup_state query
      then throwE (UnauthorizedException (''Invalid state. Got: '' @ aup_state query @ '' Expected: '' @ ols_state cachedState))
      else bindE (liftE (authorizeForMigration env oenv query (ols_systemId cachedState))) (\<lambda>queryToken.
           bindE (liftE (provisioning_getData env (oae_provisioning oenv) (otr_access_token queryToken)
                    (otr_id_token queryToken) (ols_systemId cachedState))) (\<lambda>data.
           bindE (case odd_externalSchool data of
               None \<Rightarrow> retE ()
             | Some x \<Rightarrow>
                 bindE (schoolToMigrate env currentUserId (xsd_externalId x) (xsd_officialSchoolNumber x)) (\<lambda>school.
                   case school of None \<Rightarrow> retE ()
                   | Some d \<Rightarrow> migrateSchool env (xsd_externalId x) d (ols_systemId cachedState))) (\<lambda>_.
           bindE (migrateUser env currentUserId (xud_externalId (odd_externalUser data)) (ols_systemId cachedState)) (\<lambda>migrationDto.
           bindE (liftE (oae_removeJwt oenv userJwt)) (\<lambda>_. retE migrationDto))))))"

section \<open>The controller\<close>

definition sessionHandler :: "OauthLoginStateDto option \<Rightarrow> AuthorizationParams \<Rightarrow> OauthLoginStateDto result" where
  "sessionHandler session query =
     (case session of
        None \<Rightarrow> Inl (UnauthorizedException ''Oauth session not found'')
      | Some st \<Rightarrow>
          if ols_state st \<noteq> aup_state query
          then Inl (UnauthorizedException (''Invalid state. Got: '' @ aup_state query @ '' Expected: '' @ ols_state st))
          else Inr st)"

text \<open>Errors lead to the page of the login, with the code of the error when it is one of the login.\<close>

definition errorHandler :: "people_env \<Rightarrow> exn \<Rightarrow> string" where
  "errorHandler env e =
     createErrorRedirect env (case e of
        OAuthSSOError _ code \<Rightarrow> if code = [] then ''sso_login_failed'' else code
      | OAuthMigrationError _ code \<Rightarrow> if code = [] then ''OauthMigrationFailed'' else code
      | _ \<Rightarrow> ''sso_login_failed'')"

text \<open>The answer: a cookie, when there is one, with its expiry, and the address to go to.\<close>

definition startOauthAuthorizationCodeFlow ::
  "people_env \<Rightarrow> oauth_env \<Rightarrow> int \<Rightarrow> OauthLoginStateDto option \<Rightarrow> AuthorizationParams \<Rightarrow> ((string \<times> date) option \<times> string) people" where
  "startOauthAuthorizationCodeFlow env oenv COOKIE_EXPIRES_SECONDS session query =
     bindE (liftE (sessionHandler session query)) (\<lambda>oauthLoginState.
       catchE
         (bindE (processOAuthLogin env oenv oauthLoginState (aup_code query) (aup_error query)) (\<lambda>d.
            retE ((if truthy (opd_jwt d) then Some (the (opd_jwt d), pe_now env + COOKIE_EXPIRES_SECONDS) else None),
                  opd_redirect d)))
         (\<lambda>e. retE (None, errorHandler env e)))"

definition controller_migrateUser ::
  "people_env \<Rightarrow> oauth_env \<Rightarrow> string \<Rightarrow> OauthLoginStateDto option \<Rightarrow> EntityId \<Rightarrow> AuthorizationParams \<Rightarrow> string people" where
  "controller_migrateUser env oenv jwt session currentUserId query =
     bindE (liftE (sessionHandler session query)) (\<lambda>oauthLoginState.
       catchE (oauth_migrate env oenv jwt currentUserId query oauthLoginState) (\<lambda>e. retE (errorHandler env e)))"

end
