(* ===== verification/PeopleFacts.thy ===== *)
theory PeopleFacts
  imports AccountProperties UserImport OauthLogin
begin

text \<open>
  What the repositories of users and schools store, and what they leave alone: facts shared by the
  properties of the login, the migration and the import.
\<close>

section \<open>Several rows at once\<close>

definition replace_row :: "'x entity_scheme \<Rightarrow> 'x entity_scheme list \<Rightarrow> 'x entity_scheme list" where
  "replace_row e t = map (\<lambda>row. if eid row = eid e then e else row) t"

definition stamped :: "date \<Rightarrow> 'x timestamped_scheme \<Rightarrow> 'x timestamped_scheme \<Rightarrow> bool" where
  "stamped now e e' \<longleftrightarrow> e' = e \<or> e' = e\<lparr>ent_updatedAt := now\<rparr>"

lemma stamped_eid: "stamped now e e' \<Longrightarrow> eid e' = eid e"
  by (cases e) (auto simp: stamped_def)

lemma persist_rows_known:
  "list_all (\<lambda>e. eid e \<noteq> []) es \<Longrightarrow>
   \<exists>es'. persist_rows now newId t es = (es', fold replace_row es' t) \<and> list_all2 (stamped now) es es'"
proof (induction es arbitrary: t)
  case (Cons e es)
  obtain e' where e': "persist_row now newId t e = (e', replace_row e' t)" "stamped now e e'"
    using persist_known [of e now newId t] Cons.prems by (auto simp: replace_row_def stamped_def)
  obtain es' where "persist_rows now newId (replace_row e' t) es = (es', fold replace_row es' (replace_row e' t))"
    "list_all2 (stamped now) es es'" using Cons by auto
  with e' show ?case by (intro exI [of _ "e' # es'"]) simp
qed simp

lemma replace_row_ids [simp]: "map eid (replace_row e t) = map eid t"
  by (simp add: replace_row_def)

lemma fold_replace_ids [simp]: "map eid (fold replace_row es t) = map eid t"
  by (induction es arbitrary: t) simp_all

lemma find_replace_row:
  "find_row (replace_row e t) i = (if i = eid e \<and> find_row t i \<noteq> None then Some e else find_row t i)"
  unfolding find_row_def replace_row_def by (induction t) auto

lemma find_fold_replace:
  "find_row (fold replace_row es t) i =
     (if find_row t i = None then None else
      case List.find (\<lambda>e. eid e = i) (rev es) of None \<Rightarrow> find_row t i | Some e \<Rightarrow> Some e)"
proof (induction es arbitrary: t)
  case (Cons e es)
  have append: "List.find P (xs @ [x]) = (case List.find P xs of None \<Rightarrow> if P x then Some x else None | r \<Rightarrow> r)" for P xs and x :: 'b
    by (induction xs) auto
  show ?case by (auto simp: Cons find_replace_row append split: option.split)
qed simp

lemma found_in_fold:
  assumes "e \<in> set es" and "distinct (map eid es)" and "find_row t (eid e) \<noteq> None"
  shows "find_row (fold replace_row es t) (eid e) = Some e"
proof -
  have "List.find (\<lambda>x. eid x = eid e) (rev es) = Some e"
    using assms(1,2) by (induction es rule: rev_induct) (auto simp: image_iff)
  with assms(3) show ?thesis by (simp add: find_fold_replace)
qed

lemma not_in_fold: "i \<notin> eid ` set es \<Longrightarrow> find_row (fold replace_row es t) i = find_row t i"
proof -
  assume "i \<notin> eid ` set es"
  then have "List.find (\<lambda>x. eid x = i) (rev es) = None" by (auto simp: find_None_iff)
  then show ?thesis by (simp add: find_fold_replace)
qed

section \<open>Users as domain objects\<close>

text \<open>The entity that is saved for a domain object.\<close>

definition entity_of :: "UserDO \<Rightarrow> user \<Rightarrow> bool" where
  "entity_of d e \<longleftrightarrow>
     eid e = the (udo_id d) \<and> usr_outdatedSince e = udo_outdatedSince d \<and> usr_externalId e = udo_externalId d \<and>
     usr_previousExternalId e = udo_previousExternalId d \<and> usr_lastLoginSystemChange e = udo_lastLoginSystemChange d \<and>
     eid (usr_school e) = udo_schoolId d \<and> usr_deletedAt e = None"

lemma with_eid_user [simp]:
  "eid ((u::user)\<lparr>eid := i\<rparr>) = i" "usr_outdatedSince (u\<lparr>eid := i\<rparr>) = usr_outdatedSince u"
  "usr_externalId (u\<lparr>eid := i\<rparr>) = usr_externalId u"
  by (cases u; simp)+

lemma school_reference_id [simp]: "eid (school_reference i) = i"
  by (simp add: school_reference_def new_School_def)

lemma user_entity_known:
  assumes "user_entity env d s = (Inr e, s')" and "truthy (udo_id d)"
  shows "entity_of d e \<and> pst_users s' = pst_users s \<and> the (udo_id d) \<in> eid ` set (pst_users s)"
proof -
  from assms obtain old where old: "find_row (pst_users s) (the (udo_id d)) = Some old"
    and e: "e = assign_user old (new_User (pe_now env) (pst_fresh s) (user_mapDOToEntityProperties env d))"
    and s': "s' = s\<lparr>pst_fresh := Suc (pst_fresh s)\<rparr>"
    by (auto simp: user_entity_def bindE_eq_Inr fresh_ref_def Let_def queryE_def row_or_fail_def split: option.splits)
  have "the (udo_id d) \<in> eid ` set (pst_users s)" using row_found [OF old] by (metis image_eqI)
  moreover have "entity_of d e" using row_found [OF old]
    by (simp add: e entity_of_def assign_user_def new_User_def user_mapDOToEntityProperties_def)
  ultimately show ?thesis by (simp add: s')
qed

lemma user_entities_known:
  assumes "mapME (user_entity env) ds s = (Inr es, s')" and "list_all (\<lambda>d. truthy (udo_id d)) ds"
  shows "list_all2 entity_of ds es \<and> pst_users s' = pst_users s"
  using assms
proof (induction ds arbitrary: es s)
  case Nil
  then show ?case by (simp add: retE_def)
next
  case (Cons d ds)
  from Cons.prems obtain e s1 es' where e: "user_entity env d s = (Inr e, s1)" "mapME (user_entity env) ds s1 = (Inr es', s')"
    "es = e # es'" by (auto simp: bindE_eq_Inr retE_def)
  show ?case using user_entity_known [OF e(1)] Cons.IH [OF e(2)] Cons.prems(2) e(3) by simp
qed

lemma saveAll_known:
  assumes "user_saveAll env ds s = (Inr ds', s')" and "list_all (\<lambda>d. truthy (udo_id d)) ds"
  shows "\<exists>es es'. list_all2 entity_of ds es \<and> list_all2 (stamped (pe_now env)) es es' \<and>
    pst_users s' = fold replace_row es' (pst_users s) \<and> ds' = map (user_mapEntityToDO env) es'"
proof -
  from assms(1) obtain es s1 where es: "mapME (user_entity env) ds s = (Inr es, s1)" and
    w: "db_write env (\<lambda>s. let (es', t) = persist_rows (pe_now env) (pe_newId env) (pst_users s) es
          in (Inr (map (user_mapEntityToDO env) es'), s\<lparr>pst_users := t\<rparr>)) s1 = (Inr ds', s')"
    unfolding user_saveAll_def bindE_eq_Inr by blast
  note known = user_entities_known [OF es assms(2)]
  have "list_all (\<lambda>e. eid e \<noteq> []) es"
    using known assms(2) unfolding list_all2_conv_all_nth list_all_length entity_of_def
    by (auto simp: truthy_def split: option.splits)
  from persist_rows_known [OF this, of "pe_now env" "pe_newId env" "pst_users s"] obtain es' where
    es': "persist_rows (pe_now env) (pe_newId env) (pst_users s) es = (es', fold replace_row es' (pst_users s))"
      "list_all2 (stamped (pe_now env)) es es'" by blast
  have "pst_users s' = fold replace_row es' (pst_users s) \<and> ds' = map (user_mapEntityToDO env) es'"
    using w es'(1) known by (auto simp: db_write_def Let_def split: option.splits)
  with known es'(2) show ?thesis by blast
qed

end
