(* ===== verification/MigrationProperties.thy ===== *)
theory MigrationProperties
  imports PeopleFacts
begin

text \<open>
  The migration of the users of a school to another login: who is marked when it ends, and what is
  left of a user whose migration fails.
\<close>

section \<open>Schools in the table\<close>

lemma found_school: "school_repo_findById env i s = (Inr d, s') \<longleftrightarrow>
    s' = s \<and> (\<exists>e. find_row (pst_schools s) i = Some e \<and> d = school_mapEntityToDO env e)"
  by (auto simp: school_repo_findById_def queryE_def row_or_fail_def split: option.splits)

lemma school_mapEntityToDO_sel [simp]:
  "sdo_id (school_mapEntityToDO env e) = Some (eid e)"
  "sdo_oauthMigrationPossible (school_mapEntityToDO env e) = sch_oauthMigrationPossible e"
  "sdo_oauthMigrationFinished (school_mapEntityToDO env e) = sch_oauthMigrationFinished e"
  "sdo_inMaintenanceSince (school_mapEntityToDO env e) = sch_inMaintenanceSince e"
  "sdo_inUserMigration (school_mapEntityToDO env e) = sch_inUserMigration e"
  "sdo_externalId (school_mapEntityToDO env e) = sch_externalId e"
  "sdo_officialSchoolNumber (school_mapEntityToDO env e) = sch_officialSchoolNumber e"
  by (simp_all add: school_mapEntityToDO_def new_SchoolDO_def)

lemma assign_school_sel [simp]:
  "eid (assign_school old e) = eid old"
  "sch_oauthMigrationPossible (assign_school old e) = sch_oauthMigrationPossible e"
  "sch_oauthMigrationFinished (assign_school old e) = sch_oauthMigrationFinished e"
  "sch_inUserMigration (assign_school old e) = sch_inUserMigration e"
  "sch_inMaintenanceSince (assign_school old e) = kept_when_absent (sch_inMaintenanceSince old) (sch_inMaintenanceSince e)"
  "sch_externalId (assign_school old e) = kept_when_absent (sch_externalId old) (sch_externalId e)"
  by (simp_all add: assign_school_def)

lemma new_School_sel [simp]:
  "sch_oauthMigrationPossible (new_School r (school_mapDOToEntityProperties env d)) = sdo_oauthMigrationPossible d"
  "sch_oauthMigrationFinished (new_School r (school_mapDOToEntityProperties env d)) = sdo_oauthMigrationFinished d"
  "sch_inUserMigration (new_School r (school_mapDOToEntityProperties env d)) = sdo_inUserMigration d"
  "sch_inMaintenanceSince (new_School r (school_mapDOToEntityProperties env d)) = sdo_inMaintenanceSince d"
  "sch_externalId (new_School r (school_mapDOToEntityProperties env d)) = if_truthy (sdo_externalId d)"
  by (simp_all add: new_School_def school_mapDOToEntityProperties_def)

text \<open>Saving a school that is there replaces its row and leaves the other tables.\<close>

lemma school_save_known:
  assumes run: "school_repo_save env d s = (Inr d', s')" and known: "truthy (sdo_id d)"
  shows "\<exists>old. find_row (pst_schools s) (the (sdo_id d)) = Some old \<and>
    pst_schools s' = replace_row (assign_school old (new_School (pst_fresh s) (school_mapDOToEntityProperties env d))) (pst_schools s) \<and>
    pst_users s' = pst_users s \<and> pst_accounts s' = pst_accounts s \<and> pst_importUsers s' = pst_importUsers s"
proof -
  from run known obtain old where old: "find_row (pst_schools s) (the (sdo_id d)) = Some old"
    by (auto simp: school_repo_save_def bindE_eq_Inr fresh_ref_def Let_def queryE_def row_or_fail_def split: option.splits)
  moreover have "pst_schools s' = replace_row (assign_school old (new_School (pst_fresh s) (school_mapDOToEntityProperties env d))) (pst_schools s) \<and>
    pst_users s' = pst_users s \<and> pst_accounts s' = pst_accounts s \<and> pst_importUsers s' = pst_importUsers s"
    using run known old
    by (auto simp: school_repo_save_def bindE_eq_Inr fresh_ref_def Let_def queryE_def row_or_fail_def db_write_def
        replace_row_def split: option.splits)
  ultimately show ?thesis by blast
qed

section \<open>Who is marked at the end of a migration\<close>

lemma setMigration_school:
  assumes run: "service_setMigration env i (Some p) (Some m) (Some f) s = (Inr dto, s')" and id: "i \<noteq> []"
  shows "pst_users s' = pst_users s \<and> (\<exists>e. find_row (pst_schools s') i = Some e \<and>
    sch_oauthMigrationPossible e = (if p then Some (pe_now env) else None) \<and>
    sch_oauthMigrationFinished e = (if f then Some (pe_now env) else None))"
proof -
  from run obtain d d2 where d: "school_repo_findById env i s = (Inr d, s)"
    and saved: "school_repo_save env (d\<lparr>sdo_oauthMigrationPossible := if p then Some (pe_now env) else None,
      sdo_oauthMigrationMandatory := if m then Some (pe_now env) else None,
      sdo_oauthMigrationFinished := if f then Some (pe_now env) else None\<rparr>) s = (Inr d2, s')"
    by (auto simp: service_setMigration_def bindE_eq_Inr Let_def found_school flagged_def retE_def)
  from d obtain old where old: "find_row (pst_schools s) i = Some old" and eq: "d = school_mapEntityToDO env old"
    by (auto simp: found_school)
  have i: "eid old = i" using row_found [OF old] by simp
  from school_save_known [OF saved] show ?thesis
    by (auto simp: eq i id old truthy_def find_replace_row)
qed

text \<open>The query that selects the users to be marked.\<close>

definition selected :: "EntityId \<Rightarrow> date option \<Rightarrow> user \<Rightarrow> bool" where
  "selected i since u \<longleftrightarrow> eid (usr_school u) = i \<and> usr_outdatedSince u = None \<and>
     (case since of None \<Rightarrow> True | Some t \<Rightarrow> (case usr_lastLoginSystemChange u of None \<Rightarrow> False | Some x \<Rightarrow> t \<le> x))"

lemma selecting_scope:
  "scope_query (user_scope \<lparr>uq_schoolId = Some i, uq_outdatedSince = None, uq_isOutdated = Some False,
     uq_lastLoginSystemChangeGreaterThan = since\<rparr>) = selected i since"
  by (rule ext) (simp add: user_scope_def scope_query_def addQuery_def allowEmptyQuery_def new_Scope_def user_isOutdated_def
      whereLastLoginSystemChangeGreaterThan_def withOutdatedSince_def user_bySchoolId_def selected_def split: option.split)

lemma user_mapEntityToDO_sel [simp]:
  "udo_id (user_mapEntityToDO env u) = Some (eid u)" "udo_externalId (user_mapEntityToDO env u) = usr_externalId u"
  "udo_previousExternalId (user_mapEntityToDO env u) = usr_previousExternalId u"
  "udo_lastLoginSystemChange (user_mapEntityToDO env u) = usr_lastLoginSystemChange u"
  "udo_outdatedSince (user_mapEntityToDO env u) = usr_outdatedSince u"
  "udo_schoolId (user_mapEntityToDO env u) = eid (usr_school u)"
  by (simp_all add: user_mapEntityToDO_def)

lemma entity_of_stamped: "entity_of d e \<Longrightarrow> stamped now e e' \<Longrightarrow> entity_of d e'"
  by (cases e) (auto simp: stamped_def entity_of_def)

text \<open>Saving users that are there: each row is the saved one, the others stay.\<close>

lemma saveAll_rows:
  assumes run: "user_saveAll env ds s = (Inr ds', s')" and ids: "list_all (\<lambda>d. truthy (udo_id d)) ds"
    and distinct: "distinct (map udo_id ds)"
  shows saveAll_row: "d \<in> set ds \<Longrightarrow> find_row (pst_users s) (the (udo_id d)) \<noteq> None \<Longrightarrow>
      \<exists>u'. find_row (pst_users s') (the (udo_id d)) = Some u' \<and> entity_of d u'"
    and saveAll_others: "Some i \<notin> udo_id ` set ds \<Longrightarrow> find_row (pst_users s') i = find_row (pst_users s) i"
proof -
  obtain es es' where es: "list_all2 entity_of ds es" "list_all2 (stamped (pe_now env)) es es'"
    and s': "pst_users s' = fold replace_row es' (pst_users s)"
    using saveAll_known [OF run ids] by blast
  have len: "length es = length ds" "length es' = length ds"
    using list_all2_lengthD [OF es(1)] list_all2_lengthD [OF es(2)] by simp_all
  have entry: "entity_of (ds ! k) (es' ! k)" if "k < length ds" for k
    using that es len by (auto simp: list_all2_conv_all_nth intro: entity_of_stamped)
  have some: "udo_id d = Some (the (udo_id d))" if "d \<in> set ds" for d
    using that ids by (auto simp: list_all_iff truthy_def split: option.splits)
  have keys: "map eid es' = map (\<lambda>d. the (udo_id d)) ds"
    using entry len by (intro nth_equalityI) (simp_all add: entity_of_def)
  have dist: "distinct (map eid es')"
    unfolding keys using distinct some by (auto simp: distinct_map inj_on_def) (metis)
  show "\<exists>u'. find_row (pst_users s') (the (udo_id d)) = Some u' \<and> entity_of d u'"
    if d: "d \<in> set ds" "find_row (pst_users s) (the (udo_id d)) \<noteq> None"
  proof -
    obtain k where k: "k < length ds" "ds ! k = d" using d by (auto simp: in_set_conv_nth)
    have "es' ! k \<in> set es'" using k len by simp
    from found_in_fold [OF this dist] show ?thesis using entry [OF k(1)] k d s' by (auto simp: entity_of_def)
  qed
  show "find_row (pst_users s') i = find_row (pst_users s) i" if i: "Some i \<notin> udo_id ` set ds"
  proof -
    have "i \<notin> set (map eid es')" unfolding keys using i some by (auto simp: image_iff)
    then show ?thesis unfolding s' by (intro not_in_fold) simp
  qed
qed

lemma completeMigration_marks:
  assumes run: "completeMigration env i s = (Inr (), s')" and ids: "list_all (\<lambda>u. eid u \<noteq> []) (pst_users s)"
    and distinct: "distinct (map eid (pst_users s))" and row: "find_row (pst_users s) k = Some u"
    and school: "find_row (pst_schools s) i = Some e"
  shows "\<exists>u'. find_row (pst_users s') k = Some u' \<and> usr_outdatedSince u' =
    (if selected i (sch_oauthMigrationPossible e) u then sch_oauthMigrationFinished e else usr_outdatedSince u)"
proof -
  let ?mark = "\<lambda>u. (user_mapEntityToDO env u)\<lparr>udo_outdatedSince := sch_oauthMigrationFinished e\<rparr>"
  let ?rows = "sort_key eid (filter (selected i (sch_oauthMigrationPossible e)) (pst_users s))"
  from run school obtain ds' where saved: "user_saveAll env (map ?mark ?rows) s = (Inr ds', s')"
    by (auto simp: completeMigration_def bindE_eq_Inr found_school findUsers_def userDO_find_def queryE_def
        selecting_scope Let_def page_of_def nullish_def o_def retE_def)
  have known: "list_all (\<lambda>d. truthy (udo_id d)) (map ?mark ?rows)"
    using ids by (auto simp: list_all_iff truthy_def)
  have "mset (map eid ?rows) = mset (map eid (filter (selected i (sch_oauthMigrationPossible e)) (pst_users s)))"
    by (simp add: mset_map)
  then have "distinct (map eid ?rows)"
    using distinct by (metis distinct_map_filter mset_eq_imp_distinct_iff)
  then have dist: "distinct (map udo_id (map ?mark ?rows))"
    by (auto simp: distinct_map inj_on_def o_def)
  note rows = saveAll_rows [OF saved known dist]
  have u: "u \<in> set (pst_users s)" "eid u = k" using row_found [OF row] by auto
  show ?thesis
  proof (cases "selected i (sch_oauthMigrationPossible e) u")
    case True
    then have "?mark u \<in> set (map ?mark ?rows)" using u by simp
    from rows(1) [OF this] show ?thesis using True row u by (auto simp: entity_of_def)
  next
    case False
    have "Some k \<notin> udo_id ` set (map ?mark ?rows)"
    proof
      assume "Some k \<in> udo_id ` set (map ?mark ?rows)"
      then obtain v where v: "v \<in> set (pst_users s)" "selected i (sch_oauthMigrationPossible e) v" "eid v = k" by auto
      then have "v = u" using u distinct by (auto simp: distinct_map inj_on_def)
      with v False show False by simp
    qed
    from rows(2) [OF this] show ?thesis using False row by simp
  qed
qed

text \<open>
  C31. A request that finishes the migration of a school sets the date of its users, in whatever
  order they logged in: the service first stores whether the migration is still possible, and only
  then selects the users to mark. When it is no longer possible, every user of the school who is
  not marked yet is marked with the current time, those who moved to the new login too; when it
  is still possible, only users are marked whose login was changed at that moment.
\<close>

theorem finish_marks_users:
  assumes run: "uc_setMigration env outside schoolId possible mandatory True me s = (Inr dto, s')"
    and ids: "rows_have_ids s" "distinct (map eid (pst_users s))" "schoolId \<noteq> []"
    and row: "find_row (pst_users s) k = Some u"
  shows "\<exists>u'. find_row (pst_users s') k = Some u' \<and> usr_outdatedSince u' =
    (if eid (usr_school u) = schoolId \<and> usr_outdatedSince u = None \<and>
        \<not> (possible \<and> (usr_lastLoginSystemChange u = None \<or> the (usr_lastLoginSystemChange u) < pe_now env))
     then Some (pe_now env) else usr_outdatedSince u)"
proof -
  from run obtain d s1 where s1: "service_setMigration env schoolId (Some possible) (Some mandatory) (Some True) s = (Inr d, s1)"
    and complete: "completeMigration env schoolId s1 = (Inr (), s')"
    by (auto simp: uc_setMigration_def isRestartMigrationRequired_def bindE_eq_Inr check_school_edit_def queryE_def
        found_school retE_def)
  obtain e where users: "pst_users s1 = pst_users s" and e: "find_row (pst_schools s1) schoolId = Some e"
    "sch_oauthMigrationPossible e = (if possible then Some (pe_now env) else None)" "sch_oauthMigrationFinished e = Some (pe_now env)"
    using setMigration_school [OF s1 ids(3)] by auto
  have "list_all (\<lambda>u. eid u \<noteq> []) (pst_users s1)" using ids(1) users by (simp add: rows_have_ids_def)
  from completeMigration_marks [OF complete this _ _ e(1), of k u] show ?thesis
    using row ids(2) users e by (auto simp: selected_def not_less split: option.splits if_splits)
qed

section \<open>The migration of one user\<close>

lemma userDO_saved:
  assumes run: "userDO_save env d s = (Inr x, s')" and id: "truthy (udo_id d)"
  shows "\<exists>u'. find_row (pst_users s') (the (udo_id d)) = Some u' \<and> entity_of d u'"
proof -
  from run obtain ds where ds: "user_saveAll env [d] s = (Inr ds, s')"
    by (auto simp: userDO_save_def bindE_eq_Inr retE_def)
  then obtain e s1 where "user_entity env d s = (Inr e, s1)"
    by (auto simp: user_saveAll_def bindE_eq_Inr)
  from user_entity_known [OF this id] have "find_row (pst_users s) (the (udo_id d)) \<noteq> None"
    by (auto simp: find_row_def find_None_iff image_iff)
  from saveAll_row [OF ds _ _ _ this] id show ?thesis by simp
qed

lemma account_save_found:
  assumes save: "account_service_save env d s = (Inr r, s')" and d: "acd_id d = Some i" "i \<noteq> []"
  shows "\<exists>row new. find_row (pst_accounts s) i = Some row \<and> find_row (pst_accounts s') i = Some new \<and> stored_as env d row new"
proof -
  have t: "truthy (acd_id d)" "the (acd_id d) = i" using d by (simp_all add: truthy_def)
  from save obtain ret s1 where "db_save env d s = (Inr ret, s1)"
    unfolding account_service_save_def bindE_eq_Inr by blast
  then obtain y s2 where "account_findById i s = (Inr y, s2)"
    unfolding db_save_def t(2) if_P [OF t(1)] bindE_eq_Inr by blast
  then have "find_row (pst_accounts s) i = Some y" using found_account by blast
  with service_save_stores [OF save d] show ?thesis by blast
qed

lemma keeps_user_entity: "keepsE (untouched a u) (user_entity env d)"
  unfolding user_entity_def by (auto simp: Let_def intro!: keepsE_bind keeps_fresh)

lemma keeps_userDO_save:
  assumes id: "udo_id d = Some u" "u \<noteq> []"
  shows "keepsE (untouched a u) (userDO_save env d)"
  unfolding keepsE_def
proof
  fix s
  show "untouched a u (snd (userDO_save env d s)) = untouched a u s"
  proof (cases "user_entity env d s")
    case (Pair r s1)
    have kept: "untouched a u s1 = untouched a u s" by (rule keepsE_D [OF keeps_user_entity Pair])
    show ?thesis
    proof (cases r)
      case (Inl e)
      then show ?thesis using Pair kept by (simp add: userDO_save_def user_saveAll_def bindE_def)
    next
      case (Inr e)
      from user_entity_known [of env d s e s1] have e: "eid e = u" using Pair Inr id by (simp add: entity_of_def truthy_def)
      obtain e' t where p: "persist_row (pe_now env) (pe_newId env) (pst_users s1) e = (e', t)"
        "filter (\<lambda>x. eid x \<noteq> u) t = filter (\<lambda>x. eid x \<noteq> u) (pst_users s1)"
        using persist_untouched [OF e id(2), of "pe_now env" "pe_newId env" "pst_users s1"]
        by (cases "persist_row (pe_now env) (pe_newId env) (pst_users s1) e") simp
      have "untouched a u (s1\<lparr>pst_users := t, pst_writes := n\<rparr>) = untouched a u s1" for n
        using p(2) by (simp add: untouched_def)
      then show ?thesis using Pair Inr kept p(1)
        by (auto simp: userDO_save_def user_saveAll_def bindE_def retE_def db_write_def Let_def untouched_def split: option.splits)
    qed
  qed
qed

text \<open>The fields of a user and of an account that a migration is about.\<close>

definition user_login :: "user \<Rightarrow> string option \<times> string option \<times> date option" where
  "user_login u = (usr_externalId u, usr_previousExternalId u, usr_lastLoginSystemChange u)"

definition rehashed :: "people_env \<Rightarrow> Account \<Rightarrow> Account \<Rightarrow> bool" where
  "rehashed env a a' \<longleftrightarrow> acc_username a' = acc_username a \<and>
     (truthy (acc_password a) \<longrightarrow> is_hash env (the (acc_password a)) (acc_password a'))"

lemma migrated_pair:
  assumes u: "userDO_save env d s = (Inr x, s1)" "udo_id d = Some i" "i \<noteq> []"
    and a: "account_service_save env ((account_mapToDto a)\<lparr>acd_systemId := y\<rparr>) s1 = (Inr z, s2)" "eid a \<noteq> []"
  shows "\<exists>u' a'. find_row (pst_users s2) i = Some u' \<and> find_row (pst_accounts s2) (eid a) = Some a' \<and>
    user_login u' = (udo_externalId d, udo_previousExternalId d, udo_lastLoginSystemChange d) \<and>
    acc_systemId a' = (if truthy y then y else None) \<and> rehashed env a a'"
proof -
  from userDO_saved [OF u(1)] u(2,3) obtain u' where u': "find_row (pst_users s1) i = Some u'" "entity_of d u'"
    by (auto simp: truthy_def)
  have users: "pst_users s2 = pst_users s1" by (rule keepsE_D [OF service_save_keeps_users a(1)])
  from account_save_found [OF a(1)] a(2) obtain row a' where "find_row (pst_accounts s2) (eid a) = Some a'"
    "stored_as env ((account_mapToDto a)\<lparr>acd_systemId := y\<rparr>) row a'" by auto
  then show ?thesis using u' users by (auto simp: user_login_def entity_of_def stored_as_def rehashed_def)
qed

lemma or_default_kept [simp]: "or_default (if truthy y then y else None) [] = or_default y []"
  by (auto simp: or_default_def truthy_def split: option.split)

lemma saved_pair:
  assumes run: "bindE (userDO_save env d) (\<lambda>_. bindE (account_service_save env ((account_mapToDto a)\<lparr>acd_systemId := y\<rparr>))
      (\<lambda>_. retE r)) s = (Inr x, s')"
    and d: "udo_id d = Some me" and ids: "me \<noteq> []" "eid a \<noteq> []"
  shows "x = r \<and> untouched (eid a) me s' = untouched (eid a) me s \<and> (\<exists>u' a'. find_row (pst_users s') me = Some u' \<and>
    find_row (pst_accounts s') (eid a) = Some a' \<and> rehashed env a a' \<and>
    user_login u' = (udo_externalId d, udo_previousExternalId d, udo_lastLoginSystemChange d) \<and>
    or_default (acc_systemId a') [] = or_default y [])"
proof -
  from run obtain x1 s1 x2 where saves: "userDO_save env d s = (Inr x1, s1)" "x = r"
    "account_service_save env ((account_mapToDto a)\<lparr>acd_systemId := y\<rparr>) s1 = (Inr x2, s')"
    by (auto simp: bindE_eq_Inr retE_def)
  have "untouched (eid a) me s1 = untouched (eid a) me s"
    by (rule keepsE_D [OF keeps_userDO_save [OF d ids(1)] saves(1)])
  moreover have "untouched (eid a) me s' = untouched (eid a) me s1"
    by (rule keepsE_D [OF keeps_service_save saves(3)]) (simp_all add: ids)
  ultimately show ?thesis using migrated_pair [OF saves(1) d ids(1) saves(3) ids(2)] saves(2) by auto
qed

text \<open>A migration that fails leaves what the rollback needs; it may have changed both rows, and no other.\<close>

lemma keeps_doMigration:
  assumes "udo_id d = Some me" "me \<noteq> []" "eid a \<noteq> []"
  shows "keepsE (untouched (eid a) me) (user_doMigration env d externalId (account_mapToDto a) target y)"
  unfolding user_doMigration_def using assms
  by (intro keepsE_bind keeps_userDO_save keeps_service_save keepsE_basic) simp_all

lemma account_dto_same [simp]: "(account_mapToDto a)\<lparr>acd_systemId := acc_systemId a\<rparr> = account_mapToDto a"
  by (simp add: account_mapToDto_def)

lemma migrateUser_run:
  assumes "migrateUser env me externalId target s = (Inr url, s')" and "rows_have_ids s"
    and u: "find_row (pst_users s) me = Some u"
    and a: "List.find (\<lambda>row. acc_userId row = Some me) (pst_accounts s) = Some a"
  shows "catchE (user_doMigration env (user_mapEntityToDO env u) externalId (account_mapToDto a) target (acc_systemId a))
      (\<lambda>_. user_rollbackMigration env (user_mapEntityToDO env u) (account_mapToDto a) target) s = (Inr url, s')"
  using assms(1) unfolding migrateUser_def bindE_eq_Inr
  by (auto simp: userDO_findById_def queryE_def row_or_fail_def u a dest!: found_own_dto)

text \<open>
  C9. The migration of a user that returns is complete or undone: either the user has the new
  external id, remembers the old one with the current time, and the account belongs to the new
  system, or all of these are as they were before; the name of the account stays, and so does
  every other row. Both ways the account is saved as it was read, so its password is replaced by
  a hash of its hash.
\<close>

theorem migration_complete_or_undone:
  assumes run: "migrateUser env me externalId target s = (Inr url, s')" and ids: "rows_have_ids s"
    and u: "find_row (pst_users s) me = Some u"
    and a: "List.find (\<lambda>row. acc_userId row = Some me) (pst_accounts s) = Some a"
  shows "\<exists>u' a'. find_row (pst_users s') me = Some u' \<and> find_row (pst_accounts s') (eid a) = Some a' \<and>
    untouched (eid a) me s' = untouched (eid a) me s \<and> rehashed env a a' \<and>
    (url = createUserMigrationDto env ''/migration/success'' (nullish (acc_systemId a) []) target \<and>
       user_login u' = (Some externalId, usr_externalId u, Some (pe_now env)) \<and> or_default (acc_systemId a') [] = target \<or>
     url = createUserMigrationDto env ''/migration/error'' (nullish (acc_systemId a) []) target \<and>
       user_login u' = user_login u \<and> or_default (acc_systemId a') [] = or_default (acc_systemId a) [])"
proof -
  let ?d = "user_mapEntityToDO env u" and ?dto = "account_mapToDto a"
  have ids: "me \<noteq> []" "eid a \<noteq> []" and d: "udo_id ?d = Some me"
    using row_found [OF u] ids own_account_id [OF ids a] by (auto simp: rows_have_ids_def list_all_iff)
  note start = migrateUser_run [OF run assms(2) u a]
  show ?thesis
  proof (cases "user_doMigration env ?d externalId ?dto target (acc_systemId a) s")
    case (Pair r s1)
    have frame: "untouched (eid a) me s1 = untouched (eid a) me s"
      by (rule keepsE_D [OF keeps_doMigration [OF d ids] Pair])
    show ?thesis
    proof (cases r)
      case (Inr x)
      with start Pair have "user_doMigration env ?d externalId ?dto target (acc_systemId a) s = (Inr url, s')"
        by (simp add: catchE_def)
      from saved_pair [OF this [unfolded user_doMigration_def] _ ids] d show ?thesis
        by (auto simp: or_default_def)
    next
      case (Inl e)
      with start Pair have "user_rollbackMigration env ?d ?dto target s1 = (Inr url, s')" by (simp add: catchE_def)
      from saved_pair [where a = a and y = "acc_systemId a", unfolded account_dto_same, OF this [unfolded user_rollbackMigration_def] d ids] frame
      show ?thesis by (auto simp: user_login_def)
    qed
  qed
qed

end
