(* ===== verification/ImportProperties.thy ===== *)
theory ImportProperties
  imports MigrationProperties
begin

text \<open>
  The import of users: what a request needs and which rows it leaves, that nobody is matched twice,
  and the modes that a school goes through.
\<close>

section \<open>The start of a request\<close>

text \<open>
  The user has the permission for the school, and the import is enabled for everybody or for this
  school; \<open>P\<close> is about the school.
\<close>

definition import_allowed :: "people_env \<Rightarrow> people_state \<Rightarrow> EntityId \<Rightarrow> string \<Rightarrow> (EntityId \<Rightarrow> bool) \<Rightarrow> bool" where
  "import_allowed env s me permission P \<longleftrightarrow>
     user_row s me (\<lambda>u. hasUserAllSchoolPermissions (pe_auth env) u [permission] = Inr True \<and>
       (case find_row (pst_schools s) (eid (usr_school u)) of
          None \<Rightarrow> False
        | Some e \<Rightarrow> pe_USER_MIGRATION_ENABLED env \<or> (case sch_features e of None \<Rightarrow> False | Some fs \<Rightarrow> LDAP_UNIVENTION_MIGRATION \<in> set fs)) \<and>
       P (eid (usr_school u)))"

lemma started:
  assumes "import_start env me permission s = (Inr (u, d), s')"
  shows "s' = s \<and> user_findById me True s = (Inr u, s) \<and>
    hasUserAllSchoolPermissions (pe_auth env) u [permission] = Inr True \<and>
    (\<exists>e. find_row (pst_schools s) (eid (usr_school u)) = Some e \<and> d = school_mapEntityToDO env e \<and>
      (pe_USER_MIGRATION_ENABLED env \<or> (case sch_features e of None \<Rightarrow> False | Some fs \<Rightarrow> LDAP_UNIVENTION_MIGRATION \<in> set fs)))"
proof -
  from assms obtain s1 s2 where u: "user_findById me True s = (Inr u, s1)"
    and perm: "checkUserHasAllSchoolPermissions (pe_auth env) u [permission] = Inr ()"
    and school: "school_repo_findById env (eid (usr_school u)) s1 = (Inr d, s2)"
    and enabled: "checkFeatureEnabled env d = Inr ()" and s': "s' = s2"
    by (auto simp: import_start_def import_getCurrentUser_def bindE_eq_Inr liftE_def retE_def)
  have s1: "s1 = s" using pureE_state [OF pure_people_repositories(1) u] .
  from school obtain e where e: "s2 = s" "find_row (pst_schools s) (eid (usr_school u)) = Some e" "d = school_mapEntityToDO env e"
    by (auto simp: found_school s1)
  have "hasUserAllSchoolPermissions (pe_auth env) u [permission] = Inr True"
    using perm by (auto simp: checkUserHasAllSchoolPermissions_def bindR_def guardR_def split: sum.splits if_splits)
  moreover have "pe_USER_MIGRATION_ENABLED env \<or> (case sch_features e of None \<Rightarrow> False | Some fs \<Rightarrow> LDAP_UNIVENTION_MIGRATION \<in> set fs)"
    using enabled unfolding e(3)
    by (auto simp: checkFeatureEnabled_def school_mapEntityToDO_def new_SchoolDO_def split: if_splits option.splits)
  ultimately show ?thesis using u s1 s' e by auto
qed

lemma pure_start: "pureE (import_start env me permission)"
  by (auto simp: import_start_def import_getCurrentUser_def intro!: pureE_bind people_pure)

lemma started_allowed:
  assumes "import_start env me permission s = (Inr (u, d), s')" and "P (eid (usr_school u))"
  shows "import_allowed env s me permission P"
  using started [OF assms(1)] assms(2) unfolding import_allowed_def
  by (auto simp: user_row_found [of me s u s])

lemma pure_import_queries [people_pure]:
  "pureE (importUser_findById env i)" "pureE (hasMatch env u)" "pureE (findImportUsers env sch f order k l)"
  "pureE (findAllImportUsers env me f order k l)" "pureE (findAllUnmatchedUsers env me name k l)"
  by (auto simp: importUser_findById_def hasMatch_def findImportUsers_def findAllImportUsers_def findAllUnmatchedUsers_def
      user_findWithoutImportUser_def Let_def split: option.split intro!: pureE_bind pure_start)

section \<open>Rows of the import\<close>

text \<open>The users to be imported and the schools of other schools.\<close>

definition others :: "EntityId \<Rightarrow> people_state \<Rightarrow> ImportUser list \<times> school list" where
  "others i s = (filter (\<lambda>iu. imu_school iu \<noteq> i) (pst_importUsers s), filter (\<lambda>e. eid e \<noteq> i) (pst_schools s))"

text \<open>Every row has its own id, and matches name users by their ids.\<close>

definition matched_id :: "ImportUser \<Rightarrow> EntityId list" where
  "matched_id iu = (case imu_user iu of None \<Rightarrow> [] | Some u \<Rightarrow> [eid u])"

definition import_tables :: "people_state \<Rightarrow> bool" where
  "import_tables s \<longleftrightarrow> rows_have_ids s \<and> distinct (map eid (pst_users s)) \<and>
     distinct (map eid (pst_importUsers s)) \<and>
     list_all (\<lambda>iu. eid iu \<noteq> [] \<and> [] \<notin> set (matched_id iu)) (pst_importUsers s) \<and>
     list_all (\<lambda>e. eid e \<noteq> []) (pst_schools s)"

lemma found_import:
  assumes "importUser_findById env i s = (Inr iu, s')"
  shows "s' = s \<and> (\<exists>row. find_row (pst_importUsers s) i = Some row \<and> iu = with_match s row)"
  using assms by (auto simp: importUser_findById_def queryE_def row_or_fail_def split: option.splits if_splits)

lemma with_match_sel [simp]:
  "eid (with_match s iu) = eid iu" "imu_school (with_match s iu) = imu_school iu"
  "imu_matchedBy (with_match s iu) = imu_matchedBy iu"
  by (simp_all add: with_match_def)

lemma with_match_id [simp]: "matched_id (with_match s iu) = matched_id iu"
  by (auto simp: with_match_def matched_id_def split: option.split dest: row_found)

text \<open>What a save of a row that was found leaves in the table.\<close>

lemma import_saved:
  assumes "eid iu \<noteq> []"
  shows "\<exists>iu' n. (snd (importUser_save env iu s) = s\<lparr>pst_writes := n\<rparr> \<or>
      snd (importUser_save env iu s) = s\<lparr>pst_importUsers := replace_row iu' (pst_importUsers s), pst_writes := n\<rparr>) \<and>
    stamped (pe_now env) iu iu'"
proof -
  obtain iu' where p: "persist_row (pe_now env) (pe_newId env) (pst_importUsers s) iu = (iu', replace_row iu' (pst_importUsers s))"
    "iu' = iu \<or> iu' = iu\<lparr>ent_updatedAt := pe_now env\<rparr>"
    using persist_known [OF assms, of "pe_now env" "pe_newId env" "pst_importUsers s"] by (auto simp: replace_row_def)
  show ?thesis
    by (intro exI [of _ iu'] exI [of _ "Suc (pst_writes s)"])
      (use p in \<open>auto simp: importUser_save_def db_write_def Let_def modifyE_def stamped_def split: option.split\<close>)
qed

lemma stamped_import_sel:
  "stamped now (iu :: ImportUser) iu' \<Longrightarrow> eid iu' = eid iu \<and> imu_school iu' = imu_school iu \<and>
     matched_id iu' = matched_id iu \<and> imu_matchedBy iu' = imu_matchedBy iu \<and> (imu_user iu' = None) = (imu_user iu = None)"
  by (cases iu) (auto simp: stamped_def matched_id_def)

lemma save_keeps_others:
  assumes found: "find_row (pst_importUsers s) (eid iu) = Some row" and school: "imu_school row = i" "imu_school iu = i"
    and tables: "import_tables s"
  shows "others i (snd (importUser_save env iu s)) = others i s"
proof -
  have ids: "distinct (map eid (pst_importUsers s))" "eid iu \<noteq> []"
    using tables row_found [OF found] by (auto simp: import_tables_def list_all_iff)
  have kept: "filter (\<lambda>x. imu_school x \<noteq> i) (replace_row iu' t) = filter (\<lambda>x. imu_school x \<noteq> i) t"
    if "eid iu' = eid iu" "imu_school iu' = i" "\<forall>x \<in> set t. eid x = eid iu \<longrightarrow> imu_school x = i" for iu' t
    using that unfolding replace_row_def by (induction t) auto
  have same: "\<forall>x \<in> set (pst_importUsers s). eid x = eid iu \<longrightarrow> imu_school x = i"
    using row_found [OF found] ids(1) school(1) by (auto simp: distinct_map inj_on_def)
  obtain iu' n where saved: "snd (importUser_save env iu s) = s\<lparr>pst_writes := n\<rparr> \<or>
      snd (importUser_save env iu s) = s\<lparr>pst_importUsers := replace_row iu' (pst_importUsers s), pst_writes := n\<rparr>"
    "stamped (pe_now env) iu iu'" using import_saved [OF ids(2)] by blast
  have "filter (\<lambda>x. imu_school x \<noteq> i) (replace_row iu' (pst_importUsers s)) = filter (\<lambda>x. imu_school x \<noteq> i) (pst_importUsers s)"
    using stamped_import_sel [OF saved(2)] school(2) same by (intro kept) simp_all
  with saved(1) show ?thesis by (auto simp: others_def)
qed

section \<open>Who changes what\<close>

fun import_permission :: "ImportRequest \<Rightarrow> string" where
  "import_permission (FindImportUsers _ _ _ _ _) = ''SCHOOL_IMPORT_USERS_VIEW''"
| "import_permission (FindUnmatched _ _ _) = ''SCHOOL_IMPORT_USERS_VIEW''"
| "import_permission (SetMatch _ _) = ''SCHOOL_IMPORT_USERS_UPDATE''"
| "import_permission (RemoveMatch _) = ''SCHOOL_IMPORT_USERS_UPDATE''"
| "import_permission (UpdateFlag _ _) = ''SCHOOL_IMPORT_USERS_UPDATE''"
| "import_permission SaveMatches = ''SCHOOL_IMPORT_USERS_MIGRATE''"
| "import_permission (StartMigration _) = ''SCHOOL_IMPORT_USERS_MIGRATE''"
| "import_permission StartSync = ''SCHOOL_IMPORT_USERS_MIGRATE''"

lemma import_step:
  assumes "\<And>u d e. user_findById me True s = (Inr u, s) \<Longrightarrow> find_row (pst_schools s) (eid (usr_school u)) = Some e \<Longrightarrow>
      d = school_mapEntityToDO env e \<Longrightarrow>
      changes s (\<lambda>s'. others (eid (usr_school u)) s' = others (eid (usr_school u)) s) (f (u, d))"
  shows "changes s (\<lambda>s'. import_allowed env s me permission (\<lambda>i. others i s' = others i s)) (bindE (import_start env me permission) f)"
proof (rule changes_bind [OF pure_start])
  fix x assume run: "import_start env me permission s = (Inr x, s)"
  obtain u d where x: "x = (u, d)" by fastforce
  from started [OF run [unfolded x]] assms [of u _ d]
  have "changes s (\<lambda>s'. others (eid (usr_school u)) s' = others (eid (usr_school u)) s) (f (u, d))" by blast
  then show "changes s (\<lambda>s'. import_allowed env s me permission (\<lambda>i. others i s' = others i s)) (f x)"
    using started_allowed [OF run [unfolded x], of "\<lambda>i. others i s' = others i s" for s'] by (auto simp: changes_def x)
qed

lemma changes_save_row:
  assumes "importUser_findById env i s = (Inr iu, s)" and "import_tables s" and "imu_school iu = j"
    and "eid iu' = eid iu" "imu_school iu' = imu_school iu"
  shows "changes s (\<lambda>s'. others j s' = others j s) (bindE (importUser_save env iu') (\<lambda>_. retE r))"
proof (rule changes_end)
  from found_import [OF assms(1)] obtain row where "find_row (pst_importUsers s) i = Some row" "iu = with_match s row" by blast
  moreover from this have "eid iu = i" using row_found by fastforce
  ultimately show "changes s (\<lambda>s'. others j s' = others j s) (importUser_save env iu')"
    using save_keeps_others [of s iu' row j env] assms(2-5) by (simp add: changes_def)
qed

lemma match_requests_change:
  assumes tables: "import_tables s"
  shows "changes s (\<lambda>s'. import_allowed env s me ''SCHOOL_IMPORT_USERS_UPDATE'' (\<lambda>i. others i s' = others i s)) (uc_setMatch env me i k)"
    and "changes s (\<lambda>s'. import_allowed env s me ''SCHOOL_IMPORT_USERS_UPDATE'' (\<lambda>i. others i s' = others i s)) (uc_removeMatch env me i)"
    and "changes s (\<lambda>s'. import_allowed env s me ''SCHOOL_IMPORT_USERS_UPDATE'' (\<lambda>i. others i s' = others i s)) (uc_updateFlag env me i b)"
proof -
  show "changes s (\<lambda>s'. import_allowed env s me ''SCHOOL_IMPORT_USERS_UPDATE'' (\<lambda>i. others i s' = others i s)) (uc_setMatch env me i k)"
    unfolding uc_setMatch_def
  proof (rule import_step, unfold prod.case, rule changes_bind, rule people_pure, rule changes_bind, rule people_pure,
      rule changes_if, rule changes_basic, rule changes_bind, rule people_pure, rule changes_if, rule changes_basic,
      rule changes_after_lift, goal_cases)
    case (1 u d e iu v x iu')
    then show ?case
      by (intro changes_save_row [of env i s iu]) (auto simp: tables setMatch_def dest: row_found split: if_splits)
  qed
  show "changes s (\<lambda>s'. import_allowed env s me ''SCHOOL_IMPORT_USERS_UPDATE'' (\<lambda>i. others i s' = others i s)) (uc_removeMatch env me i)"
    unfolding uc_removeMatch_def Let_def
  proof (rule import_step, unfold prod.case, rule changes_bind, rule people_pure, rule changes_if, rule changes_basic, goal_cases)
    case (1 u d e iu)
    then show ?case
      by (intro changes_save_row [of env i s iu]) (auto simp: tables revokeMatch_def dest: row_found)
  qed
  show "changes s (\<lambda>s'. import_allowed env s me ''SCHOOL_IMPORT_USERS_UPDATE'' (\<lambda>i. others i s' = others i s)) (uc_updateFlag env me i b)"
    unfolding uc_updateFlag_def Let_def
  proof (rule import_step, unfold prod.case, rule changes_bind, rule people_pure, rule changes_if, rule changes_basic, goal_cases)
    case (1 u d e iu)
    then show ?case
      by (intro changes_save_row [of env i s iu]) (auto simp: tables dest: row_found)
  qed
qed

lemma keeps_school_save:
  assumes id: "sdo_id d = Some i" "i \<noteq> []"
  shows "keepsE (others i) (school_repo_save env d)"
proof -
  have "others i (snd (school_repo_save env d s)) = others i s" for s
  proof (cases "find_row (pst_schools s) i")
    case None
    then show ?thesis using id
      by (simp add: school_repo_save_def bindE_def fresh_ref_def Let_def queryE_def row_or_fail_def truthy_def others_def)
  next
    case (Some old)
    have "filter (\<lambda>e. eid e \<noteq> i) (map (\<lambda>row. if eid row = i then e' else row) t) = filter (\<lambda>e. eid e \<noteq> i) t"
      if "eid e' = i" for e' :: school and t using filter_replaced [OF that] .
    then show ?thesis using id Some row_found [OF Some]
      by (simp add: school_repo_save_def bindE_def fresh_ref_def Let_def queryE_def row_or_fail_def truthy_def others_def
          db_write_def split: option.split)
  qed
  then show ?thesis by (simp add: keepsE_def)
qed

text \<open>While the accounts are moved, every user stays in the same school.\<close>

definition school_of :: "people_state \<Rightarrow> (EntityId \<times> EntityId) list" where
  "school_of s = map (\<lambda>u. (eid u, eid (usr_school u))) (pst_users s)"

definition agrees :: "(EntityId \<times> EntityId) list \<Rightarrow> user \<Rightarrow> bool" where
  "agrees w u \<longleftrightarrow> eid u \<noteq> [] \<and> (\<forall>p \<in> set w. fst p = eid u \<longrightarrow> snd p = eid (usr_school u))"

abbreviation moving :: "EntityId \<Rightarrow> (EntityId \<times> EntityId) list \<Rightarrow> ImportUser list \<times> school list \<Rightarrow> people_state \<Rightarrow> bool" where
  "moving i w x s \<equiv> school_of s = w \<and> others i s = x"

lemma stamped_school: "stamped now (u :: user) u' \<Longrightarrow> usr_school u' = usr_school u \<and> eid u' = eid u"
  by (cases u) (auto simp: stamped_def)

lemma agreeing_row:
  assumes "agrees (map (\<lambda>u. (eid u, eid (usr_school u))) t) u"
  shows "map (\<lambda>u. (eid u, eid (usr_school u))) (snd (persist_row now newId t u)) = map (\<lambda>u. (eid u, eid (usr_school u))) t"
proof -
  have "eid u \<noteq> []" using assms by (simp add: agrees_def)
  from persist_known [OF this, of now newId t] obtain u' where
    p0: "persist_row now newId t u = (u', map (\<lambda>row. if eid row = eid u then u' else row) t)" "u' = u \<or> u' = u\<lparr>ent_updatedAt := now\<rparr>"
    by blast
  then have p: "snd (persist_row now newId t u) = map (\<lambda>row. if eid row = eid u then u' else row) t" "stamped now u u'"
    by (simp_all only: snd_conv stamped_def)
  show ?thesis using assms stamped_school [OF p(2)] unfolding p(1) by (auto simp: agrees_def)
qed

lemma runs_keeps: "keepsE v m \<Longrightarrow> runs (\<lambda>s. v s = x) m (\<lambda>_. True)"
  by (simp add: runs_def keepsE_def)

lemma runs_user_save: "agrees w u \<Longrightarrow> runs (moving i w x) (user_save env u) (\<lambda>_. True)"
  using agreeing_row [of _ u]
  by (auto simp: runs_def user_save_def db_write_def Let_def modifyE_def school_of_def others_def split: option.split)

lemma agreeing_rows:
  "list_all (agrees (map (\<lambda>u. (eid u, eid (usr_school u))) t)) us \<Longrightarrow>
   map (\<lambda>u. (eid u, eid (usr_school u))) (snd (persist_rows now newId t us)) = map (\<lambda>u. (eid u, eid (usr_school u))) t"
proof (induction us arbitrary: t)
  case (Cons u us)
  have "map (\<lambda>u. (eid u, eid (usr_school u))) (snd (persist_row now newId t u)) = map (\<lambda>u. (eid u, eid (usr_school u))) t"
    using Cons.prems by (intro agreeing_row) simp
  with Cons.IH [of "snd (persist_row now newId t u)"] Cons.prems show ?case by (simp add: split_beta)
qed simp

lemma runs_flush: "list_all (agrees w) us \<Longrightarrow> runs (moving i w x) (flush_users env us) (\<lambda>_. True)"
  using agreeing_rows [of _ us]
  by (auto simp: runs_def flush_users_def db_write_def Let_def modifyE_def school_of_def others_def split: option.split)

lemma keeps_other_tables:
  "keepsE (\<lambda>s. (pst_users s, pst_schools s, pst_importUsers s)) (account_service_save env d)"
proof -
  let ?v = "\<lambda>s. (pst_users s, pst_schools s, pst_importUsers s)"
  have "keepsE ?v fresh_ref" "keepsE ?v (new_ObjectId env i)" "keepsE ?v (optional_ObjectId env j)"
    "keepsE ?v (optional_hash env q)" "keepsE ?v (account_save env a)" "keepsE ?v (idm_save env e)" for i j q a e
    by (auto simp: new_ObjectId_def optional_ObjectId_def encryptPassword_def optional_hash_def account_save_def split_beta
        idm_save_def getIdmAccountId_def idm_find_def Let_def split: option.split
        intro!: keepsE_bind keeps_fresh keeps_db_write keeps_idm) (simp add: keepsE_def)
  then show ?thesis unfolding account_service_save_def db_save_def
    by (simp; intro conjI impI keepsE_bind keeps_execute keepsE_basic keepsE_pure [OF pure_people_repositories(3)])
qed

lemma runs_account_save: "runs (moving i w x) (account_service_save env d) (\<lambda>_. True)"
  using keeps_other_tables [of env d] by (simp add: runs_def keepsE_def school_of_def others_def)

lemma runs_not_awaited: "\<forall>m \<in> set ms. runs I m (\<lambda>_. True) \<Longrightarrow> runs I (not_awaited ms) (\<lambda>_. True)"
  by (induction ms) (auto intro!: runs_bind [where Q = "\<lambda>_. True"] runs_catch runs_ret)

lemma map_of_rows: "map_of (map (\<lambda>u. (f u, g u)) t) k = map_option g (List.find (\<lambda>u. f u = k) t)"
  by (induction t) auto

lemma own_school: "map_of (school_of s) me = map_option (\<lambda>u. eid (usr_school u)) (find_row (pst_users s) me)"
  unfolding school_of_def find_row_def by (rule map_of_rows)

lemma with_school_school [simp]: "eid (usr_school (with_school s u)) = eid (usr_school u)"
  by (cases u; cases "find_row (pst_schools s) (eid (usr_school u))") (simp_all add: with_school_def row_found)

lemma runs_start:
  assumes "map_of w me = Some i"
  shows "runs (moving i w x) (import_start env me permission) (\<lambda>(u, d). eid (usr_school u) = i \<and> sdo_id d = Some i)"
proof (rule runsI, rule conjI)
  fix s assume I: "moving i w x s"
  have state: "snd (import_start env me permission s) = s" using pure_start by (simp add: pureE_def)
  then show "moving i w x (snd (import_start env me permission s))" using I by simp
  show "\<forall>y. fst (import_start env me permission s) = Inr y \<longrightarrow> (case y of (u, d) \<Rightarrow> eid (usr_school u) = i \<and> sdo_id d = Some i)"
  proof (clarify)
    fix u d assume "fst (import_start env me permission s) = Inr (u, d)"
    then have "import_start env me permission s = (Inr (u, d), s)" using state by (metis prod.collapse)
    from started [OF this] obtain e where u: "user_findById me True s = (Inr u, s)"
      "find_row (pst_schools s) (eid (usr_school u)) = Some e" "d = school_mapEntityToDO env e" by blast
    from u(1) obtain row where row: "find_row (pst_users s) me = Some row" "u = with_school s row" by (auto simp: found_user)
    have "eid (usr_school row) = i" using own_school [of s me] assms I row(1) by simp
    then show "eid (usr_school u) = i \<and> sdo_id d = Some i" using row(2) u(2,3) row_found [OF u(2)] by simp
  qed
qed

lemma school_save_keeps_users: "pst_users (snd (school_repo_save env d s)) = pst_users s"
  by (auto simp: school_repo_save_def bindE_def fresh_ref_def Let_def queryE_def db_write_def split: option.split sum.split prod.split)

lemma runs_endSchool:
  assumes "map_of w me = Some i" and "i \<noteq> []"
  shows "runs (moving i w x) (endSchoolInUserMigration env me) (\<lambda>_. True)"
  unfolding endSchoolInUserMigration_def
proof (rule runs_bind [OF runs_start [OF assms(1)]], goal_cases)
  case (1 y)
  obtain u d where y: "y = (u, d)" by fastforce
  let ?d = "d\<lparr>sdo_inUserMigration := Some False\<rparr>"
  have "others i (snd (school_repo_save env ?d s)) = others i s" for s
    using keeps_school_save [of ?d i env] 1 y assms(2) by (simp add: keepsE_def)
  then have "runs (moving i w x) (school_repo_save env ?d) (\<lambda>_. True)"
    by (simp add: runs_def school_of_def school_save_keeps_users)
  then have "runs (moving i w x) (bindE (school_repo_save env ?d) (\<lambda>_. retE ())) (\<lambda>_. True)"
    by (intro runs_bind [where Q = "\<lambda>_. True"] runs_ret) simp_all
  then show ?case by (simp add: y runs_ret)
qed

lemma matched_row_sel [simp]:
  "eid ((u::user)\<lparr>usr_ldapDn := l, usr_externalId := x\<rparr>) = eid u"
  "usr_school (u\<lparr>usr_ldapDn := l, usr_externalId := x\<rparr>) = usr_school u"
  by (cases u; simp)+

lemma moved_agrees:
  assumes tables: "import_tables s" and row: "row \<in> set (pst_importUsers s)" and ready: "ready_to_move d (with_match s row)"
  shows "agrees (school_of s) (moved_user (with_match s row))"
proof -
  from ready obtain u where u: "imu_user row = Some u"
    by (auto simp: ready_to_move_def with_match_def)
  have id: "eid u \<noteq> []" using tables row u by (auto simp: import_tables_def list_all_iff matched_id_def split: option.splits)
  show ?thesis
  proof (cases "find_row (pst_users s) (eid u)")
    case None
    then have "\<forall>v \<in> set (pst_users s). eid v \<noteq> eid u" by (auto simp: find_row_def find_None_iff)
    then show ?thesis using None id by (simp add: moved_user_def with_match_def u agrees_def school_of_def)
  next
    case (Some v)
    then have v: "v \<in> set (pst_users s)" "eid v = eid u" using row_found by blast+
    have inj: "inj_on eid (set (pst_users s))" using tables by (simp add: import_tables_def distinct_map)
    have same: "w = v" if "w \<in> set (pst_users s)" "eid w = eid u" for w
      using inj_onD [OF inj, of w v] that v by simp
    have "p = (eid u, eid (usr_school v))" if "p \<in> set (school_of s)" "fst p = eid u" for p
      using that same by (auto simp: school_of_def)
    then show ?thesis using Some id v by (auto simp: moved_user_def with_match_def u agrees_def)
  qed
qed

lemma found_imports:
  assumes "findImportUsers env sch filters None None None s = (Inr (ius, n), s')"
  shows "set ius \<subseteq> with_match s ` set (pst_importUsers s)"
  using assms by (auto simp: findImportUsers_def queryE_def bindR_def Let_def page_of_def nullish_def split: sum.splits)

lemma runs_update:
  assumes "ready_to_move d iu \<Longrightarrow> agrees w (moved_user iu)"
  shows "runs (moving i w x) (updateUserAndAccount env iu d) (\<lambda>_. True)"
proof (cases "ready_to_move d iu")
  case True
  have pure: "runs (moving i w x) (db_findByUserIdOrFail env k) (\<lambda>_. True)" for k
    using pure_account_services(3) [of env k] by (simp add: runs_def pureE_def)
  show ?thesis using True assms [OF True]
    by (auto simp: updateUserAndAccount_def intro!: runs_bind [OF pure] runs_bind [OF runs_user_save]
        runs_bind [OF runs_account_save] runs_ret)
qed (simp add: updateUserAndAccount_def runs_ret)

lemma runs_delete_imports: "eid sch = i \<Longrightarrow> runs (moving i w x) (deleteImportUsersBySchool env sch) (\<lambda>_. True)"
  by (auto simp: runs_def deleteImportUsersBySchool_def db_write_def Let_def modifyE_def school_of_def others_def split: option.split)

lemma save_request_changes:
  assumes tables: "import_tables s"
  shows "changes s (\<lambda>s'. import_allowed env s me ''SCHOOL_IMPORT_USERS_MIGRATE'' (\<lambda>i. others i s' = others i s)) (saveAllUsersMatches env me)"
  unfolding saveAllUsersMatches_def
proof (rule import_step, unfold prod.case, rule changes_bind, rule people_pure, goal_cases)
  case (1 u d e y)
  obtain ius n where y: "y = (ius, n)" by fastforce
  let ?i = "eid (usr_school u)" and ?w = "school_of s"
  let ?I = "moving ?i ?w (others ?i s)"
  have agree: "agrees ?w (moved_user iu)" if "iu \<in> set ius" "ready_to_move d iu" for iu
    using that found_imports [OF 1(4) [unfolded y]] moved_agrees [OF tables, of _ d] by blast
  from 1(1) have "map_of ?w me = Some ?i" by (auto simp: own_school found_user)
  moreover have "?i \<noteq> []" using tables row_found [OF 1(2)] by (auto simp: import_tables_def list_all_iff)
  ultimately have finish: "runs ?I (endSchoolInUserMigration env me) (\<lambda>_. True)" by (rule runs_endSchool)
  have flush: "runs ?I (flush_users env (map moved_user (filter (ready_to_move d) ius))) (\<lambda>_. True)"
    using agree by (intro runs_flush) (simp add: list_all_iff)
  have updates: "runs ?I (not_awaited (map (\<lambda>iu. updateUserAndAccount env iu d) ius)) (\<lambda>_. True)"
    using agree by (intro runs_not_awaited) (auto intro!: runs_update)
  have "runs ?I (bindE (if n > 0 then bindE (flush_users env (map moved_user (filter (ready_to_move d) ius)))
        (\<lambda>_. not_awaited (map (\<lambda>iu. updateUserAndAccount env iu d) ius)) else retE ())
      (\<lambda>_. bindE (deleteImportUsersBySchool env (usr_school u)) (\<lambda>_. endSchoolInUserMigration env me))) (\<lambda>_. True)"
    by (rule runs_bind [where Q = "\<lambda>_. True"])
      (auto intro!: runs_bind [OF flush] updates runs_ret runs_bind [OF runs_delete_imports [OF refl]] finish)
  from runsD [OF this, of s] show ?case by (simp add: changes_def y)
qed

lemma mode_requests_change:
  assumes tables: "import_tables s"
  shows "changes s (\<lambda>s'. import_allowed env s me ''SCHOOL_IMPORT_USERS_MIGRATE'' (\<lambda>i. others i s' = others i s)) (startSchoolInUserMigration env me b)"
    and "changes s (\<lambda>s'. import_allowed env s me ''SCHOOL_IMPORT_USERS_MIGRATE'' (\<lambda>i. others i s' = others i s)) (endSchoolInMaintenance env me)"
proof -
  have known: "eid e = eid (usr_school u) \<and> eid (usr_school u) \<noteq> []"
    if "find_row (pst_schools s) (eid (usr_school u)) = Some e" for u e
    using row_found [OF that] tables by (auto simp: import_tables_def list_all_iff)
  have saved: "changes s (\<lambda>s'. others i s' = others i s) (bindE (school_repo_save env d) (\<lambda>_. retE ()))"
    if "sdo_id d = Some i" "i \<noteq> []" for d i
    by (rule changes_end, rule changes_keeps [OF keeps_school_save [OF that]])
  show "changes s (\<lambda>s'. import_allowed env s me ''SCHOOL_IMPORT_USERS_MIGRATE'' (\<lambda>i. others i s' = others i s)) (startSchoolInUserMigration env me b)"
    unfolding startSchoolInUserMigration_def Let_def
  proof (rule import_step, unfold prod.case, rule changes_after_lift, rule changes_after_lift, rule changes_after_lift,
      rule changes_bind, force intro!: pureE_bind, goal_cases)
    case (1 u d e x y z d')
    then have "sdo_id d' = Some (eid (usr_school u))"
      using known [OF 1(2)] by (auto simp: bindE_eq_Inr retE_def split: if_splits)
    then show ?case using known [OF 1(2)] by (intro saved) simp_all
  qed
  show "changes s (\<lambda>s'. import_allowed env s me ''SCHOOL_IMPORT_USERS_MIGRATE'' (\<lambda>i. others i s' = others i s)) (endSchoolInMaintenance env me)"
    unfolding endSchoolInMaintenance_def
  proof (rule import_step, unfold prod.case, rule changes_if, rule changes_basic, goal_cases)
    case (1 u d e)
    then show ?case using known [OF 1(2)] by (intro saved) simp_all
  qed
qed

text \<open>What succeeds has passed the checks that every request to the import starts with.\<close>

definition has_started :: "people_env \<Rightarrow> EntityId \<Rightarrow> string \<Rightarrow> people_state \<Rightarrow> bool" where
  "has_started env me p s \<longleftrightarrow> (\<exists>v d s1. import_start env me p s = (Inr (v, d), s1))"

lemma has_started_intro: "import_start env me p s = (Inr (v, d), s1) \<Longrightarrow> has_started env me p s"
  unfolding has_started_def by blast

lemma has_startedI: "bindE (import_start env me p) f s = (Inr x, s') \<Longrightarrow> has_started env me p s"
  by (auto simp: bindE_eq_Inr has_started_def)

lemma first_starts: "bindE m f s = (Inr x, s') \<Longrightarrow> (\<And>y s1. m s = (Inr y, s1) \<Longrightarrow> has_started env me p s) \<Longrightarrow> has_started env me p s"
  unfolding bindE_eq_Inr by blast

lemmas import_use_cases_start = findAllImportUsers_def findAllUnmatchedUsers_def uc_setMatch_def uc_removeMatch_def
  uc_updateFlag_def saveAllUsersMatches_def startSchoolInUserMigration_def endSchoolInMaintenance_def

lemma import_request_started:
  assumes "import_request env me request s = (Inr a, s')"
  shows "has_started env me (import_permission request) s"
proof (cases request)
  case (FindUnmatched a b c)
  from assms obtain n x s1 where "findAllUnmatchedUsers env me n (Some b) (Some c) s = (Inr x, s1)"
    by (auto simp: FindUnmatched bindE_eq_Inr liftE_def)
  then show ?thesis unfolding import_use_cases_start FindUnmatched import_permission.simps by (rule has_startedI)
qed (use assms in \<open>auto simp only: import_request.simps import_permission.simps import_use_cases_start Let_def
    elim!: first_starts intro: has_started_intro\<close>)

lemma has_started_allowed: "has_started env me p s \<Longrightarrow> (\<And>i. P i) \<Longrightarrow> import_allowed env s me p P"
  by (auto simp: has_started_def intro: started_allowed)

lemma lists_pure: "import_permission request = ''SCHOOL_IMPORT_USERS_VIEW'' \<Longrightarrow> pureE (import_request env me request)"
  by (cases request) (auto intro!: pureE_bind people_pure)

text \<open>
  C7. A request to the import that succeeds or changes anything comes from a user who has the permission
  that this kind of request needs for the own school, and the import is enabled for everybody or for
  that school; the rows of other schools stay as they are, among the users to be imported and among
  the schools. The two lists need the permission to view, and change nothing, also when they fail.
\<close>

theorem import_changes_need_permission:
  assumes tables: "import_tables s" and run: "import_request env me request s = (r, s')"
    and done_: "s' \<noteq> s \<or> (\<exists>a. r = Inr a)"
  shows "import_allowed env s me (import_permission request) (\<lambda>i. others i s' = others i s) \<and>
    (import_permission request = ''SCHOOL_IMPORT_USERS_VIEW'' \<longrightarrow> s' = s)"
proof -
  let ?P = "\<lambda>s'. import_allowed env s me (import_permission request) (\<lambda>i. others i s' = others i s)"
  have answer: "pureE (bindE (liftE r) (\<lambda>x. retE (f x)))" for r and f :: "'a \<Rightarrow> 'b"
    by (intro pureE_bind) simp_all
  have "changes s ?P (import_request env me request)"
  proof (cases "import_permission request = ''SCHOOL_IMPORT_USERS_VIEW''")
    case False
    then show ?thesis
      by (cases request) (auto intro!: changes_then_pure match_requests_change [OF tables] save_request_changes [OF tables]
          mode_requests_change [OF tables] answer)
  qed (simp add: changes_pure lists_pure)
  then have "?P s'" if "s' \<noteq> s" using that run by (simp add: changes_def)
  moreover have "?P s'" if "s' = s"
    using that run done_ by (auto intro!: has_started_allowed dest!: import_request_started)
  moreover have "s' = s" if "import_permission request = ''SCHOOL_IMPORT_USERS_VIEW''"
    using lists_pure [OF that, of env me] run by (auto simp: pureE_def dest: spec [of _ s])
  ultimately show ?thesis by blast
qed

section \<open>Nobody is matched twice\<close>

definition matches_ok :: "ImportUser list \<Rightarrow> bool" where
  "matches_ok t \<longleftrightarrow> distinct (map eid t) \<and>
     list_all (\<lambda>a. eid a \<noteq> [] \<and> (imu_user a = None) = (imu_matchedBy a = None)) t \<and>
     list_all (\<lambda>a. list_all (\<lambda>b. matched_id a \<noteq> [] \<and> matched_id a = matched_id b \<longrightarrow> eid a = eid b) t) t"

lemma replaced_matches_ok:
  assumes ok: "matches_ok t" and row: "find_row t (eid iu) = Some row"
    and self: "(imu_user iu = None) = (imu_matchedBy iu = None)"
    and new: "matched_id iu = [] \<or> matched_id iu = matched_id row \<or> (\<forall>b \<in> set t. matched_id b \<noteq> matched_id iu)"
  shows "matches_ok (replace_row iu t)"
proof -
  have member: "b = iu \<or> (b \<in> set t \<and> eid b \<noteq> eid iu)" if "b \<in> set (replace_row iu t)" for b
    using that by (auto simp: replace_row_def split: if_splits)
  have r: "row \<in> set t" "eid row = eid iu" using row_found [OF row] by simp_all
  have one: "matched_id a \<noteq> [] \<and> matched_id a = matched_id b \<longrightarrow> eid a = eid b"
    if "a \<in> set (replace_row iu t)" "b \<in> set (replace_row iu t)" for a b
    using member [OF that(1)] member [OF that(2)] ok new r unfolding matches_ok_def list_all_iff by metis
  have "eid b \<noteq> [] \<and> (imu_user b = None) = (imu_matchedBy b = None)" if "b \<in> set (replace_row iu t)" for b
    using member [OF that] ok self r unfolding matches_ok_def list_all_iff by metis
  moreover have "distinct (map eid (replace_row iu t))" using ok by (simp add: matches_ok_def)
  ultimately show ?thesis using one unfolding matches_ok_def list_all_iff by blast
qed

lemma save_matches_ok:
  assumes ok: "matches_ok (pst_importUsers s)" and row: "find_row (pst_importUsers s) (eid iu) = Some row"
    and self: "(imu_user iu = None) = (imu_matchedBy iu = None)"
    and new: "matched_id iu = [] \<or> matched_id iu = matched_id row \<or> (\<forall>b \<in> set (pst_importUsers s). matched_id b \<noteq> matched_id iu)"
  shows "changes s (\<lambda>s'. matches_ok (pst_importUsers s')) (bindE (importUser_save env iu) (\<lambda>_. retE r))"
proof (rule changes_end)
  have "eid iu \<noteq> []" using ok row_found [OF row] by (auto simp: matches_ok_def list_all_iff)
  from import_saved [OF this] obtain iu' n where saved: "snd (importUser_save env iu s) = s\<lparr>pst_writes := n\<rparr> \<or>
      snd (importUser_save env iu s) = s\<lparr>pst_importUsers := replace_row iu' (pst_importUsers s), pst_writes := n\<rparr>"
    "stamped (pe_now env) iu iu'" by blast
  have "matches_ok (replace_row iu' (pst_importUsers s))"
    using stamped_import_sel [OF saved(2)] row self new by (intro replaced_matches_ok [OF ok]) simp_all
  with saved(1) ok show "changes s (\<lambda>s'. matches_ok (pst_importUsers s')) (importUser_save env iu)"
    by (auto simp: changes_def)
qed

lemma found_import_row:
  assumes "importUser_findById env i s = (Inr iu, s)"
  shows "\<exists>row. find_row (pst_importUsers s) (eid iu) = Some row \<and> iu = with_match s row"
  using found_import [OF assms] row_found by fastforce

lemma unmatched:
  assumes "hasMatch env u s = (Inr None, s)"
  shows "\<forall>b \<in> set (pst_importUsers s). matched_id b \<noteq> [eid u]"
proof -
  have scope: "scope_query (addQuery (new_Scope AndOp) q) = q" for q :: "ImportUser \<Rightarrow> bool"
    by (rule ext) (simp add: addQuery_def new_Scope_def scope_query_def)
  from assms have "List.find (\<lambda>iu. map_option eid (imu_user iu) = Some (eid u)) (pst_importUsers s) = None"
    by (auto simp: hasMatch_def queryE_def byUserMatch_def bindR_def scope split: if_splits)
  then show ?thesis by (auto simp: find_None_iff matched_id_def split: option.splits)
qed

lemma with_match_user: "(imu_user (with_match s iu) = None) = (imu_user iu = None)"
  by (simp add: with_match_def)

lemma consistent_row:
  "matches_ok t \<Longrightarrow> find_row t i = Some row \<Longrightarrow> (imu_user row = None) = (imu_matchedBy row = None)"
  using row_found by (fastforce simp: matches_ok_def list_all_iff)

lemma match_requests_ok:
  assumes ok: "matches_ok (pst_importUsers s)"
  shows "changes s (\<lambda>s'. matches_ok (pst_importUsers s')) (uc_setMatch env me i k)"
    and "changes s (\<lambda>s'. matches_ok (pst_importUsers s')) (uc_removeMatch env me i)"
    and "changes s (\<lambda>s'. matches_ok (pst_importUsers s')) (uc_updateFlag env me i b)"
proof -
  show "changes s (\<lambda>s'. matches_ok (pst_importUsers s')) (uc_setMatch env me i k)"
    unfolding uc_setMatch_def
  proof (rule changes_bind [OF pure_start], clarify, rule changes_bind, rule people_pure, rule changes_bind, rule people_pure,
      rule changes_if, rule changes_basic, rule changes_bind, rule people_pure, rule changes_if, rule changes_basic,
      rule changes_after_lift, goal_cases)
    case (1 u d iu v other iu')
    then have iu': "iu' = iu\<lparr>imu_user := Some v, imu_matchedBy := Some MATCH_MANUAL\<rparr>"
      by (auto simp: setMatch_def split: if_splits)
    from found_import_row [OF 1(2)] obtain row where "find_row (pst_importUsers s) (eid iu) = Some row" by blast
    then show ?case using unmatched [of env v s] 1(5,6) unfolding iu'
      by (intro save_matches_ok [OF ok]) (auto simp: matched_id_def)
  qed
  show "changes s (\<lambda>s'. matches_ok (pst_importUsers s')) (uc_removeMatch env me i)"
    unfolding uc_removeMatch_def Let_def
  proof (rule changes_bind [OF pure_start], clarify, rule changes_bind, rule people_pure, rule changes_if, rule changes_basic, goal_cases)
    case (1 u d iu)
    from found_import_row [OF 1(2)] obtain row where "find_row (pst_importUsers s) (eid iu) = Some row" by blast
    then show ?case by (intro save_matches_ok [OF ok]) (auto simp: revokeMatch_def matched_id_def)
  qed
  show "changes s (\<lambda>s'. matches_ok (pst_importUsers s')) (uc_updateFlag env me i b)"
    unfolding uc_updateFlag_def Let_def
  proof (rule changes_bind [OF pure_start], clarify, rule changes_bind, rule people_pure, rule changes_if, rule changes_basic, goal_cases)
    case (1 u d iu)
    from found_import_row [OF 1(2)] obtain row where row: "find_row (pst_importUsers s) (eid iu) = Some row" "iu = with_match s row" by blast
    have "matched_id (iu\<lparr>imu_flagged := b\<rparr>) = matched_id iu" by (simp add: matched_id_def)
    then show ?case using row consistent_row [OF ok row(1)] with_match_user [of s row]
      by (intro save_matches_ok [OF ok, of _ row]) simp_all
  qed
qed

lemma keeps_imports:
  "keepsE pst_importUsers (school_repo_save env d)" "keepsE pst_importUsers (user_save env u)"
  "keepsE pst_importUsers (flush_users env us)" "keepsE pst_importUsers (account_service_save env a)"
proof -
  show "keepsE pst_importUsers (school_repo_save env d)"
    by (auto simp: keepsE_def school_repo_save_def bindE_def fresh_ref_def Let_def queryE_def db_write_def
        split: option.split sum.split prod.split)
  show "keepsE pst_importUsers (user_save env u)" "keepsE pst_importUsers (flush_users env us)"
    by (auto simp: user_save_def flush_users_def intro!: keeps_db_write keepsE_modify)
  show "keepsE pst_importUsers (account_service_save env a)"
    using keeps_other_tables [of env a] by (simp add: keepsE_def)
qed

lemma keeps_import_modes:
  "keepsE pst_importUsers (startSchoolInUserMigration env me b)" "keepsE pst_importUsers (endSchoolInMaintenance env me)"
  "keepsE pst_importUsers (endSchoolInUserMigration env me)" "keepsE pst_importUsers (updateUserAndAccount env iu d)"
  unfolding startSchoolInUserMigration_def endSchoolInMaintenance_def endSchoolInUserMigration_def updateUserAndAccount_def Let_def
  by (auto intro!: keepsE_bind keepsE_pure [OF pure_start] keepsE_pure [OF pure_account_services(3)] keeps_imports)

lemma keeps_not_awaited: "\<forall>m \<in> set ms. keepsE v m \<Longrightarrow> keepsE v (not_awaited ms)"
  by (induction ms) (auto intro!: keepsE_bind keepsE_catch)

lemma filtered_matches_ok: "matches_ok t \<Longrightarrow> matches_ok (filter P t)"
  by (auto simp: matches_ok_def list_all_iff distinct_map_filter)

lemma save_request_ok: "runs (\<lambda>s. matches_ok (pst_importUsers s)) (saveAllUsersMatches env me) (\<lambda>_. True)"
proof -
  have keep: "runs (\<lambda>s. matches_ok (pst_importUsers s)) m (\<lambda>_. True)" if "keepsE pst_importUsers m" for m :: "'a people"
    using that by (simp add: runs_def keepsE_def)
  have delete: "runs (\<lambda>s. matches_ok (pst_importUsers s)) (deleteImportUsersBySchool env sch) (\<lambda>_. True)" for sch
    by (auto simp: runs_def deleteImportUsersBySchool_def db_write_def Let_def modifyE_def filtered_matches_ok split: option.split)
  show ?thesis unfolding saveAllUsersMatches_def split_beta
    by (intro runs_bind [where Q = "\<lambda>_. True"] keep delete)
      (auto intro!: keepsE_bind keepsE_pure [OF pure_start] keepsE_pure [OF pure_import_queries(3)] keeps_imports
        keeps_import_modes keeps_not_awaited)
qed

text \<open>
  C8. No request to the import ends with two users to be imported that are matched with the same
  user, whatever it answers: if there are none before, there are none after it; and a match always
  says who made it.
\<close>

theorem nobody_is_matched_twice:
  assumes "matches_ok (pst_importUsers s)"
  shows "matches_ok (pst_importUsers (snd (import_request env me request s)))"
proof -
  have answer: "pureE (bindE (liftE r) (\<lambda>x. retE (f x)))" for r and f :: "'a \<Rightarrow> 'b"
    by (intro pureE_bind) simp_all
  have "changes s (\<lambda>s'. matches_ok (pst_importUsers s')) (import_request env me request)"
  proof (cases request)
    case (FindImportUsers a b c d e)
    show ?thesis unfolding FindImportUsers by (auto intro!: changes_pure pureE_bind people_pure)
  next
    case (FindUnmatched a b c)
    show ?thesis unfolding FindUnmatched by (auto intro!: changes_pure pureE_bind people_pure)
  next
    case SaveMatches
    have "changes s (\<lambda>s'. matches_ok (pst_importUsers s')) (saveAllUsersMatches env me)"
      using runsD [OF save_request_ok assms, of env me] by (simp add: changes_def)
    then show ?thesis unfolding SaveMatches by (simp add: changes_then_pure)
  next
    case (StartMigration b)
    show ?thesis unfolding StartMigration import_request.simps
      by (rule changes_then_pure, rule changes_keeps [OF keeps_import_modes(1)]) (simp_all add: assms)
  next
    case StartSync
    show ?thesis unfolding StartSync import_request.simps
      by (rule changes_then_pure, rule changes_keeps [OF keeps_import_modes(2)]) (simp_all add: assms)
  qed (auto intro!: changes_then_pure match_requests_ok [OF assms] answer)
  with assms show ?thesis by (auto simp: changes_def)
qed

section \<open>The mode of a school\<close>

text \<open>
  What a school is in: no import, the import of users with the time since when it is closed, the
  time after it, closed until the first synchronisation.
\<close>

definition import_mode :: "school \<Rightarrow> bool option \<times> date option" where
  "import_mode e = (sch_inUserMigration e, sch_inMaintenanceSince e)"

text \<open>The next mode that each request leads to.\<close>

fun next_mode :: "date \<Rightarrow> ImportRequest \<Rightarrow> bool option \<times> date option \<Rightarrow> (bool option \<times> date option) option" where
  "next_mode now (StartMigration _) (None, t) = Some (Some True, Some now)"
| "next_mode now SaveMatches (Some True, Some t) = Some (Some False, Some t)"
| "next_mode now StartSync (Some False, Some t) = Some (Some False, Some t)"
| "next_mode now (StartMigration _) m = None"
| "next_mode now SaveMatches m = None"
| "next_mode now StartSync m = None"
| "next_mode now _ m = Some m"

definition own_mode :: "people_state \<Rightarrow> EntityId \<Rightarrow> (bool option \<times> date option) option" where
  "own_mode s i = map_option import_mode (find_row (pst_schools s) i)"

lemma saved_mode:
  assumes run: "school_repo_save env d s = (Inr x, s')" and id: "sdo_id d = Some i" "i \<noteq> []"
    and old: "find_row (pst_schools s) i = Some old"
  shows "own_mode s' i = Some (sdo_inUserMigration d, kept_when_absent (sch_inMaintenanceSince old) (sdo_inMaintenanceSince d))"
proof -
  have "truthy (sdo_id d)" using id by (simp add: truthy_def)
  from school_save_known [OF run this] row_found [OF old] show ?thesis
    by (auto simp: id(1) old own_mode_def find_replace_row import_mode_def)
qed

lemma keeps_schools:
  "keepsE pst_schools (importUser_save env iu)" "keepsE pst_schools (flush_users env us)"
  "keepsE pst_schools (deleteImportUsersBySchool env sch)" "keepsE pst_schools (updateUserAndAccount env iu d)"
proof -
  have account: "keepsE pst_schools (account_service_save env a)" for a
    using keeps_other_tables [of env a] by (simp add: keepsE_def)
  show "keepsE pst_schools (importUser_save env iu)" "keepsE pst_schools (flush_users env us)"
    "keepsE pst_schools (deleteImportUsersBySchool env sch)"
    by (auto simp: importUser_save_def flush_users_def deleteImportUsersBySchool_def intro!: keeps_db_write keepsE_modify)
  show "keepsE pst_schools (updateUserAndAccount env iu d)"
    by (auto simp: updateUserAndAccount_def user_save_def
        intro!: keepsE_bind keepsE_pure [OF pure_account_services(3)] keeps_db_write keepsE_modify account)
qed

lemma keeps_schools_matching:
  "keepsE pst_schools (uc_setMatch env me i k)" "keepsE pst_schools (uc_removeMatch env me i)"
  "keepsE pst_schools (uc_updateFlag env me i b)"
  by (auto simp: uc_setMatch_def uc_removeMatch_def uc_updateFlag_def Let_def
      intro!: keepsE_bind keepsE_pure [OF pure_start] keepsE_pure [OF pure_import_queries(1)] keepsE_pure [OF pure_import_queries(2)]
        keepsE_pure [OF pure_people_repositories(1)] keeps_schools)

lemma ended_mode:
  assumes run: "endSchoolInUserMigration env me s = (Inr (), s')" and u: "user_findById me True s = (Inr u, s)"
    and id: "eid (usr_school u) \<noteq> []"
  shows "\<exists>t. own_mode s (eid (usr_school u)) = Some (Some True, Some t) \<and> own_mode s' (eid (usr_school u)) = Some (Some False, Some t)"
proof -
  from run obtain v d s1 where start: "import_start env me ''SCHOOL_IMPORT_USERS_MIGRATE'' s = (Inr (v, d), s1)"
    and rest: "(if \<not> truthy (sdo_externalId d) \<or> sdo_inUserMigration d \<noteq> Some True \<or> sdo_inMaintenanceSince d = None
       then throwE (BadRequestException ''School cannot exit from user migration mode'')
       else bindE (school_repo_save env (d\<lparr>sdo_inUserMigration := Some False\<rparr>)) (\<lambda>_. retE ())) s1 = (Inr (), s')"
    unfolding endSchoolInUserMigration_def bindE_eq_Inr [of "import_start env me _"] by auto
  from started [OF start] u obtain e where e: "s1 = s" "find_row (pst_schools s) (eid (usr_school u)) = Some e" "d = school_mapEntityToDO env e"
    by auto
  from rest obtain x where saved: "school_repo_save env (d\<lparr>sdo_inUserMigration := Some False\<rparr>) s = (Inr x, s')"
    and guard: "sdo_inUserMigration d = Some True" "sdo_inMaintenanceSince d \<noteq> None"
    by (auto simp: e(1) throwE_def bindE_eq_Inr retE_def split: if_splits)
  have "own_mode s' (eid (usr_school u)) = Some (Some False, sch_inMaintenanceSince e)"
    using saved_mode [OF saved, of "eid (usr_school u)" e] id e row_found [OF e(2)] guard
    by (auto simp: kept_when_absent_def split: option.split)
  with guard e show ?thesis by (auto simp: own_mode_def import_mode_def)
qed

text \<open>The moves of the accounts leave the school of the user who asked, and the schools.\<close>

lemma saved_matches:
  assumes tables: "import_tables s" and u: "user_findById me True s = (Inr u, s)"
    and run: "saveAllUsersMatches env me s = (Inr (), s')"
  shows "\<exists>s2 v. endSchoolInUserMigration env me s2 = (Inr (), s') \<and> user_findById me True s2 = (Inr v, s2) \<and>
    eid (usr_school v) = eid (usr_school u) \<and> pst_schools s2 = pst_schools s \<and> eid (usr_school u) \<noteq> []"
proof -
  let ?i = "eid (usr_school u)" and ?w = "school_of s"
  let ?moves = "\<lambda>ius d. bindE (flush_users env (map moved_user (filter (ready_to_move d) ius)))
        (\<lambda>_. not_awaited (map (\<lambda>iu. updateUserAndAccount env iu d) ius))"
  from run obtain y1 s1 where y1: "import_start env me ''SCHOOL_IMPORT_USERS_MIGRATE'' s = (Inr y1, s1)"
    and r1: "(case y1 of (currentUser, school) \<Rightarrow>
      bindE (findImportUsers env (usr_school currentUser) (empty_scope\<lparr>ius_matches := Some [SCOPE_MANUAL, SCOPE_AUTO]\<rparr>) None None None)
        (\<lambda>(importUsers, n). bindE (if n > 0 then ?moves importUsers school else retE ())
          (\<lambda>_. bindE (deleteImportUsersBySchool env (usr_school currentUser)) (\<lambda>_. endSchoolInUserMigration env me)))) s1 = (Inr (), s')"
    unfolding saveAllUsersMatches_def bindE_eq_Inr [of "import_start env me _"] by blast
  obtain u' d where ud: "y1 = (u', d)" by fastforce
  note start = y1 [unfolded ud]
  from r1 [unfolded ud prod.case] obtain y2 s1' where y2: "findImportUsers env (usr_school u')
      (empty_scope\<lparr>ius_matches := Some [SCOPE_MANUAL, SCOPE_AUTO]\<rparr>) None None None s1 = (Inr y2, s1')"
    and r2: "(case y2 of (importUsers, n) \<Rightarrow> bindE (if n > 0 then ?moves importUsers d else retE ())
          (\<lambda>_. bindE (deleteImportUsersBySchool env (usr_school u')) (\<lambda>_. endSchoolInUserMigration env me))) s1' = (Inr (), s')"
    unfolding bindE_eq_Inr [of "findImportUsers env _ _ _ _ _"] by blast
  obtain ius n where y2': "y2 = (ius, n)" by fastforce
  note found = y2 [unfolded y2']
  from r2 [unfolded y2' prod.case] obtain x2 s2 x3 s3 where
    moves: "(if n > 0 then ?moves ius d else retE ()) s1' = (Inr x2, s2)"
    and delete: "deleteImportUsersBySchool env (usr_school u') s2 = (Inr x3, s3)"
    and finish: "endSchoolInUserMigration env me s3 = (Inr (), s')"
    unfolding bindE_eq_Inr [of "if n > 0 then ?moves ius d else retE ()"] bindE_eq_Inr [of "deleteImportUsersBySchool env _"] by blast
  from started [OF start] u obtain e where "s1 = s" "u' = u" and e: "find_row (pst_schools s) ?i = Some e" by auto
  have "s1' = s" using pureE_state [OF pure_import_queries(3) found] \<open>s1 = s\<close> by simp
  have id: "?i \<noteq> []" using tables row_found [OF e] by (auto simp: import_tables_def list_all_iff)
  have agree: "agrees ?w (moved_user iu)" if "iu \<in> set ius" "ready_to_move d iu" for iu
    using that found_imports [OF found] moved_agrees [OF tables, of _ d] \<open>s1 = s\<close> by blast
  have "runs (moving ?i ?w (others ?i s)) (if n > 0 then ?moves ius d else retE ()) (\<lambda>_. True)"
    using agree by (auto intro!: runs_bind [OF runs_flush] runs_not_awaited runs_update runs_ret simp: list_all_iff)
  from runsD [OF this, of s1'] moves \<open>s1' = s\<close> have w2: "school_of s2 = ?w" by simp
  have "keepsE school_of (deleteImportUsersBySchool env (usr_school u'))"
    unfolding deleteImportUsersBySchool_def by (intro keeps_db_write keepsE_modify) (simp_all add: school_of_def)
  from keepsE_D [OF this delete] w2 have w3: "school_of s3 = ?w" by simp
  have "keepsE pst_schools (if n > 0 then ?moves ius d else retE ())"
    by (auto intro!: keepsE_bind keeps_schools keeps_not_awaited)
  from keepsE_D [OF this moves] keepsE_D [OF keeps_schools(3) delete] \<open>s1' = s\<close>
  have schools: "pst_schools s3 = pst_schools s" by simp
  from finish obtain v d' s4 where "import_start env me ''SCHOOL_IMPORT_USERS_MIGRATE'' s3 = (Inr (v, d'), s4)"
    unfolding endSchoolInUserMigration_def bindE_eq_Inr [of "import_start env me _"] by auto
  from started [OF this] have v: "user_findById me True s3 = (Inr v, s3)" by blast
  have "eid (usr_school v) = ?i"
    using own_school [of s3 me] own_school [of s me] w3 u v by (auto simp: found_user)
  with finish v schools id show ?thesis by blast
qed

lemma started_mode:
  assumes run: "startSchoolInUserMigration env me b s = (Inr (), s')" and u: "user_findById me True s = (Inr u, s)"
    and id: "eid (usr_school u) \<noteq> []"
  shows "\<exists>t. own_mode s (eid (usr_school u)) = Some (None, t) \<and>
    own_mode s' (eid (usr_school u)) = Some (Some True, Some (pe_now env))"
proof -
  let ?set = "\<lambda>d. d\<lparr>sdo_inUserMigration := Some True, sdo_inMaintenanceSince := Some (pe_now env),
    sdo_externalId := sdo_officialSchoolNumber d\<rparr>"
  from run obtain y s1 where y: "import_start env me ''SCHOOL_IMPORT_USERS_MIGRATE'' s = (Inr y, s1)"
    and rest: "(case y of (_, d) \<Rightarrow> bindE (liftE (checkSchoolNumber d b)) (\<lambda>_.
      bindE (liftE (checkSchoolNotInMigration d)) (\<lambda>_.
      bindE (liftE (checkNoExistingLdapBeforeStart env d)) (\<lambda>_.
        bindE (if b then bindE (liftE (getMigrationSystem env)) (\<lambda>m.
                 retE ((?set d)\<lparr>sdo_systems := map_option (\<lambda>is. if eid m \<in> set is then is else is @ [eid m]) (sdo_systems (?set d))\<rparr>))
               else retE (?set d)) (\<lambda>d2.
        bindE (school_repo_save env d2) (\<lambda>_. retE ())))))) s1 = (Inr (), s')"
    unfolding startSchoolInUserMigration_def Let_def bindE_eq_Inr [of "import_start env me _"] by blast
  obtain u' d where ud: "y = (u', d)" by fastforce
  from started [OF y [unfolded ud]] u obtain e where e: "s1 = s" "find_row (pst_schools s) (eid (usr_school u)) = Some e"
    "d = school_mapEntityToDO env e" by auto
  have guard: "sdo_inUserMigration d = None"
    using rest by (auto simp: ud bindE_eq_Inr liftE_def checkSchoolNotInMigration_def guardR_def split: if_splits)
  from rest obtain d2 x where saved: "school_repo_save env d2 s = (Inr x, s')"
    and d2: "sdo_id d2 = sdo_id d" "sdo_inUserMigration d2 = Some True" "sdo_inMaintenanceSince d2 = Some (pe_now env)"
    by (auto simp: ud e(1) bindE_eq_Inr liftE_def retE_def split: if_splits)
  have "own_mode s' (eid (usr_school u)) = Some (Some True, Some (pe_now env))"
    using saved_mode [OF saved, of "eid (usr_school u)" e] id e row_found [OF e(2)] d2 by (simp add: kept_when_absent_def)
  with guard e show ?thesis by (simp add: own_mode_def import_mode_def)
qed

lemma synced_mode:
  assumes run: "endSchoolInMaintenance env me s = (Inr (), s')" and u: "user_findById me True s = (Inr u, s)"
    and id: "eid (usr_school u) \<noteq> []"
  shows "\<exists>t. own_mode s (eid (usr_school u)) = Some (Some False, Some t) \<and> own_mode s' (eid (usr_school u)) = Some (Some False, Some t)"
proof -
  from run obtain y s1 where y: "import_start env me ''SCHOOL_IMPORT_USERS_MIGRATE'' s = (Inr y, s1)"
    and rest: "(case y of (_, d) \<Rightarrow>
       if sdo_inUserMigration d \<noteq> Some False \<or> sdo_inMaintenanceSince d = None \<or> \<not> truthy (sdo_externalId d)
       then throwE (BadRequestException ''Sync cannot be activated for school'')
       else bindE (school_repo_save env (d\<lparr>sdo_inMaintenanceSince := None\<rparr>)) (\<lambda>_. retE ())) s1 = (Inr (), s')"
    unfolding endSchoolInMaintenance_def bindE_eq_Inr [of "import_start env me _"] by blast
  obtain u' d where ud: "y = (u', d)" by fastforce
  from started [OF y [unfolded ud]] u obtain e where e: "s1 = s" "find_row (pst_schools s) (eid (usr_school u)) = Some e"
    "d = school_mapEntityToDO env e" by auto
  from rest obtain x where saved: "school_repo_save env (d\<lparr>sdo_inMaintenanceSince := None\<rparr>) s = (Inr x, s')"
    and guard: "sdo_inUserMigration d = Some False" "sdo_inMaintenanceSince d \<noteq> None"
    by (auto simp: ud e(1) throwE_def bindE_eq_Inr retE_def split: if_splits)
  have "own_mode s' (eid (usr_school u)) = Some (Some False, sch_inMaintenanceSince e)"
    using saved_mode [OF saved, of "eid (usr_school u)" e] id e row_found [OF e(2)] guard by (simp add: kept_when_absent_def)
  with guard e show ?thesis by (auto simp: own_mode_def import_mode_def)
qed

lemma started_own_mode:
  assumes "has_started env me p s" and "import_tables s" and "user_findById me True s = (Inr u, s)"
  shows "\<exists>m. own_mode s (eid (usr_school u)) = Some m" and "eid (usr_school u) \<noteq> []"
proof -
  from assms(1,3) obtain e where e: "find_row (pst_schools s) (eid (usr_school u)) = Some e"
    by (auto simp: has_started_def dest!: started)
  then show "\<exists>m. own_mode s (eid (usr_school u)) = Some m" "eid (usr_school u) \<noteq> []"
    using assms(2) row_found [OF e] by (auto simp: own_mode_def import_tables_def list_all_iff)
qed

lemma keeps_schools_request:
  assumes "\<And>m. next_mode now request m = Some m"
  shows "keepsE pst_schools (import_request env me request)"
proof -
  note finds = keepsE_pure [OF pure_import_queries(4)] keepsE_pure [OF pure_import_queries(5)]
  show ?thesis
    using assms [of "(None, None)"]
    by (cases request) (auto intro!: keepsE_bind finds keeps_schools_matching)
qed

text \<open>
  C26. A request to the import that succeeds moves the own school as the automaton \<open>next_mode\<close> says:
  it opens the import of a school without one and closes the school at that time, ends an import
  that is open, and otherwise leaves the mode. The start of the synchronisation, which is to open the
  school again, succeeds only after an import, but leaves the school closed: the constructor of
  \<^verbatim>\<open>School\<close> does not assign a date that is missing, and the row keeps the old one.
\<close>

theorem import_follows_modes:
  assumes tables: "import_tables s" and u: "user_findById me True s = (Inr u, s)"
    and run: "import_request env me request s = (Inr a, s')"
  shows "\<exists>m m'. own_mode s (eid (usr_school u)) = Some m \<and> next_mode (pe_now env) request m = Some m' \<and>
    own_mode s' (eid (usr_school u)) = Some m'"
proof -
  let ?i = "eid (usr_school u)"
  note known = started_own_mode [OF import_request_started [OF run] tables u]
  have same: ?thesis if "\<And>m. next_mode (pe_now env) request m = Some m"
    using known(1) that keepsE_D [OF keeps_schools_request [OF that] run] by (fastforce simp: own_mode_def)
  show ?thesis
  proof (cases request)
    case SaveMatches
    from run have "saveAllUsersMatches env me s = (Inr (), s')"
      by (auto simp: SaveMatches bindE_eq_Inr retE_def)
    from saved_matches [OF tables u this] obtain s2 v where "endSchoolInUserMigration env me s2 = (Inr (), s')"
      "user_findById me True s2 = (Inr v, s2)" "eid (usr_school v) = ?i" "pst_schools s2 = pst_schools s" by blast
    with ended_mode [of env me s2 s' v] known(2) show ?thesis by (auto simp: SaveMatches own_mode_def)
  next
    case (StartMigration b)
    from run have "startSchoolInUserMigration env me (nullish b True) s = (Inr (), s')"
      by (auto simp: StartMigration bindE_eq_Inr retE_def)
    from started_mode [OF this u known(2)] show ?thesis by (auto simp: StartMigration)
  next
    case StartSync
    from run have "endSchoolInMaintenance env me s = (Inr (), s')"
      by (auto simp: StartSync bindE_eq_Inr retE_def)
    from synced_mode [OF this u known(2)] show ?thesis by (auto simp: StartSync)
  qed (rule same, simp)+
qed

section \<open>The end of an import that is not open\<close>

lemma not_awaited_returns: "\<exists>s'. not_awaited ms s = (Inr (), s')"
proof (induction ms arbitrary: s)
  case (Cons m ms)
  have "\<exists>s1. catchE m (\<lambda>_. retE ()) s = (Inr (), s1)"
    by (cases "m s") (auto simp: catchE_def retE_def split: sum.split)
  with Cons show ?case by (auto simp: bindE_def)
qed (simp add: retE_def)

lemma saving_deletes:
  assumes start: "import_start env me ''SCHOOL_IMPORT_USERS_MIGRATE'' s = (Inr (u, d), s)"
    and safe: "\<forall>w. pe_fails env w = None" and id: "pe_isObjectId env (eid (usr_school u))"
  shows "\<forall>iu \<in> set (pst_importUsers (snd (saveAllUsersMatches env me s))). imu_school iu \<noteq> eid (usr_school u)"
proof -
  let ?moves = "\<lambda>ius. bindE (flush_users env (map moved_user (filter (ready_to_move d) ius)))
        (\<lambda>_. not_awaited (map (\<lambda>iu. updateUserAndAccount env iu d) ius))"
  obtain ius n where found: "findImportUsers env (usr_school u)
      (empty_scope\<lparr>ius_matches := Some [SCOPE_MANUAL, SCOPE_AUTO]\<rparr>) None None None s = (Inr (ius, n), s)"
    using id by (auto simp: findImportUsers_def queryE_def bindR_def import_scope_def import_bySchool_def empty_scope_def Let_def)
  have "\<exists>s1. flush_users env us s = (Inr (), s1)" for us
    using safe by (auto simp: flush_users_def db_write_def Let_def modifyE_def)
  then obtain s1 where "flush_users env (map moved_user (filter (ready_to_move d) ius)) s = (Inr (), s1)" by blast
  with not_awaited_returns [of "map (\<lambda>iu. updateUserAndAccount env iu d) ius" s1]
  obtain s2' where "?moves ius s = (Inr (), s2')" by (auto simp: bindE_def)
  then obtain s2 where moves: "(if n > 0 then ?moves ius else retE ()) s = (Inr (), s2)"
    by (cases "n > 0") (auto simp: retE_def)
  obtain s3 where delete: "deleteImportUsersBySchool env (usr_school u) s2 = (Inr (), s3)"
    and gone: "\<forall>iu \<in> set (pst_importUsers s3). imu_school iu \<noteq> eid (usr_school u)"
    using safe by (auto simp: deleteImportUsersBySchool_def db_write_def Let_def modifyE_def)
  have "saveAllUsersMatches env me s = endSchoolInUserMigration env me s3"
    using start found moves delete by (simp add: saveAllUsersMatches_def bindE_Inr)
  moreover have "pst_importUsers (snd (endSchoolInUserMigration env me s3)) = pst_importUsers s3"
    using keeps_import_modes(3) [of env me] by (simp add: keepsE_def)
  ultimately show ?thesis using gone by simp
qed

text \<open>
  The end of an import is not atomic: the matches are carried out and the users to be imported
  are deleted before the mode of the school is looked at. When no import is open, a permitted
  request fails, but the users to be imported of the school are gone, with their matches.
\<close>

theorem failed_end_still_deletes:
  assumes start: "import_start env me ''SCHOOL_IMPORT_USERS_MIGRATE'' s = (Inr (u, d), s)" and tables: "import_tables s"
    and safe: "\<forall>w. pe_fails env w = None" and id: "pe_isObjectId env (eid (usr_school u))"
    and closed: "\<forall>t. own_mode s (eid (usr_school u)) \<noteq> Some (Some True, Some t)"
  shows "(\<exists>e. fst (import_request env me SaveMatches s) = Inl e) \<and>
    filter (\<lambda>iu. imu_school iu = eid (usr_school u)) (pst_importUsers (snd (import_request env me SaveMatches s))) = []"
proof -
  have u: "user_findById me True s = (Inr u, s)" using started [OF start] by blast
  have same: "snd (import_request env me SaveMatches s) = snd (saveAllUsersMatches env me s)"
    by (cases "saveAllUsersMatches env me s") (auto simp: bindE_def retE_def split: sum.split)
  have "fst (import_request env me SaveMatches s) \<noteq> Inr a" for a
  proof
    assume "fst (import_request env me SaveMatches s) = Inr a"
    then obtain s' where run: "saveAllUsersMatches env me s = (Inr (), s')"
      by (cases "saveAllUsersMatches env me s") (auto simp: bindE_def retE_def split: sum.splits)
    from saved_matches [OF tables u this] obtain s2 v where "endSchoolInUserMigration env me s2 = (Inr (), s')"
      "user_findById me True s2 = (Inr v, s2)" "eid (usr_school v) = eid (usr_school u)" "pst_schools s2 = pst_schools s"
      "eid (usr_school u) \<noteq> []" by blast
    with ended_mode [of env me s2 s' v] closed show False by (auto simp: own_mode_def)
  qed
  moreover have "filter (\<lambda>iu. imu_school iu = eid (usr_school u)) (pst_importUsers (snd (saveAllUsersMatches env me s))) = []"
    using saving_deletes [OF start safe id] by (simp add: filter_empty_conv)
  ultimately show ?thesis unfolding same by (cases "fst (import_request env me SaveMatches s)") auto
qed

end
