(* ===== verification/LoginProperties.thy ===== *)
theory LoginProperties
  imports MigrationProperties
begin

text \<open>
  What stands before a login through another system: the code, the token and the user it is for.
\<close>

text \<open>A code that the system exchanged for tokens, of which the id token is verified with its key.\<close>

definition code_accepted ::
  "people_env \<Rightarrow> oauth_env \<Rightarrow> EntityId \<Rightarrow> string option \<Rightarrow> SystemDto \<Rightarrow> OauthTokenResponse \<Rightarrow> bool" where
  "code_accepted env oenv systemId code system tokens \<longleftrightarrow>
     truthy code \<and> load_system env systemId = Inr system \<and> truthy (syd_id system) \<and>
     (case syd_oauthConfig system of None \<Rightarrow> False
      | Some c \<Rightarrow>
          oae_sendTokenRequest oenv (createTokenRequestPayload c (oae_decrypt oenv (oac_clientSecret c)) (the code) None) = Some tokens \<and>
          (case oae_getPublicKey oenv c of Inl _ \<Rightarrow> False
           | Inr key \<Rightarrow> oae_verify oenv (otr_id_token tokens) key (oac_issuer c) (oac_clientId c) = Inr ()))"

lemma persist_row_keeps:
  "persist_row now newId t e = (e', t') \<Longrightarrow> timestamped.more e' = timestamped.more e"
  by (cases e) (auto simp: persist_row_def Let_def split: if_splits)

lemma user_more: "timestamped.more (e :: user) = timestamped.more e' \<Longrightarrow> usr_externalId e = usr_externalId e'"
  by (cases e, cases e') auto

lemma saved_externalId:
  assumes "userDO_save env d s = (Inr d', s')"
  shows "udo_externalId d' = udo_externalId d"
proof -
  from assms obtain ds e s1 where ds: "d' = hd ds" "user_saveAll env [d] s = (Inr ds, s')" "user_entity env d s = (Inr e, s1)"
    by (auto simp: userDO_save_def bindE_eq_Inr retE_def user_saveAll_def)
  obtain e' t where p: "persist_row (pe_now env) (pe_newId env) (pst_users s1) e = (e', t)" by fastforce
  have "usr_externalId e = udo_externalId d"
    using ds(3) by (auto simp: user_entity_def bindE_eq_Inr fresh_ref_def Let_def queryE_def row_or_fail_def retE_def
      assign_user_def new_User_def user_mapDOToEntityProperties_def split: option.splits if_splits)
  moreover have "usr_externalId e' = usr_externalId e" using user_more [OF persist_row_keeps [OF p]] .
  moreover have "d' = user_mapEntityToDO env e'"
    using ds p by (auto simp: user_saveAll_def bindE_eq_Inr retE_def db_write_def Let_def split: option.splits)
  ultimately show ?thesis by simp
qed

lemma with_school_externalId [simp]: "usr_externalId (with_school s u) = usr_externalId u"
  by (cases u; simp add: with_school_def split: option.split)

text \<open>The user that an external id and a system name, as a domain object.\<close>

definition named_user :: "people_env \<Rightarrow> people_state \<Rightarrow> string \<Rightarrow> EntityId \<Rightarrow> UserDO \<Rightarrow> bool" where
  "named_user env s x y d \<longleftrightarrow> (\<exists>u \<in> set (pst_users s). d = user_mapEntityToDO env (with_school s u) \<and>
     usr_externalId u = Some x \<and>
     y \<in> set (map (pe_systemId env) (coll_items (sch_systems (usr_school (with_school s u))))))"

lemma found_externalId:
  assumes "userDO_findByExternalId env x y s = (Inr (Some d), s')"
  shows "s' = s \<and> udo_externalId d = Some x \<and> named_user env s x y d"
proof -
  let ?P = "\<lambda>u. y \<in> set (map (pe_systemId env) (coll_items (sch_systems (usr_school u))))"
  let ?t = "map (with_school s) (filter (\<lambda>u. usr_externalId u = Some x) (pst_users s))"
  have "map_option (user_mapEntityToDO env) (List.find ?P ?t) = Some d \<and> s = s'"
    using assms unfolding userDO_findByExternalId_def queryE_def prod.inject sum.inject .
  then obtain v where v: "List.find ?P ?t = Some v" "d = user_mapEntityToDO env v" "s' = s" by blast
  from find_eq_Some [OF v(1)] obtain u where u: "u \<in> set (pst_users s)" "usr_externalId u = Some x" "v = with_school s u"
    "y \<in> set (map (pe_systemId env) (coll_items (sch_systems (usr_school v))))" by auto
  have "named_user env s x y d" unfolding named_user_def v(2) using u by blast
  moreover have "udo_externalId d = Some x" unfolding v(2) u(3) using u(2) by simp
  ultimately show ?thesis using v(3) by simp
qed

lemma provisioned_id:
  assumes "provisionData env penv data s = (Inr i, s')"
  shows "i = xud_externalId (odd_externalUser data)"
proof -
  let ?x = "odd_externalUser data"
  have user: "ensures s1 (\<lambda>d _. udo_externalId d = Some (xud_externalId ?x)) (provisionExternalUser env penv ?x y sid)" for y sid s1
    unfolding provisionExternalUser_def
  proof (rule ensures_pure, rule people_pure, goal_cases)
    case (1 u)
    show ?case
    proof (cases u)
      case (Some d)
      have "udo_externalId d = Some (xud_externalId ?x)" using 1 Some found_externalId [of env _ y s1 d] by blast
      then show ?thesis using Some by (auto simp: ensures_def updated_user_def dest!: saved_externalId)
    next
      case None
      have "udo_externalId d' = Some (xud_externalId ?x)"
        if "userDO_save env (created_user env ?x (the sid)) s1 = (Inr d', s2)" for d' s2
        using saved_externalId [OF that] by (simp add: created_user_def)
      then show ?thesis using None by (auto intro!: ensures_if ensures_bind)
    qed
  qed
  show ?thesis using assms
    by (auto simp: provisionData_def oidc_apply_def bindE_eq_Inr retE_def throwE_def or_default_def
        dest!: ensuresD [OF user] split: SystemProvisioningStrategy.splits)
qed

lemma found_login_user:
  "ensures s (\<lambda>d s'. s' = s \<and> named_user env s x y d) (findUser env oenv idToken x y)"
  unfolding findUser_def
proof (rule ensures_if, rule ensures_basic, rule ensures_pure, rule people_pure, goal_cases)
  case (1 u)
  show ?case
  proof (cases u)
    case None
    then show ?thesis by (simp add: ensures_bind)
  next
    case (Some d)
    then show ?thesis using 1(2) found_externalId [of env x y s d s] by simp
  qed
qed

lemma pure_migration_queries:
  "pureE (isSchoolInMigration env n)" "pureE (shouldUserMigrate env x n y)" "pureE (getMigrationRedirect env n y)"
  "pureE (redirect_to_migration env data y)"
  by (auto simp: isSchoolInMigration_def shouldUserMigrate_def getMigrationRedirect_def redirect_to_migration_def Let_def
      split: option.split intro!: pureE_bind people_pure)

text \<open>The data that an accepted code leads to.\<close>

definition login_data ::
  "people_env \<Rightarrow> oauth_env \<Rightarrow> EntityId \<Rightarrow> string option \<Rightarrow> (OauthDataDto \<Rightarrow> EntityId \<Rightarrow> bool) \<Rightarrow> bool" where
  "login_data env oenv systemId code P \<longleftrightarrow>
     (\<exists>system tokens data. code_accepted env oenv systemId code system tokens \<and>
        provisioning_getData env (oae_provisioning oenv) (otr_access_token tokens) (otr_id_token tokens)
          (the (syd_id system)) = Inr data \<and> P data (the (syd_id system)))"

lemma accepted_data:
  assumes "truthy code" "load_system env systemId = Inr system" "truthy (syd_id system)"
    "extractOauthConfigFromSystem system = Inr c" "requestToken oenv (the code) c None = Inr tokens"
    "validateToken oenv (otr_id_token tokens) c = Inr x"
    "provisioning_getData env (oae_provisioning oenv) (otr_access_token tokens) (otr_id_token tokens) (the (syd_id system)) = Inr data"
    "P data (the (syd_id system))"
  shows "login_data env oenv systemId code P"
proof -
  have "code_accepted env oenv systemId code system tokens"
    using assms(1-6) by (auto simp: code_accepted_def extractOauthConfigFromSystem_def requestToken_def validateToken_def
        bindR_def split: option.splits sum.splits)
  with assms(7,8) show ?thesis unfolding login_data_def by blast
qed

lemma login_changes:
  "changes s (\<lambda>_. \<not> truthy errorCode \<and> login_data env oenv systemId code (\<lambda>_ _. True))
     (authenticateUser env oenv systemId code errorCode redirectTo)"
  unfolding authenticateUser_def
proof (rule changes_if, rule changes_basic, rule changes_if, rule changes_basic, rule changes_after_lift,
    rule changes_if, rule changes_basic, rule changes_after_lift, rule changes_after_lift, rule changes_after_lift,
    rule changes_after_lift, goal_cases)
  case (1 system c tokens x data)
  note facts = 1 [unfolded not_not]
  have "login_data env oenv systemId code (\<lambda>_ _. True)"
    by (rule accepted_data [OF facts(2-8)]) simp
  with facts(1) show ?case by (simp add: changes_def)
qed

lemma login_user:
  "ensures s (\<lambda>(u, _) s'. \<forall>d. u = Some d \<longrightarrow> \<not> truthy errorCode \<and>
       login_data env oenv systemId code (\<lambda>data i. named_user env s' (xud_externalId (odd_externalUser data)) i d))
     (authenticateUser env oenv systemId code errorCode redirectTo)"
  unfolding authenticateUser_def
proof (rule ensures_if, simp, rule ensures_if, simp, rule ensures_lift,
    rule ensures_if, simp, rule ensures_lift, rule ensures_lift, rule ensures_lift, rule ensures_lift,
    rule ensures_pure, rule pure_migration_queries, goal_cases)
  case (1 system c tokens x data m)
  note facts = 1 [unfolded not_not]
  show ?case
  proof (cases m)
    case (Some url)
    then show ?thesis by simp
  next
    case None
    have "ensures s (\<lambda>(u, _) s'. \<forall>d. u = Some d \<longrightarrow> \<not> truthy errorCode \<and>
       login_data env oenv systemId code (\<lambda>data i. named_user env s' (xud_externalId (odd_externalUser data)) i d))
      (bindE (provisionData env (oae_provisioning oenv) data) (\<lambda>externalUserId.
        bindE (findUser env oenv (otr_id_token tokens) externalUserId (the (syd_id system))) (\<lambda>u. retE (Some u, url))))" for url
    proof (rule ensures_bind, rule ensures_bind, goal_cases)
      case (1 i s1 d s2)
      have "named_user env s2 (xud_externalId (odd_externalUser data)) (the (syd_id system)) d"
        using ensuresD [OF found_login_user 1(2)] provisioned_id [OF 1(1)] by simp
      then have "login_data env oenv systemId code (\<lambda>data i. named_user env s2 (xud_externalId (odd_externalUser data)) i d)"
        by (rule accepted_data [OF facts(2-8)])
      with facts(1) show ?case by simp
    qed
    then show ?thesis using None by (simp add: Let_def)
  qed
qed

text \<open>
  C6. A login through another system changes something, or returns a user, only when there is no
  error, the code was exchanged for tokens with the configuration of the system, the id token is
  verified with the key, the issuer and the client id of that system, and the provisioning read
  data from it. The user that is returned is in the table, has the external id that the data names,
  and is in a school that has the system.
\<close>

theorem login_needs_verified_token:
  assumes "authenticateUser env oenv systemId code errorCode redirectTo s = (r, s')"
    and "s' \<noteq> s \<or> (\<exists>d url. r = Inr (Some d, url))"
  shows "\<not> truthy errorCode \<and> login_data env oenv systemId code (\<lambda>data i. \<forall>d url. r = Inr (Some d, url) \<longrightarrow>
    named_user env s' (xud_externalId (odd_externalUser data)) i d)"
proof (cases "\<exists>d url. r = Inr (Some d, url)")
  case True
  then obtain d url where r: "r = Inr (Some d, url)" by blast
  from ensuresD [OF login_user, of env oenv systemId code errorCode redirectTo s] assms(1) r show ?thesis by auto
next
  case False
  with assms have "s' \<noteq> s" by blast
  with login_changes [of s errorCode env oenv systemId code redirectTo] assms(1)
  have "\<not> truthy errorCode \<and> login_data env oenv systemId code (\<lambda>_ _. True)" by (simp add: changes_def)
  with False show ?thesis by (auto simp: login_data_def)
qed

end
