(* ===== verification/MigrationSamples.thy ===== *)
theory MigrationSamples
  imports PeopleSamples ImportProperties LoginProperties
begin

text \<open>
  The school of theory PeopleSamples with an administrator who may edit it and import users, a student
  with a new login, and a system to log in with; the theorems about migration, login and import are
  applied there.
\<close>

definition ex_migration_roles :: role_heap where
  "ex_migration_roles r = (ex_people_roles r)\<lparr>role_permissions := (if r = 9 then [''SCHOOL_EDIT'', ''SCHOOL_IMPORT_USERS_VIEW'',
     ''SCHOOL_IMPORT_USERS_UPDATE'', ''SCHOOL_IMPORT_USERS_MIGRATE''] else [])\<rparr>"

definition ex_oauth :: OauthConfig where
  "ex_oauth = \<lparr>oac_clientId = ''client'', oac_clientSecret = ''secret'', oac_alias = ''alias'', oac_redirectUri = ''back'',
     oac_grantType = ''authorization_code'', oac_tokenEndpoint = ''token'', oac_authEndpoint = ''auth'',
     oac_responseType = ''code'', oac_scope = ''openid'', oac_provider = ''iserv'', oac_logoutEndpoint = ''logout'',
     oac_issuer = ''issuer'', oac_jwksEndpoint = ''keys''\<rparr>"

definition ex_oauth_system :: System where
  "ex_oauth_system = \<lparr>oid = 70, eid = ''system'', ent_createdAt = 0, ent_updatedAt = 0, sys_type = ''oauth'', sys_url = None,
     sys_alias = None, sys_displayName = None, sys_oauthConfig = Some ex_oauth,
     sys_provisioningStrategy = Some STRATEGY_ISERV, sys_oidcConfig = None, sys_ldapConfig = None, sys_provisioningUrl = None\<rparr>"

definition ex_migration_env :: people_env where
  "ex_migration_env = ex_people_env\<lparr>pe_auth := \<lparr>env_roles = ex_migration_roles, env_stack = 3\<rparr>, pe_systems := [ex_oauth_system]\<rparr>"

definition ex_outside :: find_by_id where
  "ex_outside _ _ _ = Inl TypeError"

definition ex_moved :: people_state where
  "ex_moved = ex_people\<lparr>pst_users := [(ex_user 2 ''student'' [8])\<lparr>usr_lastLoginSystemChange := Some 50\<rparr>, ex_user 3 ''admin'' [9]]\<rparr>"

definition ex_finished :: "OauthMigrationDto result \<times> people_state" where
  "ex_finished = uc_setMigration ex_migration_env ex_outside ''school'' False False True ''admin'' ex_moved"

lemma ex_finished_ok: "\<not> isl (fst ex_finished)"
  by code_simp

lemma ex_moved_ok: "rows_have_ids ex_moved" "distinct (map eid (pst_users ex_moved))"
  by code_simp+

lemma returned: "\<not> isl (fst x) \<Longrightarrow> \<exists>y. x = (Inr y, snd x)"
  by (cases x; cases "fst x") auto

theorem finish_marks_users_witness:
  "\<exists>u'. find_row (pst_users (snd ex_finished)) ''student'' = Some u' \<and> usr_outdatedSince u' = Some 100000"
proof -
  from returned [OF ex_finished_ok] obtain dto where
    run: "uc_setMigration ex_migration_env ex_outside ''school'' False False True ''admin'' ex_moved = (Inr dto, snd ex_finished)"
    by (auto simp: ex_finished_def)
  show ?thesis
    using finish_marks_users [OF run ex_moved_ok, of "''student''" "(ex_user 2 ''student'' [8])\<lparr>usr_lastLoginSystemChange := Some 50\<rparr>"]
    by (simp add: ex_moved_def find_row_def ex_user_def new_User_def ex_school_def new_School_def ex_migration_env_def)
qed

definition ex_migrated :: "string result \<times> people_state" where
  "ex_migrated = migrateUser ex_migration_env ''student'' ''new'' ''system'' ex_people"

lemma ex_migrated_ok: "\<not> isl (fst ex_migrated)"
  by code_simp

theorem migration_complete_or_undone_witness:
  "\<exists>u' a'. find_row (pst_users (snd ex_migrated)) ''student'' = Some u' \<and>
    find_row (pst_accounts (snd ex_migrated)) ''account'' = Some a' \<and>
    rehashed ex_migration_env (ex_account ''account'' ''name'' ''student'' None) a'"
proof -
  from returned [OF ex_migrated_ok] obtain url where
    run: "migrateUser ex_migration_env ''student'' ''new'' ''system'' ex_people = (Inr url, snd ex_migrated)"
    by (auto simp: ex_migrated_def)
  show ?thesis
    using migration_complete_or_undone [OF run ex_people_ids, of "ex_user 2 ''student'' [8]" "ex_account ''account'' ''name'' ''student'' None"]
    by (auto simp: find_row_def)
qed

section \<open>The login\<close>

text \<open>The school of the student has the system, in which the student is known as \<open>x\<close>.\<close>

definition ex_known :: people_state where
  "ex_known = ex_people\<lparr>pst_schools := [(ex_school 900 ''school'')\<lparr>sch_systems := coll_of [70]\<rparr>],
     pst_users := [(ex_user 2 ''student'' [8])\<lparr>usr_externalId := Some ''x''\<rparr>, ex_user 3 ''admin'' [9]]\<rparr>"

definition ex_oauth_env :: oauth_env where
  "ex_oauth_env =
     \<lparr>oae_provisioning = \<lparr>pve_decode = (\<lambda>_. Some [(''uuid'', ''x''), (''sub'', ''y'')]), pve_sanis = (\<lambda>_ _. Inl TypeError), pve_sha256 = (\<lambda>x. x)\<rparr>,
      oae_decrypt = (\<lambda>x. x),
      oae_sendTokenRequest = (\<lambda>p. if trp_code p = ''code'' then Some \<lparr>otr_access_token = ''a'', otr_refresh_token = ''r'', otr_id_token = ''i''\<rparr> else None),
      oae_getPublicKey = (\<lambda>_. Inr ''key''),
      oae_verify = (\<lambda>i k s c. if (i, k, s, c) = (''i'', ''key'', ''issuer'', ''client'') then Inr () else Inl TypeError),
      oae_generateJwt = (\<lambda>_. Inr ''jwt''), oae_removeJwt = (\<lambda>_. Inr ())\<rparr>"

definition ex_login :: "(UserDO option \<times> string) result \<times> people_state" where
  "ex_login = authenticateUser ex_migration_env ex_oauth_env ''system'' (Some ''code'') None None ex_known"

lemma ex_login_ok: "(case fst ex_login of Inl _ \<Rightarrow> False | Inr (u, _) \<Rightarrow> u \<noteq> None)"
  by code_simp

theorem login_needs_verified_token_witness:
  "login_data ex_migration_env ex_oauth_env ''system'' (Some ''code'') (\<lambda>_ _. True)"
proof -
  from ex_login_ok obtain d url where d: "fst ex_login = Inr (Some d, url)" by (auto split: sum.splits)
  have run: "authenticateUser ex_migration_env ex_oauth_env ''system'' (Some ''code'') None None ex_known = (fst ex_login, snd ex_login)"
    by (simp add: ex_login_def)
  show ?thesis using login_needs_verified_token [OF run] d by (auto simp: login_data_def)
qed

section \<open>The import\<close>

definition ex_import_user :: "EntityId \<Rightarrow> user option \<Rightarrow> ImportUser" where
  "ex_import_user i u = \<lparr>oid = 50, eid = i, ent_createdAt = 0, ent_updatedAt = 0, imu_school = ''school'', imu_system = ''system'',
     imu_ldapDn = ''uid=name,cn=users'', imu_externalId = ''external'', imu_firstName = ''f'', imu_lastName = ''l'', imu_email = ''e'',
     imu_roleNames = [STUDENT], imu_classNames = [], imu_user = u,
     imu_matchedBy = map_option (\<lambda>_. MATCH_AUTO) u, imu_flagged = False\<rparr>"

definition ex_importing :: people_state where
  "ex_importing = ex_people\<lparr>pst_schools := [(ex_school 900 ''school'')\<lparr>sch_inUserMigration := Some True,
       sch_inMaintenanceSince := Some 5, sch_externalId := Some ''number''\<rparr>],
     pst_importUsers := [ex_import_user ''new'' None, ex_import_user ''known'' (Some (ex_user 2 ''student'' [8]))]\<rparr>"

definition ex_closed :: people_state where
  "ex_closed = ex_importing\<lparr>pst_schools := [ex_school 900 ''school'']\<rparr>"

definition ex_unmatched :: "ImportAnswer result \<times> people_state" where
  "ex_unmatched = import_request ex_migration_env ''admin'' (RemoveMatch ''known'') ex_importing"

definition ex_ended :: "ImportAnswer result \<times> people_state" where
  "ex_ended = import_request ex_migration_env ''admin'' SaveMatches ex_importing"

lemma ex_import_runs: "pst_writes (snd ex_unmatched) = 1" "\<not> isl (fst ex_ended)"
  by code_simp+

lemma ex_import_tables: "import_tables ex_importing" "import_tables ex_closed" "matches_ok (pst_importUsers ex_importing)"
  by code_simp+

theorem import_changes_need_permission_witness:
  "import_allowed ex_migration_env ex_importing ''admin'' ''SCHOOL_IMPORT_USERS_UPDATE''
     (\<lambda>i. others i (snd ex_unmatched) = others i ex_importing)"
proof -
  have "snd ex_unmatched \<noteq> ex_importing"
    using ex_import_runs(1) by (auto simp: ex_importing_def ex_people_def)
  then show ?thesis
    using import_changes_need_permission [OF ex_import_tables(1), of ex_migration_env "''admin''" "RemoveMatch ''known''" "fst ex_unmatched" "snd ex_unmatched"]
    by (simp add: ex_unmatched_def)
qed

theorem nobody_is_matched_twice_witness: "matches_ok (pst_importUsers (snd ex_unmatched))"
  unfolding ex_unmatched_def by (rule nobody_is_matched_twice [OF ex_import_tables(3)])

definition ex_admin :: "user result \<times> people_state" where
  "ex_admin = user_findById ''admin'' True ex_importing"

lemma ex_admin_found:
  "user_findById ''admin'' True ex_importing = (Inr (with_school ex_importing (ex_user 3 ''admin'' [9])), ex_importing)"
  by (simp add: user_findById_def queryE_def row_or_fail_def find_row_def ex_importing_def bindR_def)

theorem import_follows_modes_witness:
  "own_mode (snd ex_ended) ''school'' = Some (Some False, Some 5)"
proof -
  from returned [OF ex_import_runs(2)] obtain a where
    run: "import_request ex_migration_env ''admin'' SaveMatches ex_importing = (Inr a, snd ex_ended)"
    by (auto simp: ex_ended_def)
  have "own_mode ex_importing ''school'' = Some (Some True, Some 5)"
    by code_simp
  with import_follows_modes [OF ex_import_tables(1) ex_admin_found run] show ?thesis by simp
qed

definition ex_begun :: "(user \<times> SchoolDO) result \<times> people_state" where
  "ex_begun = import_start ex_migration_env ''admin'' ''SCHOOL_IMPORT_USERS_MIGRATE'' ex_closed"

lemma ex_begun_ok: "(case fst ex_begun of Inl _ \<Rightarrow> False | Inr (u, d) \<Rightarrow> eid (usr_school u) = ''school'')"
  by code_simp

theorem failed_end_still_deletes_witness:
  "filter (\<lambda>iu. imu_school iu = ''school'') (pst_importUsers (snd (import_request ex_migration_env ''admin'' SaveMatches ex_closed))) = []"
proof -
  from ex_begun_ok obtain u d where ud: "fst ex_begun = Inr (u, d)" "eid (usr_school u) = ''school''" by (auto split: sum.splits)
  have "snd ex_begun = ex_closed" unfolding ex_begun_def using pure_start by (simp add: pureE_def)
  with ud(1) have start: "import_start ex_migration_env ''admin'' ''SCHOOL_IMPORT_USERS_MIGRATE'' ex_closed = (Inr (u, d), ex_closed)"
    by (simp add: ex_begun_def prod_eq_iff)
  have closed: "own_mode ex_closed ''school'' = Some (None, None)" by code_simp
  have safe: "\<forall>w. pe_fails ex_migration_env w = None" "pe_isObjectId ex_migration_env (eid (usr_school u))"
    using ud(2) by (simp_all add: ex_migration_env_def ex_people_env_def)
  show ?thesis
    using failed_end_still_deletes [OF start ex_import_tables(2) safe] closed unfolding ud(2) by simp
qed

end
