(* ===== verification/Sharing.thy ===== *)
theory Sharing
  imports CopyUseCases ToolRepo
begin

text \<open>
  Sharing of courses, lessons and tasks (\<^verbatim>\<open>modules/sharing\<close>): the tokens with their entity and
  repository, the service that makes and looks them up, the use cases that create, show and import a
  share, and the handlers of the controller. The import runs the copy services.
\<close>

section \<open>Tokens\<close>

datatype ShareTokenParentType = SharedCourse | SharedTask | SharedLesson

datatype ShareTokenContextType = ContextSchool

record ShareTokenPayload =
  spl_parentType :: ShareTokenParentType
  spl_parentId :: EntityId

record ShareTokenContext =
  sctx_contextType :: ShareTokenContextType
  sctx_contextId :: EntityId

record ShareTokenDO =
  std_id :: "EntityId option"
  std_createdAt :: "date option"
  std_updatedAt :: "date option"
  std_token :: string
  std_payload :: ShareTokenPayload
  std_context :: "ShareTokenContext option"
  std_expiresAt :: "date option"

record IShareTokenProperties =
  stp_token :: string
  stp_parentType :: ShareTokenParentType
  stp_parentId :: EntityId
  stp_contextType :: "ShareTokenContextType option"
  stp_contextId :: "EntityId option"
  stp_expiresAt :: "date option"

record ShareToken = timestamped +
  sht_token :: string
  sht_parentType :: ShareTokenParentType
  sht_parentId :: EntityId
  sht_contextType :: "ShareTokenContextType option"
  sht_contextId :: "EntityId option"
  sht_expiresAt :: "date option"

text \<open>
  Parameters: \<open>she_token\<close> is \<^verbatim>\<open>nanoid(12)\<close>, \<open>she_objectId\<close> the hexadecimal form of the
  \<^verbatim>\<open>ObjectId\<close> that is made from a string, if it can be made; \<open>she_localTime\<close> and \<open>she_utc\<close> convert
  between the time of the clock and that of the time zone the server runs in, in milliseconds.
\<close>

record sharing_env =
  she_copy :: copy_env
  she_newId :: "ref \<Rightarrow> EntityId"
  she_token :: "ref \<Rightarrow> string"
  she_objectId :: "string \<Rightarrow> string option"
  she_localTime :: "date \<Rightarrow> int"
  she_utc :: "int \<Rightarrow> date"
  she_FEATURE_COURSE_SHARE_NEW :: bool
  she_FEATURE_LESSON_SHARE :: bool
  she_FEATURE_TASK_SHARE :: bool

abbreviation she_now :: "sharing_env \<Rightarrow> date" where
  "she_now env \<equiv> ce_now (she_copy env)"

text \<open>The table of tokens, and the state of the copies that imports make.\<close>

record sharing_state =
  shs_fresh :: ref
  shs_tokens :: "ShareToken list"
  shs_copies :: copy_state

type_synonym 'a sharing = "(sharing_state, 'a) eff"

definition copyingE :: "'a copying \<Rightarrow> 'a sharing" where
  "copyingE m s = (case m (shs_copies s) of (r, c) \<Rightarrow> (r, s\<lparr>shs_copies := c\<rparr>))"

section \<open>The repository\<close>

text \<open>
  The constructor of the entity stores the ids as ObjectIds, from which the getters read their
  hexadecimal form.
\<close>

definition hex_id :: "sharing_env \<Rightarrow> EntityId \<Rightarrow> EntityId" where
  "hex_id env i = nullish (she_objectId env i) i"

definition new_ShareToken :: "sharing_env \<Rightarrow> date \<Rightarrow> ref \<Rightarrow> IShareTokenProperties \<Rightarrow> ShareToken" where
  "new_ShareToken env now r props =
     \<lparr>oid = r, eid = [], ent_createdAt = now, ent_updatedAt = now,
      sht_token = stp_token props, sht_parentType = stp_parentType props,
      sht_parentId = hex_id env (stp_parentId props), sht_contextType = stp_contextType props,
      sht_contextId = map_option (hex_id env) (stp_contextId props), sht_expiresAt = stp_expiresAt props\<rparr>"

definition ids_convertible :: "sharing_env \<Rightarrow> IShareTokenProperties \<Rightarrow> bool" where
  "ids_convertible env props \<longleftrightarrow>
     she_objectId env (stp_parentId props) \<noteq> None \<and>
     pred_option (\<lambda>i. she_objectId env i \<noteq> None) (stp_contextId props)"

text \<open>The domain object of a row has neither its id nor its timestamps.\<close>

definition share_mapEntityToDO :: "ShareToken \<Rightarrow> ShareTokenDO" where
  "share_mapEntityToDO entity =
     \<lparr>std_id = None, std_createdAt = None, std_updatedAt = None, std_token = sht_token entity,
      std_payload = \<lparr>spl_parentType = sht_parentType entity, spl_parentId = sht_parentId entity\<rparr>,
      std_context = (case sht_contextType entity of
          None \<Rightarrow> None
        | Some t \<Rightarrow> if truthy (sht_contextId entity)
                    then Some \<lparr>sctx_contextType = t, sctx_contextId = the (sht_contextId entity)\<rparr> else None),
      std_expiresAt = sht_expiresAt entity\<rparr>"

definition share_mapDOToEntityProperties :: "ShareTokenDO \<Rightarrow> IShareTokenProperties" where
  "share_mapDOToEntityProperties d =
     \<lparr>stp_token = std_token d, stp_parentType = spl_parentType (std_payload d),
      stp_parentId = spl_parentId (std_payload d),
      stp_contextType = map_option sctx_contextType (std_context d),
      stp_contextId = map_option sctx_contextId (std_context d), stp_expiresAt = std_expiresAt d\<rparr>"

definition ShareTokenRepo :: "sharing_env \<Rightarrow> (ShareTokenDO, unit ShareToken_ext, IShareTokenProperties) base_do_repo" where
  "ShareTokenRepo env =
     \<lparr>bdr_id = std_id, bdr_entityFactory = new_ShareToken env, bdr_mapEntityToDO = share_mapEntityToDO,
      bdr_mapDOToEntityProperties = share_mapDOToEntityProperties\<rparr>"

text \<open>A string that is no ObjectId makes the constructor throw before anything is stored.\<close>

definition share_save :: "sharing_env \<Rightarrow> ShareTokenDO \<Rightarrow> ShareTokenDO sharing" where
  "share_save env d =
     bindE (liftE (guardR (ids_convertible env (share_mapDOToEntityProperties d)) (External ''BSONTypeError''))) (\<lambda>_.
     \<lambda>s. case base_save (ShareTokenRepo env) (she_now env) (she_newId env) (shs_fresh s) (shs_tokens s) d of
           Inl e \<Rightarrow> (Inl e, s)
         | Inr (d', t) \<Rightarrow> (Inr d', s\<lparr>shs_fresh := Suc (shs_fresh s), shs_tokens := t\<rparr>))"

definition findOneByToken :: "string \<Rightarrow> ShareTokenDO sharing" where
  "findOneByToken token = queryE (\<lambda>s.
     case List.find (\<lambda>row. sht_token row = token) (shs_tokens s) of
       None \<Rightarrow> Inl (NotFoundException [])
     | Some entity \<Rightarrow> Inr (share_mapEntityToDO entity))"

text \<open>The index on \<^verbatim>\<open>expiresAt\<close> with \<^verbatim>\<open>expireAfterSeconds: 0\<close>: the database drops expired rows in time.\<close>

definition drop_expired :: "date \<Rightarrow> sharing_state \<Rightarrow> sharing_state" where
  "drop_expired now s =
     s\<lparr>shs_tokens := filter (\<lambda>row. case sht_expiresAt row of None \<Rightarrow> True | Some t \<Rightarrow> now \<le> t) (shs_tokens s)\<rparr>"

section \<open>The service\<close>

definition generateShareToken :: "sharing_env \<Rightarrow> string sharing" where
  "generateShareToken env = queryE (\<lambda>s. Inr (she_token env (shs_fresh s)))"

definition createToken ::
  "sharing_env \<Rightarrow> ShareTokenPayload \<Rightarrow> ShareTokenContext option \<Rightarrow> date option \<Rightarrow> ShareTokenDO sharing" where
  "createToken env payload ctx expiresAt =
     bindE (generateShareToken env) (\<lambda>token.
     let shareToken = \<lparr>std_id = None, std_createdAt = None, std_updatedAt = None, std_token = token,
           std_payload = payload, std_context = ctx, std_expiresAt = expiresAt\<rparr>
     in bindE (share_save env shareToken) (\<lambda>_. retE shareToken))"

definition checkExpired :: "sharing_env \<Rightarrow> ShareTokenDO \<Rightarrow> unit result" where
  "checkExpired env shareToken =
     (case std_expiresAt shareToken of
        None \<Rightarrow> Inr ()
      | Some t \<Rightarrow> guardR (\<not> t < she_now env) (PlainError ''Share token expired''))"

definition lookupToken :: "sharing_env \<Rightarrow> string \<Rightarrow> ShareTokenDO sharing" where
  "lookupToken env token =
     bindE (findOneByToken token) (\<lambda>shareToken.
     bindE (liftE (checkExpired env shareToken)) (\<lambda>_. retE shareToken))"

definition parent_name :: "sharing_env \<Rightarrow> ShareTokenPayload \<Rightarrow> string result" where
  "parent_name env payload =
     (case spl_parentType payload of
        SharedCourse \<Rightarrow> mapR crs_name (ce_course_findById (she_copy env) (spl_parentId payload))
      | SharedLesson \<Rightarrow> mapR les_name (ce_lesson_findById (she_copy env) (spl_parentId payload))
      | SharedTask \<Rightarrow> mapR tsk_name (ce_task_findById (she_copy env) (spl_parentId payload)))"

definition lookupTokenWithParentName :: "sharing_env \<Rightarrow> string \<Rightarrow> (ShareTokenDO \<times> string) sharing" where
  "lookupTokenWithParentName env token =
     bindE (lookupToken env token) (\<lambda>shareToken.
     bindE (liftE (parent_name env (std_payload shareToken))) (\<lambda>parentName.
       retE (shareToken, parentName)))"

section \<open>Mappers\<close>

fun parentType_mapToAllowed :: "ShareTokenParentType \<Rightarrow> AllowedAuthorizationEntityType" where
  "parentType_mapToAllowed SharedCourse = Allowed_Course"
| "parentType_mapToAllowed SharedLesson = Allowed_Lesson"
| "parentType_mapToAllowed SharedTask = Allowed_Task"

fun contextType_mapToAllowed :: "ShareTokenContextType \<Rightarrow> AllowedAuthorizationEntityType" where
  "contextType_mapToAllowed ContextSchool = Allowed_School"

text \<open>Only courses have metadata of their own kind.\<close>

fun mapToAlloweMetadataType :: "ShareTokenParentType \<Rightarrow> LearnroomTypes result" where
  "mapToAlloweMetadataType SharedCourse = Inr LearnroomType_Course"
| "mapToAlloweMetadataType SharedLesson = Inl (NotImplementedException [])"
| "mapToAlloweMetadataType SharedTask = Inl (NotImplementedException [])"

section \<open>The use cases\<close>

definition share_checkFeatureEnabled :: "sharing_env \<Rightarrow> ShareTokenParentType \<Rightarrow> unit result" where
  "share_checkFeatureEnabled env parentType =
     (case parentType of
        SharedCourse \<Rightarrow> guardR (she_FEATURE_COURSE_SHARE_NEW env)
          (InternalServerErrorException ''Import Course Feature not enabled'')
      | SharedLesson \<Rightarrow> guardR (she_FEATURE_LESSON_SHARE env)
          (InternalServerErrorException ''Import Lesson Feature not enabled'')
      | SharedTask \<Rightarrow> guardR (she_FEATURE_TASK_SHARE env)
          (InternalServerErrorException ''Import Task Feature not enabled''))"

definition share_permissions :: "ShareTokenParentType \<Rightarrow> string list" where
  "share_permissions parentType =
     (case parentType of
        SharedCourse \<Rightarrow> [''COURSE_CREATE'']
      | SharedLesson \<Rightarrow> [''TOPIC_CREATE'']
      | SharedTask \<Rightarrow> [''HOMEWORK_CREATE''])"

definition checkByReferences ::
  "sharing_env \<Rightarrow> EntityId \<Rightarrow> AllowedAuthorizationEntityType \<Rightarrow> EntityId \<Rightarrow> IPermissionContext \<Rightarrow> unit result" where
  "checkByReferences env userId entityName entityId ctx =
     checkPermissionByReferences (ce_getUser (she_copy env)) (ce_findById (she_copy env)) (ce_auth (she_copy env))
       userId entityName entityId ctx"

definition checkParentWritePermission :: "sharing_env \<Rightarrow> EntityId \<Rightarrow> ShareTokenPayload \<Rightarrow> unit result" where
  "checkParentWritePermission env userId payload =
     checkByReferences env userId (parentType_mapToAllowed (spl_parentType payload)) (spl_parentId payload)
       \<lparr>ctx_action = Write, ctx_requiredPermissions = share_permissions (spl_parentType payload)\<rparr>"

definition checkContextReadPermission :: "sharing_env \<Rightarrow> EntityId \<Rightarrow> ShareTokenContext \<Rightarrow> unit result" where
  "checkContextReadPermission env userId ctx =
     checkByReferences env userId (contextType_mapToAllowed (sctx_contextType ctx)) (sctx_contextId ctx)
       \<lparr>ctx_action = Read, ctx_requiredPermissions = []\<rparr>"

definition checkOptionalContext :: "sharing_env \<Rightarrow> EntityId \<Rightarrow> ShareTokenContext option \<Rightarrow> unit result" where
  "checkOptionalContext env userId ctx =
     (case ctx of None \<Rightarrow> Inr () | Some c \<Rightarrow> checkContextReadPermission env userId c)"

definition checkCreatePermission :: "sharing_env \<Rightarrow> EntityId \<Rightarrow> ShareTokenParentType \<Rightarrow> unit result" where
  "checkCreatePermission env userId parentType =
     bindR (getUserWithPermissions (ce_getUser (she_copy env)) userId) (\<lambda>u.
       checkAllPermissions (ce_auth (she_copy env)) u (share_permissions parentType))"

text \<open>\<^verbatim>\<open>setDate\<close> adds days of the local time, so that the hour stays the same over a change of the clock.\<close>

definition ms_per_day :: int where
  "ms_per_day = 86400000"

definition nowPlusDays :: "sharing_env \<Rightarrow> int \<Rightarrow> date" where
  "nowPlusDays env days = she_utc env (she_localTime env (she_now env) + days * ms_per_day)"

definition uc_createShareToken ::
  "sharing_env \<Rightarrow> EntityId \<Rightarrow> ShareTokenPayload \<Rightarrow> bool option \<Rightarrow> int option \<Rightarrow> ShareTokenDO sharing" where
  "uc_createShareToken env userId payload schoolExclusive expiresInDays =
     bindE (liftE (share_checkFeatureEnabled env (spl_parentType payload))) (\<lambda>_.
     bindE (liftE (checkParentWritePermission env userId payload)) (\<lambda>_.
     bindE (if schoolExclusive = Some True
            then bindE (liftE (getUserWithPermissions (ce_getUser (she_copy env)) userId)) (\<lambda>u.
                 let ctx = \<lparr>sctx_contextType = ContextSchool, sctx_contextId = eid (usr_school u)\<rparr>
                 in bindE (liftE (checkContextReadPermission env userId ctx)) (\<lambda>_. retE (Some ctx)))
            else retE None) (\<lambda>ctx.
     let expiresAt = (case expiresInDays of
           None \<Rightarrow> None
         | Some days \<Rightarrow> if days = 0 then None else Some (nowPlusDays env days))
     in createToken env payload ctx expiresAt)))"

record ShareTokenInfoDto =
  sti_token :: string
  sti_parentType :: ShareTokenParentType
  sti_parentName :: string

definition uc_lookupShareToken :: "sharing_env \<Rightarrow> EntityId \<Rightarrow> string \<Rightarrow> ShareTokenInfoDto sharing" where
  "uc_lookupShareToken env userId token =
     bindE (lookupTokenWithParentName env token) (\<lambda>(shareToken, parentName).
     bindE (liftE (share_checkFeatureEnabled env (spl_parentType (std_payload shareToken)))) (\<lambda>_.
     bindE (liftE (checkCreatePermission env userId (spl_parentType (std_payload shareToken)))) (\<lambda>_.
     bindE (liftE (checkOptionalContext env userId (std_context shareToken))) (\<lambda>_.
       retE \<lparr>sti_token = token, sti_parentType = spl_parentType (std_payload shareToken),
             sti_parentName = parentName\<rparr>))))"

definition share_copyCourse :: "sharing_env \<Rightarrow> EntityId \<Rightarrow> EntityId \<Rightarrow> string \<Rightarrow> CopyStatus sharing" where
  "share_copyCourse env userId courseId newName =
     copyingE (service_copyCourse (she_copy env) userId courseId (Some newName))"

definition share_copyLesson ::
  "sharing_env \<Rightarrow> EntityId \<Rightarrow> EntityId \<Rightarrow> EntityId \<Rightarrow> string option \<Rightarrow> CopyStatus sharing" where
  "share_copyLesson env userId lessonId courseId copyName =
     bindE (liftE (getUserWithPermissions (ce_getUser (she_copy env)) userId)) (\<lambda>u.
     bindE (liftE (ce_course_findById (she_copy env) courseId)) (\<lambda>destinationCourse.
       copyingE (copyLesson (she_copy env)
         \<lparr>lcp_originalLessonId = lessonId, lcp_destinationCourse = course.truncate destinationCourse,
          lcp_user = u, lcp_copyName = copyName\<rparr>)))"

definition share_copyTask ::
  "sharing_env \<Rightarrow> EntityId \<Rightarrow> EntityId \<Rightarrow> EntityId \<Rightarrow> string option \<Rightarrow> CopyStatus sharing" where
  "share_copyTask env userId originalTaskId courseId copyName =
     bindE (liftE (getUserWithPermissions (ce_getUser (she_copy env)) userId)) (\<lambda>u.
     bindE (liftE (ce_course_findById (she_copy env) courseId)) (\<lambda>destinationCourse.
       copyingE (copyTask (she_copy env)
         \<lparr>tcp_originalTaskId = originalTaskId, tcp_destinationCourse = Some (course.truncate destinationCourse),
          tcp_destinationLesson = None, tcp_user = u, tcp_copyName = copyName\<rparr>)))"

definition uc_importShareToken ::
  "sharing_env \<Rightarrow> EntityId \<Rightarrow> string \<Rightarrow> string \<Rightarrow> EntityId option \<Rightarrow> CopyStatus sharing" where
  "uc_importShareToken env userId token newName destinationCourseId =
     bindE (lookupToken env token) (\<lambda>shareToken.
     bindE (liftE (share_checkFeatureEnabled env (spl_parentType (std_payload shareToken)))) (\<lambda>_.
     bindE (liftE (checkOptionalContext env userId (std_context shareToken))) (\<lambda>_.
     bindE (liftE (checkCreatePermission env userId (spl_parentType (std_payload shareToken)))) (\<lambda>_.
     let parentId = spl_parentId (std_payload shareToken)
     in case spl_parentType (std_payload shareToken) of
          SharedCourse \<Rightarrow> share_copyCourse env userId parentId newName
        | SharedLesson \<Rightarrow>
            (case destinationCourseId of
               None \<Rightarrow> throwE (BadRequestException ''Destination course id is required to copy lesson'')
             | Some courseId \<Rightarrow> share_copyLesson env userId parentId courseId (Some newName))
        | SharedTask \<Rightarrow>
            (case destinationCourseId of
               None \<Rightarrow> throwE (BadRequestException ''Destination course id is required to copy task'')
             | Some courseId \<Rightarrow> share_copyTask env userId parentId courseId (Some newName))))))"

section \<open>The controller\<close>

text \<open>The bodies after validation; \<^verbatim>\<open>@SanitizeHtml\<close> has been applied to the new name.\<close>

record ShareTokenBodyParams =
  sbp_parentType :: ShareTokenParentType
  sbp_parentId :: EntityId
  sbp_expiresInDays :: "int option"
  sbp_schoolExclusive :: "bool option"

record ShareTokenImportBodyParams =
  sib_newName :: string
  sib_destinationCourseId :: "EntityId option"

record ShareTokenResponse =
  str_token :: string
  str_payload :: ShareTokenPayload
  str_expiresAt :: "date option"

definition share_mapToResponse :: "ShareTokenDO \<Rightarrow> ShareTokenResponse" where
  "share_mapToResponse shareToken =
     \<lparr>str_token = std_token shareToken, str_payload = std_payload shareToken, str_expiresAt = std_expiresAt shareToken\<rparr>"

definition info_mapToResponse :: "ShareTokenInfoDto \<Rightarrow> ShareTokenInfoDto" where
  "info_mapToResponse info =
     \<lparr>sti_token = sti_token info, sti_parentType = sti_parentType info, sti_parentName = sti_parentName info\<rparr>"

definition ctl_createShareToken :: "sharing_env \<Rightarrow> EntityId \<Rightarrow> ShareTokenBodyParams \<Rightarrow> ShareTokenResponse sharing" where
  "ctl_createShareToken env userId body =
     bindE (uc_createShareToken env userId
       \<lparr>spl_parentType = sbp_parentType body, spl_parentId = sbp_parentId body\<rparr>
       (sbp_schoolExclusive body) (sbp_expiresInDays body)) (\<lambda>shareToken.
     retE (share_mapToResponse shareToken))"

definition ctl_lookupShareToken :: "sharing_env \<Rightarrow> EntityId \<Rightarrow> string \<Rightarrow> ShareTokenInfoDto sharing" where
  "ctl_lookupShareToken env userId token =
     bindE (uc_lookupShareToken env userId token) (\<lambda>info. retE (info_mapToResponse info))"

definition ctl_importShareToken ::
  "sharing_env \<Rightarrow> EntityId \<Rightarrow> string \<Rightarrow> ShareTokenImportBodyParams \<Rightarrow> CopyApiResponse sharing" where
  "ctl_importShareToken env userId token body =
     bindE (uc_importShareToken env userId token (sib_newName body) (sib_destinationCourseId body)) (\<lambda>copyStatus.
     retE (copy_mapToResponse copyStatus))"

end
