(* ===== verification/SharingProperties.thy ===== *)
theory SharingProperties
  imports Sharing CopyAccess
begin

text \<open>
  What a share needs, how long it lasts, and where an import may put a copy.
\<close>

section \<open>Requests\<close>

datatype share_request =
    CreateShare ShareTokenBodyParams
  | LookupShare string
  | ImportShare string ShareTokenImportBodyParams

fun handle_share :: "sharing_env \<Rightarrow> EntityId \<Rightarrow> share_request \<Rightarrow> unit sharing" where
  "handle_share env userId (CreateShare body) = bindE (ctl_createShareToken env userId body) (\<lambda>_. retE ())"
| "handle_share env userId (LookupShare token) = bindE (ctl_lookupShareToken env userId token) (\<lambda>_. retE ())"
| "handle_share env userId (ImportShare token body) = bindE (ctl_importShareToken env userId token body) (\<lambda>_. retE ())"

definition body_payload :: "ShareTokenBodyParams \<Rightarrow> ShareTokenPayload" where
  "body_payload body = \<lparr>spl_parentType = sbp_parentType body, spl_parentId = sbp_parentId body\<rparr>"

definition valid_share :: "sharing_env \<Rightarrow> string \<Rightarrow> sharing_state \<Rightarrow> ShareTokenDO \<Rightarrow> bool" where
  "valid_share env token s d \<longleftrightarrow>
     (\<exists>row \<in> set (shs_tokens s). sht_token row = token \<and> d = share_mapEntityToDO row) \<and>
     (case std_expiresAt d of None \<Rightarrow> True | Some t \<Rightarrow> she_now env \<le> t)"

text \<open>What a user may do, \<open>may\<close>, is that of theory CopyAccess.\<close>

definition has_all :: "sharing_env \<Rightarrow> EntityId \<Rightarrow> string list \<Rightarrow> bool" where
  "has_all env userId permissions \<longleftrightarrow>
     (\<exists>u. ce_getUser (she_copy env) userId = Inr u \<and> hasAllPermissions (ce_auth (she_copy env)) u permissions = Inr True)"

text \<open>What is shared as a course, a lesson or a task: its switch, its rule, and the permission to create one.\<close>

fun share_switch :: "sharing_env \<Rightarrow> ShareTokenParentType \<Rightarrow> bool" where
  "share_switch env SharedCourse = she_FEATURE_COURSE_SHARE_NEW env"
| "share_switch env SharedLesson = she_FEATURE_LESSON_SHARE env"
| "share_switch env SharedTask = she_FEATURE_TASK_SHARE env"

fun shared_as :: "ShareTokenParentType \<Rightarrow> AllowedAuthorizationEntityType \<times> string" where
  "shared_as SharedCourse = (Allowed_Course, ''COURSE_CREATE'')"
| "shared_as SharedLesson = (Allowed_Lesson, ''TOPIC_CREATE'')"
| "shared_as SharedTask = (Allowed_Task, ''HOMEWORK_CREATE'')"

text \<open>A valid token, the switch, the right to create such things and to read the school of the share.\<close>

definition usable_share :: "sharing_env \<Rightarrow> EntityId \<Rightarrow> string \<Rightarrow> sharing_state \<Rightarrow> ShareTokenDO \<Rightarrow> bool" where
  "usable_share env userId token s d \<longleftrightarrow> valid_share env token s d \<and>
     share_switch env (spl_parentType (std_payload d)) \<and>
     has_all env userId [snd (shared_as (spl_parentType (std_payload d)))] \<and>
     (case std_context d of None \<Rightarrow> True | Some c \<Rightarrow> may (she_copy env) userId Allowed_School (sctx_contextId c) Read [])"

text \<open>
  Creating a share needs the switch and the right to change what is shared; a share for the school
  also the right to read the school of the user. Looking at one and importing it need a share the user
  can use; importing also a destination for everything but a course.
\<close>

fun share_permitted :: "sharing_env \<Rightarrow> EntityId \<Rightarrow> share_request \<Rightarrow> sharing_state \<Rightarrow> bool" where
  "share_permitted env userId (CreateShare body) s \<longleftrightarrow>
     share_switch env (sbp_parentType body) \<and>
     (case shared_as (sbp_parentType body) of (kind, permission) \<Rightarrow>
        may (she_copy env) userId kind (sbp_parentId body) Write [permission]) \<and>
     (sbp_schoolExclusive body = Some True \<longrightarrow>
       (\<exists>u. ce_getUser (she_copy env) userId = Inr u \<and> may (she_copy env) userId Allowed_School (eid (usr_school u)) Read []))"
| "share_permitted env userId (LookupShare token) s \<longleftrightarrow> (\<exists>d. usable_share env userId token s d)"
| "share_permitted env userId (ImportShare token body) s \<longleftrightarrow>
     (\<exists>d. usable_share env userId token s d \<and>
        (spl_parentType (std_payload d) \<noteq> SharedCourse \<longrightarrow> sib_destinationCourseId body \<noteq> None))"

lemma checked_switch: "share_checkFeatureEnabled env ty = Inr x \<longleftrightarrow> share_switch env ty"
  by (cases ty) (simp_all add: share_checkFeatureEnabled_def guardR_eq_Inr)

lemma checked_parent:
  "checkParentWritePermission env userId payload = Inr x \<longleftrightarrow>
     (case shared_as (spl_parentType payload) of (kind, permission) \<Rightarrow> may (she_copy env) userId kind (spl_parentId payload) Write [permission])"
  by (cases "spl_parentType payload") (simp_all add: checkParentWritePermission_def checkByReferences_def checked_reference share_permissions_def)

lemma checked_context:
  "checkContextReadPermission env userId ctx = Inr x \<longleftrightarrow> may (she_copy env) userId Allowed_School (sctx_contextId ctx) Read []"
  by (cases "sctx_contextType ctx") (simp add: checkContextReadPermission_def checkByReferences_def checked_reference)

lemma checked_optional_context:
  "checkOptionalContext env userId c = Inr x \<longleftrightarrow>
     (case c of None \<Rightarrow> True | Some c \<Rightarrow> may (she_copy env) userId Allowed_School (sctx_contextId c) Read [])"
  by (cases c) (simp_all add: checkOptionalContext_def checked_context)

lemma checked_create:
  "checkCreatePermission env userId ty = Inr x \<longleftrightarrow> has_all env userId [snd (shared_as ty)]"
  by (cases ty) (auto simp: checkCreatePermission_def checkAllPermissions_def getUserWithPermissions_def bindR_eq_Inr
      guardR_eq_Inr share_permissions_def has_all_def)

lemmas share_checks = checked_switch checked_parent checked_context checked_optional_context checked_create

lemma pure_lookup [simp]:
  "pureE (findOneByToken token)" "pureE (lookupToken env token)" "pureE (lookupTokenWithParentName env token)"
  "pureE (uc_lookupShareToken env userId token)" "pureE (generateShareToken env)"
  by (auto simp: findOneByToken_def lookupToken_def lookupTokenWithParentName_def uc_lookupShareToken_def
      generateShareToken_def intro!: pureE_bind split: prod.split)

lemma find_share:
  "findOneByToken token s = (r, s') \<longleftrightarrow> s' = s \<and>
     r = (case List.find (\<lambda>row. sht_token row = token) (shs_tokens s) of
            None \<Rightarrow> Inl (NotFoundException []) | Some row \<Rightarrow> Inr (share_mapEntityToDO row))"
  by (auto simp: findOneByToken_def queryE_def)

lemma expiry [simp]: "std_expiresAt (share_mapEntityToDO row) = sht_expiresAt row"
  by (simp add: share_mapEntityToDO_def)

lemma looked_up_share:
  "lookupToken env token s = (Inr d, s') \<longleftrightarrow> s' = s \<and>
     (\<exists>row. List.find (\<lambda>row. sht_token row = token) (shs_tokens s) = Some row \<and> d = share_mapEntityToDO row) \<and>
     (case std_expiresAt d of None \<Rightarrow> True | Some t \<Rightarrow> she_now env \<le> t)"
  by (auto simp: lookupToken_def bindE_eq_Inr find_share liftE_def retE_def checkExpired_def guardR_eq_Inr
      split: option.splits)

lemma looked_up_valid: "lookupToken env token s = (Inr d, s') \<Longrightarrow> valid_share env token s d"
  by (force simp: looked_up_share valid_share_def dest!: find_eq_Some)

lemma create_gated:
  "gated s (share_permitted env userId (CreateShare body) s)
     (uc_createShareToken env userId (body_payload body) (sbp_schoolExclusive body) (sbp_expiresInDays body))"
  unfolding uc_createShareToken_def
proof (rule gated_lift, rule gated_lift, rule gated_pure, goal_cases)
  case (2 x y ctx)
  then have "share_permitted env userId (CreateShare body) s"
    by (auto simp: share_checks body_payload_def bindE_eq_Inr liftE_def retE_def Let_def getUserWithPermissions_def
        split: if_splits)
  then show ?case by (rule gated_true)
qed (auto simp: Let_def intro!: pureE_bind)

lemma import_gated:
  "gated s (share_permitted env userId (ImportShare token body) s)
     (uc_importShareToken env userId token (sib_newName body) (sib_destinationCourseId body))"
  unfolding uc_importShareToken_def
proof (rule gated_pure, simp, rule gated_lift, rule gated_lift, rule gated_lift, goal_cases)
  case (1 d)
  then have "usable_share env userId token s d"
    by (simp add: usable_share_def looked_up_valid share_checks)
  then show ?case
    by (cases "spl_parentType (std_payload d)"; cases "sib_destinationCourseId body")
      (auto simp: Let_def intro: gated_true gated_throw)
qed

lemma lookup_gated:
  "gated s (share_permitted env userId (LookupShare token) s) (uc_lookupShareToken env userId token)"
  unfolding uc_lookupShareToken_def
proof (rule gated_pure, simp, unfold case_prod_beta, rule gated_lift, rule gated_lift, rule gated_lift, goal_cases)
  case (1 p)
  then have "usable_share env userId token s (fst p)"
    by (auto simp: usable_share_def share_checks lookupTokenWithParentName_def bindE_eq_Inr liftE_def retE_def
        intro: looked_up_valid)
  then show ?case by (auto intro: gated_true)
qed

text \<open>
  C12. A request about a share that succeeds or changes anything had what it needs: whoever may not change
  the original, as the rule for it decides, can not share it; without a token that has not expired, the
  switch, the permission to create such things and, for a share within a school, the right to read
  that school, nothing is shown or imported; and looking up a token never changes anything.
\<close>

theorem sharing_needs_permission:
  assumes "snd (handle_share env userId request s) \<noteq> s \<or> fst (handle_share env userId request s) = Inr ()"
  shows "share_permitted env userId request s \<and>
    (\<forall>token. request = LookupShare token \<longrightarrow> snd (handle_share env userId request s) = s)"
proof
  have "gated s (share_permitted env userId request s) (handle_share env userId request)"
    by (cases request)
      (auto simp only: handle_share.simps ctl_createShareToken_def ctl_lookupShareToken_def ctl_importShareToken_def
        body_payload_def [symmetric] intro!: gated_first create_gated import_gated lookup_gated)
  with assms show "share_permitted env userId request s" by (auto simp: gated_def)
  have "pureE (handle_share env userId (LookupShare token))" for token
    by (auto simp: ctl_lookupShareToken_def intro!: pureE_bind)
  then show "\<forall>token. request = LookupShare token \<longrightarrow> snd (handle_share env userId request s) = s"
    by (auto simp: pureE_def)
qed

section \<open>The life of a share\<close>

text \<open>The server at a later time.\<close>

definition at_time :: "date \<Rightarrow> sharing_env \<Rightarrow> sharing_env" where
  "at_time t env = env\<lparr>she_copy := (she_copy env)\<lparr>ce_now := t\<rparr>\<rparr>"

text \<open>Ids as the database prints them: an ObjectId made from such an id prints the same.\<close>

definition canonical :: "sharing_env \<Rightarrow> EntityId \<Rightarrow> bool" where
  "canonical env i \<longleftrightarrow> i \<noteq> [] \<and> she_objectId env i = Some i"

definition share_expiry :: "sharing_env \<Rightarrow> int option \<Rightarrow> date option" where
  "share_expiry env days =
     (case days of None \<Rightarrow> None | Some n \<Rightarrow> if n = 0 then None else Some (nowPlusDays env n))"

lemma createToken_row:
  assumes "createToken env payload ctx e s = (Inr d, s')"
  shows "\<exists>row. shs_tokens s' = shs_tokens s @ [row] \<and> sht_token row = she_token env (shs_fresh s) \<and>
    d = \<lparr>std_id = None, std_createdAt = None, std_updatedAt = None, std_token = she_token env (shs_fresh s),
         std_payload = payload, std_context = ctx, std_expiresAt = e\<rparr> \<and>
    (canonical env (spl_parentId payload) \<longrightarrow> pred_option (\<lambda>c. canonical env (sctx_contextId c)) ctx \<longrightarrow>
      share_mapEntityToDO row = d)"
  using assms
  by (cases payload; cases ctx)
    (auto simp: createToken_def generateShareToken_def share_save_def bindE_eq_Inr queryE_def liftE_def retE_def Let_def
      base_save_def createNewEntityFromDO_def ShareTokenRepo_def new_ShareToken_def share_mapDOToEntityProperties_def
      share_mapEntityToDO_def truthy_def hex_id_def canonical_def intro: ShareTokenContext.equality split: option.splits)

lemma created_share:
  assumes "uc_createShareToken env userId payload excl days s = (Inr d, s')"
  shows "\<exists>ctx. createToken env payload ctx (share_expiry env days) s = (Inr d, s') \<and>
    (ctx = None \<or> (\<exists>u. ce_getUser (she_copy env) userId = Inr u \<and>
       ctx = Some \<lparr>sctx_contextType = ContextSchool, sctx_contextId = eid (usr_school u)\<rparr>))"
  using assms
  by (auto simp: uc_createShareToken_def bindE_eq_Inr liftE_def retE_def Let_def getUserWithPermissions_def
      share_expiry_def split: if_splits)

text \<open>
  C14. What is shared is what is looked up: the token of a new share leads to the same type, object,
  school and time of expiry, as long as it has not expired; from then on it is refused. A share without
  days never expires. Every other token is looked up as before.
\<close>

theorem created_share_is_found:
  assumes "uc_createShareToken env userId payload excl days s = (Inr d, s')"
    and "she_token env (shs_fresh s) \<notin> set (map sht_token (shs_tokens s))"
    and "canonical env (spl_parentId payload)"
    and "\<And>u. ce_getUser (she_copy env) userId = Inr u \<Longrightarrow> canonical env (eid (usr_school u))"
  shows "std_payload d = payload \<and>
    fst (lookupToken (at_time t env) (std_token d) s') =
      (if (case share_expiry env days of None \<Rightarrow> False | Some e \<Rightarrow> e < t)
       then Inl (PlainError ''Share token expired'') else Inr d) \<and>
    (\<forall>token. token = std_token d \<or>
       fst (lookupToken (at_time t env) token s') = fst (lookupToken (at_time t env) token s))"
proof -
  from created_share [OF assms(1)] obtain ctx where
    c: "createToken env payload ctx (share_expiry env days) s = (Inr d, s')"
      "pred_option (\<lambda>c. canonical env (sctx_contextId c)) ctx"
    using assms(4) by fastforce
  from createToken_row [OF c(1)] c(2) assms(3) obtain row where
    row: "shs_tokens s' = shs_tokens s @ [row]" "sht_token row = she_token env (shs_fresh s)"
      "share_mapEntityToDO row = d" "std_token d = she_token env (shs_fresh s)" "std_payload d = payload"
      "std_expiresAt d = share_expiry env days"
    by auto
  let ?find = "\<lambda>token. List.find (\<lambda>row. sht_token row = token)"
  have new: "?find (std_token d) (shs_tokens s') = Some row"
  proof -
    have "she_token env (shs_fresh s) \<notin> set (map sht_token rows) \<Longrightarrow> ?find (std_token d) (rows @ [row]) = Some row" for rows
      using row(2,4) by (induction rows) auto
    with row(1) assms(2) show ?thesis by simp
  qed
  have old: "?find token (shs_tokens s') = ?find token (shs_tokens s)" if "token \<noteq> std_token d" for token
  proof -
    have "?find token (rows @ [row]) = ?find token rows" for rows
      using that row(2,4) by (induction rows) auto
    with row(1) show ?thesis by simp
  qed
  have run: "fst (lookupToken env' token x) =
      (case ?find token (shs_tokens x) of None \<Rightarrow> Inl (NotFoundException [])
       | Some r \<Rightarrow> bindR (checkExpired env' (share_mapEntityToDO r)) (\<lambda>_. Inr (share_mapEntityToDO r)))" for env' token x
    by (auto simp: lookupToken_def findOneByToken_def bindE_def queryE_def liftE_def retE_def bindR_def
        split: option.split sum.split)
  have "checkExpired (at_time t env) d =
      (if (case share_expiry env days of None \<Rightarrow> False | Some e \<Rightarrow> e < t)
       then Inl (PlainError ''Share token expired'') else Inr ())"
    by (simp add: checkExpired_def row(6) at_time_def guardR_def split: option.split)
  then have "fst (lookupToken (at_time t env) (std_token d) s') =
      (if (case share_expiry env days of None \<Rightarrow> False | Some e \<Rightarrow> e < t)
       then Inl (PlainError ''Share token expired'') else Inr d)"
    unfolding run new by (simp add: row(3) bindR_def)
  moreover have "token = std_token d \<or>
      fst (lookupToken (at_time t env) token s') = fst (lookupToken (at_time t env) token s)" for token
    by (cases "token = std_token d") (simp_all add: run old)
  ultimately show ?thesis using row(5) by blast
qed

section \<open>Where an import goes\<close>

lemma copyingE_eq_Inr:
  "copyingE m s = (Inr x, s') \<longleftrightarrow> (\<exists>c. m (shs_copies s) = (Inr x, c) \<and> s' = s\<lparr>shs_copies := c\<rparr>)"
  by (auto simp: copyingE_def split: prod.split)

text \<open>
  C28. An import puts a shared lesson into any course: whatever the destination, the copy ends as a
  lesson of it, hidden, under the chosen name, also when the user may not write in that course; the
  use case that copies the same lesson to the same course then refuses and changes nothing.
\<close>

theorem import_ignores_destination:
  assumes "uc_importShareToken env userId token newName (Some courseId) s = (Inr st, s')"
    and "lookupToken env token s = (Inr d, s)" and "spl_parentType (std_payload d) = SharedLesson"
    and "ce_course_findById (she_copy env) courseId = Inr c" and "courseId \<noteq> []"
    and "check_course_write (she_copy env) userId (eid c) [] = Inl e"
  shows "(\<exists>l. last (cps_saved (shs_copies s')) = CopyLesson l \<and> les_course l = Some (course.truncate c) \<and>
      les_hidden l \<and> les_name l = newName) \<and>
    (\<forall>cs. \<exists>e'. uc_copyLesson (she_copy env) userId (spl_parentId (std_payload d))
       \<lparr>lcpp_courseId = Some courseId, lcpp_userId = userId\<rparr> cs = (Inl e', cs))"
proof
  from assms(1-4) obtain u cs' where
    run: "copyLesson (she_copy env)
         \<lparr>lcp_originalLessonId = spl_parentId (std_payload d), lcp_destinationCourse = course.truncate c,
          lcp_user = u, lcp_copyName = Some newName\<rparr> (shs_copies s) = (Inr st, cs')" "shs_copies s' = cs'"
    by (auto simp: uc_importShareToken_def share_copyLesson_def bindE_eq_Inr liftE_def copyingE_eq_Inr)
  from copyLesson_made [OF run(1)] obtain original l where
    "fresh_copy_of_lesson (she_copy env)
       \<lparr>lcp_originalLessonId = spl_parentId (std_payload d), lcp_destinationCourse = course.truncate c,
        lcp_user = u, lcp_copyName = Some newName\<rparr> original l" "last (cps_saved cs') = CopyLesson l"
    by blast
  with run(2) show "\<exists>l. last (cps_saved (shs_copies s')) = CopyLesson l \<and> les_course l = Some (course.truncate c) \<and>
      les_hidden l \<and> les_name l = newName"
    by (auto simp: fresh_copy_of_lesson_def)
next
  show "\<forall>cs. \<exists>e'. uc_copyLesson (she_copy env) userId (spl_parentId (std_payload d))
       \<lparr>lcpp_courseId = Some courseId, lcpp_userId = userId\<rparr> cs = (Inl e', cs)"
  proof
    fix cs
    have "truthy (Some courseId)" using assms(5) by (simp add: truthy_def)
    with assms(4,6) show "\<exists>e'. uc_copyLesson (she_copy env) userId (spl_parentId (std_payload d))
       \<lparr>lcpp_courseId = Some courseId, lcpp_userId = userId\<rparr> cs = (Inl e', cs)"
      by (auto simp: uc_copyLesson_def bindE_liftE mapR_def bindR_def course.defs split: sum.split)
  qed
qed

section \<open>A server to share on\<close>

definition ex_share_env :: sharing_env where
  "ex_share_env =
     \<lparr>she_copy = ex_copy_env, she_newId = (\<lambda>r. CHR ''s'' # nat_string r), she_token = (\<lambda>r. CHR ''t'' # nat_string r),
      she_objectId = Some, she_localTime = id, she_utc = id, she_FEATURE_COURSE_SHARE_NEW = True,
      she_FEATURE_LESSON_SHARE = True, she_FEATURE_TASK_SHARE = True\<rparr>"

abbreviation ex_share_start :: sharing_state where
  "ex_share_start \<equiv> \<lparr>shs_fresh = 0, shs_tokens = [], shs_copies = ex_copy_start\<rparr>"

abbreviation ex_share_body :: ShareTokenBodyParams where
  "ex_share_body \<equiv> \<lparr>sbp_parentType = SharedCourse, sbp_parentId = ''course'', sbp_expiresInDays = Some 1,
     sbp_schoolExclusive = None\<rparr>"

lemma ex_share_runs:
  "\<exists>d s'. uc_createShareToken ex_share_env ''teacher'' (body_payload ex_share_body) None (Some 1) ex_share_start = (Inr d, s') \<and>
     shs_tokens s' \<noteq> []"
proof -
  have "checkParentWritePermission ex_share_env ''teacher'' (body_payload ex_share_body) = Inr ()"
    using ex_copy_permissions(4)
    by (simp add: checkParentWritePermission_def checkByReferences_def check_course_write_def ex_share_env_def
        share_permissions_def body_payload_def)
  then show ?thesis
    by (simp add: uc_createShareToken_def share_checkFeatureEnabled_def body_payload_def ex_share_env_def guardR_def
        createToken_def generateShareToken_def share_save_def ids_convertible_def share_mapDOToEntityProperties_def
        Let_def base_save_def ShareTokenRepo_def truthy_def bindE_def liftE_def queryE_def retE_def)
qed

theorem sharing_needs_permission_witness:
  "share_permitted ex_share_env ''teacher'' (CreateShare ex_share_body) ex_share_start"
proof (rule sharing_needs_permission [THEN conjunct1])
  from ex_share_runs obtain d s' where
    "uc_createShareToken ex_share_env ''teacher'' (body_payload ex_share_body) None (Some 1) ex_share_start = (Inr d, s')"
    by blast
  then show "snd (handle_share ex_share_env ''teacher'' (CreateShare ex_share_body) ex_share_start) \<noteq> ex_share_start \<or>
      fst (handle_share ex_share_env ''teacher'' (CreateShare ex_share_body) ex_share_start) = Inr ()"
    by (auto simp: ctl_createShareToken_def body_payload_def bindE_def retE_def)
qed

theorem created_share_is_found_witness:
  "\<exists>d s'. uc_createShareToken ex_share_env ''teacher'' (body_payload ex_share_body) None (Some 1) ex_share_start = (Inr d, s') \<and>
     fst (lookupToken (at_time 1000 ex_share_env) (std_token d) s') = Inr d \<and>
     fst (lookupToken (at_time 86400008 ex_share_env) (std_token d) s') = Inl (PlainError ''Share token expired'')"
proof -
  from ex_share_runs obtain d s' where
    run: "uc_createShareToken ex_share_env ''teacher'' (body_payload ex_share_body) None (Some 1) ex_share_start = (Inr d, s')"
    by blast
  have h: "she_token ex_share_env (shs_fresh ex_share_start) \<notin> set (map sht_token (shs_tokens ex_share_start))"
    "canonical ex_share_env (spl_parentId (body_payload ex_share_body))"
    "\<And>u. ce_getUser (she_copy ex_share_env) ''teacher'' = Inr u \<Longrightarrow> canonical ex_share_env (eid (usr_school u))"
    by (auto simp: ex_share_env_def canonical_def body_payload_def)
  have "share_expiry ex_share_env (Some 1) = Some 86400007"
    by (simp add: share_expiry_def nowPlusDays_def ms_per_day_def ex_share_env_def ex_copy_env_def)
  with created_share_is_found [OF run h, of 1000] created_share_is_found [OF run h, of 86400008] run
  show ?thesis by auto
qed

text \<open>A course that the teacher of the other samples has nothing to do with.\<close>

definition ex_foreign_course :: course where
  "ex_foreign_course = ex_course\<lparr>eid := ''foreign'', crs_teachers := coll_of []\<rparr>"

definition ex_foreign_env :: sharing_env where
  "ex_foreign_env = ex_share_env\<lparr>she_copy := ex_copy_env
     \<lparr>ce_course_findById := (\<lambda>_. Inr (course.extend ex_foreign_course \<lparr>crs_courseGroups = coll_of []\<rparr>)),
      ce_findById := (\<lambda>_ _ _. Inr (SubjCourse ex_foreign_course))\<rparr>\<rparr>"

definition ex_lesson_share :: ShareToken where
  "ex_lesson_share =
     \<lparr>oid = 1, eid = ''s1'', ent_createdAt = 0, ent_updatedAt = 0, sht_token = ''t1'', sht_parentType = SharedLesson,
      sht_parentId = ''lesson'', sht_contextType = None, sht_contextId = None, sht_expiresAt = None\<rparr>"

abbreviation ex_shared_start :: sharing_state where
  "ex_shared_start \<equiv> \<lparr>shs_fresh = 2, shs_tokens = [ex_lesson_share], shs_copies = ex_copy_start\<rparr>"

lemma ex_foreign_sel [simp]:
  "ce_getUser (she_copy ex_foreign_env) i = Inr ex_teacher"
  "ce_findById (she_copy ex_foreign_env) ty i b = Inr (SubjCourse ex_foreign_course)"
  "ce_course_findById (she_copy ex_foreign_env) i = Inr (course.extend ex_foreign_course \<lparr>crs_courseGroups = coll_of []\<rparr>)"
  "ce_lesson_findById (she_copy ex_foreign_env) i = Inr ex_copy_lesson"
  "ce_task_findById (she_copy ex_foreign_env) i = Inr ex_copy_task"
  "ce_auth (she_copy ex_foreign_env) = ce_auth ex_copy_env"
  "she_FEATURE_LESSON_SHARE ex_foreign_env"
  by (simp_all add: ex_foreign_env_def ex_share_env_def)

lemma ex_foreign_ready:
  "ce_save (she_copy ex_foreign_env) = (\<lambda>_. None)" "files_answer (she_copy ex_foreign_env)" "urls_parse (she_copy ex_foreign_env)"
  using ex_copy_ready by (simp_all add: files_answer_def urls_parse_def ex_foreign_env_def)

lemma ex_foreign_copies: "\<exists>st c. copyLesson (she_copy ex_foreign_env) \<lparr>lcp_originalLessonId = i, lcp_destinationCourse = d, lcp_user = u,
    lcp_copyName = n\<rparr> cs = (Inr st, c)"
  by (rule returnsD, rule copyLesson_returns [of _ _ ex_copy_lesson "[]" "[ex_copy_task]"])
    (simp_all add: ex_foreign_ready getLessonMaterials_def getLessonLinkedTasks_def getTasksItems_def
      Lesson_getSchoolId_def)

lemma ex_lesson_looked_up: "lookupToken ex_foreign_env ''t1'' ex_shared_start = (Inr (share_mapEntityToDO ex_lesson_share), ex_shared_start)"
  by (simp add: looked_up_share ex_lesson_share_def)

lemma ex_share_import_runs:
  "\<exists>st s'. uc_importShareToken ex_foreign_env ''teacher'' ''t1'' ''New'' (Some ''foreign'') ex_shared_start = (Inr st, s')"
proof -
  from ex_foreign_copies obtain st c where
    "copyLesson (she_copy ex_foreign_env) \<lparr>lcp_originalLessonId = ''lesson'',
       lcp_destinationCourse = course.truncate (course.extend ex_foreign_course \<lparr>crs_courseGroups = coll_of []\<rparr>),
       lcp_user = ex_teacher, lcp_copyName = Some ''New''\<rparr> ex_copy_start = (Inr st, c)"
    by blast
  then have "share_copyLesson ex_foreign_env ''teacher'' ''lesson'' ''foreign'' (Some ''New'') ex_shared_start =
      (Inr st, ex_shared_start\<lparr>shs_copies := c\<rparr>)"
    by (simp add: share_copyLesson_def getUserWithPermissions_def copyingE_eq_Inr)
  then show ?thesis
    using ex_copy_allowed(1)
    by (simp add: uc_importShareToken_def bindE_Inr [where m = "lookupToken _ _", OF ex_lesson_looked_up])
      (simp add: share_mapEntityToDO_def ex_lesson_share_def share_checkFeatureEnabled_def guardR_def checkOptionalContext_def
        checkCreatePermission_def getUserWithPermissions_def share_permissions_def checkAllPermissions_def bindR_def)
qed

lemma ex_foreign_refused:
  "check_course_write (she_copy ex_foreign_env) ''teacher'' i [] = Inl ForbiddenException"
  by (simp add: check_course_write_def checkPermissionByReferences_def hasPermissionByReferences_def
      getUserWithPermissions_def loadEntity_def resolveRepo_def ReferenceLoader_repos_def service_permits
      course_rule.unconditional ex_access_defs ex_foreign_course_def guardR_def bindR_def)

theorem import_ignores_destination_witness:
  "\<exists>st s' l. uc_importShareToken ex_foreign_env ''teacher'' ''t1'' ''New'' (Some ''foreign'') ex_shared_start = (Inr st, s') \<and>
     last (cps_saved (shs_copies s')) = CopyLesson l \<and> map_option eid (les_course l) = Some ''foreign''"
proof -
  let ?c = "course.extend ex_foreign_course \<lparr>crs_courseGroups = coll_of []\<rparr>"
  from ex_share_import_runs obtain st s' where
    run: "uc_importShareToken ex_foreign_env ''teacher'' ''t1'' ''New'' (Some ''foreign'') ex_shared_start = (Inr st, s')"
    by blast
  have h: "spl_parentType (std_payload (share_mapEntityToDO ex_lesson_share)) = SharedLesson"
    "ce_course_findById (she_copy ex_foreign_env) ''foreign'' = Inr ?c"
    by (simp_all add: share_mapEntityToDO_def ex_lesson_share_def)
  from import_ignores_destination [OF run ex_lesson_looked_up h _ ex_foreign_refused] obtain l where
    "last (cps_saved (shs_copies s')) = CopyLesson l" "les_course l = Some (course.truncate ?c)"
    by auto
  with run show ?thesis by (simp add: course.defs ex_foreign_course_def)
qed

end
