(* ===== verification/TaskRepos.thy ===== *)
theory TaskRepos
  imports PeopleRepos CopyFiles Rooms "HOL-Library.Option_ord"
begin

text \<open>
  The repositories of courses, lessons, tasks, submissions and task cards
  (\<^verbatim>\<open>shared/repo/{course,lesson,task,submission,card}\<close>), over tables. A row holds what the database
  holds; what it refers to is read again when a row is loaded. Queries see ids and columns only.
\<close>

section \<open>Tables\<close>

text \<open>
  Parameters: the courses, which are only read here; the request to the files storage, which fails
  with an error or succeeds; the sanitizer; and the conversion between the time of the clock and that
  of the time zone of the server, in milliseconds.
\<close>

record task_env =
  tke_now :: date
  tke_auth :: auth_env
  tke_getUser :: get_user
  tke_newId :: "ref \<Rightarrow> EntityId"
  tke_courses :: "course_entity list"
  tke_deleteFilesOfParent :: "IFileRequestInfo \<Rightarrow> exn option"
  tke_sanitizeRichText :: "string \<Rightarrow> InputFormat \<Rightarrow> string"
  tke_localTime :: "date \<Rightarrow> int"
  tke_utc :: "int \<Rightarrow> date"
  tke_FEATURE_TASK_CARD_ENABLED :: bool

record task_state =
  tks_fresh :: ref
  tks_tasks :: "task list"
  tks_lessons :: "lesson list"
  tks_submissions :: "submission_entity list"
  tks_cards :: "TaskCard list"
  tks_deletedFiles :: "IFileRequestInfo list"

type_synonym 'a tasking = "(task_state, 'a) eff"

definition task_ref :: "ref tasking" where
  "task_ref s = (Inr (tks_fresh s), s\<lparr>tks_fresh := Suc (tks_fresh s)\<rparr>)"

section \<open>Courses\<close>

definition collection_has :: "'a entity_scheme collection option \<Rightarrow> EntityId \<Rightarrow> bool" where
  "collection_has c i = (case c of None \<Rightarrow> False | Some xs \<Rightarrow> i \<in> set (coll_ids xs))"

definition is_teacher_id :: "EntityId \<Rightarrow> 'a course_scheme \<Rightarrow> bool" where
  "is_teacher_id userId c \<longleftrightarrow> collection_has (Some (crs_teachers c)) userId"

definition is_substitute_id :: "EntityId \<Rightarrow> 'a course_scheme \<Rightarrow> bool" where
  "is_substitute_id userId c \<longleftrightarrow> collection_has (Some (crs_substitutionTeachers c)) userId"

definition is_student_id :: "EntityId \<Rightarrow> 'a course_scheme \<Rightarrow> bool" where
  "is_student_id userId c \<longleftrightarrow> collection_has (crs_students c) userId"

definition forAllGroupTypes :: "EntityId \<Rightarrow> course_entity Scope \<Rightarrow> course_entity Scope" where
  "forAllGroupTypes userId sc =
     (if userId = [] then sc
      else addQuery sc (\<lambda>c. is_student_id userId c \<or> is_teacher_id userId c \<or> is_substitute_id userId c))"

definition forTeacherOrSubstituteTeacher :: "EntityId \<Rightarrow> course_entity Scope \<Rightarrow> course_entity Scope" where
  "forTeacherOrSubstituteTeacher userId sc =
     (if userId = [] then sc else addQuery sc (\<lambda>c. is_teacher_id userId c \<or> is_substitute_id userId c))"

definition forTeacher :: "EntityId \<Rightarrow> course_entity Scope \<Rightarrow> course_entity Scope" where
  "forTeacher userId sc = addQuery sc (is_teacher_id userId)"

definition forSubstituteTeacher :: "EntityId \<Rightarrow> course_entity Scope \<Rightarrow> course_entity Scope" where
  "forSubstituteTeacher userId sc = addQuery sc (is_substitute_id userId)"

definition forActiveCourses :: "date \<Rightarrow> course_entity Scope \<Rightarrow> course_entity Scope" where
  "forActiveCourses now sc =
     addQuery sc (\<lambda>c. case crs_untilDate c of None \<Rightarrow> True | Some d \<Rightarrow> now \<le> d)"

definition forCourseId :: "EntityId \<Rightarrow> course_entity Scope \<Rightarrow> course_entity Scope" where
  "forCourseId courseId sc = addQuery sc (\<lambda>c. eid c = courseId)"

text \<open>The order that a caller asks for is the argument \<open>order\<close>.\<close>

definition find_courses ::
  "task_env \<Rightarrow> course_entity Scope \<Rightarrow> (course_entity list \<Rightarrow> course_entity list) \<Rightarrow> nat option \<Rightarrow> nat option \<Rightarrow>
   course_entity list \<times> nat" where
  "find_courses env sc order skip limit =
     (let found = filter (scope_query sc) (tke_courses env) in (page_of skip limit (order found), length found))"

definition course_findAllByUserId ::
  "task_env \<Rightarrow> EntityId \<Rightarrow> bool \<Rightarrow> (course_entity list \<Rightarrow> course_entity list) \<Rightarrow> nat option \<Rightarrow> nat option \<Rightarrow>
   course_entity list \<times> nat" where
  "course_findAllByUserId env userId onlyActiveCourses order skip limit =
     (let sc = forAllGroupTypes userId (new_Scope AndOp)
      in find_courses env (if onlyActiveCourses then forActiveCourses (tke_now env) sc else sc) order skip limit)"

definition course_findAllForTeacher ::
  "task_env \<Rightarrow> EntityId \<Rightarrow> bool \<Rightarrow> (course_entity list \<Rightarrow> course_entity list) \<Rightarrow> nat option \<Rightarrow> nat option \<Rightarrow>
   course_entity list \<times> nat" where
  "course_findAllForTeacher env userId onlyActiveCourses order skip limit =
     (let sc = forTeacher userId (new_Scope AndOp)
      in find_courses env (if onlyActiveCourses then forActiveCourses (tke_now env) sc else sc) order skip limit)"

definition findAllForTeacherOrSubstituteTeacher :: "task_env \<Rightarrow> EntityId \<Rightarrow> course_entity list \<times> nat" where
  "findAllForTeacherOrSubstituteTeacher env userId =
     find_courses env (forTeacherOrSubstituteTeacher userId (new_Scope AndOp)) id None None"

definition findAllForSubstituteTeacher :: "task_env \<Rightarrow> EntityId \<Rightarrow> course_entity list \<times> nat" where
  "findAllForSubstituteTeacher env userId =
     find_courses env (forSubstituteTeacher userId (new_Scope AndOp)) id None None"

definition course_findOne :: "task_env \<Rightarrow> EntityId \<Rightarrow> EntityId option \<Rightarrow> course_entity result" where
  "course_findOne env courseId userId =
     (let sc = forCourseId courseId (new_Scope AndOp);
          sc' = (if truthy userId then forAllGroupTypes (the userId) sc else sc)
      in case List.find (scope_query sc') (tke_courses env) of
           None \<Rightarrow> Inl (NotFoundException []) | Some c \<Rightarrow> Inr c)"

definition course_findById :: "task_env \<Rightarrow> EntityId \<Rightarrow> course_entity result" where
  "course_findById env i = row_or_fail (tke_courses env) i"

section \<open>Loading\<close>

text \<open>
  What is populated is the row as it is. \<^verbatim>\<open>TaskRepo\<close> does not populate the course of a course group: there the
  ORM has the object of that row if the request has read it, and else a reference with an id only. The
  model takes it as read.
\<close>

definition load_course :: "task_env \<Rightarrow> course \<Rightarrow> course" where
  "load_course env c = (case find_row (tke_courses env) (eid c) of None \<Rightarrow> c | Some r \<Rightarrow> course.truncate r)"

definition load_group :: "task_env \<Rightarrow> courseGroup \<Rightarrow> courseGroup" where
  "load_group env g = g\<lparr>cg_course := load_course env (cg_course g)\<rparr>"

definition load_lesson :: "task_env \<Rightarrow> task_state \<Rightarrow> lesson \<Rightarrow> lesson" where
  "load_lesson env s l =
     (let r = (case find_row (tks_lessons s) (eid l) of None \<Rightarrow> l | Some r \<Rightarrow> r)
      in r\<lparr>les_course := map_option (load_course env) (les_course r),
           les_courseGroup := map_option (load_group env) (les_courseGroup r)\<rparr>)"

definition submissions_of :: "task_state \<Rightarrow> EntityId \<Rightarrow> submission_entity list" where
  "submissions_of s taskId = filter (\<lambda>x. eid (sub_task x) = taskId) (tks_submissions s)"

text \<open>\<^verbatim>\<open>populate\<close> of \<^verbatim>\<open>TaskRepo\<close>.\<close>

definition load_task :: "task_env \<Rightarrow> task_state \<Rightarrow> task \<Rightarrow> task" where
  "load_task env s t =
     t\<lparr>tsk_course := map_option (load_course env) (tsk_course t),
       tsk_lesson := map_option (load_lesson env s) (tsk_lesson t),
       tsk_submissions := Some (coll_of (map submission.truncate (submissions_of s (eid t))))\<rparr>"

text \<open>\<^verbatim>\<open>populateReferences\<close> of \<^verbatim>\<open>SubmissionRepo\<close>.\<close>

definition load_submission :: "task_env \<Rightarrow> task_state \<Rightarrow> submission_entity \<Rightarrow> submission_entity" where
  "load_submission env s x =
     (let t = (case find_row (tks_tasks s) (eid (sub_task x)) of None \<Rightarrow> sub_task x | Some t \<Rightarrow> t)
      in x\<lparr>sub_courseGroup := map_option (load_group env) (sub_courseGroup x),
           sub_task := t\<lparr>tsk_course := map_option (load_course env) (tsk_course t),
                         tsk_lesson := map_option (load_lesson env s) (tsk_lesson t)\<rparr>\<rparr>)"

text \<open>\<^verbatim>\<open>populate\<close> of \<^verbatim>\<open>TaskCardRepo\<close>: the submissions of the task are not loaded.\<close>

definition load_card :: "task_env \<Rightarrow> task_state \<Rightarrow> TaskCard \<Rightarrow> TaskCard" where
  "load_card env s c =
     (let t = (case find_row (tks_tasks s) (eid (tc_task c)) of None \<Rightarrow> tc_task c | Some t \<Rightarrow> t)
      in c\<lparr>tc_task := t\<lparr>tsk_course := map_option (load_course env) (tsk_course t),
             tsk_submissions := Some \<lparr>coll_initialized = False, coll_items = []\<rparr>\<rparr>\<rparr>)"

definition load_lesson_entity :: "task_env \<Rightarrow> task_state \<Rightarrow> lesson \<Rightarrow> lesson_entity" where
  "load_lesson_entity env s l =
     lesson.extend (load_lesson env s l)
       \<lparr>les_tasks = coll_of (filter (\<lambda>t. map_option eid (tsk_lesson t) = Some (eid l)) (tks_tasks s))\<rparr>"

section \<open>Lessons\<close>

definition lesson_byCourseIds :: "EntityId list \<Rightarrow> lesson Scope \<Rightarrow> lesson Scope" where
  "lesson_byCourseIds courseIds sc =
     addQuery sc (\<lambda>l. case les_course l of None \<Rightarrow> False | Some c \<Rightarrow> eid c \<in> set courseIds)"

definition byHidden :: "bool \<Rightarrow> lesson Scope \<Rightarrow> lesson Scope" where
  "byHidden isHidden sc = addQuery sc (\<lambda>l. les_hidden l = isHidden)"

definition findAllByCourseIds :: "task_env \<Rightarrow> EntityId list \<Rightarrow> bool option \<Rightarrow> (lesson_entity list \<times> nat) tasking" where
  "findAllByCourseIds env courseIds hidden = queryE (\<lambda>s.
     let sc = lesson_byCourseIds courseIds (new_Scope AndOp);
         sc' = (case hidden of None \<Rightarrow> sc | Some h \<Rightarrow> byHidden h sc);
         found = sort_key les_position (filter (scope_query sc') (tks_lessons s))
     in Inr (map (load_lesson_entity env s) found, length found))"

definition lesson_findById :: "task_env \<Rightarrow> EntityId \<Rightarrow> lesson_entity tasking" where
  "lesson_findById env i = queryE (\<lambda>s. mapR (load_lesson_entity env s) (row_or_fail (tks_lessons s) i))"

text \<open>\<^verbatim>\<open>orphanRemoval\<close>: the tasks of a lesson are removed with it.\<close>

definition lesson_delete :: "lesson_entity \<Rightarrow> unit tasking" where
  "lesson_delete l = modifyE (\<lambda>s.
     s\<lparr>tks_lessons := filter (\<lambda>r. eid r \<noteq> eid l) (tks_lessons s),
       tks_tasks := filter (\<lambda>t. eid t \<notin> set (coll_ids (les_tasks l))) (tks_tasks s)\<rparr>)"

section \<open>The scope of tasks\<close>

definition finished_ids :: "'a task_scheme \<Rightarrow> EntityId list" where
  "finished_ids t = (case tsk_finished t of None \<Rightarrow> [] | Some c \<Rightarrow> coll_ids c)"

definition available_on :: "date \<Rightarrow> 'a task_scheme \<Rightarrow> bool" where
  "available_on d t = (case tsk_availableDate t of None \<Rightarrow> False | Some a \<Rightarrow> a \<le> d)"

definition byFinished :: "EntityId \<Rightarrow> bool \<Rightarrow> task Scope \<Rightarrow> task Scope" where
  "byFinished userId value sc = addQuery sc (\<lambda>t. (userId \<in> set (finished_ids t)) = value)"

definition byOnlyCreatorId :: "EntityId \<Rightarrow> task Scope \<Rightarrow> task Scope" where
  "byOnlyCreatorId teacherId sc =
     addQuery sc (\<lambda>t. eid (tsk_creator t) = teacherId \<and> tsk_course t = None \<and> tsk_lesson t = None)"

definition byCreatorId :: "EntityId \<Rightarrow> task Scope \<Rightarrow> task Scope" where
  "byCreatorId creatorId sc = addQuery sc (\<lambda>t. eid (tsk_creator t) = creatorId)"

definition byCourseIds :: "EntityId list \<Rightarrow> task Scope \<Rightarrow> task Scope" where
  "byCourseIds courseIds sc =
     addQuery sc (\<lambda>t. (case tsk_course t of None \<Rightarrow> False | Some c \<Rightarrow> eid c \<in> set courseIds) \<and> tsk_lesson t = None)"

definition byLessonIds :: "EntityId list \<Rightarrow> task Scope \<Rightarrow> task Scope" where
  "byLessonIds lessonIds sc =
     addQuery sc (\<lambda>t. case tsk_lesson t of None \<Rightarrow> False | Some l \<Rightarrow> eid l \<in> set lessonIds)"

definition getByDraftQuery :: "bool \<Rightarrow> task \<Rightarrow> bool" where
  "getByDraftQuery draft t = (if draft then tsk_private t = Some True else tsk_private t \<noteq> Some True)"

definition getByDraftForCreatorQuery :: "EntityId \<Rightarrow> task \<Rightarrow> bool" where
  "getByDraftForCreatorQuery creatorId t \<longleftrightarrow> eid (tsk_creator t) = creatorId \<and> getByDraftQuery True t"

definition byDraft :: "bool \<Rightarrow> task Scope \<Rightarrow> task Scope" where
  "byDraft draft sc = addQuery sc (getByDraftQuery draft)"

definition excludeDraftsOfOthers :: "EntityId \<Rightarrow> task Scope \<Rightarrow> task Scope" where
  "excludeDraftsOfOthers creatorId sc =
     addQuery sc (\<lambda>t. getByDraftForCreatorQuery creatorId t \<or> getByDraftQuery False t)"

definition byAvailable :: "date \<Rightarrow> task Scope \<Rightarrow> task Scope" where
  "byAvailable availableDate sc = addQuery sc (available_on availableDate)"

definition noFutureAvailableDate :: "date \<Rightarrow> task Scope \<Rightarrow> task Scope" where
  "noFutureAvailableDate now sc = addQuery sc (available_on now)"

definition excludeUnavailableOfOthers :: "EntityId \<Rightarrow> date \<Rightarrow> task Scope \<Rightarrow> task Scope" where
  "excludeUnavailableOfOthers creatorId availableOn sc =
     addQuery sc (\<lambda>t. eid (tsk_creator t) = creatorId \<or>
       eid (tsk_creator t) \<noteq> creatorId \<and> available_on availableOn t)"

definition afterDueDateOrNone :: "date \<Rightarrow> task Scope \<Rightarrow> task Scope" where
  "afterDueDateOrNone dueDate sc =
     addQuery sc (\<lambda>t. case tsk_dueDate t of None \<Rightarrow> True | Some d \<Rightarrow> dueDate \<le> d)"

section \<open>Tasks\<close>

text \<open>The order by due date, and by id among equal ones; a missing date comes before every date.\<close>

definition sort_tasks :: "SortOrder option \<Rightarrow> task list \<Rightarrow> task list" where
  "sort_tasks order ts =
     (let byId = sort_key eid ts
      in case order of
           None \<Rightarrow> byId
         | Some SortAsc \<Rightarrow> sort_key tsk_dueDate byId
         | Some SortDesc \<Rightarrow> rev (sort_key tsk_dueDate (rev byId)))"

definition findTasksAndCount ::
  "task_env \<Rightarrow> (task \<Rightarrow> bool) \<Rightarrow> SortOrder option \<Rightarrow> nat option \<Rightarrow> nat option \<Rightarrow> (task list \<times> nat) tasking" where
  "findTasksAndCount env query order skip limit = queryE (\<lambda>s.
     let found = filter query (tks_tasks s)
     in Inr (map (load_task env s) (page_of skip limit (sort_tasks order found)), length found))"

record FinishedParentIds =
  fpi_creatorId :: EntityId
  fpi_openCourseIds :: "EntityId list"
  fpi_lessonIdsOfOpenCourses :: "EntityId list"
  fpi_finishedCourseIds :: "EntityId list"
  fpi_lessonIdsOfFinishedCourses :: "EntityId list"

definition finished_scope :: "FinishedParentIds \<Rightarrow> task Scope" where
  "finished_scope ids =
     (let me = fpi_creatorId ids;
          parentsOpen = byLessonIds (fpi_lessonIdsOfOpenCourses ids)
            (byCourseIds (fpi_openCourseIds ids) (new_Scope OrOp));
          parentsFinished = byLessonIds (fpi_lessonIdsOfFinishedCourses ids)
            (byCourseIds (fpi_finishedCourseIds ids) (new_Scope OrOp));
          closedForOpenCoursesAndLessons =
            byFinished me True (byDraft False (addQuery (new_Scope AndOp) (scope_query parentsOpen)));
          allForFinishedCoursesAndLessons =
            byDraft False (addQuery (new_Scope AndOp) (scope_query parentsFinished));
          closedWithoutParentForCreator = byOnlyCreatorId me (byFinished me True (new_Scope AndOp));
          closedDraftsForCreator =
            byCreatorId me (byFinished me True (addQuery (new_Scope AndOp) (scope_query parentsOpen)));
          allForFinishedCoursesAndLessonsForCreator =
            byCreatorId me (addQuery (new_Scope AndOp) (scope_query parentsFinished));
          allForCreator =
            addQuery (addQuery (addQuery (new_Scope OrOp) (scope_query closedWithoutParentForCreator))
              (scope_query closedDraftsForCreator)) (scope_query allForFinishedCoursesAndLessonsForCreator)
      in addQuery (addQuery (addQuery (new_Scope OrOp) (scope_query closedForOpenCoursesAndLessons))
           (scope_query allForFinishedCoursesAndLessons)) (scope_query allForCreator))"

definition findAllFinishedByParentIds ::
  "task_env \<Rightarrow> FinishedParentIds \<Rightarrow> SortOrder option \<Rightarrow> nat option \<Rightarrow> nat option \<Rightarrow> (task list \<times> nat) tasking" where
  "findAllFinishedByParentIds env ids order skip limit =
     findTasksAndCount env (scope_query (finished_scope ids)) order skip limit"

record TaskParentIds =
  tpi_creatorId :: "EntityId option"
  tpi_courseIds :: "EntityId list option"
  tpi_lessonIds :: "EntityId list option"

record TaskFilters =
  tfi_afterDueDateOrNone :: "date option"
  tfi_finished :: "(EntityId \<times> bool) option"
  tfi_availableOn :: "date option"

definition parents_scope :: "TaskParentIds \<Rightarrow> task Scope" where
  "parents_scope ids =
     (let sc0 = new_Scope OrOp;
          sc1 = (if truthy (tpi_creatorId ids) then byOnlyCreatorId (the (tpi_creatorId ids)) sc0 else sc0);
          sc2 = (case tpi_courseIds ids of None \<Rightarrow> sc1 | Some is \<Rightarrow> byCourseIds is sc1)
      in case tpi_lessonIds ids of None \<Rightarrow> sc2 | Some is \<Rightarrow> byLessonIds is sc2)"

definition list_scope :: "TaskParentIds \<Rightarrow> TaskFilters \<Rightarrow> task Scope" where
  "list_scope ids filters =
     (let sc0 = addQuery (new_Scope AndOp) (scope_query (parents_scope ids));
          sc1 = (case tfi_finished filters of None \<Rightarrow> sc0 | Some (u, v) \<Rightarrow> byFinished u v sc0);
          sc2 = (if truthy (tpi_creatorId ids) then excludeDraftsOfOthers (the (tpi_creatorId ids)) sc1
                 else byDraft False sc1);
          sc3 = (case tfi_afterDueDateOrNone filters of None \<Rightarrow> sc2 | Some d \<Rightarrow> afterDueDateOrNone d sc2)
      in case tfi_availableOn filters of
           None \<Rightarrow> sc3
         | Some d \<Rightarrow> if truthy (tpi_creatorId ids) then excludeUnavailableOfOthers (the (tpi_creatorId ids)) d sc3
                     else byAvailable d sc3)"

definition findAllByParentIds ::
  "task_env \<Rightarrow> TaskParentIds \<Rightarrow> TaskFilters \<Rightarrow> SortOrder option \<Rightarrow> nat option \<Rightarrow> nat option \<Rightarrow> (task list \<times> nat) tasking" where
  "findAllByParentIds env ids filters order skip limit =
     findTasksAndCount env (scope_query (list_scope ids filters)) order skip limit"

definition findBySingleParent ::
  "task_env \<Rightarrow> EntityId \<Rightarrow> EntityId \<Rightarrow> bool option \<Rightarrow> bool option \<Rightarrow> SortOrder option \<Rightarrow> nat option \<Rightarrow> nat option \<Rightarrow>
   (task list \<times> nat) tasking" where
  "findBySingleParent env creatorId courseId draft noFuture order skip limit =
     (let sc = byCourseIds [courseId] (new_Scope AndOp);
          sc1 = (case draft of None \<Rightarrow> sc | Some d \<Rightarrow> if d then excludeDraftsOfOthers creatorId sc else byDraft False sc);
          sc2 = (case noFuture of None \<Rightarrow> sc1 | Some _ \<Rightarrow> noFutureAvailableDate (tke_now env) sc1)
      in findTasksAndCount env (scope_query sc2) order skip limit)"

definition task_findById :: "task_env \<Rightarrow> EntityId \<Rightarrow> task tasking" where
  "task_findById env i = queryE (\<lambda>s. mapR (load_task env s) (row_or_fail (tks_tasks s) i))"

text \<open>A row keeps what it refers to as it was, unless it refers to something else now.\<close>

definition task_row :: "task \<Rightarrow> task \<Rightarrow> task" where
  "task_row old t =
     t\<lparr>tsk_course := (if map_option eid (tsk_course t) = map_option eid (tsk_course old) then tsk_course old else tsk_course t),
       tsk_lesson := (if map_option eid (tsk_lesson t) = map_option eid (tsk_lesson old) then tsk_lesson old else tsk_lesson t),
       tsk_submissions := tsk_submissions old\<rparr>"

definition task_save :: "task_env \<Rightarrow> task \<Rightarrow> task tasking" where
  "task_save env t s =
     (let row = (case find_row (tks_tasks s) (eid t) of None \<Rightarrow> t | Some old \<Rightarrow> task_row old t);
          (row', rows) = persist_row (tke_now env) (tke_newId env) (tks_tasks s) row
      in (Inr (t\<lparr>eid := eid row', ent_updatedAt := ent_updatedAt row'\<rparr>), s\<lparr>tks_tasks := rows\<rparr>))"

definition task_delete :: "task \<Rightarrow> unit tasking" where
  "task_delete t = modifyE (\<lambda>s. s\<lparr>tks_tasks := filter (\<lambda>r. eid r \<noteq> eid t) (tks_tasks s)\<rparr>)"

section \<open>Submissions\<close>

definition submission_findById :: "task_env \<Rightarrow> EntityId \<Rightarrow> submission_entity tasking" where
  "submission_findById env i = queryE (\<lambda>s. mapR (load_submission env s) (row_or_fail (tks_submissions s) i))"

definition findAllByTaskIds :: "task_env \<Rightarrow> EntityId list \<Rightarrow> (submission_entity list \<times> nat) tasking" where
  "findAllByTaskIds env taskIds = queryE (\<lambda>s.
     let found = filter (\<lambda>x. eid (sub_task x) \<in> set taskIds) (tks_submissions s)
     in Inr (map (load_submission env s) found, length found))"

definition submission_delete :: "'a submission_scheme \<Rightarrow> unit tasking" where
  "submission_delete x = modifyE (\<lambda>s. s\<lparr>tks_submissions := filter (\<lambda>r. eid r \<noteq> eid x) (tks_submissions s)\<rparr>)"

section \<open>Task cards\<close>

definition card_findById :: "task_env \<Rightarrow> EntityId \<Rightarrow> TaskCard tasking" where
  "card_findById env i = queryE (\<lambda>s. mapR (load_card env s) (row_or_fail (tks_cards s) i))"

text \<open>\<^verbatim>\<open>Cascade.ALL\<close>: the task of a card is saved and removed with it.\<close>

definition card_save :: "task_env \<Rightarrow> TaskCard \<Rightarrow> TaskCard tasking" where
  "card_save env c =
     bindE (task_save env (tc_task c)) (\<lambda>t s.
       let row = (case find_row (tks_cards s) (eid c) of None \<Rightarrow> c\<lparr>tc_task := t\<rparr> | Some old \<Rightarrow> c\<lparr>tc_task := tc_task old\<rparr>);
           (row', rows) = persist_row (tke_now env) (tke_newId env) (tks_cards s) row
       in (Inr (c\<lparr>eid := eid row', ent_updatedAt := ent_updatedAt row', tc_task := t\<rparr>), s\<lparr>tks_cards := rows\<rparr>))"

definition card_delete :: "TaskCard \<Rightarrow> unit tasking" where
  "card_delete c =
     bindE (task_delete (tc_task c)) (\<lambda>_.
       modifyE (\<lambda>s. s\<lparr>tks_cards := filter (\<lambda>r. eid r \<noteq> eid c) (tks_cards s)\<rparr>))"

end
