(* ===== verification/TaskUseCases.thy ===== *)
theory TaskUseCases
  imports TaskRepos
begin

text \<open>
  Tasks, submissions and lessons as the server offers them: the services and use cases of
  \<^verbatim>\<open>modules/task\<close> and the deletion of lessons in \<^verbatim>\<open>modules/lesson\<close>, with the mappers and the handlers
  of the controllers.
\<close>

section \<open>Files\<close>

definition deleteFilesOfParent :: "task_env \<Rightarrow> IFileRequestInfo \<Rightarrow> unit tasking" where
  "deleteFilesOfParent env params s =
     (case tke_deleteFilesOfParent env params of
        Some e \<Rightarrow> (Inl e, s)
      | None \<Rightarrow> (Inr (), s\<lparr>tks_deletedFiles := tks_deletedFiles s @ [params]\<rparr>))"

section \<open>Submissions\<close>

definition service_deleteSubmission :: "task_env \<Rightarrow> submission_entity \<Rightarrow> unit tasking" where
  "service_deleteSubmission env x =
     bindE (deleteFilesOfParent env (FileParamBuilder_build (eid (sub_school x)) (FilesOfSubmission x))) (\<lambda>_.
       submission_delete x)"

definition service_findAllByTask :: "task_env \<Rightarrow> EntityId \<Rightarrow> (submission_entity list \<times> nat) tasking" where
  "service_findAllByTask env taskId = findAllByTaskIds env [taskId]"

definition filterSubmissionsByPermission :: "task_env \<Rightarrow> submission_entity list \<Rightarrow> user \<Rightarrow> submission_entity list result" where
  "filterSubmissionsByPermission env submissions u =
     filterR (\<lambda>x. hasPermission (tke_auth env) u (SubjSubmission x) (PermissionContextBuilder_read [''SUBMISSIONS_VIEW'']))
       submissions"

definition uc_findAllByTask :: "task_env \<Rightarrow> EntityId \<Rightarrow> EntityId \<Rightarrow> submission_entity list tasking" where
  "uc_findAllByTask env userId taskId =
     bindE (service_findAllByTask env taskId) (\<lambda>(submissions, n).
     bindE (liftE (getUserWithPermissions (tke_getUser env) userId)) (\<lambda>u.
       liftE (filterSubmissionsByPermission env submissions u)))"

definition uc_deleteSubmission :: "task_env \<Rightarrow> EntityId \<Rightarrow> EntityId \<Rightarrow> bool tasking" where
  "uc_deleteSubmission env userId submissionId =
     bindE (liftE (getUserWithPermissions (tke_getUser env) userId)) (\<lambda>u.
     bindE (submission_findById env submissionId) (\<lambda>x.
     bindE (liftE (checkPermission (tke_auth env) u (SubjSubmission x) (PermissionContextBuilder_write [''SUBMISSIONS_EDIT'']))) (\<lambda>_.
     bindE (service_deleteSubmission env x) (\<lambda>_. retE True))))"

record SubmissionStatusResponse =
  ssr_id :: EntityId
  ssr_submitters :: "EntityId list"
  ssr_isSubmitted :: bool
  ssr_grade :: "int option"
  ssr_isGraded :: bool
  ssr_submittingCourseGroupName :: "string option"

definition mapToStatusResponse :: "'a submission_scheme \<Rightarrow> SubmissionStatusResponse result" where
  "mapToStatusResponse x =
     bindR (getSubmitterIds x) (\<lambda>submitters.
       Inr \<lparr>ssr_id = eid x, ssr_submitters = submitters, ssr_isSubmitted = isSubmitted x, ssr_grade = sub_grade x,
            ssr_isGraded = isGraded x, ssr_submittingCourseGroupName = map_option cg_name (sub_courseGroup x)\<rparr>)"

definition findStatusesByTask :: "task_env \<Rightarrow> EntityId \<Rightarrow> EntityId \<Rightarrow> SubmissionStatusResponse list tasking" where
  "findStatusesByTask env userId taskId =
     bindE (uc_findAllByTask env userId taskId) (\<lambda>submissions. liftE (mapMR mapToStatusResponse submissions))"

section \<open>Lessons\<close>

definition service_deleteLesson :: "task_env \<Rightarrow> lesson_entity \<Rightarrow> unit tasking" where
  "service_deleteLesson env l =
     bindE (liftE (Lesson_getSchoolId l)) (\<lambda>schoolId.
     bindE (deleteFilesOfParent env (FileParamBuilder_build schoolId (FilesOfLesson l))) (\<lambda>_.
       lesson_delete l))"

definition uc_deleteLesson :: "task_env \<Rightarrow> EntityId \<Rightarrow> EntityId \<Rightarrow> bool tasking" where
  "uc_deleteLesson env userId lessonId =
     bindE (liftE (getUserWithPermissions (tke_getUser env) userId)) (\<lambda>u.
     bindE (lesson_findById env lessonId) (\<lambda>l.
     bindE (liftE (checkPermission (tke_auth env) u (SubjLesson l) (PermissionContextBuilder_write [''TOPIC_VIEW'']))) (\<lambda>_.
     bindE (service_deleteLesson env l) (\<lambda>_. retE True))))"

section \<open>The service of tasks\<close>

record ITaskUpdate =
  itu_name :: string
  itu_description :: "string option"
  itu_descriptionInputFormat :: "InputFormat option"
  itu_availableDate :: "date option"
  itu_dueDate :: "date option"
  itu_taskCard :: "string option"
  itu_courseId :: "EntityId option"
  itu_lessonId :: "EntityId option"

definition service_findBySingleParent ::
  "task_env \<Rightarrow> EntityId \<Rightarrow> EntityId \<Rightarrow> bool option \<Rightarrow> bool option \<Rightarrow> SortOrder option \<Rightarrow> nat option \<Rightarrow> nat option \<Rightarrow>
   (task list \<times> nat) tasking" where
  "service_findBySingleParent env creatorId courseId draft noFuture order skip limit =
     findBySingleParent env creatorId courseId draft noFuture order skip limit"

text \<open>
  \<^verbatim>\<open>Promise.all\<close> over operations that are all started: one that fails does not stop the others, and the
  first error is that of the whole.
\<close>

primrec all_started :: "('a \<Rightarrow> ('s, unit) eff) \<Rightarrow> 'a list \<Rightarrow> ('s, unit) eff" where
  "all_started f [] = retE ()"
| "all_started f (x # xs) =
     (\<lambda>s. case f x s of (r, s') \<Rightarrow> (case all_started f xs s' of (r', s'') \<Rightarrow> (bindR r (\<lambda>_. r'), s'')))"

definition deleteSubmissions :: "task_env \<Rightarrow> task \<Rightarrow> unit tasking" where
  "deleteSubmissions env t =
     (case tsk_submissions t of
        None \<Rightarrow> throwE TypeError
      | Some c \<Rightarrow>
          all_started (\<lambda>x. service_deleteSubmission env (submission.extend x \<lparr>sub_task = t\<rparr>)) (coll_items c))"

definition service_deleteTask :: "task_env \<Rightarrow> task \<Rightarrow> unit tasking" where
  "service_deleteTask env t =
     bindE (deleteFilesOfParent env (FileParamBuilder_build (eid (tsk_school t)) (FilesOfTask t))) (\<lambda>_.
     bindE (deleteSubmissions env t) (\<lambda>_.
       task_delete t))"

definition taskDateValidation :: "date option \<Rightarrow> date option \<Rightarrow> unit result" where
  "taskDateValidation availableDate dueDate =
     (case (availableDate, dueDate) of
        (Some a, Some d) \<Rightarrow> guardR (a < d) (ValidationError ''availableDate must be before dueDate'')
      | _ \<Rightarrow> Inr ())"

definition writable_course :: "task_env \<Rightarrow> user \<Rightarrow> EntityId \<Rightarrow> course result" where
  "writable_course env u courseId =
     bindR (course_findById env courseId) (\<lambda>c.
     bindR (checkPermission (tke_auth env) u (SubjCourse (course.truncate c)) (PermissionContextBuilder_write [])) (\<lambda>_.
       Inr (course.truncate c)))"

text \<open>A lesson has to belong to the course of the task; \<^verbatim>\<open>lesson.course.id\<close> fails for a lesson without one.\<close>

definition writable_lesson :: "task_env \<Rightarrow> user \<Rightarrow> course option \<Rightarrow> EntityId \<Rightarrow> lesson tasking" where
  "writable_lesson env u parent lessonId =
     bindE (lesson_findById env lessonId) (\<lambda>l.
     bindE (liftE (case parent of
         None \<Rightarrow> Inl (BadRequestException ''Lesson does not belong to Course'')
       | Some c \<Rightarrow> (case les_course l of
           None \<Rightarrow> Inl TypeError
         | Some c' \<Rightarrow> guardR (eid c' = eid c) (BadRequestException ''Lesson does not belong to Course'')))) (\<lambda>_.
     bindE (liftE (checkPermission (tke_auth env) u (SubjLesson l) (PermissionContextBuilder_write []))) (\<lambda>_.
       retE (lesson.truncate l))))"

definition with_status :: "task \<Rightarrow> ITaskStatus result \<Rightarrow> TaskWithStatusVo result" where
  "with_status t status = bindR status (\<lambda>st. Inr \<lparr>tws_task = t, tws_status = st\<rparr>)"

definition service_createTask :: "task_env \<Rightarrow> EntityId \<Rightarrow> ITaskUpdate \<Rightarrow> TaskWithStatusVo tasking" where
  "service_createTask env userId params =
     bindE (liftE (getUserWithPermissions (tke_getUser env) userId)) (\<lambda>u.
     bindE (liftE (taskDateValidation (itu_availableDate params) (itu_dueDate params))) (\<lambda>_.
     bindE (liftE (hasAllPermissions (tke_auth env) u [''HOMEWORK_CREATE''])) (\<lambda>allowed.
     bindE (liftE (guardR allowed (UnauthorizedException []))) (\<lambda>_.
     bindE (if truthy (itu_courseId params)
            then bindE (liftE (writable_course env u (the (itu_courseId params)))) (\<lambda>c. retE (Some c))
            else retE None) (\<lambda>parent.
     bindE (if truthy (itu_lessonId params)
            then bindE (writable_lesson env u parent (the (itu_lessonId params))) (\<lambda>l. retE (Some l))
            else retE None) (\<lambda>l.
     bindE task_ref (\<lambda>r.
     let t = new_Task (tke_now env) r
           \<lparr>tp_name = itu_name params, tp_description = itu_description params,
            tp_descriptionInputFormat = itu_descriptionInputFormat params,
            tp_availableDate = itu_availableDate params, tp_dueDate = itu_dueDate params,
            tp_taskCard = itu_taskCard params, tp_course = parent, tp_lesson = l, tp_creator = u,
            tp_school = usr_school u, tp_finished = None, tp_private = None, tp_submissions = None,
            tp_publicSubmissions = None, tp_teamSubmissions = None\<rparr>
     in bindE (task_save env t) (\<lambda>t'.
          liftE (with_status t' (createTeacherStatusForUser (tke_now env) t' u))))))))))"

definition service_findTask :: "task_env \<Rightarrow> EntityId \<Rightarrow> EntityId \<Rightarrow> TaskWithStatusVo tasking" where
  "service_findTask env userId taskId =
     bindE (liftE (getUserWithPermissions (tke_getUser env) userId)) (\<lambda>u.
     bindE (task_findById env taskId) (\<lambda>t.
     bindE (liftE (checkPermission (tke_auth env) u (SubjTask t) (PermissionContextBuilder_read [''HOMEWORK_VIEW'']))) (\<lambda>_.
     bindE (liftE (hasOneOfPermissions (tke_auth env) u [''HOMEWORK_EDIT''])) (\<lambda>editor.
       liftE (with_status t (if editor then createTeacherStatusForUser (tke_now env) t u
                             else createStudentStatusForUser (tke_now env) t u))))))"

text \<open>\<^verbatim>\<open>if (value) task[key] = value\<close>: what is empty or absent is left as it is.\<close>

definition assign_params :: "ITaskUpdate \<Rightarrow> task \<Rightarrow> task" where
  "assign_params params t =
     t\<lparr>tsk_name := (if itu_name params = [] then tsk_name t else itu_name params),
       tsk_description := (if truthy (itu_description params) then the (itu_description params) else tsk_description t),
       tsk_descriptionInputFormat := nullish (itu_descriptionInputFormat params) (tsk_descriptionInputFormat t),
       tsk_availableDate := (case itu_availableDate params of None \<Rightarrow> tsk_availableDate t | Some d \<Rightarrow> Some d),
       tsk_dueDate := (case itu_dueDate params of None \<Rightarrow> tsk_dueDate t | Some d \<Rightarrow> Some d),
       tsk_taskCard := (if truthy (itu_taskCard params) then itu_taskCard params else tsk_taskCard t)\<rparr>"

definition service_updateTask :: "task_env \<Rightarrow> EntityId \<Rightarrow> EntityId \<Rightarrow> ITaskUpdate \<Rightarrow> TaskWithStatusVo tasking" where
  "service_updateTask env userId taskId params =
     bindE (liftE (getUserWithPermissions (tke_getUser env) userId)) (\<lambda>u.
     bindE (task_findById env taskId) (\<lambda>t0.
     bindE (liftE (checkPermission (tke_auth env) u (SubjTask t0) (PermissionContextBuilder_write [''HOMEWORK_EDIT'']))) (\<lambda>_.
     let t1 = assign_params params t0
     in bindE (if truthy (itu_courseId params)
               then bindE (liftE (writable_course env u (the (itu_courseId params)))) (\<lambda>c. retE (t1\<lparr>tsk_course := Some c\<rparr>))
               else retE t1) (\<lambda>t2.
        bindE (if truthy (itu_lessonId params)
               then bindE (writable_lesson env u (tsk_course t2) (the (itu_lessonId params))) (\<lambda>l. retE (t2\<lparr>tsk_lesson := Some l\<rparr>))
               else retE t2) (\<lambda>t3.
        bindE (liftE (taskDateValidation (itu_availableDate params) (itu_dueDate params))) (\<lambda>_.
        bindE (task_save env t3) (\<lambda>t'.
          liftE (with_status t' (createTeacherStatusForUser (tke_now env) t' u)))))))))"

section \<open>The use cases of tasks\<close>

definition getPermittedCourses :: "task_env \<Rightarrow> user \<Rightarrow> Actions \<Rightarrow> course_entity list" where
  "getPermittedCourses env u neededPermission =
     (case neededPermission of
        Write \<Rightarrow> fst (findAllForTeacherOrSubstituteTeacher env (eid u))
      | Read \<Rightarrow> fst (course_findAllByUserId env (eid u) False id None None))"

definition getPermittedLessons :: "task_env \<Rightarrow> user \<Rightarrow> course_entity list \<Rightarrow> lesson_entity list tasking" where
  "getPermittedLessons env u courses =
     bindE (liftE (filterR (\<lambda>c. hasPermission (tke_auth env) u (SubjCourse (course.truncate c))
              (PermissionContextBuilder_write [])) courses)) (\<lambda>writeCourses.
     let readCourses = filter (\<lambda>c. \<not> list_ex (same_object c) writeCourses) courses
     in bindE (findAllByCourseIds env (map eid writeCourses) None) (\<lambda>(writeLessons, n).
        bindE (findAllByCourseIds env (map eid readCourses) (Some False)) (\<lambda>(readLessons, m).
          retE (writeLessons @ readLessons))))"

text \<open>A week of the local time before now.\<close>

definition getDefaultMaxDueDate :: "task_env \<Rightarrow> date" where
  "getDefaultMaxDueDate env = tke_utc env (tke_localTime env (tke_now env) - 7 * 86400000)"

definition findAllForStudent :: "task_env \<Rightarrow> user \<Rightarrow> nat option \<Rightarrow> nat option \<Rightarrow> (TaskWithStatusVo list \<times> nat) tasking" where
  "findAllForStudent env u skip limit =
     (let courses = getPermittedCourses env u Read;
          openCourses = filter (\<lambda>c. \<not> Course_isFinished (tke_now env) c) courses
      in bindE (getPermittedLessons env u openCourses) (\<lambda>lessons.
         bindE (findAllByParentIds env
           \<lparr>tpi_creatorId = Some (eid u), tpi_courseIds = Some (map eid openCourses), tpi_lessonIds = Some (map eid lessons)\<rparr>
           \<lparr>tfi_afterDueDateOrNone = Some (getDefaultMaxDueDate env), tfi_finished = Some (eid u, False),
            tfi_availableOn = Some (tke_now env)\<rparr> (Some SortAsc) skip limit) (\<lambda>(tasks, n).
         bindE (liftE (mapMR (\<lambda>t. with_status t (createStudentStatusForUser (tke_now env) t u)) tasks)) (\<lambda>vos.
           retE (vos, n)))))"

definition findAllForTeacher :: "task_env \<Rightarrow> user \<Rightarrow> nat option \<Rightarrow> nat option \<Rightarrow> (TaskWithStatusVo list \<times> nat) tasking" where
  "findAllForTeacher env u skip limit =
     (let courses = getPermittedCourses env u Write;
          openCourses = filter (\<lambda>c. \<not> Course_isFinished (tke_now env) c) courses
      in bindE (getPermittedLessons env u openCourses) (\<lambda>lessons.
         bindE (findAllByParentIds env
           \<lparr>tpi_creatorId = Some (eid u), tpi_courseIds = Some (map eid openCourses), tpi_lessonIds = Some (map eid lessons)\<rparr>
           \<lparr>tfi_afterDueDateOrNone = None, tfi_finished = Some (eid u, False), tfi_availableOn = Some (tke_now env)\<rparr>
           (Some SortDesc) skip limit) (\<lambda>(tasks, n).
         bindE (liftE (mapMR (\<lambda>t. with_status t (createTeacherStatusForUser (tke_now env) t u)) tasks)) (\<lambda>vos.
           retE (vos, n)))))"

definition uc_findAll :: "task_env \<Rightarrow> EntityId \<Rightarrow> nat option \<Rightarrow> nat option \<Rightarrow> (TaskWithStatusVo list \<times> nat) tasking" where
  "uc_findAll env userId skip limit =
     bindE (liftE (getUserWithPermissions (tke_getUser env) userId)) (\<lambda>u.
     bindE (liftE (hasAllPermissions (tke_auth env) u [''TASK_DASHBOARD_VIEW_V3''])) (\<lambda>student.
     if student then findAllForStudent env u skip limit
     else bindE (liftE (hasAllPermissions (tke_auth env) u [''TASK_DASHBOARD_TEACHER_VIEW_V3''])) (\<lambda>teacher.
       if teacher then findAllForTeacher env u skip limit
       else throwE (UnauthorizedException []))))"

definition lesson_course_finished :: "task_env \<Rightarrow> lesson_entity \<Rightarrow> bool result" where
  "lesson_course_finished env l =
     (case les_course l of None \<Rightarrow> Inl TypeError | Some c \<Rightarrow> Inr (Course_isFinished (tke_now env) c))"

definition notR :: "bool result \<Rightarrow> bool result" where
  "notR r = mapR Not r"

definition status_by_permission :: "task_env \<Rightarrow> user \<Rightarrow> task \<Rightarrow> TaskWithStatusVo result" where
  "status_by_permission env u t =
     bindR (hasPermission (tke_auth env) u (SubjTask t) (PermissionContextBuilder_write [])) (\<lambda>writable.
       with_status t (if writable then createTeacherStatusForUser (tke_now env) t u
                      else createStudentStatusForUser (tke_now env) t u))"

definition uc_findAllFinished :: "task_env \<Rightarrow> EntityId \<Rightarrow> nat option \<Rightarrow> nat option \<Rightarrow> (TaskWithStatusVo list \<times> nat) tasking" where
  "uc_findAllFinished env userId skip limit =
     bindE (liftE (getUserWithPermissions (tke_getUser env) userId)) (\<lambda>u.
     bindE (liftE (checkOneOfPermissions (tke_auth env) u [''TASK_DASHBOARD_TEACHER_VIEW_V3'', ''TASK_DASHBOARD_VIEW_V3''])) (\<lambda>_.
     let courses = getPermittedCourses env u Read
     in bindE (getPermittedLessons env u courses) (\<lambda>lessons.
        bindE (liftE (filterR (\<lambda>l. notR (lesson_course_finished env l)) lessons)) (\<lambda>lessonsOfOpen.
        bindE (liftE (filterR (lesson_course_finished env) lessons)) (\<lambda>lessonsOfFinished.
        bindE (findAllFinishedByParentIds env
          \<lparr>fpi_creatorId = userId,
           fpi_openCourseIds = map eid (filter (\<lambda>c. \<not> Course_isFinished (tke_now env) c) courses),
           fpi_lessonIdsOfOpenCourses = map eid lessonsOfOpen,
           fpi_finishedCourseIds = map eid (filter (Course_isFinished (tke_now env)) courses),
           fpi_lessonIdsOfFinishedCourses = map eid lessonsOfFinished\<rparr> (Some SortDesc) skip limit) (\<lambda>(tasks, n).
        bindE (liftE (mapMR (status_by_permission env u) tasks)) (\<lambda>vos.
          retE (vos, n))))))))"

definition changeFinishedForUser :: "task_env \<Rightarrow> EntityId \<Rightarrow> EntityId \<Rightarrow> bool \<Rightarrow> TaskWithStatusVo tasking" where
  "changeFinishedForUser env userId taskId isFinished =
     bindE (liftE (getUserWithPermissions (tke_getUser env) userId)) (\<lambda>u.
     bindE (task_findById env taskId) (\<lambda>t.
     bindE (liftE (checkPermission (tke_auth env) u (SubjTask t) (PermissionContextBuilder_read []))) (\<lambda>_.
     bindE (liftE (if isFinished then finishForUser t u else restoreForUser t u)) (\<lambda>t1.
     bindE (task_save env t1) (\<lambda>t'.
     bindE (liftE (hasOneOfPermissions (tke_auth env) u [''TASK_DASHBOARD_TEACHER_VIEW_V3''])) (\<lambda>teacher.
       liftE (with_status t' (if teacher then createTeacherStatusForUser (tke_now env) t' u
                              else createStudentStatusForUser (tke_now env) t' u))))))))"

definition revertPublished :: "task_env \<Rightarrow> EntityId \<Rightarrow> EntityId \<Rightarrow> TaskWithStatusVo tasking" where
  "revertPublished env userId taskId =
     bindE (liftE (getUserWithPermissions (tke_getUser env) userId)) (\<lambda>u.
     bindE (task_findById env taskId) (\<lambda>t.
     bindE (liftE (checkPermission (tke_auth env) u (SubjTask t) (PermissionContextBuilder_write []))) (\<lambda>_.
     bindE (task_save env (Task_unpublish t)) (\<lambda>t'.
       liftE (with_status t' (createTeacherStatusForUser (tke_now env) t' u))))))"

definition uc_deleteTask :: "task_env \<Rightarrow> EntityId \<Rightarrow> EntityId \<Rightarrow> bool tasking" where
  "uc_deleteTask env userId taskId =
     bindE (liftE (getUserWithPermissions (tke_getUser env) userId)) (\<lambda>u.
     bindE (task_findById env taskId) (\<lambda>t.
     bindE (liftE (checkPermission (tke_auth env) u (SubjTask t) (PermissionContextBuilder_write []))) (\<lambda>_.
     bindE (service_deleteTask env t) (\<lambda>_. retE True))))"

section \<open>Responses\<close>

record RichText =
  rt_content :: string
  rt_type :: InputFormat

definition new_RichText :: "task_env \<Rightarrow> string \<Rightarrow> InputFormat \<Rightarrow> RichText" where
  "new_RichText env content ty = \<lparr>rt_content = tke_sanitizeRichText env content ty, rt_type = ty\<rparr>"

record TaskResponse =
  tsr_id :: EntityId
  tsr_name :: string
  tsr_availableDate :: "date option"
  tsr_duedate :: "date option"
  tsr_courseName :: string
  tsr_lessonName :: "string option"
  tsr_courseId :: string
  tsr_taskCardId :: "string option"
  tsr_description :: "RichText option"
  tsr_lessonHidden :: bool
  tsr_displayColor :: string
  tsr_createdAt :: date
  tsr_updatedAt :: date
  tsr_status :: ITaskStatus

definition statusMapper_mapToResponse :: "ITaskStatus \<Rightarrow> ITaskStatus" where
  "statusMapper_mapToResponse status =
     \<lparr>st_submitted = st_submitted status, st_maxSubmissions = st_maxSubmissions status, st_graded = st_graded status,
      st_isDraft = st_isDraft status, st_isSubstitutionTeacher = st_isSubstitutionTeacher status,
      st_isFinished = st_isFinished status\<rparr>"

definition task_mapToResponse :: "task_env \<Rightarrow> TaskWithStatusVo \<Rightarrow> TaskResponse" where
  "task_mapToResponse env vo =
     (let t = tws_task vo; taskDesc = getParentData t
      in \<lparr>tsr_id = eid t, tsr_name = tsk_name t, tsr_availableDate = tsk_availableDate t, tsr_duedate = tsk_dueDate t,
          tsr_courseName = pd_courseName taskDesc,
          tsr_lessonName = (if pd_lessonName taskDesc = [] then None else Some (pd_lessonName taskDesc)),
          tsr_courseId = pd_courseId taskDesc,
          tsr_taskCardId = (if truthy (tsk_taskCard t) then tsk_taskCard t else None),
          tsr_description = (if tsk_description t = [] then None
             else Some (new_RichText env (tsk_description t) (tsk_descriptionInputFormat t))),
          tsr_lessonHidden = pd_lessonHidden taskDesc, tsr_displayColor = pd_color taskDesc,
          tsr_createdAt = ent_createdAt t, tsr_updatedAt = ent_updatedAt t,
          tsr_status = statusMapper_mapToResponse (tws_status vo)\<rparr>)"

record TaskParams =
  tpa_courseId :: "EntityId option"
  tpa_lessonId :: "EntityId option"
  tpa_name :: string
  tpa_description :: "string option"
  tpa_availableDate :: "date option"
  tpa_dueDate :: "date option"

definition mapTaskUpdateToDomain :: "TaskParams \<Rightarrow> ITaskUpdate" where
  "mapTaskUpdateToDomain params =
     \<lparr>itu_name = tpa_name params, itu_description = tpa_description params,
      itu_descriptionInputFormat = (if truthy (tpa_description params) then Some RICH_TEXT_CK5 else None),
      itu_availableDate = tpa_availableDate params, itu_dueDate = tpa_dueDate params, itu_taskCard = None,
      itu_courseId = tpa_courseId params, itu_lessonId = tpa_lessonId params\<rparr>"

definition mapTaskCreateToDomain :: "TaskParams \<Rightarrow> ITaskUpdate" where
  "mapTaskCreateToDomain params =
     \<lparr>itu_name = (if tpa_name params = [] then ''Draft'' else tpa_name params), itu_description = tpa_description params,
      itu_descriptionInputFormat = (if truthy (tpa_description params) then Some RICH_TEXT_CK5 else None),
      itu_availableDate = tpa_availableDate params, itu_dueDate = tpa_dueDate params, itu_taskCard = None,
      itu_courseId = tpa_courseId params, itu_lessonId = tpa_lessonId params\<rparr>"

section \<open>The controllers\<close>

record TaskListResponse =
  tlr_data :: "TaskResponse list"
  tlr_total :: nat
  tlr_skip :: "nat option"
  tlr_limit :: "nat option"

definition findAllTasks :: "task_env \<Rightarrow> EntityId \<Rightarrow> nat option \<Rightarrow> nat option \<Rightarrow> bool \<Rightarrow> TaskListResponse tasking" where
  "findAllTasks env userId skip limit finished =
     bindE (if finished then uc_findAllFinished env userId skip limit else uc_findAll env userId skip limit) (\<lambda>(vos, n).
       retE \<lparr>tlr_data = map (task_mapToResponse env) vos, tlr_total = n, tlr_skip = skip, tlr_limit = limit\<rparr>)"

datatype task_request =
    FinishTask EntityId
  | RestoreTask EntityId
  | RevertTask EntityId
  | DeleteTask EntityId
  | DeleteSubmission EntityId
  | DeleteLesson EntityId

datatype task_answer = AnswerTask TaskResponse | AnswerDone bool

fun task_handler :: "task_env \<Rightarrow> EntityId \<Rightarrow> task_request \<Rightarrow> task_answer tasking" where
  "task_handler env userId (FinishTask i) =
     bindE (changeFinishedForUser env userId i True) (\<lambda>vo. retE (AnswerTask (task_mapToResponse env vo)))"
| "task_handler env userId (RestoreTask i) =
     bindE (changeFinishedForUser env userId i False) (\<lambda>vo. retE (AnswerTask (task_mapToResponse env vo)))"
| "task_handler env userId (RevertTask i) =
     bindE (revertPublished env userId i) (\<lambda>vo. retE (AnswerTask (task_mapToResponse env vo)))"
| "task_handler env userId (DeleteTask i) = bindE (uc_deleteTask env userId i) (\<lambda>b. retE (AnswerDone b))"
| "task_handler env userId (DeleteSubmission i) = bindE (uc_deleteSubmission env userId i) (\<lambda>b. retE (AnswerDone b))"
| "task_handler env userId (DeleteLesson i) = bindE (uc_deleteLesson env userId i) (\<lambda>b. retE (AnswerDone b))"

end
