(* ===== verification/TaskCards.thy ===== *)
theory TaskCards
  imports TaskUseCases
begin

text \<open>
  Task cards (\<^verbatim>\<open>modules/task-card\<close>): a card with a title and texts over a task that is created,
  renamed and removed with it. The elements of a card are kept with the card, without ids of their own.
\<close>

section \<open>Years\<close>

text \<open>
  The calendar of \<^verbatim>\<open>Date\<close>: the first day of a year in days since 1970, and the year of a day.
\<close>

definition day_from_year :: "int \<Rightarrow> int" where
  "day_from_year y = 365 * (y - 1970) + (y - 1969) div 4 - (y - 1901) div 100 + (y - 1601) div 400"

definition year_of_day :: "int \<Rightarrow> int" where
  "year_of_day d =
     (let y = 1970 + (d * 400) div 146097
      in if day_from_year (y + 1) \<le> d then y + 1 else if d < day_from_year y then y - 1 else y)"

definition getFullYear :: "task_env \<Rightarrow> date \<Rightarrow> int" where
  "getFullYear env d = year_of_day (tke_localTime env d div 86400000)"

text \<open>\<^verbatim>\<open>new Date(year, 11, 31)\<close>: the day before the first day of the next year.\<close>

definition december_31 :: "task_env \<Rightarrow> int \<Rightarrow> date" where
  "december_31 env year = tke_utc env ((day_from_year (year + 1) - 1) * 86400000)"

section \<open>The use cases\<close>

record ITaskCardCRUD =
  itc_courseId :: "EntityId option"
  itc_title :: string
  itc_text :: "RichText list option"
  itc_visibleAtDate :: "date option"
  itc_dueDate :: "date option"

text \<open>A card element from a text; the title comes first.\<close>

definition card_elements :: "ITaskCardCRUD \<Rightarrow> CardElement list" where
  "card_elements params =
     TitleCardElement (itc_title params) #
       (case itc_text params of None \<Rightarrow> [] | Some texts \<Rightarrow> map (\<lambda>t. RichTextCardElement (rt_content t) (rt_type t)) texts)"

definition getDefaultDueDate :: "task_env \<Rightarrow> user \<Rightarrow> date" where
  "getDefaultDueDate env u =
     (case sch_schoolYear (usr_school u) of
        Some currentSchoolYear \<Rightarrow> sy_endDate currentSchoolYear
      | None \<Rightarrow> december_31 env (getFullYear env (tke_now env) + 1))"

definition card_createTask :: "task_env \<Rightarrow> EntityId \<Rightarrow> ITaskCardCRUD \<Rightarrow> TaskWithStatusVo tasking" where
  "card_createTask env userId params =
     service_createTask env userId
       \<lparr>itu_name = itc_title params, itu_description = None, itu_descriptionInputFormat = None,
        itu_availableDate = None, itu_dueDate = None, itu_taskCard = None,
        itu_courseId = (if truthy (itc_courseId params) then itc_courseId params else Some []), itu_lessonId = None\<rparr>"

definition task_name_update :: "string \<Rightarrow> string option \<Rightarrow> ITaskUpdate" where
  "task_name_update name cardId =
     \<lparr>itu_name = name, itu_description = None, itu_descriptionInputFormat = None, itu_availableDate = None,
      itu_dueDate = None, itu_taskCard = cardId, itu_courseId = None, itu_lessonId = None\<rparr>"

definition updateTaskName :: "task_env \<Rightarrow> EntityId \<Rightarrow> EntityId \<Rightarrow> ITaskCardCRUD \<Rightarrow> TaskWithStatusVo tasking" where
  "updateTaskName env userId i params = service_updateTask env userId i (task_name_update (itc_title params) None)"

definition addTaskCardId :: "task_env \<Rightarrow> EntityId \<Rightarrow> TaskCard \<Rightarrow> TaskWithStatusVo tasking" where
  "addTaskCardId env userId taskCard =
     service_updateTask env userId (eid (tc_task taskCard))
       (task_name_update (tsk_name (tc_task taskCard)) (Some (eid taskCard)))"

text \<open>
  The task of the answer, that of the card and the row that \<open>addTaskCardId\<close> updates are one object: the
  answer shows it as it is in the end.
\<close>

definition uc_createCard :: "task_env \<Rightarrow> EntityId \<Rightarrow> ITaskCardCRUD \<Rightarrow> (TaskCard \<times> TaskWithStatusVo) tasking" where
  "uc_createCard env userId params =
     bindE (liftE (getUserWithPermissions (tke_getUser env) userId)) (\<lambda>u.
     bindE (liftE (hasAllPermissions (tke_auth env) u [''TASK_CARD_EDIT''])) (\<lambda>allowed.
     bindE (liftE (guardR allowed ForbiddenException)) (\<lambda>_.
     bindE (if truthy (itc_courseId params)
            then bindE (liftE (writable_course env u (the (itc_courseId params)))) (\<lambda>c. retE (Some c))
            else retE None) (\<lambda>parent.
     let defaultDueDate = getDefaultDueDate env u
     in bindE (card_createTask env userId params) (\<lambda>vo.
        bindE task_ref (\<lambda>r.
        let card = new_TaskCard (tke_now env) r
              \<lparr>tcp_cardElements = card_elements params, tcp_cardType = CardType_Task, tcp_creator = u, tcp_draggable = True,
               tcp_visibleAtDate = nullish (itc_visibleAtDate params) (tke_now env), tcp_task = tws_task vo,
               tcp_dueDate = nullish (itc_dueDate params) defaultDueDate, tcp_course = parent\<rparr>
        in bindE (liftE (guardR (isVisibleBeforeDueDate card) (ValidationError ''Invalid date combination''))) (\<lambda>_.
           bindE (card_save env card) (\<lambda>card'.
           bindE (addTaskCardId env userId card') (\<lambda>vo'.
             retE (card'\<lparr>tc_task := tws_task vo'\<rparr>, vo\<lparr>tws_task := tws_task vo'\<rparr>))))))))))"

definition uc_findCard :: "task_env \<Rightarrow> EntityId \<Rightarrow> EntityId \<Rightarrow> (TaskCard \<times> TaskWithStatusVo) tasking" where
  "uc_findCard env userId i =
     bindE (liftE (getUserWithPermissions (tke_getUser env) userId)) (\<lambda>u.
     bindE (card_findById env i) (\<lambda>card.
     bindE (liftE (hasPermission (tke_auth env) u (SubjTaskCard card) (PermissionContextBuilder_read [''TASK_CARD_VIEW'']))) (\<lambda>allowed.
     bindE (liftE (guardR allowed ForbiddenException)) (\<lambda>_.
     bindE (service_findTask env userId (eid (tc_task card))) (\<lambda>vo.
       retE (card\<lparr>tc_task := tws_task vo\<rparr>, vo))))))"

definition uc_deleteCard :: "task_env \<Rightarrow> EntityId \<Rightarrow> EntityId \<Rightarrow> bool tasking" where
  "uc_deleteCard env userId i =
     bindE (liftE (getUserWithPermissions (tke_getUser env) userId)) (\<lambda>u.
     bindE (card_findById env i) (\<lambda>card.
     bindE (liftE (hasPermission (tke_auth env) u (SubjTaskCard card) (PermissionContextBuilder_write [''TASK_CARD_EDIT'']))) (\<lambda>allowed.
     bindE (liftE (guardR allowed ForbiddenException)) (\<lambda>_.
     bindE (card_delete card) (\<lambda>_. retE True)))))"

definition replaceCardElements :: "TaskCard \<Rightarrow> CardElement list \<Rightarrow> TaskCard" where
  "replaceCardElements taskCard newCardElements = taskCard\<lparr>tc_cardElements := coll_of newCardElements\<rparr>"

definition uc_updateCard :: "task_env \<Rightarrow> EntityId \<Rightarrow> EntityId \<Rightarrow> ITaskCardCRUD \<Rightarrow> (TaskCard \<times> TaskWithStatusVo) tasking" where
  "uc_updateCard env userId i params =
     bindE (liftE (getUserWithPermissions (tke_getUser env) userId)) (\<lambda>u.
     bindE (card_findById env i) (\<lambda>card.
     bindE (liftE (hasPermission (tke_auth env) u (SubjTaskCard card) (PermissionContextBuilder_write [''TASK_CARD_EDIT'']))) (\<lambda>allowed.
     bindE (liftE (guardR allowed ForbiddenException)) (\<lambda>_.
     bindE (updateTaskName env userId (eid (tc_task card)) params) (\<lambda>vo.
     let card' = card\<lparr>tc_task := tws_task vo, tc_visibleAtDate := nullish (itc_visibleAtDate params) (tc_visibleAtDate card),
           tc_dueDate := nullish (itc_dueDate params) (tc_dueDate card)\<rparr>
     in bindE (liftE (guardR (isVisibleBeforeDueDate card') (ValidationError ''Invalid date combination''))) (\<lambda>_.
        bindE (card_save env (replaceCardElements card' (card_elements params))) (\<lambda>saved.
          retE (saved, vo))))))))"

section \<open>Requests and responses\<close>

datatype CardElementParam =
    TitleCardElementParam string
  | RichTextCardElementParam string InputFormat

record TaskCardParams =
  tcpa_courseId :: "EntityId option"
  tcpa_visibleAtDate :: "date option"
  tcpa_dueDate :: "date option"
  tcpa_cardElements :: "CardElementParam list"

definition card_titles :: "CardElementParam list \<Rightarrow> string list" where
  "card_titles els = List.map_filter (\<lambda>e. case e of TitleCardElementParam v \<Rightarrow> Some v | _ \<Rightarrow> None) els"

definition card_texts :: "task_env \<Rightarrow> CardElementParam list \<Rightarrow> RichText list" where
  "card_texts env els =
     List.map_filter (\<lambda>e. case e of RichTextCardElementParam v ty \<Rightarrow> Some (new_RichText env v ty) | _ \<Rightarrow> None) els"

definition card_mapToDomain :: "task_env \<Rightarrow> TaskCardParams \<Rightarrow> ITaskCardCRUD result" where
  "card_mapToDomain env params =
     (case card_titles (tcpa_cardElements params) of
        [title] \<Rightarrow>
          Inr \<lparr>itc_courseId = (if truthy (tcpa_courseId params) then tcpa_courseId params else None),
               itc_title = title,
               itc_text = (case card_texts env (tcpa_cardElements params) of [] \<Rightarrow> None | ts \<Rightarrow> Some ts),
               itc_visibleAtDate = tcpa_visibleAtDate params, itc_dueDate = tcpa_dueDate params\<rparr>
      | _ \<Rightarrow> Inl (ValidationError ''The Task Card must have one title''))"

datatype CardElementResponse =
    CardTitleElementResponse string
  | CardRichTextElementResponse string InputFormat

fun mapElement :: "CardElement \<Rightarrow> CardElementResponse" where
  "mapElement (TitleCardElement v) = CardTitleElementResponse v"
| "mapElement (RichTextCardElement v ty) = CardRichTextElementResponse v ty"

record TaskCardResponse =
  tcr_id :: EntityId
  tcr_draggable :: bool
  tcr_cardElements :: "CardElementResponse list"
  tcr_task :: TaskResponse
  tcr_visibleAtDate :: date
  tcr_dueDate :: date
  tcr_courseId :: "EntityId option"
  tcr_courseName :: "string option"

definition card_mapToResponse :: "task_env \<Rightarrow> TaskCard \<Rightarrow> TaskWithStatusVo \<Rightarrow> TaskCardResponse" where
  "card_mapToResponse env c vo =
     \<lparr>tcr_id = eid c, tcr_draggable = (tc_draggable c \<or> True),
      tcr_cardElements = map mapElement (getCardElements c), tcr_task = task_mapToResponse env vo,
      tcr_visibleAtDate = tc_visibleAtDate c, tcr_dueDate = tc_dueDate c,
      tcr_courseId = map_option eid (tc_course c), tcr_courseName = map_option crs_name (tc_course c)\<rparr>"

definition card_featureEnabled :: "task_env \<Rightarrow> unit result" where
  "card_featureEnabled env =
     guardR (tke_FEATURE_TASK_CARD_ENABLED env) (InternalServerErrorException ''Feature not enabled'')"

datatype card_request =
    CreateCard TaskCardParams
  | FindCard EntityId
  | DeleteCard EntityId
  | UpdateCard EntityId TaskCardParams

datatype card_answer = AnswerCard TaskCardResponse | AnswerDeleted bool

definition card_answered :: "task_env \<Rightarrow> (TaskCard \<times> TaskWithStatusVo) \<Rightarrow> card_answer" where
  "card_answered env r = AnswerCard (card_mapToResponse env (fst r) (snd r))"

fun card_handler :: "task_env \<Rightarrow> EntityId \<Rightarrow> card_request \<Rightarrow> card_answer tasking" where
  "card_handler env userId (CreateCard params) =
     bindE (liftE (card_featureEnabled env)) (\<lambda>_.
     bindE (liftE (card_mapToDomain env params)) (\<lambda>dto.
     bindE (uc_createCard env userId dto) (\<lambda>r. retE (card_answered env r))))"
| "card_handler env userId (FindCard i) =
     bindE (liftE (card_featureEnabled env)) (\<lambda>_.
     bindE (uc_findCard env userId i) (\<lambda>r. retE (card_answered env r)))"
| "card_handler env userId (DeleteCard i) =
     bindE (liftE (card_featureEnabled env)) (\<lambda>_.
     bindE (uc_deleteCard env userId i) (\<lambda>b. retE (AnswerDeleted b)))"
| "card_handler env userId (UpdateCard i params) =
     bindE (liftE (card_featureEnabled env)) (\<lambda>_.
     bindE (liftE (card_mapToDomain env params)) (\<lambda>dto.
     bindE (uc_updateCard env userId i dto) (\<lambda>r. retE (card_answered env r))))"

section \<open>The calendar\<close>

text \<open>A day lies in its year.\<close>

lemma div_bounds: "(0::int) < k \<Longrightarrow> k * (n div k) \<le> n \<and> n < k * (n div k) + k"
  using pos_mod_bound [of k n] pos_mod_sign [of k n] mult_div_mod_eq [of k n] by linarith

lemma year_bounds:
  "400 * day_from_year (1970 + q) \<le> 146097 * q + 589 \<and> 146097 * q - 506 \<le> 400 * day_from_year (1970 + q)"
proof -
  have "day_from_year (1970 + q) = 365 * q + (q + 1) div 4 - (q + 69) div 100 + (q + 369) div 400"
    by (simp add: day_from_year_def algebra_simps)
  then show ?thesis
    using div_bounds [of 4 "q + 1"] div_bounds [of 100 "q + 69"] div_bounds [of 400 "q + 369"] by linarith
qed

lemma year_estimate:
  "day_from_year (1970 + (d * 400) div 146097 - 1) \<le> d \<and> d < day_from_year (1970 + (d * 400) div 146097 + 2)"
proof -
  define q where "q = (d * 400) div 146097"
  have "146097 * q \<le> d * 400" "d * 400 < 146097 * q + 146097"
    using div_bounds [of 146097 "d * 400"] by (simp_all add: q_def)
  moreover have "1970 + q - 1 = 1970 + (q - 1)" "1970 + q + 2 = 1970 + (q + 2)" by simp_all
  ultimately show ?thesis
    using year_bounds [of "q - 1"] year_bounds [of "q + 2"] unfolding q_def [symmetric] by simp
qed

lemma day_in_year: "day_from_year (year_of_day d) \<le> d \<and> d < day_from_year (year_of_day d + 1)"
  using year_estimate [of d] by (simp add: year_of_day_def Let_def algebra_simps)

lemma year_examples: "year_of_day 0 = 1970" "year_of_day (-1) = 1969" "year_of_day 19722 = 2023" "year_of_day 19723 = 2024"
  "day_from_year 2000 = 10957"
  by (simp_all add: year_of_day_def day_from_year_def)

end
