(* ===== verification/TaskListProperties.thy ===== *)
theory TaskListProperties
  imports TaskCards CopyAccess
begin

text \<open>
  The overview of tasks shows only what its user may read, a change of a task needs the permission for
  it, and what the creation of a card and the move of a task leave behind.
\<close>

section \<open>Coherent data\<close>

text \<open>
  Persons and entities are the same objects when they have the same id, as the identity map of the ORM
  makes them, and a lesson belongs to a course or to a course group.
\<close>

definition persons_of :: "'a course_scheme \<Rightarrow> user list" where
  "persons_of c =
     (case crs_students c of None \<Rightarrow> [] | Some x \<Rightarrow> coll_items x) @ coll_items (crs_teachers c) @
     coll_items (crs_substitutionTeachers c)"

definition coherent :: "task_env \<Rightarrow> task_state \<Rightarrow> user \<Rightarrow> bool" where
  "coherent env s u \<longleftrightarrow> eid u \<noteq> [] \<and>
     distinct (map eid (tke_courses env)) \<and> distinct (map oid (tke_courses env)) \<and> distinct (map eid (tks_lessons s)) \<and>
     list_all (\<lambda>c. list_all (\<lambda>p. eid p = eid u \<longrightarrow> oid p = oid u) (persons_of c)) (tke_courses env) \<and>
     list_all (\<lambda>t. eid (tsk_creator t) = eid u \<longrightarrow> oid (tsk_creator t) = oid u) (tks_tasks s) \<and>
     list_all (\<lambda>l. les_course l = None \<or> les_courseGroup l = None) (tks_lessons s)"

lemma find_row_distinct: "distinct (map eid rows) \<Longrightarrow> r \<in> set rows \<Longrightarrow> find_row rows (eid r) = Some r"
  unfolding find_row_def by (induction rows) (auto simp: image_iff)

lemma course_truncate_sel [simp]:
  "eid (course.truncate c) = eid c" "oid (course.truncate c) = oid c" "crs_students (course.truncate c) = crs_students c"
  "crs_teachers (course.truncate c) = crs_teachers c"
  "crs_substitutionTeachers (course.truncate c) = crs_substitutionTeachers c"
  by (simp_all add: course.defs)

lemma by_id_contains:
  assumes "\<forall>p \<in> set (coll_items x). eid p = eid u \<longrightarrow> oid p = oid u" and "eid u \<in> set (coll_ids x)"
  shows "coll_contains x u"
  using assms by (auto simp: coll_ids_def coll_contains_def list_ex_iff same_object_def)

lemma course_read_by_id:
  assumes "coherent env s u" and "c \<in> set (tke_courses env)"
    and "is_student_id (eid u) c \<or> is_teacher_id (eid u) c \<or> is_substitute_id (eid u) c"
  shows "course_access u c Read"
proof -
  have p: "\<forall>p \<in> set (persons_of c). eid p = eid u \<longrightarrow> oid p = oid u"
    using assms(1,2) by (simp add: coherent_def list_all_iff)
  then have "\<forall>p \<in> set (coll_items (crs_teachers c)). eid p = eid u \<longrightarrow> oid p = oid u"
    "\<forall>p \<in> set (coll_items (crs_substitutionTeachers c)). eid p = eid u \<longrightarrow> oid p = oid u"
    "\<And>x. crs_students c = Some x \<Longrightarrow> \<forall>p \<in> set (coll_items x). eid p = eid u \<longrightarrow> oid p = oid u"
    by (auto simp: persons_of_def)
  then show ?thesis
    using assms(3) by_id_contains
    by (auto simp: course_access_def teaches_def attends_def is_student_id_def is_teacher_id_def is_substitute_id_def
        collection_has_def split: option.splits)
qed

lemma course_access_truncate [simp]: "course_access u (course.truncate c) a = course_access u c a"
  by (simp add: course_access_def teaches_def attends_def)

lemma permitted_course:
  assumes "c \<in> set (getPermittedCourses env u a)"
  shows "c \<in> set (tke_courses env) \<and>
    (is_student_id (eid u) c \<or> is_teacher_id (eid u) c \<or> is_substitute_id (eid u) c)"
  using assms
  by (cases a) (auto simp: getPermittedCourses_def findAllForTeacherOrSubstituteTeacher_def course_findAllByUserId_def
      find_courses_def page_of_def Let_def forTeacherOrSubstituteTeacher_def forAllGroupTypes_def scope_query_def
      new_Scope_def addQuery_def split: if_splits)

lemma loaded_course:
  "coherent env s u \<Longrightarrow> c \<in> set (tke_courses env) \<Longrightarrow> eid k = eid c \<Longrightarrow> load_course env k = course.truncate c"
  by (simp add: load_course_def coherent_def find_row_distinct)

section \<open>The lessons of the overview\<close>

lemma found_lessons:
  assumes "findAllByCourseIds env ids hidden s = (Inr (ls, n), s')" and "l \<in> set ls"
  shows "s' = s \<and> (\<exists>r c. r \<in> set (tks_lessons s) \<and> l = load_lesson_entity env s r \<and> les_course r = Some c \<and>
    eid c \<in> set ids \<and> (hidden = Some False \<longrightarrow> \<not> les_hidden r))"
proof -
  define sc where "sc = (case hidden of None \<Rightarrow> lesson_byCourseIds ids (new_Scope AndOp)
       | Some h \<Rightarrow> byHidden h (lesson_byCourseIds ids (new_Scope AndOp)))"
  let ?found = "sort_key les_position (filter (scope_query sc) (tks_lessons s))"
  have "findAllByCourseIds env ids hidden s = (Inr (map (load_lesson_entity env s) ?found, length ?found), s)"
    by (simp only: findAllByCourseIds_def queryE_def Let_def sc_def)
  from trans [OF this [symmetric] assms(1)] have "ls = map (load_lesson_entity env s) ?found" "s' = s" by auto
  moreover from this(1) assms(2) obtain x where "x \<in> set ?found" "l = load_lesson_entity env s x" by auto
  ultimately have x: "x \<in> set (tks_lessons s)" "l = load_lesson_entity env s x" "s' = s" "scope_query sc x"
    by simp_all
  from x(4) have "\<exists>c. les_course x = Some c \<and> eid c \<in> set ids" "hidden = Some False \<Longrightarrow> \<not> les_hidden x"
    by (auto simp: sc_def lesson_byCourseIds_def byHidden_def scope_query_def new_Scope_def addQuery_def
        split: option.splits)
  with x show ?thesis by blast
qed

text \<open>A lesson of the overview belongs to one of the courses, and is visible unless the user teaches the course.\<close>

lemma permitted_lessons:
  assumes coh: "coherent env s u" and run: "getPermittedLessons env u courses s = (Inr ls, s')"
    and sub: "set courses \<subseteq> set (getPermittedCourses env u a)" and mem: "l \<in> set ls"
  shows "s' = s \<and> (\<exists>r. r \<in> set (tks_lessons s) \<and> eid l = eid r \<and> lesson_access u (load_lesson env s r) Read)"
proof -
  from run obtain ws wl n rl m where
    ws: "filterR (\<lambda>c. hasPermission (tke_auth env) u (SubjCourse (course.truncate c)) (PermissionContextBuilder_write [])) courses = Inr ws"
    and w: "findAllByCourseIds env (map eid ws) None s = (Inr (wl, n), s)"
    and r: "findAllByCourseIds env (map eid (filter (\<lambda>c. \<not> list_ex (same_object c) ws) courses)) (Some False) s = (Inr (rl, m), s)"
    and out: "ls = wl @ rl" "s' = s"
    by (auto simp: getPermittedLessons_def bindE_eq_Inr liftE_def retE_def Let_def findAllByCourseIds_def queryE_def)
  have writable: "course_access u c Write \<and> c \<in> set courses" if "c \<in> set ws" for c
    using that ws
    by (auto simp: filterR_eq_Inr service_permits course_rule.unconditional context_builder_defs)
  have access: "lesson_access u (load_lesson env s r) Read"
    if "r \<in> set (tks_lessons s)" "les_course r = Some k" "eid k = eid c" "c \<in> set courses"
      "course_access u c Write \<or> \<not> les_hidden r" for r k c
  proof -
    have c: "c \<in> set (tke_courses env)" "course_access u c Read"
      using that(4) sub permitted_course course_read_by_id [OF coh] by blast+
    have "les_courseGroup r = None" using coh that(1,2) by (auto simp: coherent_def list_all_iff)
    moreover have "find_row (tks_lessons s) (eid r) = Some r"
      using coh that(1) by (simp add: coherent_def find_row_distinct)
    ultimately show ?thesis
      using that(2,5) c(2) loaded_course [OF coh c(1) that(3)]
      by (auto simp: lesson_access_def load_lesson_def Let_def)
  qed
  have [simp]: "eid (load_lesson_entity env s x) = eid x" if "x \<in> set (tks_lessons s)" for x
    using coh that by (simp add: load_lesson_entity_def load_lesson_def coherent_def find_row_distinct lesson.defs Let_def)
  from mem out(1) consider "l \<in> set wl" | "l \<in> set rl" by auto
  then have "\<exists>r. r \<in> set (tks_lessons s) \<and> eid l = eid r \<and> lesson_access u (load_lesson env s r) Read"
  proof cases
    case 1
    from found_lessons [OF w 1] obtain x k where
      "x \<in> set (tks_lessons s)" "l = load_lesson_entity env s x" "les_course x = Some k" "eid k \<in> set (map eid ws)"
      by blast
    with access writable show ?thesis by (auto intro!: exI [of _ x])
  next
    case 2
    from found_lessons [OF r 2] obtain x k where
      "x \<in> set (tks_lessons s)" "l = load_lesson_entity env s x" "les_course x = Some k"
      "eid k \<in> set (map eid (filter (\<lambda>c. \<not> list_ex (same_object c) ws) courses))" "\<not> les_hidden x"
      by blast
    with access show ?thesis by (auto intro!: exI [of _ x])
  qed
  with out(2) show ?thesis by simp
qed

section \<open>The overview\<close>

text \<open>A task that the overview may list for a user now.\<close>

definition listed_task :: "task_env \<Rightarrow> user \<Rightarrow> task \<Rightarrow> bool" where
  "listed_task env u t \<longleftrightarrow>
     hasPermission (tke_auth env) u (SubjTask t) (PermissionContextBuilder_read []) = Inr True \<and>
     eid u \<notin> set (finished_ids t) \<and>
     (eid (tsk_creator t) = eid u \<or> \<not> isDraft t \<and> available_on (tke_now env) t)"

abbreviation overview_ids :: "user \<Rightarrow> course_entity list \<Rightarrow> lesson_entity list \<Rightarrow> TaskParentIds" where
  "overview_ids u courses lessons \<equiv>
     \<lparr>tpi_creatorId = Some (eid u), tpi_courseIds = Some (map eid courses), tpi_lessonIds = Some (map eid lessons)\<rparr>"

lemma found_tasks:
  assumes "findTasksAndCount env query order skip limit s = (Inr (ts, n), s')" and "t \<in> set ts"
  shows "s' = s \<and> (\<exists>r. r \<in> set (tks_tasks s) \<and> query r \<and> t = load_task env s r)"
proof -
  let ?found = "filter query (tks_tasks s)"
  have "findTasksAndCount env query order skip limit s =
      (Inr (map (load_task env s) (page_of skip limit (sort_tasks order ?found)), length ?found), s)"
    by (simp only: findTasksAndCount_def queryE_def Let_def)
  from trans [OF this [symmetric] assms(1)] have
    r: "ts = map (load_task env s) (page_of skip limit (sort_tasks order ?found))" "s' = s" by auto
  have "set (page_of skip limit xs) \<subseteq> set xs" for xs :: "task list"
    by (auto simp: page_of_def Let_def dest: in_set_dropD in_set_takeD split: option.splits if_splits)
  moreover have "set (sort_tasks order xs) = set xs" for xs
    by (auto simp: sort_tasks_def Let_def split: option.splits SortOrder.splits)
  ultimately show ?thesis using assms(2) r by fastforce
qed

lemma listed_row:
  assumes "scope_query (list_scope (overview_ids u courses lessons)
      \<lparr>tfi_afterDueDateOrNone = due, tfi_finished = Some (eid u, False), tfi_availableOn = Some now\<rparr>) r"
    and "eid u \<noteq> []"
  shows "(eid (tsk_creator r) = eid u \<or>
      (\<exists>c. tsk_course r = Some c \<and> eid c \<in> set (map eid courses) \<and> tsk_lesson r = None) \<or>
      (\<exists>l. tsk_lesson r = Some l \<and> eid l \<in> set (map eid lessons))) \<and>
    eid u \<notin> set (finished_ids r) \<and> (eid (tsk_creator r) = eid u \<or> \<not> isDraft r \<and> available_on now r)"
  using assms
  by (auto simp: list_scope_def parents_scope_def truthy_def scope_query_def new_Scope_def addQuery_def Let_def
      byFinished_def excludeDraftsOfOthers_def getByDraftForCreatorQuery_def getByDraftQuery_def isDraft_def
      afterDueDateOrNone_def excludeUnavailableOfOthers_def byOnlyCreatorId_def byCourseIds_def byLessonIds_def
      split: option.splits)

lemma load_task_sel [simp]:
  "tsk_creator (load_task env s t) = tsk_creator t" "isDraft (load_task env s t) = isDraft t"
  "finished_ids (load_task env s t) = finished_ids t" "available_on d (load_task env s t) = available_on d t"
  "tsk_course (load_task env s t) = map_option (load_course env) (tsk_course t)"
  "tsk_lesson (load_task env s t) = map_option (load_lesson env s) (tsk_lesson t)"
  by (simp_all add: load_task_def isDraft_def finished_ids_def available_on_def)

lemma load_lesson_by_id: "eid l = eid r \<Longrightarrow> r \<in> set (tks_lessons s) \<Longrightarrow> distinct (map eid (tks_lessons s)) \<Longrightarrow>
    load_lesson env s l = load_lesson env s r"
  by (simp add: load_lesson_def find_row_distinct)

lemma overview_row:
  assumes coh: "coherent env s u" and courses: "set courses \<subseteq> set (getPermittedCourses env u a)"
    and lessons: "getPermittedLessons env u courses s = (Inr ls, s')" and row: "r \<in> set (tks_tasks s)"
    and query: "scope_query (list_scope (overview_ids u courses ls)
      \<lparr>tfi_afterDueDateOrNone = due, tfi_finished = Some (eid u, False), tfi_availableOn = Some (tke_now env)\<rparr>) r"
  shows "listed_task env u (load_task env s r)"
proof -
  have facts: "eid u \<noteq> []" "eid (tsk_creator r) = eid u \<Longrightarrow> oid (tsk_creator r) = oid u" "distinct (map eid (tks_lessons s))"
    using coh row by (auto simp: coherent_def list_all_iff)
  note q = listed_row [OF query facts(1)]
  from q consider "eid (tsk_creator r) = eid u"
    | c where "\<not> isDraft r" "tsk_course r = Some c" "eid c \<in> set (map eid courses)" "tsk_lesson r = None"
    | l where "\<not> isDraft r" "tsk_lesson r = Some l" "eid l \<in> set (map eid ls)"
    by blast
  then have "task_access u (load_task env s r) Read"
  proof cases
    case 1
    with facts(2) show ?thesis by (simp add: task_access_def same_object_def)
  next
    case 2
    then obtain c' where "c' \<in> set courses" "eid c = eid c'" by auto
    with courses permitted_course have c': "c' \<in> set (tke_courses env)" "course_access u c' Read"
      using course_read_by_id [OF coh] by blast+
    with 2 \<open>eid c = eid c'\<close> show ?thesis
      using loaded_course [OF coh c'(1)] by (simp add: task_access_def task_parent_access_def)
  next
    case 3
    then obtain l' where "l' \<in> set ls" "eid l = eid l'" by auto
    with permitted_lessons [OF coh lessons courses] obtain x where
      x: "x \<in> set (tks_lessons s)" "eid l = eid x" "lesson_access u (load_lesson env s x) Read" by metis
    from load_lesson_by_id [OF x(2,1) facts(3)] x(3) 3 show ?thesis
      by (simp add: task_access_def task_parent_access_def)
  qed
  with q show ?thesis
    by (simp add: listed_task_def service_permits task_rule.unconditional context_builder_defs)
qed

lemma with_status_task: "with_status t st = Inr vo \<Longrightarrow> tws_task vo = t"
  by (auto simp: with_status_def bindR_eq_Inr)

lemma getPermittedLessons_pure [simp]: "pureE (getPermittedLessons env u courses)"
  by (auto simp: getPermittedLessons_def Let_def findAllByCourseIds_def intro!: pureE_bind split: prod.split)

lemma findTasksAndCount_pure: "pureE (findTasksAndCount env query order skip limit)"
  by (simp add: findTasksAndCount_def)

lemma overview:
  assumes coh: "coherent env s u" and run: "bindE (getPermittedLessons env u courses) (\<lambda>lessons.
      bindE (findAllByParentIds env (overview_ids u courses lessons)
        \<lparr>tfi_afterDueDateOrNone = due, tfi_finished = Some (eid u, False), tfi_availableOn = Some (tke_now env)\<rparr>
        order skip limit) (\<lambda>(tasks, n).
      bindE (liftE (mapMR (\<lambda>t. with_status t (status t)) tasks)) (\<lambda>vos. retE (vos, n)))) s = (Inr (vos, m), s')"
    and courses: "set courses \<subseteq> set (getPermittedCourses env u a)"
  shows "s' = s \<and> list_all (\<lambda>vo. listed_task env u (tws_task vo)) vos"
proof -
  let ?filters = "\<lparr>tfi_afterDueDateOrNone = due, tfi_finished = Some (eid u, False), tfi_availableOn = Some (tke_now env)\<rparr>"
  from run obtain ls s1 where ls: "getPermittedLessons env u courses s = (Inr ls, s1)" and
    rest: "bindE (findAllByParentIds env (overview_ids u courses ls) ?filters order skip limit) (\<lambda>(tasks, n).
      bindE (liftE (mapMR (\<lambda>t. with_status t (status t)) tasks)) (\<lambda>vos. retE (vos, n))) s1 = (Inr (vos, m), s')"
    unfolding bindE_eq_Inr [of "getPermittedLessons env u courses"] by blast
  have "s1 = s" using pureE_state [OF getPermittedLessons_pure ls] .
  from rest [unfolded this findAllByParentIds_def] obtain x s2 where
    x: "findTasksAndCount env (scope_query (list_scope (overview_ids u courses ls) ?filters)) order skip limit s = (Inr x, s2)"
      "(case x of (tasks, n) \<Rightarrow> bindE (liftE (mapMR (\<lambda>t. with_status t (status t)) tasks)) (\<lambda>vos. retE (vos, n))) s2 =
       (Inr (vos, m), s')"
    unfolding bindE_eq_Inr [of "findTasksAndCount env _ order skip limit"] by blast
  obtain ts n where "x = (ts, n)" by (cases x)
  with x pureE_state [OF findTasksAndCount_pure x(1)] have
    ts: "findTasksAndCount env (scope_query (list_scope (overview_ids u courses ls) ?filters)) order skip limit s = (Inr (ts, n), s)" and
    vos: "mapMR (\<lambda>t. with_status t (status t)) ts = Inr vos" and s': "s' = s"
    by (auto simp: bindE_eq_Inr liftE_def retE_def)
  note ls = ls [unfolded \<open>s1 = s\<close>]
  have "listed_task env u t" if "t \<in> set ts" for t
    using found_tasks [OF ts that] overview_row [OF coh courses ls] by blast
  moreover have "tws_task vo \<in> set ts" if "vo \<in> set vos" for vo
    using vos that by (induction ts arbitrary: vos) (auto simp: bindR_eq_Inr dest: with_status_task)
  ultimately show ?thesis using s' by (simp add: list_all_iff)
qed

text \<open>
  C10. The overview of tasks of a user, as a student or as a teacher, changes nothing and lists only
  tasks that the rule of the authorization service lets the user read, that the user has not finished,
  and that are the user's own or published and available already.
\<close>

theorem overview_is_readable:
  assumes "uc_findAll env userId skip limit s = (Inr (vos, n), s')" and "tke_getUser env userId = Inr u"
    and "coherent env s u"
  shows "s' = s \<and> list_all (\<lambda>vo. listed_task env u (tws_task vo)) vos"
proof -
  have sub: "set (filter (\<lambda>c. \<not> Course_isFinished (tke_now env) c) (getPermittedCourses env u a)) \<subseteq>
      set (getPermittedCourses env u a)" for a by auto
  from assms(1,2) have "findAllForStudent env u skip limit s = (Inr (vos, n), s') \<or>
      findAllForTeacher env u skip limit s = (Inr (vos, n), s')"
    by (auto simp: uc_findAll_def getUserWithPermissions_def bindE_eq_Inr liftE_def throwE_def split: if_splits)
  then show ?thesis
    unfolding findAllForStudent_def findAllForTeacher_def Let_def
    by (elim disjE) (erule overview [OF assms(3) _ sub])+
qed

section \<open>What a request needs\<close>

definition task_row_ok :: "task_env \<Rightarrow> EntityId \<Rightarrow> task_state \<Rightarrow> EntityId \<Rightarrow> IPermissionContext \<Rightarrow> bool" where
  "task_row_ok env userId s i ctx \<longleftrightarrow>
     (\<exists>u t. tke_getUser env userId = Inr u \<and> find_row (tks_tasks s) i = Some t \<and>
        hasPermission (tke_auth env) u (SubjTask (load_task env s t)) ctx = Inr True)"

definition card_row_ok :: "task_env \<Rightarrow> EntityId \<Rightarrow> task_state \<Rightarrow> EntityId \<Rightarrow> IPermissionContext \<Rightarrow> bool" where
  "card_row_ok env userId s i ctx \<longleftrightarrow>
     (\<exists>u c. tke_getUser env userId = Inr u \<and> find_row (tks_cards s) i = Some c \<and>
        hasPermission (tke_auth env) u (SubjTaskCard (load_card env s c)) ctx = Inr True)"

fun task_permitted :: "task_env \<Rightarrow> EntityId \<Rightarrow> task_request + card_request \<Rightarrow> task_state \<Rightarrow> bool" where
  "task_permitted env userId (Inl (FinishTask i)) s \<longleftrightarrow> task_row_ok env userId s i (PermissionContextBuilder_read [])"
| "task_permitted env userId (Inl (RestoreTask i)) s \<longleftrightarrow> task_row_ok env userId s i (PermissionContextBuilder_read [])"
| "task_permitted env userId (Inl (RevertTask i)) s \<longleftrightarrow> task_row_ok env userId s i (PermissionContextBuilder_write [])"
| "task_permitted env userId (Inl (DeleteTask i)) s \<longleftrightarrow> task_row_ok env userId s i (PermissionContextBuilder_write [])"
| "task_permitted env userId (Inl (DeleteSubmission i)) s \<longleftrightarrow>
     (\<exists>u x. tke_getUser env userId = Inr u \<and> find_row (tks_submissions s) i = Some x \<and>
        hasPermission (tke_auth env) u (SubjSubmission (load_submission env s x))
          (PermissionContextBuilder_write [''SUBMISSIONS_EDIT'']) = Inr True)"
| "task_permitted env userId (Inl (DeleteLesson i)) s \<longleftrightarrow>
     (\<exists>u l. tke_getUser env userId = Inr u \<and> find_row (tks_lessons s) i = Some l \<and>
        hasPermission (tke_auth env) u (SubjLesson (load_lesson_entity env s l))
          (PermissionContextBuilder_write [''TOPIC_VIEW'']) = Inr True)"
| "task_permitted env userId (Inr (CreateCard params)) s \<longleftrightarrow> tke_FEATURE_TASK_CARD_ENABLED env \<and>
     (\<exists>u. tke_getUser env userId = Inr u \<and> hasAllPermissions (tke_auth env) u [''TASK_CARD_EDIT''] = Inr True \<and>
        hasAllPermissions (tke_auth env) u [''HOMEWORK_CREATE''] = Inr True \<and>
        (truthy (tcpa_courseId params) \<longrightarrow> (\<exists>c. writable_course env u (the (tcpa_courseId params)) = Inr c)))"
| "task_permitted env userId (Inr (FindCard i)) s \<longleftrightarrow> tke_FEATURE_TASK_CARD_ENABLED env \<and>
     card_row_ok env userId s i (PermissionContextBuilder_read [''TASK_CARD_VIEW''])"
| "task_permitted env userId (Inr (DeleteCard i)) s \<longleftrightarrow> tke_FEATURE_TASK_CARD_ENABLED env \<and>
     card_row_ok env userId s i (PermissionContextBuilder_write [''TASK_CARD_EDIT''])"
| "task_permitted env userId (Inr (UpdateCard i params)) s \<longleftrightarrow> tke_FEATURE_TASK_CARD_ENABLED env \<and>
     card_row_ok env userId s i (PermissionContextBuilder_write [''TASK_CARD_EDIT''])"

fun handle_task :: "task_env \<Rightarrow> EntityId \<Rightarrow> task_request + card_request \<Rightarrow> unit tasking" where
  "handle_task env userId (Inl request) = bindE (task_handler env userId request) (\<lambda>_. retE ())"
| "handle_task env userId (Inr request) = bindE (card_handler env userId request) (\<lambda>_. retE ())"

lemma pure_finds [simp]:
  "pureE (task_findById env i)" "pureE (card_findById env i)" "pureE (submission_findById env i)"
  "pureE (lesson_findById env i)"
  by (simp_all add: task_findById_def card_findById_def submission_findById_def lesson_findById_def)

lemma found_row: "row_or_fail t i = Inr e \<longleftrightarrow> find_row t i = Some e"
  by (simp add: row_or_fail_def split: option.split)

lemma checked: "checkPermission env u e ctx = Inr x \<longleftrightarrow> hasPermission env u e ctx = Inr True"
  by (auto simp: checkPermission_def bindR_eq_Inr guardR_eq_Inr)

lemmas found_defs = task_findById_def card_findById_def submission_findById_def lesson_findById_def queryE_def
  mapR_eq_Inr found_row getUserWithPermissions_def

lemma find_then_check:
  assumes "pureE found" and "\<And>u e. tke_getUser env userId = Inr u \<Longrightarrow> found s = (Inr e, s) \<Longrightarrow>
    hasPermission (tke_auth env) u (subj e) ctx = Inr True \<Longrightarrow> P"
  shows "gated s P (bindE (liftE (getUserWithPermissions (tke_getUser env) userId)) (\<lambda>u.
     bindE found (\<lambda>e. bindE (liftE (checkPermission (tke_auth env) u (subj e) ctx)) (\<lambda>x. f u e x))))"
  using assms
  by (intro gated_lift gated_pure gated_true) (auto simp: getUserWithPermissions_def checked)

lemma task_found: "tke_getUser env userId = Inr u \<Longrightarrow> task_findById env i s = (Inr e, s) \<Longrightarrow>
    hasPermission (tke_auth env) u (SubjTask e) ctx = Inr True \<Longrightarrow> task_row_ok env userId s i ctx"
  by (auto simp: task_row_ok_def found_defs)

lemmas task_then_check = find_then_check [where subj = SubjTask and found = "task_findById env i" for env i]

lemma task_use_cases_gated:
  "gated s (task_row_ok env userId s i (PermissionContextBuilder_read [])) (changeFinishedForUser env userId i b)"
  "gated s (task_row_ok env userId s i (PermissionContextBuilder_write [])) (revertPublished env userId i)"
  "gated s (task_row_ok env userId s i (PermissionContextBuilder_write [])) (uc_deleteTask env userId i)"
  unfolding changeFinishedForUser_def revertPublished_def uc_deleteTask_def
  by (rule task_then_check; auto intro: task_found)+

lemma find_card_then_check:
  assumes "\<And>u c. tke_getUser env userId = Inr u \<Longrightarrow> find_row (tks_cards s) i = Some c \<Longrightarrow>
    hasPermission (tke_auth env) u (SubjTaskCard (load_card env s c)) ctx = Inr True \<Longrightarrow> P"
  shows "gated s P (bindE (liftE (getUserWithPermissions (tke_getUser env) userId)) (\<lambda>u.
     bindE (card_findById env i) (\<lambda>c. bindE (liftE (hasPermission (tke_auth env) u (SubjTaskCard c) ctx)) (\<lambda>allowed.
     bindE (liftE (guardR allowed ForbiddenException)) (\<lambda>x. f u c x)))))"
  using assms
  by (intro gated_lift gated_pure gated_true) (auto simp: found_defs guardR_eq_Inr)

lemma create_task_gated:
  assumes "\<And>u. tke_getUser env userId = Inr u \<Longrightarrow> hasAllPermissions (tke_auth env) u [''HOMEWORK_CREATE''] = Inr True \<Longrightarrow> P"
  shows "gated s P (service_createTask env userId params)"
  unfolding service_createTask_def
  using assms by (intro gated_lift gated_pure gated_true) (auto simp: getUserWithPermissions_def guardR_eq_Inr)

lemma create_card_gated:
  assumes "\<And>u. tke_getUser env userId = Inr u \<Longrightarrow> hasAllPermissions (tke_auth env) u [''TASK_CARD_EDIT''] = Inr True \<Longrightarrow>
     hasAllPermissions (tke_auth env) u [''HOMEWORK_CREATE''] = Inr True \<Longrightarrow>
     (truthy (itc_courseId params) \<longrightarrow> (\<exists>c. writable_course env u (the (itc_courseId params)) = Inr c)) \<Longrightarrow> P"
  shows "gated s P (uc_createCard env userId params)"
  unfolding uc_createCard_def Let_def
proof (rule gated_lift, rule gated_lift, rule gated_lift, rule gated_pure)
  fix u allowed x
  show "pureE (if truthy (itc_courseId params)
      then bindE (liftE (writable_course env u (the (itc_courseId params)))) (\<lambda>c. retE (Some c)) else retE None)"
    by (auto intro!: pureE_bind)
next
  fix u allowed x parent
  assume u: "getUserWithPermissions (tke_getUser env) userId = Inr u"
    and a: "hasAllPermissions (tke_auth env) u [''TASK_CARD_EDIT''] = Inr allowed" "guardR allowed ForbiddenException = Inr x"
    and c: "(if truthy (itc_courseId params)
      then bindE (liftE (writable_course env u (the (itc_courseId params)))) (\<lambda>c. retE (Some c)) else retE None) s =
      (Inr parent, s)"
  from c have c': "truthy (itc_courseId params) \<longrightarrow> (\<exists>c. writable_course env u (the (itc_courseId params)) = Inr c)"
    by (auto simp: bindE_eq_Inr liftE_def)
  have "gated s P (card_createTask env userId params)"
    unfolding card_createTask_def
    using u a c' by (intro create_task_gated) (auto simp: getUserWithPermissions_def guardR_eq_Inr intro: assms)
  then show "gated s P (bindE (card_createTask env userId params) f)" for f :: "_ \<Rightarrow> (TaskCard \<times> TaskWithStatusVo) tasking"
    by (rule gated_first)
qed

lemma card_domain_course:
  "card_mapToDomain env params = Inr dto \<Longrightarrow> truthy (itc_courseId dto) = truthy (tcpa_courseId params) \<and>
     (truthy (tcpa_courseId params) \<longrightarrow> itc_courseId dto = tcpa_courseId params)"
  by (cases "tcpa_courseId params") (auto simp: card_mapToDomain_def truthy_def split: list.splits if_splits)

text \<open>
  C11. A request about tasks, submissions, lessons or task cards that succeeds or changes anything had
  the permission it needs on the row it is about, as the authorization service decides it for the user;
  for a card also the feature, and for a new card the permissions to create it and to write in its course.
\<close>

theorem task_requests_need_permission:
  assumes "snd (handle_task env userId request s) \<noteq> s \<or> (\<exists>x. fst (handle_task env userId request s) = Inr x)"
  shows "task_permitted env userId request s"
proof -
  have "gated s (task_permitted env userId request s) (handle_task env userId request)"
  proof (cases request)
    case (Inl r)
    show ?thesis
    proof (cases r)
      case (DeleteSubmission i)
      show ?thesis unfolding Inl DeleteSubmission
        unfolding task_handler.simps handle_task.simps uc_deleteSubmission_def
        by (intro gated_first find_then_check) (auto simp: found_defs)
    next
      case (DeleteLesson i)
      show ?thesis unfolding Inl DeleteLesson
        unfolding task_handler.simps handle_task.simps uc_deleteLesson_def
        by (intro gated_first find_then_check) (auto simp: found_defs)
    qed (simp_all add: Inl gated_first task_use_cases_gated)
  next
    case (Inr r)
    show ?thesis
    proof (cases r)
      case (CreateCard params)
      show ?thesis unfolding Inr CreateCard
        by (auto simp: card_featureEnabled_def guardR_eq_Inr card_domain_course
            intro!: gated_first gated_lift create_card_gated)
    qed (auto simp: Inr uc_findCard_def uc_deleteCard_def uc_updateCard_def card_row_ok_def card_featureEnabled_def
          guardR_eq_Inr intro!: gated_first gated_lift find_card_then_check)
  qed
  with assms show ?thesis by (simp add: gated_def)
qed

end
