(* ===== verification/TaskCardProperties.thy ===== *)
theory TaskCardProperties
  imports TaskListProperties
begin

text \<open>
  What the creation of a card and the move of a task leave behind, and the date that a card is due
  without one of its own; with a server on which the properties of tasks and cards are shown to apply.
\<close>

section \<open>A card that is refused\<close>

lemma saved_new_task:
  assumes "eid t = []" and "[] \<notin> set (map eid (tks_tasks s))"
  shows "task_save env t s = (Inr (t\<lparr>eid := tke_newId env (oid t)\<rparr>), s\<lparr>tks_tasks := tks_tasks s @ [t\<lparr>eid := tke_newId env (oid t)\<rparr>]\<rparr>)"
proof -
  have "find_row (tks_tasks s) [] = None" using assms(2) by (force simp: find_row_def find_None_iff)
  with assms(1) show ?thesis by (cases t) (simp add: task_save_def persist_row_def Let_def)
qed


text \<open>The course a card or a task is created in: one the user may write in, with its students, or none.\<close>

definition card_parent :: "task_env \<Rightarrow> user \<Rightarrow> EntityId option \<Rightarrow> course option \<Rightarrow> bool" where
  "card_parent env u courseId parent \<longleftrightarrow>
     (if truthy courseId
      then (\<exists>c. parent = Some c \<and> writable_course env u (the courseId) = Inr c \<and> crs_students c \<noteq> None)
      else parent = None)"

lemma fresh_task_status:
  assumes "tsk_submissions t = Some (coll_of [])" and "tsk_finished t = Some (coll_of [])" and "tsk_lesson t = None"
    and "card_parent env u courseId (tsk_course t)"
  shows "\<exists>st. createTeacherStatusForUser now t v = Inr st"
  using assms
  by (auto simp: createTeacherStatusForUser_def getSubmittedSubmissions_def getGradedSubmissions_def getSubmissionItems_def
      calculateNumberOfSubmitters_def getMaxSubmissions_def isFinishedForUser_def getFinishedUserIds_def mapR_def
      Course_getStudentIds_def card_parent_def split: if_splits)

definition fresh_task :: "user \<Rightarrow> course option \<Rightarrow> task \<Rightarrow> bool" where
  "fresh_task u parent t \<longleftrightarrow> tsk_taskCard t = None \<and> tsk_creator t = u \<and> isDraft t \<and> tsk_course t = parent \<and>
     tsk_lesson t = None \<and> tsk_submissions t = Some (coll_of []) \<and> tsk_finished t = Some (coll_of [])"

lemma created_plain_task:
  assumes "tke_getUser env userId = Inr u" and "hasAllPermissions (tke_auth env) u [''HOMEWORK_CREATE''] = Inr True"
    and "card_parent env u (itu_courseId params) parent" and "\<not> truthy (itu_lessonId params)"
    and "itu_availableDate params = None" and "[] \<notin> set (map eid (tks_tasks s))"
  shows "\<exists>t st. service_createTask env userId params s =
      (Inr \<lparr>tws_task = t, tws_status = st\<rparr>, s\<lparr>tks_fresh := Suc (tks_fresh s), tks_tasks := tks_tasks s @ [t]\<rparr>) \<and>
    tsk_name t = itu_name params \<and> fresh_task u parent t \<and> eid t = tke_newId env (tks_fresh s)"
proof -
  let ?new = "new_Task (tke_now env) (tks_fresh s)
    \<lparr>tp_name = itu_name params, tp_description = itu_description params,
     tp_descriptionInputFormat = itu_descriptionInputFormat params,
     tp_availableDate = itu_availableDate params, tp_dueDate = itu_dueDate params,
     tp_taskCard = itu_taskCard params, tp_course = parent, tp_lesson = None, tp_creator = u,
     tp_school = usr_school u, tp_finished = None, tp_private = None, tp_submissions = None,
     tp_publicSubmissions = None, tp_teamSubmissions = None\<rparr>"
  let ?t = "?new\<lparr>eid := tke_newId env (tks_fresh s)\<rparr>"
  have sel: "eid ?new = []" "oid ?new = tks_fresh s" by (simp_all add: new_Task_def)
  have "\<exists>st. createTeacherStatusForUser (tke_now env) ?t u = Inr st"
    by (rule fresh_task_status) (use assms(3) in \<open>simp_all add: new_Task_def\<close>)
  then obtain st where st: "createTeacherStatusForUser (tke_now env) ?t u = Inr st" by blast
  have saved: "task_save env ?new (s\<lparr>tks_fresh := Suc (tks_fresh s)\<rparr>) =
      (Inr ?t, s\<lparr>tks_fresh := Suc (tks_fresh s), tks_tasks := tks_tasks s @ [?t]\<rparr>)"
    using saved_new_task [OF sel(1), of "s\<lparr>tks_fresh := Suc (tks_fresh s)\<rparr>" env] assms(6) by (simp add: sel(2))
  have "(if truthy (itu_courseId params)
      then bindE (liftE (writable_course env u (the (itu_courseId params)))) (\<lambda>c. retE (Some c)) else retE None) s = (Inr parent, s)"
    using assms(3) by (auto simp: card_parent_def bindE_def liftE_def retE_def split: if_splits)
  then have "service_createTask env userId params s =
      (Inr \<lparr>tws_task = ?t, tws_status = st\<rparr>, s\<lparr>tks_fresh := Suc (tks_fresh s), tks_tasks := tks_tasks s @ [?t]\<rparr>)"
    using assms(1,2,4,5) st saved
    by (simp add: service_createTask_def getUserWithPermissions_def taskDateValidation_def guardR_def task_ref_def
        bindE_def [of "if truthy _ then _ else _"] bindE_def [of "task_save _ _"] bindE_def [of task_ref]
        retE_def liftE_def bindE_liftE_Inr with_status_def Let_def)
  moreover have "tsk_name ?t = itu_name params" "fresh_task u parent ?t"
    by (simp_all add: new_Task_def isDraft_def fresh_task_def)
  ultimately show ?thesis by (intro exI [of _ ?t] exI [of _ st]) simp
qed

lemma card_task_created:
  assumes "tke_getUser env userId = Inr u" and "hasAllPermissions (tke_auth env) u [''HOMEWORK_CREATE''] = Inr True"
    and "card_parent env u (itc_courseId params) parent" and "[] \<notin> set (map eid (tks_tasks s))"
  shows "\<exists>t st. card_createTask env userId params s =
      (Inr \<lparr>tws_task = t, tws_status = st\<rparr>, s\<lparr>tks_fresh := Suc (tks_fresh s), tks_tasks := tks_tasks s @ [t]\<rparr>) \<and>
    tsk_name t = itc_title params \<and> fresh_task u parent t \<and> eid t = tke_newId env (tks_fresh s)"
proof -
  let ?p = "\<lparr>itu_name = itc_title params, itu_description = None, itu_descriptionInputFormat = None,
    itu_availableDate = None, itu_dueDate = None, itu_taskCard = None,
    itu_courseId = (if truthy (itc_courseId params) then itc_courseId params else Some []), itu_lessonId = None\<rparr>"
  have parent: "card_parent env u (itu_courseId ?p) parent"
    using assms(3) by (cases "truthy (itc_courseId params)") (auto simp: card_parent_def truthy_def)
  have "\<not> truthy (itu_lessonId ?p)" "itu_availableDate ?p = None" by (simp_all add: truthy_def)
  from created_plain_task [OF assms(1,2) parent this assms(4)] show ?thesis
    by (simp only: card_createTask_def ITaskUpdate.simps)
qed

text \<open>The card that is made over its task, before its dates are checked.\<close>

definition planned_card :: "task_env \<Rightarrow> user \<Rightarrow> ITaskCardCRUD \<Rightarrow> course option \<Rightarrow> task \<Rightarrow> ref \<Rightarrow> TaskCard" where
  "planned_card env u params parent t r = new_TaskCard (tke_now env) r
     \<lparr>tcp_cardElements = card_elements params, tcp_cardType = CardType_Task, tcp_creator = u, tcp_draggable = True,
      tcp_visibleAtDate = nullish (itc_visibleAtDate params) (tke_now env), tcp_task = t,
      tcp_dueDate = nullish (itc_dueDate params) (getDefaultDueDate env u), tcp_course = parent\<rparr>"

lemma planned_card_sel [simp]:
  "eid (planned_card env u params parent t r) = []" "oid (planned_card env u params parent t r) = r"
  "tc_task (planned_card env u params parent t r) = t" "tc_course (planned_card env u params parent t r) = parent"
  "tc_visibleAtDate (planned_card env u params parent t r) = nullish (itc_visibleAtDate params) (tke_now env)"
  "tc_dueDate (planned_card env u params parent t r) = nullish (itc_dueDate params) (getDefaultDueDate env u)"
  by (simp_all add: planned_card_def new_TaskCard_def)

lemma saved_card_eid [simp]: "eid ((c :: TaskCard)\<lparr>eid := i, tc_task := t\<rparr>) = i"
  by (cases c) simp

lemma create_card_steps:
  assumes "tke_getUser env userId = Inr u" and "hasAllPermissions (tke_auth env) u [''TASK_CARD_EDIT''] = Inr True"
    and "card_parent env u (itc_courseId params) parent" and "card_createTask env userId params s = (Inr vo, s1)"
  shows "uc_createCard env userId params s =
    (let c = planned_card env u params parent (tws_task vo) (tks_fresh s1)
     in bindE (liftE (guardR (isVisibleBeforeDueDate c) (ValidationError ''Invalid date combination''))) (\<lambda>_.
        bindE (card_save env c) (\<lambda>c'. bindE (addTaskCardId env userId c') (\<lambda>vo'.
          retE (c'\<lparr>tc_task := tws_task vo'\<rparr>, vo\<lparr>tws_task := tws_task vo'\<rparr>)))) (s1\<lparr>tks_fresh := Suc (tks_fresh s1)\<rparr>))"
proof -
  have parent: "(if truthy (itc_courseId params)
      then bindE (liftE (writable_course env u (the (itc_courseId params)))) (\<lambda>c. retE (Some c)) else retE None) s = (Inr parent, s)"
    using assms(3) by (auto simp: card_parent_def bindE_def liftE_def retE_def split: if_splits)
  show ?thesis
    using assms(1,2,4) parent
    by (simp add: uc_createCard_def getUserWithPermissions_def guardR_def [of True] bindE_liftE_Inr Let_def
        bindE_def [of "if truthy _ then _ else _"] bindE_def [of "card_createTask _ _ _"] bindE_def [of task_ref]
        task_ref_def planned_card_def)
qed

text \<open>
  C27. A card whose dates do not fit, those given or the default ones, is refused after its task has
  been stored, in a course of the user or without one: the request fails, no card exists, and a new
  draft with the title of the card stays in that course.
\<close>

theorem refused_card_leaves_task:
  assumes "tke_getUser env userId = Inr u" and "hasAllPermissions (tke_auth env) u [''TASK_CARD_EDIT''] = Inr True"
    and "hasAllPermissions (tke_auth env) u [''HOMEWORK_CREATE''] = Inr True"
    and "card_parent env u (itc_courseId params) parent"
    and "nullish (itc_dueDate params) (getDefaultDueDate env u) \<le> nullish (itc_visibleAtDate params) (tke_now env)"
    and "[] \<notin> set (map eid (tks_tasks s))"
  shows "\<exists>t s'. uc_createCard env userId params s = (Inl (ValidationError ''Invalid date combination''), s') \<and>
    tks_tasks s' = tks_tasks s @ [t] \<and> tsk_name t = itc_title params \<and> tsk_taskCard t = None \<and> isDraft t \<and>
    tsk_creator t = u \<and> tsk_course t = parent \<and> tks_cards s' = tks_cards s"
proof -
  from card_task_created [OF assms(1,3,4,6)] obtain t st where
    run: "card_createTask env userId params s =
      (Inr \<lparr>tws_task = t, tws_status = st\<rparr>, s\<lparr>tks_fresh := Suc (tks_fresh s), tks_tasks := tks_tasks s @ [t]\<rparr>)"
    and t: "tsk_name t = itc_title params" "fresh_task u parent t" by blast
  have "uc_createCard env userId params s = (Inl (ValidationError ''Invalid date combination''),
      s\<lparr>tks_fresh := Suc (Suc (tks_fresh s)), tks_tasks := tks_tasks s @ [t]\<rparr>)"
    unfolding create_card_steps [OF assms(1,2,4) run]
    using assms(5) by (simp add: Let_def isVisibleBeforeDueDate_def guardR_def bindE_def liftE_def)
  with t show ?thesis by (simp add: fresh_task_def)
qed

section \<open>A card that is accepted\<close>










section \<open>A task that moves\<close>

lemma load_lesson_eid [simp]: "eid (load_lesson env s l) = eid l"
  by (auto simp: load_lesson_def Let_def dest: find_row_in split: option.split)

lemma load_course_eid [simp]: "eid (load_course env c) = eid c"
  by (auto simp: load_course_def dest: find_row_in split: option.split)




section \<open>The default date\<close>






end
