(* ===== verification/TaskSamples.thy ===== *)
theory TaskSamples
  imports TaskCardProperties
begin

text \<open>A server with a course, a lesson and a task, on which the properties of tasks apply.\<close>

definition ex_task_auth :: auth_env where
  "ex_task_auth =
     \<lparr>env_roles = (\<lambda>r. \<lparr>oid = r, eid = ''r'', ent_createdAt = 0, ent_updatedAt = 0, role_name = TEACHER,
        role_permissions = [''TASK_DASHBOARD_TEACHER_VIEW_V3'', ''TASK_CARD_EDIT'', ''HOMEWORK_CREATE'', ''HOMEWORK_EDIT''],
        role_roles = coll_of []\<rparr>), env_stack = 3\<rparr>"

lemma ex_task_allowed:
  "hasAllPermissions ex_task_auth ex_teacher [''TASK_DASHBOARD_VIEW_V3''] = Inr False"
  "hasAllPermissions ex_task_auth ex_teacher [''TASK_DASHBOARD_TEACHER_VIEW_V3''] = Inr True"
  "hasAllPermissions ex_task_auth ex_teacher [''TASK_CARD_EDIT''] = Inr True"
  "hasAllPermissions ex_task_auth ex_teacher [''HOMEWORK_CREATE''] = Inr True"
  "hasAllPermissions ex_task_auth ex_teacher [''HOMEWORK_EDIT''] = Inr True"
  by code_simp+

definition ex_other_course :: course where
  "ex_other_course = ex_course\<lparr>oid := 12, eid := ''other''\<rparr>"

definition ex_task_env :: task_env where
  "ex_task_env =
     \<lparr>tke_now = 5, tke_auth = ex_task_auth, tke_getUser = (\<lambda>_. Inr ex_teacher), tke_newId = (\<lambda>r. CHR ''n'' # nat_string r),
      tke_courses = [ex_copy_course, course.extend ex_other_course \<lparr>crs_courseGroups = coll_of []\<rparr>],
      tke_deleteFilesOfParent = (\<lambda>_. None), tke_sanitizeRichText = (\<lambda>x _. x), tke_localTime = id, tke_utc = id,
      tke_FEATURE_TASK_CARD_ENABLED = True\<rparr>"

definition ex_tasks :: task_state where
  "ex_tasks =
     \<lparr>tks_fresh = 100, tks_tasks = [(ex_task False [])\<lparr>tsk_lesson := Some (ex_lesson False)\<rparr>], tks_lessons = [ex_lesson False],
      tks_submissions = [], tks_cards = [], tks_deletedFiles = []\<rparr>"

lemma ex_task_env_sel [simp]:
  "tke_now ex_task_env = 5" "tke_auth ex_task_env = ex_task_auth" "tke_getUser ex_task_env i = Inr ex_teacher"
  "tke_localTime ex_task_env = id" "tke_utc ex_task_env = id"
  by (simp_all add: ex_task_env_def)

lemma ex_task_courses:
  "tke_courses ex_task_env = [ex_copy_course, course.extend ex_other_course \<lparr>crs_courseGroups = coll_of []\<rparr>]"
  by (simp add: ex_task_env_def)

lemma ex_tasks_sel [simp]:
  "tks_tasks ex_tasks = [(ex_task False [])\<lparr>tsk_lesson := Some (ex_lesson False)\<rparr>]" "tks_lessons ex_tasks = [ex_lesson False]"
  "tks_submissions ex_tasks = []" "tks_cards ex_tasks = []"
  by (simp_all add: ex_tasks_def)

lemma ex_task_coherent: "coherent ex_task_env ex_tasks ex_teacher"
  by (simp add: ex_task_courses coherent_def persons_of_def ex_copy_course_def ex_other_course_def course.defs)

abbreviation ex_card :: "date option \<Rightarrow> date option \<Rightarrow> ITaskCardCRUD" where
  "ex_card visible due \<equiv> \<lparr>itc_courseId = Some ''other'', itc_title = ''Title'', itc_text = None, itc_visibleAtDate = visible,
     itc_dueDate = due\<rparr>"

lemma ex_other_writable: "writable_course ex_task_env ex_teacher ''other'' = Inr ex_other_course"
  by (simp add: ex_task_courses writable_course_def course_findById_def row_or_fail_def find_row_def ex_copy_course_def ex_other_course_def
      course.defs checkPermission_def service_permits course_rule.unconditional ex_access_defs context_builder_defs
      guardR_def bindR_def)

lemma ex_card_parent: "card_parent ex_task_env ex_teacher (Some ''other'') (Some ex_other_course)"
  by (simp add: card_parent_def truthy_def ex_other_writable) (simp add: ex_other_course_def ex_course_def new_Course_def)

theorem refused_card_leaves_task_witness:
  "\<exists>t s'. uc_createCard ex_task_env ''teacher'' (ex_card (Some 9) (Some 8)) ex_tasks =
      (Inl (ValidationError ''Invalid date combination''), s') \<and>
     tks_tasks s' = tks_tasks ex_tasks @ [t] \<and> tsk_name t = ''Title'' \<and> tsk_course t = Some ex_other_course \<and> tks_cards s' = []"
  using refused_card_leaves_task [of ex_task_env "''teacher''" ex_teacher "ex_card (Some 9) (Some 8)" "Some ex_other_course" ex_tasks]
  by (auto simp: ex_task_allowed ex_card_parent)


section \<open>Reading and changing the task\<close>

abbreviation ex_row :: task where
  "ex_row \<equiv> (ex_task False [])\<lparr>tsk_lesson := Some (ex_lesson False)\<rparr>"

definition ex_loaded :: task where
  "ex_loaded = load_task ex_task_env ex_tasks ex_row"

lemma ex_lesson_load: "load_lesson ex_task_env ex_tasks (ex_lesson False) = ex_lesson False"
  by (simp add: ex_task_courses load_lesson_def find_row_def ex_lesson_def new_Lesson_def load_course_def ex_copy_course_def course.defs Let_def)

lemma ex_loaded_sel [simp]:
  "tsk_creator ex_loaded = ex_teacher" "tsk_lesson ex_loaded = Some (ex_lesson False)" "tsk_submissions ex_loaded = Some (coll_of [])"
  "tsk_finished ex_loaded = Some (coll_of [])" "eid ex_loaded = ''task''" "isDraft ex_loaded = False"
  "map_option eid (tsk_course ex_loaded) = Some ''course''"
  by (simp_all add: ex_loaded_def load_task_def ex_lesson_load submissions_of_def isDraft_def ex_task_def new_Task_def)

lemma ex_loaded_found: "task_findById ex_task_env ''task'' ex_tasks = (Inr ex_loaded, ex_tasks)"
  by (simp add: task_findById_def queryE_def row_or_fail_def find_row_def ex_loaded_def mapR_def)

lemma ex_task_permitted:
  "hasPermission ex_task_auth ex_teacher (SubjTask ex_loaded) (PermissionContextBuilder_write []) = Inr True"
  "hasPermission ex_task_auth ex_teacher (SubjTask ex_loaded) (PermissionContextBuilder_write [''HOMEWORK_EDIT'']) = Inr True"
  using ex_task_allowed
  by (simp_all add: service_permits task_rule.unconditional task_rule.permitted_iff task_access_def same_object_def
      context_builder_defs)

text \<open>The status of a task whose submissions are loaded, in a lesson of the course, can be told.\<close>

lemma ex_status:
  assumes "tsk_submissions t = Some (coll_of [])" and "tsk_finished t = Some (coll_of [])" and "tsk_lesson t = Some (ex_lesson False)"
  shows "\<exists>st. createTeacherStatusForUser now t u = Inr st"
  using assms
  by (simp add: createTeacherStatusForUser_def getSubmittedSubmissions_def getGradedSubmissions_def getSubmissionItems_def
      calculateNumberOfSubmitters_def getMaxSubmissions_def isFinishedForUser_def getFinishedUserIds_def mapR_def
      Lesson_getStudentIds_def Course_getStudentIds_def ex_lesson_def new_Lesson_def)

lemma ex_save_returns: "\<exists>t' s'. task_save env t s = (Inr t', s') \<and> tsk_submissions t' = tsk_submissions t \<and>
    tsk_finished t' = tsk_finished t \<and> tsk_lesson t' = tsk_lesson t"
  by (simp add: task_save_def split: prod.split)

theorem task_requests_need_permission_witness:
  "task_permitted ex_task_env ''teacher'' (Inl (RevertTask ''task'')) ex_tasks"
proof (rule task_requests_need_permission)
  obtain t' s' where t': "task_save ex_task_env (Task_unpublish ex_loaded) ex_tasks = (Inr t', s')"
    "tsk_submissions t' = Some (coll_of [])" "tsk_finished t' = Some (coll_of [])" "tsk_lesson t' = Some (ex_lesson False)"
    using ex_save_returns [of ex_task_env "Task_unpublish ex_loaded" ex_tasks] by (auto simp: Task_unpublish_def)
  from ex_status [OF t'(2-4)] obtain st where "createTeacherStatusForUser 5 t' ex_teacher = Inr st" by blast
  then have "revertPublished ex_task_env ''teacher'' ''task'' ex_tasks = (Inr \<lparr>tws_task = t', tws_status = st\<rparr>, s')"
    using ex_task_permitted(1) t'(1)
    by (simp add: revertPublished_def getUserWithPermissions_def bindE_def liftE_def ex_loaded_found checkPermission_def
        guardR_def with_status_def)
  then show "snd (handle_task ex_task_env ''teacher'' (Inl (RevertTask ''task'')) ex_tasks) \<noteq> ex_tasks \<or>
      (\<exists>x. fst (handle_task ex_task_env ''teacher'' (Inl (RevertTask ''task'')) ex_tasks) = Inr x)"
    by (simp add: bindE_def retE_def)
qed



section \<open>The overview of the teacher\<close>

lemma ex_other_sel [simp]: "eid ex_other_course = ''other''" "oid ex_other_course = 12" "crs_untilDate ex_other_course = None"
  "crs_teachers ex_other_course = coll_of [ex_teacher]"
  by (simp_all add: ex_other_course_def)

lemma ex_courses: "getPermittedCourses ex_task_env ex_teacher Write = tke_courses ex_task_env"
  by (simp add: ex_task_courses getPermittedCourses_def findAllForTeacherOrSubstituteTeacher_def find_courses_def page_of_def Let_def
      forTeacherOrSubstituteTeacher_def scope_query_def new_Scope_def addQuery_def is_teacher_id_def collection_has_def
      coll_ids_def ex_copy_course_def course.defs)

lemma ex_open: "filter (\<lambda>c. \<not> Course_isFinished 5 c) (tke_courses ex_task_env) = tke_courses ex_task_env"
  by (simp add: ex_task_courses Course_isFinished_def ex_copy_course_def course.defs)

lemma filterR_all: "(\<And>x. x \<in> set xs \<Longrightarrow> f x = Inr True) \<Longrightarrow> filterR f xs = Inr xs"
  by (induction xs) (simp_all add: mapR_def)

lemma ex_lessons: "\<exists>ls. getPermittedLessons ex_task_env ex_teacher (tke_courses ex_task_env) ex_tasks = (Inr ls, ex_tasks) \<and>
    map eid ls = [''lesson'']"
proof -
  have teaches: "hasPermission ex_task_auth ex_teacher (SubjCourse (course.truncate c)) (PermissionContextBuilder_write []) = Inr True"
    if "c \<in> set (tke_courses ex_task_env)" for c
    using that by (auto simp: ex_task_courses service_permits course_rule.unconditional ex_access_defs context_builder_defs ex_copy_course_def course.defs)
  then have ws: "filterR (\<lambda>c. hasPermission ex_task_auth ex_teacher (SubjCourse (course.truncate c)) (PermissionContextBuilder_write []))
      (tke_courses ex_task_env) = Inr (tke_courses ex_task_env)"
    by (rule filterR_all)
  have "filter (\<lambda>c. \<not> list_ex (same_object c) (tke_courses ex_task_env)) (tke_courses ex_task_env) = []"
    by (simp add: ex_task_courses same_object_def)
  moreover have "findAllByCourseIds ex_task_env (map eid (tke_courses ex_task_env)) None ex_tasks =
      (Inr ([load_lesson_entity ex_task_env ex_tasks (ex_lesson False)], 1), ex_tasks)"
    by (simp add: ex_task_courses findAllByCourseIds_def queryE_def lesson_byCourseIds_def scope_query_def new_Scope_def addQuery_def
        ex_lesson_def new_Lesson_def ex_copy_course_def course.defs Let_def)
  moreover have "findAllByCourseIds ex_task_env [] (Some False) ex_tasks = (Inr ([], 0), ex_tasks)"
    by (simp add: findAllByCourseIds_def queryE_def lesson_byCourseIds_def byHidden_def scope_query_def new_Scope_def addQuery_def
        ex_lesson_def new_Lesson_def Let_def)
  ultimately have "getPermittedLessons ex_task_env ex_teacher (tke_courses ex_task_env) ex_tasks =
      (Inr [load_lesson_entity ex_task_env ex_tasks (ex_lesson False)], ex_tasks)"
    unfolding getPermittedLessons_def Let_def ex_task_env_sel(2) ws bindE_liftE_Inr
    by (simp add: bindE_def retE_def)
  moreover have "eid (load_lesson_entity ex_task_env ex_tasks (ex_lesson False)) = ''lesson''"
    by (simp add: load_lesson_entity_def ex_lesson_load lesson.defs ex_lesson_def new_Lesson_def)
  ultimately show ?thesis by simp
qed

lemma ex_found: "findAllByParentIds ex_task_env
    \<lparr>tpi_creatorId = Some ''teacher'', tpi_courseIds = Some ids, tpi_lessonIds = Some [''lesson'']\<rparr>
    \<lparr>tfi_afterDueDateOrNone = None, tfi_finished = Some (''teacher'', False), tfi_availableOn = Some 5\<rparr>
    (Some SortDesc) None None ex_tasks = (Inr ([ex_loaded], 1), ex_tasks)"
proof -
  have "scope_query (list_scope \<lparr>tpi_creatorId = Some ''teacher'', tpi_courseIds = Some ids, tpi_lessonIds = Some [''lesson'']\<rparr>
    \<lparr>tfi_afterDueDateOrNone = None, tfi_finished = Some (''teacher'', False), tfi_availableOn = Some 5\<rparr>) ex_row"
    by (simp add: list_scope_def parents_scope_def truthy_def scope_query_def new_Scope_def addQuery_def Let_def
      byFinished_def excludeDraftsOfOthers_def getByDraftForCreatorQuery_def getByDraftQuery_def
      excludeUnavailableOfOthers_def byOnlyCreatorId_def byCourseIds_def byLessonIds_def finished_ids_def coll_ids_def
      ex_task_def new_Task_def ex_lesson_def new_Lesson_def)
  then show ?thesis
    by (simp add: findAllByParentIds_def findTasksAndCount_def queryE_def Let_def sort_tasks_def page_of_def ex_loaded_def)
qed

theorem overview_is_readable_witness:
  "\<exists>vo. uc_findAll ex_task_env ''teacher'' None None ex_tasks = (Inr ([vo], 1), ex_tasks) \<and>
     listed_task ex_task_env ex_teacher (tws_task vo)"
proof -
  obtain st where st: "createTeacherStatusForUser 5 ex_loaded ex_teacher = Inr st" using ex_status [of ex_loaded] by auto
  from ex_lessons obtain ls where
    ls: "getPermittedLessons ex_task_env ex_teacher (tke_courses ex_task_env) ex_tasks = (Inr ls, ex_tasks)" "map eid ls = [''lesson'']"
    by (elim exE conjE)
  have "findAllForTeacher ex_task_env ex_teacher None None ex_tasks = (Inr ([\<lparr>tws_task = ex_loaded, tws_status = st\<rparr>], 1), ex_tasks)"
    unfolding findAllForTeacher_def ex_courses ex_task_env_sel(1) ex_open Let_def
      bindE_Inr [where m = "getPermittedLessons _ _ _", OF ls(1)] ls(2) ex_user_sel
      bindE_Inr [where m = "findAllByParentIds _ _ _ _ _ _", OF ex_found]
    by (simp add: st with_status_def retE_def)
  then have run: "uc_findAll ex_task_env ''teacher'' None None ex_tasks =
      (Inr ([\<lparr>tws_task = ex_loaded, tws_status = st\<rparr>], 1), ex_tasks)"
    by (simp add: uc_findAll_def getUserWithPermissions_def ex_task_allowed)
  from overview_is_readable [OF run _ ex_task_coherent] run show ?thesis by auto
qed

end
