(* ===== verification/Spec2Isabelle.thy ===== *)
theory Spec2Isabelle
  imports AuthProperties TaskProperties RoomProperties DashboardProperties FilesStorageAccess
    ColumnBoardStore CopyAccess ToolSamples MigrationSamples SharingProperties TaskSamples
begin

text \<open>
  The server of the HPI school cloud (\<^verbatim>\<open>src/apps/server\<close>, NestJS in TypeScript): who may do what
  with the courses, lessons, tasks, submissions and files of a school, and what the operations on
  them do. Paths below are relative to \<^verbatim>\<open>src/apps/server/src\<close>.

  \<^bold>\<open>How the program is read.\<close> An entity of the ORM is a record that extends \<open>entity\<close> of theory
  Prelude, with an object reference \<open>oid\<close> (what \<^verbatim>\<open>===\<close> compares) and the string \<open>eid\<close> of its database
  id (what \<^verbatim>\<open>.id\<close> compares). A collection of the ORM may be loaded or not; reading one that is not
  fails, as it does in the code. An exception is a value of \<open>exn\<close>, and a function that can throw
  returns \<open>exn + 'a\<close>. \<^verbatim>\<open>new Date()\<close> is an argument \<open>now\<close>. Repositories, the object storage, the
  message broker and the services of the older FeathersJS application are not part of the code:
  they are arguments. A class method is a function of its object that returns the changed object.

  \<^bold>\<open>The theories.\<close>
  \<^item> Prelude: results, ids, collections of the ORM, JavaScript's nullish values and truthiness.
    JsMap: the insertion-ordered \<^verbatim>\<open>Map\<close>, with its laws as the locale \<open>finite_map\<close>. Effects: state
    and exceptions together (\<open>eff\<close>), sequencing, \<^verbatim>\<open>try\<close>/\<^verbatim>\<open>catch\<close>, and the judgement \<open>runs I m Q\<close> that
    composes invariants; number and file name strings.
  \<^item> Users, Learnroom, Tasks (\<^verbatim>\<open>shared/domain/entity\<close>): roles, schools, users, teams; courses, course
    groups, lessons, materials and submissions; tasks and task cards. One record per class, one
    function per constructor and method. TaskProperties: what the status functions count, and
    that publishing, finishing and restoring do what they say.
  \<^item> Permissions (\<^verbatim>\<open>shared/domain/rules/authorisation.utils.ts\<close>, \<^verbatim>\<open>service/permission.service.ts\<close>):
    the resolution of permissions over nested roles. Roles are shared and may be cyclic, so they
    live in a heap; the recursion is bounded by the size of the JavaScript call stack, a parameter,
    and running out of it is the \<^verbatim>\<open>RangeError\<close> of the code.
  \<^item> Rules (\<^verbatim>\<open>shared/domain/rules/*.rule.ts\<close>) and Authorization (\<^verbatim>\<open>base-permission-manager.ts\<close>,
    \<^verbatim>\<open>select-strategies.ts\<close>, \<^verbatim>\<open>modules/authorization\<close>): the ten rules, the choice of a rule, the
    service, the reference loader, and the bridge to the older application. RuleFacts: what each
    rule decides, as an access specification (\<open>course_access\<close>, \<open>lesson_access\<close>, \<open>task_access\<close>).
    AuthProperties: the rules implement that specification, and what follows from it.
  \<^item> Board (\<^verbatim>\<open>board.entity.ts\<close>, \<^verbatim>\<open>boardelement.entity.ts\<close>), Rooms and RoomProperties
    (\<^verbatim>\<open>modules/learnroom/uc/rooms.uc.ts\<close>, \<^verbatim>\<open>rooms.authorisation.service.ts\<close>,
    \<^verbatim>\<open>room-board-dto.factory.ts\<close>, the response mapper): the board of a course, its synchronisation
    with tasks and lessons (locale \<open>board_sync\<close>, interpreted for both), and its view for a user.
  \<^item> Dashboard and DashboardProperties (\<^verbatim>\<open>dashboard.entity.ts\<close>, \<^verbatim>\<open>modules/learnroom/uc/dashboard.uc.ts\<close>):
    the grid of a user; its cells are an insertion-ordered map from indices. The search for a free
    cell terminates by the number of occupied cells ahead.
  \<^item> FilesStorage, FilesStorageService (\<^verbatim>\<open>modules/files-storage\<close>, \<^verbatim>\<open>shared/infra/antivirus\<close>): file
    records, helpers, repository, storage client, service and use cases. The state \<open>fs_state\<close> holds
    the records, the objects in the bucket and the published scan requests; \<open>fs_env\<close> says which of
    the external calls fail, by their number. A request, or a message of the broker to the consumer of
    the module, is a value of \<open>fs_command\<close>; \<open>fs_step\<close> and
    \<open>fs_reachable\<close> are the histories of requests. FilesStorageProperties, FilesStorageInvariant,
    FilesStorageAccess: the rollback of a failed upload, the invariant of every reachable state,
    and what a request may change and needs for it. The search for a free file name terminates by
    the number of taken candidates ahead.
  \<^item> ColumnBoard (\<^verbatim>\<open>shared/domain/entity/boardnode\<close>, \<^verbatim>\<open>domainobject/board\<close>, \<^verbatim>\<open>modules/board\<close>): nodes with
    their materialised paths, the builder that makes a tree of domain objects of them, repositories
    and services. The builder recurses at most by the depth that the types of nodes allow.
    ColumnBoardProperties: paths and ancestors, and when the builder succeeds. ColumnBoardStore: a
    board stored as nodes is read back as it was.
  \<^item> CopyHelper, CopyFiles, CopyServices, CopyUseCases (\<^verbatim>\<open>modules/copy-helper\<close>, the copy services of
    \<^verbatim>\<open>modules/task\<close>, \<^verbatim>\<open>modules/lesson\<close>, \<^verbatim>\<open>modules/learnroom\<close>, and \<^verbatim>\<open>modules/files-storage-client\<close>): the
    copies of tasks, lessons, boards and courses with their tree of statuses. The state holds the
    counter for new entities and the log of saves; \<open>copy_env\<close> is what the copies call. The search for
    a free name terminates by the number of taken names ahead; numbers in names are exact, as they
    are in JavaScript up to 2^53. CopyProperties and CopyAccess: what a copy is, what its status says,
    which permissions it needs and that a permitted copy of a course completes.
  \<^item> ToolData, ToolRepo (\<^verbatim>\<open>external-tools\<close>, \<^verbatim>\<open>external-tool\<close> and \<^verbatim>\<open>base.do.repo.ts\<close> of \<^verbatim>\<open>shared\<close>): external tools
    and the generic repository of domain objects, with its contract as the locale \<open>stores_content\<close>.
    ToolServices, ToolValidation, ToolUseCases (\<^verbatim>\<open>modules/tool\<close>): the versions of tools, their services,
    the validation of tools and of their configurations, and the use cases. \<open>tool_state\<close> holds the
    three tables and the requests sent to the OAuth provider; the provider, the encryption and the
    compiler of regular expressions are fields of \<open>tool_env\<close>. A request is a value of \<open>tool_request\<close>,
    and \<open>serve\<close> answers it. Names are compared in lower case as Latin-1. ToolProperties: permissions,
    valid configurations, secrets; ToolInvariant: the tables after any requests; ToolVersions: what
    a kept version promises, and the tools that are available; ToolSamples: a state with three
    tools, on which their witnesses are evaluated.
  \<^item> JsStrings: lower case, trimming, numbers and the pattern of passwords. Systems (\<^verbatim>\<open>system.entity.ts\<close>,
    \<^verbatim>\<open>modules/system\<close>): the systems of a login, and that their public list shows no secret. PeopleData,
    PeopleRepos (\<^verbatim>\<open>account.entity.ts\<close>, \<^verbatim>\<open>import-user.entity.ts\<close>, \<^verbatim>\<open>shared/repo\<close>): the state \<open>people_state\<close>
    with the tables of users, schools, accounts and users to be imported, and the repositories over
    it; \<open>people_env\<close> has the time, new ids, failing writes, bcrypt, the identity management and the
    configuration. A domain object that is saved over a row leaves what the constructor of the
    entity does not assign. AccountServices, AccountUseCases (\<^verbatim>\<open>modules/account\<close>): accounts in the
    database and in the identity management, their validation and the requests to them.
    Authentication (\<^verbatim>\<open>modules/authentication\<close>): the strategies of the login. AccountProperties: who may
    change which rows, what becomes of passwords, blocked logins and names in use. PeopleSamples: a
    school with an administrator and a student.
  \<^item> UserServices, LoginMigration (\<^verbatim>\<open>modules/user\<close>, \<^verbatim>\<open>modules/school\<close>, \<^verbatim>\<open>modules/user-login-migration\<close>): the
    services of users, roles and schools, and the migration of schools and of their users to another
    login, with its rollback. Provisioning, OauthLogin (\<^verbatim>\<open>modules/provisioning\<close>, \<^verbatim>\<open>modules/oauth\<close>): what
    another system tells of a user and a school, what is stored of it, and the login by a code that is
    exchanged for tokens; the requests, the check of signatures and the hashes are fields of
    \<open>oauth_env\<close> and \<open>provisioning_env\<close>. UserImport (\<^verbatim>\<open>modules/user-import\<close>): the users to be imported,
    their matches, and the modes of a school; an \<open>ImportRequest\<close> is a request to its controller. What
    the code starts there without awaiting it runs after the first flush. PeopleFacts: the rows after
    several saves. MigrationProperties, LoginProperties, ImportProperties: migrations are complete or
    undone, a login needs a verified token, an import needs permissions, matches nobody twice and
    moves the school along the automaton \<open>next_mode\<close>. MigrationSamples: their witnesses.
  \<^item> Sharing (\<^verbatim>\<open>modules/sharing\<close>): the tokens of shared courses, lessons and tasks, made, looked up and
    imported by the copy services; \<open>sharing_state\<close> holds the table of tokens and the state of the copies.
    SharingProperties: what a request to its controller needs (\<open>share_permitted\<close>), that a token leads to
    what was shared until it expires, and that an import does not look at its destination.
  \<^item> TaskRepos, TaskUseCases, TaskCards (\<^verbatim>\<open>shared/repo/{course,lesson,task,submission,card}\<close>, the services,
    use cases, mappers and controllers of \<^verbatim>\<open>modules/task\<close>, \<^verbatim>\<open>modules/lesson\<close> and \<^verbatim>\<open>modules/task-card\<close>): the
    lists of tasks, and the changes to tasks, submissions, lessons and cards. \<open>task_state\<close> holds their
    tables and the requests to delete files; a row is loaded with what it refers to, as \<open>populate\<close>
    does. A query is a predicate on rows, built by the scopes as the code builds them. Dates are
    milliseconds since 1970, years those of the Gregorian calendar, in the time zone of the server. The
    course of a course group is taken as the object of its row, which the ORM shares in a request. TaskListProperties: the overview
    lists nothing that the rule of tasks forbids, and every request needs its permission
    (\<open>task_permitted\<close>). TaskCardProperties: what refused cards and moved tasks leave behind, that a card
    without dates is accepted, and when it is due. TaskSamples: their witnesses.
  \<^item> Samples: a school with a teacher and a student, on which the witnesses evaluate the code.

  \<^bold>\<open>Left out.\<close> Pagination, HTTP and multipart parsing, streaming of contents, the creation of a
  missing bucket, and logging. What the code starts in parallel runs in its order. The other modules
  of the server (news, the OAuth provider, video conferences, the synchronisation with chats and
  collaborative storage) and the older application in JavaScript are not modelled.
\<close>

end
